(* ===== verification/Prelude.thy ===== *)
theory Prelude
  imports Main
begin

text \<open>
  Shared vocabulary of the development: the representation of Python strings as lists of
  Unicode code points, the few \<open>str\<close> methods the program uses, rows kept in lists and
  updated by key, decimal printing for f-strings, and the collections of facts the component
  proofs extend.

  Fixed ASCII text (status codes, reason codes, file names the server generates) is HOL
  \<open>string\<close>; text that comes from documents, reviewers or providers is \<open>ustr\<close>, one
  natural number per code point, so that lengths and slices count what Python counts.
\<close>

named_theorems frame_simps \<open>which fields and rows an operation leaves alone\<close>
named_theorems outcome_intros \<open>conclusions about the result of a handler\<close>

section \<open>Text\<close>

type_synonym ustr = "nat list"
type_synonym bytes = "nat list"
type_synonym uuid = nat
type_synonym time = int

definition uni :: "string \<Rightarrow> ustr" where
  "uni s = map of_char s"

lemma length_uni [simp]: "length (uni s) = length s"
  by (simp add: uni_def)

lemma uni_simps [simp]: "uni [] = []" "uni (c # s) = of_char c # uni s"
  by (simp_all add: uni_def)

lemma uni_append [simp]: "uni (s @ t) = uni s @ uni t"
  by (simp add: uni_def)

text \<open>The code points for which \<open>str.isspace\<close> holds; \<open>str.strip\<close> removes exactly these.\<close>

definition is_space :: "nat \<Rightarrow> bool" where
  "is_space c \<longleftrightarrow> (9 \<le> c \<and> c \<le> 13) \<or> (28 \<le> c \<and> c \<le> 32) \<or> c = 133 \<or> c = 160 \<or> c = 5760
     \<or> (8192 \<le> c \<and> c \<le> 8202) \<or> c = 8232 \<or> c = 8233 \<or> c = 8239 \<or> c = 8287 \<or> c = 12288"

definition lstrip :: "ustr \<Rightarrow> ustr" where
  "lstrip s = dropWhile is_space s"

definition rstrip :: "ustr \<Rightarrow> ustr" where
  "rstrip s = rev (dropWhile is_space (rev s))"

definition strip :: "ustr \<Rightarrow> ustr" where
  "strip s = rstrip (lstrip s)"

text \<open>Python slices \<open>s[a:b]\<close> for \<open>0 \<le> a \<le> b\<close>.\<close>

definition slice :: "'a list \<Rightarrow> nat \<Rightarrow> nat \<Rightarrow> 'a list" where
  "slice s a b = drop a (take b s)"

lemma length_slice [simp]: "length (slice s a b) = min b (length s) - a"
  by (simp add: slice_def min.commute)

lemma slice_subset: "set (slice s a b) \<subseteq> set s"
  unfolding slice_def by (meson set_drop_subset set_take_subset subset_trans)

lemma rstrip_prefix: "\<exists>t. s = rstrip s @ t"
proof
  have "rev s = takeWhile is_space (rev s) @ dropWhile is_space (rev s)"
    by simp
  then have "s = rev (dropWhile is_space (rev s)) @ rev (takeWhile is_space (rev s))"
    by (metis rev_append rev_rev_ident)
  then show "s = rstrip s @ rev (takeWhile is_space (rev s))"
    by (simp add: rstrip_def)
qed

lemma rstrip_length: "length (rstrip s) \<le> length s"
  by (metis le_add1 length_append rstrip_prefix)

lemma strip_length: "length (strip s) \<le> length s"
  unfolding strip_def lstrip_def
  by (meson dual_order.trans length_dropWhile_le rstrip_length)

lemma rstrip_last: "rstrip s \<noteq> [] \<Longrightarrow> \<not> is_space (last (rstrip s))"
  unfolding rstrip_def by (simp add: last_rev hd_dropWhile)

lemma rstrip_nonspace_last: "s \<noteq> [] \<Longrightarrow> \<not> is_space (last s) \<Longrightarrow> rstrip s = s"
  unfolding rstrip_def by (cases s rule: rev_cases) auto

lemma rstrip_idem [simp]: "rstrip (rstrip s) = rstrip s"
  by (metis rstrip_last rstrip_nonspace_last rstrip_def dropWhile.simps(1) rev.simps(1))

lemma rstrip_hd: "rstrip s \<noteq> [] \<Longrightarrow> hd (rstrip s) = hd s"
  by (metis hd_append2 rstrip_prefix)

lemma lstrip_hd: "lstrip s \<noteq> [] \<Longrightarrow> \<not> is_space (hd (lstrip s))"
  unfolding lstrip_def by (rule hd_dropWhile)

lemma lstrip_nonspace_hd: "s \<noteq> [] \<Longrightarrow> \<not> is_space (hd s) \<Longrightarrow> lstrip s = s"
  unfolding lstrip_def by (cases s) auto

lemma strip_idem [simp]: "strip (strip s) = strip s"
proof (cases "strip s = []")
  case True
  have "strip [] = []" by (simp add: strip_def lstrip_def rstrip_def)
  then show ?thesis by (simp only: True)
next
  case False
  then have r: "rstrip (lstrip s) \<noteq> []" by (simp add: strip_def)
  then have "lstrip s \<noteq> []" by (auto simp: rstrip_def)
  then have "\<not> is_space (hd (rstrip (lstrip s)))"
    using r by (simp add: rstrip_hd lstrip_hd)
  then have "lstrip (rstrip (lstrip s)) = rstrip (lstrip s)"
    using r by (simp add: lstrip_nonspace_hd)
  then show ?thesis by (simp add: strip_def)
qed

text \<open>\<open>str.startswith\<close>, \<open>str.endswith\<close> and the \<open>in\<close> of strings and bytes.\<close>

definition starts_with :: "'a list \<Rightarrow> 'a list \<Rightarrow> bool" where
  "starts_with p s \<longleftrightarrow> take (length p) s = p"

definition ends_with :: "'a list \<Rightarrow> 'a list \<Rightarrow> bool" where
  "ends_with q s \<longleftrightarrow> length q \<le> length s \<and> drop (length s - length q) s = q"

fun contains :: "'a list \<Rightarrow> 'a list \<Rightarrow> bool" where
  "contains q [] = (q = [])"
| "contains q (x # xs) = (starts_with q (x # xs) \<or> contains q xs)"

lemma contains_iff: "contains q s \<longleftrightarrow> (\<exists>i. i + length q \<le> length s \<and> take (length q) (drop i s) = q)"
proof (induction s)
  case Nil
  then show ?case by auto
next
  case (Cons x xs)
  show ?case
  proof
    assume "contains q (x # xs)"
    then consider "starts_with q (x # xs)" | "contains q xs" by auto
    then show "\<exists>i. i + length q \<le> length (x # xs) \<and> take (length q) (drop i (x # xs)) = q"
    proof cases
      case 1
      then have "take (length q) (x # xs) = q" by (simp add: starts_with_def)
      then show ?thesis by (intro exI [of _ 0]) (metis add_0 drop0 length_take min.cobounded1)
    next
      case 2
      then obtain i where "i + length q \<le> length xs" "take (length q) (drop i xs) = q"
        using Cons by blast
      then show ?thesis by (intro exI [of _ "Suc i"]) simp
    qed
  next
    assume "\<exists>i. i + length q \<le> length (x # xs) \<and> take (length q) (drop i (x # xs)) = q"
    then obtain i where "i + length q \<le> length (x # xs)" "take (length q) (drop i (x # xs)) = q"
      by blast
    then show "contains q (x # xs)"
      using Cons by (cases i) (auto simp: starts_with_def)
  qed
qed

section \<open>Printing\<close>

fun digits :: "nat \<Rightarrow> string" where
  "digits n = (if n < 10 then [char_of (48 + n)] else digits (n div 10) @ [char_of (48 + n mod 10)])"

declare digits.simps [simp del]

definition show_int :: "int \<Rightarrow> string" where
  "show_int i = (if i < 0 then ''-'' @ digits (nat (- i)) else digits (nat i))"

section \<open>Rows kept in lists\<close>

text \<open>
  A table that the program queries by columns is a list of rows; \<open>upd_row\<close> is the effect of
  mutating the attributes of the ORM object with a given key.
\<close>

definition upd_row :: "('r \<Rightarrow> 'k) \<Rightarrow> 'k \<Rightarrow> ('r \<Rightarrow> 'r) \<Rightarrow> 'r list \<Rightarrow> 'r list" where
  "upd_row key k f rs = map (\<lambda>r. if key r = k then f r else r) rs"

lemma upd_row_Nil [simp]: "upd_row key k f [] = []"
  by (simp add: upd_row_def)

lemma upd_row_Cons [simp]:
  "upd_row key k f (r # rs) = (if key r = k then f r else r) # upd_row key k f rs"
  by (simp add: upd_row_def)

lemma length_upd_row [simp]: "length (upd_row key k f rs) = length rs"
  by (simp add: upd_row_def)

lemma set_upd_row:
  "set (upd_row key k f rs) = (\<lambda>r. if key r = k then f r else r) ` set rs"
  by (simp add: upd_row_def)

lemma in_upd_row: "r \<in> set rs \<Longrightarrow> key r = k \<Longrightarrow> f r \<in> set (upd_row key k f rs)"
  by (auto simp: set_upd_row)

lemma in_upd_row_E:
  assumes "r' \<in> set (upd_row key k f rs)"
  obtains r where "r \<in> set rs" and "r' = (if key r = k then f r else r)"
  using assms by (auto simp: set_upd_row)

lemma bex_upd_row: "(\<exists>r \<in> set (upd_row key k f rs). P r) \<longleftrightarrow> (\<exists>r \<in> set rs. P (if key r = k then f r else r))"
  by (induction rs) auto

lemma keys_upd_row:
  assumes "\<And>r. g (f r) = g r"
  shows "g ` set (upd_row key k f rs) = g ` set rs"
  using assms by (induction rs) auto

lemma filter_upd_row_other:
  assumes "\<And>r. r \<in> set rs \<Longrightarrow> key r = k \<Longrightarrow> \<not> P r \<and> \<not> P (f r)"
  shows "filter P (upd_row key k f rs) = filter P rs"
  using assms by (induction rs) auto

lemma upd_row_id [simp]: "k \<notin> key ` set rs \<Longrightarrow> upd_row key k f rs = rs"
  by (induction rs) auto

lemma map_upd_row: "(\<And>r. g (f r) = g r) \<Longrightarrow> map g (upd_row key k f rs) = map g rs"
  by (simp add: upd_row_def)

lemma find_upd_row:
  assumes "\<And>r. key (f r) = key r"
  shows "find (\<lambda>r. key r = j) (upd_row key k f rs)
       = (if j = k then map_option f (find (\<lambda>r. key r = j) rs) else find (\<lambda>r. key r = j) rs)"
  by (induction rs) (auto simp: assms)

lemma find_Some_in: "find P xs = Some x \<Longrightarrow> x \<in> set xs \<and> P x"
  by (induction xs) (auto split: if_splits)

lemma find_append: "find P (xs @ ys) = (case find P xs of None \<Rightarrow> find P ys | Some x \<Rightarrow> Some x)"
  by (induction xs) auto

lemma find_map: "find P (map f xs) = map_option f (find (\<lambda>x. P (f x)) xs)"
  by (induction xs) auto

lemma find_upd_row_same:
  assumes "\<And>r. key r = k \<Longrightarrow> Q (f r) = Q r"
  shows "find Q (upd_row key k f rs) = map_option (\<lambda>r. if key r = k then f r else r) (find Q rs)"
  by (induction rs) (auto simp: assms)

section \<open>Results\<close>

text \<open>A raised exception is \<open>Inl\<close>, a normal return is \<open>Inr\<close>.\<close>

definition is_ok :: "'e + 'a \<Rightarrow> bool" where
  "is_ok r = (case r of Inl _ \<Rightarrow> False | Inr _ \<Rightarrow> True)"

lemma is_ok_simps [simp]: "is_ok (Inr x)" "\<not> is_ok (Inl e)"
  by (simp_all add: is_ok_def)

end
