(* ===== verification/Schema.thy ===== *)
theory Schema
  imports Complex_Main Prelude
begin

text \<open>
  The persistent state: one record per ORM class of \<open>app/models\<close> (same columns, same
  defaults; the \<open>created_at\<close>/\<open>updated_at\<close> bookkeeping columns are left out), the
  database as a record of tables, and the SQLAlchemy session as the pair of what is durably
  committed and what the open transaction sees.
\<close>

section \<open>Ingestion status (ingestion\_state.IngestionStatus)\<close>

text \<open>
  The column is a string; the fifteen declared values are constructors and every other string
  is \<open>UnknownStatus\<close>, which is not in \<open>IngestionStatus.ALL\<close>.
\<close>

datatype ingestion_status =
    QUARANTINED | VALIDATING | SCANNING
  | REJECTED_TYPE | REJECTED_MALWARE | REJECTED_CONTENT_POLICY
  | SCAN_FAILED | CLEAN_PENDING_PROMOTION
  | PROMOTING | PROMOTION_FAILED | CLEAN
  | PARSING | PARSE_FAILED | COMPLETED | LEGACY_UNVERIFIED
  | UnknownStatus string

section \<open>Audit events\<close>

text \<open>The JSON values that occur in \<open>AuditEvent.details\<close>.\<close>

datatype jval =
    JNull
  | JBool bool
  | JInt int
  | JStr string
  | JText ustr
  | JId uuid
  | JStatus ingestion_status
  | JRat rat
  | JList "jval list"
  | JObj "(string \<times> jval) list"

type_synonym details = "string \<rightharpoonup> jval"

record audit_event =
  ev_organization_id :: uuid
  ev_user_id :: "uuid option"
  ev_action :: string
  ev_entity_type :: string
  ev_entity_id :: uuid
  ev_details :: details

section \<open>Documents and their pages\<close>

record document =
  d_id :: uuid
  d_project_id :: uuid
  d_name :: ustr
  d_file_path :: string
  d_file_type :: string
  d_doc_role :: string
  d_content :: "ustr option"
  d_processing_status :: string
  d_processing_error :: "string option"
  d_owner_name :: "ustr option"
  d_tags :: "ustr option"
  d_approval_status :: string
  d_version :: "ustr option"
  d_review_date :: "time option"
  d_created_by_id :: uuid
  d_ingestion_status :: ingestion_status
  d_display_filename :: "ustr option"
  d_detected_content_type :: "string option"
  d_sha256_digest :: "string option"
  d_file_size_bytes :: "int option"
  d_quarantined_at :: "time option"
  d_scan_status :: "string option"
  d_scan_engine_version :: "ustr option"
  d_scan_signature_version :: "ustr option"
  d_scan_completed_at :: "time option"
  d_scan_started_at :: "time option"
  d_scan_attempt_count :: nat
  d_content_policy_status :: "string option"
  d_content_policy_version :: "string option"
  d_scan_digest_snapshot :: "string option"
  d_parser_version :: "string option"
  d_parser_completed_at :: "time option"
  d_rejection_reason_code :: "string option"
  d_operator_failure_summary :: "string option"
  d_promotion_started_at :: "time option"
  d_promotion_completed_at :: "time option"
  d_promotion_attempt_count :: nat
  d_clean_storage_identifier :: "string option"
  d_cleanup_pending :: bool
  d_parse_started_at :: "time option"
  d_parse_attempt_count :: nat
  d_parse_attempt_id :: "uuid option"
  d_parse_error_code :: "string option"

text \<open>A freshly constructed row with the column defaults of \<open>class Document\<close>.\<close>

definition new_document :: "uuid \<Rightarrow> uuid \<Rightarrow> uuid \<Rightarrow> ustr \<Rightarrow> string \<Rightarrow> string \<Rightarrow> document" where
  "new_document i proj creator nm path ftype =
     \<lparr>d_id = i, d_project_id = proj, d_name = nm, d_file_path = path, d_file_type = ftype,
      d_doc_role = ''rfp'', d_content = None, d_processing_status = ''pending'',
      d_processing_error = None, d_owner_name = None, d_tags = None,
      d_approval_status = ''PENDING'', d_version = Some (uni ''1.0''), d_review_date = None,
      d_created_by_id = creator,
      d_ingestion_status = LEGACY_UNVERIFIED, d_display_filename = None,
      d_detected_content_type = None, d_sha256_digest = None, d_file_size_bytes = None,
      d_quarantined_at = None, d_scan_status = None, d_scan_engine_version = None,
      d_scan_signature_version = None, d_scan_completed_at = None, d_scan_started_at = None,
      d_scan_attempt_count = 0, d_content_policy_status = None,
      d_content_policy_version = None, d_scan_digest_snapshot = None, d_parser_version = None,
      d_parser_completed_at = None, d_rejection_reason_code = None,
      d_operator_failure_summary = None, d_promotion_started_at = None,
      d_promotion_completed_at = None, d_promotion_attempt_count = 0,
      d_clean_storage_identifier = None, d_cleanup_pending = False, d_parse_started_at = None,
      d_parse_attempt_count = 0, d_parse_attempt_id = None, d_parse_error_code = None\<rparr>"

lemma new_document_simps [simp]:
  "d_id (new_document i proj creator nm path ftype) = i"
  "d_project_id (new_document i proj creator nm path ftype) = proj"
  "d_file_path (new_document i proj creator nm path ftype) = path"
  "d_ingestion_status (new_document i proj creator nm path ftype) = LEGACY_UNVERIFIED"
  "d_scan_attempt_count (new_document i proj creator nm path ftype) = 0"
  "d_promotion_attempt_count (new_document i proj creator nm path ftype) = 0"
  "d_parse_attempt_count (new_document i proj creator nm path ftype) = 0"
  "d_parse_attempt_id (new_document i proj creator nm path ftype) = None"
  "d_created_by_id (new_document i proj creator nm path ftype) = creator"
  by (simp_all add: new_document_def)

record document_page =
  pg_id :: uuid
  pg_document_id :: uuid
  pg_page_number :: int
  pg_content :: ustr
  pg_unit_kind :: "string option"
  pg_source_locator :: "ustr option"
  pg_content_sha256 :: "string option"

record project =
  pr_id :: uuid
  pr_organization_id :: uuid
  pr_name :: ustr
  pr_created_by_id :: uuid
  pr_client_name :: ustr
  pr_due_date :: "time option"
  pr_status :: string

record user =
  us_id :: uuid
  us_organization_id :: uuid
  us_email :: ustr
  us_hashed_password :: string
  us_full_name :: ustr
  us_is_active :: bool
  us_can_review_requirements :: bool

section \<open>Extraction runs, candidates, review tasks and requirements\<close>

datatype run_status = RUN_PENDING | RUN_RUNNING | RUN_COMPLETED | RUN_FAILED

record extraction_run =
  run_id :: uuid
  run_organization_id :: uuid
  run_project_id :: uuid
  run_document_id :: uuid
  run_status :: run_status
  run_extraction_attempt_id :: uuid
  run_input_snapshot_sha256 :: string
  run_page_count :: nat
  run_parser_version :: "string option"
  run_extraction_schema_version :: string
  run_prompt_version :: string
  run_provider :: string
  run_model :: "string option"
  run_candidate_count :: nat
  run_received_candidate_count :: nat
  run_accepted_candidate_count :: nat
  run_skipped_candidate_count :: nat
  run_validation_issue_counts :: "(string \<times> nat) list option"
  run_provider_call_count :: nat
  run_input_tokens :: nat
  run_output_tokens :: nat
  run_cache_creation_input_tokens :: nat
  run_cache_read_input_tokens :: nat
  run_duration_ms :: nat
  run_failure_code :: "string option"
  run_started_at :: "time option"
  run_completed_at :: "time option"

datatype candidate_status = PROPOSED | APPROVED | EDITED | REJECTED | SUPERSEDED

record candidate =
  cd_id :: uuid
  cd_organization_id :: uuid
  cd_project_id :: uuid
  cd_extraction_run_id :: uuid
  cd_document_id :: uuid
  cd_document_page_id :: uuid
  cd_page_content_sha256 :: string
  cd_unit_kind :: string
  cd_source_locator :: ustr
  cd_span_start :: int
  cd_span_end :: int
  cd_evidence_text :: ustr
  cd_evidence_sha256 :: string
  cd_normalized_requirement_text :: ustr
  cd_reviewer_edited_text :: "ustr option"
  cd_requirement_type :: "string option"
  cd_confidence :: "rat option"
  cd_uncertainty_reason :: "ustr option"
  cd_extraction_schema_version :: string
  cd_candidate_status :: candidate_status
  cd_reviewed_at :: "time option"
  cd_reviewed_by :: "uuid option"
  cd_reviewer_comment :: "ustr option"

datatype task_status = TASK_OPEN | TASK_COMPLETED | TASK_SUPERSEDED

record review_task =
  tk_id :: uuid
  tk_organization_id :: uuid
  tk_project_id :: uuid
  tk_candidate_id :: uuid
  tk_extraction_run_id :: uuid
  tk_task_type :: string
  tk_source_locator :: ustr
  tk_assigned_to_id :: "uuid option"
  tk_status :: task_status
  tk_resolved_at :: "time option"

record requirement =
  rq_id :: uuid
  rq_project_id :: uuid
  rq_source_document_id :: "uuid option"
  rq_source_candidate_id :: "uuid option"
  rq_original_text :: ustr
  rq_source_section :: "ustr option"
  rq_source_page :: "int option"
  rq_requirement_type :: "string option"
  rq_mandatory :: bool
  rq_status :: string
  rq_owner_name :: "ustr option"
  rq_proposal_section :: "ustr option"
  rq_risk_level :: "string option"
  rq_assigned_to_user_id :: "uuid option"
  rq_assigned_by_user_id :: "uuid option"
  rq_assigned_at :: "time option"

section \<open>The proposal workspace\<close>

text \<open>\<open>EvidenceLink\<close>, \<open>DraftResponse\<close>, \<open>RequirementComment\<close>, \<open>ReviewTask\<close> and \<open>PilotFeedback\<close>.\<close>

record evidence_link =
  el_id :: uuid
  el_requirement_id :: uuid
  el_document_id :: uuid
  el_snippet :: ustr
  el_page_number :: "int option"
  el_score :: rat

record draft_response =
  dr_id :: uuid
  dr_requirement_id :: uuid
  dr_content :: ustr
  dr_version :: nat
  dr_status :: string
  dr_confidence :: rat
  dr_needs_evidence :: bool
  dr_assumptions :: "ustr option"
  dr_approved_by_id :: "uuid option"

record requirement_comment =
  rc_id :: uuid
  rc_requirement_id :: uuid
  rc_author_user_id :: uuid
  rc_content :: ustr
  rc_decision_type :: string

record routing_task =
  rt_id :: uuid
  rt_requirement_id :: uuid
  rt_assigned_to_id :: "uuid option"
  rt_reviewer_notes :: ustr
  rt_status :: string

record pilot_feedback =
  fb_id :: uuid
  fb_project_id :: "uuid option"
  fb_requirement_id :: "uuid option"
  fb_category :: string
  fb_severity :: string
  fb_message :: ustr
  fb_created_by_user_id :: uuid
  fb_organization_id :: uuid
  fb_status :: string

section \<open>Legacy processing jobs\<close>

record processing_job =
  jb_id :: uuid
  jb_org_id :: uuid
  jb_project_id :: "uuid option"
  jb_document_id :: "uuid option"
  jb_job_type :: string
  jb_status :: string
  jb_progress_percent :: int
  jb_current_step :: string
  jb_attempts :: nat
  jb_max_attempts :: nat
  jb_error_type :: "string option"
  jb_safe_error_message :: "string option"
  jb_started_at :: "time option"
  jb_finished_at :: "time option"
  jb_created_by_user_id :: "uuid option"

section \<open>The database and the session\<close>

record db =
  organizations :: "uuid set"
  documents :: "uuid \<rightharpoonup> document"
  projects :: "uuid \<rightharpoonup> project"
  users :: "uuid \<rightharpoonup> user"
  pages :: "document_page list"
  runs :: "extraction_run list"
  candidates :: "candidate list"
  tasks :: "review_task list"
  requirements :: "requirement list"
  audit :: "audit_event list"
  processing_jobs :: "processing_job list"
  evidence_links :: "evidence_link list"
  draft_responses :: "draft_response list"
  requirement_comments :: "requirement_comment list"
  routing_tasks :: "routing_task list"
  pilot_feedback_rows :: "pilot_feedback list"

definition empty_db :: db where
  "empty_db = \<lparr>organizations = {}, documents = Map.empty, projects = Map.empty, users = Map.empty, pages = [],
     runs = [], candidates = [], tasks = [], requirements = [], audit = [],
     processing_jobs = [], evidence_links = [], draft_responses = [], requirement_comments = [],
     routing_tasks = [], pilot_feedback_rows = []\<rparr>"

text \<open>
  A SQLAlchemy session: attribute assignments, \<open>add\<close> and \<open>execute\<close> change \<open>work\<close>;
  \<open>commit\<close> makes it durable, \<open>rollback\<close> drops it. A handler that ends without a commit
  loses its open transaction when the session is closed.
\<close>

text \<open>
  Jobs published on the queue (\<open>app/core/queue.py\<close>, task names of \<open>app/worker.py\<close>). A
  handler publishes by appending to the \<open>outbox\<close> of its session; publishing is not part of
  the transaction, so neither commit nor rollback touches it.
\<close>

datatype job =
    ScanJob uuid
  | ScanRetryJob uuid nat
  | PromoteJob uuid
  | ParseJob uuid
  | ParseRetryJob uuid nat
  | ExtractJob uuid uuid
  | ProcessingJob uuid

record sess =
  stored :: db
  work :: db
  outbox :: "job list"

definition open_session :: "db \<Rightarrow> sess" where
  "open_session d = \<lparr>stored = d, work = d, outbox = []\<rparr>"

definition publish :: "job \<Rightarrow> sess \<Rightarrow> sess" where
  "publish j s = s\<lparr>outbox := outbox s @ [j]\<rparr>"

definition commit :: "sess \<Rightarrow> sess" where
  "commit s = s\<lparr>stored := work s\<rparr>"

definition rollback :: "sess \<Rightarrow> sess" where
  "rollback s = s\<lparr>work := stored s\<rparr>"

definition add_audit :: "audit_event \<Rightarrow> sess \<Rightarrow> sess" where
  "add_audit e s = s\<lparr>work := (work s)\<lparr>audit := audit (work s) @ [e]\<rparr>\<rparr>"

definition get_doc :: "sess \<Rightarrow> uuid \<Rightarrow> document option" where
  "get_doc s i = documents (work s) i"

definition put_doc :: "document \<Rightarrow> sess \<Rightarrow> sess" where
  "put_doc x s = s\<lparr>work := (work s)\<lparr>documents := (documents (work s))(d_id x \<mapsto> x)\<rparr>\<rparr>"

lemma session_simps [simp]:
  "stored (open_session d) = d" "work (open_session d) = d"
  "stored (commit s) = work s" "work (commit s) = work s"
  "stored (rollback s) = stored s" "work (rollback s) = stored s"
  "stored (add_audit e s) = stored s" "stored (put_doc x s) = stored s"
  "work (add_audit e s) = (work s)\<lparr>audit := audit (work s) @ [e]\<rparr>"
  "work (put_doc x s) = (work s)\<lparr>documents := (documents (work s))(d_id x \<mapsto> x)\<rparr>"
  "stored (publish j s) = stored s" "work (publish j s) = work s"
  "outbox (publish j s) = outbox s @ [j]" "outbox (open_session d) = []"
  "outbox (commit s) = outbox s" "outbox (rollback s) = outbox s"
  "outbox (add_audit e s) = outbox s" "outbox (put_doc x s) = outbox s"
  by (simp_all add: open_session_def commit_def rollback_def add_audit_def put_doc_def
      publish_def)

lemma get_doc_put_doc [simp]:
  "get_doc (put_doc x s) i = (if i = d_id x then Some x else get_doc s i)"
  by (simp add: get_doc_def)

lemma get_doc_commit [simp]: "get_doc (commit s) i = get_doc s i"
  and get_doc_publish [simp]: "get_doc (publish j s) i = get_doc s i"
  and get_doc_add_audit [simp]: "get_doc (add_audit e s) i = get_doc s i"
  and get_doc_open [simp]: "get_doc (open_session d) i = documents d i"
  and get_doc_rollback [simp]: "get_doc (rollback s) i = documents (stored s) i"
  by (simp_all add: get_doc_def)

section \<open>Exceptions\<close>

text \<open>The exceptions of the service layer, with the codes the code branches on.\<close>

datatype exc =
    UnknownIngestionStatus ingestion_status
  | IllegalTransition ingestion_status ingestion_status
  | NotPromotable ingestion_status
  | QuarantineStorageError string
  | PromotionError string string
  | ParserClientError string string
  | ExtractionServiceError string
  | ExtractionError string
  | CandidateReviewError string
  | ReviewerAuthorizationError nat string
  | HTTPException nat string
  | CapabilityCommandError string
  | IntegrityError
  | OtherException string

text \<open>Rows are stored under their own primary key.\<close>

definition keyed :: "db \<Rightarrow> bool" where
  "keyed d \<longleftrightarrow> (\<forall>i x. documents d i = Some x \<longrightarrow> d_id x = i)"

lemma keyedD: "keyed d \<Longrightarrow> documents d i = Some x \<Longrightarrow> d_id x = i"
  by (simp add: keyed_def)

lemma keyed_put [simp]: "keyed (work s) \<Longrightarrow> keyed (work (put_doc x s))"
  by (simp add: keyed_def)

end
