(* ===== verification/Grounding.thy ===== *)
theory Grounding
  imports Schema
begin

text \<open>
  \<open>app/services/evidence_validation.py\<close>: whether a snippet submitted by a client is quoted
  from a document of the project, and whether the sentences of a draft answer are supported by
  the linked snippets. \<open>cf\<close> is \<open>str.casefold\<close>. Scores are the exact fractions; the floats of
  the program order them the same way, because token counts are far below \<open>2^50\<close>.
\<close>

section \<open>Text\<close>

definition snippet_min_len :: nat where "snippet_min_len = 10"
definition snippet_max_len :: nat where "snippet_max_len = 2000"
definition claim_support_threshold :: rat where "claim_support_threshold = 1 / 5"

definition boilerplate_phrases :: "ustr list" where
  "boilerplate_phrases = map uni [''we will comply'', ''our organisation will comply'',
     ''our organization will comply'', ''we are pleased to'', ''we confirm that'', ''please see attached'',
     ''as required'', ''in accordance with'', ''we acknowledge'', ''we understand'']"

text \<open>\<open>re.sub(r"\s+", " ", text)\<close>.\<close>

function collapse_spaces :: "ustr \<Rightarrow> ustr" where
  "collapse_spaces [] = []"
| "collapse_spaces (c # cs) =
     (if is_space c then 32 # collapse_spaces (dropWhile is_space cs) else c # collapse_spaces cs)"
  by pat_completeness auto

termination
  by (relation "measure length") (auto simp: le_imp_less_Suc length_dropWhile_le)

definition normalize_evidence_text :: "(ustr \<Rightarrow> ustr) \<Rightarrow> ustr \<Rightarrow> ustr" where
  "normalize_evidence_text cf t = (if t = [] then [] else cf (strip (collapse_spaces t)))"

definition word_char :: "nat \<Rightarrow> bool" where
  "word_char c \<longleftrightarrow> (97 \<le> c \<and> c \<le> 122) \<or> (48 \<le> c \<and> c \<le> 57)"

text \<open>\<open>re.findall(r"[a-z0-9]+", text)\<close>.\<close>

function words_of :: "ustr \<Rightarrow> ustr list" where
  "words_of [] = []"
| "words_of (c # cs) =
     (if word_char c then (c # takeWhile word_char cs) # words_of (dropWhile word_char cs) else words_of cs)"
  by pat_completeness auto

termination
  by (relation "measure length") (auto simp: le_imp_less_Suc length_dropWhile_le)

definition tokenize :: "(ustr \<Rightarrow> ustr) \<Rightarrow> ustr \<Rightarrow> ustr set" where
  "tokenize cf t = set (words_of (normalize_evidence_text cf t))"

definition evidence_quote_exists_on_page :: "(ustr \<Rightarrow> ustr) \<Rightarrow> ustr \<Rightarrow> ustr \<Rightarrow> bool" where
  "evidence_quote_exists_on_page cf snippet content \<longleftrightarrow>
     snippet \<noteq> [] \<and> content \<noteq> []
     \<and> contains (normalize_evidence_text cf snippet) (normalize_evidence_text cf content)"

section \<open>Evidence candidates\<close>

text \<open>An \<open>EvidenceValidationError\<close> is its status code and detail.\<close>

type_synonym evidence_error = "nat \<times> string"

definition find_page :: "db \<Rightarrow> uuid \<Rightarrow> int \<Rightarrow> document_page option" where
  "find_page d i n = find (\<lambda>p. pg_document_id p = i \<and> pg_page_number p = n) (pages d)"

definition check_snippet :: "(ustr \<Rightarrow> ustr) \<Rightarrow> db \<Rightarrow> document \<Rightarrow> int option \<Rightarrow> ustr \<Rightarrow> evidence_error + ustr \<times> int option" where
  "check_snippet cf d x page_number stripped =
     (if length stripped < snippet_min_len then Inl (422, ''Evidence snippet is too short'')
      else if length stripped > snippet_max_len then Inl (422, ''Evidence snippet is too long'')
      else
        (case page_number of
           Some n \<Rightarrow>
             (case find_page d (d_id x) n of
                None \<Rightarrow> Inl (400, ''Page number does not exist for this document'')
              | Some p \<Rightarrow>
                  if \<not> evidence_quote_exists_on_page cf stripped (pg_content p)
                  then Inl (400, ''Evidence snippet not found on the specified page'')
                  else Inr (stripped, Some n))
         | None \<Rightarrow>
             (let content = (case d_content x of None \<Rightarrow> [] | Some t \<Rightarrow> t) in
              if content = [] then Inl (400, ''Document has no extracted text content; provide a page number'')
              else if \<not> evidence_quote_exists_on_page cf stripped content
              then Inl (400, ''Evidence snippet not found in document content'')
              else Inr (stripped, None))))"

definition validate_evidence_candidate ::
  "(ustr \<Rightarrow> ustr) \<Rightarrow> db \<Rightarrow> uuid \<Rightarrow> uuid \<Rightarrow> int option \<Rightarrow> ustr \<Rightarrow> evidence_error + ustr \<times> int option" where
  "validate_evidence_candidate cf d project document_id page_number client_snippet =
     (case documents d document_id of
        None \<Rightarrow> Inl (404, ''Document not found'')
      | Some x \<Rightarrow>
          if d_project_id x \<noteq> project then Inl (404, ''Document not found'')
          else if d_processing_status x \<noteq> ''completed''
          then Inl (400, ''Document is not fully processed'')
          else if d_doc_role x = ''knowledge_base'' \<and> d_approval_status x \<noteq> ''APPROVED''
          then Inl (400, ''Document is not approved for use as evidence'')
          else if d_ingestion_status x \<noteq> COMPLETED
          then Inl (400, ''Document has not completed security processing'')
          else check_snippet cf d x page_number (strip client_snippet))"

definition resolve_evidence_from_document_page :: "db \<Rightarrow> uuid \<Rightarrow> int \<Rightarrow> evidence_error + ustr" where
  "resolve_evidence_from_document_page d i n =
     (case find_page d i n of
        None \<Rightarrow> Inl (400, ''Page not found for document'')
      | Some p \<Rightarrow> Inr (take snippet_max_len (strip (pg_content p))))"

definition require_same_project_evidence :: "uuid \<Rightarrow> uuid \<Rightarrow> evidence_error + unit" where
  "require_same_project_evidence document_project requirement_project =
     (if document_project \<noteq> requirement_project then Inl (404, ''Document not found'') else Inr ())"

section \<open>Claims of a draft\<close>

definition terminator :: "nat \<Rightarrow> bool" where
  "terminator c \<longleftrightarrow> c = 46 \<or> c = 33 \<or> c = 63"

definition capital :: "nat \<Rightarrow> bool" where
  "capital c \<longleftrightarrow> 65 \<le> c \<and> c \<le> 90"

text \<open>
  \<open>re.split(r"(?<=[.!?])\s+(?=[A-Z])|(?<=[.!?])$", text)\<close>: \<open>after\<close> is whether the previous
  character is a terminator, \<open>acc\<close> the piece read so far, reversed. The second alternative is
  empty and matches at the end and before a final newline.
\<close>

definition boundary :: "ustr \<Rightarrow> bool" where
  "boundary cs \<longleftrightarrow> (case cs of [] \<Rightarrow> False
     | c # _ \<Rightarrow> is_space c \<and> (case dropWhile is_space cs of [] \<Rightarrow> False | x # _ \<Rightarrow> capital x))"

function sentences :: "bool \<Rightarrow> ustr \<Rightarrow> ustr \<Rightarrow> ustr list" where
  "sentences after acc [] = (if after then [rev acc, []] else [rev acc])"
| "sentences after acc (c # cs) =
     (if after \<and> boundary (c # cs) then rev acc # sentences False [] (dropWhile is_space cs)
      else if after \<and> c = 10 \<and> cs = [] then [rev acc, [10]]
      else sentences (terminator c) (c # acc) cs)"
  by pat_completeness auto

termination
  by (relation "measure (\<lambda>(_, _, t). length t)") (auto simp: le_imp_less_Suc length_dropWhile_le)

definition rstrip_terminators :: "ustr \<Rightarrow> ustr" where
  "rstrip_terminators t = rev (dropWhile terminator (rev t))"

definition boilerplate :: "(ustr \<Rightarrow> ustr) \<Rightarrow> ustr \<Rightarrow> bool" where
  "boilerplate cf t \<longleftrightarrow> list_ex (\<lambda>bp. contains bp (normalize_evidence_text cf t)) boilerplate_phrases"

definition extract_draft_claims :: "(ustr \<Rightarrow> ustr) \<Rightarrow> ustr \<Rightarrow> ustr list" where
  "extract_draft_claims cf draft =
     take 50 (filter (\<lambda>t. \<not> length t < 20 \<and> \<not> boilerplate cf t)
       (map (\<lambda>raw. strip (rstrip_terminators (strip raw))) (sentences False [] draft)))"

section \<open>Support\<close>

definition jaccard :: "ustr set \<Rightarrow> ustr set \<Rightarrow> rat" where
  "jaccard A B = of_nat (card (A \<inter> B)) / of_nat (card (A \<union> B))"

fun best_support :: "(ustr \<Rightarrow> ustr) \<Rightarrow> ustr set \<Rightarrow> ustr list \<Rightarrow> rat \<times> ustr option \<Rightarrow> rat \<times> ustr option" where
  "best_support cf claim [] best = best"
| "best_support cf claim (s # ss) best =
     (let T = tokenize cf s in
      if T = {} then best_support cf claim ss best
      else let score = jaccard claim T
           in best_support cf claim ss (if score > fst best then (score, Some s) else best))"

definition check_claim_support ::
  "(ustr \<Rightarrow> ustr) \<Rightarrow> rat \<Rightarrow> ustr list \<Rightarrow> ustr \<Rightarrow> bool \<times> rat \<times> ustr option" where
  "check_claim_support cf threshold snippets claim =
     (let C = tokenize cf claim in
      if C = {} then (True, 1, None)
      else case best_support cf C snippets (0, None) of (score, best) \<Rightarrow> (score \<ge> threshold, score, best))"

record unsupported_claim =
  uc_sentence :: ustr
  uc_overlap_score :: rat
  uc_best_evidence_snippet :: "ustr option"

record grounding_result =
  gr_passes :: bool
  gr_unsupported_claims :: "unsupported_claim list"
  gr_supported_count :: nat
  gr_total_claims :: nat
  gr_pass_rate :: rat

fun unsupported_claims ::
  "(ustr \<Rightarrow> ustr) \<Rightarrow> rat \<Rightarrow> ustr list \<Rightarrow> ustr list \<Rightarrow> unsupported_claim list \<times> nat" where
  "unsupported_claims cf threshold snippets [] = ([], 0)"
| "unsupported_claims cf threshold snippets (claim # claims) =
     (case (check_claim_support cf threshold snippets claim, unsupported_claims cf threshold snippets claims) of
        ((supported, score, best), (un, n)) \<Rightarrow>
          if supported then (un, Suc n)
          else (\<lparr>uc_sentence = claim, uc_overlap_score = score, uc_best_evidence_snippet = best\<rparr> # un, n))"

definition validate_draft_grounding :: "(ustr \<Rightarrow> ustr) \<Rightarrow> rat \<Rightarrow> ustr \<Rightarrow> ustr list \<Rightarrow> grounding_result" where
  "validate_draft_grounding cf threshold draft snippets =
     (let claims = extract_draft_claims cf draft in
      if claims = []
      then \<lparr>gr_passes = True, gr_unsupported_claims = [], gr_supported_count = 0, gr_total_claims = 0,
            gr_pass_rate = 1\<rparr>
      else case unsupported_claims cf threshold snippets claims of (un, n) \<Rightarrow>
        \<lparr>gr_passes = (length un = 0), gr_unsupported_claims = un, gr_supported_count = n,
         gr_total_claims = length claims, gr_pass_rate = of_nat n / of_nat (length claims)\<rparr>)"

section \<open>What support means\<close>

text \<open>A claim is backed when some snippet shares enough of its words.\<close>

definition backed :: "(ustr \<Rightarrow> ustr) \<Rightarrow> rat \<Rightarrow> ustr list \<Rightarrow> ustr \<Rightarrow> bool" where
  "backed cf threshold snippets claim \<longleftrightarrow> tokenize cf claim = {}
     \<or> (\<exists>s \<in> set snippets. tokenize cf s \<noteq> {} \<and> threshold \<le> jaccard (tokenize cf claim) (tokenize cf s))"

lemma jaccard_nonneg: "0 \<le> jaccard A B"
  by (simp add: jaccard_def)

lemma best_support_threshold:
  "threshold \<le> fst (best_support cf C ss b) \<longleftrightarrow>
   threshold \<le> fst b \<or> (\<exists>s \<in> set ss. tokenize cf s \<noteq> {} \<and> threshold \<le> jaccard C (tokenize cf s))"
  by (induction ss arbitrary: b) (auto simp: Let_def)

lemma check_claim_backed:
  "0 < threshold \<Longrightarrow> fst (check_claim_support cf threshold snippets claim) = backed cf threshold snippets claim"
  using best_support_threshold [of threshold cf "tokenize cf claim" snippets "(0, None)"]
  by (simp add: check_claim_support_def backed_def Let_def case_prod_unfold)

text \<open>The reported snippet attains the reported score.\<close>

lemma best_support_attained:
  "best_support cf C ss b = b
   \<or> (\<exists>s \<in> set ss. best_support cf C ss b = (jaccard C (tokenize cf s), Some s))"
proof (induction ss arbitrary: b)
  case (Cons x ss)
  show ?case
    using Cons.IH [of b] Cons.IH [of "(jaccard C (tokenize cf x), Some x)"]
    by (auto simp: Let_def)
qed simp

lemma unsupported_count:
  "unsupported_claims cf threshold ss claims = (un, n) \<Longrightarrow> length un + n = length claims"
  by (induction claims arbitrary: un n) (auto split: prod.splits if_splits)

lemma unsupported_exact:
  assumes "0 < threshold"
  shows "map uc_sentence (fst (unsupported_claims cf threshold ss claims))
    = filter (\<lambda>c. \<not> backed cf threshold ss c) claims"
proof (induction claims)
  case (Cons c claims)
  have "fst (check_claim_support cf threshold ss c) = backed cf threshold ss c"
    using assms by (rule check_claim_backed)
  then show ?case
    using Cons by (cases "check_claim_support cf threshold ss c") (auto split: prod.splits)
qed simp

text \<open>
  The grounding check is exact: the reported sentences are, in their order, the extracted
  claims no snippet backs, the check passes when there is none, and the two counts add up.
\<close>

lemma grounding_exact:
  assumes "0 < threshold"
  shows "let g = validate_draft_grounding cf threshold draft snippets; claims = extract_draft_claims cf draft in
    map uc_sentence (gr_unsupported_claims g) = filter (\<lambda>c. \<not> backed cf threshold snippets c) claims
    \<and> (gr_passes g \<longleftrightarrow> (\<forall>c \<in> set claims. backed cf threshold snippets c))
    \<and> length (gr_unsupported_claims g) + gr_supported_count g = gr_total_claims g
    \<and> gr_total_claims g = length claims \<and> length claims \<le> 50"
proof (cases "unsupported_claims cf threshold snippets (extract_draft_claims cf draft)")
  case (Pair un n)
  have m: "map uc_sentence un = filter (\<lambda>c. \<not> backed cf threshold snippets c) (extract_draft_claims cf draft)"
    using unsupported_exact [OF assms, of cf snippets "extract_draft_claims cf draft"] Pair by simp
  then have "un = [] \<longleftrightarrow> (\<forall>c \<in> set (extract_draft_claims cf draft). backed cf threshold snippets c)"
    by (metis (no_types, lifting) filter_empty_conv map_is_Nil_conv)
  moreover have "length (extract_draft_claims cf draft) \<le> 50" by (simp add: extract_draft_claims_def)
  ultimately show ?thesis
    using m unsupported_count [OF Pair] Pair by (simp add: validate_draft_grounding_def Let_def)
qed

section \<open>What may be evidence\<close>

text \<open>The document behind an accepted snippet.\<close>

definition usable_document :: "db \<Rightarrow> uuid \<Rightarrow> uuid \<Rightarrow> document \<Rightarrow> bool" where
  "usable_document d project i x \<longleftrightarrow> documents d i = Some x \<and> d_project_id x = project
     \<and> d_processing_status x = ''completed'' \<and> d_ingestion_status x = COMPLETED
     \<and> (d_doc_role x = ''knowledge_base'' \<longrightarrow> d_approval_status x = ''APPROVED'')"

text \<open>The text a snippet was found in.\<close>

definition quoted_from :: "db \<Rightarrow> document \<Rightarrow> int option \<Rightarrow> ustr \<Rightarrow> bool" where
  "quoted_from d x page t \<longleftrightarrow> (case page of
     Some n \<Rightarrow> \<exists>p \<in> set (pages d). pg_document_id p = d_id x \<and> pg_page_number p = n \<and> pg_content p = t
   | None \<Rightarrow> d_content x = Some t)"

lemma find_page_in: "find_page d i n = Some p \<Longrightarrow> p \<in> set (pages d) \<and> pg_document_id p = i \<and> pg_page_number p = n"
  unfolding find_page_def by (drule find_Some_in) simp

lemma accepted_snippet:
  assumes "check_snippet cf d x page t = Inr (sn, pg)"
  shows "sn = t \<and> pg = page \<and> snippet_min_len \<le> length t \<and> length t \<le> snippet_max_len
    \<and> (\<exists>c. quoted_from d x page c
         \<and> contains (normalize_evidence_text cf t) (normalize_evidence_text cf c))"
  using assms
  by (auto simp: check_snippet_def quoted_from_def evidence_quote_exists_on_page_def Let_def
      split: if_splits option.splits dest: find_page_in)

lemma accepted_evidence:
  assumes "validate_evidence_candidate cf d project i page snippet = Inr (sn, pg)"
  shows "\<exists>x c. usable_document d project i x \<and> sn = strip snippet \<and> pg = page
    \<and> snippet_min_len \<le> length sn \<and> length sn \<le> snippet_max_len \<and> quoted_from d x page c
    \<and> contains (normalize_evidence_text cf sn) (normalize_evidence_text cf c)"
  using assms accepted_snippet
  by (fastforce simp: validate_evidence_candidate_def usable_document_def split: option.splits if_splits)

lemma unusable_refused:
  assumes "\<And>x. documents d i = Some x \<Longrightarrow> \<not> usable_document d project i x"
  shows "\<exists>st m. validate_evidence_candidate cf d project i page snippet = Inl (st, m) \<and> st \<in> {400, 404}"
  using assms by (auto simp: validate_evidence_candidate_def usable_document_def split: option.splits)

text \<open>The minimum length counts the spaces the comparison ignores: two letters are enough.\<close>

lemma short_quote_accepted:
  "length t = snippet_min_len \<and> normalize_evidence_text (\<lambda>t. t) t = [97, 32, 98]"
  if "t = [97, 32, 32, 32, 32, 32, 32, 32, 32, 98]"
  by (simp add: that snippet_min_len_def normalize_evidence_text_def is_space_def strip_def lstrip_def rstrip_def)

text \<open>A sentence that mentions a stock phrase anywhere is no claim, whatever else it says.\<close>

lemma stock_phrase_hides_claim:
  assumes "contains (uni ''as required'') (normalize_evidence_text cf t)"
  shows "t \<notin> set (extract_draft_claims cf draft)"
proof -
  have "boilerplate cf t" using assms by (simp add: boilerplate_def boilerplate_phrases_def)
  then show ?thesis by (auto simp: extract_draft_claims_def dest!: in_set_takeD)
qed

end
