(* ===== verification/IngestionState.thy ===== *)
theory IngestionState
  imports Schema
begin

text \<open>
  \<open>app/services/ingestion_state.py\<close>: the table of allowed status changes and
  \<open>transition\<close>, the only function that writes \<open>Document.ingestion_status\<close>, with its
  behaviour on every branch.
\<close>

section \<open>Sequencing of fallible steps\<close>

definition and_then ::
  "('e + 'a) \<times> 's \<Rightarrow> ('a \<Rightarrow> 's \<Rightarrow> ('e + 'b) \<times> 's) \<Rightarrow> ('e + 'b) \<times> 's" where
  "and_then r f = (case r of (Inl e, s) \<Rightarrow> (Inl e, s) | (Inr a, s) \<Rightarrow> f a s)"

lemma and_then_simps [simp]:
  "and_then (Inl e, s) f = (Inl e, s)"
  "and_then (Inr a, s) f = f a s"
  by (simp_all add: and_then_def)

section \<open>The transition table\<close>

definition is_declared :: "ingestion_status \<Rightarrow> bool" where
  "is_declared st = (case st of UnknownStatus _ \<Rightarrow> False | _ \<Rightarrow> True)"

fun allowed_transitions :: "ingestion_status \<Rightarrow> ingestion_status list" where
  "allowed_transitions QUARANTINED = [VALIDATING]"
| "allowed_transitions VALIDATING = [SCANNING, REJECTED_TYPE]"
| "allowed_transitions SCANNING =
     [CLEAN_PENDING_PROMOTION, REJECTED_MALWARE, REJECTED_CONTENT_POLICY, SCAN_FAILED]"
| "allowed_transitions SCAN_FAILED = [SCANNING]"
| "allowed_transitions REJECTED_TYPE = []"
| "allowed_transitions REJECTED_MALWARE = []"
| "allowed_transitions REJECTED_CONTENT_POLICY = []"
| "allowed_transitions CLEAN_PENDING_PROMOTION = [PROMOTING]"
| "allowed_transitions PROMOTING = [CLEAN, PROMOTION_FAILED]"
| "allowed_transitions PROMOTION_FAILED = [PROMOTING]"
| "allowed_transitions CLEAN = [PARSING]"
| "allowed_transitions PARSING = [COMPLETED, PARSE_FAILED]"
| "allowed_transitions PARSE_FAILED = [PARSING]"
| "allowed_transitions COMPLETED = []"
| "allowed_transitions LEGACY_UNVERIFIED = [VALIDATING]"
| "allowed_transitions (UnknownStatus _) = []"

section \<open>transition\<close>

definition transition_action :: string where
  "transition_action = ''document_ingestion_transition''"

definition transition_details ::
  "ingestion_status \<Rightarrow> ingestion_status \<Rightarrow> string option \<Rightarrow> details option \<Rightarrow> details" where
  "transition_details cur new reason detail =
     (let base = (case detail of None \<Rightarrow> Map.empty | Some m \<Rightarrow> m);
          d = base(''from'' \<mapsto> JStatus cur, ''to'' \<mapsto> JStatus new)
      in case reason of None \<Rightarrow> d | Some c \<Rightarrow> d(''reason_code'' \<mapsto> JStr c))"

text \<open>
  \<open>x\<close> is the ORM object with the attribute assignments the caller has already made; they
  reach the open transaction on every branch, and the disk only on the last.
\<close>

definition transition ::
  "document \<Rightarrow> ingestion_status \<Rightarrow> uuid \<Rightarrow> uuid option \<Rightarrow> string option \<Rightarrow> string option
    \<Rightarrow> details option \<Rightarrow> sess \<Rightarrow> (exc + unit) \<times> sess" where
  "transition x new org usr reason summary detail s =
     (let cur = d_ingestion_status x in
      if \<not> is_declared new then (Inl (UnknownIngestionStatus new), put_doc x s)
      else if cur = new then (Inr (), put_doc x s)
      else if new \<notin> set (allowed_transitions cur)
        then (Inl (IllegalTransition cur new), put_doc x s)
      else
        let x1 = x\<lparr>d_ingestion_status := new\<rparr>;
            x2 = (case reason of None \<Rightarrow> x1 | Some c \<Rightarrow> x1\<lparr>d_rejection_reason_code := Some c\<rparr>);
            x3 = (case summary of None \<Rightarrow> x2
                  | Some t \<Rightarrow> x2\<lparr>d_operator_failure_summary := Some t\<rparr>);
            ev = \<lparr>ev_organization_id = org, ev_user_id = usr, ev_action = transition_action,
                  ev_entity_type = ''Document'', ev_entity_id = d_id x,
                  ev_details = transition_details cur new reason detail\<rparr>
        in (Inr (), commit (add_audit ev (put_doc x3 s))))"

text \<open>The row an accepted transition writes, and its audit event.\<close>

definition moved ::
  "document \<Rightarrow> ingestion_status \<Rightarrow> string option \<Rightarrow> string option \<Rightarrow> document" where
  "moved x new reason summary = x\<lparr>d_ingestion_status := new,
     d_rejection_reason_code :=
       (case reason of None \<Rightarrow> d_rejection_reason_code x | Some c \<Rightarrow> Some c),
     d_operator_failure_summary :=
       (case summary of None \<Rightarrow> d_operator_failure_summary x | Some t \<Rightarrow> Some t)\<rparr>"

definition move_event ::
  "document \<Rightarrow> ingestion_status \<Rightarrow> uuid \<Rightarrow> uuid option \<Rightarrow> string option \<Rightarrow> details option
    \<Rightarrow> audit_event" where
  "move_event x new org usr reason detail =
     \<lparr>ev_organization_id = org, ev_user_id = usr, ev_action = transition_action,
      ev_entity_type = ''Document'', ev_entity_id = d_id x,
      ev_details = transition_details (d_ingestion_status x) new reason detail\<rparr>"

lemma moved_simps [simp]:
  "d_id (moved x new r t) = d_id x"
  "d_ingestion_status (moved x new r t) = new"
  "d_sha256_digest (moved x new r t) = d_sha256_digest x"
  "d_file_size_bytes (moved x new r t) = d_file_size_bytes x"
  "d_project_id (moved x new r t) = d_project_id x"
  "d_scan_attempt_count (moved x new r t) = d_scan_attempt_count x"
  "d_parse_attempt_count (moved x new r t) = d_parse_attempt_count x"
  "d_parse_attempt_id (moved x new r t) = d_parse_attempt_id x"
  "d_file_path (moved x new r t) = d_file_path x"
  "d_clean_storage_identifier (moved x new r t) = d_clean_storage_identifier x"
  "d_created_by_id (moved x new r t) = d_created_by_id x"
  "d_doc_role (moved x new r t) = d_doc_role x"
  "d_approval_status (moved x new r t) = d_approval_status x"
  by (simp_all add: moved_def)

text \<open>The behaviour of \<open>transition\<close> on each of its branches.\<close>

lemma transition_noop:
  "is_declared (d_ingestion_status x) \<Longrightarrow> d_ingestion_status x = new \<Longrightarrow>
   transition x new org usr reason summary detail s = (Inr (), put_doc x s)"
  by (simp add: transition_def Let_def)

lemma transition_moves:
  assumes "new \<in> set (allowed_transitions (d_ingestion_status x))"
  shows "transition x new org usr reason summary detail s =
    (Inr (), commit (add_audit (move_event x new org usr reason detail)
                       (put_doc (moved x new reason summary) s)))"
proof -
  have "is_declared new" "d_ingestion_status x \<noteq> new"
    using assms by (cases "d_ingestion_status x"; auto simp: is_declared_def)+
  then show ?thesis
    using assms
    by (simp add: transition_def Let_def moved_def move_event_def split: option.splits)
qed

lemma transition_refuses:
  assumes "new \<notin> set (allowed_transitions (d_ingestion_status x))"
    and "d_ingestion_status x \<noteq> new \<or> \<not> is_declared new"
  shows "\<exists>e. transition x new org usr reason summary detail s = (Inl e, put_doc x s)"
  using assms by (auto simp: transition_def Let_def)

lemma transition_details_at [simp]:
  "transition_details cur new reason detail ''from'' = Some (JStatus cur)"
  "transition_details cur new reason detail ''to'' = Some (JStatus new)"
  by (simp_all add: transition_details_def Let_def split: option.splits)

end
