(* ===== verification/AuditTrail.thy ===== *)
theory AuditTrail
  imports IngestionState
begin

text \<open>
  The audit trail of a document and the invariant \<open>lifecycle_ok\<close>: the audited transitions
  of every document form a path of \<open>ALLOWED_TRANSITIONS\<close> from an upload state to its
  current status. One preservation lemma per kind of database write; the locale
  \<open>status_operation\<close> lifts the invariant to sequences of handler runs, and is interpreted
  by every component that changes a status.
\<close>

section \<open>Trails\<close>

definition status_at :: "details \<Rightarrow> string \<Rightarrow> ingestion_status" where
  "status_at m k = (case m k of Some (JStatus st) \<Rightarrow> st | _ \<Rightarrow> UnknownStatus [])"

definition is_move_of :: "uuid \<Rightarrow> audit_event \<Rightarrow> bool" where
  "is_move_of i e \<longleftrightarrow> ev_action e = transition_action \<and> ev_entity_id e = i"

definition trail :: "uuid \<Rightarrow> audit_event list \<Rightarrow> (ingestion_status \<times> ingestion_status) list" where
  "trail i evs = map (\<lambda>e. (status_at (ev_details e) ''from'', status_at (ev_details e) ''to''))
                     (filter (is_move_of i) evs)"

fun trail_path ::
  "ingestion_status \<Rightarrow> (ingestion_status \<times> ingestion_status) list \<Rightarrow> ingestion_status \<Rightarrow> bool"
where
  "trail_path a [] b = (a = b)"
| "trail_path a ((f, t) # r) b = (f = a \<and> t \<in> set (allowed_transitions f) \<and> trail_path t r b)"

definition start_status :: "ingestion_status \<Rightarrow> bool" where
  "start_status st \<longleftrightarrow> st = QUARANTINED \<or> st = LEGACY_UNVERIFIED"

lemma trail_Nil [simp]: "trail i [] = []"
  by (simp add: trail_def)

lemma trail_append [simp]: "trail i (l @ m) = trail i l @ trail i m"
  by (simp add: trail_def)

lemma trail_other: "\<not> is_move_of i e \<Longrightarrow> trail i [e] = []"
  by (simp add: trail_def)

lemma trail_move_event:
  "trail i [move_event x new org usr reason detail] =
     (if i = d_id x then [(d_ingestion_status x, new)] else [])"
  by (auto simp: trail_def is_move_of_def move_event_def status_at_def)

lemma trail_path_snoc:
  "trail_path a l b \<Longrightarrow> t \<in> set (allowed_transitions b) \<Longrightarrow> trail_path a (l @ [(b, t)]) t"
  by (induction a l b rule: trail_path.induct) auto

lemma trail_path_append:
  "trail_path a (l @ m) c \<longleftrightarrow> (\<exists>b. trail_path a l b \<and> trail_path b m c)"
  by (induction a l c rule: trail_path.induct) auto

section \<open>The invariant\<close>

definition lifecycle_ok :: "db \<Rightarrow> bool" where
  "lifecycle_ok d \<longleftrightarrow> keyed d \<and>
     (\<forall>i x. documents d i = Some x \<longrightarrow>
        (\<exists>st. start_status st \<and> trail_path st (trail i (audit d)) (d_ingestion_status x))) \<and>
     (\<forall>i. documents d i = None \<longrightarrow> trail i (audit d) = [])"

text \<open>A session is fine when what is committed and what the open transaction sees are.\<close>

definition holds :: "(db \<Rightarrow> bool) \<Rightarrow> sess \<Rightarrow> bool" where
  "holds I s \<longleftrightarrow> I (stored s) \<and> I (work s)"

abbreviation sess_ok :: "sess \<Rightarrow> bool" where
  "sess_ok \<equiv> holds lifecycle_ok"

lemmas sess_ok_def = holds_def [of lifecycle_ok]

lemma holds_simps [simp]:
  "holds I s \<Longrightarrow> holds I (commit s)" "holds I s \<Longrightarrow> holds I (rollback s)"
  "I d \<Longrightarrow> holds I (open_session d)" "holds I (publish j s) = holds I s"
  by (simp_all add: holds_def)

lemma holds_stored: "holds I s \<Longrightarrow> I (stored s)"
  and holds_work: "holds I s \<Longrightarrow> I (work s)"
  by (simp_all add: holds_def)

lemma and_then_keeps:
  assumes "holds I (snd r)" and "\<And>a s. holds I s \<Longrightarrow> holds I (snd (f a s))"
  shows "holds I (snd (and_then r f))"
  using assms by (cases r; cases "fst r") auto

lemma lifecycle_path:
  "lifecycle_ok d \<Longrightarrow> documents d i = Some x \<Longrightarrow>
   \<exists>st. start_status st \<and> trail_path st (trail i (audit d)) (d_ingestion_status x)"
  by (simp add: lifecycle_ok_def)

lemma lifecycle_empty: "lifecycle_ok empty_db"
  by (simp add: lifecycle_ok_def empty_db_def keyed_def)

section \<open>Invariants that every handler keeps\<close>

text \<open>The columns of a document that are written once, when it is uploaded.\<close>

definition same_identity :: "document \<Rightarrow> document \<Rightarrow> bool" where
  [simp]: "same_identity y x \<longleftrightarrow> d_id y = d_id x \<and> d_project_id y = d_project_id x
     \<and> d_doc_role y = d_doc_role x \<and> d_created_by_id y = d_created_by_id x
     \<and> d_sha256_digest y = d_sha256_digest x \<and> d_file_size_bytes y = d_file_size_bytes x
     \<and> d_approval_status y = d_approval_status x"

text \<open>
  A property of databases that survives the three kinds of write the job handlers make:
  attributes of a document other than its identity and status, a move along
  \<open>ALLOWED_TRANSITIONS\<close> with its audit event, and anything outside the documents and their
  audited moves.
\<close>

locale db_invariant =
  fixes I :: "db \<Rightarrow> bool"
  assumes keyed: "I d \<Longrightarrow> keyed d"
    and attributes: "I d \<Longrightarrow> documents d (d_id y) = Some x \<Longrightarrow> same_identity y x \<Longrightarrow>
      d_ingestion_status y = d_ingestion_status x \<Longrightarrow>
      I (d\<lparr>documents := (documents d)(d_id y \<mapsto> y)\<rparr>)"
    and move: "I d \<Longrightarrow> documents d (d_id y) = Some x \<Longrightarrow> same_identity y x \<Longrightarrow>
      d_ingestion_status y = d_ingestion_status x \<Longrightarrow>
      new \<in> set (allowed_transitions (d_ingestion_status y)) \<Longrightarrow>
      I (d\<lparr>documents := (documents d)(d_id y \<mapsto> moved y new reason summary),
           audit := audit d @ [move_event y new org usr reason detail]\<rparr>)"
    and elsewhere: "I d \<Longrightarrow> documents e = documents d \<Longrightarrow>
      (\<And>i. trail i (audit e) = trail i (audit d)) \<Longrightarrow> I e"
begin

lemma row_id: "holds I s \<Longrightarrow> get_doc s i = Some x \<Longrightarrow> d_id x = i"
  using keyed by (auto simp: holds_def keyed_def get_doc_def)

lemma keep_put:
  assumes "holds I s" and "get_doc s (d_id y) = Some x" and "same_identity y x"
    and "d_ingestion_status y = d_ingestion_status x"
  shows "holds I (put_doc y s)"
  using attributes [of "work s" y x] assms by (simp add: holds_def get_doc_def del: same_identity_def)

lemma keep_audit:
  assumes "holds I s" and "ev_action e \<noteq> transition_action"
  shows "holds I (add_audit e s)"
proof -
  have "trail i (audit (work s) @ [e]) = trail i (audit (work s))" for i
    using assms(2) by (simp add: trail_other is_move_of_def)
  then have "I ((work s)\<lparr>audit := audit (work s) @ [e]\<rparr>)"
    using elsewhere [of "work s" "(work s)\<lparr>audit := audit (work s) @ [e]\<rparr>"] assms(1)
    by (simp add: holds_def)
  then show ?thesis using assms(1) by (simp add: holds_def)
qed

text \<open>Writes to the other tables.\<close>

lemma keep_elsewhere:
  assumes "holds I s" and "stored s' = stored s" and "documents (work s') = documents (work s)"
    and "audit (work s') = audit (work s)"
  shows "holds I s'"
  using elsewhere [of "work s" "work s'"] assms by (simp add: holds_def)

lemma keep_moved:
  assumes "holds I s" and "get_doc s (d_id y) = Some x" and "same_identity y x"
    and "d_ingestion_status y = d_ingestion_status x"
    and "new \<in> set (allowed_transitions (d_ingestion_status y))"
  shows "I (work (add_audit (move_event y new org usr reason detail)
                   (put_doc (moved y new reason summary) s)))"
  using move [of "work s" y x new, OF _ _ assms(3-5)] assms(1,2)
  by (simp add: holds_def get_doc_def)

text \<open>\<open>transition\<close>, accepted or refused.\<close>

lemma keep_transition:
  assumes ok: "holds I s" and row: "get_doc s (d_id y) = Some x" and same: "same_identity y x"
    and st: "d_ingestion_status y = d_ingestion_status x"
  shows "holds I (snd (transition y new org usr reason summary detail s))"
proof (cases "new \<in> set (allowed_transitions (d_ingestion_status y))")
  case True
  then show ?thesis
    using keep_moved [OF assms True] by (simp add: transition_moves holds_def)
next
  case False
  have "snd (transition y new org usr reason summary detail s) = put_doc y s"
    using False by (auto simp: transition_def Let_def)
  then show ?thesis using keep_put [OF assms] by simp
qed

text \<open>The usual shape: read a row, change some attributes, move it.\<close>

lemma keep_transition_row:
  assumes "holds I s" and "get_doc s i = Some x" and "same_identity y x"
    and "d_ingestion_status y = d_ingestion_status x"
  shows "holds I (snd (transition y new org usr reason summary detail s))"
  using keep_transition [OF assms(1), of y x] row_id [OF assms(1,2)] assms by simp

lemma keep_put_row:
  assumes "holds I s" and "get_doc s i = Some x" and "same_identity y x"
    and "d_ingestion_status y = d_ingestion_status x"
  shows "holds I (put_doc y s)"
  using keep_put [OF assms(1), of y x] row_id [OF assms(1,2)] assms by simp

end

text \<open>The lifecycle is such an invariant,\<close>

lemma lifecycle_moved:
  assumes ok: "lifecycle_ok d" and row: "documents d (d_id y) = Some x"
    and st: "d_ingestion_status y = d_ingestion_status x"
    and al: "new \<in> set (allowed_transitions (d_ingestion_status y))"
  shows "lifecycle_ok (d\<lparr>documents := (documents d)(d_id y \<mapsto> moved y new reason summary),
           audit := audit d @ [move_event y new org usr reason detail]\<rparr>)"
proof -
  obtain a where a: "start_status a"
    "trail_path a (trail (d_id y) (audit d)) (d_ingestion_status y)"
    using lifecycle_path [OF ok row] st by auto
  have "trail_path a (trail (d_id y) (audit d) @ [(d_ingestion_status y, new)]) new"
    using a(2) al by (rule trail_path_snoc)
  with a(1) ok show ?thesis
    by (auto simp: lifecycle_ok_def keyed_def trail_move_event)
qed

interpretation lifecycle: db_invariant lifecycle_ok
proof
  fix d and y x :: document and new reason summary org usr detail
  assume "lifecycle_ok d" "documents d (d_id y) = Some x"
    "d_ingestion_status y = d_ingestion_status x" "new \<in> set (allowed_transitions (d_ingestion_status y))"
  then show "lifecycle_ok (d\<lparr>documents := (documents d)(d_id y \<mapsto> moved y new reason summary),
      audit := audit d @ [move_event y new org usr reason detail]\<rparr>)"
    by (rule lifecycle_moved)
qed (auto simp: lifecycle_ok_def keyed_def)

text \<open>
  and so is having evolved from a given database: no document appears or disappears, their
  identity is constant, and every status is reached through \<open>ALLOWED_TRANSITIONS\<close>. In
  particular a rejection is final.
\<close>

definition moves :: "ingestion_status \<Rightarrow> ingestion_status \<Rightarrow> bool" where
  "moves a b \<longleftrightarrow> b \<in> set (allowed_transitions a)"

definition rejected :: "ingestion_status \<Rightarrow> bool" where
  "rejected st \<longleftrightarrow> st \<in> {REJECTED_TYPE, REJECTED_MALWARE, REJECTED_CONTENT_POLICY}"

lemma rejected_final: "moves\<^sup>*\<^sup>* a b \<Longrightarrow> rejected a \<Longrightarrow> b = a"
  by (erule converse_rtranclpE) (auto simp: moves_def rejected_def)

definition descends :: "document option \<Rightarrow> document option \<Rightarrow> bool" where
  "descends old new = (case (old, new) of
     (None, None) \<Rightarrow> True
   | (Some x, Some y) \<Rightarrow> same_identity y x
       \<and> moves\<^sup>*\<^sup>* (d_ingestion_status x) (d_ingestion_status y)
   | _ \<Rightarrow> False)"

definition evolved :: "db \<Rightarrow> db \<Rightarrow> bool" where
  "evolved d0 d \<longleftrightarrow> keyed d \<and> (\<forall>i. descends (documents d0 i) (documents d i))"

lemma evolved_refl: "keyed d \<Longrightarrow> evolved d d"
  by (auto simp: evolved_def descends_def split: option.splits)

lemma descends_put:
  assumes "descends o0 (Some x)" and "same_identity y x"
    and "d_ingestion_status y = d_ingestion_status x \<or> moves (d_ingestion_status x) (d_ingestion_status y)"
  shows "descends o0 (Some y)"
  using assms by (auto simp: descends_def split: option.splits)

lemma evolved_put:
  assumes ev: "evolved d0 d" and row: "documents d (d_id y) = Some x" and same: "same_identity y x"
    and st: "d_ingestion_status y = d_ingestion_status x
      \<or> moves (d_ingestion_status x) (d_ingestion_status y)"
    and docs: "documents e = (documents d)(d_id y \<mapsto> y)"
  shows "evolved d0 e"
proof -
  have "descends (documents d0 (d_id y)) (Some y)"
    using ev row by (intro descends_put [OF _ same st]) (metis evolved_def)
  then show ?thesis
    using ev by (simp add: evolved_def keyed_def docs)
qed

interpretation evolution: db_invariant "evolved d0" for d0
proof
  show "keyed d" if "evolved d0 d" for d
    using that by (simp add: evolved_def)
  show "evolved d0 (d\<lparr>documents := (documents d)(d_id y \<mapsto> y)\<rparr>)"
    if "evolved d0 d" "documents d (d_id y) = Some x" "same_identity y x"
      "d_ingestion_status y = d_ingestion_status x" for d and x y :: document
    by (rule evolved_put [OF that(1-3)]) (simp_all add: that(4))
  show "evolved d0 (d\<lparr>documents := (documents d)(d_id y \<mapsto> moved y new reason summary),
      audit := audit d @ [move_event y new org usr reason detail]\<rparr>)"
    if "evolved d0 d" "documents d (d_id y) = Some x" "same_identity y x"
      "d_ingestion_status y = d_ingestion_status x"
      "new \<in> set (allowed_transitions (d_ingestion_status y))"
    for d and x y :: document and new reason summary org usr detail
  proof (rule evolved_put [OF that(1), of "moved y new reason summary" x])
    show "d_ingestion_status (moved y new reason summary) = d_ingestion_status x
        \<or> moves (d_ingestion_status x) (d_ingestion_status (moved y new reason summary))"
      using that(4,5) by (simp add: moves_def)
  qed (use that in simp_all)
  show "evolved d0 e" if "evolved d0 d" "documents e = documents d" for d e
    using that by (simp add: evolved_def keyed_def)
qed

text \<open>Inserting a fresh row in an upload state keeps the lifecycle, too.\<close>

lemma sess_ok_insert:
  assumes "sess_ok s" and "get_doc s (d_id y) = None" and "start_status (d_ingestion_status y)"
  shows "sess_ok (put_doc y s)"
  using assms by (fastforce simp: sess_ok_def lifecycle_ok_def get_doc_def keyed_def)

section \<open>The security gate of the lifecycle\<close>

text \<open>The statuses that only a document whose scan came back clean may have.\<close>

definition cleared :: "ingestion_status \<Rightarrow> bool" where
  "cleared st \<longleftrightarrow> st \<in> {CLEAN_PENDING_PROMOTION, PROMOTING, PROMOTION_FAILED, CLEAN, PARSING,
     PARSE_FAILED, COMPLETED}"

lemma only_scan_clears:
  assumes "t \<in> set (allowed_transitions f)" and "cleared t" and "\<not> cleared f"
  shows "f = SCANNING \<and> t = CLEAN_PENDING_PROMOTION"
  using assms by (cases f) (auto simp: cleared_def)

lemma trail_clears:
  "trail_path a l b \<Longrightarrow> \<not> cleared a \<Longrightarrow> cleared b \<Longrightarrow>
   (SCANNING, CLEAN_PENDING_PROMOTION) \<in> set l"
proof (induction a l b rule: trail_path.induct)
  case (1 a b)
  then show ?case by simp
next
  case (2 a f t r b)
  show ?case
  proof (cases "cleared t")
    case True
    with "2.prems" show ?thesis using only_scan_clears [of t f] by auto
  next
    case False
    with 2 show ?thesis by auto
  qed
qed

lemma trail_path_rejected: "trail_path a l b \<Longrightarrow> rejected a \<Longrightarrow> l = [] \<and> b = a"
  by (induction a l b rule: trail_path.induct) (auto simp: rejected_def)

lemma lifecycle_cleared:
  assumes "lifecycle_ok d" and "documents d i = Some x" and "cleared (d_ingestion_status x)"
  shows "(SCANNING, CLEAN_PENDING_PROMOTION) \<in> set (trail i (audit d))"
proof -
  obtain a where "start_status a" "trail_path a (trail i (audit d)) (d_ingestion_status x)"
    using lifecycle_path [OF assms(1,2)] by blast
  moreover have "\<not> cleared a"
    using \<open>start_status a\<close> by (auto simp: start_status_def cleared_def)
  ultimately show ?thesis using assms(3) by (blast intro: trail_clears)
qed

section \<open>Operations that respect the lifecycle\<close>

text \<open>
  What every handler promises: run on a session that satisfies the invariant it leaves one.
  \<open>'e\<close> is what the environment decides for one run (times, replies of services, the
  document the job names).
\<close>

locale status_operation =
  fixes oper :: "'e \<Rightarrow> sess \<Rightarrow> sess"
  assumes keeps: "sess_ok s \<Longrightarrow> sess_ok (oper e s)"
begin

lemma run_keeps: "sess_ok s \<Longrightarrow> sess_ok (fold oper es s)"
  by (induction es arbitrary: s) (auto intro: keeps)

lemma fresh_session: "lifecycle_ok d \<Longrightarrow> lifecycle_ok (stored (oper e (open_session d)))"
  by (simp add: keeps holds_stored)

lemma cleared_was_scanned:
  assumes "lifecycle_ok d" and "documents (stored (oper e (open_session d))) i = Some x"
    and "cleared (d_ingestion_status x)"
  shows "(SCANNING, CLEAN_PENDING_PROMOTION)
     \<in> set (trail i (audit (stored (oper e (open_session d)))))"
  using assms fresh_session by (blast intro: lifecycle_cleared)

end

text \<open>
  The background jobs promise more: they keep every invariant of the kind above, so they
  neither create nor lose documents, never change what an upload recorded about one, and
  never revive a rejected one.
\<close>

locale document_job =
  fixes oper :: "'e \<Rightarrow> sess \<Rightarrow> sess"
  assumes keeps_all: "db_invariant I \<Longrightarrow> holds I s \<Longrightarrow> holds I (oper e s)"
begin

lemma job_evolves:
  assumes "keyed d"
  shows "evolved d (stored (oper e (open_session d)))"
  using keeps_all [OF evolution.db_invariant_axioms, of d "open_session d" e] assms
  by (simp add: evolved_refl holds_stored)

lemma rejected_stays:
  assumes "keyed d" and "documents d i = Some x" and "rejected (d_ingestion_status x)"
  shows "\<exists>y. documents (stored (oper e (open_session d))) i = Some y
    \<and> d_ingestion_status y = d_ingestion_status x"
proof -
  have "descends (Some x) (documents (stored (oper e (open_session d))) i)"
    using job_evolves [OF assms(1), of e] assms(2) unfolding evolved_def by metis
  then show ?thesis using assms(3) by (auto simp: descends_def split: option.splits dest: rejected_final)
qed

end

sublocale document_job \<subseteq> status_operation
  by unfold_locales (rule keeps_all [OF lifecycle.db_invariant_axioms])

end
