(* ===== verification/Bytes.thy ===== *)
theory Bytes
  imports Prelude
begin

text \<open>
  Byte strings: the big-endian length prefix of the INSTREAM protocol, cutting a stream into
  bounded reads, and \<open>bytes.decode('utf-8', errors='replace')\<close> (every maximal ill-formed
  subsequence becomes U+FFFD, as CPython does).
\<close>

section \<open>Length prefixes and chunks\<close>

definition be32 :: "nat \<Rightarrow> bytes" where
  "be32 n = [n div 2 ^ 24 mod 256, n div 2 ^ 16 mod 256, n div 2 ^ 8 mod 256, n mod 256]"

definition un_be32 :: "bytes \<Rightarrow> nat" where
  "un_be32 b = foldl (\<lambda>a x. 256 * a + x) 0 b"

lemma length_be32 [simp]: "length (be32 n) = 4"
  by (simp add: be32_def)

lemma un_be32_be32: "n < 2 ^ 32 \<Longrightarrow> un_be32 (be32 n) = n"
proof -
  assume n: "n < 2 ^ 32"
  have q: "n div 256 div 256 = n div 65536" "n div 65536 div 256 = n div 16777216"
    by (simp_all flip: div_mult2_eq)
  have "n = 256 * (n div 256) + n mod 256"
    "n div 256 = 256 * (n div 65536) + n div 256 mod 256"
    "n div 65536 = 256 * (n div 16777216) + n div 65536 mod 256"
    using mult_div_mod_eq [of 256 n] mult_div_mod_eq [of 256 "n div 256"]
      mult_div_mod_eq [of 256 "n div 65536"] by (simp_all only: q)
  moreover have "n div 16777216 mod 256 = n div 16777216"
    using n by (simp add: less_mult_imp_div_less)
  moreover have "un_be32 (be32 n) = 16777216 * (n div 16777216 mod 256)
      + 65536 * (n div 65536 mod 256) + 256 * (n div 256 mod 256) + n mod 256"
    by (simp add: un_be32_def be32_def)
  ultimately show ?thesis by linarith
qed

text \<open>Reading a stream in pieces of at most \<open>k\<close> bytes until a read returns nothing.\<close>

fun chunks :: "nat \<Rightarrow> 'a list \<Rightarrow> 'a list list" where
  "chunks k xs = (if k = 0 \<or> xs = [] then [] else take k xs # chunks k (drop k xs))"

declare chunks.simps [simp del]

lemma chunks_Nil [simp]: "chunks k [] = []"
  by (simp add: chunks.simps)

lemma concat_chunks: "0 < k \<Longrightarrow> concat (chunks k xs) = xs"
  by (induction k xs rule: chunks.induct) (subst chunks.simps, auto)

lemma chunks_bounds: "c \<in> set (chunks k xs) \<Longrightarrow> c \<noteq> [] \<and> length c \<le> k"
proof (induction k xs rule: chunks.induct)
  case (1 k xs)
  from "1.prems" show ?case
    by (subst (asm) chunks.simps) (use "1.IH" in \<open>auto split: if_splits\<close>)
qed

section \<open>UTF-8\<close>

definition cont :: "nat \<Rightarrow> bool" where
  "cont b \<longleftrightarrow> 128 \<le> b \<and> b \<le> 191"

text \<open>The second bytes that may follow a three- or four-byte lead.\<close>

definition second_ok :: "nat \<Rightarrow> nat \<Rightarrow> bool" where
  "second_ok b0 b1 \<longleftrightarrow>
     (if b0 = 224 then 160 \<le> b1 \<and> b1 \<le> 191
      else if b0 = 237 then 128 \<le> b1 \<and> b1 \<le> 159
      else if b0 = 240 then 144 \<le> b1 \<and> b1 \<le> 191
      else if b0 = 244 then 128 \<le> b1 \<and> b1 \<le> 143
      else cont b1)"

text \<open>One code point and the number of bytes it consumes.\<close>

definition utf8_step :: "nat \<Rightarrow> bytes \<Rightarrow> nat \<times> nat" where
  "utf8_step b0 rest =
     (if b0 < 128 then (b0, 1)
      else if 194 \<le> b0 \<and> b0 \<le> 223 then
        (case rest of
           b1 # _ \<Rightarrow> if cont b1 then ((b0 - 192) * 64 + (b1 - 128), 2) else (65533, 1)
         | _ \<Rightarrow> (65533, 1))
      else if 224 \<le> b0 \<and> b0 \<le> 239 then
        (case rest of
           b1 # r1 \<Rightarrow> if \<not> second_ok b0 b1 then (65533, 1)
             else (case r1 of
                 b2 # _ \<Rightarrow> if cont b2
                   then ((b0 - 224) * 4096 + (b1 - 128) * 64 + (b2 - 128), 3) else (65533, 2)
               | _ \<Rightarrow> (65533, 2))
         | _ \<Rightarrow> (65533, 1))
      else if 240 \<le> b0 \<and> b0 \<le> 244 then
        (case rest of
           b1 # r1 \<Rightarrow> if \<not> second_ok b0 b1 then (65533, 1)
             else (case r1 of
                 b2 # r2 \<Rightarrow> if \<not> cont b2 then (65533, 2)
                   else (case r2 of
                       b3 # _ \<Rightarrow> if cont b3
                         then ((b0 - 240) * 262144 + (b1 - 128) * 4096 + (b2 - 128) * 64
                               + (b3 - 128), 4)
                         else (65533, 3)
                     | _ \<Rightarrow> (65533, 3))
               | _ \<Rightarrow> (65533, 2))
         | _ \<Rightarrow> (65533, 1))
      else (65533, 1))"

function utf8_replace :: "bytes \<Rightarrow> ustr" where
  "utf8_replace [] = []"
| "utf8_replace (b # r) =
     (case utf8_step b r of (c, n) \<Rightarrow> c # utf8_replace (drop (n - 1) r))"
  by pat_completeness auto
termination by (relation "measure length") auto

lemma utf8_step_ascii [simp]: "b < 128 \<Longrightarrow> utf8_step b r = (b, 1)"
  by (simp add: utf8_step_def)

lemma utf8_step_high:
  assumes "\<not> b < 128"
  shows "128 \<le> fst (utf8_step b r)"
proof -
  have two: "128 \<le> (b0 - 192) * 64 + x" if "194 \<le> b0" for b0 x :: nat
    using that by linarith
  have three: "128 \<le> (b0 - 224) * 4096 + (b1 - 128) * 64 + x"
    if "224 \<le> b0" "second_ok b0 b1" for b0 b1 x :: nat
    using that by (cases "b0 = 224") (auto simp: second_ok_def)
  have four: "128 \<le> (b0 - 240) * 262144 + (b1 - 128) * 4096 + x"
    if "240 \<le> b0" "second_ok b0 b1" for b0 b1 x :: nat
    using that by (cases "b0 = 240") (auto simp: second_ok_def)
  show ?thesis
    using assms two three four
    by (auto simp: utf8_step_def add.assoc split: list.splits)
qed

lemma utf8_replace_ascii: "\<forall>b \<in> set bs. b < 128 \<Longrightarrow> utf8_replace bs = bs"
  by (induction bs) auto

text \<open>Text that decodes to pure ASCII was pure ASCII on the wire.\<close>

lemma utf8_replace_ascii_inv:
  "\<forall>c \<in> set (utf8_replace bs). c < 128 \<Longrightarrow> utf8_replace bs = bs"
proof (induction bs rule: utf8_replace.induct)
  case 1
  then show ?case by simp
next
  case (2 b r)
  show ?case
  proof (cases "b < 128")
    case True
    with 2 show ?thesis by simp
  next
    case False
    then have "128 \<le> fst (utf8_step b r)" by (rule utf8_step_high)
    moreover have "fst (utf8_step b r) \<in> set (utf8_replace (b # r))"
      by (cases "utf8_step b r") simp
    ultimately have "fst (utf8_step b r) < 128" using "2.prems" by blast
    with \<open>128 \<le> fst (utf8_step b r)\<close> show ?thesis by linarith
  qed
qed

text \<open>\<open>str.encode("utf-8")\<close> of one code point (text with surrogates, which Python refuses to
  encode, does not reach the code that hashes stored text).\<close>

definition utf8_char :: "nat \<Rightarrow> bytes" where
  "utf8_char c =
     (if c < 128 then [c]
      else if c < 2048 then [192 + c div 64, 128 + c mod 64]
      else if c < 65536 then [224 + c div 4096, 128 + (c div 64) mod 64, 128 + c mod 64]
      else [240 + c div 262144, 128 + (c div 4096) mod 64, 128 + (c div 64) mod 64, 128 + c mod 64])"

definition utf8_encode :: "ustr \<Rightarrow> bytes" where
  "utf8_encode s = concat (map utf8_char s)"

definition scalar :: "nat \<Rightarrow> bool" where
  "scalar c \<longleftrightarrow> c < 55296 \<or> (57344 \<le> c \<and> c < 1114112)"

lemma step_two: "2 \<le> a \<Longrightarrow> a < 32 \<Longrightarrow> d < 64 \<Longrightarrow>
    utf8_step (192 + a) ((128 + d) # r) = (a * 64 + d, 2)"
  by (simp add: utf8_step_def cont_def)

lemma step_three: "a < 16 \<Longrightarrow> second_ok (224 + a) (128 + b) \<Longrightarrow> d < 64 \<Longrightarrow>
    utf8_step (224 + a) ((128 + b) # (128 + d) # r) = (a * 4096 + b * 64 + d, 3)"
  by (simp add: utf8_step_def cont_def)

lemma step_four: "a < 5 \<Longrightarrow> second_ok (240 + a) (128 + b) \<Longrightarrow> d < 64 \<Longrightarrow> e < 64 \<Longrightarrow>
    utf8_step (240 + a) ((128 + b) # (128 + d) # (128 + e) # r) =
      (a * 262144 + b * 4096 + d * 64 + e, 4)"
  by (simp add: utf8_step_def cont_def)

lemma sextets:
  fixes c :: nat
  shows "c = c div 64 * 64 + c mod 64"
    and "c = c div 4096 * 4096 + (c div 64) mod 64 * 64 + c mod 64"
    and "c = c div 262144 * 262144 + (c div 4096) mod 64 * 4096 + (c div 64) mod 64 * 64 + c mod 64"
proof -
  have 1: "c = c div 64 * 64 + c mod 64" by simp
  have 2: "c div 64 = c div 4096 * 64 + (c div 64) mod 64"
    using div_mult_mod_eq [of "c div 64" 64] by (simp add: div_mult2_eq [of c 64 64, simplified])
  have 3: "c div 4096 = c div 262144 * 64 + (c div 4096) mod 64"
    using div_mult_mod_eq [of "c div 4096" 64] by (simp add: div_mult2_eq [of c 4096 64, simplified])
  show "c = c div 64 * 64 + c mod 64" by (rule 1)
  show "c = c div 4096 * 4096 + (c div 64) mod 64 * 64 + c mod 64" using 1 2 by linarith
  show "c = c div 262144 * 262144 + (c div 4096) mod 64 * 4096 + (c div 64) mod 64 * 64 + c mod 64"
    using 1 2 3 by linarith
qed

lemma utf8_two:
  assumes "128 \<le> c" and "c < 2048"
  shows "utf8_replace (utf8_char c @ r) = c # utf8_replace r"
proof -
  have "2 \<le> c div 64" "c div 64 < 32" using assms by linarith+
  then show ?thesis
    using assms sextets(1) [of c] by (simp add: utf8_char_def step_two)
qed

lemma utf8_three:
  assumes "2048 \<le> c" and "c < 65536" and "scalar c"
  shows "utf8_replace (utf8_char c @ r) = c # utf8_replace r"
proof -
  define a b d where "a = c div 4096" and "b = (c div 64) mod 64" and "d = c mod 64"
  have c: "c = a * 4096 + b * 64 + d" unfolding a_def b_def d_def by (rule sextets)
  have bounds: "b < 64" "d < 64" "a < 16"
    using assms(2) by (simp_all add: a_def b_def d_def)
  have "second_ok (224 + a) (128 + b)"
    using c bounds assms by (auto simp: second_ok_def cont_def scalar_def)
  then have "utf8_step (224 + a) ((128 + b) # (128 + d) # r) = (c, 3)"
    using step_three bounds c by simp
  then have "utf8_replace ((224 + a) # (128 + b) # (128 + d) # r) = c # utf8_replace r"
    by simp
  moreover have "utf8_char c = [224 + a, 128 + b, 128 + d]"
    unfolding a_def b_def d_def utf8_char_def using assms by simp
  ultimately show ?thesis by (simp only: append_Cons append_Nil)
qed

lemma utf8_four:
  assumes "65536 \<le> c" and "scalar c"
  shows "utf8_replace (utf8_char c @ r) = c # utf8_replace r"
proof -
  have c2: "c < 1114112" using assms by (auto simp: scalar_def)
  define a b d e where "a = c div 262144" and "b = (c div 4096) mod 64" and "d = (c div 64) mod 64"
    and "e = c mod 64"
  have c: "c = a * 262144 + b * 4096 + d * 64 + e"
    unfolding a_def b_def d_def e_def by (rule sextets)
  have bounds: "b < 64" "d < 64" "e < 64" "a < 5"
    using c2 by (simp_all add: a_def b_def d_def e_def)
  have "second_ok (240 + a) (128 + b)"
    using c bounds assms c2 by (auto simp: second_ok_def cont_def)
  then have "utf8_step (240 + a) ((128 + b) # (128 + d) # (128 + e) # r) = (c, 4)"
    using step_four bounds c by simp
  then have "utf8_replace ((240 + a) # (128 + b) # (128 + d) # (128 + e) # r) = c # utf8_replace r"
    by simp
  moreover have "utf8_char c = [240 + a, 128 + b, 128 + d, 128 + e]"
    unfolding a_def b_def d_def e_def utf8_char_def using assms by simp
  ultimately show ?thesis by (simp only: append_Cons append_Nil)
qed

lemma utf8_roundtrip: "\<forall>c \<in> set s. scalar c \<Longrightarrow> utf8_replace (utf8_encode s) = s"
proof (induction s)
  case Nil
  then show ?case by (simp add: utf8_encode_def)
next
  case (Cons c s)
  consider "c < 128" | "128 \<le> c" "c < 2048" | "2048 \<le> c" "c < 65536" | "65536 \<le> c" by linarith
  then have "utf8_replace (utf8_char c @ utf8_encode s) = c # utf8_replace (utf8_encode s)"
  proof cases
    case 1
    then show ?thesis by (simp add: utf8_char_def)
  qed (use Cons.prems in \<open>auto intro: utf8_two utf8_three utf8_four\<close>)
  with Cons show ?case by (simp add: utf8_encode_def)
qed

text \<open>Encoding loses nothing, so equal digests of encoded text speak about the text itself.\<close>

lemma utf8_encode_inj:
  "\<forall>c \<in> set s. scalar c \<Longrightarrow> \<forall>c \<in> set t. scalar c \<Longrightarrow> utf8_encode s = utf8_encode t \<Longrightarrow> s = t"
  by (metis utf8_roundtrip)

end
