(* ===== verification/FileStore.thy ===== *)
theory FileStore
  imports Schema Bytes
begin

text \<open>
  \<open>app/services/quarantine_storage.py\<close>: opaque storage identifiers, path resolution and the
  streaming write of an upload; over a directory modelled as a map from file names to nodes.
  Also the parts of \<open>pathlib\<close> and \<open>uuid\<close> the storage code uses.
\<close>

section \<open>Directories\<close>

text \<open>
  A symbolic link records whether its target resolves to a direct child of the directory that
  holds it, and the content it leads to (\<open>None\<close> when dangling).
\<close>

datatype node = RegularFile bytes | Symlink bool "bytes option" | SubDirectory

type_synonym dir = "string \<rightharpoonup> node"

definition path_exists :: "dir \<Rightarrow> string \<Rightarrow> bool" where
  "path_exists d n = (case d n of None \<Rightarrow> False | Some (Symlink _ None) \<Rightarrow> False | Some _ \<Rightarrow> True)"

definition is_symlink :: "dir \<Rightarrow> string \<Rightarrow> bool" where
  "is_symlink d n = (case d n of Some (Symlink _ _) \<Rightarrow> True | _ \<Rightarrow> False)"

definition is_file :: "dir \<Rightarrow> string \<Rightarrow> bool" where
  "is_file d n = (case d n of Some (RegularFile _) \<Rightarrow> True | Some (Symlink _ (Some _)) \<Rightarrow> True
                  | _ \<Rightarrow> False)"

definition file_content :: "dir \<Rightarrow> string \<Rightarrow> bytes option" where
  "file_content d n = (case d n of Some (RegularFile b) \<Rightarrow> Some b | Some (Symlink _ c) \<Rightarrow> c
                       | _ \<Rightarrow> None)"

section \<open>pathlib\<close>

fun split_on :: "'a \<Rightarrow> 'a list \<Rightarrow> 'a list list" where
  "split_on c [] = [[]]"
| "split_on c (x # xs) =
     (if x = c then [] # split_on c xs
      else case split_on c xs of [] \<Rightarrow> [[x]] | y # ys \<Rightarrow> (x # y) # ys)"

text \<open>\<open>Path(p).name\<close> and \<open>Path(p).stem\<close>.\<close>

definition path_name :: "string \<Rightarrow> string" where
  "path_name p = (case rev (filter (\<lambda>c. c \<noteq> [] \<and> c \<noteq> ''.'') (split_on CHR ''/'' p)) of
                    [] \<Rightarrow> [] | c # _ \<Rightarrow> c)"

definition path_stem :: "string \<Rightarrow> string" where
  "path_stem p =
     (let n = path_name p; tail = takeWhile (\<lambda>c. c \<noteq> CHR ''.'') (rev n);
          i = length n - length tail - 1
      in if CHR ''.'' \<in> set n \<and> 0 < i \<and> i < length n - 1 then take i n else n)"

definition removesuffix :: "string \<Rightarrow> string \<Rightarrow> string" where
  "removesuffix s q = (if q \<noteq> [] \<and> length q \<le> length s \<and> drop (length s - length q) s = q
                       then take (length s - length q) s else s)"

text \<open>A name that is one path component below its directory.\<close>

definition simple_name :: "string \<Rightarrow> bool" where
  "simple_name n \<longleftrightarrow> n \<noteq> [] \<and> n \<noteq> ''.'' \<and> n \<noteq> ''..'' \<and> CHR ''/'' \<notin> set n"

section \<open>UUID text\<close>

definition hex_digit :: "nat \<Rightarrow> char" where
  "hex_digit n = (if n < 10 then char_of (48 + n) else char_of (87 + n))"

definition hex_value :: "char \<Rightarrow> nat option" where
  "hex_value c = (let n = of_char c in
     if 48 \<le> n \<and> n \<le> 57 then Some (n - 48)
     else if 97 \<le> n \<and> n \<le> 102 then Some (n - 87)
     else if 65 \<le> n \<and> n \<le> 70 then Some (n - 55) else None)"

fun hex_fixed :: "nat \<Rightarrow> nat \<Rightarrow> string" where
  "hex_fixed 0 v = []"
| "hex_fixed (Suc k) v = hex_fixed k (v div 16) @ [hex_digit (v mod 16)]"

text \<open>\<open>str(uuid)\<close>: thirty-two lower-case hexadecimal digits in groups 8-4-4-4-12.\<close>

definition uuid_str :: "uuid \<Rightarrow> string" where
  "uuid_str v = (let h = hex_fixed 32 v in
     slice h 0 8 @ ''-'' @ slice h 8 12 @ ''-'' @ slice h 12 16 @ ''-'' @ slice h 16 20 @ ''-''
     @ slice h 20 32)"

fun delete_all :: "string \<Rightarrow> string \<Rightarrow> string" where
  "delete_all q [] = []"
| "delete_all q (c # s) =
     (if q \<noteq> [] \<and> take (length q) (c # s) = q then delete_all q (drop (length q) (c # s))
      else c # delete_all q s)"

definition strip_chars :: "(char \<Rightarrow> bool) \<Rightarrow> string \<Rightarrow> string" where
  "strip_chars P s = rev (dropWhile P (rev (dropWhile P s)))"

text \<open>\<open>int(h, 16)\<close>: surrounding white space, a plus sign, a \<open>0x\<close> prefix and single
  underscores between digits are accepted (a minus sign has been removed before).\<close>

fun hex_run :: "nat \<Rightarrow> string \<Rightarrow> nat option" where
  "hex_run acc [] = Some acc"
| "hex_run acc (c # s) =
     (if c = CHR ''_'' then
        (case s of [] \<Rightarrow> None
         | d # s' \<Rightarrow> (case hex_value d of None \<Rightarrow> None | Some v \<Rightarrow> hex_run (16 * acc + v) s'))
      else case hex_value c of None \<Rightarrow> None | Some v \<Rightarrow> hex_run (16 * acc + v) s)"

definition py_int16 :: "string \<Rightarrow> nat option" where
  "py_int16 h =
     (let t = strip_chars (\<lambda>c. is_space (of_char c)) h;
          t1 = (case t of c # r \<Rightarrow> if c = CHR ''+'' then r else t | [] \<Rightarrow> t);
          prefixed = (take 2 t1 = ''0x'' \<or> take 2 t1 = ''0X'');
          t2 = (if prefixed then drop 2 t1 else t1)
      in case t2 of [] \<Rightarrow> None
         | c # r \<Rightarrow> if c = CHR ''_'' \<and> \<not> prefixed then None else hex_run 0 t2)"

definition parse_uuid :: "string \<Rightarrow> uuid option" where
  "parse_uuid s =
     (let h = delete_all ''-'' (strip_chars (\<lambda>c. c = CHR ''{'' \<or> c = CHR ''}'')
                (delete_all ''uuid:'' (delete_all ''urn:'' s)))
      in if length h = 32 then py_int16 h else None)"

lemma length_hex_fixed [simp]: "length (hex_fixed k v) = k"
  by (induction k arbitrary: v) auto

lemma hex_value_digit: "n < 16 \<Longrightarrow> hex_value (hex_digit n) = Some n"
  by (auto simp: hex_value_def hex_digit_def Let_def)

text \<open>The alphabet of printed identifiers.\<close>

definition hex_char :: "char \<Rightarrow> bool" where
  "hex_char c \<longleftrightarrow> (48 \<le> (of_char c :: nat) \<and> (of_char c :: nat) \<le> 57)
     \<or> (97 \<le> (of_char c :: nat) \<and> (of_char c :: nat) \<le> 102)"

lemma hex_char_digit: "n < 16 \<Longrightarrow> hex_char (hex_digit n)"
  by (auto simp: hex_char_def hex_digit_def)

lemma hex_fixed_chars: "c \<in> set (hex_fixed k v) \<Longrightarrow> hex_char c"
  by (induction k arbitrary: v) (auto simp: hex_char_digit)

lemma hex_run_append:
  "\<forall>c \<in> set a. hex_char c \<Longrightarrow> hex_run acc (a @ b) =
   (case hex_run acc a of None \<Rightarrow> None | Some v \<Rightarrow> hex_run v b)"
proof (induction a arbitrary: acc)
  case Nil
  then show ?case by simp
next
  case (Cons c a)
  then have "c \<noteq> CHR ''_''" by (auto simp: hex_char_def)
  with Cons show ?case by (auto split: option.splits)
qed

lemma hex_run_fixed: "v < 16 ^ k \<Longrightarrow> hex_run acc (hex_fixed k v) = Some (acc * 16 ^ k + v)"
proof (induction k arbitrary: v)
  case 0
  then show ?case by simp
next
  case (Suc k)
  have v: "v div 16 < 16 ^ k" using Suc.prems by (simp add: less_mult_imp_div_less mult.commute)
  have "hex_digit (v mod 16) \<noteq> CHR ''_''"
    using hex_char_digit [of "v mod 16"] by (auto simp: hex_char_def)
  then show ?case
    using Suc.IH [OF v] hex_fixed_chars [of _ k "v div 16"]
    by (simp add: hex_run_append hex_value_digit algebra_simps)
qed

lemma delete_all_absent:
  "q \<noteq> [] \<Longrightarrow> hd q \<notin> set s \<Longrightarrow> delete_all q s = s"
proof (induction s)
  case Nil
  then show ?case by simp
next
  case (Cons c s)
  then have "take (length q) (c # s) \<noteq> q" by (cases q) auto
  with Cons show ?case by simp
qed

lemma delete_dash_append: "delete_all ''-'' (a @ b) = delete_all ''-'' a @ delete_all ''-'' b"
  by (induction a) auto

lemma strip_chars_absent: "\<forall>c \<in> set s. \<not> P c \<Longrightarrow> strip_chars P s = s"
proof -
  assume a: "\<forall>c \<in> set s. \<not> P c"
  then have "dropWhile P s = s" by (cases s) auto
  moreover have "dropWhile P (rev s) = rev s" using a by (cases "rev s") auto
  ultimately show ?thesis by (simp add: strip_chars_def)
qed

lemma uuid_str_chars: "c \<in> set (uuid_str v) \<Longrightarrow> hex_char c \<or> c = CHR ''-''"
  using slice_subset [of "hex_fixed 32 v"] hex_fixed_chars [of _ 32 v]
  by (auto simp: uuid_str_def Let_def)

lemma slices_32:
  assumes "length h = 32"
  shows "slice h 0 8 @ slice h 8 12 @ slice h 12 16 @ slice h 16 20 @ slice h 20 32 = h"
proof -
  have cut: "slice h a b @ slice h b c = slice h a c"
    if "a \<le> b" "b \<le> c" "b \<le> length h" for a b c
  proof -
    have "take c h = take b h @ drop b (take c h)"
      using that(2) by (metis append_take_drop_id min.absorb1 take_take)
    then have "drop a (take c h) = drop a (take b h @ drop b (take c h))" by simp
    also have "\<dots> = drop a (take b h) @ drop b (take c h)" using that by simp
    finally show ?thesis by (simp add: slice_def)
  qed
  have "slice h 0 32 = h" using assms by (simp add: slice_def)
  then show ?thesis using assms by (simp add: cut)
qed

lemma py_int16_plain:
  assumes chars: "\<And>c. c \<in> set h \<Longrightarrow> hex_char c" and ne: "h \<noteq> []" and run: "hex_run 0 h = Some v"
  shows "py_int16 h = Some v"
proof -
  have 1: "strip_chars (\<lambda>c. is_space (of_char c)) h = h"
    by (intro strip_chars_absent) (auto dest!: chars simp: hex_char_def is_space_def)
  have 2: "(case h of c # r \<Rightarrow> if c = CHR ''+'' then r else h | [] \<Rightarrow> h) = h"
    using chars [of "CHR ''+''"] by (auto simp: hex_char_def split: list.splits)
  have x: "CHR ''x'' \<notin> set h" "CHR ''X'' \<notin> set h"
    using chars [of "CHR ''x''"] chars [of "CHR ''X''"] by (auto simp: hex_char_def)
  have 3: "take 2 h = ''0x'' \<longleftrightarrow> False" "take 2 h = ''0X'' \<longleftrightarrow> False"
    using x by (metis in_set_takeD list.set_intros)+
  have 4: "(case h of [] \<Rightarrow> None | c # r \<Rightarrow> if c = CHR ''_'' \<and> \<not> False then None else hex_run 0 h)
      = Some v"
    using ne run chars [of "CHR ''_''"] by (auto simp: hex_char_def split: list.splits)
  show ?thesis
    unfolding py_int16_def Let_def 1 2 3 using 4 by (simp only: disj_not1 simp_thms if_False)
qed

theorem parse_uuid_str: "v < 2 ^ 128 \<Longrightarrow> parse_uuid (uuid_str v) = Some v"
proof -
  assume v: "v < 2 ^ 128"
  let ?h = "hex_fixed 32 v"
  have chars: "hex_char c \<or> c = CHR ''-''" if "c \<in> set (uuid_str v)" for c
    using that by (rule uuid_str_chars)
  have 1: "delete_all ''urn:'' (uuid_str v) = uuid_str v" "delete_all ''uuid:'' (uuid_str v) = uuid_str v"
    using chars [of "CHR ''u''"] by (auto intro!: delete_all_absent simp: hex_char_def)
  have 2: "strip_chars (\<lambda>c. c = CHR ''{'' \<or> c = CHR ''}'') (uuid_str v) = uuid_str v"
    using chars [of "CHR ''{''"] chars [of "CHR ''}''"]
    by (intro strip_chars_absent) (auto simp: hex_char_def)
  have nodash: "delete_all ''-'' (slice ?h a b) = slice ?h a b" for a b
    using slice_subset [of ?h a b] hex_fixed_chars [of "CHR ''-''" 32 v]
    by (intro delete_all_absent) (auto simp: hex_char_def)
  have 3: "delete_all ''-'' (uuid_str v) = ?h"
    using slices_32 [of ?h] by (simp add: uuid_str_def Let_def delete_dash_append nodash)
  have "?h \<noteq> []" by (metis length_hex_fixed list.size(3) zero_neq_numeral)
  then have "py_int16 ?h = Some v"
    using v by (intro py_int16_plain) (auto intro: hex_fixed_chars simp: hex_run_fixed)
  then show ?thesis by (simp add: parse_uuid_def Let_def 1 2 3)
qed

section \<open>Resolving a storage identifier\<close>

text \<open>The argument is a \<open>uuid.UUID\<close> or anything that is turned into text first.\<close>

datatype storage_ref = RefUuid uuid | RefText string

definition quarantine_name :: "uuid \<Rightarrow> string" where
  "quarantine_name i = uuid_str i @ ''.upload''"

definition partial_name :: "string \<Rightarrow> string" where
  "partial_name n = n @ ''.partial''"

text \<open>\<open>candidate.parent == root\<close> for the resolved path of an entry.\<close>

definition resolves_in_root :: "dir \<Rightarrow> string \<Rightarrow> bool" where
  "resolves_in_root d n = (case d n of Some (Symlink inside _) \<Rightarrow> inside | _ \<Rightarrow> True)"

definition resolve_quarantine_path :: "dir \<Rightarrow> storage_ref \<Rightarrow> exc + string" where
  "resolve_quarantine_path d ref =
     (case (case ref of RefUuid i \<Rightarrow> Some i | RefText t \<Rightarrow> parse_uuid t) of
        None \<Rightarrow> Inl (QuarantineStorageError ''INVALID_IDENTIFIER'')
      | Some i \<Rightarrow>
          let n = quarantine_name i
          in if is_symlink d n then Inl (QuarantineStorageError ''SYMLINK_REJECTED'')
             else if \<not> resolves_in_root d n then Inl (QuarantineStorageError ''PATH_ESCAPE'')
             else Inr n)"

lemma resolve_ok:
  "resolve_quarantine_path d ref = Inr n \<Longrightarrow>
   (\<exists>i. n = quarantine_name i) \<and> \<not> is_symlink d n"
  by (auto simp: resolve_quarantine_path_def Let_def split: storage_ref.splits option.splits if_splits)

lemma resolve_plain:
  "\<not> is_symlink d (quarantine_name i) \<Longrightarrow>
   resolve_quarantine_path d (RefUuid i) = Inr (quarantine_name i)"
  by (auto simp: resolve_quarantine_path_def resolves_in_root_def is_symlink_def Let_def
      split: option.splits node.splits)

text \<open>The identifier is read back from the stored path.\<close>

lemma split_on_absent: "c \<notin> set s \<Longrightarrow> split_on c s = [s]"
  by (induction s) auto

lemma split_on_not_Nil: "split_on c s \<noteq> []"
  by (induction s) (auto split: list.splits)

lemma split_on_append: "split_on c (a @ c # b) = split_on c a @ split_on c b"
proof (induction a)
  case (Cons x a)
  then show ?case using split_on_not_Nil [of c a] by (cases "split_on c a") auto
qed simp

lemma path_name_simple: "simple_name n \<Longrightarrow> path_name n = n"
  and path_name_below: "simple_name n \<Longrightarrow> path_name (dir @ CHR ''/'' # n) = n"
  by (simp_all add: path_name_def simple_name_def split_on_append split_on_absent)

lemma uuid_str_length: "length (uuid_str v) = 36"
  by (simp add: uuid_str_def Let_def)

lemma quarantine_name_simple: "simple_name (quarantine_name i)"
proof -
  have "length (quarantine_name i) = 43" by (simp add: quarantine_name_def uuid_str_length)
  moreover have "CHR ''/'' \<notin> set (quarantine_name i)"
    using uuid_str_chars [of "CHR ''/''" i] by (auto simp: quarantine_name_def hex_char_def)
  ultimately show ?thesis by (auto simp: simple_name_def)
qed

lemma stem_of_name:
  assumes "simple_name n" and "n = a @ CHR ''.'' # b" and "a \<noteq> []" and "b \<noteq> []" and "CHR ''.'' \<notin> set b"
  shows "path_stem n = a" and "path_stem (dir @ CHR ''/'' # n) = a"
proof -
  have "takeWhile (\<lambda>c. c \<noteq> CHR ''.'') (rev n) = rev b"
    using assms(2,5) by (simp add: takeWhile_append)
  then show "path_stem n = a" and "path_stem (dir @ CHR ''/'' # n) = a"
    using assms by (simp_all add: path_stem_def path_name_simple path_name_below Let_def)
qed

lemma path_stem_quarantine [simp]:
  "path_stem (quarantine_name i) = uuid_str i"
  "path_stem (dir @ CHR ''/'' # quarantine_name i) = uuid_str i"
proof -
  have ne: "uuid_str i \<noteq> []" using uuid_str_length [of i] by auto
  have "quarantine_name i = uuid_str i @ CHR ''.'' # ''upload''" by (simp add: quarantine_name_def)
  note stem = stem_of_name [OF quarantine_name_simple this ne]
  show "path_stem (quarantine_name i) = uuid_str i" by (rule stem) simp_all
  show "path_stem (dir @ CHR ''/'' # quarantine_name i) = uuid_str i" by (rule stem) simp_all
qed

lemma resolve_text:
  "i < 2 ^ 128 \<Longrightarrow> resolve_quarantine_path d (RefText (uuid_str i)) =
   resolve_quarantine_path d (RefUuid i)"
  by (simp add: resolve_quarantine_path_def parse_uuid_str)

section \<open>Streaming an upload to quarantine\<close>

text \<open>
  The outside world of one upload: the results of the successive reads (\<open>None\<close> raises; the
  end of the list is end of file), whether the creating \<open>open\<close>, each \<open>write\<close>, the
  flush/fsync and the rename succeed, and the identifier \<open>uuid4\<close> draws.
\<close>

record upload_env =
  up_reads :: "bytes option list"
  up_id :: uuid
  up_open_fails :: bool
  up_write_ok :: "nat \<Rightarrow> bool"
  up_flush_ok :: bool
  up_rename_ok :: bool

record received =
  rv_total :: nat
  rv_data :: bytes
  rv_header :: bytes
  rv_tail :: bytes

record write_result =
  wr_storage_id :: uuid
  wr_storage_path :: string
  wr_sha256_digest :: string
  wr_byte_size :: nat
  wr_header_bytes :: bytes
  wr_tail_bytes :: bytes

definition window :: nat where "window = 1024"

definition last_bytes :: "nat \<Rightarrow> bytes \<Rightarrow> bytes" where
  "last_bytes n b = drop (length b - n) b"

text \<open>One turn of the read loop; \<open>rv_data\<close> is what \<open>hasher\<close> and \<open>handle\<close> received.\<close>

fun receive ::
  "nat \<Rightarrow> (nat \<Rightarrow> bool) \<Rightarrow> nat \<Rightarrow> bytes option list \<Rightarrow> received \<Rightarrow> string + received" where
  "receive limit wok k [] r = Inr r"
| "receive limit wok k (None # cs) r = Inl ''READ_FAILURE''"
| "receive limit wok k (Some c # cs) r =
     (if c = [] then Inr r
      else if rv_total r + length c > limit then Inl ''TOO_LARGE''
      else if \<not> wok k then Inl ''WRITE_FAILURE''
      else receive limit wok (Suc k) cs
        \<lparr>rv_total = rv_total r + length c, rv_data = rv_data r @ c,
         rv_header = (if length (rv_header r) < window
                      then rv_header r @ take (window - length (rv_header r)) c
                      else rv_header r),
         rv_tail = last_bytes window (rv_tail r @ c)\<rparr>)"

definition nothing_received :: received where
  "nothing_received = \<lparr>rv_total = 0, rv_data = [], rv_header = [], rv_tail = []\<rparr>"

text \<open>After the loop: empty-file and collision checks, then the rename.\<close>

definition publish_upload ::
  "(bytes \<Rightarrow> string) \<Rightarrow> upload_env \<Rightarrow> string \<Rightarrow> received \<Rightarrow> dir \<Rightarrow> (string + write_result) \<times> dir"
where
  "publish_upload H env n r d =
     (if rv_total r = 0 then (Inl ''EMPTY_FILE'', d)
      else if path_exists d n then (Inl ''IDENTIFIER_COLLISION'', d)
      else if \<not> up_rename_ok env then (Inl ''WRITE_FAILURE'', d)
      else (Inr \<lparr>wr_storage_id = up_id env, wr_storage_path = n,
                 wr_sha256_digest = H (rv_data r), wr_byte_size = rv_total r,
                 wr_header_bytes = rv_header r, wr_tail_bytes = rv_tail r\<rparr>,
            d(n := d (partial_name n), partial_name n := None)))"

text \<open>The whole function; the failing branches unlink the partial file they created.\<close>

definition stream_upload_to_quarantine ::
  "(bytes \<Rightarrow> string) \<Rightarrow> nat \<Rightarrow> upload_env \<Rightarrow> dir \<Rightarrow> (exc + write_result) \<times> dir" where
  "stream_upload_to_quarantine H limit env d =
     (case resolve_quarantine_path d (RefUuid (up_id env)) of
        Inl e \<Rightarrow> (Inl e, d)
      | Inr n \<Rightarrow>
          let p = partial_name n in
          if d p \<noteq> None then (Inl (QuarantineStorageError ''IDENTIFIER_COLLISION''), d)
          else if up_open_fails env then (Inl (QuarantineStorageError ''WRITE_FAILURE''), d)
          else
            (case receive limit (up_write_ok env) 0 (up_reads env) nothing_received of
               Inl code \<Rightarrow> (Inl (QuarantineStorageError code), d(p := None))
             | Inr r \<Rightarrow>
                 if \<not> up_flush_ok env
                 then (Inl (QuarantineStorageError ''WRITE_FAILURE''), d(p := None))
                 else
                   (case publish_upload H env n r (d(p \<mapsto> RegularFile (rv_data r))) of
                      (Inl code, d') \<Rightarrow> (Inl (QuarantineStorageError code), d'(p := None))
                    | (Inr w, d') \<Rightarrow> (Inr w, d'))))"

definition delete_quarantine_file :: "uuid \<Rightarrow> dir \<Rightarrow> (exc + unit) \<times> dir" where
  "delete_quarantine_file i d =
     (case resolve_quarantine_path d (RefUuid i) of
        Inl e \<Rightarrow> (Inl e, d)
      | Inr n \<Rightarrow> (Inr (), d(n := None)))"

text \<open>What the loop maintains.\<close>

definition received_ok :: "nat \<Rightarrow> received \<Rightarrow> bool" where
  "received_ok limit r \<longleftrightarrow> rv_total r = length (rv_data r) \<and> rv_total r \<le> limit
     \<and> rv_header r = take window (rv_data r) \<and> rv_tail r = last_bytes window (rv_data r)"

fun sent :: "bytes option list \<Rightarrow> bytes" where
  "sent [] = []"
| "sent (None # cs) = []"
| "sent (Some c # cs) = (if c = [] then [] else c @ sent cs)"

lemma last_bytes_append: "last_bytes n (last_bytes n a @ c) = last_bytes n (a @ c)"
proof -
  have "length a + length c - (length a - n + n) + (length a - n) = length a + length c - n"
    if "n \<le> length a" using that by simp
  then show ?thesis by (cases "n \<le> length a") (auto simp: last_bytes_def)
qed

lemma receive_ok:
  "receive limit wok k cs r = Inr r' \<Longrightarrow> received_ok limit r \<Longrightarrow>
   received_ok limit r' \<and> rv_data r' = rv_data r @ sent cs"
proof (induction limit wok k cs r rule: receive.induct)
  case (3 limit wok k c cs r)
  let ?r = "\<lparr>rv_total = rv_total r + length c, rv_data = rv_data r @ c,
         rv_header = (if length (rv_header r) < window
                      then rv_header r @ take (window - length (rv_header r)) c
                      else rv_header r),
         rv_tail = last_bytes window (rv_tail r @ c)\<rparr>"
  show ?case
  proof (cases "c = []")
    case True
    with "3.prems" show ?thesis by simp
  next
    case False
    with "3.prems" have g: "\<not> rv_total r + length c > limit" "wok k"
      "receive limit wok (Suc k) cs ?r = Inr r'"
      by (auto split: if_splits)
    have "received_ok limit ?r"
      using "3.prems"(2) g(1) by (auto simp: received_ok_def last_bytes_append)
    with 3(1) [OF False g(1)] g False show ?thesis by auto
  qed
qed auto

lemma path_name_distinct [simp]: "partial_name n \<noteq> n" "n \<noteq> partial_name n"
  by (auto simp: partial_name_def)

lemma upload_success:
  assumes "stream_upload_to_quarantine H limit env d = (Inr w, d')"
  defines "n \<equiv> quarantine_name (up_id env)"
  shows "d' n = Some (RegularFile (sent (up_reads env)))
    \<and> wr_storage_id w = up_id env \<and> wr_storage_path w = n
    \<and> wr_sha256_digest w = H (sent (up_reads env))
    \<and> wr_byte_size w = length (sent (up_reads env))
    \<and> 0 < wr_byte_size w \<and> wr_byte_size w \<le> limit
    \<and> wr_header_bytes w = take 1024 (sent (up_reads env))
    \<and> wr_tail_bytes w = last_bytes 1024 (sent (up_reads env))
    \<and> d n = None \<and> (\<forall>m. m \<noteq> n \<longrightarrow> d' m = d m)"
proof -
  obtain n' where n': "resolve_quarantine_path d (RefUuid (up_id env)) = Inr n'"
    using assms(1) by (auto simp: stream_upload_to_quarantine_def split: sum.splits)
  then have [simp]: "n' = n"
    by (auto simp: resolve_quarantine_path_def n_def Let_def split: if_splits)
  have free: "d (partial_name n) = None"
    using assms(1) n' by (auto simp: stream_upload_to_quarantine_def Let_def split: if_splits)
  obtain r where r: "receive limit (up_write_ok env) 0 (up_reads env) nothing_received = Inr r"
    and pub: "publish_upload H env n r (d(partial_name n \<mapsto> RegularFile (rv_data r))) = (Inr w, d')"
    using assms(1) n' free
    by (auto simp: stream_upload_to_quarantine_def Let_def split: sum.splits if_splits prod.splits)
  have ok: "received_ok limit r \<and> rv_data r = sent (up_reads env)"
    using receive_ok [OF r]
    by (auto simp: received_ok_def nothing_received_def last_bytes_def)
  have "d n = None"
    using n' pub by (auto simp: resolve_quarantine_path_def publish_upload_def path_exists_def
        is_symlink_def Let_def split: if_splits option.splits node.splits)
  then show ?thesis
    using pub ok free
    by (auto simp: publish_upload_def received_ok_def window_def n_def path_exists_def
        split: if_splits option.splits)
qed

text \<open>
  A successful upload leaves exactly the bytes that were sent in the new quarantine file
  and reports their digest, their length (within the limit and not zero) and their first and
  last kilobyte; the partial file is gone and every other file is as it was.
\<close>

lemma upload_stores_what_was_sent:
  assumes "stream_upload_to_quarantine H limit env d = (Inr w, d')"
  defines "n \<equiv> quarantine_name (up_id env)"
  shows "d' n = Some (RegularFile (sent (up_reads env)))
    \<and> wr_storage_id w = up_id env \<and> wr_storage_path w = n
    \<and> wr_sha256_digest w = H (sent (up_reads env))
    \<and> wr_byte_size w = length (sent (up_reads env))
    \<and> 0 < wr_byte_size w \<and> wr_byte_size w \<le> limit
    \<and> wr_header_bytes w = take 1024 (sent (up_reads env))
    \<and> wr_tail_bytes w = last_bytes 1024 (sent (up_reads env))
    \<and> \<not> path_exists d n \<and> (\<forall>m. m \<noteq> n \<longrightarrow> d' m = d m)"
  using upload_success [OF assms(1)] by (auto simp: n_def path_exists_def)

definition demo_upload :: upload_env where
  "demo_upload = \<lparr>up_reads = [Some [37, 80], Some [68, 70], Some []], up_id = 7,
     up_open_fails = False, up_write_ok = \<lambda>_. True, up_flush_ok = True, up_rename_ok = True\<rparr>"

lemma partial_demo: "stream_upload_to_quarantine (\<lambda>_. ''h'') 10 demo_upload Map.empty =
    (Inr \<lparr>wr_storage_id = 7, wr_storage_path = quarantine_name 7, wr_sha256_digest = ''h'',
          wr_byte_size = 4, wr_header_bytes = [37, 80, 68, 70], wr_tail_bytes = [37, 80, 68, 70]\<rparr>,
     [quarantine_name 7 \<mapsto> RegularFile [37, 80, 68, 70]])"
  by (auto simp: stream_upload_to_quarantine_def resolve_plain is_symlink_def demo_upload_def
      nothing_received_def publish_upload_def path_exists_def window_def last_bytes_def Let_def
      fun_eq_iff)

theorem upload_stores_what_was_sent_witness:
  "snd (stream_upload_to_quarantine (\<lambda>_. ''h'') 10 demo_upload Map.empty) (quarantine_name 7)
     = Some (RegularFile [37, 80, 68, 70])"
  unfolding partial_demo snd_conv
  using upload_stores_what_was_sent [OF partial_demo, THEN conjunct1]
  by (simp add: demo_upload_def)

lemma failed_upload_restores:
  "fst (stream_upload_to_quarantine H limit env d) = Inl e \<longrightarrow>
   snd (stream_upload_to_quarantine H limit env d) = d"
proof (cases "resolve_quarantine_path d (RefUuid (up_id env))")
  case (Inl e')
  then show ?thesis by (simp add: stream_upload_to_quarantine_def)
next
  case (Inr n)
  have undo: "(d(partial_name n := v))(partial_name n := None) = d"
    if "d (partial_name n) = None" for v
    using that by (simp add: fun_upd_idem)
  show ?thesis
    using Inr undo
    by (auto simp: stream_upload_to_quarantine_def publish_upload_def Let_def fun_upd_idem
        split: sum.splits)
qed

text \<open>
  An upload that fails leaves the directory exactly as it found it: no partial file, no
  final file, nothing overwritten.
\<close>

lemma failed_upload_leaves_no_trace:
  "fst (stream_upload_to_quarantine H limit env d) = Inl e \<longrightarrow>
   snd (stream_upload_to_quarantine H limit env d) = d"
  by (rule failed_upload_restores)

theorem failed_upload_leaves_no_trace_witness:
  "snd (stream_upload_to_quarantine (\<lambda>_. ''h'') 3 demo_upload Map.empty) = Map.empty"
proof -
  have "fst (stream_upload_to_quarantine (\<lambda>_. ''h'') 3 demo_upload Map.empty) =
      Inl (QuarantineStorageError ''TOO_LARGE'')"
    by (simp add: stream_upload_to_quarantine_def resolve_plain is_symlink_def demo_upload_def
        nothing_received_def window_def last_bytes_def Let_def)
  then show ?thesis
    using failed_upload_leaves_no_trace
      [of "\<lambda>_. ''h''" 3 demo_upload Map.empty "QuarantineStorageError ''TOO_LARGE''"]
    by blast
qed

text \<open>Deleting removes at most the file named by the identifier, and never follows a link.\<close>

lemma delete_quarantine_frame:
  "m \<noteq> quarantine_name i \<Longrightarrow> snd (delete_quarantine_file i d) m = d m"
  by (auto simp: delete_quarantine_file_def resolve_quarantine_path_def Let_def split: sum.splits)

lemma delete_quarantine_twice:
  "snd (delete_quarantine_file i (snd (delete_quarantine_file i d))) =
   snd (delete_quarantine_file i d)"
  by (auto simp: delete_quarantine_file_def resolve_quarantine_path_def is_symlink_def
      resolves_in_root_def Let_def fun_eq_iff)

end
