(* ===== verification/Contract.thy ===== *)
theory Contract
  imports Schema Bytes
begin

text \<open>
  \<open>app/services/extraction_contract.py\<close>: the schema of a provider's answer with its bounds,
  the control-character policy, and the deterministic extractor of
  \<open>app/services/requirement_extractor.py\<close>.
\<close>

section \<open>The schema\<close>

datatype requirement_type =
    Functional | Non_functional | Compliance | Security | Performance | Interface | Operational
  | Other_type

definition type_text :: "requirement_type \<Rightarrow> string" where
  "type_text t = (case t of Functional \<Rightarrow> ''functional'' | Non_functional \<Rightarrow> ''non_functional''
     | Compliance \<Rightarrow> ''compliance'' | Security \<Rightarrow> ''security'' | Performance \<Rightarrow> ''performance''
     | Interface \<Rightarrow> ''interface'' | Operational \<Rightarrow> ''operational'' | Other_type \<Rightarrow> ''other'')"

definition schema_version :: string where
  "schema_version = ''requirement-candidates-v1''"

definition max_candidates_per_document :: nat where "max_candidates_per_document = 500"
definition max_requirement_text_len :: nat where "max_requirement_text_len = 2000"
definition max_evidence_text_len :: nat where "max_evidence_text_len = 4000"
definition max_uncertainty_reason_len :: nat where "max_uncertainty_reason_len = 500"

record candidate_unit =
  cu_source_unit_sequence :: int
  cu_span_start :: int
  cu_span_end :: int
  cu_requirement_text :: ustr
  cu_requirement_type :: "requirement_type option"
  cu_confidence :: "rat option"
  cu_uncertainty_reason :: "ustr option"

record extraction_response =
  er_schema_version :: string
  er_candidates :: "candidate_unit list"

definition unit_valid :: "candidate_unit \<Rightarrow> bool" where
  "unit_valid x \<longleftrightarrow> 1 \<le> cu_source_unit_sequence x \<and> 0 \<le> cu_span_start x \<and> 1 \<le> cu_span_end x
     \<and> 1 \<le> length (cu_requirement_text x)
     \<and> length (cu_requirement_text x) \<le> max_requirement_text_len
     \<and> (case cu_confidence x of None \<Rightarrow> True | Some q \<Rightarrow> 0 \<le> q \<and> q \<le> 1)
     \<and> (case cu_uncertainty_reason x of None \<Rightarrow> True
        | Some t \<Rightarrow> length t \<le> max_uncertainty_reason_len)
     \<and> cu_span_start x < cu_span_end x"

definition response_valid :: "extraction_response \<Rightarrow> bool" where
  "response_valid r \<longleftrightarrow> er_schema_version r = schema_version
     \<and> length (er_candidates r) \<le> max_candidates_per_document
     \<and> (\<forall>x \<in> set (er_candidates r). unit_valid x)"

section \<open>Character policy\<close>

definition disallowed_control :: "nat \<Rightarrow> bool" where
  "disallowed_control c \<longleftrightarrow> c \<le> 8 \<or> c = 11 \<or> c = 12 \<or> (14 \<le> c \<and> c \<le> 31) \<or> (127 \<le> c \<and> c \<le> 159)"

definition find_unsafe_content :: "ustr \<Rightarrow> string option" where
  "find_unsafe_content t =
     (if list_ex disallowed_control t then Some ''CONTENT_REJECT_CONTROL_CHARS'' else None)"

lemma find_unsafe_None: "find_unsafe_content t = None \<longleftrightarrow> (\<forall>c \<in> set t. \<not> disallowed_control c)"
  by (auto simp: find_unsafe_content_def list_ex_iff)

section \<open>Source units\<close>

record source_unit =
  so_sequence :: int
  so_page_id :: uuid
  so_unit_kind :: string
  so_source_locator :: ustr
  so_content :: ustr
  so_content_sha256 :: string

record extraction_request =
  rq_document_id :: uuid
  rq_extraction_run_id :: uuid
  rq_schema_version :: string
  rq_prompt_version :: string
  rq_source_units :: "source_unit list"

section \<open>The deterministic and the disabled extractor\<close>

definition fixture_unit :: "source_unit \<Rightarrow> candidate_unit list" where
  "fixture_unit s =
     (let n = min 60 (length (so_content s)) in
      if strip (so_content s) = [] \<or> n = 0 then []
      else [\<lparr>cu_source_unit_sequence = so_sequence s, cu_span_start = 0, cu_span_end = int n,
             cu_requirement_text = take max_requirement_text_len
               (uni ''[fixture] '' @ strip (take n (so_content s))),
             cu_requirement_type = Some Functional, cu_confidence = Some (85 / 100),
             cu_uncertainty_reason = None\<rparr>])"

definition fixture_extract :: "extraction_request \<Rightarrow> exc + extraction_response" where
  "fixture_extract r = Inr \<lparr>er_schema_version = schema_version,
     er_candidates = concat (map fixture_unit (rq_source_units r))\<rparr>"

definition disabled_extract :: "extraction_request \<Rightarrow> exc + extraction_response" where
  "disabled_extract r = Inl (ExtractionError ''EXTRACTOR_NOT_CONFIGURED'')"

datatype extractor = Anthropic_extractor | Fixture_extractor | Disabled_extractor

definition build_requirement_extractor :: "string \<Rightarrow> string \<Rightarrow> exc + extractor" where
  "build_requirement_extractor provider app_env =
     (if provider = ''anthropic'' then Inr Anthropic_extractor
      else if provider = ''fixture'' then
        (if app_env \<notin> {''development'', ''local'', ''test''}
         then Inl (ExtractionError ''EXTRACTOR_NOT_CONFIGURED'') else Inr Fixture_extractor)
      else Inr Disabled_extractor)"

lemma fixture_unit_valid: "1 \<le> so_sequence s \<Longrightarrow> x \<in> set (fixture_unit s) \<Longrightarrow> unit_valid x"
  by (auto simp: fixture_unit_def unit_valid_def Let_def max_requirement_text_len_def Suc_le_eq
      split: if_splits)

text \<open>
  The fixture extractor obeys the contract it exists to exercise: on at most 500 numbered
  source units its response is valid, every span lies inside its unit, and outside the three
  development environments it can never be built.
\<close>

lemma fixture_response_valid:
  assumes "\<forall>s \<in> set (rq_source_units r). 1 \<le> so_sequence s"
    and "length (rq_source_units r) \<le> 500"
  shows "(\<exists>resp. fixture_extract r = Inr resp \<and> response_valid resp
      \<and> (\<forall>x \<in> set (er_candidates resp). \<exists>s \<in> set (rq_source_units r).
            cu_source_unit_sequence x = so_sequence s
          \<and> cu_span_end x \<le> int (length (so_content s))))
    \<and> (app_env \<notin> {''development'', ''local'', ''test''}
        \<longrightarrow> build_requirement_extractor provider app_env \<noteq> Inr Fixture_extractor)"
proof -
  have one: "length (fixture_unit s) \<le> 1" for s by (simp add: fixture_unit_def Let_def)
  have "length (concat (map fixture_unit ss)) \<le> length ss" for ss
  proof (induction ss)
    case (Cons s ss)
    then show ?case using one [of s] by simp
  qed simp
  then have "length (concat (map fixture_unit (rq_source_units r))) \<le> 500"
    using assms(2) le_trans by blast
  moreover have "\<exists>s \<in> set (rq_source_units r). cu_source_unit_sequence x = so_sequence s
          \<and> cu_span_end x \<le> int (length (so_content s))"
    if "x \<in> set (concat (map fixture_unit (rq_source_units r)))" for x
    using that by (auto simp: fixture_unit_def Let_def split: if_splits)
  ultimately show ?thesis
    using assms(1) fixture_unit_valid
    by (auto simp: fixture_extract_def response_valid_def max_candidates_per_document_def
        build_requirement_extractor_def)
qed

definition demo_request :: extraction_request where
  "demo_request = \<lparr>rq_document_id = 5, rq_extraction_run_id = 6,
      rq_schema_version = schema_version, rq_prompt_version = ''v1'',
      rq_source_units = [\<lparr>so_sequence = 1, so_page_id = 1, so_unit_kind = ''PDF_PAGE'',
        so_source_locator = uni ''page_1'', so_content = uni ''The vendor shall comply.'',
        so_content_sha256 = ''h''\<rparr>]\<rparr>"

theorem fixture_response_valid_witness:
  "\<exists>resp. fixture_extract demo_request = Inr resp \<and> response_valid resp"
proof -
  have "\<forall>s \<in> set (rq_source_units demo_request). 1 \<le> so_sequence s"
    "length (rq_source_units demo_request) \<le> 500"
    by (simp_all add: demo_request_def)
  from fixture_response_valid [OF this] show ?thesis by blast
qed

end
