(* ===== verification/CandidateExtraction.thy ===== *)
theory CandidateExtraction
  imports AuditTrail FileStore Contract
begin

text \<open>
  \<open>app/services/candidate_extraction.py\<close>: the three-phase extraction of requirement
  candidates (snapshot, provider call, atomic persistence), with per-candidate validation,
  supersession of older proposals and the accounting of what was skipped. \<open>H\<close> is the
  hexadecimal SHA-256.
\<close>

section \<open>Configuration and environment\<close>

record extract_config =
  ec_max_source_units :: nat
  ec_max_input_chars :: nat

record usage =
  ug_provider_call_count :: nat
  ug_input_tokens :: nat
  ug_output_tokens :: nat
  ug_cache_creation_input_tokens :: nat
  ug_cache_read_input_tokens :: nat
  ug_duration_ms :: nat

text \<open>
  \<open>en_result\<close> is what \<open>extractor.extract\<close> returns or raises; \<open>en_audit_ok\<close> whether the
  separate audit commits succeed; \<open>en_flush_fails\<close> whether the database refuses the rows of
  phase C, and \<open>en_usable\<close> whether the session accepts statements after that (SQLAlchemy
  documents that it does not before a rollback).
\<close>

record extract_env =
  en_run_id :: uuid
  en_attempt_id :: uuid
  en_started_at :: time
  en_now :: time
  en_provider :: string
  en_model :: "string option"
  en_result :: "extraction_request \<Rightarrow> exc + extraction_response"
  en_usage :: "usage option"
  en_candidate_ids :: "nat \<Rightarrow> uuid"
  en_task_ids :: "nat \<Rightarrow> uuid"
  en_audit_ok :: bool
  en_flush_fails :: bool
  en_usable :: bool

definition prompt_version :: string where
  "prompt_version = ''requirement-extraction-v1''"

section \<open>Pages and the snapshot\<close>

definition text_or_empty :: "'a list option \<Rightarrow> 'a list" where
  "text_or_empty t = (case t of None \<Rightarrow> [] | Some x \<Rightarrow> x)"

definition sha256_text :: "(bytes \<Rightarrow> string) \<Rightarrow> ustr \<Rightarrow> string" where
  "sha256_text H t = H (utf8_encode t)"

definition load_ordered_pages :: "db \<Rightarrow> uuid \<Rightarrow> document_page list" where
  "load_ordered_pages d i = sort_key pg_page_number (filter (\<lambda>p. pg_document_id p = i) (pages d))"

definition snapshot_line :: "document_page \<Rightarrow> ustr" where
  "snapshot_line p =
     uni (uuid_str (pg_id p)) @ uni ''|'' @ uni (show_int (pg_page_number p))
     @ uni ''|'' @ uni (text_or_empty (pg_unit_kind p)) @ uni ''|''
     @ text_or_empty (pg_source_locator p) @ uni ''|''
     @ uni (text_or_empty (pg_content_sha256 p)) @ [10]"

definition compute_snapshot_sha256 :: "(bytes \<Rightarrow> string) \<Rightarrow> document_page list \<Rightarrow> string" where
  "compute_snapshot_sha256 H ps =
     H (concat (map (\<lambda>p. utf8_encode (snapshot_line p)) (sort_key pg_page_number ps)))"

definition page_hash_ok :: "(bytes \<Rightarrow> string) \<Rightarrow> document_page \<Rightarrow> bool" where
  "page_hash_ok H p = (case pg_content_sha256 p of None \<Rightarrow> False
     | Some h \<Rightarrow> h \<noteq> [] \<and> h = sha256_text H (pg_content p))"

definition char_count :: "document_page list \<Rightarrow> nat" where
  "char_count ps = sum_list (map (\<lambda>p. length (pg_content p)) ps)"

section \<open>Bookkeeping writes\<close>

definition map_run :: "uuid \<Rightarrow> (extraction_run \<Rightarrow> extraction_run) \<Rightarrow> sess \<Rightarrow> sess" where
  "map_run rid f s = s\<lparr>work := (work s)\<lparr>runs := upd_row run_id rid f (runs (work s))\<rparr>\<rparr>"

definition find_run :: "db \<Rightarrow> uuid \<Rightarrow> extraction_run option" where
  "find_run d rid = find (\<lambda>r. run_id r = rid) (runs d)"

definition mark_run_failed :: "time \<Rightarrow> uuid \<Rightarrow> string \<Rightarrow> sess \<Rightarrow> sess" where
  "mark_run_failed now rid code s =
     (case find_run (work s) rid of
        None \<Rightarrow> s
      | Some _ \<Rightarrow> commit (map_run rid (\<lambda>r. r\<lparr>run_status := RUN_FAILED, run_failure_code := Some code,
                                            run_completed_at := Some now\<rparr>) s))"

text \<open>An audit that cannot be written is logged and rolled back.\<close>

definition record_extraction_audit ::
  "bool \<Rightarrow> uuid \<Rightarrow> uuid \<Rightarrow> uuid \<Rightarrow> uuid option \<Rightarrow> string \<Rightarrow> details \<Rightarrow> sess \<Rightarrow> sess" where
  "record_extraction_audit ok org proj doc rid act det s =
     (if \<not> ok then rollback s
      else commit (add_audit
        \<lparr>ev_organization_id = org, ev_user_id = None, ev_action = act,
         ev_entity_type = ''ExtractionRun'',
         ev_entity_id = (case rid of Some r \<Rightarrow> r | None \<Rightarrow> doc),
         ev_details = [''project_id'' \<mapsto> JId proj, ''document_id'' \<mapsto> JId doc,
                       ''extraction_schema_version'' \<mapsto> JStr schema_version,
                       ''prompt_version'' \<mapsto> JStr prompt_version] ++ det\<rparr> s))"

definition record_provider_usage :: "uuid \<Rightarrow> usage option \<Rightarrow> sess \<Rightarrow> sess" where
  "record_provider_usage rid ug s =
     (case ug of None \<Rightarrow> s
      | Some g \<Rightarrow>
          (case find_run (work s) rid of None \<Rightarrow> s
           | Some _ \<Rightarrow> commit (map_run rid
               (\<lambda>r. r\<lparr>run_provider_call_count := ug_provider_call_count g,
                      run_input_tokens := ug_input_tokens g,
                      run_output_tokens := ug_output_tokens g,
                      run_cache_creation_input_tokens := ug_cache_creation_input_tokens g,
                      run_cache_read_input_tokens := ug_cache_read_input_tokens g,
                      run_duration_ms := ug_duration_ms g\<rparr>) s)))"

section \<open>Phase A\<close>

record extract_ticket =
  xt_project_id :: uuid
  xt_pages :: "document_page list"
  xt_snapshot :: string

definition refuse :: "string \<Rightarrow> sess \<Rightarrow> (exc + 'a) \<times> sess" where
  "refuse code s = (Inl (ExtractionServiceError code), rollback s)"

definition completed_run_exists :: "db \<Rightarrow> uuid \<Rightarrow> string \<Rightarrow> bool" where
  "completed_run_exists d i snap \<longleftrightarrow>
     (\<exists>r \<in> set (runs d). run_document_id r = i \<and> run_input_snapshot_sha256 r = snap
        \<and> run_extraction_schema_version r = schema_version \<and> run_prompt_version r = prompt_version
        \<and> run_status r = RUN_COMPLETED)"

text \<open>The checks on document, tenant, status, page hashes and input size.\<close>

definition check_input ::
  "(bytes \<Rightarrow> string) \<Rightarrow> extract_config \<Rightarrow> extract_env \<Rightarrow> uuid \<Rightarrow> uuid \<Rightarrow> sess
    \<Rightarrow> (exc + document \<times> uuid \<times> document_page list) \<times> sess" where
  "check_input H cfg env i org s =
     (case get_doc s i of
        None \<Rightarrow> refuse ''DOCUMENT_NOT_COMPLETED'' s
      | Some x \<Rightarrow>
          (case projects (work s) (d_project_id x) of
             None \<Rightarrow> refuse ''TENANT_MISMATCH'' s
           | Some p \<Rightarrow>
               if pr_organization_id p \<noteq> org then refuse ''TENANT_MISMATCH'' s
               else if d_ingestion_status x \<noteq> COMPLETED then refuse ''DOCUMENT_NOT_COMPLETED'' s
               else
                 let ps = load_ordered_pages (work s) i in
                 if \<not> list_all (page_hash_ok H) ps then refuse ''PAGE_CONTENT_HASH_MISMATCH'' s
                 else if length ps > ec_max_source_units cfg \<or> char_count ps > ec_max_input_chars cfg then
                   (Inl (ExtractionServiceError ''EXTRACTION_INPUT_LIMIT''),
                    record_extraction_audit (en_audit_ok env) org (pr_id p) i None
                      ''extraction_input_limit_exceeded''
                      [''page_count'' \<mapsto> JInt (int (length ps)),
                       ''total_characters'' \<mapsto> JInt (int (char_count ps)),
                       ''max_source_units'' \<mapsto> JInt (int (ec_max_source_units cfg)),
                       ''max_input_characters'' \<mapsto> JInt (int (ec_max_input_chars cfg)),
                       ''result_code'' \<mapsto> JStr ''EXTRACTION_INPUT_LIMIT''] (rollback s))
                 else (Inr (x, pr_id p, ps), s)))"

definition new_run ::
  "extract_env \<Rightarrow> uuid \<Rightarrow> uuid \<Rightarrow> uuid \<Rightarrow> document \<Rightarrow> document_page list \<Rightarrow> string \<Rightarrow> extraction_run" where
  "new_run env org proj i x ps snap =
     \<lparr>run_id = en_run_id env, run_organization_id = org, run_project_id = proj, run_document_id = i,
      run_status = RUN_RUNNING, run_extraction_attempt_id = en_attempt_id env,
      run_input_snapshot_sha256 = snap, run_page_count = length ps,
      run_parser_version = d_parser_version x, run_extraction_schema_version = schema_version,
      run_prompt_version = prompt_version, run_provider = en_provider env, run_model = en_model env,
      run_candidate_count = 0, run_received_candidate_count = 0, run_accepted_candidate_count = 0,
      run_skipped_candidate_count = 0, run_validation_issue_counts = None,
      run_provider_call_count = 0, run_input_tokens = 0, run_output_tokens = 0,
      run_cache_creation_input_tokens = 0, run_cache_read_input_tokens = 0, run_duration_ms = 0,
      run_failure_code = None, run_started_at = Some (en_started_at env), run_completed_at = None\<rparr>"

definition add_run :: "extraction_run \<Rightarrow> sess \<Rightarrow> sess" where
  "add_run r s = s\<lparr>work := (work s)\<lparr>runs := runs (work s) @ [r]\<rparr>\<rparr>"

definition jopt :: "string option \<Rightarrow> jval" where
  "jopt t = (case t of None \<Rightarrow> JNull | Some x \<Rightarrow> JStr x)"

definition start_extraction ::
  "(bytes \<Rightarrow> string) \<Rightarrow> extract_config \<Rightarrow> extract_env \<Rightarrow> uuid \<Rightarrow> uuid \<Rightarrow> sess
    \<Rightarrow> (exc + extract_ticket) \<times> sess" where
  "start_extraction H cfg env i org s =
     and_then (check_input H cfg env i org s) (\<lambda>(x, proj, ps) s1.
       let snap = compute_snapshot_sha256 H ps in
       if completed_run_exists (work s1) i snap then refuse ''DUPLICATE_COMPLETED_RUN'' s1
       else
         let s2 = commit (add_run (new_run env org proj i x ps snap) s1)
         in (Inr \<lparr>xt_project_id = proj, xt_pages = ps, xt_snapshot = snap\<rparr>,
             record_extraction_audit (en_audit_ok env) org proj i (Some (en_run_id env))
               ''extraction_started''
               [''page_count'' \<mapsto> JInt (int (length ps)),
                ''total_characters'' \<mapsto> JInt (int (char_count ps)),
                ''provider'' \<mapsto> JStr (en_provider env), ''model'' \<mapsto> jopt (en_model env)] s2))"

section \<open>Phase B\<close>

definition source_unit_of :: "document_page \<Rightarrow> source_unit" where
  "source_unit_of p = \<lparr>so_sequence = pg_page_number p, so_page_id = pg_id p,
     so_unit_kind = text_or_empty (pg_unit_kind p),
     so_source_locator = text_or_empty (pg_source_locator p), so_content = pg_content p,
     so_content_sha256 = text_or_empty (pg_content_sha256 p)\<rparr>"

definition extraction_request_of :: "extract_env \<Rightarrow> uuid \<Rightarrow> document_page list \<Rightarrow> extraction_request" where
  "extraction_request_of env i ps = \<lparr>rq_document_id = i, rq_extraction_run_id = en_run_id env,
     rq_schema_version = schema_version, rq_prompt_version = prompt_version,
     rq_source_units = map source_unit_of ps\<rparr>"

definition extractor_failed ::
  "extract_env \<Rightarrow> uuid \<Rightarrow> uuid \<Rightarrow> uuid \<Rightarrow> exc \<Rightarrow> sess \<Rightarrow> (exc + 'a) \<times> sess" where
  "extractor_failed env i org proj e s =
     (let s1 = record_provider_usage (en_run_id env) (en_usage env) s;
          code = (case e of ExtractionError c \<Rightarrow> c | _ \<Rightarrow> ''EXTRACTOR_FAILED'');
          det = (case e of ExtractionError c \<Rightarrow>
                   [''result_code'' \<mapsto> JStr c, ''provider'' \<mapsto> JStr (en_provider env)]
                 | _ \<Rightarrow> [''result_code'' \<mapsto> JStr ''EXTRACTOR_FAILED'']);
          s2 = mark_run_failed (en_now env) (en_run_id env) code s1
      in (Inl (ExtractionServiceError code),
          record_extraction_audit (en_audit_ok env) org proj i (Some (en_run_id env))
            ''extraction_failed'' det s2))"

section \<open>Phase C: one candidate at a time\<close>

type_synonym span_key = "int \<times> int \<times> int \<times> ustr"

record draft =
  dr_page :: document_page
  dr_unit :: candidate_unit
  dr_evidence :: ustr
  dr_text :: ustr

definition draft_key :: "draft \<Rightarrow> span_key" where
  "draft_key d = (cu_source_unit_sequence (dr_unit d), cu_span_start (dr_unit d),
     cu_span_end (dr_unit d), take 100 (dr_text d))"

text \<open>The result for one unit, and the spans seen after it (a span rejected for its characters
  has already been recorded).\<close>

definition check_candidate ::
  "(int \<rightharpoonup> document_page) \<Rightarrow> span_key set \<Rightarrow> candidate_unit \<Rightarrow> (string + draft) \<times> span_key set" where
  "check_candidate page_by_seq seen x =
     (case page_by_seq (cu_source_unit_sequence x) of
        None \<Rightarrow> (Inl ''SKIP_UNKNOWN_SOURCE_UNIT'', seen)
      | Some p \<Rightarrow>
          if cu_span_start x < 0 \<or> cu_span_end x > int (length (pg_content p))
             \<or> cu_span_end x \<le> cu_span_start x then (Inl ''SKIP_INVALID_SPAN'', seen)
          else
            let evidence = slice (pg_content p) (nat (cu_span_start x)) (nat (cu_span_end x));
                txt = strip (cu_requirement_text x);
                d = \<lparr>dr_page = p, dr_unit = x, dr_evidence = evidence, dr_text = txt\<rparr>
            in if strip evidence = [] then (Inl ''SKIP_EMPTY_EVIDENCE'', seen)
               else if length evidence > max_evidence_text_len then (Inl ''SKIP_EVIDENCE_TOO_LONG'', seen)
               else if txt = [] \<or> length txt > max_requirement_text_len
                 then (Inl ''SKIP_REQUIREMENT_TEXT_BOUNDS'', seen)
               else if draft_key d \<in> seen then (Inl ''SKIP_DUPLICATE_CANDIDATE'', seen)
               else
                 (case (case find_unsafe_content txt of Some c \<Rightarrow> Some c
                        | None \<Rightarrow> find_unsafe_content evidence) of
                    Some c \<Rightarrow> (Inl c, insert (draft_key d) seen)
                  | None \<Rightarrow> (Inr d, insert (draft_key d) seen)))"

fun check_all ::
  "(int \<rightharpoonup> document_page) \<Rightarrow> span_key set \<Rightarrow> candidate_unit list \<Rightarrow> draft list \<times> string list" where
  "check_all pgs seen [] = ([], [])"
| "check_all pgs seen (x # xs) =
     (case check_candidate pgs seen x of
        (Inl code, seen') \<Rightarrow> (case check_all pgs seen' xs of (ds, cs) \<Rightarrow> (ds, code # cs))
      | (Inr d, seen') \<Rightarrow> (case check_all pgs seen' xs of (ds, cs) \<Rightarrow> (d # ds, cs)))"

text \<open>\<open>issue_counts\<close>: codes in order of first occurrence, with their number.\<close>

fun tally :: "string \<Rightarrow> (string \<times> nat) list \<Rightarrow> (string \<times> nat) list" where
  "tally c [] = [(c, 1)]"
| "tally c ((k, n) # r) = (if k = c then (k, n + 1) # r else (k, n) # tally c r)"

definition issue_counts :: "string list \<Rightarrow> (string \<times> nat) list" where
  "issue_counts cs = fold tally cs []"

definition candidate_of ::
  "(bytes \<Rightarrow> string) \<Rightarrow> uuid \<Rightarrow> uuid \<Rightarrow> uuid \<Rightarrow> uuid \<Rightarrow> uuid \<Rightarrow> draft \<Rightarrow> candidate" where
  "candidate_of H cid org proj rid doc d =
     \<lparr>cd_id = cid, cd_organization_id = org, cd_project_id = proj, cd_extraction_run_id = rid,
      cd_document_id = doc, cd_document_page_id = pg_id (dr_page d),
      cd_page_content_sha256 = text_or_empty (pg_content_sha256 (dr_page d)),
      cd_unit_kind = text_or_empty (pg_unit_kind (dr_page d)),
      cd_source_locator = text_or_empty (pg_source_locator (dr_page d)),
      cd_span_start = cu_span_start (dr_unit d), cd_span_end = cu_span_end (dr_unit d),
      cd_evidence_text = dr_evidence d, cd_evidence_sha256 = sha256_text H (dr_evidence d),
      cd_normalized_requirement_text = dr_text d, cd_reviewer_edited_text = None,
      cd_requirement_type = map_option type_text (cu_requirement_type (dr_unit d)),
      cd_confidence = cu_confidence (dr_unit d),
      cd_uncertainty_reason = cu_uncertainty_reason (dr_unit d),
      cd_extraction_schema_version = schema_version, cd_candidate_status = PROPOSED,
      cd_reviewed_at = None, cd_reviewed_by = None, cd_reviewer_comment = None\<rparr>"

definition task_of :: "uuid \<Rightarrow> uuid \<Rightarrow> uuid \<Rightarrow> uuid \<Rightarrow> uuid \<Rightarrow> draft \<Rightarrow> review_task" where
  "task_of tid cid org proj rid d =
     \<lparr>tk_id = tid, tk_organization_id = org, tk_project_id = proj, tk_candidate_id = cid,
      tk_extraction_run_id = rid, tk_task_type = ''REQUIREMENT_CANDIDATE_REVIEW'',
      tk_source_locator = text_or_empty (pg_source_locator (dr_page d)), tk_assigned_to_id = None,
      tk_status = TASK_OPEN, tk_resolved_at = None\<rparr>"

section \<open>Phase C: supersession\<close>

definition is_stale :: "uuid \<Rightarrow> uuid \<Rightarrow> uuid \<Rightarrow> candidate \<Rightarrow> bool" where
  "is_stale org doc rid c \<longleftrightarrow> cd_organization_id c = org \<and> cd_document_id c = doc
     \<and> cd_extraction_run_id c \<noteq> rid \<and> cd_candidate_status c = PROPOSED"

definition closes_task :: "uuid \<Rightarrow> uuid set \<Rightarrow> review_task \<Rightarrow> bool" where
  "closes_task org ids t \<longleftrightarrow>
     tk_organization_id t = org \<and> tk_candidate_id t \<in> ids \<and> tk_status t = TASK_OPEN"

definition supersede_stale_candidates ::
  "time \<Rightarrow> uuid \<Rightarrow> uuid \<Rightarrow> uuid \<Rightarrow> sess \<Rightarrow> sess" where
  "supersede_stale_candidates now org doc rid s =
     (let stale = filter (is_stale org doc rid) (candidates (work s));
          ids = set (map cd_id stale);
          opened = filter (closes_task org ids) (tasks (work s))
      in case stale of [] \<Rightarrow> s
         | c # _ \<Rightarrow>
             add_audit
               \<lparr>ev_organization_id = org, ev_user_id = None, ev_action = ''candidate_superseded'',
                ev_entity_type = ''ExtractionRun'', ev_entity_id = rid,
                ev_details = [''project_id'' \<mapsto> JId (cd_project_id c), ''document_id'' \<mapsto> JId doc,
                  ''superseded_candidate_count'' \<mapsto> JInt (int (length stale)),
                  ''closed_task_count'' \<mapsto> JInt (int (length opened)),
                  ''extraction_schema_version'' \<mapsto> JStr schema_version,
                  ''result_code'' \<mapsto> JStr ''candidate_superseded'']\<rparr>
               (s\<lparr>work := (work s)\<lparr>
                  candidates := map (\<lambda>c. if is_stale org doc rid c
                                then c\<lparr>cd_candidate_status := SUPERSEDED\<rparr> else c) (candidates (work s)),
                  tasks := map (\<lambda>t. if closes_task org ids t
                                then t\<lparr>tk_status := TASK_SUPERSEDED, tk_resolved_at := Some now\<rparr> else t)
                             (tasks (work s))\<rparr>\<rparr>))"

section \<open>Phase C as a whole\<close>

definition page_index :: "document_page list \<Rightarrow> int \<rightharpoonup> document_page" where
  "page_index ps = map_of (rev (map (\<lambda>p. (pg_page_number p, p)) ps))"

definition add_rows :: "candidate list \<Rightarrow> review_task list \<Rightarrow> sess \<Rightarrow> sess" where
  "add_rows cs ts s = s\<lparr>work := (work s)\<lparr>candidates := candidates (work s) @ cs,
                                          tasks := tasks (work s) @ ts\<rparr>\<rparr>"

definition new_candidates ::
  "(bytes \<Rightarrow> string) \<Rightarrow> extract_env \<Rightarrow> uuid \<Rightarrow> uuid \<Rightarrow> uuid \<Rightarrow> draft list \<Rightarrow> candidate list" where
  "new_candidates H env org proj doc ds =
     map (\<lambda>(k, d). candidate_of H (en_candidate_ids env k) org proj (en_run_id env) doc d)
       (enumerate 0 ds)"

definition new_tasks :: "extract_env \<Rightarrow> uuid \<Rightarrow> uuid \<Rightarrow> draft list \<Rightarrow> review_task list" where
  "new_tasks env org proj ds =
     map (\<lambda>(k, d). task_of (en_task_ids env k) (en_candidate_ids env k) org proj (en_run_id env) d)
       (enumerate 0 ds)"

definition complete_run ::
  "extract_env \<Rightarrow> nat \<Rightarrow> draft list \<Rightarrow> string list \<Rightarrow> extraction_run \<Rightarrow> extraction_run" where
  "complete_run env received ds codes r =
     r\<lparr>run_status := RUN_COMPLETED, run_candidate_count := length ds,
       run_received_candidate_count := received, run_accepted_candidate_count := length ds,
       run_skipped_candidate_count := received - length ds,
       run_validation_issue_counts := (if codes = [] then None else Some (issue_counts codes)),
       run_completed_at := Some (en_now env)\<rparr>"

text \<open>The guards of \<open>_persist_candidates\<close>: the run is ours and running, the document is still
  COMPLETED, the snapshot is unchanged and every page hash still holds.\<close>

definition confirm_run ::
  "(bytes \<Rightarrow> string) \<Rightarrow> extract_env \<Rightarrow> uuid \<Rightarrow> string \<Rightarrow> sess \<Rightarrow> (exc + document_page list) \<times> sess" where
  "confirm_run H env i snap s =
     (let rid = en_run_id env;
          give_up = \<lambda>code. (Inl (ExtractionServiceError code), mark_run_failed (en_now env) rid code s);
          live = (case get_doc s i of None \<Rightarrow> False | Some x \<Rightarrow> d_ingestion_status x = COMPLETED);
          ps = load_ordered_pages (work s) i
      in case find_run (work s) rid of
           None \<Rightarrow> (Inl (ExtractionServiceError ''PERSISTENCE_FAILED''), s)
         | Some r \<Rightarrow>
             if run_status r \<noteq> RUN_RUNNING
               then (Inl (ExtractionServiceError ''PERSISTENCE_FAILED''), s)
             else if run_extraction_attempt_id r \<noteq> en_attempt_id env
               then (Inl (ExtractionServiceError ''STALE_EXTRACTION_ATTEMPT''), s)
             else if \<not> live then give_up ''DOCUMENT_NOT_COMPLETED''
             else if compute_snapshot_sha256 H ps \<noteq> snap then give_up ''SNAPSHOT_HASH_MISMATCH''
             else if \<not> list_all (page_hash_ok H) ps then give_up ''PAGE_CONTENT_HASH_MISMATCH''
             else (Inr ps, s))"

text \<open>
  The partial unique index \<open>uq_extraction_runs_completed_snapshot\<close>: the database refuses a
  second COMPLETED run for the same document, snapshot, schema and prompt.
\<close>

definition same_snapshot :: "extraction_run \<Rightarrow> extraction_run \<Rightarrow> bool" where
  "same_snapshot r q \<longleftrightarrow> run_document_id r = run_document_id q
     \<and> run_input_snapshot_sha256 r = run_input_snapshot_sha256 q
     \<and> run_extraction_schema_version r = run_extraction_schema_version q
     \<and> run_prompt_version r = run_prompt_version q"

definition completed_conflict :: "db \<Rightarrow> uuid \<Rightarrow> bool" where
  "completed_conflict d rid \<longleftrightarrow>
     (\<exists>r \<in> set (runs d). run_id r = rid \<and>
        (\<exists>q \<in> set (runs d). run_id q \<noteq> rid \<and> run_status q = RUN_COMPLETED \<and> same_snapshot r q))"

definition persist_candidates ::
  "(bytes \<Rightarrow> string) \<Rightarrow> extract_env \<Rightarrow> uuid \<Rightarrow> uuid \<Rightarrow> uuid \<Rightarrow> string \<Rightarrow> extraction_response \<Rightarrow> sess
    \<Rightarrow> (exc + unit) \<times> sess" where
  "persist_candidates H env i org proj snap resp s =
     and_then (confirm_run H env i snap s) (\<lambda>ps s1.
       let (ds, codes) = check_all (page_index ps) {} (er_candidates resp);
           s2 = supersede_stale_candidates (en_now env) org i (en_run_id env) s1;
           s3 = add_rows (new_candidates H env org proj i ds) (new_tasks env org proj ds) s2
       in if en_flush_fails env \<or> completed_conflict (work s1) (en_run_id env)
          then (Inl IntegrityError, rollback s)
          else (Inr (), commit (map_run (en_run_id env)
                   (complete_run env (length (er_candidates resp)) ds codes) s3)))"

definition run_counters :: "extract_env \<Rightarrow> extraction_run option \<Rightarrow> details" where
  "run_counters env r =
     (let n = \<lambda>f. JInt (int (case r of None \<Rightarrow> 0 | Some x \<Rightarrow> f x)) in
      [''provider'' \<mapsto> JStr (en_provider env), ''model'' \<mapsto> jopt (en_model env),
       ''received_candidate_count'' \<mapsto> n run_received_candidate_count,
       ''accepted_candidate_count'' \<mapsto> n run_accepted_candidate_count,
       ''skipped_candidate_count'' \<mapsto> n run_skipped_candidate_count,
       ''provider_call_count'' \<mapsto> n run_provider_call_count,
       ''input_tokens'' \<mapsto> n run_input_tokens, ''output_tokens'' \<mapsto> n run_output_tokens,
       ''duration_ms'' \<mapsto> n run_duration_ms, ''result_code'' \<mapsto> JStr ''EXTRACTION_OK''])"

text \<open>
  After an unexpected exception of phase C, \<open>_mark_run_failed\<close> runs on the session as it is:
  when that refuses statements, the attempt to mark the run is itself rolled back.
\<close>

definition finish_extraction ::
  "(bytes \<Rightarrow> string) \<Rightarrow> extract_env \<Rightarrow> uuid \<Rightarrow> uuid \<Rightarrow> extract_ticket \<Rightarrow> extraction_response \<Rightarrow> sess
    \<Rightarrow> (exc + unit) \<times> sess" where
  "finish_extraction H env i org tk resp s =
     (let s1 = record_provider_usage (en_run_id env) (en_usage env) s in
      case persist_candidates H env i org (xt_project_id tk) (xt_snapshot tk) resp s1 of
        (Inl (ExtractionServiceError code), s2) \<Rightarrow> (Inl (ExtractionServiceError code), s2)
      | (Inl _, s2) \<Rightarrow>
          (Inl (ExtractionServiceError ''PERSISTENCE_FAILED''),
           if en_usable env then mark_run_failed (en_now env) (en_run_id env) ''PERSISTENCE_FAILED'' s2
           else rollback s2)
      | (Inr _, s2) \<Rightarrow>
          (Inr (), record_extraction_audit (en_audit_ok env) org (xt_project_id tk) i
             (Some (en_run_id env)) ''extraction_completed''
             (run_counters env (find_run (work s2) (en_run_id env))) s2))"

definition create_requirement_candidates ::
  "(bytes \<Rightarrow> string) \<Rightarrow> extract_config \<Rightarrow> extract_env \<Rightarrow> uuid \<Rightarrow> uuid \<Rightarrow> sess
    \<Rightarrow> (exc + unit) \<times> sess" where
  "create_requirement_candidates H cfg env i org s =
     and_then (start_extraction H cfg env i org s) (\<lambda>tk s1.
       case en_result env (extraction_request_of env i (xt_pages tk)) of
         Inl e \<Rightarrow> extractor_failed env i org (xt_project_id tk) e s1
       | Inr resp \<Rightarrow> finish_extraction H env i org tk resp s1)"

text \<open>\<open>worker.extract_requirements_task\<close>: every failure is logged and swallowed.\<close>

definition extract_requirements_task ::
  "(bytes \<Rightarrow> string) \<Rightarrow> extract_config \<Rightarrow> (exc + extract_env) \<Rightarrow> uuid \<Rightarrow> uuid \<Rightarrow> sess \<Rightarrow> sess" where
  "extract_requirements_task H cfg built i org s =
     (case built of
        Inl _ \<Rightarrow> s
      | Inr env \<Rightarrow> rollback (snd (create_requirement_candidates H cfg env i org s)))"

section \<open>What is accepted\<close>

definition draft_ok :: "(int \<rightharpoonup> document_page) \<Rightarrow> draft \<Rightarrow> bool" where
  "draft_ok pgs d \<longleftrightarrow>
     (let x = dr_unit d; p = dr_page d in
      pgs (cu_source_unit_sequence x) = Some p
      \<and> 0 \<le> cu_span_start x \<and> cu_span_start x < cu_span_end x
      \<and> cu_span_end x \<le> int (length (pg_content p))
      \<and> dr_evidence d = slice (pg_content p) (nat (cu_span_start x)) (nat (cu_span_end x))
      \<and> strip (dr_evidence d) \<noteq> [] \<and> length (dr_evidence d) \<le> 4000
      \<and> dr_text d = strip (cu_requirement_text x) \<and> dr_text d \<noteq> [] \<and> length (dr_text d) \<le> 2000
      \<and> (\<forall>c \<in> set (dr_text d) \<union> set (dr_evidence d). \<not> disallowed_control c))"

lemma check_candidate_kept:
  "check_candidate pgs seen x = (Inr d, seen') \<Longrightarrow>
   draft_ok pgs d \<and> dr_unit d = x \<and> draft_key d \<notin> seen \<and> seen' = insert (draft_key d) seen"
  by (auto simp: check_candidate_def draft_ok_def Let_def find_unsafe_None max_evidence_text_len_def
      max_requirement_text_len_def split: option.splits if_splits)

lemma check_candidate_grows:
  "check_candidate pgs seen x = (r, seen') \<Longrightarrow> seen \<subseteq> seen'"
  by (auto simp: check_candidate_def Let_def split: option.splits if_splits)

lemma check_all_ok:
  "check_all pgs seen xs = (ds, codes) \<Longrightarrow>
   (\<forall>d \<in> set ds. draft_ok pgs d \<and> dr_unit d \<in> set xs \<and> draft_key d \<notin> seen)
   \<and> distinct (map draft_key ds) \<and> length ds + length codes = length xs"
proof (induction pgs seen xs arbitrary: ds codes rule: check_all.induct)
  case (1 pgs seen)
  then show ?case by simp
next
  case (2 pgs seen x xs)
  obtain r seen' where c: "check_candidate pgs seen x = (r, seen')" by fastforce
  obtain ds' codes' where rest: "check_all pgs seen' xs = (ds', codes')" by fastforce
  show ?case
  proof (cases r)
    case (Inl code)
    then show ?thesis
      using "2.IH"(1) [OF c [symmetric] Inl rest] "2.prems" c rest check_candidate_grows [OF c]
      by auto
  next
    case (Inr d)
    note ih = "2.IH"(2) [OF c [symmetric] Inr rest]
    note kept = check_candidate_kept [OF c [unfolded Inr]]
    have "draft_key d \<notin> draft_key ` set ds'" using ih kept by force
    moreover have "ds = d # ds'" "codes = codes'" using "2.prems" c Inr rest by auto
    ultimately show ?thesis using ih kept by auto
  qed
qed

lemma tally_sum: "sum_list (map snd (tally c m)) = Suc (sum_list (map snd m))"
  by (induction c m rule: tally.induct) auto

lemma issue_counts_sum: "sum_list (map snd (issue_counts cs)) = length cs"
proof -
  have "sum_list (map snd (fold tally cs m)) = length cs + sum_list (map snd m)" for m
    by (induction cs arbitrary: m) (simp_all add: tally_sum)
  then show ?thesis by (simp add: issue_counts_def)
qed

section \<open>Sessions without pending work\<close>

definition clean :: "sess \<Rightarrow> bool" where
  "clean s \<longleftrightarrow> stored s = work s"

text \<open>The tables of proposals and decisions.\<close>

definition rows :: "db \<Rightarrow> candidate list \<times> review_task list \<times> requirement list" where
  "rows d = (candidates d, tasks d, requirements d)"

lemma clean_commit [simp]: "clean (commit s)"
  and clean_rollback [simp]: "clean (rollback s)"
  and clean_open [simp]: "clean (open_session d)"
  by (simp_all add: clean_def)

lemma rollback_clean: "clean s \<Longrightarrow> rollback s = s"
  by (simp add: clean_def rollback_def)

lemma map_run_frame [simp]:
  "stored (map_run rid f s) = stored s" "rows (work (map_run rid f s)) = rows (work s)"
  "documents (work (map_run rid f s)) = documents (work s)"
  "audit (work (map_run rid f s)) = audit (work s)"
  "pages (work (map_run rid f s)) = pages (work s)"
  "runs (work (map_run rid f s)) = upd_row run_id rid f (runs (work s))"
  "projects (work (map_run rid f s)) = projects (work s)"
  by (simp_all add: map_run_def rows_def)

lemma bookkeeping_clean:
  "clean s \<Longrightarrow> clean (mark_run_failed now rid code s)"
  "clean s \<Longrightarrow> clean (record_extraction_audit ok org proj doc rid' act det s)"
  "clean s \<Longrightarrow> clean (record_provider_usage rid ug s)"
  by (auto simp: mark_run_failed_def record_extraction_audit_def record_provider_usage_def
      split: option.splits)

lemma bookkeeping_rows:
  "clean s \<Longrightarrow> rows (stored (mark_run_failed now rid code s)) = rows (stored s)"
  "clean s \<Longrightarrow> rows (stored (record_extraction_audit ok org proj doc rid' act det s)) = rows (stored s)"
  "clean s \<Longrightarrow> rows (stored (record_provider_usage rid ug s)) = rows (stored s)"
  by (auto simp: mark_run_failed_def record_extraction_audit_def record_provider_usage_def clean_def
      rows_def map_run_def split: option.splits)

lemma bookkeeping_docs:
  "clean s \<Longrightarrow> documents (work (mark_run_failed now rid code s)) = documents (work s)"
  "clean s \<Longrightarrow> documents (work (record_extraction_audit ok org proj doc rid' act det s)) = documents (work s)"
  "clean s \<Longrightarrow> documents (work (record_provider_usage rid ug s)) = documents (work s)"
  "clean s \<Longrightarrow> pages (work (mark_run_failed now rid code s)) = pages (work s)"
  "clean s \<Longrightarrow> pages (work (record_extraction_audit ok org proj doc rid' act det s)) = pages (work s)"
  "clean s \<Longrightarrow> pages (work (record_provider_usage rid ug s)) = pages (work s)"
  by (auto simp: mark_run_failed_def record_extraction_audit_def record_provider_usage_def clean_def
      rollback_def split: option.splits)

lemma confirm_run_clean:
  assumes "clean s" and "confirm_run H env i snap s = (r, s1)"
  shows "clean s1 \<and> rows (stored s1) = rows (stored s) \<and> (is_ok r \<longrightarrow> s1 = s)"
  using assms bookkeeping_clean(1) [OF assms(1)] bookkeeping_rows(1) [OF assms(1)]
  by (auto simp: confirm_run_def Let_def split: option.splits if_splits)

lemma persist_failed:
  assumes "clean s" and "persist_candidates H env i org proj snap resp s = (Inl e, s1)"
  shows "clean s1 \<and> rows (stored s1) = rows (stored s)"
proof -
  obtain r s0 where c: "confirm_run H env i snap s = (r, s0)" by fastforce
  show ?thesis
    using assms confirm_run_clean [OF assms(1) c] c rollback_clean [OF assms(1)]
    by (cases r) (auto simp: persist_candidates_def Let_def split: prod.splits if_splits)
qed

lemma finish_failed:
  assumes "clean s" and "finish_extraction H env i org tk resp s = (Inl e, s')"
  shows "rows (stored s') = rows (stored s)"
proof -
  let ?s1 = "record_provider_usage (en_run_id env) (en_usage env) s"
  have s1: "clean ?s1" "rows (stored ?s1) = rows (stored s)"
    using bookkeeping_clean(3) bookkeeping_rows(3) assms(1) by auto
  obtain r s2 where p: "persist_candidates H env i org (xt_project_id tk) (xt_snapshot tk) resp ?s1 = (r, s2)"
    by fastforce
  obtain e2 where r: "r = Inl e2" using assms(2) p by (cases r) (auto simp: finish_extraction_def Let_def)
  have s2: "clean s2" "rows (stored s2) = rows (stored s)"
    using persist_failed [OF s1(1) p [unfolded r]] s1(2) by auto
  show ?thesis
    using assms(2) p r s2 bookkeeping_rows(1) [OF s2(1)] rollback_clean [OF s2(1)]
    by (cases e2) (auto simp: finish_extraction_def Let_def)
qed

lemma check_input_rows:
  assumes "clean s" and "check_input H cfg env i org s = (r, s1)"
  shows "clean s1 \<and> rows (stored s1) = rows (stored s) \<and> (is_ok r \<longrightarrow> s1 = s)"
  using assms rollback_clean [OF assms(1)] bookkeeping_clean(2) [OF assms(1)]
    bookkeeping_rows(2) [OF assms(1)]
  by (auto simp: check_input_def refuse_def Let_def split: option.splits if_splits)

lemma start_rows:
  assumes "clean s" and "start_extraction H cfg env i org s = (r, s1)"
  shows "clean s1 \<and> rows (stored s1) = rows (stored s)"
proof -
  obtain q s0 where c: "check_input H cfg env i org s = (q, s0)" by fastforce
  have add: "clean (commit (add_run x s))" "rows (stored (commit (add_run x s))) = rows (stored s)" for x
    using assms(1) by (simp_all add: add_run_def rows_def clean_def)
  show ?thesis
    using assms(2) c check_input_rows [OF assms(1) c] rollback_clean [OF assms(1)] assms(1)
      bookkeeping_clean(2) [OF add(1)] bookkeeping_rows(2) [OF add(1)] add(2)
    by (cases q) (auto simp: start_extraction_def refuse_def Let_def split: prod.splits if_splits)
qed

lemma failed_extraction_rows:
  assumes "stored s = work s"
    and "create_requirement_candidates H cfg env i org s = (Inl e, s')"
  shows "rows (stored s') = rows (stored s)"
proof -
  have cl: "clean s" using assms(1) by (simp add: clean_def)
  obtain q s1 where st: "start_extraction H cfg env i org s = (q, s1)" by fastforce
  note s1 = start_rows [OF cl st]
  have "rows (stored s') = rows (stored s)"
  proof (cases q)
    case (Inl x)
    then show ?thesis using assms(2) st s1 by (simp add: create_requirement_candidates_def)
  next
    case (Inr tk)
    show ?thesis
    proof (cases "en_result env (extraction_request_of env i (xt_pages tk))")
      case (Inl x)
      let ?u = "record_provider_usage (en_run_id env) (en_usage env) s1"
      have u: "clean ?u" "rows (stored ?u) = rows (stored s)"
        using bookkeeping_clean(3) bookkeeping_rows(3) s1 by auto
      show ?thesis
        using assms(2) st s1 Inr Inl u bookkeeping_clean(1) [OF u(1)] bookkeeping_rows(1) [OF u(1)]
          bookkeeping_rows(2) [OF bookkeeping_clean(1) [OF u(1)]]
        by (auto simp: create_requirement_candidates_def extractor_failed_def Let_def)
    next
      case (Inr resp)
      then show ?thesis
        using assms(2) st s1 \<open>q = Inr tk\<close> finish_failed [of s1]
        by (auto simp: create_requirement_candidates_def)
    qed
  qed
  then show ?thesis .
qed

text \<open>
  A failed extraction leaves no trace among the proposals: whatever goes wrong, and in
  whichever phase, the stored candidates, review tasks and requirements are exactly those
  from before.
\<close>

lemma failed_extraction_leaves_proposals:
  assumes "stored s = work s"
    and "create_requirement_candidates H cfg env i org s = (Inl e, s')"
  shows "candidates (stored s') = candidates (stored s) \<and> tasks (stored s') = tasks (stored s)
    \<and> requirements (stored s') = requirements (stored s)"
  using failed_extraction_rows [OF assms] by (simp add: rows_def)

section \<open>A completed extraction\<close>

definition superseded :: "uuid \<Rightarrow> uuid \<Rightarrow> uuid \<Rightarrow> candidate \<Rightarrow> candidate" where
  "superseded org doc rid c =
     (if is_stale org doc rid c then c\<lparr>cd_candidate_status := SUPERSEDED\<rparr> else c)"

lemma supersede_candidates:
  "candidates (work (supersede_stale_candidates now org doc rid s)) =
   map (superseded org doc rid) (candidates (work s))"
proof (cases "filter (is_stale org doc rid) (candidates (work s))")
  case Nil
  then have "\<forall>c \<in> set (candidates (work s)). \<not> is_stale org doc rid c" by (simp add: filter_empty_conv)
  then show ?thesis
    using Nil by (simp add: supersede_stale_candidates_def Let_def superseded_def map_idI)
next
  case (Cons c cs)
  then show ?thesis
    by (simp add: supersede_stale_candidates_def Let_def superseded_def [abs_def])
qed

lemma supersede_frame:
  "stored (supersede_stale_candidates now org doc rid s) = stored s"
  "requirements (work (supersede_stale_candidates now org doc rid s)) = requirements (work s)"
  "runs (work (supersede_stale_candidates now org doc rid s)) = runs (work s)"
  "pages (work (supersede_stale_candidates now org doc rid s)) = pages (work s)"
  "documents (work (supersede_stale_candidates now org doc rid s)) = documents (work s)"
  by (simp_all add: supersede_stale_candidates_def Let_def split: list.splits)

lemma add_rows_frame [simp]:
  "stored (add_rows cs ts s) = stored s"
  "candidates (work (add_rows cs ts s)) = candidates (work s) @ cs"
  "tasks (work (add_rows cs ts s)) = tasks (work s) @ ts"
  "requirements (work (add_rows cs ts s)) = requirements (work s)"
  "runs (work (add_rows cs ts s)) = runs (work s)"
  "pages (work (add_rows cs ts s)) = pages (work s)"
  "documents (work (add_rows cs ts s)) = documents (work s)"
  "audit (work (add_rows cs ts s)) = audit (work s)"
  by (simp_all add: add_rows_def)

lemma map_run_rows [simp]:
  "candidates (work (map_run rid f s)) = candidates (work s)"
  "tasks (work (map_run rid f s)) = tasks (work s)"
  "requirements (work (map_run rid f s)) = requirements (work s)"
  by (simp_all add: map_run_def)

lemma confirm_run_ok:
  assumes "confirm_run H env i snap s = (Inr ps, s1)"
  shows "s1 = s \<and> ps = load_ordered_pages (work s) i \<and> list_all (page_hash_ok H) ps
    \<and> compute_snapshot_sha256 H ps = snap
    \<and> (\<exists>r. find_run (work s) (en_run_id env) = Some r \<and> run_status r = RUN_RUNNING
         \<and> run_extraction_attempt_id r = en_attempt_id env)
    \<and> (\<exists>x. get_doc s i = Some x \<and> d_ingestion_status x = COMPLETED)"
  using assms by (auto simp: confirm_run_def Let_def split: option.splits if_splits)

lemma persist_success:
  assumes "persist_candidates H env i org proj snap resp s = (Inr (), s')"
  obtains ds codes where
    "check_all (page_index (load_ordered_pages (work s) i)) {} (er_candidates resp) = (ds, codes)"
    "list_all (page_hash_ok H) (load_ordered_pages (work s) i)"
    "candidates (stored s') = map (superseded org i (en_run_id env)) (candidates (work s))
       @ new_candidates H env org proj i ds"
    "requirements (stored s') = requirements (work s)" "pages (stored s') = pages (work s)"
    "runs (stored s') = upd_row run_id (en_run_id env)
       (complete_run env (length (er_candidates resp)) ds codes) (runs (work s))"
    "clean s'" "find_run (work s) (en_run_id env) \<noteq> None"
    "\<not> completed_conflict (work s) (en_run_id env)"
    "\<exists>ts. tasks (stored s') = ts @ new_tasks env org proj ds"
proof -
  obtain ps where c: "confirm_run H env i snap s = (Inr ps, s)"
    using assms confirm_run_ok
    by (cases "confirm_run H env i snap s"; cases "fst (confirm_run H env i snap s)")
       (auto simp: persist_candidates_def)
  note ok = confirm_run_ok [OF c]
  obtain ds codes where a: "check_all (page_index ps) {} (er_candidates resp) = (ds, codes)"
    by fastforce
  have "s' = commit (map_run (en_run_id env)
       (complete_run env (length (er_candidates resp)) ds codes)
       (add_rows (new_candidates H env org proj i ds) (new_tasks env org proj ds)
          (supersede_stale_candidates (en_now env) org i (en_run_id env) s)))"
    using assms c a by (auto simp: persist_candidates_def Let_def split: if_splits)
  moreover have "\<not> completed_conflict (work s) (en_run_id env)"
    using assms c a by (auto simp: persist_candidates_def Let_def split: if_splits)
  ultimately show thesis
    using ok a by (intro that [of ds codes]) (auto simp: supersede_candidates supersede_frame)
qed

lemma page_index_in: "page_index ps k = Some p \<Longrightarrow> p \<in> set ps \<and> pg_page_number p = k"
  by (auto simp: page_index_def dest!: map_of_SomeD)

lemma loaded_page: "p \<in> set (load_ordered_pages d i) \<Longrightarrow> p \<in> set (pages d) \<and> pg_document_id p = i"
  by (auto simp: load_ordered_pages_def)

definition grounded :: "(bytes \<Rightarrow> string) \<Rightarrow> db \<Rightarrow> uuid \<Rightarrow> candidate \<Rightarrow> bool" where
  "grounded H d doc c \<longleftrightarrow>
     (\<exists>p \<in> set (pages d). pg_document_id p = doc \<and> pg_id p = cd_document_page_id c
        \<and> 0 \<le> cd_span_start c \<and> cd_span_start c < cd_span_end c
        \<and> cd_span_end c \<le> int (length (pg_content p))
        \<and> cd_evidence_text c = slice (pg_content p) (nat (cd_span_start c)) (nat (cd_span_end c))
        \<and> cd_page_content_sha256 c = sha256_text H (pg_content p))
     \<and> cd_evidence_sha256 c = sha256_text H (cd_evidence_text c)
     \<and> length (cd_evidence_text c) \<le> 4000 \<and> strip (cd_evidence_text c) \<noteq> []
     \<and> cd_normalized_requirement_text c \<noteq> [] \<and> length (cd_normalized_requirement_text c) \<le> 2000
     \<and> (\<forall>x \<in> set (cd_normalized_requirement_text c) \<union> set (cd_evidence_text c).
          \<not> disallowed_control x)"

lemma candidate_grounded:
  assumes "draft_ok (page_index (load_ordered_pages d i)) dr"
    and "list_all (page_hash_ok H) (load_ordered_pages d i)"
  shows "grounded H d i (candidate_of H cid org proj rid i dr)"
proof -
  have p: "dr_page dr \<in> set (load_ordered_pages d i)"
    using assms(1) by (auto simp: draft_ok_def Let_def dest: page_index_in)
  then have "page_hash_ok H (dr_page dr)" using assms(2) by (auto simp: list_all_iff)
  then have "text_or_empty (pg_content_sha256 (dr_page dr)) = sha256_text H (pg_content (dr_page dr))"
    by (auto simp: page_hash_ok_def text_or_empty_def split: option.splits)
  then show ?thesis
    using assms(1) loaded_page [OF p]
    by (auto simp: grounded_def candidate_of_def draft_ok_def Let_def)
qed

lemma new_candidates_set:
  "c \<in> set (new_candidates H env org proj i ds) \<Longrightarrow>
   \<exists>k d. d \<in> set ds \<and> c = candidate_of H (en_candidate_ids env k) org proj (en_run_id env) i d"
  unfolding new_candidates_def in_set_enumerate_eq
  by (clarsimp simp: in_set_enumerate_eq) (metis nth_mem)

text \<open>
  C21. Every candidate an extraction stores is proposed and grounded: its evidence is, code
  point by code point, the cited slice of a page of that very document, whose hash at that
  moment was right; the evidence hash is the hash of the evidence; both texts respect their
  bounds and hold no control characters; and no requirement is created.
\<close>

theorem stored_candidates_are_grounded:
  assumes "persist_candidates H env i org proj snap resp s = (Inr (), s')"
  shows "\<exists>new. candidates (stored s') =
      map (superseded org i (en_run_id env)) (candidates (work s)) @ new
    \<and> (\<forall>c \<in> set new. grounded H (stored s') i c \<and> cd_candidate_status c = PROPOSED
         \<and> cd_organization_id c = org \<and> cd_document_id c = i \<and> cd_extraction_run_id c = en_run_id env)
    \<and> requirements (stored s') = requirements (work s)"
proof -
  obtain ds codes where p:
    "check_all (page_index (load_ordered_pages (work s) i)) {} (er_candidates resp) = (ds, codes)"
    "list_all (page_hash_ok H) (load_ordered_pages (work s) i)"
    "candidates (stored s') = map (superseded org i (en_run_id env)) (candidates (work s))
       @ new_candidates H env org proj i ds"
    "requirements (stored s') = requirements (work s)" "pages (stored s') = pages (work s)"
    using persist_success [OF assms] by metis
  have "grounded H (stored s') i c \<and> cd_candidate_status c = PROPOSED \<and> cd_organization_id c = org
      \<and> cd_document_id c = i \<and> cd_extraction_run_id c = en_run_id env"
    if c_in: "c \<in> set (new_candidates H env org proj i ds)" for c
  proof -
    obtain k d where kd: "d \<in> set ds"
      "c = candidate_of H (en_candidate_ids env k) org proj (en_run_id env) i d"
      using new_candidates_set [OF c_in] by blast
    have "draft_ok (page_index (load_ordered_pages (work s) i)) d"
      using check_all_ok [OF p(1)] kd(1) by blast
    then have "grounded H (work s) i c" using candidate_grounded [OF _ p(2)] kd(2) by blast
    then show ?thesis using p(5) kd(2) by (simp add: grounded_def candidate_of_def)
  qed
  with p(3,4) show ?thesis by blast
qed

definition demo_page :: document_page where
  "demo_page = \<lparr>pg_id = 11, pg_document_id = 5, pg_page_number = 1,
     pg_content = uni ''The vendor shall comply.'', pg_unit_kind = Some ''PDF_PAGE'',
     pg_source_locator = Some (uni ''page_1''), pg_content_sha256 = Some ''h''\<rparr>"

definition demo_extract_env :: extract_env where
  "demo_extract_env = \<lparr>en_run_id = 6, en_attempt_id = 60, en_started_at = 1, en_now = 2,
     en_provider = ''fixture'', en_model = None, en_result = fixture_extract, en_usage = None,
     en_candidate_ids = (\<lambda>k. 200 + k), en_task_ids = (\<lambda>k. 300 + k), en_audit_ok = True,
     en_flush_fails = False, en_usable = False\<rparr>"

definition demo_completed_db :: db where
  "demo_completed_db = empty_db\<lparr>documents := [5 \<mapsto> (new_document 5 1 2 (uni ''rfp.pdf'') ''a.clean'' ''pdf'')
       \<lparr>d_ingestion_status := COMPLETED\<rparr>],
     projects := [1 \<mapsto> \<lparr>pr_id = 1, pr_organization_id = 9, pr_name = uni ''p'', pr_created_by_id = 2,
       pr_client_name = uni ''c'', pr_due_date = None, pr_status = ''draft''\<rparr>],
     pages := [demo_page]\<rparr>"

definition demo_running_db :: db where
  "demo_running_db = demo_completed_db\<lparr>runs :=
     [new_run demo_extract_env 9 1 5 (new_document 5 1 2 [] [] []) [demo_page] ''h'']\<rparr>"

definition demo_answer :: extraction_response where
  "demo_answer = \<lparr>er_schema_version = schema_version, er_candidates =
     [\<lparr>cu_source_unit_sequence = 1, cu_span_start = 0, cu_span_end = 24,
       cu_requirement_text = uni ''The vendor shall comply.'', cu_requirement_type = Some Compliance,
       cu_confidence = None, cu_uncertainty_reason = None\<rparr>,
      \<lparr>cu_source_unit_sequence = 2, cu_span_start = 0, cu_span_end = 1,
       cu_requirement_text = uni ''x'', cu_requirement_type = None,
       cu_confidence = None, cu_uncertainty_reason = None\<rparr>]\<rparr>"

lemma demo_persists: "\<exists>s'. persist_candidates (\<lambda>_. ''h'') demo_extract_env 5 9 1 ''h'' demo_answer
    (open_session demo_running_db) = (Inr (), s')"
  by (simp add: persist_candidates_def completed_conflict_def confirm_run_def demo_running_db_def demo_completed_db_def
      empty_db_def find_run_def new_run_def demo_extract_env_def compute_snapshot_sha256_def
      load_ordered_pages_def page_hash_ok_def demo_page_def sha256_text_def Let_def
      split: prod.splits)

theorem stored_candidates_are_grounded_witness:
  "\<exists>(s' :: sess) new. candidates (stored s') = map (superseded 9 5 6) (candidates demo_running_db) @ new
    \<and> (\<forall>c \<in> set new. grounded (\<lambda>_. ''h'') (stored s') 5 c)"
proof -
  obtain s' where "persist_candidates (\<lambda>_. ''h'') demo_extract_env 5 9 1 ''h'' demo_answer
    (open_session demo_running_db) = (Inr (), s')" using demo_persists by blast
  from stored_candidates_are_grounded [OF this]
  obtain new where "candidates (stored s') = map (superseded 9 5 6) (candidates demo_running_db) @ new"
    "\<forall>c \<in> set new. grounded (\<lambda>_. ''h'') (stored s') 5 c"
    by (auto simp: demo_extract_env_def)
  then show ?thesis by blast
qed

text \<open>
  The books balance: a completed run records as many received candidates as the provider
  sent, accepted plus skipped is received, the per-code issue counts add up to the skipped
  ones, accepted is the number of stored candidates, one open review task exists for each,
  and no two of them share position, span and the first hundred characters of text.
\<close>

lemma extraction_books_balance:
  assumes "persist_candidates H env i org proj snap resp s = (Inr (), s')"
  shows "\<exists>ds r. find_run (stored s') (en_run_id env) = Some r \<and> run_status r = RUN_COMPLETED
    \<and> run_received_candidate_count r = length (er_candidates resp)
    \<and> run_accepted_candidate_count r + run_skipped_candidate_count r = run_received_candidate_count r
    \<and> sum_list (map snd (case run_validation_issue_counts r of None \<Rightarrow> [] | Some m \<Rightarrow> m))
        = run_skipped_candidate_count r
    \<and> length ds = run_accepted_candidate_count r \<and> distinct (map draft_key ds)
    \<and> candidates (stored s') = map (superseded org i (en_run_id env)) (candidates (work s))
        @ new_candidates H env org proj i ds
    \<and> (\<exists>ts. tasks (stored s') = ts @ new_tasks env org proj ds)
    \<and> map tk_candidate_id (new_tasks env org proj ds) = map cd_id (new_candidates H env org proj i ds)"
proof -
  obtain ds codes where p:
    "check_all (page_index (load_ordered_pages (work s) i)) {} (er_candidates resp) = (ds, codes)"
    "candidates (stored s') = map (superseded org i (en_run_id env)) (candidates (work s))
       @ new_candidates H env org proj i ds"
    "runs (stored s') = upd_row run_id (en_run_id env)
       (complete_run env (length (er_candidates resp)) ds codes) (runs (work s))"
    "find_run (work s) (en_run_id env) \<noteq> None"
    "\<exists>ts. tasks (stored s') = ts @ new_tasks env org proj ds"
    using persist_success [OF assms] by metis
  let ?f = "complete_run env (length (er_candidates resp)) ds codes"
  obtain r where r: "find_run (work s) (en_run_id env) = Some r" using p(4) by blast
  have "find_run (stored s') (en_run_id env) = Some (?f r)"
    using r find_upd_row [of run_id ?f "en_run_id env" "en_run_id env" "runs (work s)"]
    by (simp add: find_run_def p(3) complete_run_def)
  moreover have "length ds + length codes = length (er_candidates resp)" "distinct (map draft_key ds)"
    using check_all_ok [OF p(1)] by auto
  moreover have "map tk_candidate_id (new_tasks env org proj ds)
      = map cd_id (new_candidates H env org proj i ds)"
    by (simp add: new_tasks_def new_candidates_def task_of_def candidate_of_def case_prod_beta)
  ultimately show ?thesis
    using p(2,5) issue_counts_sum [of codes]
    by (intro exI [of _ ds] exI [of _ "?f r"]) (auto simp: complete_run_def)
qed

theorem extraction_books_balance_witness:
  "\<exists>(s' :: sess) r. find_run (stored s') 6 = Some r \<and> run_received_candidate_count r = 2
     \<and> run_accepted_candidate_count r + run_skipped_candidate_count r = 2"
proof -
  obtain s' where p: "persist_candidates (\<lambda>_. ''h'') demo_extract_env 5 9 1 ''h'' demo_answer
    (open_session demo_running_db) = (Inr (), s')" using demo_persists by blast
  have "length (er_candidates demo_answer) = 2" "en_run_id demo_extract_env = 6"
    by (simp_all add: demo_answer_def demo_extract_env_def)
  with extraction_books_balance [OF p] obtain r where "find_run (stored s') 6 = Some r"
    "run_received_candidate_count r = 2"
    "run_accepted_candidate_count r + run_skipped_candidate_count r = 2"
    by auto
  then show ?thesis by blast
qed

text \<open>
  A machine run only ever retires proposals: every earlier candidate keeps all its
  columns, except that the PROPOSED ones of the same document, tenant and another run become
  SUPERSEDED; decisions of a reviewer are never rewritten, and afterwards the open proposals
  of the document are those of the new run.
\<close>

lemma only_proposals_are_superseded:
  assumes "persist_candidates H env i org proj snap resp s = (Inr (), s')"
    and "c \<in> set (candidates (work s))"
  shows "superseded org i (en_run_id env) c \<in> set (candidates (stored s'))
    \<and> (cd_candidate_status c \<noteq> PROPOSED \<or> cd_document_id c \<noteq> i \<or> cd_organization_id c \<noteq> org
        \<longrightarrow> superseded org i (en_run_id env) c = c)
    \<and> superseded org i (en_run_id env) c \<in> {c, c\<lparr>cd_candidate_status := SUPERSEDED\<rparr>}
    \<and> (\<forall>d \<in> set (candidates (stored s')). cd_organization_id d = org \<and> cd_document_id d = i
         \<and> cd_candidate_status d = PROPOSED \<longrightarrow> cd_extraction_run_id d = en_run_id env)"
proof -
  obtain ds where p: "candidates (stored s') =
       map (superseded org i (en_run_id env)) (candidates (work s))
       @ new_candidates H env org proj i ds"
    using assms(1) by (elim persist_success)
  have "\<forall>d \<in> set (candidates (stored s')). cd_organization_id d = org \<and> cd_document_id d = i
         \<and> cd_candidate_status d = PROPOSED \<longrightarrow> cd_extraction_run_id d = en_run_id env"
  proof (intro ballI impI)
    fix d assume d: "d \<in> set (candidates (stored s'))"
      and q: "cd_organization_id d = org \<and> cd_document_id d = i \<and> cd_candidate_status d = PROPOSED"
    then consider x where "d = superseded org i (en_run_id env) x"
      | "d \<in> set (new_candidates H env org proj i ds)" by (auto simp: p)
    then show "cd_extraction_run_id d = en_run_id env"
    proof cases
      case 1
      then show ?thesis using q by (cases "is_stale org i (en_run_id env) x")
          (simp_all add: superseded_def, simp add: is_stale_def)
    next
      case 2
      then show ?thesis using new_candidates_set by (fastforce simp: candidate_of_def)
    qed
  qed
  moreover have "superseded org i (en_run_id env) c \<in> set (candidates (stored s'))"
    using assms(2) by (simp add: p)
  ultimately show ?thesis by (auto simp: superseded_def is_stale_def)
qed

definition old_proposal :: candidate where
  "old_proposal = candidate_of (\<lambda>_. ''h'') 150 9 1 4 5
     \<lparr>dr_page = demo_page, dr_unit = hd (er_candidates demo_answer),
      dr_evidence = uni ''The vendor'', dr_text = uni ''The vendor''\<rparr>"

theorem only_proposals_are_superseded_witness:
  "\<exists>(s' :: sess). old_proposal\<lparr>cd_candidate_status := SUPERSEDED\<rparr> \<in> set (candidates (stored s'))"
proof -
  let ?s = "open_session (demo_running_db\<lparr>candidates := [old_proposal]\<rparr>)"
  have "\<exists>s'. persist_candidates (\<lambda>_. ''h'') demo_extract_env 5 9 1 ''h'' demo_answer ?s = (Inr (), s')"
    by (simp add: persist_candidates_def completed_conflict_def confirm_run_def demo_running_db_def demo_completed_db_def
        empty_db_def find_run_def new_run_def demo_extract_env_def compute_snapshot_sha256_def
        load_ordered_pages_def page_hash_ok_def demo_page_def sha256_text_def Let_def
        split: prod.splits)
  then obtain s' where p: "persist_candidates (\<lambda>_. ''h'') demo_extract_env 5 9 1 ''h'' demo_answer ?s
    = (Inr (), s')" by blast
  have "old_proposal \<in> set (candidates (work ?s))" by simp
  note q = only_proposals_are_superseded [OF p this, THEN conjunct1]
  have "superseded 9 5 (en_run_id demo_extract_env) old_proposal
      = old_proposal\<lparr>cd_candidate_status := SUPERSEDED\<rparr>"
    by (simp add: superseded_def is_stale_def old_proposal_def candidate_of_def demo_extract_env_def)
  with q show ?thesis by auto
qed

section \<open>A failing provider, and a full disk\<close>

definition demo_failing_env :: extract_env where
  "demo_failing_env = demo_extract_env\<lparr>en_result := \<lambda>_. Inl (ExtractionError ''PROVIDER_TIMEOUT'')\<rparr>"

definition demo_extract_config :: extract_config where
  "demo_extract_config = \<lparr>ec_max_source_units = 200, ec_max_input_chars = 100000\<rparr>"

text \<open>The evaluation of phase A on the demonstration document.\<close>

lemma demo_starts:
  assumes "documents d = documents demo_completed_db" and "projects d = projects demo_completed_db"
    and "pages d = pages demo_completed_db" and "runs d = []" and "en_audit_ok env"
  shows "\<exists>s1 tk. start_extraction (\<lambda>_. ''h'') demo_extract_config env 5 9 (open_session d) = (Inr tk, s1)"
  using assms
  by (simp add: start_extraction_def check_input_def get_doc_def demo_completed_db_def empty_db_def
      load_ordered_pages_def page_hash_ok_def demo_page_def sha256_text_def char_count_def
      demo_extract_config_def completed_run_exists_def Let_def)

theorem failed_extraction_leaves_proposals_witness:
  "\<exists>(s' :: sess). candidates (stored s') = [old_proposal]"
proof -
  let ?s = "open_session (demo_completed_db\<lparr>candidates := [old_proposal]\<rparr>)"
  obtain s1 tk where "start_extraction (\<lambda>_. ''h'') demo_extract_config demo_failing_env 5 9 ?s = (Inr tk, s1)"
    using demo_starts [of "demo_completed_db\<lparr>candidates := [old_proposal]\<rparr>" demo_failing_env]
    by (auto simp: demo_completed_db_def empty_db_def demo_failing_env_def demo_extract_env_def)
  then have "\<exists>e s'. create_requirement_candidates (\<lambda>_. ''h'') demo_extract_config demo_failing_env 5 9 ?s
      = (Inl e, s')"
    by (simp add: create_requirement_candidates_def demo_failing_env_def extractor_failed_def Let_def)
  then obtain e s' where run: "create_requirement_candidates (\<lambda>_. ''h'') demo_extract_config
      demo_failing_env 5 9 ?s = (Inl e, s')" by blast
  have "stored ?s = work ?s" by simp
  from failed_extraction_leaves_proposals [OF this run] show ?thesis by auto
qed

section \<open>What the bookkeeping leaves alone\<close>

lemma mark_run_failed_frame:
  "clean s \<Longrightarrow> clean (mark_run_failed now rid code s)
   \<and> documents (stored (mark_run_failed now rid code s)) = documents (stored s)
   \<and> pages (stored (mark_run_failed now rid code s)) = pages (stored s)"
  by (auto simp: mark_run_failed_def clean_def split: option.splits)

lemma audit_frame:
  "clean s \<Longrightarrow> clean (record_extraction_audit ok org proj doc rid act det s)
   \<and> documents (stored (record_extraction_audit ok org proj doc rid act det s)) = documents (stored s)
   \<and> pages (stored (record_extraction_audit ok org proj doc rid act det s)) = pages (stored s)
   \<and> projects (stored (record_extraction_audit ok org proj doc rid act det s)) = projects (stored s)
   \<and> runs (stored (record_extraction_audit ok org proj doc rid act det s)) = runs (stored s)"
  by (auto simp: record_extraction_audit_def clean_def)

text \<open>What phase A guarantees when it hands out a ticket.\<close>

lemma check_input_Inr:
  assumes "check_input H cfg env i org s = (Inr (x, proj, ps), s1)"
  shows "s1 = s \<and> ps = load_ordered_pages (work s) i \<and> get_doc s i = Some x
    \<and> d_ingestion_status x = COMPLETED \<and> list_all (page_hash_ok H) ps
    \<and> length ps \<le> ec_max_source_units cfg \<and> char_count ps \<le> ec_max_input_chars cfg"
  using assms by (auto simp: check_input_def refuse_def Let_def split: option.splits if_splits)

lemma check_input_Inl:
  assumes "clean s" and "check_input H cfg env i org s = (Inl e, s1)"
  shows "clean s1 \<and> runs (stored s1) = runs (stored s)"
proof -
  have "clean (rollback s)" by simp
  from audit_frame [OF this] show ?thesis
    using assms by (auto simp: check_input_def refuse_def Let_def split: option.splits if_splits)
qed

lemma start_extraction_Inr:
  assumes "clean s" and "start_extraction H cfg env i org s = (Inr tk, s1)"
  obtains x proj where "clean s1"
    "runs (stored s1) = runs (stored s) @ [new_run env org proj i x (xt_pages tk) (xt_snapshot tk)]"
    "pages (stored s1) = pages (stored s)" "documents (stored s1) = documents (stored s)"
    "xt_pages tk = load_ordered_pages (stored s) i"
    "xt_snapshot tk = compute_snapshot_sha256 H (xt_pages tk)"
    "\<not> completed_run_exists (stored s) i (xt_snapshot tk)"
proof -
  obtain q s0 where c: "check_input H cfg env i org s = (q, s0)" by fastforce
  obtain x proj ps where q: "q = Inr (x, proj, ps)"
    using assms(2) c by (cases q) (auto simp: start_extraction_def)
  note in_ok = check_input_Inr [OF c [unfolded q]]
  let ?snap = "compute_snapshot_sha256 H ps"
  let ?s2 = "commit (add_run (new_run env org proj i x ps ?snap) s)"
  have "clean ?s2" by simp
  note fr = audit_frame [OF this]
  have tk: "\<not> completed_run_exists (work s) i ?snap"
    "tk = \<lparr>xt_project_id = proj, xt_pages = ps, xt_snapshot = ?snap\<rparr>"
    using assms(2) c q in_ok by (auto simp: start_extraction_def refuse_def Let_def split: if_splits)
  have "\<exists>act det. s1 = record_extraction_audit (en_audit_ok env) org proj i
      (Some (en_run_id env)) act det ?s2"
    using assms(2) c q in_ok tk by (auto simp: start_extraction_def Let_def)
  then obtain act det where s1: "s1 = record_extraction_audit (en_audit_ok env) org proj i
      (Some (en_run_id env)) act det ?s2" by blast
  have st: "runs (stored ?s2) = runs (stored s) @ [new_run env org proj i x ps ?snap]"
    "documents (stored ?s2) = documents (stored s)" "pages (stored ?s2) = pages (stored s)"
    "stored s = work s"
    using assms(1) by (simp_all add: add_run_def clean_def)
  show thesis
    using fr [of "en_audit_ok env" org proj i "Some (en_run_id env)" act det] st(1-3) tk in_ok st(4)
    by (intro that [of proj x]) (simp_all add: s1)
qed

text \<open>What phase C leaves when the whole call succeeds.\<close>

lemma usage_frame:
  assumes "clean s"
  shows "clean (record_provider_usage rid ug s)"
    "documents (stored (record_provider_usage rid ug s)) = documents (stored s)"
    "pages (stored (record_provider_usage rid ug s)) = pages (stored s)"
    "\<exists>f. runs (stored (record_provider_usage rid ug s)) = upd_row run_id rid f (runs (stored s))
       \<and> (\<forall>r. run_id (f r) = run_id r \<and> run_document_id (f r) = run_document_id r
            \<and> run_input_snapshot_sha256 (f r) = run_input_snapshot_sha256 r
            \<and> run_extraction_schema_version (f r) = run_extraction_schema_version r
            \<and> run_prompt_version (f r) = run_prompt_version r)"
proof -
  have id: "upd_row run_id rid (\<lambda>r. r) rs = rs" for rs :: "extraction_run list"
    by (induction rs) auto
  show "clean (record_provider_usage rid ug s)"
    "documents (stored (record_provider_usage rid ug s)) = documents (stored s)"
    "pages (stored (record_provider_usage rid ug s)) = pages (stored s)"
    using assms by (auto simp: record_provider_usage_def clean_def split: option.splits)
  show "\<exists>f. runs (stored (record_provider_usage rid ug s)) = upd_row run_id rid f (runs (stored s))
       \<and> (\<forall>r. run_id (f r) = run_id r \<and> run_document_id (f r) = run_document_id r
            \<and> run_input_snapshot_sha256 (f r) = run_input_snapshot_sha256 r
            \<and> run_extraction_schema_version (f r) = run_extraction_schema_version r
            \<and> run_prompt_version (f r) = run_prompt_version r)"
  proof (cases "ug = None \<or> find_run (work s) rid = None")
    case True
    then have "record_provider_usage rid ug s = s"
      by (auto simp: record_provider_usage_def split: option.splits)
    then show ?thesis by (intro exI [of _ "\<lambda>r. r"]) (simp add: id)
  next
    case False
    then obtain g r where "ug = Some g" "find_run (work s) rid = Some r" by auto
    then show ?thesis
      using assms
      by (intro exI [of _ "\<lambda>r. r\<lparr>run_provider_call_count := ug_provider_call_count g,
            run_input_tokens := ug_input_tokens g, run_output_tokens := ug_output_tokens g,
            run_cache_creation_input_tokens := ug_cache_creation_input_tokens g,
            run_cache_read_input_tokens := ug_cache_read_input_tokens g,
            run_duration_ms := ug_duration_ms g\<rparr>"])
        (simp add: record_provider_usage_def clean_def)
  qed
qed

lemma finish_success:
  assumes "clean s" and "finish_extraction H env i org tk resp s = (Inr (), s')"
    and "\<exists>r \<in> set (runs (stored s)). run_id r = en_run_id env \<and> run_document_id r = i
       \<and> run_input_snapshot_sha256 r = xt_snapshot tk
       \<and> run_extraction_schema_version r = schema_version \<and> run_prompt_version r = prompt_version"
  shows "clean s' \<and> pages (stored s') = pages (stored s)
    \<and> completed_run_exists (stored s') i (xt_snapshot tk)"
proof -
  let ?s1 = "record_provider_usage (en_run_id env) (en_usage env) s"
  note u = usage_frame [OF assms(1), of "en_run_id env" "en_usage env"]
  obtain s2 where p: "persist_candidates H env i org (xt_project_id tk) (xt_snapshot tk) resp ?s1
      = (Inr (), s2)"
    using assms(2)
    by (auto simp: finish_extraction_def Let_def split: prod.splits sum.splits exc.splits)
  obtain ds codes where q: "pages (stored s2) = pages (work ?s1)"
    "runs (stored s2) = upd_row run_id (en_run_id env)
       (complete_run env (length (er_candidates resp)) ds codes) (runs (work ?s1))" "clean s2"
    using persist_success [OF p] by metis
  have "\<exists>r \<in> set (runs (work ?s1)). run_id r = en_run_id env \<and> run_document_id r = i
       \<and> run_input_snapshot_sha256 r = xt_snapshot tk
       \<and> run_extraction_schema_version r = schema_version \<and> run_prompt_version r = prompt_version"
  proof -
    obtain r f where "r \<in> set (runs (stored s))" "run_id r = en_run_id env" "run_document_id r = i"
      "run_input_snapshot_sha256 r = xt_snapshot tk"
      "run_extraction_schema_version r = schema_version" "run_prompt_version r = prompt_version"
      "runs (stored ?s1) = upd_row run_id (en_run_id env) f (runs (stored s))"
      "\<forall>r. run_id (f r) = run_id r \<and> run_document_id (f r) = run_document_id r
            \<and> run_input_snapshot_sha256 (f r) = run_input_snapshot_sha256 r
            \<and> run_extraction_schema_version (f r) = run_extraction_schema_version r
            \<and> run_prompt_version (f r) = run_prompt_version r"
      using assms(3) u(4) by auto
    then show ?thesis
      using u(1) in_upd_row [of r "runs (stored s)" run_id "en_run_id env" f]
      by (intro bexI [of _ "f r"]) (auto simp: clean_def)
  qed
  then obtain r where r: "r \<in> set (runs (work ?s1))" "run_id r = en_run_id env"
    "run_document_id r = i" "run_input_snapshot_sha256 r = xt_snapshot tk"
    "run_extraction_schema_version r = schema_version" "run_prompt_version r = prompt_version"
    by blast
  let ?f = "complete_run env (length (er_candidates resp)) ds codes"
  have "?f r \<in> set (runs (stored s2))"
    using in_upd_row [of r _ run_id "en_run_id env" ?f] r(1,2) by (simp add: q(2))
  then have "completed_run_exists (stored s2) i (xt_snapshot tk)"
    unfolding completed_run_exists_def using r(3-6) by (intro bexI [of _ "?f r"]) (simp_all add: complete_run_def)
  moreover have "\<exists>act det. s' = record_extraction_audit (en_audit_ok env) org (xt_project_id tk) i
      (Some (en_run_id env)) act det s2"
    using assms(2) p by (auto simp: finish_extraction_def Let_def)
  then obtain act det where "s' = record_extraction_audit (en_audit_ok env) org (xt_project_id tk) i
      (Some (en_run_id env)) act det s2" by blast
  then have "clean s'" "pages (stored s') = pages (stored s2)" "runs (stored s') = runs (stored s2)"
    using audit_frame [OF q(3)] by simp_all
  moreover have "pages (work ?s1) = pages (stored s)"
    using u(1,3) by (simp add: clean_def)
  ultimately show ?thesis
    using q(1) by (simp add: completed_run_exists_def)
qed

text \<open>
  Extraction is idempotent: once a call has succeeded on a document, a second call for
  the same unchanged pages, with whatever configuration, provider and identifiers, raises
  an error and creates no run, no candidate, no task and no requirement, so the model is
  never asked (and paid) twice for the same snapshot.
\<close>

lemma extraction_is_idempotent:
  assumes "stored s = work s"
    and "create_requirement_candidates H cfg env i org s = (Inr (), s')"
    and "create_requirement_candidates H cfg2 env2 i org2 (open_session (stored s')) = (r, s2)"
  shows "\<not> is_ok r \<and> runs (stored s2) = runs (stored s')
    \<and> candidates (stored s2) = candidates (stored s') \<and> tasks (stored s2) = tasks (stored s')"
proof -
  have cl: "clean s" using assms(1) by (simp add: clean_def)
  obtain q s1 where st: "start_extraction H cfg env i org s = (q, s1)" by fastforce
  obtain tk where tk: "q = Inr tk"
    using assms(2) st by (cases q) (auto simp: create_requirement_candidates_def)
  obtain x proj where a: "clean s1"
    "runs (stored s1) = runs (stored s) @ [new_run env org proj i x (xt_pages tk) (xt_snapshot tk)]"
    "pages (stored s1) = pages (stored s)" "xt_pages tk = load_ordered_pages (stored s) i"
    "xt_snapshot tk = compute_snapshot_sha256 H (xt_pages tk)"
    by (rule start_extraction_Inr [OF cl st [unfolded tk]])
  obtain resp where "finish_extraction H env i org tk resp s1 = (Inr (), s')"
    using assms(2) st tk
    by (auto simp: create_requirement_candidates_def extractor_failed_def Let_def split: sum.splits)
  then have "clean s' \<and> pages (stored s') = pages (stored s1)
      \<and> completed_run_exists (stored s') i (xt_snapshot tk)"
    by (rule finish_success [OF a(1)]) (simp add: a(2) new_run_def)
  then have dup: "completed_run_exists (stored s') i
      (compute_snapshot_sha256 H (load_ordered_pages (stored s') i))"
    using a(3-5) by (simp add: load_ordered_pages_def)
  let ?s = "open_session (stored s')"
  obtain q2 s3 where c: "check_input H cfg2 env2 i org2 ?s = (q2, s3)" by fastforce
  have e: "\<exists>e. create_requirement_candidates H cfg2 env2 i org2 ?s = (Inl e, s2)
      \<and> runs (stored s2) = runs (stored s')"
  proof (cases q2)
    case (Inl e)
    then show ?thesis
      using assms(3) c check_input_Inl [OF clean_open c [unfolded Inl]]
      by (auto simp: create_requirement_candidates_def start_extraction_def)
  next
    case (Inr b)
    obtain y proj2 ps where "b = (y, proj2, ps)" by (cases b)
    with Inr c have "check_input H cfg2 env2 i org2 ?s = (Inr (y, proj2, ps), s3)" by simp
    with check_input_Inr [OF this] dup assms(3) show ?thesis
      by (auto simp: create_requirement_candidates_def start_extraction_def refuse_def Let_def)
  qed
  then obtain e where "create_requirement_candidates H cfg2 env2 i org2 ?s = (Inl e, s2)" by blast
  moreover have "stored ?s = work ?s" by simp
  ultimately have "rows (stored s2) = rows (stored ?s)"
    using failed_extraction_rows by blast
  with e assms(3) show ?thesis by (auto simp: rows_def)
qed

text \<open>A run of the whole pipeline on the demonstration document.\<close>

lemma demo_extracts: "\<exists>s'. create_requirement_candidates (\<lambda>_. ''h'') demo_extract_config
    demo_extract_env 5 9 (open_session demo_completed_db) = (Inr (), s')"
  by (simp add: create_requirement_candidates_def start_extraction_def check_input_def get_doc_def
      demo_completed_db_def empty_db_def load_ordered_pages_def page_hash_ok_def demo_page_def
      sha256_text_def char_count_def demo_extract_config_def completed_run_exists_def
      demo_extract_env_def fixture_extract_def finish_extraction_def record_provider_usage_def
      record_extraction_audit_def add_run_def persist_candidates_def completed_conflict_def confirm_run_def find_run_def
      new_run_def compute_snapshot_sha256_def Let_def split: prod.splits)

theorem extraction_is_idempotent_witness:
  "\<exists>(s' :: sess) r s2. create_requirement_candidates (\<lambda>_. ''h'') demo_extract_config demo_extract_env
      5 9 (open_session (stored s')) = (r, s2)
    \<and> \<not> is_ok r \<and> runs (stored s2) = runs (stored s')"
proof -
  have "stored (open_session demo_completed_db) = work (open_session demo_completed_db)" by simp
  moreover obtain s' where "create_requirement_candidates (\<lambda>_. ''h'') demo_extract_config
    demo_extract_env 5 9 (open_session demo_completed_db) = (Inr (), s')"
    using demo_extracts by blast
  moreover obtain r s2 where again: "create_requirement_candidates (\<lambda>_. ''h'') demo_extract_config
    demo_extract_env 5 9 (open_session (stored s')) = (r, s2)" by fastforce
  ultimately have "\<not> is_ok r \<and> runs (stored s2) = runs (stored s')"
    using extraction_is_idempotent by blast
  with again show ?thesis by blast
qed

section \<open>At most one completed run per snapshot\<close>

definition unique_completed :: "extraction_run list \<Rightarrow> bool" where
  "unique_completed rs \<longleftrightarrow> (\<forall>r \<in> set rs. \<forall>q \<in> set rs.
     run_status r = RUN_COMPLETED \<and> run_status q = RUN_COMPLETED \<and> same_snapshot r q
       \<longrightarrow> run_id r = run_id q)"

lemma unique_completed_snoc:
  "unique_completed rs \<Longrightarrow> run_status r \<noteq> RUN_COMPLETED \<Longrightarrow> unique_completed (rs @ [r])"
  by (auto simp: unique_completed_def)

lemma unique_completed_upd:
  assumes "unique_completed rs" and "\<And>r. run_id (f r) = run_id r \<and> same_snapshot (f r) r
      \<and> (run_status (f r) = RUN_COMPLETED \<longrightarrow> run_status r = RUN_COMPLETED)"
  shows "unique_completed (upd_row run_id rid f rs)"
proof -
  let ?g = "\<lambda>r. if run_id r = rid then f r else r"
  have "run_id (?g r) = run_id r \<and> same_snapshot (?g r) r
      \<and> (run_status (?g r) = RUN_COMPLETED \<longrightarrow> run_status r = RUN_COMPLETED)" for r
    using assms(2) by (auto simp: same_snapshot_def)
  then have "run_id (?g r) = run_id (?g q)"
    if "r \<in> set rs" "q \<in> set rs" "run_status (?g r) = RUN_COMPLETED"
      "run_status (?g q) = RUN_COMPLETED" "same_snapshot (?g r) (?g q)" for r q
    using assms(1) that unfolding unique_completed_def same_snapshot_def by metis
  then show ?thesis
    unfolding unique_completed_def upd_row_def by (simp only: set_map ball_simps) blast
qed

lemma unique_completed_complete:
  assumes "unique_completed (runs d)" and "\<not> completed_conflict d (en_run_id env)"
  shows "unique_completed (upd_row run_id (en_run_id env) (complete_run env n ds codes) (runs d))"
proof -
  let ?g = "\<lambda>r. if run_id r = en_run_id env then complete_run env n ds codes r else r"
  have g: "run_id (?g r) = run_id r" "same_snapshot (?g r) (?g q) = same_snapshot r q"
    "run_status (?g r) = RUN_COMPLETED
       \<longleftrightarrow> run_id r = en_run_id env \<or> run_status r = RUN_COMPLETED" for r q
    by (auto simp: complete_run_def same_snapshot_def)
  have "run_id r = run_id q"
    if "r \<in> set (runs d)" "q \<in> set (runs d)" "same_snapshot r q"
      "run_id r = en_run_id env \<or> run_status r = RUN_COMPLETED"
      "run_id q = en_run_id env \<or> run_status q = RUN_COMPLETED" for r q
  proof -
    have "same_snapshot q r" using that(3) by (simp add: same_snapshot_def)
    then show ?thesis
      using assms that unfolding unique_completed_def completed_conflict_def by metis
  qed
  then show ?thesis
    unfolding unique_completed_def upd_row_def by (simp only: set_map ball_simps g) blast
qed

definition runs_ok :: "sess \<Rightarrow> bool" where
  "runs_ok s \<longleftrightarrow> clean s \<and> unique_completed (runs (stored s))"

lemma runs_ok_failed: "runs_ok s \<Longrightarrow> runs_ok (mark_run_failed now rid code s)"
proof -
  assume ok: "runs_ok s"
  have "unique_completed (upd_row run_id rid
      (\<lambda>r. r\<lparr>run_status := RUN_FAILED, run_failure_code := Some code, run_completed_at := Some now\<rparr>)
      (runs (stored s)))"
    using ok by (intro unique_completed_upd) (simp_all add: runs_ok_def same_snapshot_def)
  then show ?thesis
    using ok by (auto simp: mark_run_failed_def runs_ok_def clean_def split: option.splits)
qed

lemma runs_ok_usage: "runs_ok s \<Longrightarrow> runs_ok (record_provider_usage rid ug s)"
  unfolding runs_ok_def record_provider_usage_def
  by (auto simp: clean_def same_snapshot_def intro!: unique_completed_upd split: option.splits)

lemma runs_ok_audit: "runs_ok s \<Longrightarrow> runs_ok (record_extraction_audit ok org proj doc rid act det s)"
  using audit_frame by (simp add: runs_ok_def)

lemma runs_ok_rollback: "runs_ok s \<Longrightarrow> runs_ok (rollback s)"
  by (simp add: runs_ok_def)

lemma runs_ok_start:
  assumes "runs_ok s"
  shows "runs_ok (snd (start_extraction H cfg env i org s))"
proof -
  obtain q s1 where st: "start_extraction H cfg env i org s = (q, s1)" by fastforce
  have cl: "clean s" using assms by (simp add: runs_ok_def)
  show ?thesis
  proof (cases q)
    case (Inr tk)
    obtain x proj where "clean s1"
      "runs (stored s1) = runs (stored s) @ [new_run env org proj i x (xt_pages tk) (xt_snapshot tk)]"
      by (rule start_extraction_Inr [OF cl st [unfolded Inr]])
    then show ?thesis
      using assms st by (simp add: runs_ok_def unique_completed_snoc new_run_def)
  next
    case (Inl e)
    obtain q0 s0 where c: "check_input H cfg env i org s = (q0, s0)" by fastforce
    have "clean s1 \<and> runs (stored s1) = runs (stored s)"
    proof (cases q0)
      case (Inl e0)
      then show ?thesis
        using check_input_Inl [OF cl c [unfolded Inl]] st c by (simp add: start_extraction_def)
    next
      case (Inr b)
      obtain y proj2 ps where "b = (y, proj2, ps)" by (cases b)
      with Inr c have c2: "check_input H cfg env i org s = (Inr (y, proj2, ps), s0)" by simp
      show ?thesis
        using check_input_Inr [OF c2] c2 st \<open>q = Inl e\<close>
        by (auto simp: start_extraction_def refuse_def Let_def split: if_splits)
    qed
    then show ?thesis using assms st by (simp add: runs_ok_def)
  qed
qed

lemma runs_ok_persist:
  assumes "runs_ok s"
  shows "runs_ok (snd (persist_candidates H env i org proj snap resp s))"
proof -
  obtain q s1 where p: "persist_candidates H env i org proj snap resp s = (q, s1)" by fastforce
  show ?thesis
  proof (cases q)
    case (Inr w)
    then have p2: "persist_candidates H env i org proj snap resp s = (Inr (), s1)" using p by simp
    obtain ds codes where "runs (stored s1) = upd_row run_id (en_run_id env)
       (complete_run env (length (er_candidates resp)) ds codes) (runs (work s))"
      "clean s1" "\<not> completed_conflict (work s) (en_run_id env)"
      using persist_success [OF p2] by metis
    then show ?thesis
      using assms p unique_completed_complete [of "work s" env] by (auto simp: runs_ok_def clean_def)
  next
    case (Inl e)
    obtain c s0 where c: "confirm_run H env i snap s = (c, s0)" by fastforce
    have "runs_ok s0"
      using c assms runs_ok_failed [OF assms]
      by (auto simp: confirm_run_def Let_def split: option.splits if_splits)
    then show ?thesis
      using assms p Inl c runs_ok_rollback
      by (cases c) (auto simp: persist_candidates_def Let_def split: prod.splits if_splits)
  qed
qed

text \<open>
  C23. There is never more than one completed run per snapshot: if the table has at most one
  COMPLETED run for each document, page snapshot, schema and prompt version, it still has
  after an extraction, however that ends. The unique index of the migration is what makes
  this hold for runs that were started side by side.
\<close>

theorem completed_runs_are_unique:
  assumes "stored s = work s" and "unique_completed (runs (stored s))"
  shows "unique_completed (runs (stored (snd (create_requirement_candidates H cfg env i org s))))"
proof -
  have ok: "runs_ok s" using assms by (simp add: runs_ok_def clean_def)
  obtain q s1 where st: "start_extraction H cfg env i org s = (q, s1)" by fastforce
  then have s1: "runs_ok s1" using runs_ok_start [OF ok, of H cfg env i org] by simp
  have fin: "runs_ok (snd (finish_extraction H env i org tk resp s1))" for tk resp
  proof -
    let ?s2 = "record_provider_usage (en_run_id env) (en_usage env) s1"
    obtain r s3 where p: "persist_candidates H env i org (xt_project_id tk) (xt_snapshot tk) resp ?s2
      = (r, s3)" by fastforce
    have "runs_ok s3"
      using runs_ok_persist [OF runs_ok_usage [OF s1]] p by (metis snd_conv)
    then show ?thesis
      by (auto simp: finish_extraction_def p Let_def runs_ok_audit runs_ok_failed runs_ok_rollback
          split: sum.splits exc.splits)
  qed
  have "runs_ok (snd (create_requirement_candidates H cfg env i org s))"
    using st s1 fin runs_ok_audit [OF runs_ok_failed [OF runs_ok_usage [OF s1]]]
    by (cases q) (auto simp: create_requirement_candidates_def extractor_failed_def Let_def
        split: sum.splits)
  then show ?thesis by (simp add: runs_ok_def)
qed

theorem completed_runs_are_unique_witness:
  "unique_completed (runs (stored (snd (create_requirement_candidates (\<lambda>_. ''h'') demo_extract_config
     demo_extract_env 5 9 (open_session demo_completed_db)))))"
  by (rule completed_runs_are_unique)
    (simp_all add: demo_completed_db_def empty_db_def unique_completed_def)

section \<open>Two extractions side by side\<close>

definition demo_second_env :: extract_env where
  "demo_second_env = demo_extract_env\<lparr>en_run_id := 7, en_attempt_id := 70\<rparr>"

text \<open>The ticket both calls get on the demonstration document.\<close>

definition demo_ticket :: extract_ticket where
  "demo_ticket = \<lparr>xt_project_id = 1, xt_pages = [demo_page], xt_snapshot = ''h''\<rparr>"

definition demo_race_db :: "run_status \<Rightarrow> db" where
  "demo_race_db st = demo_completed_db\<lparr>runs :=
     [(new_run demo_extract_env 9 1 5 (new_document 5 1 2 [] [] []) [demo_page] ''h'')\<lparr>run_status := st\<rparr>,
      new_run demo_second_env 9 1 5 (new_document 5 1 2 [] [] []) [demo_page] ''h'']\<rparr>"

lemmas demo_race_defs = demo_completed_db_def demo_running_db_def demo_race_db_def empty_db_def
  demo_extract_env_def demo_second_env_def demo_page_def demo_ticket_def new_run_def

text \<open>
  Phase A looks only for completed runs, so a second extraction of the same snapshot
  starts (and pays for) its own provider call while the first is running; when both have
  been answered, the unique index refuses the second set of rows, the session is not usable
  any more, and the losing run stays RUNNING for ever although the function reports
  PERSISTENCE\_FAILED.
\<close>

lemma losing_extraction_stays_running:
  "(\<exists>s1. start_extraction (\<lambda>_. ''h'') demo_extract_config demo_second_env 5 9
       (open_session demo_running_db) = (Inr demo_ticket, s1)
     \<and> map run_id (runs (stored s1)) = [6, 7] \<and> map run_status (runs (stored s1)) = [RUN_RUNNING, RUN_RUNNING])
   \<and> (\<exists>s2. finish_extraction (\<lambda>_. ''h'') demo_second_env 5 9 demo_ticket demo_answer
       (open_session (demo_race_db RUN_COMPLETED))
         = (Inl (ExtractionServiceError ''PERSISTENCE_FAILED''), s2)
     \<and> map run_status (runs (stored s2)) = [RUN_COMPLETED, RUN_RUNNING])"
proof
  show "\<exists>s1. start_extraction (\<lambda>_. ''h'') demo_extract_config demo_second_env 5 9
       (open_session demo_running_db) = (Inr demo_ticket, s1)
     \<and> map run_id (runs (stored s1)) = [6, 7] \<and> map run_status (runs (stored s1)) = [RUN_RUNNING, RUN_RUNNING]"
    by (simp add: start_extraction_def check_input_def get_doc_def load_ordered_pages_def
        page_hash_ok_def sha256_text_def char_count_def demo_extract_config_def
        completed_run_exists_def compute_snapshot_sha256_def add_run_def record_extraction_audit_def
        Let_def demo_race_defs)
  show "\<exists>s2. finish_extraction (\<lambda>_. ''h'') demo_second_env 5 9 demo_ticket demo_answer
       (open_session (demo_race_db RUN_COMPLETED))
         = (Inl (ExtractionServiceError ''PERSISTENCE_FAILED''), s2)
     \<and> map run_status (runs (stored s2)) = [RUN_COMPLETED, RUN_RUNNING]"
    by (simp add: finish_extraction_def record_provider_usage_def persist_candidates_def
        confirm_run_def find_run_def get_doc_def load_ordered_pages_def page_hash_ok_def
        sha256_text_def compute_snapshot_sha256_def completed_conflict_def same_snapshot_def
        Let_def demo_race_defs split: prod.splits)
qed

section \<open>Extraction never moves a document\<close>

context db_invariant
begin

lemma extraction_writes_keep:
  "holds I s \<Longrightarrow> holds I (map_run rid f s)" "holds I s \<Longrightarrow> holds I (add_run r s)"
  "holds I s \<Longrightarrow> holds I (add_rows cs ts s)"
  by (erule keep_elsewhere; simp add: add_run_def map_run_def add_rows_def)+

lemma extraction_bookkeeping_keeps:
  "holds I s \<Longrightarrow> holds I (mark_run_failed now rid code s)"
  "holds I s \<Longrightarrow> holds I (record_provider_usage rid ug s)"
  "holds I s \<Longrightarrow> act \<noteq> transition_action \<Longrightarrow>
     holds I (record_extraction_audit ok org proj doc rid' act det s)"
  by (auto simp: mark_run_failed_def record_provider_usage_def record_extraction_audit_def
      extraction_writes_keep keep_audit split: option.splits)

lemma supersede_keeps:
  assumes "holds I s"
  shows "holds I (supersede_stale_candidates now org doc rid s)"
proof -
  have "holds I (s\<lparr>work := (work s)\<lparr>candidates := cs, tasks := ts\<rparr>\<rparr>)" for cs ts
    using assms by (rule keep_elsewhere) simp_all
  then show ?thesis
    using assms by (auto simp: supersede_stale_candidates_def Let_def transition_action_def
        intro!: keep_audit split: list.splits)
qed

lemmas extraction_keeps = extraction_writes_keep extraction_bookkeeping_keeps supersede_keeps

lemma start_extraction_keeps:
  assumes "holds I s"
  shows "holds I (snd (start_extraction H cfg env i org s))"
proof -
  have "holds I (snd (check_input H cfg env i org s))"
    using assms by (auto simp: check_input_def refuse_def Let_def transition_action_def
        intro!: extraction_keeps split: option.splits)
  then show ?thesis
    unfolding start_extraction_def
    by (rule and_then_keeps)
      (auto simp: refuse_def Let_def transition_action_def intro!: extraction_keeps holds_simps(1))
qed

lemma persist_candidates_keeps:
  assumes "holds I s"
  shows "holds I (snd (persist_candidates H env i org proj snap resp s))"
proof -
  have "holds I (snd (confirm_run H env i snap s))"
    using assms by (auto simp: confirm_run_def Let_def intro!: extraction_keeps split: option.splits)
  then show ?thesis
    unfolding persist_candidates_def
    by (rule and_then_keeps)
      (use assms in \<open>auto simp: Let_def split: prod.splits intro!: extraction_keeps holds_simps(1)\<close>)
qed

lemma extraction_task_keeps:
  assumes "holds I s"
  shows "holds I (extract_requirements_task H cfg built i org s)"
proof -
  have start: "holds I (snd (start_extraction H cfg env i org s))" for env
    using assms by (rule start_extraction_keeps)
  have failed: "holds I (snd (extractor_failed env i org proj e s1))" if "holds I s1" for env proj e s1
    using that by (auto simp: extractor_failed_def Let_def transition_action_def intro!: extraction_keeps)
  have finish: "holds I (snd (finish_extraction H env i org tk resp s1))"
    if "holds I s1" for env tk resp s1
  proof -
    let ?s2 = "record_provider_usage (en_run_id env) (en_usage env) s1"
    obtain r s3 where p: "persist_candidates H env i org (xt_project_id tk) (xt_snapshot tk) resp ?s2
      = (r, s3)" by fastforce
    have "holds I s3"
      using persist_candidates_keeps [OF extraction_keeps(5) [OF that]] p by (metis snd_conv)
    then show ?thesis
      by (auto simp: finish_extraction_def p Let_def transition_action_def intro!: extraction_keeps
          split: sum.splits exc.splits)
  qed
  have "holds I (snd (create_requirement_candidates H cfg env i org s))" for env
    unfolding create_requirement_candidates_def
    by (intro and_then_keeps start) (auto simp: failed finish split: sum.splits)
  then show ?thesis
    using assms by (auto simp: extract_requirements_task_def split: sum.splits)
qed

end

definition extraction_job ::
  "(bytes \<Rightarrow> string) \<Rightarrow> extract_config \<Rightarrow> (exc + extract_env) \<times> uuid \<times> uuid \<Rightarrow> sess \<Rightarrow> sess" where
  "extraction_job H cfg e s = (case e of (built, i, org) \<Rightarrow> extract_requirements_task H cfg built i org s)"

interpretation extractions: document_job "extraction_job H cfg" for H cfg
  by unfold_locales (auto simp: extraction_job_def db_invariant.extraction_task_keeps split: prod.splits)

end
