(* ===== verification/Security.thy ===== *)
theory Security
  imports Schema
begin

text \<open>
  \<open>app/core/security.py\<close> and \<open>app/cli/requirement_reviewer.py\<close>: who is logged in, which
  rows an organization may see, and the capability to review requirements. Log messages are
  not represented.
\<close>

section \<open>The session's user\<close>

definition check_app_env_auth :: "string \<Rightarrow> string \<Rightarrow> exc + unit" where
  "check_app_env_auth app_env auth_mode =
     (if app_env \<notin> {''development'', ''local'', ''test''} \<and> auth_mode = ''dev''
      then Inl (HTTPException 401 ''Authentication required in non-development environments'')
      else Inr ())"

text \<open>
  The two session values are strings; \<open>parse\<close> is the \<open>UUID\<close> constructor (\<open>None\<close> is a
  \<open>ValueError\<close>).
\<close>

definition get_current_org_and_user ::
  "(string \<Rightarrow> uuid option) \<Rightarrow> string option \<Rightarrow> string option \<Rightarrow> db \<Rightarrow> exc + uuid \<times> uuid" where
  "get_current_org_and_user parse user_text org_text d =
     (if user_text \<in> {None, Some []} \<or> org_text \<in> {None, Some []}
      then Inl (HTTPException 401 ''Authentication required'')
      else
        (case (parse (the user_text), parse (the org_text)) of
           (Some usr, Some org) \<Rightarrow>
             (case users d usr of
                None \<Rightarrow> Inl (HTTPException 401 ''User account is deactivated or missing'')
              | Some u \<Rightarrow>
                  if \<not> us_is_active u
                  then Inl (HTTPException 401 ''User account is deactivated or missing'')
                  else if org \<notin> organizations d
                  then Inl (HTTPException 401 ''Organization is missing'')
                  else if us_organization_id u \<noteq> org
                  then Inl (HTTPException 401 ''User organization mismatch'')
                  else Inr (org, usr))
         | _ \<Rightarrow> Inl (HTTPException 401 ''Invalid session session IDs'')))"

lemma logged_in:
  "get_current_org_and_user parse ut ot d = Inr (org, usr) \<Longrightarrow>
   org \<in> organizations d \<and> (\<exists>u. users d usr = Some u \<and> us_is_active u \<and> us_organization_id u = org)"
  by (auto simp: get_current_org_and_user_def split: if_splits option.splits)

section \<open>The reviewer capability\<close>

definition require_requirement_reviewer :: "db \<Rightarrow> uuid \<Rightarrow> uuid \<Rightarrow> exc + user" where
  "require_requirement_reviewer d usr org =
     (case users d usr of
        None \<Rightarrow> Inl (ReviewerAuthorizationError 401 ''REVIEW_AUTH_NO_USER'')
      | Some u \<Rightarrow>
          if \<not> us_is_active u then Inl (ReviewerAuthorizationError 401 ''REVIEW_AUTH_INACTIVE'')
          else if us_organization_id u \<noteq> org
          then Inl (ReviewerAuthorizationError 404 ''REVIEW_AUTH_TENANT_MISMATCH'')
          else if \<not> us_can_review_requirements u
          then Inl (ReviewerAuthorizationError 403 ''REVIEW_AUTH_NO_CAPABILITY'')
          else Inr u)"

text \<open>Who may decide.\<close>

definition reviewer_of :: "db \<Rightarrow> uuid \<Rightarrow> uuid \<Rightarrow> bool" where
  "reviewer_of d usr org \<longleftrightarrow>
     (\<exists>u. users d usr = Some u \<and> us_is_active u \<and> us_organization_id u = org
        \<and> us_can_review_requirements u)"

lemma reviewer_authorized:
  "(\<exists>u. require_requirement_reviewer d usr org = Inr u) \<longleftrightarrow> reviewer_of d usr org"
  by (auto simp: require_requirement_reviewer_def reviewer_of_def split: option.splits)

lemma reviewer_user:
  "require_requirement_reviewer d usr org = Inr u \<Longrightarrow> users d usr = Some u \<and> reviewer_of d usr org"
  by (auto simp: require_requirement_reviewer_def reviewer_of_def split: option.splits if_splits)

lemma reviewer_refused:
  "require_requirement_reviewer d usr org = Inl e \<Longrightarrow>
   \<exists>st code. e = ReviewerAuthorizationError st code \<and> \<not> reviewer_of d usr org"
  by (auto simp: require_requirement_reviewer_def reviewer_of_def split: option.splits if_splits)

section \<open>Rows of an organization\<close>

text \<open>
  The audit of a foreign access is best effort: \<open>audit_ok\<close> is whether its commit succeeds;
  an exception there is swallowed.
\<close>

definition access_event :: "uuid \<Rightarrow> project \<Rightarrow> audit_event" where
  "access_event org pr =
     \<lparr>ev_organization_id = org, ev_user_id = None, ev_action = ''UNAUTHORIZED_ACCESS_ATTEMPT'',
      ev_entity_type = ''Project'', ev_entity_id = pr_id pr,
      ev_details = [''target_org_id'' \<mapsto> JId (pr_organization_id pr)]\<rparr>"

definition get_project_for_org ::
  "bool \<Rightarrow> uuid \<Rightarrow> uuid \<Rightarrow> sess \<Rightarrow> (exc + project) \<times> sess" where
  "get_project_for_org audit_ok i org s =
     (case projects (work s) i of
        None \<Rightarrow> (Inl (HTTPException 404 ''Project not found''), s)
      | Some pr \<Rightarrow>
          if pr_organization_id pr \<noteq> org
          then (Inl (HTTPException 404 ''Project not found''),
                if audit_ok then commit (add_audit (access_event org pr) s) else s)
          else (Inr pr, s))"

definition get_requirement_for_org ::
  "bool \<Rightarrow> uuid \<Rightarrow> uuid \<Rightarrow> sess \<Rightarrow> (exc + requirement) \<times> sess" where
  "get_requirement_for_org audit_ok i org s =
     (case find (\<lambda>r. rq_id r = i) (requirements (work s)) of
        None \<Rightarrow> (Inl (HTTPException 404 ''Requirement not found''), s)
      | Some r \<Rightarrow> (case get_project_for_org audit_ok (rq_project_id r) org s of
                     (Inl e, s') \<Rightarrow> (Inl e, s')
                   | (Inr _, s') \<Rightarrow> (Inr r, s')))"

definition get_document_for_org ::
  "bool \<Rightarrow> uuid \<Rightarrow> uuid \<Rightarrow> sess \<Rightarrow> (exc + document) \<times> sess" where
  "get_document_for_org audit_ok i org s =
     (case get_doc s i of
        None \<Rightarrow> (Inl (HTTPException 404 ''Document not found''), s)
      | Some x \<Rightarrow> (case get_project_for_org audit_ok (d_project_id x) org s of
                     (Inl e, s') \<Rightarrow> (Inl e, s')
                   | (Inr _, s') \<Rightarrow> (Inr x, s')))"

text \<open>The organization a document or a requirement belongs to, through its project.\<close>

definition belongs_to :: "db \<Rightarrow> uuid \<Rightarrow> uuid \<Rightarrow> bool" where
  "belongs_to d proj org \<longleftrightarrow> (\<exists>pr. projects d proj = Some pr \<and> pr_organization_id pr = org)"

lemma project_for_org:
  "get_project_for_org audit_ok i org s = (Inr pr, s') \<Longrightarrow>
   s' = s \<and> projects (work s) i = Some pr \<and> pr_organization_id pr = org"
  by (auto simp: get_project_for_org_def split: option.splits if_splits)

lemma project_refused:
  "get_project_for_org audit_ok i org s = (Inl e, s') \<Longrightarrow>
   e = HTTPException 404 ''Project not found'' \<and> \<not> belongs_to (work s) i org
   \<and> documents (work s') = documents (work s) \<and> requirements (work s') = requirements (work s)"
  by (auto simp: get_project_for_org_def belongs_to_def split: option.splits if_splits)

text \<open>
  A document is handed out exactly to the organization that owns its project; anybody
  else gets the same kind of answer, 404, whether the document is missing or foreign, and no
  document or requirement is changed.
\<close>

lemma documents_stay_in_tenant:
  "case get_document_for_org audit_ok i org s of
     (Inr x, s') \<Rightarrow> s' = s \<and> get_doc s i = Some x \<and> belongs_to (work s) (d_project_id x) org
   | (Inl e, s') \<Rightarrow> (\<exists>m. e = HTTPException 404 m)
       \<and> \<not> (\<exists>x. get_doc s i = Some x \<and> belongs_to (work s) (d_project_id x) org)
       \<and> documents (work s') = documents (work s) \<and> requirements (work s') = requirements (work s)"
  by (auto simp: get_document_for_org_def belongs_to_def split: prod.splits sum.splits option.splits
      dest: project_for_org project_refused)

text \<open>The same holds for requirements.\<close>

lemma requirements_stay_in_tenant:
  "case get_requirement_for_org audit_ok i org s of
     (Inr r, s') \<Rightarrow> s' = s \<and> r \<in> set (requirements (work s)) \<and> rq_id r = i
       \<and> belongs_to (work s) (rq_project_id r) org
   | (Inl e, s') \<Rightarrow> (\<exists>m. e = HTTPException 404 m)
       \<and> documents (work s') = documents (work s) \<and> requirements (work s') = requirements (work s)"
  by (auto simp: get_requirement_for_org_def belongs_to_def split: prod.splits sum.splits option.splits
      dest: project_for_org project_refused find_Some_in)

section \<open>The operator command\<close>

text \<open>
  \<open>rows\<close> is what \<open>select(User)\<close> returns for the organization and \<open>lc\<close> is \<open>str.lower\<close>.
\<close>

definition resolve_user ::
  "(ustr \<Rightarrow> ustr) \<Rightarrow> user list \<Rightarrow> ustr \<Rightarrow> uuid \<Rightarrow> db \<Rightarrow> exc + user" where
  "resolve_user lc rows email org d =
     (if org \<notin> organizations d then Inl (CapabilityCommandError ''No such organization.'')
      else
        let normalized = lc (strip email);
            scoped = filter (\<lambda>u. lc (strip (us_email u)) = normalized) rows
        in if length scoped > 1
           then Inl (CapabilityCommandError
             ''Multiple users match in this organization; refusing to guess.'')
           else (case scoped of
                   [] \<Rightarrow> Inl (CapabilityCommandError ''No matching user in that organization. This command never creates users or moves them between organizations.'')
                 | u # _ \<Rightarrow> Inr u))"

definition capability_event :: "user \<Rightarrow> uuid \<Rightarrow> bool \<Rightarrow> ustr \<Rightarrow> string \<Rightarrow> audit_event" where
  "capability_event u org grant reason result =
     \<lparr>ev_organization_id = org, ev_user_id = None,
      ev_action = (if grant then ''capability_granted'' else ''capability_revoked''),
      ev_entity_type = ''User'', ev_entity_id = us_id u,
      ev_details = [''capability'' \<mapsto> JStr ''can_review_requirements'',
        ''target_user_id'' \<mapsto> JId (us_id u), ''organization_id'' \<mapsto> JId org,
        ''reason'' \<mapsto> JText reason, ''result'' \<mapsto> JStr result, ''source'' \<mapsto> JStr ''operator_cli'']\<rparr>"

definition put_user :: "user \<Rightarrow> sess \<Rightarrow> sess" where
  "put_user u s = s\<lparr>work := (work s)\<lparr>users := (users (work s))(us_id u \<mapsto> u)\<rparr>\<rparr>"

definition set_capability ::
  "(ustr \<Rightarrow> ustr) \<Rightarrow> user list \<Rightarrow> ustr \<Rightarrow> uuid \<Rightarrow> bool \<Rightarrow> ustr \<Rightarrow> bool \<Rightarrow> sess
    \<Rightarrow> (exc + user \<times> string) \<times> sess" where
  "set_capability lc rows email org grant reason confirm s =
     (if strip reason = []
      then (Inl (CapabilityCommandError ''A non-empty --reason is required.''), s)
      else
        (case resolve_user lc rows email org (work s) of
           Inl e \<Rightarrow> (Inl e, s)
         | Inr u \<Rightarrow>
             if us_can_review_requirements u = grant
             then (Inr (u, if grant then ''ALREADY_GRANTED'' else ''ALREADY_REVOKED''), s)
             else if \<not> confirm then (Inr (u, ''DRY_RUN_NO_CHANGE_WRITTEN''), s)
             else
               let u1 = u\<lparr>us_can_review_requirements := grant\<rparr>;
                   result = (if grant then ''GRANTED'' else ''REVOKED'')
               in (Inr (u1, result),
                   commit (add_audit (capability_event u1 org grant (strip reason) result)
                             (put_user u1 s)))))"

text \<open>\<open>main\<close>: the exit code and the database it leaves.\<close>

definition reviewer_main ::
  "(string \<Rightarrow> uuid option) \<Rightarrow> (ustr \<Rightarrow> ustr) \<Rightarrow> (uuid \<Rightarrow> user list) \<Rightarrow> string \<Rightarrow> ustr \<Rightarrow> string \<Rightarrow> ustr
    \<Rightarrow> bool \<Rightarrow> db \<Rightarrow> nat \<times> db" where
  "reviewer_main parse lc rows command email org_text reason confirm d =
     (case parse org_text of
        None \<Rightarrow> (2, d)
      | Some org \<Rightarrow>
          (case set_capability lc (rows org) email org (command = ''grant'') reason confirm
                  (open_session d) of
             (Inl _, s) \<Rightarrow> (3, stored s)
           | (Inr _, s) \<Rightarrow> (0, stored s)))"

text \<open>What the query returns: the users of the organization, stored under their own key.\<close>

definition users_of :: "db \<Rightarrow> uuid \<Rightarrow> user list \<Rightarrow> bool" where
  "users_of d org rows \<longleftrightarrow>
     (\<forall>u \<in> set rows. users d (us_id u) = Some u \<and> us_organization_id u = org)"

lemma resolve_user_ok:
  "resolve_user lc rows email org d = Inr u \<Longrightarrow>
   u \<in> set rows \<and> lc (strip (us_email u)) = lc (strip email) \<and> org \<in> organizations d"
  by (auto simp: resolve_user_def Let_def split: if_splits list.splits dest: filter_eq_ConsD)

text \<open>
  The operator command writes only on a confirmed change with a reason: then exactly the
  capability bit of the one user of the named organization with that address changes and one
  audit event records it; in every other case (error, settled state, dry run) the database is
  as it was.
\<close>

lemma capability_change_is_confirmed:
  assumes "users_of (work s) org rows"
    and "set_capability lc rows email org grant reason confirm s = (r, s')"
  shows "s' = s \<or>
    (\<exists>u. confirm \<and> strip reason \<noteq> [] \<and> users (work s) (us_id u) = Some u
       \<and> us_organization_id u = org \<and> lc (strip (us_email u)) = lc (strip email)
       \<and> us_can_review_requirements u = (\<not> grant) \<and> stored s' = work s'
       \<and> users (work s') = (users (work s))(us_id u \<mapsto> u\<lparr>us_can_review_requirements := grant\<rparr>)
       \<and> (\<exists>e. audit (work s') = audit (work s) @ [e] \<and> ev_entity_id e = us_id u)
       \<and> documents (work s') = documents (work s) \<and> requirements (work s') = requirements (work s))"
proof (cases "s' = s")
  case False
  then obtain u where u: "resolve_user lc rows email org (work s) = Inr u" "confirm"
      "strip reason \<noteq> []" "us_can_review_requirements u = (\<not> grant)"
      "s' = commit (add_audit (capability_event (u\<lparr>us_can_review_requirements := grant\<rparr>) org grant
              (strip reason) (if grant then ''GRANTED'' else ''REVOKED''))
              (put_user (u\<lparr>us_can_review_requirements := grant\<rparr>) s))"
    using assms(2) by (auto simp: set_capability_def Let_def split: if_splits sum.splits)
  have "users (work s) (us_id u) = Some u" "us_organization_id u = org"
    using assms(1) resolve_user_ok [OF u(1)] by (auto simp: users_of_def)
  with u resolve_user_ok [OF u(1)] show ?thesis
    by (intro disjI2 exI [of _ u]) (simp add: put_user_def capability_event_def)
qed simp

definition demo_user :: user where
  "demo_user = \<lparr>us_id = 4, us_organization_id = 9, us_email = uni ''Ann@example.com'',
     us_hashed_password = [], us_full_name = [], us_is_active = True, us_can_review_requirements = False\<rparr>"

definition demo_users_db :: db where
  "demo_users_db = empty_db\<lparr>organizations := {9}, users := [4 \<mapsto> demo_user]\<rparr>"

theorem capability_change_is_confirmed_witness:
  "users (stored (snd (set_capability id [demo_user] (uni '' Ann@example.com'') 9 True (uni ''CHG-1'')
     True (open_session demo_users_db)))) 4 = Some (demo_user\<lparr>us_can_review_requirements := True\<rparr>)"
proof -
  let ?s = "open_session demo_users_db"
  let ?r = "set_capability id [demo_user] (uni '' Ann@example.com'') 9 True (uni ''CHG-1'') True ?s"
  have of: "users_of (work ?s) 9 [demo_user]"
    by (simp add: users_of_def demo_users_db_def demo_user_def)
  have "resolve_user id [demo_user] (uni '' Ann@example.com'') 9 demo_users_db = Inr demo_user"
    by (simp add: resolve_user_def demo_users_db_def demo_user_def strip_def lstrip_def rstrip_def
        is_space_def)
  then have "users (work (snd ?r)) 4 \<noteq> users (work ?s) 4"
    by (simp add: set_capability_def strip_def lstrip_def rstrip_def is_space_def Let_def
        demo_user_def put_user_def demo_users_db_def)
  then have "snd ?r \<noteq> ?s" by metis
  then obtain u where "users (work ?s) (us_id u) = Some u" "stored (snd ?r) = work (snd ?r)"
    "users (work (snd ?r)) = (users (work ?s))(us_id u \<mapsto> u\<lparr>us_can_review_requirements := True\<rparr>)"
    using capability_change_is_confirmed [OF of, of id "uni '' Ann@example.com''" True "uni ''CHG-1''"
        True "fst ?r" "snd ?r"] by auto
  then show ?thesis by (auto simp: demo_users_db_def demo_user_def split: if_splits)
qed

end
