(* ===== verification/Review.thy ===== *)
theory Review
  imports CandidateExtraction Security
begin

text \<open>
  \<open>app/services/candidate_review.py\<close>: the human decision that turns a machine proposal into
  an authoritative requirement. Authorisation, revalidation of the evidence, the decision,
  the requirement row, the review task and the audit event are one transaction.
\<close>

section \<open>Decisions\<close>

datatype decision = Approve | Edit | Reject | OtherDecision string

definition decided_status :: "decision \<Rightarrow> candidate_status" where
  "decided_status dec = (case dec of Approve \<Rightarrow> APPROVED | Edit \<Rightarrow> EDITED | _ \<Rightarrow> REJECTED)"

definition decision_text :: "decision \<Rightarrow> string" where
  "decision_text dec = (case dec of Approve \<Rightarrow> ''APPROVE'' | Edit \<Rightarrow> ''EDIT'' | Reject \<Rightarrow> ''REJECT''
                        | OtherDecision t \<Rightarrow> t)"

definition decision_action :: "decision \<Rightarrow> string" where
  "decision_action dec = (case dec of Approve \<Rightarrow> ''candidate_review_approved''
     | Edit \<Rightarrow> ''candidate_review_edited'' | _ \<Rightarrow> ''candidate_review_rejected'')"

definition status_text :: "candidate_status \<Rightarrow> string" where
  "status_text st = (case st of PROPOSED \<Rightarrow> ''PROPOSED'' | APPROVED \<Rightarrow> ''APPROVED''
     | EDITED \<Rightarrow> ''EDITED'' | REJECTED \<Rightarrow> ''REJECTED'' | SUPERSEDED \<Rightarrow> ''SUPERSEDED'')"

record review_result =
  rr_candidate_id :: uuid
  rr_candidate_status :: candidate_status
  rr_requirement_id :: "uuid option"
  rr_result_code :: string
  rr_idempotent_replay :: bool

text \<open>
  \<open>rw_nfc\<close> is \<open>unicodedata.normalize("NFC", _)\<close>; \<open>rw_flush_fails\<close> and \<open>rw_commit_fails\<close> are
  database errors other than the unique index on \<open>source_candidate_id\<close>.
\<close>

record review_env =
  rw_nfc :: "ustr \<Rightarrow> ustr"
  rw_now :: time
  rw_now_text :: string
  rw_requirement_id :: uuid
  rw_flush_fails :: bool
  rw_commit_fails :: bool

section \<open>Reviewer text\<close>

definition max_reviewer_edited_text_len :: nat where "max_reviewer_edited_text_len = 2000"
definition max_reviewer_comment_len :: nat where "max_reviewer_comment_len = 1000"

definition normalize_reviewer_text :: "(ustr \<Rightarrow> ustr) \<Rightarrow> ustr \<Rightarrow> exc + ustr" where
  "normalize_reviewer_text nfc raw =
     (let t = strip (nfc raw) in
      if t = [] then Inl (CandidateReviewError ''REVIEW_EDIT_TEXT_REQUIRED'')
      else if length t > max_reviewer_edited_text_len
      then Inl (CandidateReviewError ''REVIEW_EDIT_TEXT_INVALID'')
      else if find_unsafe_content t \<noteq> None
      then Inl (CandidateReviewError ''REVIEW_EDIT_TEXT_INVALID'')
      else Inr t)"

definition normalize_comment :: "(ustr \<Rightarrow> ustr) \<Rightarrow> ustr option \<Rightarrow> exc + ustr option" where
  "normalize_comment nfc raw =
     (case raw of None \<Rightarrow> Inr None
      | Some r \<Rightarrow>
          let t = strip (nfc r) in
          if t = [] then Inr None
          else if length t > max_reviewer_comment_len
          then Inl (CandidateReviewError ''REVIEW_COMMENT_INVALID'')
          else if find_unsafe_content t \<noteq> None
          then Inl (CandidateReviewError ''REVIEW_COMMENT_INVALID'')
          else Inr (Some t))"

section \<open>Provenance\<close>

definition drift :: "exc + unit" where
  "drift = Inl (CandidateReviewError ''REVIEW_SOURCE_DRIFT'')"

definition revalidate_source :: "(bytes \<Rightarrow> string) \<Rightarrow> db \<Rightarrow> candidate \<Rightarrow> exc + unit" where
  "revalidate_source H d c =
     (case find (\<lambda>p. pg_id p = cd_document_page_id c) (pages d) of
        None \<Rightarrow> drift
      | Some p \<Rightarrow>
          if pg_document_id p \<noteq> cd_document_id c then drift
          else if \<not> belongs_to d (cd_project_id c) (cd_organization_id c) then drift
          else if \<not> page_hash_ok H p then drift
          else if pg_content_sha256 p \<noteq> Some (cd_page_content_sha256 c) then drift
          else if cd_span_start c < 0 \<or> cd_span_end c > int (length (pg_content p))
                  \<or> cd_span_end c \<le> cd_span_start c then drift
          else if slice (pg_content p) (nat (cd_span_start c)) (nat (cd_span_end c)) \<noteq> cd_evidence_text c
          then drift
          else if sha256_text H (cd_evidence_text c) \<noteq> cd_evidence_sha256 c then drift
          else (case find_run d (cd_extraction_run_id c) of
                  None \<Rightarrow> Inl (CandidateReviewError ''REVIEW_RUN_NOT_APPLICABLE'')
                | Some r \<Rightarrow>
                    if run_document_id r \<noteq> cd_document_id c \<or> run_organization_id r \<noteq> cd_organization_id c
                    then Inl (CandidateReviewError ''REVIEW_RUN_NOT_APPLICABLE'')
                    else Inr ()))"

section \<open>The decision\<close>

text \<open>The reviewer's replacement text and the text of the requirement.\<close>

definition reviewed_text ::
  "(ustr \<Rightarrow> ustr) \<Rightarrow> decision \<Rightarrow> ustr option \<Rightarrow> candidate \<Rightarrow> exc + ustr option \<times> ustr" where
  "reviewed_text nfc dec edited c =
     (if dec = Edit then
        (case edited of
           None \<Rightarrow> Inl (CandidateReviewError ''REVIEW_EDIT_TEXT_REQUIRED'')
         | Some raw \<Rightarrow> (case normalize_reviewer_text nfc raw of
                         Inl e \<Rightarrow> Inl e | Inr t \<Rightarrow> Inr (Some t, t)))
      else if dec = Approve then Inr (cd_reviewer_edited_text c, cd_normalized_requirement_text c)
      else Inr (cd_reviewer_edited_text c, []))"

definition decided_candidate ::
  "review_env \<Rightarrow> uuid \<Rightarrow> decision \<Rightarrow> ustr option \<Rightarrow> ustr option \<Rightarrow> candidate \<Rightarrow> candidate" where
  "decided_candidate env usr dec edited comment c =
     c\<lparr>cd_reviewer_edited_text := edited, cd_candidate_status := decided_status dec,
       cd_reviewed_at := Some (rw_now env), cd_reviewed_by := Some usr,
       cd_reviewer_comment := comment\<rparr>"

definition requirement_of :: "review_env \<Rightarrow> candidate \<Rightarrow> ustr \<Rightarrow> requirement" where
  "requirement_of env c tx =
     \<lparr>rq_id = rw_requirement_id env, rq_project_id = cd_project_id c,
      rq_source_document_id = Some (cd_document_id c), rq_source_candidate_id = Some (cd_id c),
      rq_original_text = tx, rq_source_section = Some (cd_source_locator c),
      rq_source_page = None, rq_requirement_type = cd_requirement_type c,
      rq_mandatory = False, rq_status = ''NOT_STARTED'', rq_owner_name = None,
      rq_proposal_section = None, rq_risk_level = None, rq_assigned_to_user_id = None,
      rq_assigned_by_user_id = None, rq_assigned_at = None\<rparr>"

definition completed_task :: "review_env \<Rightarrow> uuid \<Rightarrow> review_task \<Rightarrow> review_task" where
  "completed_task env usr t =
     (if tk_status t = TASK_OPEN
      then t\<lparr>tk_status := TASK_COMPLETED,
             tk_assigned_to_id := Some (case tk_assigned_to_id t of None \<Rightarrow> usr | Some a \<Rightarrow> a),
             tk_resolved_at := Some (rw_now env)\<rparr>
      else t)"

definition creates_requirement :: "decision \<Rightarrow> bool" where
  "creates_requirement dec \<longleftrightarrow> dec = Approve \<or> dec = Edit"

definition decision_event ::
  "review_env \<Rightarrow> uuid \<Rightarrow> uuid \<Rightarrow> decision \<Rightarrow> candidate \<Rightarrow> audit_event" where
  "decision_event env org usr dec c =
     \<lparr>ev_organization_id = org, ev_user_id = Some usr, ev_action = decision_action dec,
      ev_entity_type = ''RequirementCandidate'', ev_entity_id = cd_id c,
      ev_details = [''project_id'' \<mapsto> JId (cd_project_id c), ''document_id'' \<mapsto> JId (cd_document_id c),
        ''extraction_run_id'' \<mapsto> JId (cd_extraction_run_id c),
        ''requirement_id'' \<mapsto> (if creates_requirement dec then JId (rw_requirement_id env) else JNull),
        ''reviewer_id'' \<mapsto> JId usr, ''decision'' \<mapsto> JStr (decision_text dec),
        ''candidate_status'' \<mapsto> JStr (status_text (decided_status dec)),
        ''extraction_schema_version'' \<mapsto> JStr (cd_extraction_schema_version c),
        ''reviewed_at'' \<mapsto> JStr (rw_now_text env), ''result_code'' \<mapsto> JStr ''REVIEW_OK'']\<rparr>"

text \<open>The writes of steps 6 to 11; the two rows are changed in place.\<close>

definition write_decision ::
  "review_env \<Rightarrow> uuid \<Rightarrow> uuid \<Rightarrow> decision \<Rightarrow> ustr option \<Rightarrow> ustr option \<Rightarrow> ustr \<Rightarrow> candidate \<Rightarrow> review_task
    \<Rightarrow> sess \<Rightarrow> sess" where
  "write_decision env org usr dec edited comment tx c t s =
     add_audit (decision_event env org usr dec c)
       (s\<lparr>work := (work s)\<lparr>
          candidates := upd_row cd_id (cd_id c) (decided_candidate env usr dec edited comment)
                          (candidates (work s)),
          tasks := upd_row tk_id (tk_id t) (completed_task env usr) (tasks (work s)),
          requirements := requirements (work s)
            @ (if creates_requirement dec then [requirement_of env c tx] else [])\<rparr>\<rparr>)"

text \<open>The unique index on \<open>Requirement.source_candidate_id\<close>.\<close>

definition already_promoted :: "db \<Rightarrow> uuid \<Rightarrow> bool" where
  "already_promoted d i \<longleftrightarrow> list_ex (\<lambda>r. rq_source_candidate_id r = Some i) (requirements d)"

section \<open>A candidate that is already decided\<close>

definition conflict_event :: "uuid \<Rightarrow> uuid \<Rightarrow> decision \<Rightarrow> candidate \<Rightarrow> audit_event" where
  "conflict_event org usr dec c =
     \<lparr>ev_organization_id = org, ev_user_id = Some usr, ev_action = ''candidate_review_conflict'',
      ev_entity_type = ''RequirementCandidate'', ev_entity_id = cd_id c,
      ev_details = [''project_id'' \<mapsto> JId (cd_project_id c),
        ''extraction_run_id'' \<mapsto> JId (cd_extraction_run_id c),
        ''decision'' \<mapsto> JStr (decision_text dec),
        ''current_status'' \<mapsto> JStr (status_text (cd_candidate_status c)),
        ''result_code'' \<mapsto> JStr (if cd_candidate_status c = decided_status dec
                                then ''REVIEW_ALREADY_DECIDED'' else ''REVIEW_CONFLICT'')]\<rparr>"

definition settled ::
  "review_env \<Rightarrow> uuid \<Rightarrow> uuid \<Rightarrow> decision \<Rightarrow> candidate \<Rightarrow> sess \<Rightarrow> (exc + review_result) \<times> sess" where
  "settled env org usr dec c s =
     (if rw_commit_fails env then (Inl (CandidateReviewError ''REVIEW_CONFLICT''), rollback s)
      else
        let s1 = commit (add_audit (conflict_event org usr dec c) s);
            existing = find (\<lambda>r. rq_source_candidate_id r = Some (cd_id c)) (requirements (work s))
        in if cd_candidate_status c = decided_status dec
           then (Inr \<lparr>rr_candidate_id = cd_id c, rr_candidate_status = cd_candidate_status c,
                      rr_requirement_id = map_option rq_id existing,
                      rr_result_code = ''REVIEW_ALREADY_DECIDED'', rr_idempotent_replay = True\<rparr>, s1)
           else (Inl (CandidateReviewError ''REVIEW_CONFLICT''), rollback s1))"

section \<open>review\_requirement\_candidate\<close>

text \<open>The steps after authorisation; every exception rolls back.\<close>

definition review_candidate ::
  "(bytes \<Rightarrow> string) \<Rightarrow> review_env \<Rightarrow> uuid \<Rightarrow> uuid \<Rightarrow> uuid \<Rightarrow> decision \<Rightarrow> ustr option \<Rightarrow> ustr option \<Rightarrow> sess
    \<Rightarrow> (exc + review_result) \<times> sess" where
  "review_candidate H env i usr org dec edited comment s =
     (case find (\<lambda>c. cd_id c = i \<and> cd_organization_id c = org) (candidates (work s)) of
        None \<Rightarrow> (Inl (CandidateReviewError ''REVIEW_CANDIDATE_NOT_FOUND''), rollback s)
      | Some c \<Rightarrow>
          if cd_candidate_status c \<noteq> PROPOSED then settled env org usr dec c s
          else
            (case find (\<lambda>t. tk_candidate_id t = i \<and> tk_organization_id t = org) (tasks (work s)) of
               None \<Rightarrow> (Inl (CandidateReviewError ''REVIEW_TASK_MISSING''), rollback s)
             | Some t \<Rightarrow>
                 (case revalidate_source H (work s) c of
                    Inl e \<Rightarrow> (Inl e, rollback s)
                  | Inr _ \<Rightarrow>
                      (case normalize_comment (rw_nfc env) comment of
                         Inl e \<Rightarrow> (Inl e, rollback s)
                       | Inr cm \<Rightarrow>
                           (case reviewed_text (rw_nfc env) dec edited c of
                              Inl e \<Rightarrow> (Inl e, rollback s)
                            | Inr (ed, tx) \<Rightarrow>
                                if creates_requirement dec
                                   \<and> (already_promoted (work s) i \<or> rw_flush_fails env)
                                   \<or> rw_commit_fails env
                                then (Inl (CandidateReviewError ''REVIEW_CONFLICT''), rollback s)
                                else (Inr \<lparr>rr_candidate_id = i,
                                           rr_candidate_status = decided_status dec,
                                           rr_requirement_id = (if creates_requirement dec
                                             then Some (rw_requirement_id env) else None),
                                           rr_result_code = ''REVIEW_OK'',
                                           rr_idempotent_replay = False\<rparr>,
                                      commit (write_decision env org usr dec ed cm tx c t s)))))))"

definition unauthorized_event :: "uuid \<Rightarrow> uuid \<Rightarrow> decision \<Rightarrow> uuid \<Rightarrow> exc \<Rightarrow> audit_event" where
  "unauthorized_event org usr dec i e =
     \<lparr>ev_organization_id = org, ev_user_id = Some usr, ev_action = ''candidate_review_unauthorized'',
      ev_entity_type = ''RequirementCandidate'', ev_entity_id = i,
      ev_details = [''decision'' \<mapsto> JStr (decision_text dec),
        ''result_code'' \<mapsto> JStr (case e of ReviewerAuthorizationError _ code \<Rightarrow> code | _ \<Rightarrow> [])]\<rparr>"

text \<open>
  The audit row of a refused reviewer refers to the organization and the user; PostgreSQL
  refuses it when either row does not exist.
\<close>

definition review_requirement_candidate ::
  "(bytes \<Rightarrow> string) \<Rightarrow> review_env \<Rightarrow> uuid \<Rightarrow> uuid \<Rightarrow> uuid \<Rightarrow> decision \<Rightarrow> ustr option \<Rightarrow> ustr option \<Rightarrow> sess
    \<Rightarrow> (exc + review_result) \<times> sess" where
  "review_requirement_candidate H env i usr org dec edited comment s =
     (case dec of
        OtherDecision _ \<Rightarrow> (Inl (CandidateReviewError ''REVIEW_INVALID_DECISION''), s)
      | _ \<Rightarrow>
          (case require_requirement_reviewer (work s) usr org of
             Inl e \<Rightarrow>
               let s1 = rollback s in
               if users (work s1) usr = None \<or> org \<notin> organizations (work s1) \<or> rw_commit_fails env
               then (Inl IntegrityError, s1)
               else (Inl e, commit (add_audit (unauthorized_event org usr dec i e) s1))
           | Inr _ \<Rightarrow> review_candidate H env i usr org dec edited comment s))"

section \<open>What a review does\<close>

text \<open>The evidence is still in the document, at the cited place.\<close>

definition evidence_live :: "(bytes \<Rightarrow> string) \<Rightarrow> db \<Rightarrow> candidate \<Rightarrow> bool" where
  "evidence_live H d c \<longleftrightarrow> belongs_to d (cd_project_id c) (cd_organization_id c)
     \<and> cd_evidence_sha256 c = sha256_text H (cd_evidence_text c)
     \<and> (\<exists>p \<in> set (pages d). pg_id p = cd_document_page_id c \<and> pg_document_id p = cd_document_id c
          \<and> cd_page_content_sha256 c = sha256_text H (pg_content p)
          \<and> 0 \<le> cd_span_start c \<and> cd_span_start c < cd_span_end c
          \<and> cd_span_end c \<le> int (length (pg_content p))
          \<and> cd_evidence_text c = slice (pg_content p) (nat (cd_span_start c)) (nat (cd_span_end c)))"

lemma revalidated:
  assumes "revalidate_source H d c = Inr u"
  shows "evidence_live H d c"
proof -
  obtain p where p: "find (\<lambda>p. pg_id p = cd_document_page_id c) (pages d) = Some p"
    "pg_document_id p = cd_document_id c" "belongs_to d (cd_project_id c) (cd_organization_id c)"
    "page_hash_ok H p" "pg_content_sha256 p = Some (cd_page_content_sha256 c)"
    "0 \<le> cd_span_start c" "cd_span_start c < cd_span_end c"
    "cd_span_end c \<le> int (length (pg_content p))"
    "cd_evidence_text c = slice (pg_content p) (nat (cd_span_start c)) (nat (cd_span_end c))"
    "cd_evidence_sha256 c = sha256_text H (cd_evidence_text c)"
    using assms by (auto simp: revalidate_source_def drift_def split: option.splits if_splits)
  moreover have "cd_page_content_sha256 c = sha256_text H (pg_content p)"
    using p(4,5) by (simp add: page_hash_ok_def)
  ultimately show ?thesis using find_Some_in [OF p(1)] by (auto simp: evidence_live_def)
qed

text \<open>The text an accepted decision makes authoritative.\<close>

definition final_text :: "(ustr \<Rightarrow> ustr) \<Rightarrow> decision \<Rightarrow> ustr option \<Rightarrow> candidate \<Rightarrow> ustr" where
  "final_text nfc dec edited c =
     (case dec of Approve \<Rightarrow> cd_normalized_requirement_text c
      | Edit \<Rightarrow> strip (nfc (case edited of None \<Rightarrow> [] | Some t \<Rightarrow> t)) | _ \<Rightarrow> [])"

lemma reviewer_text_ok:
  "normalize_reviewer_text nfc raw = Inr t \<Longrightarrow>
   t = strip (nfc raw) \<and> t \<noteq> [] \<and> length t \<le> 2000 \<and> (\<forall>x \<in> set t. \<not> disallowed_control x)"
  by (auto simp: normalize_reviewer_text_def Let_def max_reviewer_edited_text_len_def
      find_unsafe_None split: if_splits)

lemma reviewed_text_ok:
  assumes "reviewed_text nfc dec edited c = Inr (ed, tx)"
  shows "tx = final_text nfc dec edited c"
    and "ed = (if dec = Edit then Some tx else cd_reviewer_edited_text c)"
    and "dec = Edit \<longrightarrow> tx \<noteq> [] \<and> length tx \<le> 2000 \<and> (\<forall>x \<in> set tx. \<not> disallowed_control x)"
  using assms reviewer_text_ok
  by (auto simp: reviewed_text_def final_text_def split: if_splits option.splits sum.splits
      decision.splits)

text \<open>The two ways a review returns, and all the others.\<close>

definition decides_row ::
  "(bytes \<Rightarrow> string) \<Rightarrow> review_env \<Rightarrow> uuid \<Rightarrow> uuid \<Rightarrow> uuid \<Rightarrow> decision \<Rightarrow> ustr option \<Rightarrow> candidate \<Rightarrow> review_task
    \<Rightarrow> sess \<Rightarrow> sess \<Rightarrow> bool" where
  "decides_row H env i usr org dec edited c t s s' \<longleftrightarrow>
     find (\<lambda>c. cd_id c = i \<and> cd_organization_id c = org) (candidates (work s)) = Some c
     \<and> cd_candidate_status c = PROPOSED \<and> evidence_live H (work s) c
     \<and> find (\<lambda>t. tk_candidate_id t = i \<and> tk_organization_id t = org) (tasks (work s)) = Some t
     \<and> (creates_requirement dec \<longrightarrow> \<not> already_promoted (work s) i)
     \<and> (\<exists>cm ed tx. reviewed_text (rw_nfc env) dec edited c = Inr (ed, tx)
          \<and> s' = commit (write_decision env org usr dec ed cm tx c t s))"

lemma review_candidate_cases:
  assumes "review_candidate H env i usr org dec edited comment s = (r, s')"
  obtains (failed) e where "r = Inl e"
      "s' = rollback s \<or> (\<exists>c. s' = commit (add_audit (conflict_event org usr dec c) s))"
  | (replayed) c where "find (\<lambda>c. cd_id c = i \<and> cd_organization_id c = org) (candidates (work s)) = Some c"
      "cd_candidate_status c = decided_status dec" "cd_candidate_status c \<noteq> PROPOSED"
      "s' = commit (add_audit (conflict_event org usr dec c) s)"
      "r = Inr \<lparr>rr_candidate_id = cd_id c, rr_candidate_status = cd_candidate_status c,
         rr_requirement_id = map_option rq_id
           (find (\<lambda>r. rq_source_candidate_id r = Some (cd_id c)) (requirements (work s))),
         rr_result_code = ''REVIEW_ALREADY_DECIDED'', rr_idempotent_replay = True\<rparr>"
  | (decided) c t where "decides_row H env i usr org dec edited c t s s'"
      "r = Inr \<lparr>rr_candidate_id = i, rr_candidate_status = decided_status dec,
         rr_requirement_id = (if creates_requirement dec then Some (rw_requirement_id env) else None),
         rr_result_code = ''REVIEW_OK'', rr_idempotent_replay = False\<rparr>"
proof -
  have roll: "rollback (commit x) = commit x" for x :: sess
    by (simp add: commit_def rollback_def)
  show thesis
  proof (cases "find (\<lambda>c. cd_id c = i \<and> cd_organization_id c = org) (candidates (work s))")
    case None
    then show thesis using assms by (intro failed) (auto simp: review_candidate_def)
  next
    case (Some c)
    show thesis
    proof (cases "cd_candidate_status c = PROPOSED")
      case False
      then have "settled env org usr dec c s = (r, s')"
        using assms Some by (simp add: review_candidate_def)
      then show thesis
        using False Some failed replayed by (auto simp: settled_def Let_def roll split: if_splits)
    next
      case True
      with assms Some have "(\<exists>e. r = Inl e \<and> s' = rollback s) \<or>
          (\<exists>t cm ed tx. find (\<lambda>t. tk_candidate_id t = i \<and> tk_organization_id t = org) (tasks (work s)) = Some t
           \<and> revalidate_source H (work s) c = Inr ()
           \<and> reviewed_text (rw_nfc env) dec edited c = Inr (ed, tx)
           \<and> (creates_requirement dec \<longrightarrow> \<not> already_promoted (work s) i)
           \<and> s' = commit (write_decision env org usr dec ed cm tx c t s)
           \<and> r = Inr \<lparr>rr_candidate_id = i, rr_candidate_status = decided_status dec,
               rr_requirement_id = (if creates_requirement dec then Some (rw_requirement_id env) else None),
               rr_result_code = ''REVIEW_OK'', rr_idempotent_replay = False\<rparr>)"
        by (auto simp: review_candidate_def split: option.splits sum.splits prod.splits if_splits)
      then show thesis
        using failed decided revalidated Some True unfolding decides_row_def by blast
    qed
  qed
qed

definition valid_decision :: "decision \<Rightarrow> bool" where
  "valid_decision dec = (case dec of OtherDecision _ \<Rightarrow> False | _ \<Rightarrow> True)"

lemma review_cases:
  assumes "review_requirement_candidate H env i usr org dec edited comment s = (r, s')"
  obtains (refused) e where "r = Inl e"
      "s' = s \<or> s' = rollback s \<or> (\<exists>x. s' = commit (add_audit (unauthorized_event org usr dec i x) (rollback s)))"
  | (reviewed) "valid_decision dec" "reviewer_of (work s) usr org"
      "review_candidate H env i usr org dec edited comment s = (r, s')"
  using assms
  by (auto simp: review_requirement_candidate_def valid_decision_def Let_def
      split: decision.splits sum.splits if_splits dest!: reviewer_user)

lemma reviewed_by_reviewer:
  assumes "valid_decision dec" and "reviewer_of (work s) usr org"
  shows "review_requirement_candidate H env i usr org dec edited comment s =
         review_candidate H env i usr org dec edited comment s"
proof -
  obtain u where "require_requirement_reviewer (work s) usr org = Inr u"
    using assms(2) reviewer_authorized by blast
  then show ?thesis
    using assms(1) by (simp add: review_requirement_candidate_def valid_decision_def split: decision.splits)
qed

lemma write_decision_frame [simp]:
  "stored (write_decision env org usr dec ed cm tx c t s) = stored s"
  "candidates (work (write_decision env org usr dec ed cm tx c t s)) =
     upd_row cd_id (cd_id c) (decided_candidate env usr dec ed cm) (candidates (work s))"
  "tasks (work (write_decision env org usr dec ed cm tx c t s)) =
     upd_row tk_id (tk_id t) (completed_task env usr) (tasks (work s))"
  "requirements (work (write_decision env org usr dec ed cm tx c t s)) = requirements (work s)
     @ (if creates_requirement dec then [requirement_of env c tx] else [])"
  "audit (work (write_decision env org usr dec ed cm tx c t s)) =
     audit (work s) @ [decision_event env org usr dec c]"
  "documents (work (write_decision env org usr dec ed cm tx c t s)) = documents (work s)"
  "pages (work (write_decision env org usr dec ed cm tx c t s)) = pages (work s)"
  "users (work (write_decision env org usr dec ed cm tx c t s)) = users (work s)"
  "runs (work (write_decision env org usr dec ed cm tx c t s)) = runs (work s)"
  "projects (work (write_decision env org usr dec ed cm tx c t s)) = projects (work s)"
  "organizations (work (write_decision env org usr dec ed cm tx c t s)) = organizations (work s)"
  by (simp_all add: write_decision_def)


text \<open>
  A review that raises changes no candidate, no review task, no requirement, no document
  and no page: at most one audit event (a refused reviewer or a conflict) is committed.
\<close>

lemma failed_review_decides_nothing:
  assumes "review_requirement_candidate H env i usr org dec edited comment (open_session d) = (Inl e, s')"
  shows "candidates (stored s') = candidates d \<and> tasks (stored s') = tasks d
    \<and> requirements (stored s') = requirements d \<and> documents (stored s') = documents d
    \<and> pages (stored s') = pages d
    \<and> (\<exists>evs. audit (stored s') = audit d @ evs \<and> length evs \<le> 1
         \<and> (\<forall>ev \<in> set evs. ev_action ev
              \<in> {''candidate_review_unauthorized'', ''candidate_review_conflict''}))"
  using assms
proof (cases rule: review_cases)
  case refused
  then show ?thesis by (auto simp: unauthorized_event_def intro: exI [of _ "[]"])
next
  case reviewed
  from reviewed(3) show ?thesis
    by (cases rule: review_candidate_cases)
      (auto simp: conflict_event_def intro: exI [of _ "[]"])
qed


section \<open>Candidates and requirements agree\<close>

definition promoted :: "candidate \<Rightarrow> bool" where
  "promoted c \<longleftrightarrow> cd_candidate_status c = APPROVED \<or> cd_candidate_status c = EDITED"

definition authoritative_text :: "candidate \<Rightarrow> ustr" where
  "authoritative_text c = (if cd_candidate_status c = EDITED
     then text_or_empty (cd_reviewer_edited_text c) else cd_normalized_requirement_text c)"

definition sources :: "db \<Rightarrow> uuid option list" where
  "sources d = filter (\<lambda>v. v \<noteq> None) (map rq_source_candidate_id (requirements d))"

definition review_ok :: "db \<Rightarrow> bool" where
  "review_ok d \<longleftrightarrow> distinct (map cd_id (candidates d)) \<and> distinct (sources d)
     \<and> (\<forall>c \<in> set (candidates d). promoted c = already_promoted d (cd_id c))
     \<and> (\<forall>c \<in> set (candidates d). \<forall>q \<in> set (requirements d). rq_source_candidate_id q = Some (cd_id c) \<longrightarrow>
          rq_original_text q = authoritative_text c \<and> rq_project_id q = cd_project_id c)"

lemma review_ok_cong:
  "candidates e = candidates d \<Longrightarrow> requirements e = requirements d \<Longrightarrow> review_ok e = review_ok d"
  by (simp add: review_ok_def sources_def already_promoted_def)

lemma already_promoted_sources: "already_promoted d i \<longleftrightarrow> Some i \<in> set (sources d)"
  by (force simp: already_promoted_def sources_def list_ex_iff)

text \<open>Deciding one proposed candidate keeps the agreement.\<close>

lemma review_ok_decision:
  assumes ok: "review_ok d" and c: "c \<in> set (candidates d)" "cd_candidate_status c = PROPOSED"
    and upd: "\<And>x. cd_id (f x) = cd_id x" "\<And>x. cd_project_id (f x) = cd_project_id x"
    and cands: "candidates e = upd_row cd_id (cd_id c) f (candidates d)"
    and reqs: "requirements e = requirements d @ new"
    and new: "new = [] \<and> \<not> promoted (f c)
      \<or> promoted (f c) \<and> (\<exists>q. new = [q] \<and> rq_source_candidate_id q = Some (cd_id c)
           \<and> rq_original_text q = authoritative_text (f c) \<and> rq_project_id q = cd_project_id c)"
  shows "review_ok e"
proof -
  have uniq: "x = c" if "x \<in> set (candidates d)" "cd_id x = cd_id c" for x
    using ok c(1) that by (auto simp: review_ok_def distinct_map inj_on_def)
  have free: "\<not> already_promoted d (cd_id c)"
    using ok c by (auto simp: review_ok_def promoted_def)
  have rows: "set (candidates e) = (\<lambda>x. if x = c then f x else x) ` set (candidates d)"
    using uniq by (auto simp: cands set_upd_row image_iff)
  have src: "sources e = sources d @ filter (\<lambda>v. v \<noteq> None) (map rq_source_candidate_id new)"
    by (simp add: sources_def reqs)
  have prom: "already_promoted e i \<longleftrightarrow> already_promoted d i \<or> (i = cd_id c \<and> promoted (f c))" for i
    using new by (auto simp: already_promoted_def reqs)
  have "distinct (map cd_id (candidates e))"
    using ok upd(1) by (simp add: cands map_upd_row review_ok_def)
  moreover have "distinct (sources e)"
    using ok free new by (auto simp: src already_promoted_sources review_ok_def)
  moreover have "promoted x = already_promoted e (cd_id x)" if x: "x \<in> set (candidates e)" for x
  proof -
    obtain y where "y \<in> set (candidates d)" "x = (if y = c then f y else y)" using x rows by auto
    then show ?thesis using ok free prom uniq upd(1) by (cases "y = c") (auto simp: review_ok_def)
  qed
  moreover have "rq_original_text q = authoritative_text x \<and> rq_project_id q = cd_project_id x"
    if x: "x \<in> set (candidates e)" and q: "q \<in> set (requirements e)" "rq_source_candidate_id q = Some (cd_id x)"
    for x q
  proof -
    obtain y where y: "y \<in> set (candidates d)" "x = (if y = c then f y else y)" using x rows by auto
    have old: "q \<in> set (requirements d) \<Longrightarrow> y \<noteq> c"
      using free q(2) y(2) upd(1) by (auto simp: already_promoted_def list_ex_iff)
    show ?thesis
    proof (cases "q \<in> set (requirements d)")
      case True
      then show ?thesis using ok y old q(2) by (auto simp: review_ok_def)
    next
      case False
      with q(1) new reqs have "promoted (f c)" "new = [q]" by auto
      with new have "rq_source_candidate_id q = Some (cd_id c)"
        "rq_original_text q = authoritative_text (f c)" "rq_project_id q = cd_project_id c" by auto
      moreover from this q(2) y upd(1) uniq have "y = c" by (auto split: if_splits)
      ultimately show ?thesis using y(2) upd(2) by simp
    qed
  qed
  ultimately show ?thesis unfolding review_ok_def by blast
qed

lemma review_keeps_ok:
  assumes ok: "holds review_ok s"
  shows "holds review_ok (snd (review_requirement_candidate H env i usr org dec edited comment s))"
proof -
  let ?r = "review_requirement_candidate H env i usr org dec edited comment s"
  have roll: "holds review_ok (rollback s)" using ok by simp
  have other: "holds review_ok (commit (add_audit e x))" if "holds review_ok x" for e x
  proof -
    have "review_ok (work (add_audit e x)) = review_ok (work x)" by (rule review_ok_cong) simp_all
    with that show ?thesis by (simp add: holds_def)
  qed
  show ?thesis
  proof (rule review_cases [of H env i usr org dec edited comment s "fst ?r" "snd ?r"])
    show "?r = (fst ?r, snd ?r)" by simp
  next
    fix e
    assume "snd ?r = s \<or> snd ?r = rollback s
      \<or> (\<exists>x. snd ?r = commit (add_audit (unauthorized_event org usr dec i x) (rollback s)))"
    then show ?thesis using ok roll other by auto
  next
    assume 3: "valid_decision dec" "reviewer_of (work s) usr org"
      "review_candidate H env i usr org dec edited comment s = (fst ?r, snd ?r)"
    from 3(3) show ?thesis
    proof (cases rule: review_candidate_cases)
      case (decided c t)
      obtain cm ed tx where w: "reviewed_text (rw_nfc env) dec edited c = Inr (ed, tx)"
        "snd ?r = commit (write_decision env org usr dec ed cm tx c t s)"
        and c: "find (\<lambda>c. cd_id c = i \<and> cd_organization_id c = org) (candidates (work s)) = Some c"
        "cd_candidate_status c = PROPOSED"
        using decided(1) by (auto simp: decides_row_def)
      note tx = reviewed_text_ok [OF w(1)]
      have "review_ok (work (write_decision env org usr dec ed cm tx c t s))"
      proof (rule review_ok_decision)
        show "review_ok (work s)" using ok by (simp add: holds_def)
        show "c \<in> set (candidates (work s))" using find_Some_in [OF c(1)] by simp
        show "cd_candidate_status c = PROPOSED" by (rule c(2))
        show "candidates (work (write_decision env org usr dec ed cm tx c t s)) =
            upd_row cd_id (cd_id c) (decided_candidate env usr dec ed cm) (candidates (work s))" by simp
        show "requirements (work (write_decision env org usr dec ed cm tx c t s)) = requirements (work s)
            @ (if creates_requirement dec then [requirement_of env c tx] else [])" by simp
      qed (use tx 3(1) in \<open>auto simp: decided_candidate_def promoted_def decided_status_def
            creates_requirement_def requirement_of_def authoritative_text_def text_or_empty_def
            final_text_def valid_decision_def split: decision.splits\<close>)
      then show ?thesis by (simp add: w(2) holds_def)
    qed (use ok roll other in auto)
  qed
qed

text \<open>
  Reviews keep candidates and requirements in agreement: candidate keys are unique, no
  candidate ever gives two requirements, exactly the approved and edited candidates have one,
  and its text is the approved machine text or the reviewer's edit. This holds after any
  sequence of review requests, authorised or not.
\<close>

lemma requirements_agree_with_decisions:
  assumes "review_ok d"
  shows "review_ok (stored (fold (\<lambda>(env, i, usr, org, dec, edited, comment) s.
           snd (review_requirement_candidate H env i usr org dec edited comment
                  (open_session (stored s)))) reqs (open_session d)))"
proof -
  have "holds review_ok (fold (\<lambda>(env, i, usr, org, dec, edited, comment) s.
           snd (review_requirement_candidate H env i usr org dec edited comment
                  (open_session (stored s)))) reqs s)" if "holds review_ok s" for s
    using that
  proof (induction reqs arbitrary: s)
    case (Cons q reqs)
    have "holds review_ok (open_session (stored s))" using Cons.prems by (simp add: holds_def)
    then show ?case using Cons.IH by (auto intro: review_keeps_ok split: prod.splits)
  qed simp
  then show ?thesis using assms by (simp add: holds_stored)
qed

section \<open>A concrete review\<close>

definition demo_candidate :: candidate where
  "demo_candidate = candidate_of (\<lambda>_. ''h'') 150 9 1 6 5
     \<lparr>dr_page = demo_page, dr_unit = hd (er_candidates demo_answer),
      dr_evidence = pg_content demo_page, dr_text = pg_content demo_page\<rparr>"

definition demo_task :: review_task where
  "demo_task = task_of 300 150 9 1 6
     \<lparr>dr_page = demo_page, dr_unit = hd (er_candidates demo_answer),
      dr_evidence = pg_content demo_page, dr_text = pg_content demo_page\<rparr>"

definition demo_review_db :: db where
  "demo_review_db = demo_running_db\<lparr>organizations := {9},
     users := [4 \<mapsto> demo_user\<lparr>us_can_review_requirements := True\<rparr>],
     candidates := [demo_candidate], tasks := [demo_task]\<rparr>"

definition demo_review_env :: review_env where
  "demo_review_env = \<lparr>rw_nfc = id, rw_now = 5, rw_now_text = ''2026-01-01'', rw_requirement_id = 400,
     rw_flush_fails = False, rw_commit_fails = False\<rparr>"

lemma demo_reviewer: "reviewer_of demo_review_db 4 9"
  by (simp add: reviewer_of_def demo_review_db_def demo_user_def)

lemma demo_revalidates: "revalidate_source (\<lambda>_. ''h'') demo_review_db demo_candidate = Inr ()"
  by (simp add: revalidate_source_def demo_review_db_def demo_running_db_def demo_completed_db_def
      demo_candidate_def candidate_of_def demo_page_def demo_answer_def belongs_to_def page_hash_ok_def
      sha256_text_def text_or_empty_def find_run_def new_run_def demo_extract_env_def slice_def)

lemma demo_ids: "cd_id demo_candidate = 150" "cd_organization_id demo_candidate = 9"
  "cd_candidate_status demo_candidate = PROPOSED" "tk_candidate_id demo_task = 150"
  "tk_organization_id demo_task = 9"
  by (simp_all add: demo_candidate_def candidate_of_def demo_task_def task_of_def)

lemma demo_tables: "candidates demo_review_db = [demo_candidate]" "tasks demo_review_db = [demo_task]"
  "requirements demo_review_db = []"
  by (simp_all add: demo_review_db_def demo_running_db_def demo_completed_db_def empty_db_def)

lemma demo_approves:
  "\<exists>s' res. review_requirement_candidate (\<lambda>_. ''h'') demo_review_env 150 4 9 Approve None None
      (open_session demo_review_db) = (Inr res, s') \<and> rr_result_code res = ''REVIEW_OK''
      \<and> length (requirements (stored s')) = 1"
  using demo_reviewer
  by (subst reviewed_by_reviewer)
    (simp_all add: valid_decision_def review_candidate_def demo_tables demo_ids demo_revalidates
      normalize_comment_def reviewed_text_def demo_review_env_def creates_requirement_def
      already_promoted_def)


theorem failed_review_decides_nothing_witness:
  "requirements (stored (snd (review_requirement_candidate (\<lambda>_. ''h'') demo_review_env 150 3 9 Approve
     None None (open_session demo_review_db)))) = []"
proof -
  obtain e s' where "review_requirement_candidate (\<lambda>_. ''h'') demo_review_env 150 3 9 Approve
     None None (open_session demo_review_db) = (Inl e, s')"
    by (simp add: review_requirement_candidate_def require_requirement_reviewer_def demo_review_db_def
        Let_def)
  from failed_review_decides_nothing [OF this] this show ?thesis by (simp add: demo_tables)
qed


theorem requirements_agree_with_decisions_witness:
  "\<exists>s :: sess. review_ok (stored s) \<and> length (requirements (stored s)) = 1"
proof -
  have "review_ok demo_review_db"
    by (simp add: review_ok_def sources_def already_promoted_def demo_tables demo_ids promoted_def)
  note ok = requirements_agree_with_decisions [OF this,
      of "\<lambda>_. ''h''" "[(demo_review_env, 150, 4, 9, Approve, None, None)]"]
  with demo_approves show ?thesis by force
qed

end
