(* ===== verification/Filename.thy ===== *)
theory Filename
  imports FileStore
begin

text \<open>
  \<open>quarantine_storage.normalize_display_filename\<close> and \<open>document_ingestion._extension_of\<close>: from
  an attacker-controlled file name to a display name. \<open>nfc\<close> is
  \<open>unicodedata.normalize("NFC", _)\<close>, whose Unicode tables are a parameter. The only uses of
  \<open>str.lower\<close> compare with ASCII extensions; no code point outside ASCII lowercases to one of
  their letters, so lowering the ASCII letters decides them.
\<close>

section \<open>PureWindowsPath.name\<close>

definition backslash :: nat where "backslash = 92"
definition slash :: nat where "slash = 47"
definition dot :: nat where "dot = 46"

definition ascii_lower :: "nat \<Rightarrow> nat" where
  "ascii_lower c = (if 65 \<le> c \<and> c \<le> 90 then c + 32 else c)"

definition lower_text :: "ustr \<Rightarrow> ustr" where
  "lower_text s = map ascii_lower s"

text \<open>The part of a path after the next separator, if there is one.\<close>

fun after_sep :: "ustr \<Rightarrow> ustr option" where
  "after_sep [] = None"
| "after_sep (c # s) = (if c = backslash then Some s else after_sep s)"

text \<open>\<open>ntpath.splitroot\<close> of CPython 3.12 after \<open>replace("/", "\\")\<close>: the part after drive and
  root. A UNC drive takes the server and the share.\<close>

definition unc_prefix :: ustr where
  "unc_prefix = [92, 92, 63, 92, 117, 110, 99, 92]"

definition unc_rest :: "ustr \<Rightarrow> ustr" where
  "unc_rest p = (case after_sep p of None \<Rightarrow> []
     | Some share \<Rightarrow> (case after_sep share of None \<Rightarrow> [] | Some rest \<Rightarrow> rest))"

definition path_tail :: "ustr \<Rightarrow> ustr" where
  "path_tail p =
     (case p of
        a # b # r \<Rightarrow>
          if a = backslash then
            if b = backslash then
              unc_rest (if lower_text (take 8 p) = unc_prefix then drop 8 p else r)
            else b # r
          else if b = 58 then (case r of c # r' \<Rightarrow> if c = backslash then r' else r | [] \<Rightarrow> [])
          else p
      | _ \<Rightarrow> (if p = [backslash] then [] else p))"

definition windows_name :: "ustr \<Rightarrow> ustr" where
  "windows_name p =
     (let q = map (\<lambda>c. if c = slash then backslash else c) p;
          parts = filter (\<lambda>x. x \<noteq> [] \<and> x \<noteq> [dot]) (split_on backslash (path_tail q))
      in if parts = [] then [] else last parts)"

section \<open>normalize\_display\_filename\<close>

definition fallback_name :: ustr where
  "fallback_name = uni ''Uploaded document''"

definition pdf_suffix :: ustr where "pdf_suffix = uni ''.pdf''"
definition docx_suffix :: ustr where "docx_suffix = uni ''.docx''"

definition dot_or_space :: "nat \<Rightarrow> bool" where
  "dot_or_space c \<longleftrightarrow> c = dot \<or> c = 32"

definition rstrip_dots :: "ustr \<Rightarrow> ustr" where
  "rstrip_dots s = rev (dropWhile dot_or_space (rev s))"

definition strip_dots :: "ustr \<Rightarrow> ustr" where
  "strip_dots s = rstrip_dots (dropWhile dot_or_space s)"

definition visible :: "nat \<Rightarrow> bool" where
  "visible c \<longleftrightarrow> 32 \<le> c \<and> c \<noteq> 127"

definition trim :: "ustr \<Rightarrow> ustr" where
  "trim s = strip (rstrip_dots (strip s))"

text \<open>The name after path, control-character and white-space removal.\<close>

definition cleaned_name :: "(ustr \<Rightarrow> ustr) \<Rightarrow> ustr \<Rightarrow> ustr" where
  "cleaned_name nfc original =
     trim (nfc (filter visible (last (split_on slash (windows_name original)))))"

definition safe_suffix :: "ustr \<Rightarrow> ustr" where
  "safe_suffix b =
     (if ends_with pdf_suffix (lower_text b) then drop (length b - 4) b
      else if ends_with docx_suffix (lower_text b) then drop (length b - 5) b else [])"

definition normalize_display_filename ::
  "(ustr \<Rightarrow> ustr) \<Rightarrow> nat \<Rightarrow> ustr option \<Rightarrow> ustr" where
  "normalize_display_filename nfc max_len original =
     (case original of None \<Rightarrow> fallback_name
      | Some t \<Rightarrow>
          if t = [] then fallback_name
          else
            let b = cleaned_name nfc t in
            if b = [] \<or> strip_dots b = [] then fallback_name
            else
              let suffix = safe_suffix b;
                  base = take (length b - length suffix) b
              in if max_len < length suffix + 1 then fallback_name
                 else let r = trim (take (max_len - length suffix) base @ suffix)
                      in if r = [] then fallback_name else r)"

section \<open>\_extension\_of\<close>

definition extension_of :: "ustr \<Rightarrow> ustr" where
  "extension_of s =
     (if dot \<in> set s then lower_text (dot # rev (takeWhile (\<lambda>c. c \<noteq> dot) (rev s))) else [])"

section \<open>The display name is safe\<close>

lemma set_rstrip_dots: "set (rstrip_dots s) \<subseteq> set s"
  unfolding rstrip_dots_def using set_dropWhileD by fastforce

lemma set_strip: "set (strip s) \<subseteq> set s"
  by (auto simp: strip_def lstrip_def rstrip_def dest!: set_dropWhileD)

lemma set_trim: "set (trim s) \<subseteq> set s"
  unfolding trim_def using set_strip set_rstrip_dots by blast

lemma length_trim: "length (trim s) \<le> length s"
proof -
  have "length (rstrip_dots t) \<le> length t" for t
    unfolding rstrip_dots_def by (metis length_dropWhile_le length_rev)
  then show ?thesis unfolding trim_def by (meson order_trans strip_length)
qed

lemma set_split_on: "x \<in> set (split_on c s) \<Longrightarrow> set x \<subseteq> set s - {c}"
proof (induction s arbitrary: x)
  case Nil
  then show ?case by simp
next
  case (Cons a s)
  show ?case
  proof (cases "a = c")
    case True
    then show ?thesis using Cons by auto
  next
    case False
    obtain y ys where y: "split_on c s = y # ys" using split_on_not_Nil [of c s] by (cases "split_on c s") auto
    have "set w \<subseteq> set s - {c}" if "w \<in> set (y # ys)" for w using Cons.IH [of w] that y by simp
    then show ?thesis using Cons.prems False y by fastforce
  qed
qed

lemma set_after_sep: "after_sep s = Some r \<Longrightarrow> set r \<subseteq> set s"
  by (induction s rule: after_sep.induct) (auto split: if_splits)

lemma set_unc_rest: "set (unc_rest p) \<subseteq> set p"
proof (cases "after_sep p")
  case (Some q)
  then show ?thesis
    using set_after_sep [OF Some] set_after_sep [of q]
    by (cases "after_sep q") (auto simp: unc_rest_def)
qed (simp add: unc_rest_def)

lemma set_path_tail: "set (path_tail p) \<subseteq> set p"
proof -
  have unc: "set (unc_rest (drop 8 p)) \<subseteq> set p"
    using set_unc_rest [of "drop 8 p"] set_drop_subset [of 8 p] by blast
  show ?thesis
    using unc set_unc_rest [of "drop 2 p"]
    by (auto simp: path_tail_def split: list.splits dest: in_set_dropD)
qed

lemma windows_name_chars: "set (windows_name p) \<subseteq> set p - {slash, backslash}"
proof -
  let ?q = "map (\<lambda>c. if c = slash then backslash else c) p"
  have "set x \<subseteq> set p - {slash, backslash}" if "x \<in> set (split_on backslash (path_tail ?q))" for x
  proof -
    have "set x \<subseteq> set ?q - {backslash}"
      using set_split_on [OF that] set_path_tail [of ?q] by blast
    then show ?thesis by (auto simp: slash_def backslash_def split: if_splits)
  qed
  moreover have "last (filter P xs) \<in> set xs" if "filter P xs \<noteq> []" for P and xs :: "ustr list"
    using last_in_set [OF that] by auto
  ultimately show ?thesis by (simp add: windows_name_def Let_def)
qed

text \<open>
  What Unicode normalisation is relied on for: the canonical composition of a text without
  control characters and separators has none either.
\<close>

definition nfc_ok :: "(ustr \<Rightarrow> ustr) \<Rightarrow> bool" where
  "nfc_ok nfc \<longleftrightarrow> (\<forall>s. (\<forall>c \<in> set s. visible c \<and> c \<noteq> slash \<and> c \<noteq> backslash)
     \<longrightarrow> (\<forall>c \<in> set (nfc s). visible c \<and> c \<noteq> slash \<and> c \<noteq> backslash))"

lemma cleaned_name_chars:
  assumes "nfc_ok nfc" and "c \<in> set (cleaned_name nfc t)"
  shows "visible c \<and> c \<noteq> slash \<and> c \<noteq> backslash"
proof -
  let ?w = "windows_name t"
  have "set (last (split_on slash ?w)) \<subseteq> set ?w"
    using set_split_on [of "last (split_on slash ?w)"] split_on_not_Nil [of slash ?w]
    by (meson Diff_subset last_in_set subset_trans)
  then have "\<forall>d \<in> set (filter visible (last (split_on slash ?w))).
      visible d \<and> d \<noteq> slash \<and> d \<noteq> backslash"
    using windows_name_chars [of t] by auto
  then have "\<forall>d \<in> set (nfc (filter visible (last (split_on slash ?w)))).
      visible d \<and> d \<noteq> slash \<and> d \<noteq> backslash"
    using assms(1) unfolding nfc_ok_def by blast
  then show ?thesis
    using assms(2) set_trim unfolding cleaned_name_def by blast
qed

lemma suffix_lengths: "length pdf_suffix = 4" "length docx_suffix = 5"
  by (simp_all add: pdf_suffix_def docx_suffix_def)

lemma length_safe_suffix: "length (safe_suffix b) \<le> 5" "length (safe_suffix b) \<le> length b"
  by (auto simp: safe_suffix_def)

lemma safe_suffix_split: "take (length b - length (safe_suffix b)) b @ safe_suffix b = b"
proof -
  have "take (length b - (length b - n)) b @ drop n b = b" if "n \<le> length b" for n
    using that by simp
  then show ?thesis
    by (auto simp: safe_suffix_def ends_with_def lower_text_def pdf_suffix_def docx_suffix_def)
qed

lemma normalize_cases:
  obtains "normalize_display_filename nfc m original = fallback_name"
  | t where "original = Some t"
    "normalize_display_filename nfc m original =
       trim (take (m - length (safe_suffix (cleaned_name nfc t)))
               (take (length (cleaned_name nfc t) - length (safe_suffix (cleaned_name nfc t)))
                  (cleaned_name nfc t))
             @ safe_suffix (cleaned_name nfc t))"
    "normalize_display_filename nfc m original \<noteq> []"
    "length (safe_suffix (cleaned_name nfc t)) < m"
proof (cases "normalize_display_filename nfc m original = fallback_name")
  case False
  then obtain t where t: "original = Some t" "t \<noteq> []"
    by (auto simp: normalize_display_filename_def split: option.splits if_splits)
  let ?b = "cleaned_name nfc t"
  let ?r = "trim (take (m - length (safe_suffix ?b))
                   (take (length ?b - length (safe_suffix ?b)) ?b) @ safe_suffix ?b)"
  have "\<not> m < length (safe_suffix ?b) + 1" "?r \<noteq> []"
    "normalize_display_filename nfc m original = ?r"
    using False t by (auto simp: normalize_display_filename_def Let_def split: if_splits)
  with t that(2) show ?thesis by auto
qed (use that(1) in blast)

text \<open>
  Whatever name a client sends, the display name is not empty, holds no control character
  and no path separator, and is at most as long as configured (or the seventeen characters of
  the fallback).
\<close>

lemma display_name_is_safe:
  assumes "nfc_ok nfc"
  shows "normalize_display_filename nfc m original \<noteq> []
    \<and> length (normalize_display_filename nfc m original) \<le> max m 17
    \<and> (\<forall>c \<in> set (normalize_display_filename nfc m original).
         32 \<le> c \<and> c \<noteq> 127 \<and> c \<noteq> of_char CHR ''/'' \<and> c \<noteq> 92)"
proof (cases rule: normalize_cases [of nfc m original])
  case 1
  have "visible c \<and> c \<noteq> slash \<and> c \<noteq> backslash" if "c \<in> set fallback_name" for c
    using that by (auto simp: fallback_name_def visible_def slash_def backslash_def)
  with 1 show ?thesis
    by (auto simp: visible_def slash_def backslash_def) (simp_all add: fallback_name_def)
next
  case (2 t)
  let ?b = "cleaned_name nfc t"
  let ?s = "safe_suffix ?b"
  have "length (normalize_display_filename nfc m original) \<le> m"
    using length_trim [of "take (m - length ?s) (take (length ?b - length ?s) ?b) @ ?s"] 2(2,4)
    by simp
  moreover have "set ?s \<subseteq> set ?b" by (auto simp: safe_suffix_def dest: in_set_dropD)
  then have "set (normalize_display_filename nfc m original) \<subseteq> set ?b"
    unfolding 2(2) using set_trim by (fastforce dest: in_set_takeD)
  ultimately show ?thesis
    using 2(3) cleaned_name_chars [OF assms, of _ t]
    by (fastforce simp: visible_def slash_def backslash_def)
qed

theorem display_name_is_safe_witness:
  "normalize_display_filename id 255 (Some (uni ''C:/tmp/..  evil'' @ [0] @ uni ''.pdf. '')) \<noteq> []"
proof -
  have "nfc_ok id" by (simp add: nfc_ok_def)
  from display_name_is_safe [OF this] show ?thesis by blast
qed

text \<open>A recognised extension survives truncation and trimming.\<close>

lemma trim_suffix:
  assumes "s \<noteq> []" and "hd s = dot" and "\<not> is_space (last s)" and "last s \<noteq> dot"
  shows "trim (b @ s) = lstrip b @ s"
proof -
  have dot: "\<not> is_space dot" by (simp add: is_space_def dot_def)
  have ls: "lstrip (c @ s) = lstrip c @ s" for c
  proof (induction c)
    case Nil
    then show ?case using assms(1,2) dot by (cases s) (auto simp: lstrip_def)
  next
    case (Cons x c)
    then show ?case by (auto simp: lstrip_def)
  qed
  have last: "last (c @ s) = last s" "c @ s \<noteq> []" for c using assms(1) by simp_all
  have rs: "rstrip (c @ s) = c @ s" for c
    using assms(3) last by (simp add: rstrip_nonspace_last)
  have "\<not> dot_or_space (last s)" using assms(3,4) by (auto simp: dot_or_space_def is_space_def)
  then have rd: "rstrip_dots (c @ s) = c @ s" for c
    using assms(1) by (cases s rule: rev_cases) (simp_all add: rstrip_dots_def)
  have "lstrip (lstrip b) = lstrip b" by (simp add: lstrip_def)
  then show ?thesis by (simp add: trim_def strip_def ls rs rd)
qed

lemma extension_of_suffix:
  assumes "dot \<notin> set e"
  shows "extension_of (b @ dot # e) = lower_text (dot # e)"
proof -
  have "takeWhile (\<lambda>c. c \<noteq> dot) (rev (b @ dot # e)) = rev e"
    using assms by (simp add: takeWhile_append)
  then show ?thesis by (simp add: extension_of_def)
qed

text \<open>The extension the detector is chosen by is the one the cleaned name ends with.\<close>

lemma ascii_lower_inv:
  "ascii_lower x = 46 \<longleftrightarrow> x = 46" "ascii_lower x = 102 \<longleftrightarrow> x = 102 \<or> x = 70"
  "ascii_lower x = 120 \<longleftrightarrow> x = 120 \<or> x = 88" "46 = ascii_lower x \<longleftrightarrow> x = 46"
  by (auto simp: ascii_lower_def)

lemma safe_suffix_shape:
  assumes "safe_suffix b \<noteq> []"
  shows "lower_text (safe_suffix b) \<in> {pdf_suffix, docx_suffix}"
    and "\<exists>e. safe_suffix b = dot # e \<and> dot \<notin> set e \<and> \<not> is_space (last (safe_suffix b))
          \<and> last (safe_suffix b) \<noteq> dot"
proof -
  show low: "lower_text (safe_suffix b) \<in> {pdf_suffix, docx_suffix}"
    using assms
    by (auto simp: safe_suffix_def ends_with_def lower_text_def drop_map suffix_lengths
        split: if_splits)
  have "\<exists>e. s = dot # e \<and> dot \<notin> set e \<and> \<not> is_space (last s) \<and> last s \<noteq> dot"
    if lo: "lower_text s \<in> {pdf_suffix, docx_suffix}" for s
  proof -
    have "dot \<notin> set e" if "dot \<notin> ascii_lower ` set e" for e
      using that by (auto simp: ascii_lower_def dot_def image_iff)
    note nodot = this
    obtain c e where s: "s = c # e" using lo
      by (cases s) (auto simp: lower_text_def pdf_suffix_def docx_suffix_def)
    have c: "c = dot" and e: "map ascii_lower e \<in> {uni ''pdf'', uni ''docx''}"
      using lo s
      by (auto simp: lower_text_def pdf_suffix_def docx_suffix_def dot_def ascii_lower_inv)
    have "ascii_lower ` set e = set (map ascii_lower e)" by simp
    then have "dot \<notin> ascii_lower ` set e" using e by (auto simp: dot_def simp del: set_map)
    moreover have "e \<noteq> []" using e by auto
    then have "ascii_lower (last e) \<in> {102, 120}" using e last_map [of e ascii_lower] by auto
    then have "\<not> is_space (last e) \<and> last e \<noteq> dot"
      by (auto simp: ascii_lower_inv is_space_def dot_def)
    ultimately show ?thesis using c s \<open>e \<noteq> []\<close> nodot by auto
  qed
  with low show "\<exists>e. safe_suffix b = dot # e \<and> dot \<notin> set e \<and> \<not> is_space (last (safe_suffix b))
          \<and> last (safe_suffix b) \<noteq> dot" by blast
qed

lemma normalize_keeps_extension:
  assumes "t \<noteq> []" and "safe_suffix (cleaned_name nfc t) \<noteq> []"
    and "strip_dots (cleaned_name nfc t) \<noteq> []" and "5 < m"
  shows "extension_of (normalize_display_filename nfc m (Some t))
    = lower_text (safe_suffix (cleaned_name nfc t))"
proof -
  let ?b = "cleaned_name nfc t"
  let ?s = "safe_suffix ?b"
  obtain e where e: "?s = dot # e" "dot \<notin> set e" "\<not> is_space (last ?s)" "last ?s \<noteq> dot"
    using safe_suffix_shape(2) [OF assms(2)] by blast
  let ?c = "take (m - length ?s) (take (length ?b - length ?s) ?b)"
  have t: "trim (?c @ ?s) = lstrip ?c @ ?s"
    using assms(2) e by (intro trim_suffix) auto
  have "?b \<noteq> []" using assms(3) by (auto simp: strip_dots_def rstrip_dots_def)
  moreover have "\<not> m < length ?s + 1" using length_safe_suffix(1) [of ?b] assms(4) by simp
  ultimately have "normalize_display_filename nfc m (Some t) = lstrip ?c @ ?s"
    using assms(1-3) t by (simp add: normalize_display_filename_def Let_def)
  then show ?thesis using e(1,2) extension_of_suffix [of e "lstrip ?c"] by simp
qed

end
