(* ===== verification/TypeDetection.thy ===== *)
theory TypeDetection
  imports Filename
begin

text \<open>
  \<open>app/services/document_type_detection.py\<close>: bounded classification of an uploaded file as a
  PDF or DOCX candidate. What \<open>zipfile\<close> makes of the bytes (members with their declared sizes
  and what reading one gives) and whether expat accepts a part without a DTD are parameters;
  the decisions over them are the module's own.
\<close>

section \<open>Results\<close>

datatype detected_type = TypePdf | TypeDocx | TypeUnknown

record detection =
  dt_type :: detected_type
  dt_mime :: "string option"
  dt_reason :: "string option"

definition unknown :: "string \<Rightarrow> detection" where
  "unknown code = \<lparr>dt_type = TypeUnknown, dt_mime = None, dt_reason = Some code\<rparr>"

definition pdf_mime_type :: string where "pdf_mime_type = ''application/pdf''"
definition docx_mime_type :: string where
  "docx_mime_type = ''application/vnd.openxmlformats-officedocument.wordprocessingml.document''"

section \<open>PDF\<close>

definition pdf_header_window :: nat where "pdf_header_window = 1024"
definition pdf_eof_window :: nat where "pdf_eof_window = 1024"
definition pdf_min_size :: nat where "pdf_min_size = 16"

text \<open>\<open>_PDF_HEADER_RE.match\<close>.\<close>

definition pdf_header_ok :: "bytes \<Rightarrow> bool" where
  "pdf_header_ok h \<longleftrightarrow>
     starts_with (uni ''%PDF-1.'') h \<and> 7 < length h \<and> 48 \<le> h ! 7 \<and> h ! 7 \<le> 55
     \<or> starts_with (uni ''%PDF-2.0'') h"

definition detect_pdf_candidate :: "ustr \<Rightarrow> bytes \<Rightarrow> detection" where
  "detect_pdf_candidate ext b =
     (if lower_text ext \<noteq> pdf_suffix then unknown ''EXTENSION_TYPE_MISMATCH''
      else if length b < pdf_min_size then unknown ''PDF_TRUNCATED''
      else
        let header = take pdf_header_window b;
            tail_bytes = take pdf_eof_window (drop (length b - pdf_eof_window) b)
        in if \<not> pdf_header_ok header then unknown ''PDF_HEADER_INVALID''
           else if \<not> contains (uni ''%%EOF'') tail_bytes then unknown ''PDF_EOF_MISSING''
           else \<lparr>dt_type = TypePdf, dt_mime = Some pdf_mime_type, dt_reason = None\<rparr>)"

section \<open>DOCX\<close>

text \<open>
  Reading a member gives its bytes, one of the exceptions the module catches
  (\<open>ValueError\<close>, \<open>KeyError\<close>, \<open>BadZipFile\<close>), or another exception, which escapes.
\<close>

datatype member_read = MemberBytes bytes | MemberBad | MemberRaises string

record zip_member =
  zm_name :: ustr
  zm_file_size :: nat
  zm_read :: member_read

datatype zip_view = NotAZip | OpenRaises string | Archive "zip_member list"

definition max_identity_xml_bytes :: nat where "max_identity_xml_bytes = 1024 * 1024"

definition content_types_part :: ustr where "content_types_part = uni ''[Content_Types].xml''"
definition rels_part :: ustr where "rels_part = uni ''_rels/.rels''"
definition document_part :: ustr where "document_part = uni ''word/document.xml''"

definition identity_members :: "ustr list" where
  "identity_members = [content_types_part, rels_part, document_part]"

definition main_relationship_type :: ustr where
  "main_relationship_type =
     uni ''http://schemas.openxmlformats.org/officeDocument/2006/relationships/officeDocument''"

definition read_zip_member_bounded :: "zip_member list \<Rightarrow> ustr \<Rightarrow> member_read" where
  "read_zip_member_bounded ms n =
     (case find (\<lambda>m. zm_name m = n) ms of None \<Rightarrow> MemberBad
      | Some m \<Rightarrow> if zm_file_size m > max_identity_xml_bytes then MemberBad else zm_read m)"

text \<open>After both identity parts have been read: the XML boundary, then the text checks.\<close>

definition judge_identity_parts :: "(bytes \<Rightarrow> bool) \<Rightarrow> bytes \<Rightarrow> bytes \<Rightarrow> detection" where
  "judge_identity_parts xml_ok ct rels =
     (if \<not> xml_ok ct \<or> \<not> xml_ok rels then unknown ''DOCX_UNSAFE_XML''
      else
        let ct_text = utf8_replace ct; rels_text = utf8_replace rels in
        if contains (uni ''macroEnabled'') ct_text then unknown ''MACRO_ENABLED_PACKAGE''
        else if \<not> contains (uni ''/word/document.xml'') ct_text
          then unknown ''DOCX_CONTENT_TYPES_MISMATCH''
        else if \<not> contains main_relationship_type rels_text
                \<or> \<not> contains document_part rels_text then unknown ''DOCX_MAIN_RELATIONSHIP_INVALID''
        else \<lparr>dt_type = TypeDocx, dt_mime = Some docx_mime_type, dt_reason = None\<rparr>)"

definition judge_members :: "(bytes \<Rightarrow> bool) \<Rightarrow> nat \<Rightarrow> zip_member list \<Rightarrow> string + detection" where
  "judge_members xml_ok max_members ms =
     (let names = map zm_name ms in
      if \<not> distinct names then Inr (unknown ''DOCX_DUPLICATE_MEMBER'')
      else if length ms > max_members then Inr (unknown ''DOCX_MEMBER_COUNT_EXCEEDED'')
      else if \<not> set identity_members \<subseteq> set names then Inr (unknown ''DOCX_MISSING_IDENTITY_PART'')
      else
        (case read_zip_member_bounded ms content_types_part of
           MemberRaises e \<Rightarrow> Inl e
         | MemberBad \<Rightarrow> Inr (unknown ''DOCX_MALFORMED_PACKAGE'')
         | MemberBytes ct \<Rightarrow>
             (case read_zip_member_bounded ms rels_part of
                MemberRaises e \<Rightarrow> Inl e
              | MemberBad \<Rightarrow> Inr (unknown ''DOCX_MALFORMED_PACKAGE'')
              | MemberBytes rels \<Rightarrow> Inr (judge_identity_parts xml_ok ct rels))))"

definition detect_docx_candidate ::
  "(bytes \<Rightarrow> zip_view) \<Rightarrow> (bytes \<Rightarrow> bool) \<Rightarrow> nat \<Rightarrow> ustr \<Rightarrow> bytes \<Rightarrow> string + detection" where
  "detect_docx_candidate unzip xml_ok max_members ext b =
     (if lower_text ext \<noteq> docx_suffix then Inr (unknown ''EXTENSION_TYPE_MISMATCH'')
      else (case unzip b of
              NotAZip \<Rightarrow> Inr (unknown ''DOCX_NOT_A_ZIP'')
            | OpenRaises e \<Rightarrow> Inl e
            | Archive ms \<Rightarrow> judge_members xml_ok max_members ms))"

section \<open>What an accepted type means\<close>

definition genuine_pdf :: "bytes \<Rightarrow> bool" where
  "genuine_pdf b \<longleftrightarrow> 16 \<le> length b
     \<and> (take 8 b = uni ''%PDF-2.0'' \<or> take 7 b = uni ''%PDF-1.'' \<and> b ! 7 \<in> {48..55})
     \<and> (\<exists>i. length b \<le> i + 1024 \<and> i + 5 \<le> length b \<and> take 5 (drop i b) = uni ''%%EOF'')"

definition genuine_docx ::
  "(bytes \<Rightarrow> zip_view) \<Rightarrow> (bytes \<Rightarrow> bool) \<Rightarrow> nat \<Rightarrow> bytes \<Rightarrow> bool" where
  "genuine_docx unzip xml_ok max_members b \<longleftrightarrow>
     (\<exists>ms ct rels. unzip b = Archive ms \<and> distinct (map zm_name ms) \<and> length ms \<le> max_members
        \<and> set identity_members \<subseteq> zm_name ` set ms
        \<and> (\<exists>m \<in> set ms. zm_name m = content_types_part \<and> zm_read m = MemberBytes ct
             \<and> zm_file_size m \<le> 1048576)
        \<and> (\<exists>m \<in> set ms. zm_name m = rels_part \<and> zm_read m = MemberBytes rels
             \<and> zm_file_size m \<le> 1048576)
        \<and> xml_ok ct \<and> xml_ok rels
        \<and> \<not> contains (uni ''macroEnabled'') (utf8_replace ct)
        \<and> contains document_part (utf8_replace rels))"

lemma unknown_type [simp]: "dt_type (unknown c) = TypeUnknown" "dt_reason (unknown c) = Some c"
  by (simp_all add: unknown_def)

lemma marker_lengths:
  "length (uni ''%%EOF'') = 5" "length (uni ''%PDF-1.'') = 7" "length (uni ''%PDF-2.0'') = 8"
  by simp_all

lemma pdf_window:
  assumes "contains (uni ''%%EOF'') (take pdf_eof_window (drop (length b - pdf_eof_window) b))"
  shows "\<exists>i. length b \<le> i + 1024 \<and> i + 5 \<le> length b \<and> take 5 (drop i b) = uni ''%%EOF''"
proof -
  let ?k = "length b - 1024"
  have t: "take 1024 (drop ?k b) = drop ?k b" by simp
  have "contains (uni ''%%EOF'') (drop ?k b)" using assms by (simp only: t pdf_eof_window_def)
  then obtain i where "i + 5 \<le> length (drop ?k b)" "take 5 (drop i (drop ?k b)) = uni ''%%EOF''"
    unfolding contains_iff marker_lengths by blast
  then show ?thesis by (intro exI [of _ "i + ?k"]) (auto simp: algebra_simps)
qed

lemma pdf_accepted:
  assumes "dt_type (detect_pdf_candidate ext b) \<noteq> TypeUnknown"
  shows "genuine_pdf b \<and> lower_text ext = pdf_suffix
    \<and> dt_mime (detect_pdf_candidate ext b) = Some pdf_mime_type"
proof -
  have a: "lower_text ext = pdf_suffix" "16 \<le> length b"
    "pdf_header_ok (take 1024 b)"
    "contains (uni ''%%EOF'') (take pdf_eof_window (drop (length b - pdf_eof_window) b))"
    "dt_mime (detect_pdf_candidate ext b) = Some pdf_mime_type"
    using assms
    by (auto simp: detect_pdf_candidate_def pdf_min_size_def pdf_header_window_def Let_def
        split: if_splits)
  have "take 8 b = uni ''%PDF-2.0'' \<or> take 7 b = uni ''%PDF-1.'' \<and> b ! 7 \<in> {48..55}"
    using a(3) unfolding pdf_header_ok_def starts_with_def marker_lengths
    by (auto simp del: uni_simps)
  with a pdf_window [OF a(4)] show ?thesis by (simp add: genuine_pdf_def)
qed

lemma identity_read:
  assumes "read_zip_member_bounded ms n = MemberBytes b"
  shows "\<exists>m \<in> set ms. zm_name m = n \<and> zm_read m = MemberBytes b \<and> zm_file_size m \<le> 1048576"
proof -
  obtain m where "find (\<lambda>m. zm_name m = n) ms = Some m" "zm_read m = MemberBytes b"
    "zm_file_size m \<le> 1048576"
    using assms
    by (auto simp: read_zip_member_bounded_def max_identity_xml_bytes_def
        split: option.splits if_splits)
  then show ?thesis using find_Some_in by fastforce
qed

lemma docx_accepted:
  assumes "detect_docx_candidate unzip xml_ok k ext b = Inr d" and "dt_type d \<noteq> TypeUnknown"
  shows "genuine_docx unzip xml_ok k b \<and> lower_text ext = docx_suffix
    \<and> dt_mime d = Some docx_mime_type"
proof -
  obtain ms where ms: "unzip b = Archive ms" "lower_text ext = docx_suffix"
    "judge_members xml_ok k ms = Inr d"
    using assms by (auto simp: detect_docx_candidate_def split: if_splits zip_view.splits)
  obtain ct rels where r: "distinct (map zm_name ms)" "length ms \<le> k"
    "set identity_members \<subseteq> zm_name ` set ms"
    "read_zip_member_bounded ms content_types_part = MemberBytes ct"
    "read_zip_member_bounded ms rels_part = MemberBytes rels"
    "d = judge_identity_parts xml_ok ct rels"
    using ms(3) assms(2)
    by (auto simp: judge_members_def Let_def split: if_splits member_read.splits)
  have "xml_ok ct" "xml_ok rels" "\<not> contains (uni ''macroEnabled'') (utf8_replace ct)"
    "contains document_part (utf8_replace rels)" "dt_mime d = Some docx_mime_type"
    using r(6) assms(2) by (auto simp: judge_identity_parts_def Let_def split: if_splits)
  with ms r(1-3) identity_read [OF r(4)] identity_read [OF r(5)] show ?thesis
    unfolding genuine_docx_def by blast
qed

end
