(* ===== verification/Ingestion.thy ===== *)
theory Ingestion
  imports TypeDetection AuditTrail
begin

text \<open>
  \<open>app/services/document_ingestion.py\<close>: an upload is streamed to quarantine, gets its
  \<open>Document\<close> row and an audit event, and is classified; it leaves in SCANNING with a scan job
  or in REJECTED\_TYPE. The session and the quarantine directory are passed along.
\<close>

section \<open>Configuration and environment\<close>

text \<open>The keyword arguments the two upload routes pass on to the row.\<close>

record role_metadata =
  rm_owner_name :: "ustr option"
  rm_tags :: "ustr option"
  rm_approval_status :: string
  rm_version :: "ustr option"
  rm_review_date :: "time option"

definition rfp_metadata :: role_metadata where
  "rfp_metadata = \<lparr>rm_owner_name = None, rm_tags = None, rm_approval_status = ''PENDING'',
     rm_version = Some (uni ''1.0''), rm_review_date = None\<rparr>"

record ingest_config =
  ic_max_upload :: nat
  ic_max_filename :: nat
  ic_max_members :: nat
  ic_root :: string
  ic_nfc :: "ustr \<Rightarrow> ustr"
  ic_unzip :: "bytes \<Rightarrow> zip_view"
  ic_xml_ok :: "bytes \<Rightarrow> bool"

text \<open>\<open>ie_commit_fails\<close> is the first commit, \<open>ie_file_error\<close> an \<open>OSError\<close> of the detector's
  own file access.\<close>

record ingest_env =
  ie_upload :: upload_env
  ie_filename :: "ustr option"
  ie_content_type :: "string option"
  ie_document_id :: uuid
  ie_now :: time
  ie_commit_fails :: bool
  ie_file_error :: bool

definition safe_upload_failure_message :: string where
  "safe_upload_failure_message =
     ''The document could not be accepted. Please upload a valid PDF or DOCX file.''"

section \<open>Detection\<close>

text \<open>\<open>_run_detection\<close> on the stored file; \<open>Inl\<close> is an exception.\<close>

definition run_detection ::
  "ingest_config \<Rightarrow> ustr \<Rightarrow> bytes option \<Rightarrow> string + detection option" where
  "run_detection cfg ext content =
     (if ext = pdf_suffix then
        (case content of None \<Rightarrow> Inl ''OSError''
         | Some b \<Rightarrow> Inr (Some (detect_pdf_candidate ext b)))
      else if ext = docx_suffix then
        (case content of None \<Rightarrow> Inl ''OSError''
         | Some b \<Rightarrow> (case detect_docx_candidate (ic_unzip cfg) (ic_xml_ok cfg) (ic_max_members cfg) ext b of
                       Inl e \<Rightarrow> Inl e | Inr d \<Rightarrow> Inr (Some d)))
      else Inr None)"

section \<open>The row\<close>

definition uploaded_row ::
  "ingest_config \<Rightarrow> ingest_env \<Rightarrow> uuid \<Rightarrow> uuid \<Rightarrow> string \<Rightarrow> role_metadata \<Rightarrow> write_result \<Rightarrow> document" where
  "uploaded_row cfg env proj usr role m w =
     (let nm = normalize_display_filename (ic_nfc cfg) (ic_max_filename cfg) (ie_filename env);
          ftype = (case ie_content_type env of None \<Rightarrow> ''application/octet-stream''
                   | Some t \<Rightarrow> if t = [] then ''application/octet-stream'' else t)
      in (new_document (ie_document_id env) proj usr nm (ic_root cfg @ CHR ''/'' # wr_storage_path w) ftype)
         \<lparr>d_display_filename := Some nm, d_doc_role := role, d_ingestion_status := QUARANTINED,
          d_sha256_digest := Some (wr_sha256_digest w),
          d_file_size_bytes := Some (int (wr_byte_size w)), d_quarantined_at := Some (ie_now env),
          d_processing_status := ''pending_security_scan'',
          d_owner_name := rm_owner_name m, d_tags := rm_tags m,
          d_approval_status := rm_approval_status m, d_version := rm_version m,
          d_review_date := rm_review_date m\<rparr>)"

definition upload_event :: "uuid \<Rightarrow> uuid \<Rightarrow> uuid \<Rightarrow> string \<Rightarrow> audit_event" where
  "upload_event org usr i role =
     \<lparr>ev_organization_id = org, ev_user_id = Some usr, ev_action = ''document_upload_quarantined'',
      ev_entity_type = ''Document'', ev_entity_id = i, ev_details = [''doc_role'' \<mapsto> JStr role]\<rparr>"

text \<open>\<open>project_service.log_audit_event\<close>.\<close>

definition log_audit_event :: "audit_event \<Rightarrow> sess \<Rightarrow> sess" where
  "log_audit_event e s = commit (add_audit e s)"

section \<open>Classification\<close>

definition reject_type ::
  "uuid \<Rightarrow> uuid \<Rightarrow> string option \<Rightarrow> document \<Rightarrow> sess \<Rightarrow> (exc + unit) \<times> sess" where
  "reject_type org usr code x s =
     transition x REJECTED_TYPE org (Some usr) code (Some safe_upload_failure_message) None s"

text \<open>From VALIDATING to SCANNING or REJECTED\_TYPE.\<close>

definition classify_upload ::
  "ingest_config \<Rightarrow> uuid \<Rightarrow> uuid \<Rightarrow> bytes option \<Rightarrow> document \<Rightarrow> sess \<Rightarrow> (exc + unit) \<times> sess" where
  "classify_upload cfg org usr content x s =
     (case run_detection cfg (extension_of (case d_display_filename x of None \<Rightarrow> [] | Some t \<Rightarrow> t)) content of
        Inl _ \<Rightarrow> reject_type org usr (Some ''DETECTION_ERROR'') x s
      | Inr None \<Rightarrow> reject_type org usr (Some ''UNSUPPORTED_EXTENSION'') x s
      | Inr (Some d) \<Rightarrow>
          if dt_type d = TypeUnknown then reject_type org usr (dt_reason d) x s
          else
            let x1 = x\<lparr>d_detected_content_type := dt_mime d\<rparr>;
                s1 = commit (put_doc x1 s)
            in and_then (transition x1 SCANNING org (Some usr) None None None s1)
                 (\<lambda>_ s2. (Inr (), publish (ScanJob (d_id x)) s2)))"

section \<open>ingest\_uploaded\_document\<close>

text \<open>The primary key makes the first commit fail for an identifier that is already used.\<close>

definition ingest_uploaded_document ::
  "(bytes \<Rightarrow> string) \<Rightarrow> ingest_config \<Rightarrow> ingest_env \<Rightarrow> uuid \<Rightarrow> uuid \<Rightarrow> uuid \<Rightarrow> string \<Rightarrow> role_metadata
    \<Rightarrow> sess \<Rightarrow> dir \<Rightarrow> (exc + uuid) \<times> sess \<times> dir" where
  "ingest_uploaded_document H cfg env proj org usr role m s d =
     (case stream_upload_to_quarantine H (ic_max_upload cfg) (ie_upload env) d of
        (Inl _, d1) \<Rightarrow> (Inl (HTTPException 400 safe_upload_failure_message), s, d1)
      | (Inr w, d1) \<Rightarrow>
          let x = uploaded_row cfg env proj usr role m w in
          if ie_commit_fails env \<or> get_doc s (ie_document_id env) \<noteq> None then
            (case delete_quarantine_file (wr_storage_id w) d1 of
               (Inl e, d2) \<Rightarrow> (Inl e, rollback s, d2)
             | (Inr _, d2) \<Rightarrow> (Inl IntegrityError, rollback s, d2))
          else
            let s1 = log_audit_event (upload_event org usr (d_id x) role) (commit (put_doc x s));
                (r, s2) = and_then (transition x VALIDATING org (Some usr) None None None s1)
                  (\<lambda>_ s2. classify_upload cfg org usr
                     (if ie_file_error env then None else file_content d1 (wr_storage_path w))
                     (x\<lparr>d_ingestion_status := VALIDATING\<rparr>) s2)
            in (map_sum id (\<lambda>_. d_id x) r, s2, d1))"

section \<open>What an upload does\<close>

text \<open>The types that reach the scanner, by what the stored bytes are.\<close>

definition accepted_as :: "ingest_config \<Rightarrow> bytes \<Rightarrow> string \<Rightarrow> bool" where
  "accepted_as cfg b mime \<longleftrightarrow>
     mime = pdf_mime_type \<and> genuine_pdf b
     \<or> mime = docx_mime_type \<and> genuine_docx (ic_unzip cfg) (ic_xml_ok cfg) (ic_max_members cfg) b"

lemma detection_accepts:
  assumes "run_detection cfg ext content = Inr (Some t)" and "dt_type t \<noteq> TypeUnknown"
  shows "\<exists>b mime. content = Some b \<and> dt_mime t = Some mime \<and> accepted_as cfg b mime"
proof -
  consider b where "content = Some b" "t = detect_pdf_candidate ext b"
    | b where "content = Some b"
        "detect_docx_candidate (ic_unzip cfg) (ic_xml_ok cfg) (ic_max_members cfg) ext b = Inr t"
    using assms(1) by (auto simp: run_detection_def split: if_splits option.splits sum.splits)
  then show ?thesis
  proof cases
    case 1
    then show ?thesis using pdf_accepted [of ext b] assms(2) by (auto simp: accepted_as_def)
  next
    case 2
    then show ?thesis using docx_accepted [OF 2(2) assms(2)] by (auto simp: accepted_as_def)
  qed
qed

lemma uploaded_row_simps [simp]:
  "d_id (uploaded_row cfg env proj usr role m w) = ie_document_id env"
  "d_project_id (uploaded_row cfg env proj usr role m w) = proj"
  "d_ingestion_status (uploaded_row cfg env proj usr role m w) = QUARANTINED"
  "d_sha256_digest (uploaded_row cfg env proj usr role m w) = Some (wr_sha256_digest w)"
  "d_file_size_bytes (uploaded_row cfg env proj usr role m w) = Some (int (wr_byte_size w))"
  "d_file_path (uploaded_row cfg env proj usr role m w) =
     ic_root cfg @ CHR ''/'' # wr_storage_path w"
  "d_detected_content_type (uploaded_row cfg env proj usr role m w) = None"
  "d_created_by_id (uploaded_row cfg env proj usr role m w) = usr"
  "d_parse_attempt_id (uploaded_row cfg env proj usr role m w) = None"
  "d_scan_attempt_count (uploaded_row cfg env proj usr role m w) = 0"
  "d_doc_role (uploaded_row cfg env proj usr role m w) = role"
  "d_approval_status (uploaded_row cfg env proj usr role m w) = rm_approval_status m"
  by (simp_all add: uploaded_row_def Let_def new_document_def)

text \<open>The reason and the type the classification of the bytes gives.\<close>

definition classified ::
  "ingest_config \<Rightarrow> ustr \<Rightarrow> bytes option \<Rightarrow> string option + string" where
  "classified cfg ext content =
     (case run_detection cfg ext content of
        Inl _ \<Rightarrow> Inl (Some ''DETECTION_ERROR'')
      | Inr None \<Rightarrow> Inl (Some ''UNSUPPORTED_EXTENSION'')
      | Inr (Some t) \<Rightarrow> if dt_type t = TypeUnknown then Inl (dt_reason t)
                       else (case dt_mime t of Some mime \<Rightarrow> Inr mime | None \<Rightarrow> Inr []))"

lemma classify_upload_rejects:
  assumes "d_ingestion_status x = VALIDATING"
    and "classified cfg (extension_of (case d_display_filename x of None \<Rightarrow> [] | Some t \<Rightarrow> t))
           content = Inl code"
  shows "classify_upload cfg org usr content x s = (Inr (),
     commit (add_audit (move_event x REJECTED_TYPE org (Some usr) code None)
       (put_doc (moved x REJECTED_TYPE code (Some safe_upload_failure_message)) s)))"
  using assms
  by (auto simp: classify_upload_def classified_def reject_type_def transition_moves
      split: sum.splits option.splits if_splits)

lemma classify_upload_accepts:
  assumes "d_ingestion_status x = VALIDATING"
    and "classified cfg (extension_of (case d_display_filename x of None \<Rightarrow> [] | Some t \<Rightarrow> t))
           content = Inr mime"
  defines "y \<equiv> x\<lparr>d_detected_content_type := Some mime\<rparr>"
  shows "classify_upload cfg org usr content x s = (Inr (),
     publish (ScanJob (d_id x))
       (commit (add_audit (move_event y SCANNING org (Some usr) None None)
         (put_doc (moved y SCANNING None None) (commit (put_doc y s))))))"
proof -
  obtain t where t: "run_detection cfg (extension_of (case d_display_filename x of None \<Rightarrow> []
        | Some t \<Rightarrow> t)) content = Inr (Some t)" "dt_type t \<noteq> TypeUnknown" "dt_mime t = Some mime"
    using assms(2) detection_accepts [of cfg _ content]
    by (fastforce simp: classified_def split: sum.splits option.splits if_splits)
  then show ?thesis
    using assms(1) by (simp add: classify_upload_def Let_def y_def transition_moves)
qed

lemma classified_accepted:
  "classified cfg ext content = Inr mime \<Longrightarrow> \<exists>b. content = Some b \<and> accepted_as cfg b mime"
  using detection_accepts [of cfg ext content]
  by (fastforce simp: classified_def split: sum.splits option.splits if_splits)

text \<open>The two rows a persisted upload can leave and the job that goes with them.\<close>

definition final_row :: "document \<Rightarrow> string option + string \<Rightarrow> document" where
  "final_row x c = (case c of
     Inl code \<Rightarrow> moved (moved x VALIDATING None None) REJECTED_TYPE code (Some safe_upload_failure_message)
   | Inr mime \<Rightarrow> moved ((moved x VALIDATING None None)\<lparr>d_detected_content_type := Some mime\<rparr>)
                    SCANNING None None)"

lemma moved_validating: "x\<lparr>d_ingestion_status := VALIDATING\<rparr> = moved x VALIDATING None None"
  by (simp add: moved_def)

lemma moved_display [simp]: "d_display_filename (moved x new r t) = d_display_filename x"
  "d_detected_content_type (moved x new r t) = d_detected_content_type x"
  by (simp_all add: moved_def)

lemma uploaded_display [simp]:
  "d_display_filename (uploaded_row cfg env proj usr role m w) =
     Some (normalize_display_filename (ic_nfc cfg) (ic_max_filename cfg) (ie_filename env))"
  by (simp add: uploaded_row_def Let_def)

definition upload_class :: "ingest_config \<Rightarrow> ingest_env \<Rightarrow> string option + string" where
  "upload_class cfg env = classified cfg
     (extension_of (normalize_display_filename (ic_nfc cfg) (ic_max_filename cfg) (ie_filename env)))
     (if ie_file_error env then None else Some (sent (up_reads (ie_upload env))))"

lemma ingest_persisted:
  assumes up: "stream_upload_to_quarantine H (ic_max_upload cfg) (ie_upload env) d = (Inr w, d1)"
    and ok: "\<not> ie_commit_fails env" "get_doc s (ie_document_id env) = None"
  shows "\<exists>s'. ingest_uploaded_document H cfg env proj org usr role m s d =
       (Inr (ie_document_id env), s', d1)
     \<and> stored s' = work s'
     \<and> documents (work s') = (documents (work s))(ie_document_id env \<mapsto>
          final_row (uploaded_row cfg env proj usr role m w) (upload_class cfg env))
     \<and> outbox s' = outbox s @ (if \<exists>mime. upload_class cfg env = Inr mime
                               then [ScanJob (ie_document_id env)] else [])"
proof -
  let ?x = "uploaded_row cfg env proj usr role m w"
  let ?v = "moved ?x VALIDATING None None"
  have kept: "file_content d1 (wr_storage_path w) = Some (sent (up_reads (ie_upload env)))"
    using upload_success [OF up] by (simp add: file_content_def)
  have mv: "transition ?x VALIDATING org (Some usr) None None None s' =
      (Inr (), commit (add_audit (move_event ?x VALIDATING org (Some usr) None None)
                        (put_doc ?v s')))" for s'
    by (rule transition_moves) simp
  show ?thesis
  proof (cases "upload_class cfg env")
    case (Inl code)
    then have "classified cfg (extension_of (case d_display_filename ?v of None \<Rightarrow> [] | Some t \<Rightarrow> t))
        (if ie_file_error env then None else file_content d1 (wr_storage_path w)) = Inl code"
      by (simp add: upload_class_def kept split del: if_split cong: if_cong)
    note c = classify_upload_rejects [OF _ this]
    show ?thesis
      using ok by (simp add: ingest_uploaded_document_def up Let_def mv moved_validating c
          split del: if_split cong: if_cong, simp add:
          log_audit_event_def final_row_def Inl)
  next
    case (Inr mime)
    then have "classified cfg (extension_of (case d_display_filename ?v of None \<Rightarrow> [] | Some t \<Rightarrow> t))
        (if ie_file_error env then None else file_content d1 (wr_storage_path w)) = Inr mime"
      by (simp add: upload_class_def kept split del: if_split cong: if_cong)
    note c = classify_upload_accepts [OF _ this]
    show ?thesis
      using ok by (simp add: ingest_uploaded_document_def up Let_def mv moved_validating c
          split del: if_split cong: if_cong, simp add:
          log_audit_event_def final_row_def Inr)
  qed
qed

text \<open>Everything else is refused with nothing left behind.\<close>

lemma ingest_refused:
  assumes "(\<exists>e. fst (stream_upload_to_quarantine H (ic_max_upload cfg) (ie_upload env) d) = Inl e)
    \<or> ie_commit_fails env \<or> get_doc s (ie_document_id env) \<noteq> None"
  shows "\<exists>e s'. ingest_uploaded_document H cfg env proj org usr role m s d = (Inl e, s', d)
    \<and> stored s' = stored s \<and> outbox s' = outbox s \<and> (work s' = work s \<or> work s' = stored s)"
proof (cases "stream_upload_to_quarantine H (ic_max_upload cfg) (ie_upload env) d")
  case (Pair r d1)
  show ?thesis
  proof (cases r)
    case (Inl e)
    then have "d1 = d"
      using failed_upload_restores [of H "ic_max_upload cfg" "ie_upload env" d e] Pair by simp
    then show ?thesis using Pair Inl by (simp add: ingest_uploaded_document_def)
  next
    case (Inr w)
    note ok = upload_success [OF Pair [unfolded Inr]]
    let ?n = "quarantine_name (up_id (ie_upload env))"
    have "delete_quarantine_file (wr_storage_id w) d1 = (Inr (), d1(?n := None))"
      using ok by (simp add: delete_quarantine_file_def resolve_plain is_symlink_def)
    moreover have "d1(?n := None) = d"
      using ok by (auto simp: fun_eq_iff)
    moreover have "ie_commit_fails env \<or> get_doc s (ie_document_id env) \<noteq> None"
      using assms Pair Inr by simp
    ultimately show ?thesis
      by (simp add: ingest_uploaded_document_def Pair Inr Let_def)
  qed
qed

lemma ingest_cases:
  obtains (refused) "(\<exists>e. fst (stream_upload_to_quarantine H (ic_max_upload cfg) (ie_upload env) d) = Inl e)
      \<or> ie_commit_fails env \<or> get_doc s (ie_document_id env) \<noteq> None"
  | (persisted) w d1 where
      "stream_upload_to_quarantine H (ic_max_upload cfg) (ie_upload env) d = (Inr w, d1)"
      "\<not> ie_commit_fails env" "get_doc s (ie_document_id env) = None"
  by (cases "stream_upload_to_quarantine H (ic_max_upload cfg) (ie_upload env) d";
      cases "fst (stream_upload_to_quarantine H (ic_max_upload cfg) (ie_upload env) d)") auto

lemma final_row_simps [simp]:
  "d_id (final_row x c) = d_id x"
  "d_project_id (final_row x c) = d_project_id x"
  "d_created_by_id (final_row x c) = d_created_by_id x"
  "d_sha256_digest (final_row x c) = d_sha256_digest x"
  "d_file_size_bytes (final_row x c) = d_file_size_bytes x"
  "d_file_path (final_row x c) = d_file_path x"
  "d_doc_role (final_row x c) = d_doc_role x"
  "d_approval_status (final_row x c) = d_approval_status x"
  by (simp_all add: final_row_def split: sum.splits)

section \<open>A concrete upload\<close>

definition demo_pdf :: bytes where
  "demo_pdf = uni ''%PDF-1.4 demo %%EOF''"

definition demo_reads :: upload_env where
  "demo_reads = \<lparr>up_reads = [Some demo_pdf, Some []], up_id = 7, up_open_fails = False,
     up_write_ok = \<lambda>_. True, up_flush_ok = True, up_rename_ok = True\<rparr>"

definition demo_ingest_config :: ingest_config where
  "demo_ingest_config = \<lparr>ic_max_upload = 100, ic_max_filename = 255, ic_max_members = 10,
     ic_root = ''/quarantine'', ic_nfc = id, ic_unzip = \<lambda>_. NotAZip, ic_xml_ok = \<lambda>_. True\<rparr>"

definition demo_ingest_env :: ingest_env where
  "demo_ingest_env = \<lparr>ie_upload = demo_reads, ie_filename = Some (uni ''Bid.PDF''),
     ie_content_type = Some ''application/pdf'', ie_document_id = 3, ie_now = 0,
     ie_commit_fails = False, ie_file_error = False\<rparr>"

lemma demo_env_simps [simp]:
  "ie_upload demo_ingest_env = demo_reads" "ie_document_id demo_ingest_env = 3"
  "ie_commit_fails demo_ingest_env = False" "ic_max_upload demo_ingest_config = 100"
  "up_id demo_reads = 7" "up_reads demo_reads = [Some demo_pdf, Some []]"
  by (simp_all add: demo_ingest_env_def demo_ingest_config_def demo_reads_def)

lemma length_demo_pdf: "length demo_pdf = 19" "demo_pdf \<noteq> []"
  by (simp_all add: demo_pdf_def)

lemma demo_stream:
  "\<exists>w d'. stream_upload_to_quarantine H 100 demo_reads Map.empty = (Inr w, d')"
  by (simp add: stream_upload_to_quarantine_def resolve_plain is_symlink_def demo_reads_def
      nothing_received_def publish_upload_def path_exists_def length_demo_pdf window_def Let_def)

lemma demo_ingest:
  "\<exists>s' d'. ingest_uploaded_document (\<lambda>_. ''h'') demo_ingest_config demo_ingest_env 1 2 4 ''rfp''
     rfp_metadata (open_session empty_db) Map.empty = (Inr 3, s', d')"
proof -
  obtain w d' where "stream_upload_to_quarantine (\<lambda>_. ''h'') (ic_max_upload demo_ingest_config)
      (ie_upload demo_ingest_env) Map.empty = (Inr w, d')"
    using demo_stream [of "\<lambda>_. ''h''"] by auto
  note ingest_persisted [OF this, of "open_session empty_db" 1 2 4 "''rfp''" rfp_metadata]
  then show ?thesis by (auto simp: empty_db_def)
qed

section \<open>Properties\<close>

text \<open>
  An upload that is answered with an error leaves nothing behind: the committed database
  is unchanged, no job is published and the quarantine directory is as it was, whether the
  stream failed or the row could not be committed.
\<close>

lemma refused_upload_leaves_nothing:
  assumes "ingest_uploaded_document H cfg env proj org usr role m s d = (Inl e, s', d')"
  shows "stored s' = stored s \<and> outbox s' = outbox s \<and> d' = d"
proof (cases rule: ingest_cases [of H cfg env d s])
  case refused
  from ingest_refused [OF refused, of proj org usr role m] assms show ?thesis by auto
next
  case (persisted w d1)
  from ingest_persisted [OF persisted, of proj org usr role m] assms show ?thesis by auto
qed

theorem refused_upload_leaves_nothing_witness:
  "snd (snd (ingest_uploaded_document (\<lambda>_. ''h'') demo_ingest_config
     (demo_ingest_env\<lparr>ie_commit_fails := True\<rparr>) 1 2 4 ''rfp'' rfp_metadata
     (open_session empty_db) Map.empty)) = Map.empty"
proof -
  obtain e s' d' where "ingest_uploaded_document (\<lambda>_. ''h'') demo_ingest_config
     (demo_ingest_env\<lparr>ie_commit_fails := True\<rparr>) 1 2 4 ''rfp'' rfp_metadata
     (open_session empty_db) Map.empty = (Inl e, s', d')"
    using ingest_refused [of "\<lambda>_. ''h''" demo_ingest_config
      "demo_ingest_env\<lparr>ie_commit_fails := True\<rparr>" Map.empty "open_session empty_db"] by fastforce
  from refused_upload_leaves_nothing [OF this] this show ?thesis by simp
qed

text \<open>
  C36. A persisted upload has a row of its own that records owner, project, digest, size and
  path of exactly the bytes sent, which the quarantine file holds; every other document is
  untouched. Either the bytes are a genuine PDF or DOCX package, the row is in SCANNING with
  that type and one scan job is published, or the row is in REJECTED\_TYPE and no job is.
\<close>

theorem uploaded_document_is_classified:
  assumes "ingest_uploaded_document H cfg env proj org usr role m (open_session db0) d
             = (Inr i, s', d')"
  defines "b \<equiv> sent (up_reads (ie_upload env))"
    and "n \<equiv> quarantine_name (up_id (ie_upload env))"
  shows "\<exists>x. documents (stored s') = (documents db0)(i \<mapsto> x) \<and> documents db0 i = None
    \<and> i = ie_document_id env \<and> d_id x = i \<and> d_project_id x = proj \<and> d_created_by_id x = usr
    \<and> d_sha256_digest x = Some (H b) \<and> d_file_size_bytes x = Some (int (length b))
    \<and> 0 < length b \<and> length b \<le> ic_max_upload cfg
    \<and> d_file_path x = ic_root cfg @ CHR ''/'' # n \<and> d' = d(n \<mapsto> RegularFile b)
    \<and> (d_ingestion_status x = SCANNING \<and> outbox s' = [ScanJob i]
          \<and> (\<exists>mime. d_detected_content_type x = Some mime \<and> accepted_as cfg b mime)
       \<or> d_ingestion_status x = REJECTED_TYPE \<and> outbox s' = []
          \<and> d_operator_failure_summary x = Some safe_upload_failure_message
          \<and> d_detected_content_type x = None)"
proof (cases rule: ingest_cases [of H cfg env d "open_session db0"])
  case refused
  from ingest_refused [OF refused, of proj org usr role m] assms(1) show ?thesis by auto
next
  case (persisted w d1)
  note up = upload_success [OF persisted(1), folded b_def n_def]
  let ?c = "upload_class cfg env"
  have p: "i = ie_document_id env" "d' = d1" "stored s' = work s'"
    "documents (work s') = (documents db0)(i \<mapsto> final_row (uploaded_row cfg env proj usr role m w) ?c)"
    "outbox s' = (if \<exists>mime. ?c = Inr mime then [ScanJob i] else [])"
    using ingest_persisted [OF persisted, of proj org usr role m] assms(1) by auto
  have dir: "d' = d(n \<mapsto> RegularFile b)"
    using up p(2) by (auto simp: fun_eq_iff)
  have kind: "(case ?c of Inr mime \<Rightarrow> accepted_as cfg b mime | Inl _ \<Rightarrow> True)"
    using classified_accepted [of cfg] unfolding upload_class_def b_def
    by (fastforce split: sum.splits if_splits)
  show ?thesis
    by (rule exI [of _ "final_row (uploaded_row cfg env proj usr role m w) ?c"])
      (use up p dir kind persisted(3) in
        \<open>cases ?c; simp add: b_def [symmetric] final_row_def\<close>; simp add: moved_def)
qed

theorem uploaded_document_is_classified_witness:
  "d_sha256_digest (the (documents (stored (fst (snd (ingest_uploaded_document (\<lambda>_. ''h'')
     demo_ingest_config demo_ingest_env 1 2 4 ''rfp'' rfp_metadata (open_session empty_db)
     Map.empty)))) 3)) = Some ''h''"
proof -
  obtain s' d' where run: "ingest_uploaded_document (\<lambda>_. ''h'') demo_ingest_config demo_ingest_env
     1 2 4 ''rfp'' rfp_metadata (open_session empty_db) Map.empty = (Inr 3, s', d')"
    using demo_ingest by blast
  show ?thesis unfolding run using uploaded_document_is_classified [OF run] by auto
qed

text \<open>What an upload does to the documents, whatever its outcome.\<close>

lemma ingest_documents:
  assumes "ingest_uploaded_document H cfg env proj org usr role m s d = (r, s', d')" and "stored s = work s"
  shows "case r of
      Inl _ \<Rightarrow> documents (stored s') = documents (stored s)
    | Inr i \<Rightarrow> documents (stored s) i = None
        \<and> (\<exists>x. documents (stored s') = (documents (stored s))(i \<mapsto> x) \<and> d_id x = i
             \<and> d_project_id x = proj \<and> d_doc_role x = role \<and> d_approval_status x = rm_approval_status m
             \<and> d_sha256_digest x = Some (H (sent (up_reads (ie_upload env))))
             \<and> d_file_size_bytes x = Some (int (length (sent (up_reads (ie_upload env))))))"
proof (cases rule: ingest_cases [of H cfg env d s])
  case refused
  from ingest_refused [OF refused, of proj org usr role m] assms(1) show ?thesis by auto
next
  case (persisted w d1)
  let ?x = "final_row (uploaded_row cfg env proj usr role m w) (upload_class cfg env)"
  have "documents (stored s) (d_id ?x) = None" using persisted(3) assms(2) by (simp add: get_doc_def)
  then show ?thesis
    using ingest_persisted [OF persisted, of proj org usr role m] upload_success [OF persisted(1)] assms
    by (auto intro!: exI [of _ ?x])
qed

section \<open>The lifecycle invariant\<close>

lemma classify_keeps_lifecycle:
  assumes ok: "sess_ok s" and row: "get_doc s (d_id x) = Some x"
  shows "sess_ok (snd (classify_upload cfg org usr content x s))"
proof -
  have rej: "sess_ok (snd (reject_type org usr code x s))" for code
    unfolding reject_type_def using ok row by (intro lifecycle.keep_transition) auto
  have "sess_ok (snd (and_then (transition (x\<lparr>d_detected_content_type := t\<rparr>) SCANNING org (Some usr)
      None None None (commit (put_doc (x\<lparr>d_detected_content_type := t\<rparr>) s)))
      (\<lambda>_ s2. (Inr (), publish (ScanJob (d_id x)) s2))))" for t
  proof (intro and_then_keeps)
    let ?y = "x\<lparr>d_detected_content_type := t\<rparr>"
    have "sess_ok (commit (put_doc ?y s))"
      using ok row by (intro holds_simps(1) lifecycle.keep_put) auto
    then show "sess_ok (snd (transition ?y SCANNING org (Some usr) None None None
        (commit (put_doc ?y s))))"
      by (rule lifecycle.keep_transition [of _ _ ?y]) simp_all
  qed simp
  with rej show ?thesis
    by (simp add: classify_upload_def Let_def split: sum.splits option.splits)
qed

lemma ingest_keeps_lifecycle:
  assumes ok: "sess_ok s"
  shows "sess_ok (fst (snd (ingest_uploaded_document H cfg env proj org usr role m s d)))"
proof (cases rule: ingest_cases [of H cfg env d s])
  case refused
  from ingest_refused [OF refused, of proj org usr role m] ok show ?thesis
    by (auto simp: sess_ok_def)
next
  case (persisted w d1)
  let ?x = "uploaded_row cfg env proj usr role m w"
  let ?s = "log_audit_event (upload_event org usr (d_id ?x) role) (commit (put_doc ?x s))"
  have "sess_ok (put_doc ?x s)"
    using ok persisted(3) by (intro sess_ok_insert) (simp_all add: start_status_def)
  then have s1: "sess_ok ?s"
    unfolding log_audit_event_def
    by (intro holds_simps(1) lifecycle.keep_audit)
      (simp_all add: upload_event_def transition_action_def)
  have row: "get_doc ?s (d_id ?x) = Some ?x"
    by (simp add: log_audit_event_def)
  let ?v = "moved ?x VALIDATING None None"
  let ?s2 = "commit (add_audit (move_event ?x VALIDATING org (Some usr) None None) (put_doc ?v ?s))"
  have mv: "transition ?x VALIDATING org (Some usr) None None None ?s = (Inr (), ?s2)"
    by (rule transition_moves) simp
  have s2: "sess_ok ?s2"
    using lifecycle.keep_transition [OF s1 row _ refl, of VALIDATING org "Some usr" None None None] mv by simp
  have "sess_ok (snd (classify_upload cfg org usr content ?v ?s2))" for content
    by (rule classify_keeps_lifecycle [OF s2]) simp
  then show ?thesis
    using persisted mv by (simp add: ingest_uploaded_document_def Let_def moved_validating
        split: prod.splits) (metis snd_conv)
qed

interpretation ingestions: status_operation
  "\<lambda>(H, cfg, env, proj, org, usr, role, m, d) s.
     fst (snd (ingest_uploaded_document H cfg env proj org usr role m s d))"
  by unfold_locales (auto intro: ingest_keeps_lifecycle)

end
