(* ===== verification/Workspace.thy ===== *)
theory Workspace
  imports Grounding Review Ingestion
begin

text \<open>
  \<open>app/web/routes/compliance.py\<close>: the compliance matrix and the workspace of a requirement,
  every route with its effect on the database and its audit events. A route returns a page or
  a redirect, or raises. The CSRF dependency of the mutating routes is \<open>validate_csrf_token\<close> of
  theory SessionMiddleware; templates, file formats and the language model are outside. Commits
  succeed here: their failure is the 500 page and a closed session.
\<close>

section \<open>Requests\<close>

text \<open>
  \<open>wb_first_org\<close> and \<open>wb_first_user\<close> are the rows of the two \<open>limit(1)\<close> queries of
  \<open>get_default_org_and_user\<close>, \<open>wb_new_id\<close> the primary key \<open>uuid4\<close> gives a new row and
  \<open>wb_user_text\<close>, \<open>wb_org_text\<close> the values in the session.
\<close>

record web_env =
  wb_parse :: "string \<Rightarrow> uuid option"
  wb_user_text :: "string option"
  wb_org_text :: "string option"
  wb_auth_mode :: string
  wb_app_env :: string
  wb_first_org :: "uuid option"
  wb_first_user :: "uuid option"
  wb_audit_ok :: bool
  wb_new_id :: uuid
  wb_now :: time
  wb_casefold :: "ustr \<Rightarrow> ustr"

datatype reply =
    RowPage uuid
  | EmptyBody
  | ToMatrix uuid "string option"
  | ToWorkspace uuid "string option"

type_synonym action = "sess \<Rightarrow> (exc + reply) \<times> sess"

text \<open>\<open>database.get_default_org_and_user\<close>.\<close>

definition default_user :: "uuid \<Rightarrow> user" where
  "default_user org = \<lparr>us_id = 2, us_organization_id = org, us_email = uni ''default@rfparchitect.com'',
     us_hashed_password = ''fake-pbkdf2-sha256-hash-for-now'', us_full_name = uni ''Default Workspace User'',
     us_is_active = True, us_can_review_requirements = False\<rparr>"

definition get_default_org_and_user :: "uuid option \<Rightarrow> uuid option \<Rightarrow> sess \<Rightarrow> (uuid \<times> uuid) \<times> sess" where
  "get_default_org_and_user first_org first_user s =
     (let (org, s1) = (case first_org of Some i \<Rightarrow> (i, s)
            | None \<Rightarrow> (1, commit (s\<lparr>work := (work s)\<lparr>organizations := insert 1 (organizations (work s))\<rparr>\<rparr>)));
          (usr, s2) = (case first_user of Some i \<Rightarrow> (i, s1)
            | None \<Rightarrow> (2, commit (put_user (default_user org) s1)))
      in ((org, usr), s2))"

text \<open>The wrapper around \<open>core.security.get_current_org_and_user\<close>; all errors there are 401.\<close>

definition current_org_and_user :: "web_env \<Rightarrow> sess \<Rightarrow> (exc + uuid \<times> uuid) \<times> sess" where
  "current_org_and_user env s =
     (case get_current_org_and_user (wb_parse env) (wb_user_text env) (wb_org_text env) (work s) of
        Inr p \<Rightarrow> (Inr p, s)
      | Inl e \<Rightarrow>
          if wb_auth_mode env = ''dev''
          then (case check_app_env_auth (wb_app_env env) (wb_auth_mode env) of
                  Inl e1 \<Rightarrow> (Inl e1, s)
                | Inr _ \<Rightarrow> map_prod Inr id (get_default_org_and_user (wb_first_org env) (wb_first_user env) s))
          else (Inl e, s))"

text \<open>The first two lines of every route of a requirement, and of a project.\<close>

definition for_requirement ::
  "web_env \<Rightarrow> uuid \<Rightarrow> (uuid \<Rightarrow> uuid \<Rightarrow> requirement \<Rightarrow> sess \<Rightarrow> (exc + 'a) \<times> sess) \<Rightarrow> sess \<Rightarrow> (exc + 'a) \<times> sess" where
  "for_requirement env i route s =
     (case current_org_and_user env s of
        (Inl e, s1) \<Rightarrow> (Inl e, s1)
      | (Inr (org, usr), s1) \<Rightarrow>
          (case get_requirement_for_org (wb_audit_ok env) i org s1 of
             (Inl e, s2) \<Rightarrow> (Inl e, s2)
           | (Inr r, s2) \<Rightarrow> route org usr r s2))"

definition for_project ::
  "web_env \<Rightarrow> uuid \<Rightarrow> (uuid \<Rightarrow> uuid \<Rightarrow> project \<Rightarrow> sess \<Rightarrow> (exc + 'a) \<times> sess) \<Rightarrow> sess \<Rightarrow> (exc + 'a) \<times> sess" where
  "for_project env i route s =
     (case current_org_and_user env s of
        (Inl e, s1) \<Rightarrow> (Inl e, s1)
      | (Inr (org, usr), s1) \<Rightarrow>
          (case get_project_for_org (wb_audit_ok env) i org s1 of
             (Inl e, s2) \<Rightarrow> (Inl e, s2)
           | (Inr pr, s2) \<Rightarrow> route org usr pr s2))"

definition web_event :: "uuid \<Rightarrow> uuid \<Rightarrow> string \<Rightarrow> string \<Rightarrow> uuid \<Rightarrow> details \<Rightarrow> audit_event" where
  "web_event org usr action entity i details =
     \<lparr>ev_organization_id = org, ev_user_id = Some usr, ev_action = action, ev_entity_type = entity,
      ev_entity_id = i, ev_details = details\<rparr>"

section \<open>Rows\<close>

definition change_requirement :: "uuid \<Rightarrow> (requirement \<Rightarrow> requirement) \<Rightarrow> sess \<Rightarrow> sess" where
  "change_requirement i f s = s\<lparr>work := (work s)\<lparr>requirements := upd_row rq_id i f (requirements (work s))\<rparr>\<rparr>"

definition change_draft :: "uuid \<Rightarrow> (draft_response \<Rightarrow> draft_response) \<Rightarrow> sess \<Rightarrow> sess" where
  "change_draft i f s = s\<lparr>work := (work s)\<lparr>draft_responses := upd_row dr_id i f (draft_responses (work s))\<rparr>\<rparr>"

text \<open>\<open>.order_by(DraftResponse.version.desc()).first()\<close>.\<close>

definition newest :: "draft_response list \<Rightarrow> draft_response option" where
  "newest rs = (case rs of [] \<Rightarrow> None
     | x # xs \<Rightarrow> Some (fold (\<lambda>y b. if dr_version y > dr_version b then y else b) xs x))"

definition latest_draft :: "db \<Rightarrow> uuid \<Rightarrow> draft_response option" where
  "latest_draft d i = newest (filter (\<lambda>x. dr_requirement_id x = i) (draft_responses d))"

definition links_of :: "db \<Rightarrow> uuid \<Rightarrow> evidence_link list" where
  "links_of d i = filter (\<lambda>l. el_requirement_id l = i) (evidence_links d)"

text \<open>Deleting a requirement; the foreign keys cascade to its links, drafts, comments and tasks.\<close>

definition delete_requirement :: "uuid \<Rightarrow> sess \<Rightarrow> sess" where
  "delete_requirement i s = s\<lparr>work := (work s)
     \<lparr>requirements := filter (\<lambda>r. rq_id r \<noteq> i) (requirements (work s)),
      evidence_links := filter (\<lambda>l. el_requirement_id l \<noteq> i) (evidence_links (work s)),
      draft_responses := filter (\<lambda>x. dr_requirement_id x \<noteq> i) (draft_responses (work s)),
      requirement_comments := filter (\<lambda>c. rc_requirement_id c \<noteq> i) (requirement_comments (work s)),
      routing_tasks := filter (\<lambda>t. rt_requirement_id t \<noteq> i) (routing_tasks (work s)),
      pilot_feedback_rows := map (\<lambda>f. if fb_requirement_id f = Some i then f\<lparr>fb_requirement_id := None\<rparr> else f)
        (pilot_feedback_rows (work s))\<rparr>\<rparr>"

definition add_comment :: "requirement_comment \<Rightarrow> sess \<Rightarrow> sess" where
  "add_comment c s = s\<lparr>work := (work s)\<lparr>requirement_comments := requirement_comments (work s) @ [c]\<rparr>\<rparr>"

section \<open>The matrix\<close>

definition requirement_statuses :: "string list" where
  "requirement_statuses = [''NOT_STARTED'', ''NEEDS_EVIDENCE'', ''DRAFTED'', ''NEEDS_REVIEW'', ''APPROVED'',
     ''REJECTED'', ''IN_REVIEW'', ''CHANGES_REQUESTED'']"

definition risk_levels :: "string list" where "risk_levels = [''High'', ''Medium'', ''Low'']"

definition requirement_types :: "string list" where
  "requirement_types = [''Technical'', ''Compliance'', ''Commercial'', ''Procedural'']"

text \<open>The form of the edit route; the enumerations are checked by the framework (422).\<close>

record requirement_form =
  rf_original_text :: ustr
  rf_source_section :: "ustr option"
  rf_source_page :: "int option"
  rf_requirement_type :: "string option"
  rf_mandatory :: bool
  rf_status :: string
  rf_owner_name :: "ustr option"
  rf_proposal_section :: "ustr option"
  rf_risk_level :: "string option"

definition empty_to_none :: "string option \<Rightarrow> string option" where
  "empty_to_none v = (if v = Some [] then None else v)"

definition enum_ok :: "string list \<Rightarrow> string option \<Rightarrow> bool" where
  "enum_ok values v \<longleftrightarrow> (case empty_to_none v of None \<Rightarrow> True | Some t \<Rightarrow> t \<in> set values)"

definition form_ok :: "requirement_form \<Rightarrow> bool" where
  "form_ok f \<longleftrightarrow> rf_status f \<in> set requirement_statuses \<and> enum_ok requirement_types (rf_requirement_type f)
     \<and> enum_ok risk_levels (rf_risk_level f)"

definition edit_details :: "requirement \<Rightarrow> requirement_form \<Rightarrow> details" where
  "edit_details r f =
     [''old'' \<mapsto> JObj [(''original_text'', JText (rq_original_text r)), (''status'', JStr (rq_status r)),
        (''mandatory'', JBool (rq_mandatory r))],
      ''new'' \<mapsto> JObj [(''original_text'', JText (rf_original_text f)), (''status'', JStr (rf_status f)),
        (''mandatory'', JBool (rf_mandatory f))]]"

definition edited_requirement :: "requirement_form \<Rightarrow> requirement \<Rightarrow> requirement" where
  "edited_requirement f r =
     r\<lparr>rq_original_text := rf_original_text f, rq_source_section := rf_source_section f,
       rq_source_page := rf_source_page f, rq_requirement_type := empty_to_none (rf_requirement_type f),
       rq_mandatory := rf_mandatory f, rq_status := rf_status f, rq_owner_name := rf_owner_name f,
       rq_proposal_section := rf_proposal_section f, rq_risk_level := empty_to_none (rf_risk_level f)\<rparr>"

definition update_requirement_action :: "web_env \<Rightarrow> uuid \<Rightarrow> requirement_form \<Rightarrow> action" where
  "update_requirement_action env i f s =
     (if \<not> form_ok f then (Inl (HTTPException 422 ''Unprocessable Entity''), s)
      else for_requirement env i (\<lambda>org usr r s1.
        (Inr (RowPage i), log_audit_event (web_event org usr ''requirement_edit'' ''Requirement'' i (edit_details r f))
           (commit (change_requirement i (edited_requirement f) s1)))) s)"

definition delete_requirement_action :: "web_env \<Rightarrow> uuid \<Rightarrow> action" where
  "delete_requirement_action env i =
     for_requirement env i (\<lambda>org usr r s1.
       (Inr EmptyBody, log_audit_event (web_event org usr ''requirement_delete'' ''Requirement'' i
            [''original_text'' \<mapsto> JText (rq_original_text r)])
          (commit (delete_requirement i s1))))"

definition merge_separator :: ustr where "merge_separator = 10 # uni ''[Merged] ''"

fun join_text :: "ustr \<Rightarrow> ustr list \<Rightarrow> ustr" where
  "join_text sep [] = []"
| "join_text sep [t] = t"
| "join_text sep (t # ts) = t @ sep @ join_text sep ts"

fun parse_ids :: "(string \<Rightarrow> uuid option) \<Rightarrow> string list \<Rightarrow> uuid list option" where
  "parse_ids parse [] = Some []"
| "parse_ids parse (t # ts) =
     (case (parse t, parse_ids parse ts) of (Some i, Some is) \<Rightarrow> Some (i # is) | _ \<Rightarrow> None)"

definition merge_requirements_action :: "web_env \<Rightarrow> uuid \<Rightarrow> string list \<Rightarrow> action" where
  "merge_requirements_action env proj ids s =
     (if length ids < 2 then (Inr (ToMatrix proj (Some ''error=Select at least two items to merge'')), s)
      else for_project env proj (\<lambda>org usr pr s1.
        case parse_ids (wb_parse env) ids of
          None \<Rightarrow> (Inl (OtherException ''ValueError''), s1)
        | Some is \<Rightarrow>
            let reqs = filter (\<lambda>r. rq_id r \<in> set is \<and> rq_project_id r = pr_id pr) (requirements (work s1)) in
            if length reqs \<noteq> length is then (Inl (HTTPException 404 ''No requirements found''), s1)
            else
              let primary = rq_id (hd reqs);
                  s2 = commit (change_requirement primary
                         (\<lambda>r. r\<lparr>rq_original_text := join_text merge_separator (map rq_original_text reqs)\<rparr>) s1);
                  s3 = commit (fold (\<lambda>r. delete_requirement (rq_id r)) (tl reqs) s2)
              in (Inr (ToMatrix proj None), log_audit_event (web_event org usr ''requirements_merge'' ''Requirement''
                    primary [''merged_ids'' \<mapsto> JList (map (JId \<circ> rq_id) reqs)]) s3)) s)"

text \<open>\<open>str.replace(old, "")\<close>.\<close>

function remove_all :: "ustr \<Rightarrow> ustr \<Rightarrow> ustr" where
  "remove_all q [] = []"
| "remove_all q (c # cs) =
     (if q \<noteq> [] \<and> starts_with q (c # cs) then remove_all q (drop (length q) (c # cs)) else c # remove_all q cs)"
  by pat_completeness auto

termination
  by (relation "measure (\<lambda>(_, t). length t)") auto

definition split_rest :: "ustr \<Rightarrow> ustr \<Rightarrow> ustr" where
  "split_rest part original =
     (let rest = strip (remove_all part original) in if rest = [] then uni ''[Split Part 1]'' else rest)"

definition split_off :: "uuid \<Rightarrow> ustr \<Rightarrow> requirement \<Rightarrow> requirement" where
  "split_off new part r =
     \<lparr>rq_id = new, rq_project_id = rq_project_id r, rq_source_document_id = rq_source_document_id r,
      rq_source_candidate_id = None, rq_original_text = part, rq_source_section = rq_source_section r,
      rq_source_page = rq_source_page r, rq_requirement_type = rq_requirement_type r,
      rq_mandatory = rq_mandatory r, rq_status = ''NOT_STARTED'', rq_owner_name = None,
      rq_proposal_section = None, rq_risk_level = rq_risk_level r, rq_assigned_to_user_id = None,
      rq_assigned_by_user_id = None, rq_assigned_at = None\<rparr>"

definition split_requirement_action :: "web_env \<Rightarrow> uuid \<Rightarrow> ustr \<Rightarrow> action" where
  "split_requirement_action env i part =
     for_requirement env i (\<lambda>org usr r s1.
       let s2 = change_requirement i (\<lambda>q. q\<lparr>rq_original_text := split_rest part (rq_original_text q)\<rparr>) s1;
           s3 = commit (s2\<lparr>work := (work s2)\<lparr>requirements := requirements (work s2) @ [split_off (wb_new_id env) part r]\<rparr>\<rparr>)
       in (Inr (ToMatrix (rq_project_id r) None), log_audit_event (web_event org usr ''requirement_split''
             ''Requirement'' i [''new_requirement_id'' \<mapsto> JId (wb_new_id env)]) s3))"

end
