(* ===== verification/Answers.thy ===== *)
theory Answers
  imports Workspace
begin

text \<open>
  The workspace of one requirement in \<open>app/web/routes/compliance.py\<close>: linking evidence,
  drafting, editing, approving and rejecting an answer, assigning and reviewing, comments.
\<close>

section \<open>Evidence and drafts\<close>

definition evidence_exc :: "evidence_error \<Rightarrow> exc" where
  "evidence_exc e = HTTPException (fst e) (snd e)"

text \<open>The score the client sends is discarded.\<close>

definition link_evidence_action :: "web_env \<Rightarrow> uuid \<Rightarrow> uuid \<Rightarrow> ustr \<Rightarrow> int option \<Rightarrow> action" where
  "link_evidence_action env i document_id snippet page_number =
     for_requirement env i (\<lambda>org usr r s1.
       case validate_evidence_candidate (wb_casefold env) (work s1) (rq_project_id r) document_id page_number snippet of
         Inl e \<Rightarrow> (Inl (evidence_exc e), s1)
       | Inr (canonical, page) \<Rightarrow>
           let l = \<lparr>el_id = wb_new_id env, el_requirement_id = i, el_document_id = document_id,
                    el_snippet = canonical, el_page_number = page, el_score = 0\<rparr>;
               s2 = commit (s1\<lparr>work := (work s1)\<lparr>evidence_links := evidence_links (work s1) @ [l]\<rparr>\<rparr>)
           in (Inr (ToWorkspace i None), log_audit_event (web_event org usr ''evidence_link'' ''EvidenceLink''
                (el_id l) [''requirement_id'' \<mapsto> JId i, ''document_id'' \<mapsto> JId document_id,
                  ''page_number'' \<mapsto> (case page of None \<Rightarrow> JNull | Some n \<Rightarrow> JInt n),
                  ''snippet_len'' \<mapsto> JInt (int (length canonical))]) s2))"

text \<open>The answer of the language model; \<open>None\<close> is an exception of the provider.\<close>

record drafted_answer =
  da_answer_text :: ustr
  da_confidence :: rat
  da_needs_evidence :: bool
  da_assumptions :: "ustr option"

type_synonym provider = "ustr \<Rightarrow> evidence_link list \<Rightarrow> drafted_answer option"

definition next_version :: "db \<Rightarrow> uuid \<Rightarrow> nat" where
  "next_version d i =
     fold max (map dr_version (filter (\<lambda>x. dr_requirement_id x = i) (draft_responses d))) 0 + 1"

definition new_draft :: "web_env \<Rightarrow> uuid \<Rightarrow> nat \<Rightarrow> drafted_answer \<Rightarrow> draft_response" where
  "new_draft env i version a =
     \<lparr>dr_id = wb_new_id env, dr_requirement_id = i, dr_content = da_answer_text a, dr_version = version,
      dr_status = ''draft'', dr_confidence = da_confidence a, dr_needs_evidence = da_needs_evidence a,
      dr_assumptions = da_assumptions a, dr_approved_by_id = None\<rparr>"

definition set_status :: "string \<Rightarrow> requirement \<Rightarrow> requirement" where
  "set_status st r = r\<lparr>rq_status := st\<rparr>"

definition set_draft_status :: "string \<Rightarrow> draft_response \<Rightarrow> draft_response" where
  "set_draft_status st x = x\<lparr>dr_status := st\<rparr>"

definition draft_requirement_response :: "web_env \<Rightarrow> provider \<Rightarrow> uuid \<Rightarrow> action" where
  "draft_requirement_response env provider i =
     for_requirement env i (\<lambda>org usr r s1.
       case provider (rq_original_text r) (links_of (work s1) i) of
         None \<Rightarrow> (Inl (OtherException ''LLMError''), s1)
       | Some a \<Rightarrow>
           let x = new_draft env i (next_version (work s1) i) a;
               s2 = s1\<lparr>work := (work s1)\<lparr>draft_responses := draft_responses (work s1) @ [x]\<rparr>\<rparr>;
               s3 = commit (change_requirement i
                      (set_status (if da_needs_evidence a then ''NEEDS_EVIDENCE'' else ''DRAFTED'')) s2)
           in (Inr (ToWorkspace i None), log_audit_event (web_event org usr ''draft_generate'' ''DraftResponse''
                 (dr_id x) [''requirement_id'' \<mapsto> JId i, ''needs_evidence'' \<mapsto> JBool (da_needs_evidence a)]) s3))"

definition regenerate_draft_response :: "web_env \<Rightarrow> provider \<Rightarrow> uuid \<Rightarrow> action" where
  "regenerate_draft_response = draft_requirement_response"

text \<open>The routes that need a draft.\<close>

definition with_draft ::
  "uuid \<Rightarrow> (draft_response \<Rightarrow> action) \<Rightarrow> action" where
  "with_draft i route s =
     (case latest_draft (work s) i of
        None \<Rightarrow> (Inl (HTTPException 404 ''Draft not found''), s)
      | Some x \<Rightarrow> route x s)"

definition edit_draft_response :: "web_env \<Rightarrow> uuid \<Rightarrow> ustr \<Rightarrow> action" where
  "edit_draft_response env i content =
     for_requirement env i (\<lambda>org usr r. with_draft i (\<lambda>x s1.
       let s2 = commit (change_requirement i (set_status ''DRAFTED'')
                  (change_draft (dr_id x) (\<lambda>y. y\<lparr>dr_content := content\<rparr>) s1))
       in (Inr (ToWorkspace i None), log_audit_event (web_event org usr ''draft_edit'' ''DraftResponse'' (dr_id x)
             [''requirement_id'' \<mapsto> JId i]) s2)))"

section \<open>Approval\<close>

definition block_approval ::
  "uuid \<Rightarrow> uuid \<Rightarrow> uuid \<Rightarrow> draft_response \<Rightarrow> string \<Rightarrow> details \<Rightarrow> action" where
  "block_approval org usr i x warning details s =
     (Inr (ToWorkspace i (Some warning)),
      log_audit_event (web_event org usr ''draft_approve_blocked'' ''DraftResponse'' (dr_id x) details)
        (commit (change_requirement i (set_status ''NEEDS_REVIEW'')
           (change_draft (dr_id x) (set_draft_status ''needs_review'') s))))"

definition approve_draft :: "uuid \<Rightarrow> uuid \<Rightarrow> uuid \<Rightarrow> draft_response \<Rightarrow> action" where
  "approve_draft org usr i x s =
     (Inr (ToWorkspace i None),
      log_audit_event (web_event org usr ''REVIEW_APPROVED'' ''Requirement'' i [''draft_response_id'' \<mapsto> JId (dr_id x)])
        (log_audit_event (web_event org usr ''draft_approve'' ''DraftResponse'' (dr_id x) [''requirement_id'' \<mapsto> JId i])
          (commit (change_requirement i (set_status ''APPROVED'')
             (change_draft (dr_id x) (\<lambda>y. y\<lparr>dr_status := ''approved'', dr_approved_by_id := Some usr\<rparr>) s)))))"

definition grounding_of :: "web_env \<Rightarrow> db \<Rightarrow> uuid \<Rightarrow> draft_response \<Rightarrow> grounding_result" where
  "grounding_of env d i x = validate_draft_grounding (wb_casefold env) claim_support_threshold (dr_content x)
     (map el_snippet (links_of d i))"

definition approve_draft_response :: "web_env \<Rightarrow> uuid \<Rightarrow> action" where
  "approve_draft_response env i =
     for_requirement env i (\<lambda>org usr r. with_draft i (\<lambda>x s1.
       let links = links_of (work s1) i; g = grounding_of env (work s1) i x in
       if rq_mandatory r \<and> links = []
       then block_approval org usr i x ''warning=mandatory_requirement_needs_evidence''
              [''requirement_id'' \<mapsto> JId i, ''reason'' \<mapsto> JStr ''mandatory_requirement_no_evidence''] s1
       else if \<not> gr_passes g \<and> links \<noteq> []
       then block_approval org usr i x ''warning=unsupported_claims''
              [''requirement_id'' \<mapsto> JId i, ''reason'' \<mapsto> JStr ''unsupported_claims'',
               ''unsupported_count'' \<mapsto> JInt (int (length (gr_unsupported_claims g))),
               ''grounding_pass_rate'' \<mapsto> JRat (gr_pass_rate g)] s1
       else approve_draft org usr i x s1))"

section \<open>Rejection, review and comments\<close>

definition new_comment :: "web_env \<Rightarrow> uuid \<Rightarrow> uuid \<Rightarrow> ustr \<Rightarrow> string \<Rightarrow> requirement_comment" where
  "new_comment env i usr content decision =
     \<lparr>rc_id = wb_new_id env, rc_requirement_id = i, rc_author_user_id = usr, rc_content = content,
      rc_decision_type = decision\<rparr>"

definition reject_draft_response :: "web_env \<Rightarrow> uuid \<Rightarrow> ustr option \<Rightarrow> action" where
  "reject_draft_response env i reason =
     for_requirement env i (\<lambda>org usr r. with_draft i (\<lambda>x s1.
       let s2 = change_requirement i (set_status ''REJECTED'')
                  (change_draft (dr_id x) (set_draft_status ''rejected'') s1);
           reason_text = (case reason of None \<Rightarrow> [] | Some t \<Rightarrow> strip t);
           s3 = commit (if reason_text \<noteq> [] then add_comment (new_comment env i usr reason_text ''REJECTED'') s2 else s2)
       in (Inr (ToWorkspace i None),
           log_audit_event (web_event org usr ''REVIEW_REJECTED'' ''Requirement'' i
               [''reason'' \<mapsto> JText (if reason_text = [] then uni ''No reason provided'' else reason_text)])
             (log_audit_event (web_event org usr ''draft_reject'' ''DraftResponse'' (dr_id x)
               [''requirement_id'' \<mapsto> JId i]) s3))))"

text \<open>Whom a requirement is routed to: nobody, a user of the organization, or just a name.\<close>

definition review_target ::
  "web_env \<Rightarrow> uuid \<Rightarrow> string option \<Rightarrow> ustr option \<Rightarrow> db \<Rightarrow> exc + uuid option \<times> ustr option" where
  "review_target env org assigned_to reviewer_name d =
     (if assigned_to \<notin> {None, Some [], Some ''unassign''}
      then (case wb_parse env (the assigned_to) of
              None \<Rightarrow> Inl (HTTPException 400 ''Invalid user ID format'')
            | Some k \<Rightarrow>
                (case users d k of
                   None \<Rightarrow> Inl (HTTPException 404 ''User not found'')
                 | Some u \<Rightarrow> if us_organization_id u \<noteq> org then Inl (HTTPException 404 ''User not found'')
                             else Inr (Some (us_id u), Some (us_full_name u))))
      else if reviewer_name \<notin> {None, Some []} then Inr (None, reviewer_name)
      else Inr (None, None))"

definition routed :: "uuid \<Rightarrow> time \<Rightarrow> uuid option \<Rightarrow> ustr option \<Rightarrow> requirement \<Rightarrow> requirement" where
  "routed usr now target nm r =
     r\<lparr>rq_assigned_to_user_id := target, rq_assigned_by_user_id := Some usr,
       rq_assigned_at := (if target = None then None else Some now), rq_owner_name := nm,
       rq_status := ''NEEDS_REVIEW''\<rparr>"

definition jtext :: "ustr option \<Rightarrow> jval" where
  "jtext t = (case t of None \<Rightarrow> JNull | Some x \<Rightarrow> JText x)"

definition assign_requirement_reviewer ::
  "web_env \<Rightarrow> uuid \<Rightarrow> string option \<Rightarrow> ustr option \<Rightarrow> action" where
  "assign_requirement_reviewer env i assigned_to reviewer_name =
     for_requirement env i (\<lambda>org usr r s1.
       case review_target env org assigned_to reviewer_name (work s1) of
         Inl e \<Rightarrow> (Inl e, s1)
       | Inr (target, nm) \<Rightarrow>
           let t = \<lparr>rt_id = wb_new_id env, rt_requirement_id = i, rt_assigned_to_id = target,
                    rt_reviewer_notes = uni ''Routed to ''
                      @ (case nm of None \<Rightarrow> uni ''unassigned'' | Some x \<Rightarrow> if x = [] then uni ''unassigned'' else x)
                      @ uni '' for review.'', rt_status = ''open''\<rparr>;
               s2 = change_requirement i (routed usr (wb_now env) target nm) s1;
               s3 = commit (s2\<lparr>work := (work s2)\<lparr>routing_tasks := routing_tasks (work s2) @ [t]\<rparr>\<rparr>)
           in (Inr (ToWorkspace i None),
               log_audit_event (web_event org usr ''requirement_assign'' ''Requirement'' i
                   [''reviewer_name'' \<mapsto> jtext nm, ''review_task_id'' \<mapsto> JId (rt_id t)])
                 (log_audit_event (web_event org usr ''REVIEW_ASSIGNED'' ''Requirement'' i
                   [''reviewer_name'' \<mapsto> jtext nm,
                    ''reviewer_user_id'' \<mapsto> (case target of None \<Rightarrow> JNull | Some k \<Rightarrow> JId k),
                    ''review_task_id'' \<mapsto> JId (rt_id t)]) s3)))"

definition start_review_action :: "web_env \<Rightarrow> uuid \<Rightarrow> action" where
  "start_review_action env i =
     for_requirement env i (\<lambda>org usr r s1.
       (Inr (ToWorkspace i None), log_audit_event (web_event org usr ''REVIEW_STARTED'' ''Requirement'' i
            [''status'' \<mapsto> JStr ''IN_REVIEW''])
          (commit (change_requirement i (set_status ''IN_REVIEW'') s1))))"

definition max_comment_len :: nat where "max_comment_len = 4000"

text \<open>The status of the latest draft, if there is one, follows the review.\<close>

definition change_latest_draft :: "uuid \<Rightarrow> string \<Rightarrow> sess \<Rightarrow> sess" where
  "change_latest_draft i st s =
     (case latest_draft (work s) i of None \<Rightarrow> s | Some x \<Rightarrow> change_draft (dr_id x) (set_draft_status st) s)"

definition review_with_reason ::
  "web_env \<Rightarrow> uuid \<Rightarrow> ustr \<Rightarrow> string \<Rightarrow> string \<Rightarrow> string \<Rightarrow> action" where
  "review_with_reason env i reason status draft_status action =
     for_requirement env i (\<lambda>org usr r s1.
       if strip reason = [] then (Inl (HTTPException 400 ''Reason cannot be empty''), s1)
       else if length (strip reason) > max_comment_len then (Inl (HTTPException 400 ''Reason is too long''), s1)
       else
         let s2 = change_latest_draft i draft_status (change_requirement i (set_status status) s1);
             s3 = commit (add_comment (new_comment env i usr (strip reason) status) s2)
         in (Inr (ToWorkspace i None), log_audit_event (web_event org usr action ''Requirement'' i
               [''reason'' \<mapsto> JText (take 200 (strip reason))]) s3))"

definition request_changes_action :: "web_env \<Rightarrow> uuid \<Rightarrow> ustr \<Rightarrow> action" where
  "request_changes_action env i reason =
     review_with_reason env i reason ''CHANGES_REQUESTED'' ''changes_requested'' ''REVIEW_CHANGES_REQUESTED''"

definition reject_review_action :: "web_env \<Rightarrow> uuid \<Rightarrow> ustr \<Rightarrow> action" where
  "reject_review_action env i reason = review_with_reason env i reason ''REJECTED'' ''rejected'' ''REVIEW_REJECTED''"

definition reopen_review_action :: "web_env \<Rightarrow> uuid \<Rightarrow> action" where
  "reopen_review_action env i =
     for_requirement env i (\<lambda>org usr r s1.
       (Inr (ToWorkspace i None), log_audit_event (web_event org usr ''REVIEW_REOPENED'' ''Requirement'' i
            [''status'' \<mapsto> JStr ''NEEDS_REVIEW''])
          (commit (change_latest_draft i ''draft'' (change_requirement i (set_status ''NEEDS_REVIEW'') s1)))))"

definition add_comment_action :: "web_env \<Rightarrow> uuid \<Rightarrow> ustr \<Rightarrow> action" where
  "add_comment_action env i content =
     for_requirement env i (\<lambda>org usr r s1.
       if strip content = [] then (Inl (HTTPException 400 ''Comment cannot be empty''), s1)
       else if length (strip content) > max_comment_len then (Inl (HTTPException 400 ''Comment is too long''), s1)
       else
         let c = new_comment env i usr (strip content) ''NOTE''
         in (Inr (ToWorkspace i None), log_audit_event (web_event org usr ''REVIEW_NOTE_ADDED'' ''Requirement'' i
               [''comment_id'' \<mapsto> JId (rc_id c)]) (commit (add_comment c s1))))"

end
