(* ===== verification/Exports.thy ===== *)
theory Exports
  imports Answers
begin

text \<open>
  The read side of \<open>app/web/routes/compliance.py\<close> and \<open>app/services/retriever.py\<close>: the matrix
  and its filters, the retrieval of evidence, the reviewer queue, the decision routes, and the two
  exports as the values handed to xlsxwriter and python-docx. Rows are in the order of their
  creation; the full-text search of PostgreSQL is a parameter.
\<close>

section \<open>The order of the matrix\<close>

text \<open>\<open>ORDER BY source_page ASC, created_at ASC\<close>; on PostgreSQL a missing page comes last.\<close>

datatype page_key = OnPage int | NoPage

instantiation page_key :: linorder
begin

definition less_eq_page_key :: "page_key \<Rightarrow> page_key \<Rightarrow> bool" where
  "less_eq_page_key a b = (case (a, b) of (OnPage m, OnPage n) \<Rightarrow> m \<le> n | (_, NoPage) \<Rightarrow> True | _ \<Rightarrow> False)"

definition less_page_key :: "page_key \<Rightarrow> page_key \<Rightarrow> bool" where
  "less_page_key a b = (case (a, b) of (OnPage m, OnPage n) \<Rightarrow> m < n | (OnPage _, NoPage) \<Rightarrow> True | _ \<Rightarrow> False)"

instance
  by standard (auto simp: less_eq_page_key_def less_page_key_def split: page_key.splits)

end

definition page_key_of :: "requirement \<Rightarrow> page_key" where
  "page_key_of r = (case rq_source_page r of None \<Rightarrow> NoPage | Some n \<Rightarrow> OnPage n)"

definition matrix_order :: "requirement list \<Rightarrow> requirement list" where
  "matrix_order rs = sort_key page_key_of rs"

definition project_requirements :: "db \<Rightarrow> uuid \<Rightarrow> requirement list" where
  "project_requirements d proj = filter (\<lambda>r. rq_project_id r = proj) (requirements d)"

section \<open>The matrix page\<close>

record matrix_page =
  mx_requirements :: "requirement list"
  mx_total :: nat
  mx_assigned_to_me :: nat
  mx_unassigned :: nat
  mx_needs_evidence :: nat
  mx_needs_review :: nat
  mx_changes_requested :: nat
  mx_approved :: nat
  mx_rejected :: nat
  mx_is_overdue :: bool

definition count_where :: "('a \<Rightarrow> bool) \<Rightarrow> 'a list \<Rightarrow> nat" where
  "count_where P xs = length (filter P xs)"

definition matrix_filter :: "uuid \<Rightarrow> string \<Rightarrow> requirement \<Rightarrow> bool" where
  "matrix_filter usr f r \<longleftrightarrow>
     (if f = ''assigned_to_me'' then rq_assigned_to_user_id r = Some usr
      else if f = ''unassigned'' then rq_assigned_to_user_id r = None
      else if f = ''needs_evidence'' then rq_status r = ''NEEDS_EVIDENCE''
      else if f = ''needs_review'' then rq_status r = ''NEEDS_REVIEW''
      else if f = ''changes_requested'' then rq_status r = ''CHANGES_REQUESTED''
      else if f = ''approved'' then rq_status r = ''APPROVED''
      else if f = ''rejected'' then rq_status r = ''REJECTED''
      else True)"

definition matrix_page_of :: "uuid \<Rightarrow> time \<Rightarrow> string option \<Rightarrow> project \<Rightarrow> requirement list \<Rightarrow> matrix_page" where
  "matrix_page_of usr now f pr rs =
     \<lparr>mx_requirements = matrix_order (filter (matrix_filter usr (case f of None \<Rightarrow> [] | Some t \<Rightarrow> t)) rs),
      mx_total = length rs,
      mx_assigned_to_me = count_where (\<lambda>r. rq_assigned_to_user_id r = Some usr) rs,
      mx_unassigned = count_where (\<lambda>r. rq_assigned_to_user_id r = None) rs,
      mx_needs_evidence = count_where (\<lambda>r. rq_status r = ''NEEDS_EVIDENCE'') rs,
      mx_needs_review = count_where (\<lambda>r. rq_status r = ''NEEDS_REVIEW'') rs,
      mx_changes_requested = count_where (\<lambda>r. rq_status r = ''CHANGES_REQUESTED'') rs,
      mx_approved = count_where (\<lambda>r. rq_status r = ''APPROVED'') rs,
      mx_rejected = count_where (\<lambda>r. rq_status r = ''REJECTED'') rs,
      mx_is_overdue = (case pr_due_date pr of None \<Rightarrow> False | Some t \<Rightarrow> now > t)\<rparr>"

definition matrix_view :: "web_env \<Rightarrow> uuid \<Rightarrow> string option \<Rightarrow> sess \<Rightarrow> (exc + matrix_page) \<times> sess" where
  "matrix_view env proj f =
     for_project env proj (\<lambda>org usr pr s1.
       (Inr (matrix_page_of usr (wb_now env) f pr (project_requirements (work s1) proj)), s1))"

text \<open>The row of one requirement, to edit it or after a cancelled edit.\<close>

definition edit_requirement_row :: "web_env \<Rightarrow> uuid \<Rightarrow> sess \<Rightarrow> (exc + requirement) \<times> sess" where
  "edit_requirement_row env i = for_requirement env i (\<lambda>org usr r s1. (Inr r, s1))"

definition cancel_edit_row :: "web_env \<Rightarrow> uuid \<Rightarrow> sess \<Rightarrow> (exc + requirement) \<times> sess" where
  "cancel_edit_row env i = for_requirement env i (\<lambda>org usr r s1. (Inr r, s1))"

section \<open>Retrieval (retriever.py)\<close>

text \<open>
  \<open>matches\<close> is the \<open>@@\<close> operator and \<open>rank\<close> is \<open>ts_rank\<close>. Quotes and backslashes are removed
  from the query.
\<close>

record search =
  sh_matches :: "ustr \<Rightarrow> ustr \<Rightarrow> bool"
  sh_rank :: "ustr \<Rightarrow> ustr \<Rightarrow> rat"

record passage =
  ps_document_id :: uuid
  ps_document_name :: ustr
  ps_page_number :: int
  ps_snippet :: ustr
  ps_score :: rat

definition searchable :: "uuid \<Rightarrow> document \<Rightarrow> bool" where
  "searchable proj x \<longleftrightarrow> d_project_id x = proj \<and> d_doc_role x = ''knowledge_base''
     \<and> d_approval_status x = ''APPROVED'' \<and> d_processing_status x = ''completed''
     \<and> d_ingestion_status x = COMPLETED"

definition joined_pages :: "db \<Rightarrow> (document_page \<times> document) list" where
  "joined_pages d = concat (map (\<lambda>p. case documents d (pg_document_id p) of None \<Rightarrow> [] | Some x \<Rightarrow> [(p, x)]) (pages d))"

definition retrieve_evidence_postgresql ::
  "search \<Rightarrow> db \<Rightarrow> uuid \<Rightarrow> ustr \<Rightarrow> nat \<Rightarrow> (document_page \<times> document) list" where
  "retrieve_evidence_postgresql sh d proj q limit =
     take limit (sort_key (\<lambda>(p, x). - sh_rank sh (pg_content p) q)
       (filter (\<lambda>(p, x). searchable proj x \<and> sh_matches sh (pg_content p) q) (joined_pages d)))"

definition clean_query :: "ustr \<Rightarrow> ustr" where
  "clean_query q = strip (filter (\<lambda>c. c \<noteq> 39 \<and> c \<noteq> 92) (strip q))"

definition passage_of :: "search \<Rightarrow> ustr \<Rightarrow> document_page \<times> document \<Rightarrow> passage option" where
  "passage_of sh q row = (case row of (p, x) \<Rightarrow>
     let raw = strip (pg_content p) in
     if length raw < snippet_min_len then None
     else Some \<lparr>ps_document_id = d_id x, ps_document_name = d_name x, ps_page_number = pg_page_number p,
                ps_snippet = take snippet_max_len raw, ps_score = sh_rank sh (pg_content p) q\<rparr>)"

definition retrieve_evidence :: "search \<Rightarrow> db \<Rightarrow> uuid \<Rightarrow> ustr \<Rightarrow> nat \<Rightarrow> passage list" where
  "retrieve_evidence sh d proj query_text limit =
     (if strip query_text = [] \<or> clean_query query_text = [] then []
      else map the (filter (\<lambda>v. v \<noteq> None)
        (map (passage_of sh (clean_query query_text))
          (retrieve_evidence_postgresql sh d proj (clean_query query_text) limit))))"

section \<open>The workspace page\<close>

text \<open>\<open>str.split()\<close>.\<close>

function space_words :: "ustr \<Rightarrow> ustr list" where
  "space_words [] = []"
| "space_words (c # cs) =
     (if is_space c then space_words cs
      else (c # takeWhile (\<lambda>x. \<not> is_space x) cs) # space_words (dropWhile (\<lambda>x. \<not> is_space x) cs))"
  by pat_completeness auto

termination
  by (relation "measure length") (auto simp: le_imp_less_Suc length_dropWhile_le)

record workspace_page =
  wp_requirement :: requirement
  wp_project :: project
  wp_passages :: "passage list"
  wp_linked_evidence :: "evidence_link list"
  wp_draft :: "draft_response option"
  wp_search_query :: ustr
  wp_users :: "uuid set"
  wp_comments :: "requirement_comment list"
  wp_recent_audits :: "audit_event list"

definition requirement_workspace_view ::
  "web_env \<Rightarrow> search \<Rightarrow> uuid \<Rightarrow> ustr option \<Rightarrow> sess \<Rightarrow> (exc + workspace_page) \<times> sess" where
  "requirement_workspace_view env sh i q =
     for_requirement env i (\<lambda>org usr r s1.
       case get_project_for_org (wb_audit_ok env) (rq_project_id r) org s1 of
         (Inl e, s2) \<Rightarrow> (Inl e, s2)
       | (Inr pr, s2) \<Rightarrow>
           let d = work s2;
               query = (case q of Some t \<Rightarrow> t | None \<Rightarrow> join_text [32] (take 8 (space_words (rq_original_text r))))
           in (Inr \<lparr>wp_requirement = r, wp_project = pr,
                 wp_passages = retrieve_evidence sh d (rq_project_id r) query 5,
                 wp_linked_evidence = links_of d i, wp_draft = latest_draft d i, wp_search_query = query,
                 wp_users = {k. \<exists>u. users d k = Some u \<and> us_organization_id u = org},
                 wp_comments = rev (filter (\<lambda>c. rc_requirement_id c = i) (requirement_comments d)),
                 wp_recent_audits = take 10 (rev (filter (\<lambda>e. ev_entity_id e = i) (audit d)))\<rparr>, s2))"

section \<open>The reviewer queue\<close>

definition candidate_queue_page_size :: nat where "candidate_queue_page_size = 25"
definition candidate_evidence_excerpt_chars :: nat where "candidate_evidence_excerpt_chars = 300"

definition require_reviewer :: "web_env \<Rightarrow> sess \<Rightarrow> (exc + uuid \<times> user) \<times> sess" where
  "require_reviewer env s =
     (case current_org_and_user env s of
        (Inl e, s1) \<Rightarrow> (Inl e, s1)
      | (Inr (org, usr), s1) \<Rightarrow>
          (case require_requirement_reviewer (work s1) usr org of
             Inl e \<Rightarrow> (Inl e, s1) | Inr u \<Rightarrow> (Inr (org, u), s1)))"

definition open_candidates :: "db \<Rightarrow> uuid \<Rightarrow> (candidate \<times> review_task) list" where
  "open_candidates d org =
     filter (\<lambda>(c, t). tk_candidate_id t = cd_id c \<and> cd_organization_id c = org \<and> tk_organization_id t = org
         \<and> cd_candidate_status c = PROPOSED \<and> tk_status t = TASK_OPEN)
       (List.product (candidates d) (tasks d))"

definition excerpt :: "ustr \<Rightarrow> nat \<Rightarrow> ustr" where
  "excerpt t limit =
     (let collapsed = join_text [32] (space_words t) in
      if length collapsed \<le> limit then collapsed else rstrip (take limit collapsed) @ [8230])"

record queue_item =
  qi_candidate_id :: uuid
  qi_project_id :: uuid
  qi_project_name :: "ustr option"
  qi_requirement_text :: ustr
  qi_evidence_excerpt :: ustr

record queue_page =
  qp_items :: "queue_item list"
  qp_page :: int
  qp_has_next :: bool
  qp_has_prev :: bool

definition queue_item_of :: "db \<Rightarrow> uuid \<Rightarrow> candidate \<Rightarrow> queue_item" where
  "queue_item_of d org c =
     \<lparr>qi_candidate_id = cd_id c, qi_project_id = cd_project_id c,
      qi_project_name = (case projects d (cd_project_id c) of None \<Rightarrow> None
        | Some p \<Rightarrow> if pr_organization_id p = org then Some (pr_name p) else None),
      qi_requirement_text = cd_normalized_requirement_text c,
      qi_evidence_excerpt = excerpt (cd_evidence_text c) candidate_evidence_excerpt_chars\<rparr>"

definition queue_page_of :: "db \<Rightarrow> uuid \<Rightarrow> int \<Rightarrow> (candidate \<times> review_task) list \<Rightarrow> queue_page" where
  "queue_page_of d org page open_work =
     (let n = max 1 page;
          fetched = take (candidate_queue_page_size + 1) (drop (nat (n - 1) * candidate_queue_page_size) open_work)
      in \<lparr>qp_items = map (queue_item_of d org \<circ> fst) (take candidate_queue_page_size fetched), qp_page = n,
          qp_has_next = (length fetched > candidate_queue_page_size), qp_has_prev = (n > 1)\<rparr>)"

definition requirement_candidate_queue ::
  "web_env \<Rightarrow> int \<Rightarrow> string option \<Rightarrow> sess \<Rightarrow> (exc + queue_page) \<times> sess" where
  "requirement_candidate_queue env page project_text s =
     (case require_reviewer env s of
        (Inl e, s1) \<Rightarrow> (Inl e, s1)
      | (Inr (org, u), s1) \<Rightarrow>
          let open_work = open_candidates (work s1) org in
          if project_text \<in> {None, Some []} then (Inr (queue_page_of (work s1) org page open_work), s1)
          else
            (case wb_parse env (the project_text) of
               None \<Rightarrow> (Inl (HTTPException 400 ''Invalid project id''), s1)
             | Some k \<Rightarrow>
                 if \<not> belongs_to (work s1) k org then (Inl (HTTPException 404 ''Not found''), s1)
                 else (Inr (queue_page_of (work s1) org page (filter (\<lambda>(c, t). cd_project_id c = k) open_work)), s1)))"

record candidate_detail =
  ca_candidate :: candidate
  ca_task :: "review_task option"
  ca_run :: "extraction_run option"
  ca_is_open :: bool
  ca_promoted_requirement_id :: "uuid option"

definition requirement_candidate_detail :: "web_env \<Rightarrow> uuid \<Rightarrow> sess \<Rightarrow> (exc + candidate_detail) \<times> sess" where
  "requirement_candidate_detail env i s =
     (case require_reviewer env s of
        (Inl e, s1) \<Rightarrow> (Inl e, s1)
      | (Inr (org, u), s1) \<Rightarrow>
          (case find (\<lambda>c. cd_id c = i \<and> cd_organization_id c = org) (candidates (work s1)) of
             None \<Rightarrow> (Inl (HTTPException 404 ''Not found''), s1)
           | Some c \<Rightarrow>
               (Inr \<lparr>ca_candidate = c,
                  ca_task = find (\<lambda>t. tk_candidate_id t = cd_id c \<and> tk_organization_id t = org) (tasks (work s1)),
                  ca_run = find (\<lambda>r. run_id r = cd_extraction_run_id c) (runs (work s1)),
                  ca_is_open = (cd_candidate_status c = PROPOSED),
                  ca_promoted_requirement_id = map_option rq_id
                    (find (\<lambda>r. rq_source_candidate_id r = Some (cd_id c)) (requirements (work s1)))\<rparr>, s1)))"

section \<open>Decisions\<close>

datatype review_reply = ReviewRecorded uuid candidate_status | ToQueue

definition review_error :: "exc \<Rightarrow> exc" where
  "review_error e = (case e of
     CandidateReviewError code \<Rightarrow>
       if code = ''REVIEW_NOT_FOUND'' then HTTPException 404 ''Not found''
       else if code = ''REVIEW_CONFLICT'' \<or> code = ''REVIEW_ALREADY_DECIDED''
       then HTTPException 409 ''Candidate has already been reviewed''
       else HTTPException 400 code
   | _ \<Rightarrow> e)"

definition review_candidate_action ::
  "(bytes \<Rightarrow> string) \<Rightarrow> review_env \<Rightarrow> web_env \<Rightarrow> bool \<Rightarrow> uuid \<Rightarrow> decision \<Rightarrow> ustr option \<Rightarrow> ustr option
    \<Rightarrow> sess \<Rightarrow> (exc + review_reply) \<times> sess" where
  "review_candidate_action H renv env htmx i dec edited comment s =
     (case current_org_and_user env s of
        (Inl e, s1) \<Rightarrow> (Inl e, s1)
      | (Inr (org, usr), s1) \<Rightarrow>
          (case review_requirement_candidate H renv i usr org dec edited comment s1 of
             (Inl e, s2) \<Rightarrow> (Inl (review_error e), s2)
           | (Inr r, s2) \<Rightarrow>
               (Inr (if htmx then ReviewRecorded (rr_candidate_id r) (rr_candidate_status r) else ToQueue), s2)))"

definition approve_requirement_candidate ::
  "(bytes \<Rightarrow> string) \<Rightarrow> review_env \<Rightarrow> web_env \<Rightarrow> bool \<Rightarrow> uuid \<Rightarrow> ustr option \<Rightarrow> sess \<Rightarrow> (exc + review_reply) \<times> sess" where
  "approve_requirement_candidate H renv env htmx i comment =
     review_candidate_action H renv env htmx i Approve None comment"

definition edit_requirement_candidate ::
  "(bytes \<Rightarrow> string) \<Rightarrow> review_env \<Rightarrow> web_env \<Rightarrow> bool \<Rightarrow> uuid \<Rightarrow> ustr \<Rightarrow> ustr option \<Rightarrow> sess
    \<Rightarrow> (exc + review_reply) \<times> sess" where
  "edit_requirement_candidate H renv env htmx i edited comment =
     review_candidate_action H renv env htmx i Edit (Some edited) comment"

definition reject_requirement_candidate ::
  "(bytes \<Rightarrow> string) \<Rightarrow> review_env \<Rightarrow> web_env \<Rightarrow> bool \<Rightarrow> uuid \<Rightarrow> ustr option \<Rightarrow> sess \<Rightarrow> (exc + review_reply) \<times> sess" where
  "reject_requirement_candidate H renv env htmx i comment =
     review_candidate_action H renv env htmx i Reject None comment"

section \<open>Exports\<close>

text \<open>The cells \<open>worksheet.write\<close> gets, row by row; \<open>shown\<close> is \<open>str\<close> of an identifier.\<close>

datatype sheet_cell = TextCell ustr | NumberCell int

definition text_cell :: "ustr option \<Rightarrow> sheet_cell" where
  "text_cell t = TextCell (case t of None \<Rightarrow> [] | Some x \<Rightarrow> x)"

definition matrix_headers :: "sheet_cell list" where
  "matrix_headers = map (TextCell \<circ> uni) [''Requirement ID'', ''Source Section'', ''Source Page'', ''Requirement Text'',
     ''Type'', ''Mandatory'', ''Status'', ''Owner'', ''Proposal Section'', ''Risk Level'']"

definition matrix_cells :: "(uuid \<Rightarrow> ustr) \<Rightarrow> requirement \<Rightarrow> sheet_cell list" where
  "matrix_cells shown r =
     [TextCell (shown (rq_id r)), text_cell (rq_source_section r),
      (case rq_source_page r of None \<Rightarrow> TextCell [] | Some n \<Rightarrow> if n = 0 then TextCell [] else NumberCell n),
      TextCell (rq_original_text r), text_cell (map_option uni (rq_requirement_type r)),
      TextCell (uni (if rq_mandatory r then ''YES'' else ''NO'')), TextCell (uni (rq_status r)),
      text_cell (rq_owner_name r), text_cell (rq_proposal_section r), text_cell (map_option uni (rq_risk_level r))]"

definition export_compliance_matrix ::
  "web_env \<Rightarrow> (uuid \<Rightarrow> ustr) \<Rightarrow> uuid \<Rightarrow> sess \<Rightarrow> (exc + sheet_cell list list) \<times> sess" where
  "export_compliance_matrix env shown proj =
     for_project env proj (\<lambda>org usr pr s1.
       let s2 = log_audit_event (web_event org usr ''EXPORT_COMPLIANCE_MATRIX'' ''Project'' proj
                  [''format'' \<mapsto> JStr ''xlsx'']) s1
       in (Inr (matrix_headers # map (matrix_cells shown) (matrix_order (project_requirements (work s2) proj))), s2))"

text \<open>The headings and paragraphs of the proposal document.\<close>

datatype block = Heading ustr nat | Paragraph ustr | PageBreak

definition citation :: "(uuid \<Rightarrow> ustr) \<Rightarrow> db \<Rightarrow> evidence_link \<Rightarrow> ustr" where
  "citation shown d l =
     uni ''[Source: ''
     @ (case documents d (el_document_id l) of None \<Rightarrow> shown (el_document_id l) | Some x \<Rightarrow> d_name x)
     @ (case el_page_number l of None \<Rightarrow> [] | Some n \<Rightarrow> if n = 0 then [] else uni ('', Page '' @ show_int n))
     @ uni ''] ''
     @ (if length (el_snippet l) > 200 then take 200 (el_snippet l) @ uni ''...'' else el_snippet l)"

definition section_title :: "requirement \<Rightarrow> ustr" where
  "section_title r = uni ''Requirement: '' @ (case rq_source_section r of None \<Rightarrow> uni ''General''
     | Some t \<Rightarrow> if t = [] then uni ''General'' else t)"

definition evidence_blocks :: "(uuid \<Rightarrow> ustr) \<Rightarrow> db \<Rightarrow> uuid \<Rightarrow> block list" where
  "evidence_blocks shown d i =
     (if links_of d i = [] then []
      else Heading (uni ''Evidence Sources'') 3 # map (Paragraph \<circ> citation shown d) (links_of d i))"

definition approved_answer :: "db \<Rightarrow> requirement \<Rightarrow> draft_response option" where
  "approved_answer d r =
     (case latest_draft d (rq_id r) of None \<Rightarrow> None
      | Some x \<Rightarrow> if dr_status x = ''approved'' then Some x else None)"

definition status_label :: "requirement \<Rightarrow> ustr" where
  "status_label r =
     (if rq_status r \<in> {''NEEDS_REVIEW'', ''CHANGES_REQUESTED'', ''REJECTED'', ''NEEDS_EVIDENCE''}
      then uni ('' ['' @ rq_status r @ '']'') else uni '' [NOT STARTED]'')"

definition requirement_blocks :: "(uuid \<Rightarrow> ustr) \<Rightarrow> db \<Rightarrow> requirement \<Rightarrow> block list" where
  "requirement_blocks shown d r =
     (case approved_answer d r of
        Some x \<Rightarrow> [Heading (section_title r) 1, Paragraph (rq_original_text r), Heading (uni ''Answer Response'') 2,
                   Paragraph (dr_content x)] @ evidence_blocks shown d (rq_id r) @ [Paragraph []]
      | None \<Rightarrow> [Heading (section_title r @ status_label r) 1, Paragraph (rq_original_text r),
                 Heading (uni ''Answer Response (Not Approved)'') 2, Paragraph (uni ''No response approved yet.''),
                 Paragraph []])"

definition proposal_blocks :: "(uuid \<Rightarrow> ustr) \<Rightarrow> ustr \<Rightarrow> db \<Rightarrow> project \<Rightarrow> block list" where
  "proposal_blocks shown today d pr =
     (let rs = matrix_order (project_requirements d (pr_id pr)) in
      [Heading (uni ''Proposal Response Draft: '' @ pr_name pr) 0, Paragraph (uni ''Client: '' @ pr_client_name pr),
       Paragraph (uni ''Date generated: '' @ today), PageBreak]
      @ concat (map (requirement_blocks shown d) rs)
      @ (if list_ex (\<lambda>r. approved_answer d r \<noteq> None) rs then []
         else [Paragraph (uni ''No approved answers available for export.'')]))"

definition export_proposal_docx ::
  "web_env \<Rightarrow> (uuid \<Rightarrow> ustr) \<Rightarrow> ustr \<Rightarrow> uuid \<Rightarrow> sess \<Rightarrow> (exc + block list) \<times> sess" where
  "export_proposal_docx env shown today proj =
     for_project env proj (\<lambda>org usr pr s1.
       let s2 = log_audit_event (web_event org usr ''EXPORT_PROPOSAL_DOCX'' ''Project'' proj
                  [''format'' \<mapsto> JStr ''docx'']) s1
       in (Inr (proposal_blocks shown today (work s2) pr), s2))"

section \<open>Retrieved passages can be linked\<close>

end
