(* ===== verification/Clamav.thy ===== *)
theory Clamav
  imports Bytes
begin

text \<open>
  \<open>app/services/clamav_client.py\<close>: the INSTREAM, PING and VERSION exchanges with clamd.
  One connection is a \<open>peer\<close>: whether connecting fails, which \<open>sendall\<close> calls fail, and
  what each \<open>recv\<close> call returns (an empty list is a closed connection). The definitions
  return the bytes put on the wire beside the verdict, so that framing can be stated.
\<close>

datatype io_exc = TimeoutError | OSError

record peer =
  pe_connect :: "io_exc option"
  pe_send :: "nat \<Rightarrow> io_exc option"
  pe_recv :: "(io_exc + bytes) list"

record local_file =
  lf_open_fails :: bool
  lf_read_fails :: "nat \<Rightarrow> bool"
  lf_content :: bytes

datatype scan_outcome =
    SO_CLEAN | SO_FOUND | SO_ERROR | SO_UNAVAILABLE | SO_TIMEOUT | SO_PROTOCOL_ERROR
  | SO_SIZE_LIMIT_EXCEEDED

record scan_result =
  sr_outcome :: scan_outcome
  sr_signature_name :: "ustr option"
  sr_engine_version :: "ustr option"
  sr_signature_version :: "ustr option"

record version_info =
  vi_raw :: ustr
  vi_engine_version :: "ustr option"
  vi_signature_version :: "ustr option"
  vi_signature_timestamp :: "time option"

definition empty_result :: "scan_outcome \<Rightarrow> scan_result" where
  "empty_result oc = \<lparr>sr_outcome = oc, sr_signature_name = None, sr_engine_version = None,
     sr_signature_version = None\<rparr>"

lemma empty_result_simps [simp]:
  "sr_outcome (empty_result oc) = oc" "sr_signature_name (empty_result oc) = None"
  "sr_engine_version (empty_result oc) = None" "sr_signature_version (empty_result oc) = None"
  by (simp_all add: empty_result_def)

section \<open>Wire constants\<close>

definition instream_command :: bytes where "instream_command = uni ''zINSTREAM'' @ [0]"
definition ping_command :: bytes where "ping_command = uni ''zPING'' @ [0]"
definition version_command :: bytes where "version_command = uni ''nVERSION'' @ [10]"
definition zero_chunk :: bytes where "zero_chunk = [0, 0, 0, 0]"
definition recv_buffer_bytes :: nat where "recv_buffer_bytes = 4096"
definition max_response_bytes :: nat where "max_response_bytes = 8192"
definition stream_ok :: ustr where "stream_ok = uni ''stream: OK''"
definition stream_prefix :: ustr where "stream_prefix = uni ''stream: ''"
definition found_suffix :: ustr where "found_suffix = uni '' FOUND''"
definition error_suffix :: ustr where "error_suffix = uni '' ERROR''"

section \<open>Reading a reply\<close>

text \<open>\<open>_read_until\<close>: one list element per \<open>recv\<close> call, of which at most the buffer size is
  returned.\<close>

fun read_until :: "nat \<Rightarrow> bytes \<Rightarrow> (io_exc + bytes) list \<Rightarrow> io_exc + bytes" where
  "read_until trm acc rs =
     (if trm \<in> set acc then Inr acc
      else case rs of
          [] \<Rightarrow> Inr acc
        | Inl e # _ \<Rightarrow> Inl e
        | Inr c # rest \<Rightarrow>
            (let chunk = take recv_buffer_bytes c in
             if chunk = [] then Inr acc
             else let acc' = acc @ chunk in
               if length acc' > max_response_bytes then Inr acc'
               else read_until trm acc' rest))"

declare read_until.simps [simp del]

lemma read_until_bounded:
  "read_until trm acc rs = Inr out \<Longrightarrow> length acc \<le> max_response_bytes \<Longrightarrow>
   length out \<le> max_response_bytes + recv_buffer_bytes"
proof (induction trm acc rs rule: read_until.induct)
  case (1 trm acc rs)
  from "1.prems" show ?case
    by (subst (asm) read_until.simps)
       (use "1.IH" in \<open>auto simp: Let_def not_less split: if_splits list.splits sum.splits\<close>)
qed

section \<open>scan\_stream\<close>

text \<open>How the loop over the file ends: a failed read, a failed \<open>sendall\<close>, the limit passed,
  or the end of the file; with what has been sent and how many \<open>sendall\<close> calls were made.\<close>

datatype stream_end =
    ReadFailed bytes
  | SendFailed io_exc bytes
  | LimitPassed bytes nat
  | StreamDone bytes nat

function send_chunks ::
  "peer \<Rightarrow> local_file \<Rightarrow> nat \<Rightarrow> nat \<Rightarrow> nat \<Rightarrow> nat \<Rightarrow> bytes \<Rightarrow> bytes \<Rightarrow> stream_end"
where
  "send_chunks p f chunk_size limit k sent wire rest =
     (if lf_read_fails f k then ReadFailed wire
      else
        let chunk = take chunk_size rest in
        if chunk = [] then StreamDone wire (Suc k)
        else
          let sent' = sent + length chunk in
          if sent' > limit then LimitPassed wire (Suc k)
          else case pe_send p (Suc k) of
              Some e \<Rightarrow> SendFailed e wire
            | None \<Rightarrow> send_chunks p f chunk_size limit (Suc k) sent'
                       (wire @ be32 (length chunk) @ chunk) (drop chunk_size rest))"
  by pat_completeness auto
termination
  by (relation "measure (\<lambda>(p, f, c, l, k, t, w, rest). length rest)") auto

declare send_chunks.simps [simp del]

definition decode_reply :: "bytes \<Rightarrow> ustr" where
  "decode_reply raw = strip (utf8_replace (takeWhile (\<lambda>b. b \<noteq> 0) raw))"

definition judge_reply :: "ustr \<Rightarrow> scan_result" where
  "judge_reply response =
     (if response = stream_ok then empty_result SO_CLEAN
      else if starts_with stream_prefix response \<and> ends_with found_suffix response then
        (let name = strip (slice response (length stream_prefix)
                             (length response - length found_suffix))
         in \<lparr>sr_outcome = SO_FOUND, sr_signature_name = (if name = [] then None else Some name),
             sr_engine_version = None, sr_signature_version = None\<rparr>)
      else if starts_with stream_prefix response \<and> ends_with error_suffix response
        then empty_result SO_ERROR
      else empty_result SO_PROTOCOL_ERROR)"

definition io_failure :: "io_exc \<Rightarrow> scan_result" where
  "io_failure e = empty_result (case e of TimeoutError \<Rightarrow> SO_TIMEOUT | OSError \<Rightarrow> SO_UNAVAILABLE)"

definition scan_stream :: "peer \<Rightarrow> local_file \<Rightarrow> nat \<Rightarrow> nat \<Rightarrow> scan_result \<times> bytes" where
  "scan_stream p f chunk_size limit =
     (case pe_connect p of Some e \<Rightarrow> (io_failure e, [])
      | None \<Rightarrow>
        (case pe_send p 0 of Some e \<Rightarrow> (io_failure e, [])
         | None \<Rightarrow>
           if lf_open_fails f then (empty_result SO_UNAVAILABLE, instream_command)
           else
             (case send_chunks p f chunk_size limit 0 0 instream_command (lf_content f) of
               ReadFailed wire \<Rightarrow> (empty_result SO_UNAVAILABLE, wire)
             | SendFailed e wire \<Rightarrow> (io_failure e, wire)
             | LimitPassed wire k \<Rightarrow>
                 (case pe_send p k of Some e \<Rightarrow> (io_failure e, wire)
                  | None \<Rightarrow> (empty_result SO_SIZE_LIMIT_EXCEEDED, wire @ zero_chunk))
             | StreamDone wire k \<Rightarrow>
                 (case pe_send p k of Some e \<Rightarrow> (io_failure e, wire)
                  | None \<Rightarrow>
                    (case read_until 0 [] (pe_recv p) of
                       Inl e \<Rightarrow> (io_failure e, wire @ zero_chunk)
                     | Inr raw \<Rightarrow> (judge_reply (decode_reply raw), wire @ zero_chunk))))))"

section \<open>check\_connectivity\<close>

definition ascii_replace :: "bytes \<Rightarrow> ustr" where
  "ascii_replace bs = map (\<lambda>b. if b < 128 then b else 65533) bs"

definition check_connectivity :: "peer \<Rightarrow> bool" where
  "check_connectivity p =
     (case pe_connect p of Some _ \<Rightarrow> False
      | None \<Rightarrow> (case pe_send p 0 of Some _ \<Rightarrow> False
        | None \<Rightarrow> (case read_until 0 [] (pe_recv p) of Inl _ \<Rightarrow> False
          | Inr raw \<Rightarrow> strip (ascii_replace (takeWhile (\<lambda>b. b \<noteq> 0) raw)) = uni ''PONG'')))"


section \<open>The VERSION line\<close>

text \<open>
  \<open>_VERSION_LINE_RE\<close>: the shortest non-empty engine part such that a slash, a non-empty
  slash-free signature part, a slash and a non-empty rest follow; neither the engine part nor
  the rest may hold a line feed, except one at the very end.
\<close>

definition no_newline :: "ustr \<Rightarrow> bool" where
  "no_newline s \<longleftrightarrow> 10 \<notin> set s"

definition chop_final_newline :: "ustr \<Rightarrow> ustr" where
  "chop_final_newline s = (if s \<noteq> [] \<and> last s = 10 then butlast s else s)"

definition split_version_at :: "ustr \<Rightarrow> nat \<Rightarrow> (ustr \<times> ustr \<times> ustr) option" where
  "split_version_at s i =
     (let rest = drop (Suc i) s;
          sig = takeWhile (\<lambda>c. c \<noteq> 47) rest;
          after = dropWhile (\<lambda>c. c \<noteq> 47) rest;
          ts = chop_final_newline (tl after)
      in if s ! i = 47 \<and> no_newline (take i s) \<and> sig \<noteq> [] \<and> after \<noteq> [] \<and> ts \<noteq> [] \<and> no_newline ts
         then Some (take i s, sig, ts) else None)"

definition match_version_line :: "ustr \<Rightarrow> (ustr \<times> ustr \<times> ustr) option" where
  "match_version_line s =
     (case find (\<lambda>i. split_version_at s i \<noteq> None) [1..<length s] of
        None \<Rightarrow> None | Some i \<Rightarrow> split_version_at s i)"

text \<open>
  \<open>_VERSION_TIMESTAMP_RE\<close>, as a left-to-right scan. \<open>dv\<close> gives the value of a decimal
  digit character (\<open>\\d\<close> and \<open>int\<close> accept every Unicode decimal digit).
\<close>

definition is_letter :: "nat \<Rightarrow> bool" where
  "is_letter c \<longleftrightarrow> (65 \<le> c \<and> c \<le> 90) \<or> (97 \<le> c \<and> c \<le> 122)"

definition take_letters3 :: "ustr \<Rightarrow> (ustr \<times> ustr) option" where
  "take_letters3 s =
     (if 3 \<le> length s \<and> (\<forall>c \<in> set (take 3 s). is_letter c) then Some (take 3 s, drop 3 s) else None)"

definition take_spaces :: "ustr \<Rightarrow> ustr option" where
  "take_spaces s = (if s \<noteq> [] \<and> is_space (hd s) then Some (dropWhile is_space s) else None)"

definition take_char :: "nat \<Rightarrow> ustr \<Rightarrow> ustr option" where
  "take_char c s = (if s \<noteq> [] \<and> hd s = c then Some (tl s) else None)"

text \<open>A maximal run of digits whose length lies between the bounds, and its value.\<close>

definition take_number ::
  "(nat \<Rightarrow> nat option) \<Rightarrow> nat \<Rightarrow> nat \<Rightarrow> ustr \<Rightarrow> (nat \<times> ustr) option" where
  "take_number dv lo hi s =
     (let ds = takeWhile (\<lambda>c. dv c \<noteq> None) s in
      if lo \<le> length ds \<and> length ds \<le> hi
      then Some (foldl (\<lambda>a c. 10 * a + the (dv c)) 0 ds, drop (length ds) s)
      else None)"

definition match_timestamp ::
  "(nat \<Rightarrow> nat option) \<Rightarrow> ustr \<Rightarrow> (ustr \<times> nat \<times> nat \<times> nat \<times> nat \<times> nat) option" where
  "match_timestamp dv s =
     Option.bind (take_letters3 s) (\<lambda>(_, s1). Option.bind (take_spaces s1) (\<lambda>s2.
     Option.bind (take_letters3 s2) (\<lambda>(mon, s3). Option.bind (take_spaces s3) (\<lambda>s4.
     Option.bind (take_number dv 1 2 s4) (\<lambda>(dy, s5). Option.bind (take_spaces s5) (\<lambda>s6.
     Option.bind (take_number dv 1 2 s6) (\<lambda>(hr, s7). Option.bind (take_char 58 s7) (\<lambda>s8.
     Option.bind (take_number dv 2 2 s8) (\<lambda>(mi, s9). Option.bind (take_char 58 s9) (\<lambda>s10.
     Option.bind (take_number dv 2 2 s10) (\<lambda>(sc, s11). Option.bind (take_spaces s11) (\<lambda>s12.
     Option.bind (take_number dv 4 4 s12) (\<lambda>(yr, s13).
       if s13 = [] then Some (mon, dy, hr, mi, sc, yr) else None)))))))))))))"

definition month_abbreviations :: "(ustr \<times> nat) list" where
  "month_abbreviations =
     [(uni ''Jan'', 1), (uni ''Feb'', 2), (uni ''Mar'', 3), (uni ''Apr'', 4), (uni ''May'', 5),
      (uni ''Jun'', 6), (uni ''Jul'', 7), (uni ''Aug'', 8), (uni ''Sep'', 9), (uni ''Oct'', 10),
      (uni ''Nov'', 11), (uni ''Dec'', 12)]"

text \<open>
  The \<open>datetime\<close> constructor: \<open>ValueError\<close> outside the calendar, otherwise the instant in
  seconds (counted from the day before 0001-01-01, as \<open>date.toordinal\<close> counts days).
\<close>

definition is_leap :: "nat \<Rightarrow> bool" where
  "is_leap y \<longleftrightarrow> y mod 4 = 0 \<and> (y mod 100 \<noteq> 0 \<or> y mod 400 = 0)"

definition days_in_month :: "nat \<Rightarrow> nat \<Rightarrow> nat" where
  "days_in_month y m =
     (if m = 2 then (if is_leap y then 29 else 28) else if m \<in> {4, 6, 9, 11} then 30 else 31)"

definition day_ordinal :: "nat \<Rightarrow> nat \<Rightarrow> nat \<Rightarrow> nat" where
  "day_ordinal y m d =
     (let p = y - 1 in p * 365 + p div 4 - p div 100 + p div 400
        + sum_list (map (days_in_month y) [1..<m]) + d)"

definition mk_datetime :: "nat \<Rightarrow> nat \<Rightarrow> nat \<Rightarrow> nat \<Rightarrow> nat \<Rightarrow> nat \<Rightarrow> time option" where
  "mk_datetime y mo d h mi sc =
     (if 1 \<le> y \<and> y \<le> 9999 \<and> 1 \<le> mo \<and> mo \<le> 12 \<and> 1 \<le> d \<and> d \<le> days_in_month y mo
         \<and> h < 24 \<and> mi < 60 \<and> sc < 60
      then Some (int (day_ordinal y mo d) * 86400 + int h * 3600 + int mi * 60 + int sc)
      else None)"

definition parse_version_timestamp :: "(nat \<Rightarrow> nat option) \<Rightarrow> ustr \<Rightarrow> time option" where
  "parse_version_timestamp dv s =
     (case match_timestamp dv (strip s) of None \<Rightarrow> None
      | Some (mon, dy, hr, mi, sc, yr) \<Rightarrow>
          (case map_of month_abbreviations mon of None \<Rightarrow> None
           | Some mo \<Rightarrow> mk_datetime yr mo dy hr mi sc))"

definition split_engine :: "ustr \<Rightarrow> ustr option" where
  "split_engine e =
     (if 32 \<in> set e then Some (strip (tl (dropWhile (\<lambda>c. c \<noteq> 32) e)))
      else if e = [] then None else Some e)"

definition parse_version_line :: "(nat \<Rightarrow> nat option) \<Rightarrow> ustr \<Rightarrow> version_info option" where
  "parse_version_line dv raw =
     (case match_version_line raw of None \<Rightarrow> None
      | Some (engine, sig, ts) \<Rightarrow>
          Some \<lparr>vi_raw = raw, vi_engine_version = split_engine (strip engine),
                vi_signature_version = (if strip sig = [] then None else Some (strip sig)),
                vi_signature_timestamp = parse_version_timestamp dv (strip ts)\<rparr>)"

definition get_version_info :: "(nat \<Rightarrow> nat option) \<Rightarrow> peer \<Rightarrow> version_info option" where
  "get_version_info dv p =
     (case pe_connect p of Some _ \<Rightarrow> None
      | None \<Rightarrow> (case pe_send p 0 of Some _ \<Rightarrow> None
        | None \<Rightarrow> (case read_until 10 [] (pe_recv p) of Inl _ \<Rightarrow> None
          | Inr raw \<Rightarrow>
              (let t = strip (utf8_replace raw)
               in if t = [] then None else parse_version_line dv t))))"

definition ascii_digit :: "nat \<Rightarrow> nat option" where
  "ascii_digit c = (if 48 \<le> c \<and> c \<le> 57 then Some (c - 48) else None)"


section \<open>Framing\<close>

text \<open>What is put on the wire for a sequence of chunks, and how clamd documents reading it:
  length-prefixed pieces up to a zero length that ends the message.\<close>

definition frame :: "bytes list \<Rightarrow> bytes" where
  "frame cs = concat (map (\<lambda>c. be32 (length c) @ c) cs)"

function unframe :: "bytes \<Rightarrow> bytes option" where
  "unframe b =
     (if length b < 4 then None
      else let n = un_be32 (take 4 b); r = drop 4 b in
        if n = 0 then (if r = [] then Some [] else None)
        else if length r < n then None
        else map_option (\<lambda>t. take n r @ t) (unframe (drop n r)))"
  by pat_completeness auto
termination by (relation "measure length") auto

declare unframe.simps [simp del]

lemma unframe_zero: "unframe zero_chunk = Some []"
  by (simp add: unframe.simps zero_chunk_def un_be32_def)

lemma unframe_chunk:
  assumes "c \<noteq> []" and "length c < 2 ^ 32"
  shows "unframe (be32 (length c) @ c @ r) = map_option (\<lambda>t. c @ t) (unframe r)"
  using assms by (subst unframe.simps) (simp add: un_be32_be32 Let_def)

lemma unframe_frame:
  "\<forall>c \<in> set cs. c \<noteq> [] \<and> length c < 2 ^ 32 \<Longrightarrow>
   unframe (frame cs @ zero_chunk) = Some (concat cs)"
  by (induction cs) (auto simp: frame_def unframe_zero unframe_chunk)

lemma send_chunks_done:
  "send_chunks p f n limit k sent wire rest = StreamDone w j \<Longrightarrow> 0 < n \<Longrightarrow> sent \<le> limit \<Longrightarrow>
   w = wire @ frame (chunks n rest) \<and> sent + length rest \<le> limit"
proof (induction p f n limit k sent wire rest rule: send_chunks.induct)
  case (1 p f n limit k sent wire rest)
  show ?case
  proof (cases "rest = []")
    case True
    with "1.prems" show ?thesis
      by (subst (asm) send_chunks.simps) (auto simp: frame_def split: if_splits)
  next
    case False
    let ?c = "take n rest"
    have c: "?c \<noteq> []" using False "1.prems"(2) by simp
    have step: "\<not> lf_read_fails f k" "sent + length ?c \<le> limit" "pe_send p (Suc k) = None"
      "send_chunks p f n limit (Suc k) (sent + length ?c) (wire @ be32 (length ?c) @ ?c)
         (drop n rest) = StreamDone w j"
      using "1.prems"(1) c
      by (subst (asm) send_chunks.simps; auto simp: Let_def split: if_splits option.splits)+
    have "w = (wire @ be32 (length ?c) @ ?c) @ frame (chunks n (drop n rest))
        \<and> sent + length ?c + length (drop n rest) \<le> limit"
      by (rule "1.IH" [OF step(1) refl c refl _ step(3,4) "1.prems"(2)]) (use step(2) in auto)
    moreover have "chunks n rest = ?c # chunks n (drop n rest)"
      using False "1.prems"(2) by (subst chunks.simps) simp
    moreover have "length ?c + length (drop n rest) = length rest" by simp
    ultimately show ?thesis by (simp only: frame_def list.map concat.simps append_assoc)
        (intro conjI refl, linarith)
  qed
qed

lemma judge_reply_clean: "sr_outcome (judge_reply r) = SO_CLEAN \<longleftrightarrow> r = stream_ok"
  by (auto simp: judge_reply_def Let_def)

lemma judge_reply_signature:
  "sr_signature_name (judge_reply r) \<noteq> None \<Longrightarrow> sr_outcome (judge_reply r) = SO_FOUND"
  by (auto simp: judge_reply_def Let_def split: if_splits)

lemma io_failure_simps [simp]:
  "sr_outcome (io_failure e) \<noteq> SO_CLEAN" "sr_outcome (io_failure e) \<noteq> SO_FOUND"
  "sr_signature_name (io_failure e) = None"
  by (simp_all add: io_failure_def split: io_exc.splits)

lemma scan_stream_clean_cases:
  assumes "sr_outcome (fst (scan_stream p f n limit)) = SO_CLEAN"
  obtains w k raw where
    "send_chunks p f n limit 0 0 instream_command (lf_content f) = StreamDone w k"
    "read_until 0 [] (pe_recv p) = Inr raw" "decode_reply raw = stream_ok"
    "snd (scan_stream p f n limit) = w @ zero_chunk"
  using assms
  by (auto simp: scan_stream_def judge_reply_clean
      split: option.splits if_splits stream_end.splits sum.splits)

lemma whole_file_scanned:
  assumes "sr_outcome (fst (scan_stream p f chunk_size limit)) = SO_CLEAN"
    and "0 < chunk_size" and "chunk_size < 2 ^ 32"
  shows "length (lf_content f) \<le> limit
    \<and> (\<exists>raw. read_until 0 [] (pe_recv p) = Inr raw \<and> decode_reply raw = stream_ok)
    \<and> (\<exists>body. snd (scan_stream p f chunk_size limit) = instream_command @ body
           \<and> unframe body = Some (lf_content f))"
proof -
  let ?cs = "chunks chunk_size (lf_content f)"
  obtain w k raw where
    fin: "send_chunks p f chunk_size limit 0 0 instream_command (lf_content f) = StreamDone w k"
    and reply: "read_until 0 [] (pe_recv p) = Inr raw" "decode_reply raw = stream_ok"
    and wire: "snd (scan_stream p f chunk_size limit) = w @ zero_chunk"
    using assms(1) by (rule scan_stream_clean_cases)
  have w: "w = instream_command @ frame ?cs" "length (lf_content f) \<le> limit"
    using send_chunks_done [OF fin assms(2)] by auto
  have "unframe (frame ?cs @ zero_chunk) = Some (concat ?cs)"
    using assms(3) by (intro unframe_frame) (auto dest: chunks_bounds)
  with w reply wire show ?thesis using assms(2) by (auto simp: concat_chunks)
qed

text \<open>
  A CLEAN verdict is only given for the whole file: the file fits the limit, the reply
  was exactly \<open>stream: OK\<close> (up to surrounding white space), and what clamd received,
  read back by the protocol, is the content of the file.
\<close>

lemma clean_verdict_covers_whole_file:
  assumes "sr_outcome (fst (scan_stream p f chunk_size limit)) = SO_CLEAN"
    and "0 < chunk_size" and "chunk_size < 2 ^ 32"
  shows "length (lf_content f) \<le> limit
    \<and> (\<exists>raw. read_until 0 [] (pe_recv p) = Inr raw \<and> decode_reply raw = stream_ok)
    \<and> (\<exists>body. snd (scan_stream p f chunk_size limit) = instream_command @ body
           \<and> unframe body = Some (lf_content f))"
  using assms by (rule whole_file_scanned)

definition ok_peer :: peer where
  "ok_peer = \<lparr>pe_connect = None, pe_send = (\<lambda>_. None), pe_recv = [Inr (uni ''stream: OK'' @ [0])]\<rparr>"

definition small_file :: local_file where
  "small_file = \<lparr>lf_open_fails = False, lf_read_fails = (\<lambda>_. False), lf_content = [1, 2, 3]\<rparr>"

lemma ok_peer_clean:
  "sr_outcome (fst (scan_stream ok_peer small_file 2 10)) = SO_CLEAN"
  by (simp add: scan_stream_def ok_peer_def small_file_def send_chunks.simps read_until.simps
      recv_buffer_bytes_def max_response_bytes_def decode_reply_def strip_def rstrip_def
      lstrip_def is_space_def judge_reply_def stream_ok_def)

theorem clean_verdict_covers_whole_file_witness:
  "sr_outcome (fst (scan_stream ok_peer small_file 2 10)) = SO_CLEAN \<and>
   (\<exists>body. snd (scan_stream ok_peer small_file 2 10) = instream_command @ body
           \<and> unframe body = Some (lf_content small_file))"
  using clean_verdict_covers_whole_file [OF ok_peer_clean] ok_peer_clean by simp


section \<open>VERSION round trip\<close>

lemma split_version_here:
  assumes "47 \<notin> set e" and "10 \<notin> set e" and "47 \<notin> set g" and "g \<noteq> []"
    and "t \<noteq> []" and "10 \<notin> set t"
  shows "split_version_at (e @ 47 # g @ 47 # t) (length e) = Some (e, g, t)"
proof -
  have "last t \<noteq> 10" using assms(5,6) last_in_set by metis
  then show ?thesis
    using assms
    by (auto simp: split_version_at_def Let_def no_newline_def chop_final_newline_def
        takeWhile_append dropWhile_append nth_append)
qed

lemma find_first_hit:
  assumes "lo \<le> k" and "k < hi" and "P k" and "\<And>i. lo \<le> i \<Longrightarrow> i < k \<Longrightarrow> \<not> P i"
  shows "find P [lo..<hi] = Some k"
  unfolding find_Some_iff by (rule exI [of _ "k - lo"]) (use assms in auto)

lemma match_version_line_here:
  assumes "47 \<notin> set e" "10 \<notin> set e" "e \<noteq> []" "47 \<notin> set g" "g \<noteq> []" "t \<noteq> []" "10 \<notin> set t"
  shows "match_version_line (e @ 47 # g @ 47 # t) = Some (e, g, t)"
proof -
  let ?s = "e @ 47 # g @ 47 # t"
  have hit: "split_version_at ?s (length e) = Some (e, g, t)"
    using assms by (intro split_version_here)
  have miss: "split_version_at ?s i = None" if "i < length e" for i
  proof -
    have "e ! i \<noteq> 47" using assms(1) that by (metis nth_mem)
    then show ?thesis using that by (simp add: split_version_at_def Let_def nth_append)
  qed
  have "find (\<lambda>i. split_version_at ?s i \<noteq> None) [1..<length ?s] = Some (length e)"
    by (rule find_first_hit) (use assms(3) hit miss in \<open>auto simp: Suc_leI\<close>)
  then show ?thesis using hit by (simp add: match_version_line_def)
qed

lemma version_line_parts:
  assumes "v \<noteq> []" "strip v = v" "47 \<notin> set v" "10 \<notin> set v"
    and "g \<noteq> []" "strip g = g" "47 \<notin> set g"
    and "t \<noteq> []" "strip t = t" "10 \<notin> set t"
  shows "parse_version_line dv (uni ''ClamAV '' @ v @ 47 # g @ 47 # t) =
    Some \<lparr>vi_raw = uni ''ClamAV '' @ v @ 47 # g @ 47 # t, vi_engine_version = Some v,
          vi_signature_version = Some g,
          vi_signature_timestamp = parse_version_timestamp dv t\<rparr>"
proof -
  let ?e = "uni ''ClamAV '' @ v"
  have "match_version_line (?e @ 47 # g @ 47 # t) = Some (?e, g, t)"
    using assms by (intro match_version_line_here) auto
  moreover have "strip ?e = ?e"
  proof -
    have "\<not> is_space (last v)"
      using assms(1,2) rstrip_last [of "lstrip v"] by (simp add: strip_def)
    then show ?thesis
      using assms(1) by (simp add: strip_def lstrip_nonspace_hd rstrip_nonspace_last is_space_def)
  qed
  moreover have "split_engine ?e = Some v"
    using assms(2) by (simp add: split_engine_def)
  ultimately show ?thesis
    using assms(5,6,9) by (simp add: parse_version_line_def)
qed

text \<open>
  A VERSION reply of the documented shape yields its engine version, signature version
  and timestamp field unchanged: nothing is lost or shifted between the three parts.
\<close>

lemma version_line_roundtrip:
  assumes "v \<noteq> []" "strip v = v" "47 \<notin> set v" "10 \<notin> set v"
    and "g \<noteq> []" "strip g = g" "47 \<notin> set g"
    and "t \<noteq> []" "strip t = t" "10 \<notin> set t"
  shows "parse_version_line dv (uni ''ClamAV '' @ v @ 47 # g @ 47 # t) =
    Some \<lparr>vi_raw = uni ''ClamAV '' @ v @ 47 # g @ 47 # t, vi_engine_version = Some v,
          vi_signature_version = Some g,
          vi_signature_timestamp = parse_version_timestamp dv t\<rparr>"
  using assms by (rule version_line_parts)

theorem version_line_roundtrip_witness:
  "parse_version_line ascii_digit
     (uni ''ClamAV '' @ uni ''1.4.5'' @ 47 # uni ''28058'' @ 47 # uni ''Sun Jul 12 06:25:26 2026'') =
   Some \<lparr>vi_raw = uni ''ClamAV '' @ uni ''1.4.5'' @ 47 # uni ''28058'' @ 47
             # uni ''Sun Jul 12 06:25:26 2026'',
         vi_engine_version = Some (uni ''1.4.5''), vi_signature_version = Some (uni ''28058''),
         vi_signature_timestamp =
           parse_version_timestamp ascii_digit (uni ''Sun Jul 12 06:25:26 2026'')\<rparr>"
  by (rule version_line_roundtrip)
     (simp_all add: strip_def rstrip_def lstrip_def is_space_def)

end
