(* ===== verification/MalwareScan.thy ===== *)
theory MalwareScan
  imports AuditTrail FileStore Clamav
begin

text \<open>
  \<open>app/services/malware_scan.py\<close>: one scan attempt of one document, from the row lock to
  the committed outcome. \<open>scan_verdict\<close> is the abstract specification (a pure decision on
  what the attempt observes); \<open>run_scan\<close> is shown to implement it.

  \<open>H\<close> is the hexadecimal SHA-256 of a byte string, \<open>dv\<close> the value of a decimal digit
  character. The verdicts of the two content-policy inspectors and the instants read from the
  clock are part of the environment of an attempt.
\<close>

section \<open>What one attempt observes\<close>

record scan_config =
  sc_max_attempts :: nat
  sc_max_signature_age_hours :: nat
  sc_chunk_size :: nat
  sc_stream_max :: nat

record policy_result =
  po_passed :: bool
  po_reason_code :: "string option"
  po_policy_version :: string

text \<open>\<open>Inl\<close> is an exception that escapes an inspector.\<close>

record scan_env =
  se_quarantine :: dir
  se_resolve_raises :: bool
  se_digest_read_fails :: bool
  se_version_peer :: peer
  se_scan_peer :: peer
  se_open_fails :: bool
  se_read_fails :: "nat \<Rightarrow> bool"
  se_pdf_policy :: "exc + policy_result"
  se_docx_policy :: "exc + policy_result"
  se_started_at :: time
  se_now :: time
  se_completed_at :: time
  se_failed_at :: time

definition pdf_mime :: string where "pdf_mime = ''application/pdf''"

definition docx_mime :: string where
  "docx_mime = ''application/vnd.openxmlformats-officedocument.wordprocessingml.document''"

definition safe_scan_failure_summary :: string where
  "safe_scan_failure_summary = ''The document could not be scanned. It will be automatically retried or an operator will review it.''"

definition safe_malware_summary :: string where
  "safe_malware_summary = ''The document was rejected because it failed a malware scan.''"

definition safe_content_policy_summary :: string where
  "safe_content_policy_summary = ''The document was rejected because it did not pass content-safety checks.''"

fun clamav_outcome_reason_code :: "scan_outcome \<Rightarrow> string option" where
  "clamav_outcome_reason_code SO_UNAVAILABLE = Some ''SCANNER_UNAVAILABLE''"
| "clamav_outcome_reason_code SO_TIMEOUT = Some ''SCANNER_TIMEOUT''"
| "clamav_outcome_reason_code SO_PROTOCOL_ERROR = Some ''SCANNER_PROTOCOL_ERROR''"
| "clamav_outcome_reason_code SO_ERROR = Some ''SCANNER_PROTOCOL_ERROR''"
| "clamav_outcome_reason_code SO_SIZE_LIMIT_EXCEEDED = Some ''SCAN_SIZE_LIMIT_EXCEEDED''"
| "clamav_outcome_reason_code SO_CLEAN = None"
| "clamav_outcome_reason_code SO_FOUND = None"

section \<open>The quarantined file\<close>

definition read_digest :: "(bytes \<Rightarrow> string) \<Rightarrow> bool \<Rightarrow> dir \<Rightarrow> string \<Rightarrow> string option" where
  "read_digest H fails d n =
     (if fails then None else map_option H (file_content d n))"

definition resolve_and_verify ::
  "(bytes \<Rightarrow> string) \<Rightarrow> scan_env \<Rightarrow> document \<Rightarrow> string option" where
  "resolve_and_verify H env x =
     (case resolve_quarantine_path (se_quarantine env) (RefText (path_stem (d_file_path x))) of
        Inl _ \<Rightarrow> None
      | Inr n \<Rightarrow>
          if \<not> is_file (se_quarantine env) n then None
          else (case read_digest H (se_digest_read_fails env) (se_quarantine env) n of
                  None \<Rightarrow> None
                | Some dg \<Rightarrow>
                    if d_sha256_digest x = None \<or> d_sha256_digest x \<noteq> Some dg then None
                    else Some n))"

text \<open>The guarded call in \<open>run_scan\<close>: an exception counts as a failed verification.\<close>

definition verified_path :: "(bytes \<Rightarrow> string) \<Rightarrow> scan_env \<Rightarrow> document \<Rightarrow> string option" where
  "verified_path H env x = (if se_resolve_raises env then None else resolve_and_verify H env x)"

definition is_signature_stale :: "scan_config \<Rightarrow> time \<Rightarrow> version_info \<Rightarrow> bool" where
  "is_signature_stale cfg now vi =
     (case vi_signature_timestamp vi of None \<Rightarrow> True
      | Some ts \<Rightarrow> now - ts > int (sc_max_signature_age_hours cfg) * 3600)"

definition quarantine_file :: "scan_env \<Rightarrow> string \<Rightarrow> local_file" where
  "quarantine_file env n =
     \<lparr>lf_open_fails = se_open_fails env, lf_read_fails = se_read_fails env,
      lf_content = (case file_content (se_quarantine env) n of None \<Rightarrow> [] | Some b \<Rightarrow> b)\<rparr>"

section \<open>Outcomes\<close>

definition scan_failure_details :: "scan_config \<Rightarrow> document \<Rightarrow> details" where
  "scan_failure_details cfg x =
     (let m = [''scan_attempt_count'' \<mapsto> JInt (int (d_scan_attempt_count x))]
      in if d_scan_attempt_count x \<ge> sc_max_attempts cfg
         then m(''scan_exhausted'' \<mapsto> JBool True) else m)"

definition fail_scan ::
  "scan_config \<Rightarrow> time \<Rightarrow> uuid \<Rightarrow> string \<Rightarrow> document \<Rightarrow> sess \<Rightarrow> (exc + unit) \<times> sess" where
  "fail_scan cfg now org code x s =
     (let x1 = x\<lparr>d_scan_status := Some code, d_scan_completed_at := Some now\<rparr>
      in transition x1 SCAN_FAILED org (Some (d_created_by_id x1)) (Some code)
           (Some safe_scan_failure_summary) (Some (scan_failure_details cfg x1)) s)"

definition run_content_policy ::
  "scan_config \<Rightarrow> scan_env \<Rightarrow> uuid \<Rightarrow> document \<Rightarrow> sess \<Rightarrow> (exc + unit) \<times> sess" where
  "run_content_policy cfg env org x s =
     (let ctype = d_detected_content_type x in
      if ctype \<noteq> Some pdf_mime \<and> ctype \<noteq> Some docx_mime
      then fail_scan cfg (se_failed_at env) org ''UNSUPPORTED_CONTENT_TYPE'' x s
      else
        (case (if ctype = Some pdf_mime then se_pdf_policy env else se_docx_policy env) of
           Inl e \<Rightarrow> (Inl e, put_doc x s)
         | Inr r \<Rightarrow>
             let inspection_failed = (ctype = Some pdf_mime \<and> \<not> po_passed r
                                      \<and> po_reason_code r = Some ''PDF_INSPECTION_FAILED'');
                 x1 = x\<lparr>d_content_policy_version := Some (po_policy_version r)\<rparr>
             in if po_passed r then
                  and_then (transition (x1\<lparr>d_content_policy_status := Some ''PASSED''\<rparr>)
                     CLEAN_PENDING_PROMOTION org (Some (d_created_by_id x)) None None None s)
                     (\<lambda>_ s1. (Inr (), publish (PromoteJob (d_id x)) s1))
                else if inspection_failed then
                  fail_scan cfg (se_failed_at env) org ''PDF_INSPECTION_FAILED''
                    (x1\<lparr>d_content_policy_status := Some ''FAILED''\<rparr>) s
                else
                  transition (x1\<lparr>d_content_policy_status := Some ''REJECTED''\<rparr>)
                    REJECTED_CONTENT_POLICY org (Some (d_created_by_id x)) (po_reason_code r)
                    (Some safe_content_policy_summary) None s))"

definition note_engine :: "scan_result \<Rightarrow> document \<Rightarrow> document" where
  "note_engine r x =
     x\<lparr>d_scan_engine_version := (case sr_engine_version r of None \<Rightarrow> d_scan_engine_version x
                                 | Some v \<Rightarrow> Some v),
       d_scan_signature_version := (case sr_signature_version r of
                                   None \<Rightarrow> d_scan_signature_version x | Some v \<Rightarrow> Some v)\<rparr>"

definition judge_scan ::
  "scan_config \<Rightarrow> scan_env \<Rightarrow> uuid \<Rightarrow> scan_result \<Rightarrow> document \<Rightarrow> sess \<Rightarrow> (exc + unit) \<times> sess" where
  "judge_scan cfg env org r x s =
     (if sr_outcome r = SO_FOUND then
        transition (x\<lparr>d_scan_status := Some ''FOUND''\<rparr>) REJECTED_MALWARE org
          (Some (d_created_by_id x)) (Some ''MALWARE_DETECTED'') (Some safe_malware_summary)
          (Some [''signature_name'' \<mapsto> (case sr_signature_name r of None \<Rightarrow> JNull
                                         | Some g \<Rightarrow> JText g)]) s
      else (case clamav_outcome_reason_code (sr_outcome r) of
              Some code \<Rightarrow> fail_scan cfg (se_failed_at env) org code x s
            | None \<Rightarrow> run_content_policy cfg env org (x\<lparr>d_scan_status := Some ''CLEAN''\<rparr>) s))"

definition run_scan_body ::
  "scan_config \<Rightarrow> (nat \<Rightarrow> nat option) \<Rightarrow> scan_env \<Rightarrow> uuid \<Rightarrow> string \<Rightarrow> document \<Rightarrow> sess
    \<Rightarrow> (exc + unit) \<times> sess" where
  "run_scan_body cfg dv env org path x s =
     (case get_version_info dv (se_version_peer env) of
        None \<Rightarrow> fail_scan cfg (se_failed_at env) org ''SCANNER_UNAVAILABLE'' x s
      | Some vi \<Rightarrow>
          let x1 = x\<lparr>d_scan_engine_version := vi_engine_version vi,
                     d_scan_signature_version := vi_signature_version vi\<rparr>
          in if is_signature_stale cfg (se_now env) vi
             then fail_scan cfg (se_failed_at env) org ''SIGNATURE_DATABASE_STALE'' x1 s
             else
               let r = fst (scan_stream (se_scan_peer env) (quarantine_file env path)
                              (sc_chunk_size cfg) (sc_stream_max cfg));
                   x2 = note_engine r (x1\<lparr>d_scan_completed_at := Some (se_completed_at env)\<rparr>)
               in judge_scan cfg env org r x2 s)"

section \<open>run\_scan\<close>

definition record_attempt :: "scan_env \<Rightarrow> document \<Rightarrow> document" where
  "record_attempt env x =
     x\<lparr>d_scan_started_at := Some (se_started_at env), d_scan_digest_snapshot := d_sha256_digest x,
       d_scan_attempt_count := d_scan_attempt_count x + 1\<rparr>"

definition recover_scan ::
  "scan_config \<Rightarrow> scan_env \<Rightarrow> uuid \<Rightarrow> uuid \<Rightarrow> exc \<Rightarrow> sess \<Rightarrow> (exc + unit) \<times> sess" where
  "recover_scan cfg env org i e s =
     (let s1 = rollback s in
      case get_doc s1 i of
        None \<Rightarrow> (Inl e, s1)
      | Some y \<Rightarrow>
          if d_ingestion_status y = SCANNING
          then and_then (fail_scan cfg (se_failed_at env) org ''SCAN_SYSTEM_ERROR'' y s1)
                 (\<lambda>_ s2. (Inl e, s2))
          else (Inl e, s1))"

definition run_scan ::
  "scan_config \<Rightarrow> (bytes \<Rightarrow> string) \<Rightarrow> (nat \<Rightarrow> nat option) \<Rightarrow> scan_env \<Rightarrow> uuid \<Rightarrow> uuid \<Rightarrow> sess
    \<Rightarrow> (exc + unit) \<times> sess" where
  "run_scan cfg H dv env i org s =
     (case get_doc s i of
        None \<Rightarrow> (Inr (), s)
      | Some x \<Rightarrow>
          if d_ingestion_status x \<noteq> SCANNING then (Inr (), s)
          else
            let x1 = record_attempt env x;
                s1 = commit (put_doc x1 s)
            in (case verified_path H env x1 of
                 None \<Rightarrow> fail_scan cfg (se_failed_at env) org ''QUARANTINE_INTEGRITY_MISMATCH'' x1 s1
               | Some path \<Rightarrow>
                   (case run_scan_body cfg dv env org path x1 s1 of
                      (Inl e, s2) \<Rightarrow> recover_scan cfg env org i e s2
                    | (Inr _, s2) \<Rightarrow> (Inr (), s2))))"

section \<open>Preparing and scheduling attempts\<close>

definition prepare_scan_attempt ::
  "scan_config \<Rightarrow> uuid \<Rightarrow> sess \<Rightarrow> (exc + uuid option) \<times> sess" where
  "prepare_scan_attempt cfg i s =
     (case get_doc s i of
        None \<Rightarrow> (Inr None, s)
      | Some x \<Rightarrow>
          (case projects (work s) (d_project_id x) of
             None \<Rightarrow> (Inr None, s)
           | Some p \<Rightarrow>
               let org = pr_organization_id p in
               if d_ingestion_status x = SCAN_FAILED then
                 if d_scan_attempt_count x \<ge> sc_max_attempts cfg then (Inr None, s)
                 else and_then (transition x SCANNING org (Some (d_created_by_id x)) None None None s)
                        (\<lambda>_ s1. (Inr (Some org), s1))
               else (Inr (Some org), s)))"

text \<open>
  \<open>run_scan_sync\<close> up to the scheduling of the next attempt, which is published as a
  \<open>ScanRetryJob\<close>; an exception leaves the session at the state it had.
\<close>

definition scan_again :: "scan_config \<Rightarrow> uuid \<Rightarrow> sess \<Rightarrow> sess" where
  "scan_again cfg i s =
     (case get_doc s i of
        None \<Rightarrow> s
      | Some x \<Rightarrow>
          if d_ingestion_status x = SCAN_FAILED \<and> d_scan_attempt_count x < sc_max_attempts cfg
          then publish (ScanRetryJob i (d_scan_attempt_count x + 1)) s else s)"

definition run_scan_sync ::
  "scan_config \<Rightarrow> (bytes \<Rightarrow> string) \<Rightarrow> (nat \<Rightarrow> nat option) \<Rightarrow> scan_env \<Rightarrow> uuid \<Rightarrow> sess
    \<Rightarrow> (exc + unit) \<times> sess" where
  "run_scan_sync cfg H dv env i s =
     and_then (prepare_scan_attempt cfg i s) (\<lambda>org s1.
       case org of None \<Rightarrow> (Inr (), s1)
       | Some g \<Rightarrow> and_then (run_scan cfg H dv env i g s1) (\<lambda>_ s2. (Inr (), scan_again cfg i s2)))"

section \<open>The verdict of an attempt\<close>

datatype verdict =
    Passed
  | Infected
  | Violation "string option"
  | Failed string
  | Crashed exc

definition policy_verdict :: "scan_env \<Rightarrow> document \<Rightarrow> verdict" where
  "policy_verdict env x =
     (if d_detected_content_type x = Some pdf_mime then
        (case se_pdf_policy env of Inl e \<Rightarrow> Crashed e
         | Inr r \<Rightarrow> if po_passed r then Passed
             else if po_reason_code r = Some ''PDF_INSPECTION_FAILED''
               then Failed ''PDF_INSPECTION_FAILED''
             else Violation (po_reason_code r))
      else if d_detected_content_type x = Some docx_mime then
        (case se_docx_policy env of Inl e \<Rightarrow> Crashed e
         | Inr r \<Rightarrow> if po_passed r then Passed else Violation (po_reason_code r))
      else Failed ''UNSUPPORTED_CONTENT_TYPE'')"

definition stream_verdict :: "scan_env \<Rightarrow> scan_result \<Rightarrow> document \<Rightarrow> verdict" where
  "stream_verdict env r x =
     (if sr_outcome r = SO_FOUND then Infected
      else if sr_outcome r = SO_CLEAN then policy_verdict env x
      else Failed (the (clamav_outcome_reason_code (sr_outcome r))))"

definition scan_verdict ::
  "scan_config \<Rightarrow> (bytes \<Rightarrow> string) \<Rightarrow> (nat \<Rightarrow> nat option) \<Rightarrow> scan_env \<Rightarrow> document \<Rightarrow> verdict" where
  "scan_verdict cfg H dv env x =
     (case verified_path H env x of None \<Rightarrow> Failed ''QUARANTINE_INTEGRITY_MISMATCH''
      | Some path \<Rightarrow>
        (case get_version_info dv (se_version_peer env) of
           None \<Rightarrow> Failed ''SCANNER_UNAVAILABLE''
         | Some vi \<Rightarrow>
             if is_signature_stale cfg (se_now env) vi then Failed ''SIGNATURE_DATABASE_STALE''
             else stream_verdict env
                    (fst (scan_stream (se_scan_peer env) (quarantine_file env path)
                            (sc_chunk_size cfg) (sc_stream_max cfg))) x))"

fun verdict_status :: "verdict \<Rightarrow> ingestion_status" where
  "verdict_status Passed = CLEAN_PENDING_PROMOTION"
| "verdict_status Infected = REJECTED_MALWARE"
| "verdict_status (Violation c) = REJECTED_CONTENT_POLICY"
| "verdict_status (Failed c) = SCAN_FAILED"
| "verdict_status (Crashed e) = SCAN_FAILED"

fun verdict_reason :: "verdict \<Rightarrow> string option" where
  "verdict_reason Passed = None"
| "verdict_reason Infected = Some ''MALWARE_DETECTED''"
| "verdict_reason (Violation c) = c"
| "verdict_reason (Failed c) = Some c"
| "verdict_reason (Crashed e) = Some ''SCAN_SYSTEM_ERROR''"

fun verdict_summary :: "verdict \<Rightarrow> string option" where
  "verdict_summary Passed = None"
| "verdict_summary Infected = Some safe_malware_summary"
| "verdict_summary (Violation c) = Some safe_content_policy_summary"
| "verdict_summary (Failed c) = Some safe_scan_failure_summary"
| "verdict_summary (Crashed e) = Some safe_scan_failure_summary"

definition verdict_jobs :: "uuid \<Rightarrow> verdict \<Rightarrow> job list" where
  "verdict_jobs i v = (if v = Passed then [PromoteJob i] else [])"

text \<open>The columns a scan attempt never writes, and the ones \<open>transition\<close> decides.\<close>

definition scan_frame :: "document \<Rightarrow> document \<Rightarrow> bool" where
  "scan_frame x y \<longleftrightarrow> d_id y = d_id x \<and> d_ingestion_status y = d_ingestion_status x
     \<and> d_file_path y = d_file_path x \<and> d_sha256_digest y = d_sha256_digest x
     \<and> d_file_size_bytes y = d_file_size_bytes x \<and> d_project_id y = d_project_id x
     \<and> d_created_by_id y = d_created_by_id x \<and> d_doc_role y = d_doc_role x
     \<and> d_scan_attempt_count y = d_scan_attempt_count x
     \<and> d_detected_content_type y = d_detected_content_type x
     \<and> d_rejection_reason_code y = d_rejection_reason_code x
     \<and> d_operator_failure_summary y = d_operator_failure_summary x
     \<and> d_approval_status y = d_approval_status x"

lemma scan_frame_refl [simp]: "scan_frame x x"
  by (simp add: scan_frame_def)

lemma scan_frame_trans: "scan_frame x y \<Longrightarrow> scan_frame y z \<Longrightarrow> scan_frame x z"
  by (simp add: scan_frame_def)

definition concluded :: "verdict \<Rightarrow> document \<Rightarrow> sess \<Rightarrow> (exc + unit) \<times> sess \<Rightarrow> bool" where
  "concluded v x s r \<longleftrightarrow>
     (\<exists>y org usr detail. scan_frame x y \<and> fst r = Inr () \<and>
        snd r = fold publish (verdict_jobs (d_id x) v)
          (commit (add_audit (move_event y (verdict_status v) org usr (verdict_reason v) detail)
             (put_doc (moved y (verdict_status v) (verdict_reason v) (verdict_summary v)) s))))"

lemma scan_frame_identity: "scan_frame x y \<Longrightarrow> same_identity y x"
  by (simp add: scan_frame_def)

lemma scan_frame_id: "scan_frame x y \<Longrightarrow> d_id y = d_id x"
  and scan_frame_status: "scan_frame x y \<Longrightarrow> d_ingestion_status y = d_ingestion_status x"
  and scan_frame_count: "scan_frame x y \<Longrightarrow> d_scan_attempt_count y = d_scan_attempt_count x"
  by (simp_all add: scan_frame_def)

lemma concluded_frame:
  assumes "concluded v y s r" and "scan_frame x y"
  shows "concluded v x s r"
  using assms(1) unfolding concluded_def scan_frame_id [OF assms(2)]
  by (blast intro: scan_frame_trans [OF assms(2)])

lemma transition_concludes:
  assumes "d_ingestion_status x = SCANNING" and "v \<noteq> Passed"
    and "new = verdict_status v" and "reason = verdict_reason v" and "summary = verdict_summary v"
  shows "concluded v x s (transition x new org usr reason summary detail s)"
proof -
  have "new \<in> set (allowed_transitions (d_ingestion_status x))"
    using assms(1-3) by (cases v) auto
  then have "transition x new org usr reason summary detail s =
      (Inr (), commit (add_audit (move_event x new org usr reason detail)
                         (put_doc (moved x new reason summary) s)))"
    by (rule transition_moves)
  then show ?thesis
    unfolding concluded_def assms(3-5) verdict_jobs_def
    using assms(2) by (intro exI [of _ x] exI [of _ org] exI [of _ usr] exI [of _ detail]) simp
qed

lemma fail_scan_concludes:
  assumes "d_ingestion_status x = SCANNING"
  shows "concluded (Failed code) x s (fail_scan cfg t org code x s)"
proof -
  let ?y = "x\<lparr>d_scan_status := Some code, d_scan_completed_at := Some t\<rparr>"
  have "concluded (Failed code) ?y s (fail_scan cfg t org code x s)"
    unfolding fail_scan_def Let_def using assms by (intro transition_concludes) auto
  then show ?thesis by (rule concluded_frame) (simp add: scan_frame_def)
qed

lemma content_policy_concludes:
  assumes "d_ingestion_status x = SCANNING"
  shows "case policy_verdict env x of
      Crashed e \<Rightarrow> run_content_policy cfg env org x s = (Inl e, put_doc x s)
    | v \<Rightarrow> concluded v x s (run_content_policy cfg env org x s)"
proof -
  have mime: "Some pdf_mime \<noteq> Some docx_mime" by (simp add: pdf_mime_def docx_mime_def)
  let ?y = "\<lambda>(r :: policy_result) st. x\<lparr>d_content_policy_version := Some (po_policy_version r),
                     d_content_policy_status := Some st\<rparr>"
  have fr: "scan_frame x (?y r st)" for r st by (simp add: scan_frame_def)
  have st: "d_ingestion_status (?y r st) = SCANNING" for r st using assms by simp
  have pass: "concluded Passed x s
      (and_then (transition (?y r a) CLEAN_PENDING_PROMOTION org usr None None None s)
         (\<lambda>_ s1. (Inr (), publish (PromoteJob (d_id x)) s1)))" for r a usr
    unfolding concluded_def
    by (intro exI [of _ "?y r a"] exI [of _ org] exI [of _ usr] exI [of _ None])
       (simp add: transition_moves st fr verdict_jobs_def)
  have viol: "concluded (Violation c) x s
      (transition (?y r a) REJECTED_CONTENT_POLICY org usr c (Some safe_content_policy_summary)
         None s)" for r a usr c
    by (rule concluded_frame [OF transition_concludes [OF st] fr]) auto
  have fl: "concluded (Failed c) x s (fail_scan cfg t org c (?y r a) s)" for c t r a
    by (rule concluded_frame [OF fail_scan_concludes [OF st] fr])
  have fl0: "concluded (Failed c) x s (fail_scan cfg t org c x s)" for c t
    by (rule fail_scan_concludes [OF assms])
  consider "d_detected_content_type x = Some pdf_mime"
    | "d_detected_content_type x = Some docx_mime"
    | "d_detected_content_type x \<noteq> Some pdf_mime \<and> d_detected_content_type x \<noteq> Some docx_mime"
    by blast
  then show ?thesis
  proof cases
    case 1
    then show ?thesis
      using mime pass viol fl
      by (auto simp: policy_verdict_def run_content_policy_def Let_def split: sum.splits)
  next
    case 2
    then show ?thesis
      using mime [symmetric] pass viol
      by (auto simp: policy_verdict_def run_content_policy_def Let_def split: sum.splits)
  next
    case 3
    then show ?thesis
      using fl0 by (simp add: policy_verdict_def run_content_policy_def Let_def)
  qed
qed

lemma policy_verdict_frame: "scan_frame x y \<Longrightarrow> policy_verdict env y = policy_verdict env x"
  by (simp add: policy_verdict_def scan_frame_def)

text \<open>What a step of the attempt has to show: it concludes with its verdict, or raises.\<close>

definition decides :: "verdict \<Rightarrow> document \<Rightarrow> sess \<Rightarrow> (exc + unit) \<times> sess \<Rightarrow> bool" where
  "decides v x s r \<longleftrightarrow>
     (case v of Crashed e \<Rightarrow> (\<exists>y. scan_frame x y \<and> r = (Inl e, put_doc y s))
      | _ \<Rightarrow> concluded v x s r)"

lemma decides_frame: "decides v y s r \<Longrightarrow> scan_frame x y \<Longrightarrow> decides v x s r"
  by (cases v) (auto simp: decides_def intro: concluded_frame scan_frame_trans)

lemma decides_failed: "concluded (Failed c) x s r \<Longrightarrow> decides (Failed c) x s r"
  by (simp add: decides_def)

lemma content_policy_decides:
  "d_ingestion_status x = SCANNING \<Longrightarrow>
   decides (policy_verdict env x) x s (run_content_policy cfg env org x s)"
proof -
  assume "d_ingestion_status x = SCANNING"
  note d = content_policy_concludes [OF this, where env = env and cfg = cfg and org = org and s = s]
  show ?thesis
  proof (cases "policy_verdict env x")
    case (Crashed e)
    then show ?thesis using d by (auto simp: decides_def intro!: exI [of _ x])
  qed (use d in \<open>simp_all add: decides_def\<close>)
qed

lemma judge_scan_decides:
  assumes "d_ingestion_status x = SCANNING"
  shows "decides (stream_verdict env r x) x s (judge_scan cfg env org r x s)"
proof -
  let ?f = "x\<lparr>d_scan_status := Some ''FOUND''\<rparr>" and ?c = "x\<lparr>d_scan_status := Some ''CLEAN''\<rparr>"
  have fr: "scan_frame x ?f" "scan_frame x ?c" by (simp_all add: scan_frame_def)
  have found: "decides Infected x s (transition ?f REJECTED_MALWARE org usr
      (Some ''MALWARE_DETECTED'') (Some safe_malware_summary) det s)" for usr det
    unfolding decides_def verdict.case
    by (rule concluded_frame [OF transition_concludes fr(1)]) (simp_all add: assms)
  have clean: "decides (policy_verdict env x) x s (run_content_policy cfg env org ?c s)"
    by (subst policy_verdict_frame [OF fr(2), symmetric],
        rule decides_frame [OF content_policy_decides fr(2)]) (simp add: assms)
  have other: "decides (Failed c) x s (fail_scan cfg t org c x s)" for c t
    by (intro decides_failed fail_scan_concludes assms)
  show ?thesis
    using found clean other
    by (cases "sr_outcome r") (simp_all add: stream_verdict_def judge_scan_def)
qed

lemma run_scan_body_decides:
  assumes "d_ingestion_status x = SCANNING" and "verified_path H env x = Some path"
  shows "decides (scan_verdict cfg H dv env x) x s (run_scan_body cfg dv env org path x s)"
proof (cases "get_version_info dv (se_version_peer env)")
  case None
  then show ?thesis
    using assms
    by (simp add: scan_verdict_def run_scan_body_def decides_failed fail_scan_concludes)
next
  case (Some vi)
  let ?x1 = "x\<lparr>d_scan_engine_version := vi_engine_version vi,
               d_scan_signature_version := vi_signature_version vi\<rparr>"
  have f1: "scan_frame x ?x1" by (simp add: scan_frame_def)
  have st1: "d_ingestion_status ?x1 = SCANNING" using assms by simp
  show ?thesis
  proof (cases "is_signature_stale cfg (se_now env) vi")
    case True
    then show ?thesis
      using assms Some decides_frame [OF decides_failed [OF fail_scan_concludes [OF st1]] f1]
      by (simp add: scan_verdict_def run_scan_body_def)
  next
    case False
    define r where "r = fst (scan_stream (se_scan_peer env) (quarantine_file env path)
                              (sc_chunk_size cfg) (sc_stream_max cfg))"
    define x2 where "x2 = note_engine r (?x1\<lparr>d_scan_completed_at := Some (se_completed_at env)\<rparr>)"
    have f2: "scan_frame x x2" by (simp add: x2_def note_engine_def scan_frame_def)
    have "decides (stream_verdict env r x2) x s (judge_scan cfg env org r x2 s)"
      using f2 assms(1) by (intro decides_frame [OF judge_scan_decides f2])
        (simp add: scan_frame_status)
    moreover have "stream_verdict env r x2 = stream_verdict env r x"
      by (simp add: stream_verdict_def policy_verdict_frame [OF f2])
    ultimately show ?thesis
      using assms(2) Some False by (simp add: scan_verdict_def run_scan_body_def r_def x2_def Let_def)
  qed
qed

section \<open>run\_scan implements the verdict\<close>

lemma record_attempt_simps [simp]:
  "d_id (record_attempt env x) = d_id x"
  "d_ingestion_status (record_attempt env x) = d_ingestion_status x"
  "d_file_path (record_attempt env x) = d_file_path x"
  "d_sha256_digest (record_attempt env x) = d_sha256_digest x"
  "d_detected_content_type (record_attempt env x) = d_detected_content_type x"
  "d_project_id (record_attempt env x) = d_project_id x"
  "d_created_by_id (record_attempt env x) = d_created_by_id x"
  "d_doc_role (record_attempt env x) = d_doc_role x"
  "d_file_size_bytes (record_attempt env x) = d_file_size_bytes x"
  "d_scan_attempt_count (record_attempt env x) = d_scan_attempt_count x + 1"
  "d_rejection_reason_code (record_attempt env x) = d_rejection_reason_code x"
  "d_operator_failure_summary (record_attempt env x) = d_operator_failure_summary x"
  "d_approval_status (record_attempt env x) = d_approval_status x"
  by (simp_all add: record_attempt_def)

lemma verified_path_cong:
  assumes "d_file_path y = d_file_path x" and "d_sha256_digest y = d_sha256_digest x"
  shows "verified_path H env y = verified_path H env x"
  unfolding verified_path_def resolve_and_verify_def assms by (rule refl)

lemma scan_verdict_attempt [simp]:
  "scan_verdict cfg H dv env (record_attempt env' x) = scan_verdict cfg H dv env x"
proof -
  have "stream_verdict env r (record_attempt env' x) = stream_verdict env r x" for r
    by (simp add: stream_verdict_def policy_verdict_def)
  moreover have "verified_path H env (record_attempt env' x) = verified_path H env x"
    by (rule verified_path_cong) simp_all
  ultimately show ?thesis
    by (simp add: scan_verdict_def split: option.split)
qed

text \<open>The state an attempt leaves, whatever happened on the way.\<close>

lemma run_scan_cases:
  assumes "get_doc s i = Some x" and "d_ingestion_status x = SCANNING" and "d_id x = i"
    and v_def: "v = scan_verdict cfg H dv env x"
    and s1_def: "s1 = commit (put_doc (record_attempt env x) s)"
  shows "\<exists>w. concluded w (record_attempt env x) s1 (Inr (), snd (run_scan cfg H dv env i org s))
    \<and> verdict_status w = verdict_status v \<and> verdict_reason w = verdict_reason v
    \<and> verdict_summary w = verdict_summary v \<and> verdict_jobs i w = verdict_jobs i v
    \<and> fst (run_scan cfg H dv env i org s) = (case v of Crashed e \<Rightarrow> Inl e | _ \<Rightarrow> Inr ())"
proof -
  let ?x = "record_attempt env x"
  have st: "d_ingestion_status ?x = SCANNING" using assms by simp
  have pairI: "concluded w y s r \<Longrightarrow> concluded w y s (Inr (), snd r) \<and> fst r = Inr ()" for w y s r
    by (auto simp: concluded_def)
  show ?thesis
  proof (cases "verified_path H env ?x")
    case None
    have "v = Failed ''QUARANTINE_INTEGRITY_MISMATCH''"
      using None
      by (simp add: v_def scan_verdict_def verified_path_cong [of "record_attempt env x" x])
    then show ?thesis
      using assms(1,2) None pairI [OF fail_scan_concludes [OF st]]
      by (intro exI [of _ v]) (simp add: run_scan_def Let_def s1_def)
  next
    case (Some path)
    let ?b = "run_scan_body cfg dv env org path ?x s1"
    have run: "run_scan cfg H dv env i org s =
        (case ?b of (Inl e, s2) \<Rightarrow> recover_scan cfg env org i e s2 | (Inr _, s2) \<Rightarrow> (Inr (), s2))"
      using assms(1,2) Some by (simp add: run_scan_def Let_def s1_def)
    have dec: "decides v ?x s1 ?b"
      using run_scan_body_decides [OF st Some, of cfg dv s1 org] by (simp add: v_def)
    show ?thesis
    proof (cases "\<exists>e. v = Crashed e")
      case True
      then obtain e y where e: "v = Crashed e" "?b = (Inl e, put_doc y s1)"
        using dec by (auto simp: decides_def)
      have roll: "rollback (put_doc y s1) = s1"
        by (simp add: rollback_def put_doc_def s1_def commit_def)
      have got: "get_doc s1 i = Some ?x" using assms(3) by (simp add: s1_def)
      have "run_scan cfg H dv env i org s =
          and_then (fail_scan cfg (se_failed_at env) org ''SCAN_SYSTEM_ERROR'' ?x s1)
            (\<lambda>_ s2. (Inl e, s2))"
        using assms(2)
        by (simp add: run e recover_scan_def roll got Let_def del: get_doc_rollback)
      moreover obtain s2 where
        "fail_scan cfg (se_failed_at env) org ''SCAN_SYSTEM_ERROR'' ?x s1 = (Inr (), s2)"
        using pairI [OF fail_scan_concludes [OF st]] by (metis prod.collapse)
      ultimately show ?thesis
        using pairI [OF fail_scan_concludes [OF st, of "''SCAN_SYSTEM_ERROR''" s1 cfg
              "se_failed_at env" org]] e(1)
        by (intro exI [of _ "Failed ''SCAN_SYSTEM_ERROR''"]) (simp add: verdict_jobs_def)
    next
      case False
      then have c: "concluded v ?x s1 ?b" using dec by (auto simp: decides_def split: verdict.splits)
      obtain s2 where b: "?b = (Inr (), s2)" using pairI [OF c] by (metis prod.collapse)
      show ?thesis
        using pairI [OF c] False
        by (intro exI [of _ v]) (auto simp: run b split: verdict.splits)
    qed
  qed
qed

section \<open>Properties of an attempt\<close>

lemma after_publish [simp]:
  "stored (fold publish js s) = stored s" "work (fold publish js s) = work s"
  "outbox (fold publish js s) = outbox s @ js"
  by (induction js arbitrary: s) simp_all

lemma concluded_stored:
  assumes "concluded w x s r" and "d_id x = i"
  shows "stored (snd r) = work (snd r) \<and> outbox (snd r) = outbox s @ verdict_jobs i w
    \<and> (\<exists>y. documents (stored (snd r)) i = Some y \<and> d_ingestion_status y = verdict_status w
         \<and> d_scan_attempt_count y = d_scan_attempt_count x
         \<and> d_sha256_digest y = d_sha256_digest x \<and> d_file_path y = d_file_path x
         \<and> d_rejection_reason_code y = (case verdict_reason w of
               None \<Rightarrow> d_rejection_reason_code x | Some c \<Rightarrow> Some c)
         \<and> d_operator_failure_summary y = (case verdict_summary w of
               None \<Rightarrow> d_operator_failure_summary x | Some c \<Rightarrow> Some c))
    \<and> (\<forall>j. j \<noteq> i \<longrightarrow> documents (stored (snd r)) j = documents (work s) j)"
  using assms unfolding concluded_def by (auto simp: scan_frame_def moved_def cong: option.case_cong)

lemma run_scan_implements_verdict_aux:
  assumes "get_doc s i = Some x" and "d_ingestion_status x = SCANNING" and "d_id x = i"
  shows "let v = scan_verdict cfg H dv env x; r = run_scan cfg H dv env i org s in
    (\<exists>y. documents (stored (snd r)) i = Some y \<and> d_ingestion_status y = verdict_status v
       \<and> d_scan_attempt_count y = d_scan_attempt_count x + 1
       \<and> d_sha256_digest y = d_sha256_digest x \<and> d_file_path y = d_file_path x
       \<and> d_rejection_reason_code y = (case verdict_reason v of
             None \<Rightarrow> d_rejection_reason_code x | Some c \<Rightarrow> Some c)
       \<and> d_operator_failure_summary y = (case verdict_summary v of
             None \<Rightarrow> d_operator_failure_summary x | Some c \<Rightarrow> Some c))
    \<and> stored (snd r) = work (snd r)
    \<and> outbox (snd r) = outbox s @ (if v = Passed then [PromoteJob i] else [])
    \<and> fst r = (case v of Crashed e \<Rightarrow> Inl e | _ \<Rightarrow> Inr ())
    \<and> (\<forall>j. j \<noteq> i \<longrightarrow> documents (stored (snd r)) j = documents (work s) j)"
proof -
  define v where "v = scan_verdict cfg H dv env x"
  let ?r = "run_scan cfg H dv env i org s" and ?s1 = "commit (put_doc (record_attempt env x) s)"
  obtain w where c: "concluded w (record_attempt env x) ?s1 (Inr (), snd ?r)"
    and w: "verdict_status w = verdict_status v" "verdict_reason w = verdict_reason v"
      "verdict_summary w = verdict_summary v" "verdict_jobs i w = verdict_jobs i v"
    and f: "fst ?r = (case v of Crashed e \<Rightarrow> Inl e | _ \<Rightarrow> Inr ())"
    using run_scan_cases [OF assms v_def refl] by blast
  show ?thesis
    using concluded_stored [OF c, of i] assms(3) f
    unfolding v_def [symmetric] Let_def w
    by (simp add: verdict_jobs_def cong: option.case_cong) metis
qed

text \<open>
  C14. One scan attempt of a document that is being scanned always ends in one of the four
  outcomes, the one its verdict names, durably: reason code and summary are those of the
  verdict, the attempt is counted exactly once, promotion is requested exactly when the
  verdict is a pass, no other document is touched, and only an exception that escaped an
  inspector is raised again.
\<close>

theorem run_scan_implements_verdict:
  assumes "get_doc s i = Some x" and "d_ingestion_status x = SCANNING" and "d_id x = i"
  shows "let v = scan_verdict cfg H dv env x; r = run_scan cfg H dv env i org s in
    (\<exists>y. documents (stored (snd r)) i = Some y \<and> d_ingestion_status y = verdict_status v
       \<and> d_scan_attempt_count y = d_scan_attempt_count x + 1
       \<and> d_sha256_digest y = d_sha256_digest x \<and> d_file_path y = d_file_path x
       \<and> d_rejection_reason_code y = (case verdict_reason v of
             None \<Rightarrow> d_rejection_reason_code x | Some c \<Rightarrow> Some c)
       \<and> d_operator_failure_summary y = (case verdict_summary v of
             None \<Rightarrow> d_operator_failure_summary x | Some c \<Rightarrow> Some c))
    \<and> stored (snd r) = work (snd r)
    \<and> outbox (snd r) = outbox s @ (if v = Passed then [PromoteJob i] else [])
    \<and> fst r = (case v of Crashed e \<Rightarrow> Inl e | _ \<Rightarrow> Inr ())
    \<and> (\<forall>j. j \<noteq> i \<longrightarrow> documents (stored (snd r)) j = documents (work s) j)"
  using assms by (rule run_scan_implements_verdict_aux)

text \<open>Outside SCANNING an attempt does nothing at all.\<close>

lemma run_scan_idle:
  "(\<forall>x. get_doc s i = Some x \<longrightarrow> d_ingestion_status x \<noteq> SCANNING) \<Longrightarrow>
   run_scan cfg H dv env i org s = (Inr (), s)"
  by (auto simp: run_scan_def split: option.splits)

text \<open>What a passing verdict means.\<close>

lemma verified_path_content:
  "verified_path H env x = Some n \<Longrightarrow>
   \<exists>b. file_content (se_quarantine env) n = Some b \<and> d_sha256_digest x = Some (H b)"
  by (auto simp: verified_path_def resolve_and_verify_def read_digest_def
      split: if_splits sum.splits option.splits)

lemma policy_verdict_passed:
  "policy_verdict env x = Passed \<Longrightarrow>
   \<exists>r. (se_pdf_policy env = Inr r \<or> se_docx_policy env = Inr r) \<and> po_passed r"
  by (auto simp: policy_verdict_def split: if_splits sum.splits)

text \<open>
  C15. A document only leaves the scan as CLEAN_PENDING_PROMOTION when the stored file still
  has the recorded digest, clamd's signatures are fresh, clamd received exactly that file and
  answered \<open>stream: OK\<close>, and the content-policy inspector passed it.
\<close>

theorem clean_means_scanned:
  assumes "get_doc s i = Some x" and "d_ingestion_status x = SCANNING" and "d_id x = i"
    and "0 < sc_chunk_size cfg" and "sc_chunk_size cfg < 2 ^ 32"
    and "documents (stored (snd (run_scan cfg H dv env i org s))) i = Some y"
    and "d_ingestion_status y = CLEAN_PENDING_PROMOTION"
  shows "\<exists>n b body vi pol.
      file_content (se_quarantine env) n = Some b \<and> d_sha256_digest x = Some (H b)
    \<and> get_version_info dv (se_version_peer env) = Some vi
    \<and> \<not> is_signature_stale cfg (se_now env) vi
    \<and> snd (scan_stream (se_scan_peer env) (quarantine_file env n) (sc_chunk_size cfg)
             (sc_stream_max cfg)) = instream_command @ body
    \<and> unframe body = Some b
    \<and> (\<exists>raw. read_until 0 [] (pe_recv (se_scan_peer env)) = Inr raw \<and> decode_reply raw = stream_ok)
    \<and> (se_pdf_policy env = Inr pol \<or> se_docx_policy env = Inr pol) \<and> po_passed pol"
proof -
  have "verdict_status (scan_verdict cfg H dv env x) = CLEAN_PENDING_PROMOTION"
    using run_scan_implements_verdict_aux [OF assms(1-3), of cfg H dv env org] assms(6,7)
    by (auto simp: Let_def)
  then have v: "scan_verdict cfg H dv env x = Passed"
    by (cases "scan_verdict cfg H dv env x") auto
  then obtain n vi where n: "verified_path H env x = Some n"
    and vi: "get_version_info dv (se_version_peer env) = Some vi"
      "\<not> is_signature_stale cfg (se_now env) vi"
    and sv: "stream_verdict env (fst (scan_stream (se_scan_peer env) (quarantine_file env n)
               (sc_chunk_size cfg) (sc_stream_max cfg))) x = Passed"
    by (auto simp: scan_verdict_def split: option.splits if_splits)
  from sv have ok: "sr_outcome (fst (scan_stream (se_scan_peer env) (quarantine_file env n)
               (sc_chunk_size cfg) (sc_stream_max cfg))) = SO_CLEAN"
    and pol: "policy_verdict env x = Passed"
    by (auto simp: stream_verdict_def split: if_splits)
  obtain b where b: "file_content (se_quarantine env) n = Some b" "d_sha256_digest x = Some (H b)"
    using verified_path_content [OF n] by blast
  have "lf_content (quarantine_file env n) = b" using b by (simp add: quarantine_file_def)
  then show ?thesis
    using b vi policy_verdict_passed [OF pol] whole_file_scanned [OF ok assms(4,5)] by metis
qed

section \<open>A concrete attempt\<close>

definition demo_version_peer :: peer where
  "demo_version_peer = \<lparr>pe_connect = None, pe_send = (\<lambda>_. None),
     pe_recv = [Inr (uni ''ClamAV 1.4.5/28058/Sun Jul 12 06:25:26 2026'' @ [10])]\<rparr>"

definition demo_timestamp :: ustr where
  "demo_timestamp = uni ''Sun Jul 12 06:25:26 2026''"

definition demo_scan_config :: scan_config where
  "demo_scan_config = \<lparr>sc_max_attempts = 3, sc_max_signature_age_hours = 48, sc_chunk_size = 2,
     sc_stream_max = 10\<rparr>"

definition demo_scan_env :: scan_env where
  "demo_scan_env = \<lparr>se_quarantine = [quarantine_name 7 \<mapsto> RegularFile [1, 2, 3]],
     se_resolve_raises = False, se_digest_read_fails = False,
     se_version_peer = demo_version_peer, se_scan_peer = ok_peer, se_open_fails = False,
     se_read_fails = (\<lambda>_. False),
     se_pdf_policy = Inr \<lparr>po_passed = True, po_reason_code = None, po_policy_version = ''1''\<rparr>,
     se_docx_policy = Inl (OtherException ''unused''), se_started_at = 0,
     se_now = the (parse_version_timestamp ascii_digit demo_timestamp),
     se_completed_at = 1, se_failed_at = 1\<rparr>"

definition demo_document :: document where
  "demo_document = (new_document 5 1 2 (uni ''rfp.pdf'') (''/data/quarantine/'' @ quarantine_name 7)
     ''pdf'')\<lparr>d_ingestion_status := SCANNING, d_sha256_digest := Some ''h'',
     d_detected_content_type := Some pdf_mime\<rparr>"

definition demo_project :: project where
  "demo_project = \<lparr>pr_id = 1, pr_organization_id = 9, pr_name = uni ''p'', pr_created_by_id = 2,
       pr_client_name = uni ''c'', pr_due_date = None, pr_status = ''draft''\<rparr>"

definition demo_db :: db where
  "demo_db = empty_db\<lparr>documents := [5 \<mapsto> demo_document], projects := [1 \<mapsto> demo_project]\<rparr>"

lemma demo_timestamp_parses: "parse_version_timestamp ascii_digit demo_timestamp \<noteq> None"
  by (simp add: demo_timestamp_def parse_version_timestamp_def match_timestamp_def strip_def
      lstrip_def rstrip_def is_space_def take_letters3_def is_letter_def take_spaces_def
      take_number_def ascii_digit_def take_char_def month_abbreviations_def mk_datetime_def
      Let_def days_in_month_def is_leap_def)

lemma demo_version_line: "parse_version_line ascii_digit
    (uni ''ClamAV 1.4.5/28058/Sun Jul 12 06:25:26 2026'') =
  Some \<lparr>vi_raw = uni ''ClamAV 1.4.5/28058/Sun Jul 12 06:25:26 2026'',
        vi_engine_version = Some (uni ''1.4.5''), vi_signature_version = Some (uni ''28058''),
        vi_signature_timestamp = parse_version_timestamp ascii_digit demo_timestamp\<rparr>"
  using version_line_parts [of "uni ''1.4.5''" "uni ''28058''" demo_timestamp ascii_digit]
  by (simp add: demo_timestamp_def strip_def rstrip_def lstrip_def is_space_def)

lemma demo_version_info: "get_version_info ascii_digit demo_version_peer =
  Some \<lparr>vi_raw = uni ''ClamAV 1.4.5/28058/Sun Jul 12 06:25:26 2026'',
        vi_engine_version = Some (uni ''1.4.5''), vi_signature_version = Some (uni ''28058''),
        vi_signature_timestamp = parse_version_timestamp ascii_digit demo_timestamp\<rparr>"
proof -
  let ?raw = "uni ''ClamAV 1.4.5/28058/Sun Jul 12 06:25:26 2026''"
  have "read_until 10 [] [Inr (?raw @ [10])] = Inr (?raw @ [10])"
    by (simp add: read_until.simps recv_buffer_bytes_def max_response_bytes_def)
  moreover have "strip (utf8_replace (?raw @ [10])) = ?raw"
    by (simp add: utf8_replace_ascii strip_def rstrip_def lstrip_def is_space_def)
  moreover have "?raw \<noteq> []" by simp
  ultimately show ?thesis
    using demo_version_line
    by (simp only: get_version_info_def demo_version_peer_def peer.select_convs option.case
        sum.case Let_def if_False)
qed

lemma demo_verified:
  "verified_path (\<lambda>_. ''h'') demo_scan_env demo_document = Some (quarantine_name 7)"
proof -
  have "path_stem (d_file_path demo_document) = uuid_str 7"
    using path_stem_quarantine(2) [of "''/data/quarantine''" 7] by (simp add: demo_document_def)
  then show ?thesis
    by (simp add: verified_path_def resolve_and_verify_def demo_scan_env_def resolve_text
        resolve_plain is_symlink_def is_file_def read_digest_def file_content_def
        demo_document_def)
qed

lemma demo_passes:
  "scan_verdict demo_scan_config (\<lambda>_. ''h'') ascii_digit demo_scan_env demo_document = Passed"
proof -
  obtain t where t: "parse_version_timestamp ascii_digit demo_timestamp = Some t"
    using demo_timestamp_parses by auto
  have content: "quarantine_file demo_scan_env (quarantine_name 7) = small_file"
    by (simp add: quarantine_file_def demo_scan_env_def small_file_def file_content_def)
  have env: "se_version_peer demo_scan_env = demo_version_peer"
    "se_scan_peer demo_scan_env = ok_peer" "se_now demo_scan_env = t"
    by (simp_all add: demo_scan_env_def t)
  have policy: "policy_verdict demo_scan_env demo_document = Passed"
    by (simp add: policy_verdict_def demo_scan_env_def demo_document_def)
  show ?thesis
    by (simp add: scan_verdict_def demo_verified env demo_version_info t is_signature_stale_def
        content stream_verdict_def policy demo_scan_config_def ok_peer_clean)
qed

lemma demo_row:
  "get_doc (open_session demo_db) 5 = Some demo_document"
  "d_ingestion_status demo_document = SCANNING" "d_id demo_document = 5"
  by (simp_all add: demo_db_def demo_document_def)

lemma demo_count: "d_scan_attempt_count demo_document = 0"
  by (simp add: demo_document_def)

theorem run_scan_implements_verdict_witness:
  "\<exists>y. documents (stored (snd (run_scan demo_scan_config (\<lambda>_. ''h'') ascii_digit demo_scan_env 5 9
         (open_session demo_db)))) 5 = Some y
     \<and> d_ingestion_status y = CLEAN_PENDING_PROMOTION \<and> d_scan_attempt_count y = 1"
  using run_scan_implements_verdict
    [OF demo_row, of demo_scan_config "\<lambda>_. ''h''" ascii_digit demo_scan_env 9]
  by (auto simp: Let_def demo_passes demo_count)

lemma demo_cleared: "\<exists>y. documents (stored (snd (run_scan demo_scan_config (\<lambda>_. ''h'') ascii_digit
    demo_scan_env 5 9 (open_session demo_db)))) 5 = Some y
     \<and> d_ingestion_status y = CLEAN_PENDING_PROMOTION"
  using run_scan_implements_verdict_aux
    [OF demo_row, of demo_scan_config "\<lambda>_. ''h''" ascii_digit demo_scan_env 9]
  by (auto simp: Let_def demo_passes)

theorem clean_means_scanned_witness:
  "\<exists>n b. file_content (se_quarantine demo_scan_env) n = Some b
     \<and> d_sha256_digest demo_document = Some ((\<lambda>_. ''h'') b)"
proof -
  obtain y where y: "documents (stored (snd (run_scan demo_scan_config (\<lambda>_. ''h'') ascii_digit
      demo_scan_env 5 9 (open_session demo_db)))) 5 = Some y"
    "d_ingestion_status y = CLEAN_PENDING_PROMOTION"
    using demo_cleared by blast
  show ?thesis
    using clean_means_scanned [OF demo_row _ _ y] by (auto simp: demo_scan_config_def)
qed

section \<open>What reaches the operator and the user\<close>

definition scan_reason_codes :: "string list" where
  "scan_reason_codes =
     [''QUARANTINE_INTEGRITY_MISMATCH'', ''SCANNER_UNAVAILABLE'', ''SIGNATURE_DATABASE_STALE'',
      ''MALWARE_DETECTED'', ''UNSUPPORTED_CONTENT_TYPE'', ''SCAN_SYSTEM_ERROR'',
      ''PDF_INSPECTION_FAILED'', ''SCANNER_TIMEOUT'', ''SCANNER_PROTOCOL_ERROR'',
      ''SCAN_SIZE_LIMIT_EXCEEDED'']"

lemma policy_verdict_reason:
  "verdict_reason (policy_verdict env x) = Some c \<Longrightarrow>
   c \<in> set scan_reason_codes \<or> (\<exists>r. (se_pdf_policy env = Inr r \<or> se_docx_policy env = Inr r)
      \<and> po_reason_code r = Some c)"
  by (auto simp: policy_verdict_def scan_reason_codes_def split: if_splits sum.splits)

lemma scan_verdict_reason:
  assumes "verdict_reason (scan_verdict cfg H dv env x) = Some c"
  shows "c \<in> set scan_reason_codes \<or> (\<exists>r. (se_pdf_policy env = Inr r \<or> se_docx_policy env = Inr r)
      \<and> po_reason_code r = Some c)"
proof (cases "\<exists>r. scan_verdict cfg H dv env x = stream_verdict env r x")
  case True
  then obtain r where r: "verdict_reason (stream_verdict env r x) = Some c" using assms by auto
  show ?thesis
    using r policy_verdict_reason [of env x c]
    by (cases "sr_outcome r") (auto simp: stream_verdict_def scan_reason_codes_def)
next
  case False
  then have "scan_verdict cfg H dv env x \<in>
      {Failed ''QUARANTINE_INTEGRITY_MISMATCH'', Failed ''SCANNER_UNAVAILABLE'',
       Failed ''SIGNATURE_DATABASE_STALE''}"
    by (auto simp: scan_verdict_def split: option.splits if_splits)
  then show ?thesis using assms by (auto simp: scan_reason_codes_def)
qed

lemma verdict_summary_fixed:
  "verdict_summary v \<in> {None, Some safe_scan_failure_summary, Some safe_malware_summary,
     Some safe_content_policy_summary}"
  by (cases v) auto

text \<open>
  A scan attempt writes only fixed text into the two columns a user may be shown: the
  reason code is unchanged, one of ten constants or an inspector's code, and the summary is
  unchanged or one of three sentences. The signature name in clamd's reply reaches neither.
\<close>

lemma signature_name_not_shown:
  assumes "get_doc s i = Some x" and "d_ingestion_status x = SCANNING" and "d_id x = i"
    and "documents (stored (snd (run_scan cfg H dv env i org s))) i = Some y"
  shows "(d_rejection_reason_code y = d_rejection_reason_code x
          \<or> (\<exists>c \<in> set scan_reason_codes. d_rejection_reason_code y = Some c)
          \<or> (\<exists>r. (se_pdf_policy env = Inr r \<or> se_docx_policy env = Inr r)
                  \<and> d_rejection_reason_code y = po_reason_code r))
    \<and> (d_operator_failure_summary y = d_operator_failure_summary x
       \<or> d_operator_failure_summary y \<in> Some ` {safe_scan_failure_summary, safe_malware_summary,
            safe_content_policy_summary})"
proof -
  let ?v = "scan_verdict cfg H dv env x"
  have reason: "d_rejection_reason_code y = (case verdict_reason ?v of
        None \<Rightarrow> d_rejection_reason_code x | Some c \<Rightarrow> Some c)"
    and summary: "d_operator_failure_summary y = (case verdict_summary ?v of
        None \<Rightarrow> d_operator_failure_summary x | Some c \<Rightarrow> Some c)"
    using run_scan_implements_verdict_aux [OF assms(1-3), of cfg H dv env org] assms(4)
    by (auto simp: Let_def)
  show ?thesis
    using scan_verdict_reason [of cfg H dv env x] verdict_summary_fixed [of ?v] reason summary
    by (cases "verdict_reason ?v"; cases "verdict_summary ?v") auto
qed

theorem signature_name_not_shown_witness:
  "\<exists>y. documents (stored (snd (run_scan demo_scan_config (\<lambda>_. ''h'') ascii_digit demo_scan_env 5 9
         (open_session demo_db)))) 5 = Some y
     \<and> (d_operator_failure_summary y = d_operator_failure_summary demo_document
        \<or> d_operator_failure_summary y \<in> Some ` {safe_scan_failure_summary, safe_malware_summary,
            safe_content_policy_summary})"
  using demo_cleared signature_name_not_shown [OF demo_row] by blast

section \<open>Bounded attempts\<close>

lemma prepare_scan_cases:
  assumes "prepare_scan_attempt cfg i s = (Inr (Some org), s1)" and "get_doc s i = Some x"
    and "d_id x = i"
  shows "d_ingestion_status x = SCAN_FAILED \<and> d_scan_attempt_count x < sc_max_attempts cfg
       \<and> (\<exists>y. get_doc s1 i = Some y \<and> d_ingestion_status y = SCANNING
              \<and> d_scan_attempt_count y = d_scan_attempt_count x \<and> d_id y = i)
    \<or> d_ingestion_status x \<noteq> SCAN_FAILED \<and> s1 = s"
  using assms
  by (auto simp: prepare_scan_attempt_def transition_moves Let_def split: option.splits if_splits)

text \<open>
  A document in SCAN_FAILED that has used its attempts is left exactly as it is: no
  status change, no audit event, no attempt, no new job, whatever delivers the job again.
\<close>

lemma exhausted_scan_is_final:
  assumes "get_doc s i = Some x" and "d_ingestion_status x = SCAN_FAILED"
    and "sc_max_attempts cfg \<le> d_scan_attempt_count x"
  shows "run_scan_sync cfg H dv env i s = (Inr (), s)"
  using assms
  by (auto simp: run_scan_sync_def prepare_scan_attempt_def Let_def split: option.splits)

theorem exhausted_scan_is_final_witness:
  "run_scan_sync demo_scan_config (\<lambda>_. ''h'') ascii_digit demo_scan_env 5
     (open_session (demo_db\<lparr>documents :=
        [5 \<mapsto> demo_document\<lparr>d_ingestion_status := SCAN_FAILED, d_scan_attempt_count := 3\<rparr>]\<rparr>)) =
   (Inr (), open_session (demo_db\<lparr>documents :=
        [5 \<mapsto> demo_document\<lparr>d_ingestion_status := SCAN_FAILED, d_scan_attempt_count := 3\<rparr>]\<rparr>))"
  by (rule exhausted_scan_is_final
      [where x = "demo_document\<lparr>d_ingestion_status := SCAN_FAILED, d_scan_attempt_count := 3\<rparr>"])
     (simp_all add: demo_scan_config_def)

text \<open>Retries are only scheduled within the bound, one attempt after the other.\<close>

lemma scan_again_bounded:
  "outbox (scan_again cfg i s) = outbox s \<or>
   (\<exists>x. get_doc s i = Some x \<and> d_scan_attempt_count x + 1 \<le> sc_max_attempts cfg
      \<and> outbox (scan_again cfg i s) = outbox s @ [ScanRetryJob i (d_scan_attempt_count x + 1)])"
  by (auto simp: scan_again_def split: option.splits)

section \<open>The scan respects the lifecycle\<close>

context db_invariant
begin

lemma concluded_keeps:
  assumes "concluded w x s r" and "holds I s" and "get_doc s (d_id x) = Some x"
    and "d_ingestion_status x = SCANNING"
  shows "holds I (snd r)"
proof -
  obtain y org usr detail where fr: "scan_frame x y" and
    r: "snd r = fold publish (verdict_jobs (d_id x) w)
          (commit (add_audit (move_event y (verdict_status w) org usr (verdict_reason w) detail)
             (put_doc (moved y (verdict_status w) (verdict_reason w) (verdict_summary w)) s)))"
    using assms(1) by (auto simp: concluded_def)
  have "verdict_status w \<in> set (allowed_transitions (d_ingestion_status y))"
    using fr assms(4) by (cases w) (auto simp: scan_frame_status)
  then have "I (work (add_audit (move_event y (verdict_status w) org usr
      (verdict_reason w) detail)
      (put_doc (moved y (verdict_status w) (verdict_reason w) (verdict_summary w)) s)))"
    by (intro keep_moved [OF assms(2) _ scan_frame_identity [OF fr]])
       (use assms(3) fr in \<open>simp_all add: scan_frame_id scan_frame_status\<close>)
  then show ?thesis using assms(2) by (simp add: r holds_def)
qed

lemma run_scan_keeps:
  assumes "holds I s"
  shows "holds I (snd (run_scan cfg H dv env i org s))"
proof (cases "\<exists>x. get_doc s i = Some x \<and> d_ingestion_status x = SCANNING")
  case True
  then obtain x where x: "get_doc s i = Some x" "d_ingestion_status x = SCANNING" by blast
  have id: "d_id x = i" using row_id [OF assms x(1)] .
  have ok: "holds I (commit (put_doc (record_attempt env x) s))"
    by (intro holds_simps(1) keep_put [OF assms]) (use x id in auto)
  obtain w where "concluded w (record_attempt env x) (commit (put_doc (record_attempt env x) s))
      (Inr (), snd (run_scan cfg H dv env i org s))"
    using run_scan_cases [OF x id refl refl, where cfg = cfg and H = H and dv = dv and env = env
        and org = org] by blast
  then show ?thesis
    using concluded_keeps [OF _ ok] x id by fastforce
next
  case False
  then show ?thesis using assms by (subst run_scan_idle) auto
qed

lemma prepare_scan_keeps:
  assumes "holds I s"
  shows "holds I (snd (prepare_scan_attempt cfg i s))"
proof (cases "get_doc s i")
  case None
  then show ?thesis using assms by (simp add: prepare_scan_attempt_def)
next
  case (Some x)
  have "holds I (snd (transition x SCANNING org usr None None None s))" for org usr
    by (rule keep_transition [OF assms]) (use Some row_id [OF assms Some] in auto)
  then show ?thesis
    using assms Some
    by (auto simp: prepare_scan_attempt_def Let_def and_then_def
        split: option.splits prod.splits sum.splits) (metis snd_conv)+
qed

lemma scan_again_keeps: "holds I s \<Longrightarrow> holds I (scan_again cfg i s)"
  by (auto simp: scan_again_def split: option.splits)

lemma run_scan_sync_keeps:
  assumes "holds I s"
  shows "holds I (snd (run_scan_sync cfg H dv env i s))"
proof -
  obtain p s1 where p: "prepare_scan_attempt cfg i s = (p, s1)" by fastforce
  have ok1: "holds I s1" using prepare_scan_keeps [OF assms, of cfg i] p by simp
  have "holds I (snd (and_then (run_scan cfg H dv env i g s1)
      (\<lambda>_ s2. (Inr (), scan_again cfg i s2))))" for g
    using run_scan_keeps [OF ok1, where cfg = cfg and H = H and dv = dv and env = env and i = i and org = g]
    by (auto simp: and_then_def scan_again_keeps split: prod.splits sum.splits)
  then show ?thesis
    using ok1 by (cases p) (auto simp: run_scan_sync_def p split: option.splits)
qed

end

definition scan_job ::
  "scan_config \<Rightarrow> (bytes \<Rightarrow> string) \<Rightarrow> (nat \<Rightarrow> nat option) \<Rightarrow> scan_env \<times> uuid \<Rightarrow> sess \<Rightarrow> sess" where
  "scan_job cfg H dv e s = snd (run_scan_sync cfg H dv (fst e) (snd e) s)"

interpretation scans: document_job "scan_job cfg H dv" for cfg H dv
  by unfold_locales (simp add: scan_job_def db_invariant.run_scan_sync_keeps)

end
