(* ===== verification/Promotion.thy ===== *)
theory Promotion
  imports AuditTrail FileStore
begin

text \<open>
  \<open>app/services/clean_storage_promotion.py\<close>: the staged copy of a scanned document from
  quarantine to clean storage, over the two directories, and the database steps around it.
  \<open>os.read\<close>, \<open>os.write\<close>, \<open>fsync\<close>, rename and unlink may fail, and \<open>os.write\<close> may
  write less than it is given; what they do is the environment of the run.
\<close>

section \<open>Files and environment\<close>

record store =
  st_quarantine :: dir
  st_clean :: dir

text \<open>\<open>pm_write k n\<close> is the result of the \<open>k\<close>-th \<open>os.write\<close> of \<open>n\<close> bytes: \<open>None\<close> raises,
  otherwise the number of bytes written.\<close>

record promote_env =
  pm_now :: time
  pm_completed_at :: time
  pm_new_id :: uuid
  pm_root_fails :: bool
  pm_resolve_fails :: bool
  pm_dir_size :: nat
  pm_existing_read_fails :: bool
  pm_src_open_fails :: bool
  pm_dst_open_fails :: bool
  pm_read_fails :: "nat \<Rightarrow> bool"
  pm_write :: "nat \<Rightarrow> nat \<Rightarrow> nat option"
  pm_fsync_ok :: bool
  pm_replace_ok :: bool
  pm_cleanup_ok :: bool
  pm_unlink_ok :: bool
  pm_os_error :: string

definition copy_chunk_size :: nat where "copy_chunk_size = 65536"

definition clean_name :: "uuid \<Rightarrow> string" where
  "clean_name i = uuid_str i @ ''.clean''"

definition lower_char :: "char \<Rightarrow> char" where
  "lower_char c = (if 65 \<le> (of_char c :: nat) \<and> (of_char c :: nat) \<le> 90
                   then char_of ((of_char c :: nat) + 32) else c)"

definition lower :: "string \<Rightarrow> string" where
  "lower s = map lower_char s"

section \<open>The staged copy\<close>

text \<open>\<open>_perform_staged_copy\<close>, the check of an existing destination: \<open>Some\<close> decides.\<close>

definition check_existing ::
  "(bytes \<Rightarrow> string) \<Rightarrow> promote_env \<Rightarrow> dir \<Rightarrow> string \<Rightarrow> string \<Rightarrow> int \<Rightarrow> (exc + string) option" where
  "check_existing H env clean ident digest sz =
     (if \<not> path_exists clean ident then None
      else if is_symlink clean ident then
        Some (Inl (PromotionError ''PROMOTION_DESTINATION_CONFLICT''
          ''Existing destination is a symlink''))
      else
        let conflict = Some (Inl (PromotionError ''PROMOTION_DESTINATION_CONFLICT''
              (''Destination '' @ ident @ '' exists with conflicting content'')))
        in (case file_content clean ident of
              None \<Rightarrow> if int (pm_dir_size env) = sz
                      then Some (Inl (OtherException (pm_os_error env))) else conflict
            | Some b \<Rightarrow>
                if int (length b) = sz then
                  if pm_existing_read_fails env then Some (Inl (OtherException (pm_os_error env)))
                  else if lower (H b) = lower digest then Some (Inr ident) else conflict
                else conflict))"

text \<open>The copy loop: bytes hashed so far and bytes in the partial file so far.\<close>

function copy_loop ::
  "promote_env \<Rightarrow> nat \<Rightarrow> bytes \<Rightarrow> bytes \<Rightarrow> bytes \<Rightarrow> (exc + unit) \<times> bytes \<times> bytes" where
  "copy_loop env k rest hashed written =
     (if pm_read_fails env k then (Inl (OtherException (pm_os_error env)), hashed, written)
      else let chunk = take copy_chunk_size rest in
        if chunk = [] then (Inr (), hashed, written)
        else (case pm_write env k (length chunk) of
                None \<Rightarrow> (Inl (OtherException (pm_os_error env)), hashed @ chunk, written)
              | Some m \<Rightarrow> copy_loop env (Suc k) (drop copy_chunk_size rest) (hashed @ chunk)
                           (written @ take m chunk)))"
  by pat_completeness auto
termination
  by (relation "measure (\<lambda>(env, k, rest, h, w). length rest)") (auto simp: copy_chunk_size_def)

declare copy_loop.simps [simp del]

definition check_copied ::
  "(bytes \<Rightarrow> string) \<Rightarrow> promote_env \<Rightarrow> string \<Rightarrow> int \<Rightarrow> bytes \<Rightarrow> exc + unit" where
  "check_copied H env digest sz hashed =
     (if int (length hashed) \<noteq> sz then
        Inl (PromotionError ''PROMOTION_DIGEST_MISMATCH''
          (''Copied bytes '' @ show_int (int (length hashed)) @ '' != expected '' @ show_int sz))
      else if lower (H hashed) \<noteq> lower digest then
        Inl (PromotionError ''PROMOTION_DIGEST_MISMATCH''
          (''Digest mismatch: '' @ lower (H hashed) @ '' != '' @ digest))
      else if \<not> pm_fsync_ok env then
        Inl (PromotionError ''PROMOTION_FSYNC_FAILED'' (''Destination fsync failed: '' @ pm_os_error env))
      else Inr ())"

text \<open>From the opened source to the renamed destination.\<close>

definition copy_file ::
  "(bytes \<Rightarrow> string) \<Rightarrow> promote_env \<Rightarrow> bytes \<Rightarrow> dir \<Rightarrow> string \<Rightarrow> string \<Rightarrow> int
    \<Rightarrow> (exc + string) \<times> dir" where
  "copy_file H env src clean ident digest sz =
     (let p = partial_name ident in
      if clean p \<noteq> None \<or> pm_dst_open_fails env then
        (Inl (PromotionError ''PROMOTION_COPY_FAILED''
           (''Cannot create partial destination: '' @ pm_os_error env)), clean)
      else
        (case copy_loop env 0 src [] [] of
           (Inl e, _, written) \<Rightarrow> (Inl e, clean(p \<mapsto> RegularFile written))
         | (Inr _, hashed, written) \<Rightarrow>
             (case check_copied H env digest sz hashed of
                Inl e \<Rightarrow> (Inl e, clean(p \<mapsto> RegularFile written))
              | Inr _ \<Rightarrow>
                  if pm_replace_ok env
                  then (Inr ident, clean(ident \<mapsto> RegularFile written, p := None))
                  else (Inl (PromotionError ''PROMOTION_COPY_FAILED''
                               (''Atomic rename failed: '' @ pm_os_error env)),
                        if pm_cleanup_ok env then clean else clean(p \<mapsto> RegularFile written)))))"

definition perform_staged_copy ::
  "(bytes \<Rightarrow> string) \<Rightarrow> promote_env \<Rightarrow> store \<Rightarrow> string \<Rightarrow> string \<Rightarrow> string \<Rightarrow> int
    \<Rightarrow> (exc + string) \<times> dir" where
  "perform_staged_copy H env fs src ident digest sz =
     (let clean = st_clean fs in
      if \<not> simple_name ident \<or> \<not> resolves_in_root clean ident then
        (Inl (PromotionError ''PROMOTION_SOURCE_INVALID''
           ''Destination path escapes clean storage root''), clean)
      else
        (case check_existing H env clean ident digest sz of
           Some r \<Rightarrow> (r, clean)
         | None \<Rightarrow>
             (case st_quarantine fs src of
                Some (RegularFile b) \<Rightarrow>
                  if pm_src_open_fails env then
                    (Inl (PromotionError ''PROMOTION_SOURCE_MISSING''
                       (''Cannot open source file: '' @ pm_os_error env)), clean)
                  else if int (length b) \<noteq> sz then
                    (Inl (PromotionError ''PROMOTION_DIGEST_MISMATCH''
                       (''Source size '' @ show_int (int (length b)) @ '' != expected ''
                        @ show_int sz)), clean)
                  else copy_file H env b clean ident digest sz
              | Some SubDirectory \<Rightarrow>
                  (Inl (if pm_src_open_fails env
                        then PromotionError ''PROMOTION_SOURCE_MISSING''
                               (''Cannot open source file: '' @ pm_os_error env)
                        else PromotionError ''PROMOTION_SOURCE_INVALID''
                               ''Source is not a regular file''), clean)
              | _ \<Rightarrow>
                  (Inl (PromotionError ''PROMOTION_SOURCE_MISSING''
                     (''Cannot open source file: '' @ pm_os_error env)), clean))))"

definition cleanup_partial_file :: "promote_env \<Rightarrow> dir \<Rightarrow> string \<Rightarrow> dir" where
  "cleanup_partial_file env clean ident =
     (if path_exists clean (partial_name ident) \<and> pm_cleanup_ok env
      then clean(partial_name ident := None) else clean)"

section \<open>promote\_document\<close>

definition promotable :: "ingestion_status \<Rightarrow> bool" where
  "promotable st \<longleftrightarrow> st \<in> {CLEAN_PENDING_PROMOTION, PROMOTING, PROMOTION_FAILED}"

text \<open>Step 1: the row, its tenant, its status and the recorded digest and size.\<close>

definition validate_promotion :: "uuid \<Rightarrow> uuid \<Rightarrow> sess \<Rightarrow> exc + document \<times> string \<times> int" where
  "validate_promotion i org s =
     (case get_doc s i of
        None \<Rightarrow> Inl (PromotionError ''PROMOTION_SOURCE_MISSING'' (''Document '' @ uuid_str i @ '' not found''))
      | Some x \<Rightarrow>
          (let owned = (case projects (work s) (d_project_id x) of
                          None \<Rightarrow> False | Some p \<Rightarrow> pr_organization_id p = org) in
           if \<not> owned then Inl (PromotionError ''PROMOTION_TENANT_MISMATCH''
             (''Tenant '' @ uuid_str org @ '' does not own document '' @ uuid_str i))
           else if \<not> promotable (d_ingestion_status x) then Inl (NotPromotable (d_ingestion_status x))
           else (case (d_sha256_digest x, d_file_size_bytes x) of
                   (Some dg, Some sz) \<Rightarrow>
                     if dg = [] then Inl (PromotionError ''PROMOTION_SOURCE_INVALID''
                       ''Document missing sha256_digest or file_size_bytes'') else Inr (x, dg, sz)
                 | _ \<Rightarrow> Inl (PromotionError ''PROMOTION_SOURCE_INVALID''
                       ''Document missing sha256_digest or file_size_bytes''))))"

definition begin_promotion ::
  "promote_env \<Rightarrow> uuid \<Rightarrow> uuid option \<Rightarrow> string \<Rightarrow> document \<Rightarrow> sess \<Rightarrow> (exc + unit) \<times> sess" where
  "begin_promotion env org usr digest x s =
     (let x1 = x\<lparr>d_promotion_started_at := Some (pm_now env),
                 d_promotion_attempt_count := d_promotion_attempt_count x + 1\<rparr>
      in transition x1 PROMOTING org usr None None
           (Some [''promotion_attempt'' \<mapsto> JInt (int (d_promotion_attempt_count x1)),
                  ''source_digest'' \<mapsto> JStr digest]) s)"

text \<open>Step 2: resolve the source and copy.\<close>

definition locate_source :: "promote_env \<Rightarrow> dir \<Rightarrow> document \<Rightarrow> exc + string" where
  "locate_source env quarantine x =
     (let ident = (if d_file_path x = [] then []
                   else removesuffix (path_name (d_file_path x)) ''.upload'') in
      if pm_resolve_fails env then
        Inl (PromotionError ''PROMOTION_SOURCE_INVALID''
          (''Quarantine path resolution failed: '' @ pm_os_error env))
      else
        (case resolve_quarantine_path quarantine (RefText ident) of
           Inl e \<Rightarrow> Inl (PromotionError ''PROMOTION_SOURCE_INVALID''
             (''Quarantine path resolution failed: ''
              @ (case e of QuarantineStorageError c \<Rightarrow> c | _ \<Rightarrow> [])))
         | Inr n \<Rightarrow>
             if path_exists quarantine n then Inr n
             else Inl (PromotionError ''PROMOTION_SOURCE_MISSING''
               (''Quarantine source file missing at '' @ d_file_path x))))"

definition copy_to_clean ::
  "(bytes \<Rightarrow> string) \<Rightarrow> promote_env \<Rightarrow> document \<Rightarrow> string \<Rightarrow> string \<Rightarrow> int \<Rightarrow> store
    \<Rightarrow> (exc + string) \<times> store" where
  "copy_to_clean H env x ident digest sz fs =
     (case locate_source env (st_quarantine fs) x of
        Inl e \<Rightarrow> (Inl e, fs)
      | Inr src \<Rightarrow>
          (case perform_staged_copy H env fs src ident digest sz of
             (Inl e, clean) \<Rightarrow> (Inl e, fs\<lparr>st_clean := clean\<rparr>)
           | (Inr _, clean) \<Rightarrow> (Inr src, fs\<lparr>st_clean := clean\<rparr>)))"

text \<open>The two handlers of a failed copy: what is raised, and what the row records.\<close>

definition promotion_failure :: "exc \<Rightarrow> string \<times> string" where
  "promotion_failure e =
     (case e of PromotionError code msg \<Rightarrow> (code, msg)
      | OtherException msg \<Rightarrow> (''PROMOTION_COPY_FAILED'', ''Unexpected copy failure: '' @ msg)
      | _ \<Rightarrow> (''PROMOTION_COPY_FAILED'', ''Unexpected copy failure: ''))"

definition record_promotion_failure ::
  "uuid \<Rightarrow> uuid \<Rightarrow> uuid option \<Rightarrow> exc \<Rightarrow> sess \<Rightarrow> (exc + 'a) \<times> sess" where
  "record_promotion_failure i org usr e s =
     (let (code, msg) = promotion_failure e in
      case get_doc s i of
        None \<Rightarrow> (Inl (PromotionError code msg), s)
      | Some y \<Rightarrow>
          if d_ingestion_status y = PROMOTING then
            and_then (transition y PROMOTION_FAILED org usr (Some code) (Some msg) None s)
              (\<lambda>_ s1. (Inl (PromotionError code msg), s1))
          else (Inl (PromotionError code msg), s))"

text \<open>Step 3: point the row at the clean file and move it to CLEAN.\<close>

definition finish_promotion ::
  "promote_env \<Rightarrow> uuid \<Rightarrow> uuid \<Rightarrow> uuid option \<Rightarrow> string \<Rightarrow> sess \<Rightarrow> (exc + unit) \<times> sess" where
  "finish_promotion env i org usr ident s =
     (let changed = Inl (PromotionError ''PROMOTION_DATABASE_FAILED''
                          ''Document state changed during promotion'') in
      case get_doc s i of
        None \<Rightarrow> (changed, s)
      | Some y \<Rightarrow>
          if d_ingestion_status y \<noteq> PROMOTING then (changed, s)
          else
            and_then (transition (y\<lparr>d_file_path := ident, d_clean_storage_identifier := Some ident,
                                    d_promotion_completed_at := Some (pm_completed_at env)\<rparr>)
                        CLEAN org usr None None
                        (Some [''clean_storage_identifier'' \<mapsto> JStr ident,
                               ''clean_file_path'' \<mapsto> JStr ident]) s)
              (\<lambda>_ s1. (Inr (), publish (ParseJob i) s1)))"

text \<open>Step 4: remove the quarantine source, or note that it is still there.\<close>

definition cleanup_source ::
  "promote_env \<Rightarrow> uuid \<Rightarrow> string \<Rightarrow> sess \<Rightarrow> store \<Rightarrow> sess \<times> store" where
  "cleanup_source env i src s fs =
     (if path_exists (st_quarantine fs) src \<and> \<not> is_symlink (st_quarantine fs) src
         \<and> st_quarantine fs src \<noteq> Some SubDirectory \<and> pm_unlink_ok env
      then (s, fs\<lparr>st_quarantine := (st_quarantine fs)(src := None)\<rparr>)
      else
        (case get_doc s i of
           None \<Rightarrow> (s, fs)
         | Some y \<Rightarrow> (commit (put_doc (y\<lparr>d_cleanup_pending := True\<rparr>) s), fs)))"

definition promote_document ::
  "(bytes \<Rightarrow> string) \<Rightarrow> promote_env \<Rightarrow> uuid \<Rightarrow> uuid \<Rightarrow> uuid option \<Rightarrow> sess \<Rightarrow> store
    \<Rightarrow> (exc + unit) \<times> sess \<times> store" where
  "promote_document H env i org usr s fs =
     (case validate_promotion i org s of
        Inl e \<Rightarrow> (Inl e, s, fs)
      | Inr (x, digest, sz) \<Rightarrow>
          (case begin_promotion env org usr digest x s of
             (Inl e, s1) \<Rightarrow> (Inl e, s1, fs)
           | (Inr _, s1) \<Rightarrow>
               if pm_root_fails env then (Inl (OtherException (pm_os_error env)), s1, fs)
               else
                 let ident = (case d_clean_storage_identifier x of
                                Some c \<Rightarrow> if c = [] then clean_name (pm_new_id env) else c
                              | None \<Rightarrow> clean_name (pm_new_id env))
                 in
                 (case copy_to_clean H env x ident digest sz fs of
                    (Inl e, fs1) \<Rightarrow>
                      (let fs2 = fs1\<lparr>st_clean := cleanup_partial_file env (st_clean fs1) ident\<rparr>;
                           (r, s2) = record_promotion_failure i org usr e s1
                       in (r, s2, fs2))
                  | (Inr src, fs1) \<Rightarrow>
                      (case finish_promotion env i org usr ident s1 of
                         (Inl e, s2) \<Rightarrow> (Inl e, s2, fs1)
                       | (Inr _, s2) \<Rightarrow>
                           (let (s3, fs2) = cleanup_source env i src s2 fs1
                            in (Inr (), s3, fs2))))))"

section \<open>The copy\<close>

definition full_writes :: "promote_env \<Rightarrow> bool" where
  "full_writes env \<longleftrightarrow> (\<forall>k n. pm_write env k n = Some n)"

lemma copy_loop_done:
  "copy_loop env k rest h w = (Inr (), h', w') \<Longrightarrow>
   h' = h @ rest \<and> (full_writes env \<longrightarrow> w' = w @ rest)"
proof (induction env k rest h w rule: copy_loop.induct)
  case (1 env k rest h w)
  show ?case
  proof (cases "rest = []")
    case True
    with "1.prems" show ?thesis by (subst (asm) copy_loop.simps) (auto split: if_splits)
  next
    case False
    let ?c = "take copy_chunk_size rest"
    have c: "?c \<noteq> []" using False by (simp add: copy_chunk_size_def)
    obtain m where step: "\<not> pm_read_fails env k" "pm_write env k (length ?c) = Some m"
      "copy_loop env (Suc k) (drop copy_chunk_size rest) (h @ ?c) (w @ take m ?c) = (Inr (), h', w')"
      using "1.prems" c
      by (subst (asm) copy_loop.simps; auto simp: Let_def split: if_splits option.splits)
    have "h' = (h @ ?c) @ drop copy_chunk_size rest
        \<and> (full_writes env \<longrightarrow> w' = (w @ take m ?c) @ drop copy_chunk_size rest)"
      by (rule "1.IH" [OF step(1) refl c step(2,3)])
    moreover have "full_writes env \<Longrightarrow> take m ?c = ?c"
      using step(2) by (auto simp: full_writes_def min_def)
    ultimately show ?thesis by (metis append.assoc append_take_drop_id)
  qed
qed

text \<open>What a successful staged copy leaves in clean storage.\<close>

definition clean_copy_ok ::
  "(bytes \<Rightarrow> string) \<Rightarrow> string \<Rightarrow> int \<Rightarrow> dir \<Rightarrow> string \<Rightarrow> bool" where
  "clean_copy_ok H digest sz clean ident \<longleftrightarrow>
     (\<exists>b. file_content clean ident = Some b \<and> int (length b) = sz \<and> lower (H b) = lower digest)"

lemma copy_file_ok:
  assumes "copy_file H env src clean ident digest sz = (Inr r, clean')" and "full_writes env"
  shows "clean_copy_ok H digest sz clean' ident"
proof -
  obtain h w where l: "copy_loop env 0 src [] [] = (Inr (), h, w)"
    and c: "check_copied H env digest sz h = Inr ()"
    and cl: "clean' = clean(ident \<mapsto> RegularFile w, partial_name ident := None)"
    using assms(1) by (auto simp: copy_file_def Let_def split: if_splits prod.splits sum.splits)
  have "h = src" "w = src" using copy_loop_done [OF l] assms(2) by auto
  then show ?thesis
    using c by (auto simp: cl clean_copy_ok_def file_content_def check_copied_def split: if_splits)
qed

lemma check_existing_ok:
  "check_existing H env clean ident digest sz = Some (Inr r) \<Longrightarrow>
   clean_copy_ok H digest sz clean ident"
  by (auto simp: check_existing_def clean_copy_ok_def Let_def split: if_splits option.splits)

lemma staged_copy_ok:
  assumes "perform_staged_copy H env fs src ident digest sz = (Inr r, clean')"
    and "full_writes env"
  shows "clean_copy_ok H digest sz clean' ident"
  using assms
  by (auto simp: perform_staged_copy_def Let_def intro: check_existing_ok copy_file_ok
      split: if_splits option.splits node.splits)

text \<open>A failed one touches nothing but the partial file.\<close>

lemma copy_file_frame:
  "copy_file H env src clean ident digest sz = (Inl e, clean') \<Longrightarrow>
   clean' = clean \<or> (\<exists>w. clean' = clean(partial_name ident \<mapsto> RegularFile w))"
  by (auto simp: copy_file_def Let_def split: if_splits prod.splits sum.splits)

lemma staged_copy_frame:
  "perform_staged_copy H env fs src ident digest sz = (Inl e, clean') \<Longrightarrow>
   clean' = st_clean fs \<or> (\<exists>w. clean' = (st_clean fs)(partial_name ident \<mapsto> RegularFile w))"
  by (auto simp: perform_staged_copy_def Let_def dest: copy_file_frame
      split: if_splits option.splits node.splits)

lemma copy_to_clean_frame:
  "copy_to_clean H env x ident digest sz fs = (r, fs') \<Longrightarrow> st_quarantine fs' = st_quarantine fs"
  by (auto simp: copy_to_clean_def split: sum.splits prod.splits)

lemma copy_to_clean_failed:
  "copy_to_clean H env x ident digest sz fs = (Inl e, fs') \<Longrightarrow> n \<noteq> partial_name ident \<Longrightarrow>
   st_clean fs' n = st_clean fs n"
  by (auto simp: copy_to_clean_def dest!: staged_copy_frame split: sum.splits prod.splits)

lemma copy_to_clean_ok:
  assumes "copy_to_clean H env x ident digest sz fs = (Inr src, fs')" and "full_writes env"
  shows "clean_copy_ok H digest sz (st_clean fs') ident"
    and "locate_source env (st_quarantine fs) x = Inr src"
  using assms
  by (auto simp: copy_to_clean_def dest: staged_copy_ok split: sum.splits prod.splits)

section \<open>The database steps\<close>

definition promo_frame :: "document \<Rightarrow> document \<Rightarrow> bool" where
  "promo_frame x y \<longleftrightarrow> d_id y = d_id x \<and> d_sha256_digest y = d_sha256_digest x
     \<and> d_file_size_bytes y = d_file_size_bytes x \<and> d_project_id y = d_project_id x
     \<and> d_created_by_id y = d_created_by_id x"

lemma validate_ok:
  "validate_promotion i org s = Inr (x, dg, sz) \<Longrightarrow>
   get_doc s i = Some x \<and> promotable (d_ingestion_status x) \<and> d_sha256_digest x = Some dg
   \<and> d_file_size_bytes x = Some sz
   \<and> (\<exists>p. projects (work s) (d_project_id x) = Some p \<and> pr_organization_id p = org)"
  by (auto simp: validate_promotion_def Let_def split: option.splits if_splits)

lemma begin_promotion_row:
  assumes "get_doc s i = Some x" and "d_id x = i" and "promotable (d_ingestion_status x)"
  obtains y s1 where "begin_promotion env org usr dg x s = (Inr (), s1)"
    and "get_doc s1 i = Some y" and "d_ingestion_status y = PROMOTING" and "promo_frame x y"
    and "outbox s1 = outbox s" and "\<And>j. j \<noteq> i \<Longrightarrow> get_doc s1 j = get_doc s j"
proof (cases "d_ingestion_status x = PROMOTING")
  case True
  then show ?thesis
    using assms that by (auto simp: begin_promotion_def transition_noop is_declared_def promo_frame_def)
next
  case False
  then have "PROMOTING \<in> set (allowed_transitions (d_ingestion_status x))"
    using assms(3) by (auto simp: promotable_def)
  then show ?thesis
    using assms that by (auto simp: begin_promotion_def transition_moves Let_def promo_frame_def)
qed

lemma record_failure_row:
  assumes "get_doc s i = Some x" and "d_id x = i" and "d_ingestion_status x = PROMOTING"
  shows "\<exists>y. record_promotion_failure i org usr e s =
       (Inl (PromotionError (fst (promotion_failure e)) (snd (promotion_failure e))),
        snd (record_promotion_failure i org usr e s :: (exc + 'a) \<times> sess))
     \<and> documents (stored (snd (record_promotion_failure i org usr e s :: (exc + 'a) \<times> sess))) i = Some y
     \<and> d_ingestion_status y = PROMOTION_FAILED
     \<and> d_rejection_reason_code y = Some (fst (promotion_failure e))
     \<and> d_operator_failure_summary y = Some (snd (promotion_failure e))
     \<and> outbox (snd (record_promotion_failure i org usr e s :: (exc + 'a) \<times> sess)) = outbox s"
  using assms
  by (auto simp: record_promotion_failure_def transition_moves Let_def moved_def split: prod.splits)

lemma finish_promotion_row:
  assumes "get_doc s i = Some x" and "d_id x = i" and "d_ingestion_status x = PROMOTING"
  obtains y s1 where "finish_promotion env i org usr ident s = (Inr (), s1)"
    and "get_doc s1 i = Some y" and "stored s1 = work s1" and "d_ingestion_status y = CLEAN"
    and "promo_frame x y" and "d_file_path y = ident"
    and "d_clean_storage_identifier y = Some ident" and "outbox s1 = outbox s @ [ParseJob i]"
  using assms
  by (auto simp: finish_promotion_def transition_moves Let_def promo_frame_def get_doc_def)

lemma cleanup_source_row:
  assumes "get_doc s i = Some x" and "d_id x = i" and "stored s = work s"
    and "cleanup_source env i src s fs = (s', fs')"
  shows "st_clean fs' = st_clean fs \<and> outbox s' = outbox s \<and>
    (\<exists>y. documents (stored s') i = Some y \<and> (y = x \<or> y = x\<lparr>d_cleanup_pending := True\<rparr>)
       \<and> (st_quarantine fs' src = None \<or> d_cleanup_pending y))"
  using assms by (auto simp: cleanup_source_def get_doc_def split: if_splits)

section \<open>promote\_document as a whole\<close>

text \<open>The identifier a run uses for the clean file.\<close>

definition target_ident :: "promote_env \<Rightarrow> document \<Rightarrow> string" where
  "target_ident env x = (case d_clean_storage_identifier x of
      Some c \<Rightarrow> if c = [] then clean_name (pm_new_id env) else c
    | None \<Rightarrow> clean_name (pm_new_id env))"

lemma promote_after_begin:
  assumes "validate_promotion i org s = Inr (x, dg, sz)"
    and "begin_promotion env org usr dg x s = (Inr (), s1)"
  shows "promote_document H env i org usr s fs =
    (if pm_root_fails env then (Inl (OtherException (pm_os_error env)), s1, fs)
     else (case copy_to_clean H env x (target_ident env x) dg sz fs of
             (Inl e, fs1) \<Rightarrow>
               (fst (record_promotion_failure i org usr e s1),
                snd (record_promotion_failure i org usr e s1 :: (exc + unit) \<times> sess),
                fs1\<lparr>st_clean := cleanup_partial_file env (st_clean fs1) (target_ident env x)\<rparr>)
           | (Inr src, fs1) \<Rightarrow>
               (case finish_promotion env i org usr (target_ident env x) s1 of
                  (Inl e, s2) \<Rightarrow> (Inl e, s2, fs1)
                | (Inr _, s2) \<Rightarrow>
                    (Inr (), fst (cleanup_source env i src s2 fs1),
                     snd (cleanup_source env i src s2 fs1)))))"
  using assms
  by (simp add: promote_document_def target_ident_def Let_def split: prod.splits sum.splits)

lemma promotion_success:
  assumes ok: "sess_ok s"
    and run: "promote_document H env i org usr s fs = (Inr (), s', fs')"
    and full: "full_writes env"
  shows "\<exists>x y src dg b. get_doc s i = Some x \<and> promotable (d_ingestion_status x)
    \<and> locate_source env (st_quarantine fs) x = Inr src
    \<and> documents (stored s') i = Some y \<and> d_ingestion_status y = CLEAN
    \<and> d_sha256_digest x = Some dg \<and> d_sha256_digest y = Some dg
    \<and> d_clean_storage_identifier y = Some (d_file_path y)
    \<and> file_content (st_clean fs') (d_file_path y) = Some b
    \<and> lower (H b) = lower dg \<and> d_file_size_bytes y = Some (int (length b))
    \<and> (st_quarantine fs' src = None \<or> d_cleanup_pending y)
    \<and> outbox s' = outbox s @ [ParseJob i]"
proof -
  obtain x dg sz where v: "validate_promotion i org s = Inr (x, dg, sz)"
    using run by (auto simp: promote_document_def split: sum.splits)
  note x = validate_ok [OF v]
  have id: "d_id x = i" using lifecycle.row_id [OF ok] x by blast
  obtain y1 s1 where b: "begin_promotion env org usr dg x s = (Inr (), s1)"
    and y1: "get_doc s1 i = Some y1" "d_ingestion_status y1 = PROMOTING" "promo_frame x y1"
    and o1: "outbox s1 = outbox s"
    using begin_promotion_row x id by metis
  have id1: "d_id y1 = i" using y1(3) id by (simp add: promo_frame_def)
  obtain y2 s2 where f: "finish_promotion env i org usr (target_ident env x) s1 = (Inr (), s2)"
    and y2: "get_doc s2 i = Some y2" "stored s2 = work s2" "d_ingestion_status y2 = CLEAN"
      "promo_frame y1 y2" "d_file_path y2 = target_ident env x"
      "d_clean_storage_identifier y2 = Some (target_ident env x)"
      "outbox s2 = outbox s1 @ [ParseJob i]"
    using finish_promotion_row [OF y1(1) id1 y1(2)] by metis
  have id2: "d_id y2 = i" using y2(4) id1 by (simp add: promo_frame_def)
  obtain src fs1 where c: "copy_to_clean H env x (target_ident env x) dg sz fs = (Inr src, fs1)"
    and e: "cleanup_source env i src s2 fs1 = (s', fs')"
    using run unfolding promote_after_begin [OF v b]
    by (auto simp: f record_promotion_failure_def and_then_def Let_def
        split: if_splits prod.splits sum.splits option.splits)
  note cp = copy_to_clean_ok [OF c full]
  show ?thesis
    using cleanup_source_row [OF y2(1) id2 y2(2) e] cp x y1(3) y2 o1
    by (auto simp: clean_copy_ok_def promo_frame_def)
qed


lemma promotion_failure_cases:
  assumes ok: "sess_ok s"
    and run: "promote_document H env i org usr s fs = (Inl e, s', fs')"
  shows "st_quarantine fs' = st_quarantine fs \<and> outbox s' = outbox s
    \<and> (s' = s \<and> fs' = fs \<and> (\<forall>r. validate_promotion i org s \<noteq> Inr r)
       \<or> (\<exists>x. get_doc s i = Some x \<and> promotable (d_ingestion_status x)
            \<and> (\<forall>n. n \<noteq> partial_name (target_ident env x) \<longrightarrow> st_clean fs' n = st_clean fs n)
            \<and> (pm_root_fails env \<and> fs' = fs
               \<or> (\<exists>y code. e = PromotionError code (the (d_operator_failure_summary y))
                    \<and> documents (stored s') i = Some y
                    \<and> d_ingestion_status y = PROMOTION_FAILED
                    \<and> d_rejection_reason_code y = Some code))
            \<and> (pm_root_fails env \<or> \<not> pm_cleanup_ok env
               \<or> \<not> path_exists (st_clean fs') (partial_name (target_ident env x)))))"
proof (cases "\<exists>r. validate_promotion i org s = Inr r")
  case False
  then show ?thesis using run by (auto simp: promote_document_def split: sum.splits)
next
  case True
  then obtain x dg sz where v: "validate_promotion i org s = Inr (x, dg, sz)" by auto
  note x = validate_ok [OF v]
  have id: "d_id x = i" using lifecycle.row_id [OF ok] x by blast
  obtain y1 s1 where b: "begin_promotion env org usr dg x s = (Inr (), s1)"
    and y1: "get_doc s1 i = Some y1" "d_ingestion_status y1 = PROMOTING" "promo_frame x y1"
    and o1: "outbox s1 = outbox s"
    using begin_promotion_row x id by metis
  have id1: "d_id y1 = i" using y1(3) id by (simp add: promo_frame_def)
  show ?thesis
  proof (cases "pm_root_fails env")
    case True
    then show ?thesis using run o1 x unfolding promote_after_begin [OF v b] by auto
  next
    case False
    obtain s2 where f: "finish_promotion env i org usr (target_ident env x) s1 = (Inr (), s2)"
      using finish_promotion_row [OF y1(1) id1 y1(2)] by metis
    let ?rec = "\<lambda>c. record_promotion_failure i org usr c s1 :: (exc + unit) \<times> sess"
    obtain c fs1 where c: "copy_to_clean H env x (target_ident env x) dg sz fs = (Inl c, fs1)"
      and r: "fst (?rec c) = Inl e" "s' = snd (?rec c)"
        "fs' = fs1\<lparr>st_clean := cleanup_partial_file env (st_clean fs1) (target_ident env x)\<rparr>"
      using run False unfolding promote_after_begin [OF v b]
      by (auto simp: f split: prod.splits sum.splits)
    obtain y where y: "documents (stored s') i = Some y" "d_ingestion_status y = PROMOTION_FAILED"
      "d_rejection_reason_code y = Some (fst (promotion_failure c))"
      "d_operator_failure_summary y = Some (snd (promotion_failure c))" "outbox s' = outbox s1"
      "e = PromotionError (fst (promotion_failure c)) (snd (promotion_failure c))"
      using record_failure_row [OF y1(1) id1 y1(2), where 'a = unit and e = c and org = org and usr = usr]
        r(1,2) by (metis Inl_inject fst_conv)
    have "st_clean fs' n = st_clean fs n" if "n \<noteq> partial_name (target_ident env x)" for n
      using copy_to_clean_failed [OF c that] that r(3) by (simp add: cleanup_partial_file_def)
    moreover have "\<not> path_exists (st_clean fs') (partial_name (target_ident env x))"
      if "pm_cleanup_ok env"
      using that r(3) by (simp add: cleanup_partial_file_def path_exists_def)
    ultimately show ?thesis
      using copy_to_clean_frame [OF c] r(3) y o1 x by auto
  qed
qed


section \<open>Concrete runs\<close>

definition demo_promote_env :: promote_env where
  "demo_promote_env = \<lparr>pm_now = 0, pm_completed_at = 1, pm_new_id = 3, pm_root_fails = False,
     pm_resolve_fails = False, pm_dir_size = 0, pm_existing_read_fails = False,
     pm_src_open_fails = False, pm_dst_open_fails = False, pm_read_fails = (\<lambda>_. False),
     pm_write = (\<lambda>_ n. Some n), pm_fsync_ok = True, pm_replace_ok = True, pm_cleanup_ok = True,
     pm_unlink_ok = True, pm_os_error = ''error''\<rparr>"

text \<open>An injective stand-in for the digest: one lower-case letter per byte.\<close>

definition demo_hash :: "bytes \<Rightarrow> string" where
  "demo_hash b = map (\<lambda>n. char_of (97 + n)) b"

definition demo_clean_doc :: document where
  "demo_clean_doc = (new_document 5 1 2 (uni ''rfp.pdf'') (quarantine_name 7) ''pdf'')
     \<lparr>d_ingestion_status := CLEAN_PENDING_PROMOTION, d_sha256_digest := Some (demo_hash [1, 2, 3]),
      d_file_size_bytes := Some 3\<rparr>"

definition demo_promote_db :: db where
  "demo_promote_db = empty_db\<lparr>documents := [5 \<mapsto> demo_clean_doc],
     projects := [1 \<mapsto> \<lparr>pr_id = 1, pr_organization_id = 9, pr_name = uni ''p'', pr_created_by_id = 2,
       pr_client_name = uni ''c'', pr_due_date = None, pr_status = ''draft''\<rparr>],
     audit := [\<lparr>ev_organization_id = 9, ev_user_id = None, ev_action = transition_action,
        ev_entity_type = ''Document'', ev_entity_id = 5,
        ev_details = [''from'' \<mapsto> JStatus QUARANTINED, ''to'' \<mapsto> JStatus VALIDATING]\<rparr>,
       \<lparr>ev_organization_id = 9, ev_user_id = None, ev_action = transition_action,
        ev_entity_type = ''Document'', ev_entity_id = 5,
        ev_details = [''from'' \<mapsto> JStatus VALIDATING, ''to'' \<mapsto> JStatus SCANNING]\<rparr>,
       \<lparr>ev_organization_id = 9, ev_user_id = None, ev_action = transition_action,
        ev_entity_type = ''Document'', ev_entity_id = 5,
        ev_details = [''from'' \<mapsto> JStatus SCANNING, ''to'' \<mapsto> JStatus CLEAN_PENDING_PROMOTION]\<rparr>]\<rparr>"

definition demo_store :: store where
  "demo_store = \<lparr>st_quarantine = [quarantine_name 7 \<mapsto> RegularFile [1, 2, 3]], st_clean = Map.empty\<rparr>"

lemma demo_promote_ok: "sess_ok (open_session demo_promote_db)"
proof -
  have "trail 5 (audit demo_promote_db) =
      [(QUARANTINED, VALIDATING), (VALIDATING, SCANNING), (SCANNING, CLEAN_PENDING_PROMOTION)]"
    by (simp add: demo_promote_db_def trail_def is_move_of_def status_at_def)
  moreover have "trail i (audit demo_promote_db) = []" if "i \<noteq> 5" for i
    using that by (simp add: demo_promote_db_def trail_def is_move_of_def)
  ultimately have "lifecycle_ok demo_promote_db"
    by (auto simp: lifecycle_ok_def keyed_def demo_promote_db_def demo_clean_doc_def empty_db_def
        start_status_def intro!: exI [of _ QUARANTINED])
  then show ?thesis by simp
qed

lemma demo_valid: "validate_promotion 5 9 (open_session demo_promote_db) =
    Inr (demo_clean_doc, demo_hash [1, 2, 3], 3)"
  by (simp add: validate_promotion_def demo_promote_db_def demo_clean_doc_def promotable_def
      demo_hash_def)

lemma demo_source:
  assumes "st_quarantine fs (quarantine_name 7) = Some (RegularFile b)" and "\<not> pm_resolve_fails env"
  shows "locate_source env (st_quarantine fs) demo_clean_doc = Inr (quarantine_name 7)"
proof -
  have "removesuffix (quarantine_name 7) ''.upload'' = uuid_str 7"
    by (simp add: removesuffix_def quarantine_name_def)
  moreover have "quarantine_name 7 \<noteq> []" by (simp add: quarantine_name_def)
  ultimately show ?thesis
    using assms
    by (simp add: locate_source_def demo_clean_doc_def path_name_simple quarantine_name_simple
        resolve_text resolve_plain is_symlink_def path_exists_def)
qed

lemma clean_name_simple: "simple_name (clean_name i)"
proof -
  have "length (clean_name i) = 42" by (simp add: clean_name_def uuid_str_length)
  moreover have "CHR ''/'' \<notin> set (clean_name i)"
    using uuid_str_chars [of "CHR ''/''" i] by (auto simp: clean_name_def hex_char_def)
  ultimately show ?thesis by (auto simp: simple_name_def)
qed

text \<open>One run on a three-byte file, for any behaviour of the only write.\<close>

lemma demo_copy:
  assumes "w 0 3 = Some m"
  shows "copy_to_clean demo_hash (demo_promote_env\<lparr>pm_write := w\<rparr>) demo_clean_doc (clean_name 3)
      (demo_hash [1, 2, 3]) 3 demo_store =
    (Inr (quarantine_name 7), demo_store\<lparr>st_clean := [clean_name 3 \<mapsto> RegularFile (take m [1, 2, 3])]\<rparr>)"
proof -
  let ?env = "demo_promote_env\<lparr>pm_write := w\<rparr>"
  have "copy_loop ?env 0 [1, 2, 3] [] [] = (Inr (), [1, 2, 3], take m [1, 2, 3])"
    using assms
    by (simp add: copy_loop.simps copy_chunk_size_def demo_promote_env_def numeral_3_eq_3 Let_def)
  then have "copy_file demo_hash ?env [1, 2, 3] Map.empty (clean_name 3) (demo_hash [1, 2, 3]) 3 =
      (Inr (clean_name 3), [clean_name 3 \<mapsto> RegularFile (take m [1, 2, 3])])"
    by (simp add: copy_file_def check_copied_def Let_def demo_promote_env_def fun_upd_twist
        fun_upd_idem)
  then have "perform_staged_copy demo_hash ?env demo_store (quarantine_name 7) (clean_name 3)
      (demo_hash [1, 2, 3]) 3 =
      (Inr (clean_name 3), [clean_name 3 \<mapsto> RegularFile (take m [1, 2, 3])])"
    by (simp add: perform_staged_copy_def clean_name_simple resolves_in_root_def check_existing_def
        path_exists_def demo_store_def demo_promote_env_def)
  moreover have "locate_source ?env (st_quarantine demo_store) demo_clean_doc
      = Inr (quarantine_name 7)"
    by (rule demo_source [of _ "[1, 2, 3]"]) (simp_all add: demo_store_def demo_promote_env_def)
  ultimately show ?thesis
    by (simp add: copy_to_clean_def)
qed

lemma demo_run:
  assumes "w 0 3 = Some m"
  shows "\<exists>s'. promote_document demo_hash (demo_promote_env\<lparr>pm_write := w\<rparr>) 5 9 None
      (open_session demo_promote_db) demo_store =
      (Inr (), s', \<lparr>st_quarantine = Map.empty,
                    st_clean = [clean_name 3 \<mapsto> RegularFile (take m [1, 2, 3])]\<rparr>)
    \<and> (\<exists>y. documents (stored s') 5 = Some y \<and> d_ingestion_status y = CLEAN
         \<and> d_file_path y = clean_name 3 \<and> d_file_size_bytes y = Some 3)"
proof -
  let ?env = "demo_promote_env\<lparr>pm_write := w\<rparr>"
  have x: "get_doc (open_session demo_promote_db) 5 = Some demo_clean_doc" "d_id demo_clean_doc = 5"
    "promotable (d_ingestion_status demo_clean_doc)" "d_file_size_bytes demo_clean_doc = Some 3"
    by (simp_all add: demo_promote_db_def demo_clean_doc_def promotable_def)
  have tgt: "target_ident ?env demo_clean_doc = clean_name 3"
    by (simp add: target_ident_def demo_clean_doc_def demo_promote_env_def new_document_def)
  obtain y1 s1 where b: "begin_promotion ?env 9 None (demo_hash [1, 2, 3]) demo_clean_doc
        (open_session demo_promote_db) = (Inr (), s1)"
    and y1: "get_doc s1 5 = Some y1" "d_ingestion_status y1 = PROMOTING" "promo_frame demo_clean_doc y1"
    using begin_promotion_row [OF x(1-3)] by metis
  have id1: "d_id y1 = 5" using y1(3) x(2) by (simp add: promo_frame_def)
  obtain y2 s2 where f: "finish_promotion ?env 5 9 None (clean_name 3) s1 = (Inr (), s2)"
    and y2: "get_doc s2 5 = Some y2" "stored s2 = work s2" "d_ingestion_status y2 = CLEAN"
      "promo_frame y1 y2" "d_file_path y2 = clean_name 3"
    using finish_promotion_row [OF y1(1) id1 y1(2)] by metis
  have env: "pm_root_fails ?env = False" "pm_unlink_ok ?env"
    by (simp_all add: demo_promote_env_def)
  have "promote_document demo_hash ?env 5 9 None (open_session demo_promote_db) demo_store =
      (Inr (), s2, \<lparr>st_quarantine = Map.empty,
                    st_clean = [clean_name 3 \<mapsto> RegularFile (take m [1, 2, 3])]\<rparr>)"
    unfolding promote_after_begin [OF demo_valid b] tgt demo_copy [where w = w, OF assms]
    by (simp add: f env cleanup_source_def demo_store_def path_exists_def is_symlink_def)
  then show ?thesis
    using y2 y1(3) x(4) by (auto simp: promo_frame_def get_doc_def)
qed



section \<open>What the checks do not catch\<close>


text \<open>
  The text of a promotion error becomes the operator summary as it is: when the source
  file has disappeared, the stored path of the document is written into
  \<open>operator_failure_summary\<close>.
\<close>

lemma missing_source_discloses_path:
  assumes "sess_ok s" and "validate_promotion i org s = Inr (x, dg, sz)"
    and "\<not> pm_root_fails env" and "\<not> pm_resolve_fails env" and "d_file_path x \<noteq> []"
    and "resolve_quarantine_path (st_quarantine fs)
           (RefText (removesuffix (path_name (d_file_path x)) ''.upload'')) = Inr n"
    and "\<not> path_exists (st_quarantine fs) n"
  shows "\<exists>y. documents (stored (fst (snd (promote_document H env i org usr s fs)))) i = Some y
    \<and> d_ingestion_status y = PROMOTION_FAILED
    \<and> d_operator_failure_summary y = Some (''Quarantine source file missing at '' @ d_file_path x)"
proof -
  note x = validate_ok [OF assms(2)]
  have id: "d_id x = i" using lifecycle.row_id [OF assms(1)] x by blast
  obtain y1 s1 where b: "begin_promotion env org usr dg x s = (Inr (), s1)"
    and y1: "get_doc s1 i = Some y1" "d_ingestion_status y1 = PROMOTING" "promo_frame x y1"
    using begin_promotion_row x id by metis
  have id1: "d_id y1 = i" using y1(3) id by (simp add: promo_frame_def)
  let ?e = "PromotionError ''PROMOTION_SOURCE_MISSING''
              (''Quarantine source file missing at '' @ d_file_path x)"
  have "copy_to_clean H env x (target_ident env x) dg sz fs = (Inl ?e, fs)"
    using assms(4-7) by (simp add: copy_to_clean_def locate_source_def Let_def)
  then show ?thesis
    using assms(3) record_failure_row [OF y1(1) id1 y1(2), where 'a = unit and e = ?e and org = org and usr = usr]
    unfolding promote_after_begin [OF assms(2) b] by (auto simp: promotion_failure_def)
qed

theorem missing_source_discloses_path_witness:
  "\<exists>y. documents (stored (fst (snd (promote_document demo_hash demo_promote_env 5 9 None
          (open_session demo_promote_db) (demo_store\<lparr>st_quarantine := Map.empty\<rparr>))))) 5 = Some y
    \<and> d_operator_failure_summary y =
        Some (''Quarantine source file missing at '' @ d_file_path demo_clean_doc)"
proof -
  have "removesuffix (quarantine_name 7) ''.upload'' = uuid_str 7"
    by (simp add: removesuffix_def quarantine_name_def)
  moreover have "d_file_path demo_clean_doc = quarantine_name 7" by (simp add: demo_clean_doc_def)
  ultimately have r: "resolve_quarantine_path (st_quarantine (demo_store\<lparr>st_quarantine := Map.empty\<rparr>))
      (RefText (removesuffix (path_name (d_file_path demo_clean_doc)) ''.upload'')) =
      Inr (quarantine_name 7)"
    by (simp add: path_name_simple quarantine_name_simple resolve_text resolve_plain is_symlink_def)
  have ne: "d_file_path demo_clean_doc \<noteq> []" by (simp add: demo_clean_doc_def quarantine_name_def)
  show ?thesis
    using missing_source_discloses_path [OF demo_promote_ok demo_valid _ _ ne r,
        where env = demo_promote_env and H = demo_hash and usr = None]
    by (auto simp: demo_promote_env_def path_exists_def)
qed

section \<open>Promotion respects the lifecycle\<close>

context db_invariant
begin

lemma record_failure_keeps:
  assumes "holds I s"
  shows "holds I (snd (record_promotion_failure i org usr e s))"
proof (cases "get_doc s i")
  case None
  then show ?thesis
    using assms by (simp add: record_promotion_failure_def split: prod.splits)
next
  case (Some y)
  then show ?thesis
    using assms
    by (auto simp: record_promotion_failure_def split: prod.splits
        intro!: and_then_keeps keep_transition_row [OF assms Some])
qed

lemma finish_promotion_keeps:
  assumes "holds I s"
  shows "holds I (snd (finish_promotion env i org usr ident s))"
proof (cases "get_doc s i")
  case None
  then show ?thesis using assms by (simp add: finish_promotion_def Let_def)
next
  case (Some y)
  then show ?thesis
    using assms
    by (auto simp: finish_promotion_def Let_def
        intro!: and_then_keeps keep_transition_row [OF assms Some])
qed

lemma cleanup_source_keeps:
  assumes "holds I s"
  shows "holds I (fst (cleanup_source env i src s fs))"
proof (cases "get_doc s i")
  case None
  then show ?thesis using assms by (simp add: cleanup_source_def)
next
  case (Some y)
  then show ?thesis
    using assms
    by (auto simp: cleanup_source_def intro!: holds_simps(1) keep_put_row [OF assms Some])
qed

lemma begin_promotion_keeps:
  assumes "holds I s" and "get_doc s i = Some x"
  shows "holds I (snd (begin_promotion env org usr dg x s))"
  unfolding begin_promotion_def Let_def by (rule keep_transition_row [OF assms]) simp_all

lemma promote_keeps:
  assumes ok: "holds I s"
  shows "holds I (fst (snd (promote_document H env i org usr s fs)))"
proof (cases "\<exists>r. validate_promotion i org s = Inr r")
  case False
  then show ?thesis using ok by (auto simp: promote_document_def split: sum.splits)
next
  case True
  then obtain x dg sz where v: "validate_promotion i org s = Inr (x, dg, sz)" by auto
  note x = validate_ok [OF v]
  have id: "d_id x = i" using row_id [OF ok] x by blast
  obtain s1 where b: "begin_promotion env org usr dg x s = (Inr (), s1)"
    using begin_promotion_row x id by metis
  have ok1: "holds I s1"
    using begin_promotion_keeps [OF ok conjunct1 [OF x], of env org usr dg] b by simp
  have fin: "holds I s2" if "finish_promotion env i org usr ident s1 = (r, s2)" for ident r s2
    using finish_promotion_keeps [OF ok1] that by (metis snd_conv)
  show ?thesis
    unfolding promote_after_begin [OF v b]
    by (auto simp: ok1 record_failure_keeps [OF ok1] split: prod.splits sum.splits
        intro!: cleanup_source_keeps dest: fin)
qed

end

record promote_job =
  pj_env :: promote_env
  pj_document :: uuid
  pj_org :: uuid
  pj_user :: "uuid option"
  pj_store :: store

definition promotion_job :: "(bytes \<Rightarrow> string) \<Rightarrow> promote_job \<Rightarrow> sess \<Rightarrow> sess" where
  "promotion_job H e s =
     fst (snd (promote_document H (pj_env e) (pj_document e) (pj_org e) (pj_user e) s (pj_store e)))"

interpretation promotions: document_job "promotion_job H" for H
  by unfold_locales (simp add: promotion_job_def db_invariant.promote_keeps)

end
