(* ===== verification/ParserClient.thy ===== *)
theory ParserClient
  imports FileStore
begin

text \<open>
  \<open>app/services/parser_client.py\<close> and the response schema of
  \<open>app/parser_service/contracts.py\<close>: verification of the clean file before it is sent, the
  mapping of every HTTP outcome to an error code, and the checks on the parser's answer. Error
  messages are kept except for the locator text quoted in one of them.
\<close>

section \<open>The response schema\<close>

datatype unit_kind = PDF_PAGE | DOCX_LOGICAL_CHUNK

record parser_unit =
  un_sequence :: int
  un_kind :: unit_kind
  un_source_locator :: ustr
  un_content :: ustr
  un_content_sha256 :: string

record parser_response =
  rp_protocol_version :: string
  rp_parser_name :: string
  rp_parser_version :: string
  rp_units :: "parser_unit list"
  rp_total_units :: int
  rp_total_characters :: int

definition protocol_version :: string where "protocol_version = ''1.0''"
definition parser_name :: string where "parser_name = ''rfp-isolated-parser''"
definition max_units :: nat where "max_units = 500"
definition max_total_chars :: nat where "max_total_chars = 2000000"
definition max_response_body :: nat where "max_response_body = 10 * 1024 * 1024"

definition quoted :: "string \<Rightarrow> string" where
  "quoted t = CHR 0x27 # t @ [CHR 0x27]"

text \<open>The constraints pydantic enforces beyond the field types (\<open>ge=0\<close>).\<close>

definition schema_ok :: "parser_response \<Rightarrow> bool" where
  "schema_ok r \<longleftrightarrow> 0 \<le> rp_total_units r \<and> 0 \<le> rp_total_characters r"

section \<open>validate\_parser\_response\<close>

fun check_units :: "int \<Rightarrow> ustr set \<Rightarrow> parser_unit list \<Rightarrow> exc option" where
  "check_units expected seen [] = None"
| "check_units expected seen (x # xs) =
     (if un_sequence x \<noteq> expected then
        Some (ParserClientError ''PARSER_RESPONSE_INVALID''
          (''Non-sequential unit sequence '' @ show_int (un_sequence x) @ '', expected ''
           @ show_int expected))
      else if un_source_locator x \<in> seen then
        Some (ParserClientError ''PARSER_RESPONSE_INVALID'' ''Duplicate unit source_locator'')
      else check_units (expected + 1) (insert (un_source_locator x) seen) xs)"

definition validate_parser_response :: "parser_response \<Rightarrow> exc + parser_response" where
  "validate_parser_response r =
     (if \<not> schema_ok r then
        Inl (ParserClientError ''PARSER_RESPONSE_INVALID'' ''Invalid response schema'')
      else if rp_protocol_version r \<noteq> protocol_version then
        Inl (ParserClientError ''PARSER_PROTOCOL_ERROR''
          (''Unsupported parser protocol version '' @ quoted (rp_protocol_version r)))
      else if rp_parser_name r \<noteq> parser_name then
        Inl (ParserClientError ''PARSER_PROTOCOL_ERROR''
          (''Unexpected parser service name '' @ quoted (rp_parser_name r)))
      else if rp_total_units r > int max_units \<or> length (rp_units r) > max_units then
        Inl (ParserClientError ''PARSER_OUTPUT_LIMIT''
          (''Parser returned '' @ show_int (rp_total_units r) @ '' units exceeding limit of ''
           @ show_int (int max_units)))
      else if rp_total_characters r > int max_total_chars then
        Inl (ParserClientError ''PARSER_OUTPUT_LIMIT''
          (''Parser returned '' @ show_int (rp_total_characters r) @ '' chars exceeding limit of ''
           @ show_int (int max_total_chars)))
      else (case check_units 1 {} (rp_units r) of Some e \<Rightarrow> Inl e | None \<Rightarrow> Inr r))"

section \<open>The clean file\<close>

text \<open>
  \<open>cl_resolve\<close> is the file system's resolution of \<open>clean_root / identifier\<close>: the entry of
  the clean root it leads to, or \<open>None\<close> outside the root.
\<close>

record clean_env =
  cl_dir :: dir
  cl_resolve :: "string \<Rightarrow> string option"
  cl_open_fails :: bool
  cl_read_fails :: bool
  cl_changed :: bool
  cl_os_error :: string

definition verify_clean_file ::
  "(bytes \<Rightarrow> string) \<Rightarrow> (string \<Rightarrow> string) \<Rightarrow> clean_env \<Rightarrow> string \<Rightarrow> string \<Rightarrow> int \<Rightarrow> exc + bytes" where
  "verify_clean_file H lower_case env ident digest sz =
     (let changed = \<lambda>m. Inl (ParserClientError ''PARSER_INPUT_CHANGED'' m) in
      case cl_resolve env ident of
        None \<Rightarrow> changed (''Path containment violation for clean file: '' @ ident)
      | Some n \<Rightarrow>
          if \<not> path_exists (cl_dir env) n then changed (''Clean source file missing at '' @ ident)
          else if cl_open_fails env \<or> is_symlink (cl_dir env) n then
            changed (''Failed to open clean file (symlink or permission error): '' @ cl_os_error env)
          else
            (case file_content (cl_dir env) n of
               None \<Rightarrow> changed ''Clean source is not a regular file''
             | Some b \<Rightarrow>
                 if int (length b) \<noteq> sz then
                   changed (''Clean file size on disk ('' @ show_int (int (length b))
                            @ '') != expected ('' @ show_int sz @ '')'')
                 else if cl_read_fails env then Inl (OtherException (cl_os_error env))
                 else if lower_case (H b) \<noteq> lower_case digest then
                   changed ''Clean file SHA-256 digest on disk differs from expected digest''
                 else if cl_changed env then
                   changed ''Clean file descriptor state changed during verification''
                 else Inr b))"

section \<open>The exchange\<close>

datatype reply_body = NotJson string | SchemaInvalid string | Payload parser_response

text \<open>
  What \<open>client.post\<close> does; for a status other than 200, the error code and message of the
  body if it validates as \<open>ParserErrorResponse\<close>.
\<close>

datatype http_outcome =
    NoConnection string
  | TimedOut string
  | TransportFailure string
  | ErrorStatus nat "(string \<times> string) option"
  | OkStatus nat reply_body

definition or_default :: "string \<Rightarrow> string \<Rightarrow> string" where
  "or_default s d = (if s = [] then d else s)"

fun read_reply :: "http_outcome \<Rightarrow> exc + parser_response" where
  "read_reply (NoConnection m) =
     Inl (ParserClientError ''PARSER_UNAVAILABLE'' (''Cannot connect to parser service: '' @ m))"
| "read_reply (TimedOut m) =
     Inl (ParserClientError ''PARSER_TIMEOUT'' (''Parser service HTTP request timed out: '' @ m))"
| "read_reply (TransportFailure m) =
     Inl (ParserClientError ''PARSER_PROTOCOL_ERROR'' (''HTTP communication error: '' @ m))"
| "read_reply (ErrorStatus st (Some (code, msg))) =
     Inl (ParserClientError (or_default code ''PARSER_DOCUMENT_REJECTED'')
                            (or_default msg ''Parser rejected document''))"
| "read_reply (ErrorStatus st None) =
     Inl (ParserClientError ''PARSER_DOCUMENT_REJECTED''
            (''Parser returned HTTP status '' @ show_int (int st)))"
| "read_reply (OkStatus len body) =
     (if len > max_response_body then
        Inl (ParserClientError ''PARSER_RESPONSE_TOO_LARGE''
               ''Parser JSON response body exceeds limit of 10MB'')
      else (case body of
              NotJson m \<Rightarrow> Inl (ParserClientError ''PARSER_RESPONSE_INVALID''
                             (''Failed to parse JSON response: '' @ m))
            | SchemaInvalid m \<Rightarrow> Inl (ParserClientError ''PARSER_RESPONSE_INVALID''
                             (''Invalid response schema: '' @ m))
            | Payload r \<Rightarrow> validate_parser_response r))"

text \<open>\<open>post\<close> answers for the bytes that are sent.\<close>

definition send_document_for_parsing ::
  "(bytes \<Rightarrow> string) \<Rightarrow> (string \<Rightarrow> string) \<Rightarrow> clean_env \<Rightarrow> (bytes \<Rightarrow> http_outcome)
    \<Rightarrow> string \<Rightarrow> string \<Rightarrow> int \<Rightarrow> exc + parser_response" where
  "send_document_for_parsing H lower_case env post ident digest sz =
     (case verify_clean_file H lower_case env ident digest sz of
        Inl e \<Rightarrow> Inl e | Inr b \<Rightarrow> read_reply (post b))"

section \<open>What an accepted response satisfies\<close>

definition units_ok :: "parser_unit list \<Rightarrow> bool" where
  "units_ok us \<longleftrightarrow> map un_sequence us = map int [1..<Suc (length us)]
     \<and> distinct (map un_source_locator us) \<and> length us \<le> max_units"

lemma check_units_ok:
  "check_units k seen us = None \<Longrightarrow>
   map un_sequence us = map (\<lambda>i. k + int i) [0..<length us]
   \<and> distinct (map un_source_locator us) \<and> set (map un_source_locator us) \<inter> seen = {}"
proof (induction us arbitrary: k seen)
  case Nil
  then show ?case by simp
next
  case (Cons x xs)
  then have h: "un_sequence x = k" "un_source_locator x \<notin> seen"
    and r: "check_units (k + 1) (insert (un_source_locator x) seen) xs = None"
    by (auto split: if_splits)
  have "map un_sequence (x # xs) = k # map (\<lambda>i. (k + 1) + int i) [0..<length xs]"
    using Cons.IH [OF r] h by simp
  also have "\<dots> = map (\<lambda>i. k + int i) (0 # map Suc [0..<length xs])" by (simp add: algebra_simps)
  also have "0 # map Suc [0..<length xs] = [0..<length (x # xs)]"
    by (simp add: map_Suc_upt upt_conv_Cons del: upt_Suc)
  finally show ?case using Cons.IH [OF r] h by auto
qed

lemma validate_ok_units:
  assumes "validate_parser_response r = Inr r'"
  shows "r' = r \<and> units_ok (rp_units r) \<and> rp_total_characters r \<le> int max_total_chars"
proof -
  have c: "check_units 1 {} (rp_units r) = None" "r' = r" "length (rp_units r) \<le> max_units"
    "rp_total_characters r \<le> int max_total_chars"
    using assms by (auto simp: validate_parser_response_def split: if_splits option.splits)
  have "map (\<lambda>i. 1 + int i) [0..<length (rp_units r)] = map int [1..<Suc (length (rp_units r))]"
    by (simp add: map_Suc_upt [symmetric] del: upt_Suc)
  then show ?thesis
    using check_units_ok [OF c(1)] c by (simp add: units_ok_def)
qed

lemma read_reply_ok:
  "read_reply h = Inr r \<Longrightarrow> units_ok (rp_units r) \<and> rp_total_characters r \<le> int max_total_chars"
  by (cases h rule: read_reply.cases)
     (auto split: if_splits reply_body.splits dest!: validate_ok_units)

lemma verified_clean_file:
  "verify_clean_file H lc env ident digest sz = Inr b \<Longrightarrow>
   \<exists>n. cl_resolve env ident = Some n \<and> cl_dir env n = Some (RegularFile b)
     \<and> int (length b) = sz \<and> lc (H b) = lc digest"
  by (auto simp: verify_clean_file_def Let_def file_content_def is_symlink_def
      split: option.splits if_splits node.splits)

text \<open>
  C26. Whenever the client returns a parse result, the bytes the parser was given are those of
  a regular file inside clean storage with the expected size and digest, and the units are
  numbered 1, 2, 3, ... without gap, have distinct locators and are at most 500.
\<close>

theorem parse_result_is_bound_to_file:
  assumes "send_document_for_parsing H lc env post ident digest sz = Inr r"
  shows "\<exists>n b. cl_resolve env ident = Some n \<and> cl_dir env n = Some (RegularFile b)
    \<and> int (length b) = sz \<and> lc (H b) = lc digest \<and> read_reply (post b) = Inr r
    \<and> map un_sequence (rp_units r) = map int [1..<Suc (length (rp_units r))]
    \<and> distinct (map un_source_locator (rp_units r)) \<and> length (rp_units r) \<le> 500"
proof -
  obtain b where b: "verify_clean_file H lc env ident digest sz = Inr b"
    and r: "read_reply (post b) = Inr r"
    using assms by (auto simp: send_document_for_parsing_def split: sum.splits)
  show ?thesis
    using verified_clean_file [OF b] read_reply_ok [OF r] r
    by (auto simp only: units_ok_def max_units_def)
qed

definition demo_unit :: parser_unit where
  "demo_unit = \<lparr>un_sequence = 1, un_kind = PDF_PAGE, un_source_locator = uni ''page_1'',
     un_content = uni ''The vendor shall comply.'', un_content_sha256 = ''h''\<rparr>"

definition demo_response :: parser_response where
  "demo_response = \<lparr>rp_protocol_version = ''1.0'', rp_parser_name = ''rfp-isolated-parser'',
     rp_parser_version = ''1.0.0'', rp_units = [demo_unit], rp_total_units = 1,
     rp_total_characters = 24\<rparr>"

definition demo_clean_env :: clean_env where
  "demo_clean_env = \<lparr>cl_dir = [''a.clean'' \<mapsto> RegularFile [1, 2]], cl_resolve = Some,
     cl_open_fails = False, cl_read_fails = False, cl_changed = False, cl_os_error = ''error''\<rparr>"

lemma demo_send: "send_document_for_parsing (\<lambda>_. ''h'') (\<lambda>s. s) demo_clean_env
    (\<lambda>_. OkStatus 200 (Payload demo_response)) ''a.clean'' ''h'' 2 = Inr demo_response"
  by (simp add: send_document_for_parsing_def verify_clean_file_def demo_clean_env_def
      path_exists_def is_symlink_def file_content_def validate_parser_response_def schema_ok_def
      demo_response_def demo_unit_def protocol_version_def parser_name_def max_units_def
      max_total_chars_def max_response_body_def)

theorem parse_result_is_bound_to_file_witness:
  "\<exists>n b. cl_dir demo_clean_env n = Some (RegularFile b) \<and> int (length b) = 2"
  using parse_result_is_bound_to_file [OF demo_send] by blast

text \<open>
  The announced totals and the per-unit digests are not compared with the units: a response
  may announce no units, carry one, and name any digest.
\<close>

lemma totals_not_checked:
  "validate_parser_response (demo_response\<lparr>rp_total_units := 0\<rparr>) = Inr (demo_response\<lparr>rp_total_units := 0\<rparr>)"
  by (simp add: validate_parser_response_def schema_ok_def demo_response_def demo_unit_def
      protocol_version_def parser_name_def max_units_def max_total_chars_def)

end
