(* ===== verification/Parsing.thy ===== *)
theory Parsing
  imports AuditTrail ParserClient
begin

text \<open>
  \<open>app/services/document_parsing.py\<close>: the three phases of a parse attempt (begin, remote
  call, atomic completion) with the attempt token that guards the last one.
\<close>

section \<open>Phase A\<close>

record parse_config =
  pc_max_attempts :: nat

record parse_snapshot =
  ps_document_id :: uuid
  ps_org_id :: uuid
  ps_user_id :: uuid
  ps_clean_identifier :: string
  ps_detected_mime :: string
  ps_sha256_digest :: string
  ps_file_size_bytes :: int
  ps_parse_attempt_id :: uuid
  ps_attempt_count :: nat

definition clean_identifier :: "document \<Rightarrow> string" where
  "clean_identifier x = (case d_clean_storage_identifier x of
      Some c \<Rightarrow> if c = [] then d_file_path x else c | None \<Rightarrow> d_file_path x)"

text \<open>The metadata a parse needs: \<open>None\<close> when identifier, digest or size is missing or zero.\<close>

definition clean_metadata :: "document \<Rightarrow> (string \<times> string \<times> int) option" where
  "clean_metadata x =
     (case (d_sha256_digest x, d_file_size_bytes x) of
        (Some dg, Some sz) \<Rightarrow>
          if clean_identifier x = [] \<or> dg = [] \<or> sz = 0 then None
          else Some (clean_identifier x, dg, sz)
      | _ \<Rightarrow> None)"

definition detected_mime :: "document \<Rightarrow> string" where
  "detected_mime x = (case d_detected_content_type x of
      Some m \<Rightarrow> if m = [] then d_file_type x else m | None \<Rightarrow> d_file_type x)"

definition begin_parse :: "time \<Rightarrow> uuid \<Rightarrow> document \<Rightarrow> document" where
  "begin_parse now token x = x\<lparr>d_parse_started_at := Some now,
     d_parse_attempt_count := d_parse_attempt_count x + 1, d_parse_attempt_id := Some token\<rparr>"

definition snapshot_of ::
  "uuid \<Rightarrow> document \<Rightarrow> string \<times> string \<times> int \<Rightarrow> uuid \<Rightarrow> parse_snapshot" where
  "snapshot_of org x meta token =
     \<lparr>ps_document_id = d_id x, ps_org_id = org, ps_user_id = d_created_by_id x,
      ps_clean_identifier = fst meta, ps_detected_mime = detected_mime x,
      ps_sha256_digest = fst (snd meta), ps_file_size_bytes = snd (snd meta),
      ps_parse_attempt_id = token, ps_attempt_count = d_parse_attempt_count x\<rparr>"

definition prepare_parse_attempt ::
  "parse_config \<Rightarrow> time \<Rightarrow> uuid \<Rightarrow> uuid \<Rightarrow> sess \<Rightarrow> (exc + parse_snapshot option) \<times> sess" where
  "prepare_parse_attempt cfg now token i s =
     (case get_doc s i of
        None \<Rightarrow> (Inr None, s)
      | Some x \<Rightarrow>
          (case projects (work s) (d_project_id x) of
             None \<Rightarrow> (Inr None, s)
           | Some p \<Rightarrow>
               if d_ingestion_status x = COMPLETED then (Inr None, s)
               else if d_ingestion_status x \<noteq> CLEAN \<and> d_ingestion_status x \<noteq> PARSE_FAILED
                 then (Inr None, s)
               else if d_parse_attempt_count x \<ge> pc_max_attempts cfg then (Inr None, s)
               else
                 (case clean_metadata x of
                    None \<Rightarrow> (Inr None, s)
                  | Some meta \<Rightarrow>
                      let x1 = begin_parse now token x; org = pr_organization_id p
                      in and_then
                           (transition x1 PARSING org (Some (d_created_by_id x)) None None
                              (Some [''parse_attempt_id'' \<mapsto> JId token,
                                     ''attempt'' \<mapsto> JInt (int (d_parse_attempt_count x1))]) s)
                           (\<lambda>_ s1. (Inr (Some (snapshot_of org x1 meta token)), commit s1)))))"

section \<open>Recording a failure\<close>

definition holds_attempt :: "parse_snapshot \<Rightarrow> document \<Rightarrow> bool" where
  "holds_attempt sn x \<longleftrightarrow>
     d_ingestion_status x = PARSING \<and> d_parse_attempt_id x = Some (ps_parse_attempt_id sn)"

definition fail_parse_attempt ::
  "parse_snapshot \<Rightarrow> string \<Rightarrow> string \<Rightarrow> sess \<Rightarrow> (exc + unit) \<times> sess" where
  "fail_parse_attempt sn code summary s =
     (case get_doc s (ps_document_id sn) of
        None \<Rightarrow> (Inr (), s)
      | Some x \<Rightarrow>
          if \<not> holds_attempt sn x then (Inr (), s)
          else
            and_then
              (transition (x\<lparr>d_parse_error_code := Some code,
                             d_operator_failure_summary := Some summary\<rparr>)
                 PARSE_FAILED (ps_org_id sn) (Some (ps_user_id sn)) (Some code) None
                 (Some [''error_code'' \<mapsto> JStr code,
                        ''parse_attempt_id'' \<mapsto> JId (ps_parse_attempt_id sn)]) s)
              (\<lambda>_ s1. (Inr (), commit s1)))"

section \<open>Phase C\<close>

definition kind_text :: "unit_kind \<Rightarrow> string" where
  "kind_text k = (case k of PDF_PAGE \<Rightarrow> ''PDF_PAGE'' | DOCX_LOGICAL_CHUNK \<Rightarrow> ''DOCX_LOGICAL_CHUNK'')"

definition new_page :: "uuid \<Rightarrow> uuid \<Rightarrow> parser_unit \<Rightarrow> document_page" where
  "new_page pid did x = \<lparr>pg_id = pid, pg_document_id = did, pg_page_number = un_sequence x,
     pg_content = un_content x, pg_unit_kind = Some (kind_text (un_kind x)),
     pg_source_locator = Some (un_source_locator x), pg_content_sha256 = Some (un_content_sha256 x)\<rparr>"

definition new_pages :: "(nat \<Rightarrow> uuid) \<Rightarrow> uuid \<Rightarrow> parser_unit list \<Rightarrow> document_page list" where
  "new_pages ids did us = map (\<lambda>(k, x). new_page (ids k) did x) (enumerate 0 us)"

definition replace_pages :: "uuid \<Rightarrow> document_page list \<Rightarrow> sess \<Rightarrow> sess" where
  "replace_pages did new s =
     s\<lparr>work := (work s)\<lparr>pages := filter (\<lambda>p. pg_document_id p \<noteq> did) (pages (work s)) @ new\<rparr>\<rparr>"

text \<open>
  \<open>uq_document_pages_doc_id_page_num\<close> is checked when the rows are flushed; \<open>flush_fails\<close>
  stands for every other reason the database refuses them. A failed flush drops the open
  transaction.
\<close>

definition pages_unique :: "document_page list \<Rightarrow> bool" where
  "pages_unique ps \<longleftrightarrow> distinct (map (\<lambda>p. (pg_document_id p, pg_page_number p)) ps)"

record persist_env =
  pp_now :: time
  pp_page_ids :: "nat \<Rightarrow> uuid"
  pp_flush_fails :: bool

definition persist_parse_results ::
  "persist_env \<Rightarrow> parse_snapshot \<Rightarrow> parser_response \<Rightarrow> sess \<Rightarrow> (exc + unit) \<times> sess" where
  "persist_parse_results env sn resp s =
     (case get_doc s (ps_document_id sn) of
        None \<Rightarrow> (Inr (), s)
      | Some x \<Rightarrow>
          if \<not> holds_attempt sn x then (Inr (), s)
          else if clean_identifier x \<noteq> ps_clean_identifier sn
                  \<or> d_sha256_digest x \<noteq> Some (ps_sha256_digest sn) then
            fail_parse_attempt sn ''PARSER_INPUT_CHANGED''
              ''Clean document metadata changed during parsing'' s
          else
            let s1 = replace_pages (d_id x) (new_pages (pp_page_ids env) (d_id x) (rp_units resp)) s;
                x1 = x\<lparr>d_parser_version := Some (rp_parser_version resp),
                       d_parser_completed_at := Some (pp_now env), d_parse_error_code := None\<rparr>
            in if pp_flush_fails env \<or> \<not> pages_unique (pages (work s1))
               then (Inl IntegrityError, rollback s)
               else and_then
                      (transition x1 COMPLETED (ps_org_id sn) (Some (ps_user_id sn)) None None
                         (Some [''total_units'' \<mapsto> JInt (rp_total_units resp),
                                ''total_characters'' \<mapsto> JInt (rp_total_characters resp)]) s1)
                      (\<lambda>_ s2. (Inr (), publish (ExtractJob (d_id x) (ps_org_id sn)) (commit s2))))"

section \<open>The pipeline\<close>

text \<open>
  The remote call returns or raises; \<open>pz_usable\<close> says whether the session still accepts
  statements after an exception of phase C. SQLAlchemy documents that after a failed flush it
  does not until \<open>rollback\<close> is called, which the handler does not do.
\<close>

record pipeline_env =
  pz_now :: time
  pz_token :: uuid
  pz_response :: "exc + parser_response"
  pz_persist :: persist_env
  pz_usable :: bool
  pz_error_text :: string

definition transient_parse_errors :: "string set" where
  "transient_parse_errors = {''PARSER_UNAVAILABLE'', ''PARSER_TIMEOUT''}"

definition handle_call_failure ::
  "parse_config \<Rightarrow> uuid \<Rightarrow> parse_snapshot \<Rightarrow> exc \<Rightarrow> sess \<Rightarrow> (exc + unit) \<times> sess" where
  "handle_call_failure cfg i sn e s =
     (case e of
        ParserClientError code msg \<Rightarrow>
          and_then (fail_parse_attempt sn code msg s) (\<lambda>_ s1.
            (Inr (), if code \<in> transient_parse_errors \<and> ps_attempt_count sn < pc_max_attempts cfg
                     then publish (ParseRetryJob i (ps_attempt_count sn + 1)) s1 else s1))
      | OtherException kind \<Rightarrow>
          fail_parse_attempt sn ''PARSER_PERSISTENCE_FAILED'' (''Unexpected exception: '' @ kind) s
      | _ \<Rightarrow> fail_parse_attempt sn ''PARSER_PERSISTENCE_FAILED'' ''Unexpected exception: '' s)"

definition run_parse_pipeline ::
  "parse_config \<Rightarrow> pipeline_env \<Rightarrow> uuid \<Rightarrow> sess \<Rightarrow> (exc + unit) \<times> sess" where
  "run_parse_pipeline cfg env i s =
     and_then (prepare_parse_attempt cfg (pz_now env) (pz_token env) i s) (\<lambda>sn s1.
       let s2 = rollback s1 in
       (case sn of
          None \<Rightarrow> (Inr (), s2)
        | Some n \<Rightarrow>
            (case pz_response env of
               Inl e \<Rightarrow> handle_call_failure cfg i n e s2
             | Inr resp \<Rightarrow>
                 (case persist_parse_results (pz_persist env) n resp s2 of
                    (Inr _, s3) \<Rightarrow> (Inr (), s3)
                  | (Inl e, s3) \<Rightarrow>
                      if pz_usable env
                      then fail_parse_attempt n ''PARSER_PERSISTENCE_FAILED''
                             (''Database persistence error: '' @ pz_error_text env) s3
                      else (Inl (OtherException ''PendingRollbackError''), s3)))))"

section \<open>Beginning an attempt\<close>

lemma prepare_parse_cases:
  assumes "prepare_parse_attempt cfg now token i s = (r, s1)" and "sess_ok s"
  shows "r = Inr None \<and> s1 = s \<or>
    (\<exists>x y sn. r = Inr (Some sn) \<and> get_doc s i = Some x
       \<and> d_ingestion_status x \<in> {CLEAN, PARSE_FAILED}
       \<and> d_parse_attempt_count x < pc_max_attempts cfg
       \<and> ps_attempt_count sn = d_parse_attempt_count x + 1 \<and> ps_document_id sn = i
       \<and> ps_parse_attempt_id sn = token \<and> ps_clean_identifier sn = clean_identifier x
       \<and> d_sha256_digest x = Some (ps_sha256_digest sn)
       \<and> stored s1 = work s1 \<and> outbox s1 = outbox s \<and> pages (work s1) = pages (work s)
       \<and> get_doc s1 i = Some y \<and> holds_attempt sn y
       \<and> d_parse_attempt_count y = d_parse_attempt_count x + 1
       \<and> clean_identifier y = clean_identifier x \<and> d_sha256_digest y = d_sha256_digest x
       \<and> (\<forall>j. j \<noteq> i \<longrightarrow> get_doc s1 j = get_doc s j))"
proof (cases "get_doc s i")
  case None
  then show ?thesis using assms(1) by (auto simp: prepare_parse_attempt_def)
next
  case (Some x)
  have id: "d_id x = i" using lifecycle.row_id [OF assms(2) Some] .
  show ?thesis
  proof (cases "r = Inr None \<and> s1 = s")
    case False
    then obtain p dg sz where p: "projects (work s) (d_project_id x) = Some p"
      and st: "d_ingestion_status x = CLEAN \<or> d_ingestion_status x = PARSE_FAILED"
      and n: "d_parse_attempt_count x < pc_max_attempts cfg"
      and m: "clean_metadata x = Some (clean_identifier x, dg, sz)"
      using assms(1) Some
      by (auto simp: prepare_parse_attempt_def clean_metadata_def Let_def
          split: option.splits if_splits)
    let ?x1 = "begin_parse now token x"
    let ?y = "moved ?x1 PARSING None None"
    let ?sn = "snapshot_of (pr_organization_id p) ?x1 (clean_identifier x, dg, sz) token"
    have al: "PARSING \<in> set (allowed_transitions (d_ingestion_status ?x1))"
      using st by (auto simp: begin_parse_def)
    have dg: "d_sha256_digest x = Some dg"
      using m by (auto simp: clean_metadata_def split: option.splits if_splits)
    have y: "holds_attempt ?sn ?y" "clean_identifier ?y = clean_identifier x" "d_id ?x1 = i"
      "d_sha256_digest ?y = d_sha256_digest x" "d_parse_attempt_count ?y = d_parse_attempt_count x + 1"
      by (simp_all add: holds_attempt_def snapshot_of_def begin_parse_def moved_def
          clean_identifier_def id cong: option.case_cong if_cong)
    have "r = Inr (Some ?sn) \<and> (\<exists>e. s1 = commit (commit (add_audit e (put_doc ?y s))))"
      using assms(1) Some p n m st
      by (auto simp: prepare_parse_attempt_def transition_moves [OF al] Let_def)
    then show ?thesis
      using Some st n dg y id
      by (intro disjI2 exI [of _ x] exI [of _ ?y] exI [of _ ?sn])
         (auto simp: snapshot_of_def begin_parse_def get_doc_def)
  qed simp
qed

section \<open>Completing an attempt\<close>

lemma stale_fail_ignored:
  assumes "\<And>x. get_doc s (ps_document_id sn) = Some x \<Longrightarrow> \<not> holds_attempt sn x"
  shows "fail_parse_attempt sn code summary s = (Inr (), s)"
  using assms by (auto simp: fail_parse_attempt_def split: option.splits)

text \<open>
  A worker whose attempt token is no longer the document's (another attempt started, or
  the document left PARSING) changes nothing when it comes back, neither with a result nor
  with a failure: no page, no status, no audit event, no job.
\<close>

lemma stale_attempt_changes_nothing:
  assumes "\<And>x. get_doc s (ps_document_id sn) = Some x \<Longrightarrow> \<not> holds_attempt sn x"
  shows "persist_parse_results env sn resp s = (Inr (), s)
    \<and> fail_parse_attempt sn code summary s = (Inr (), s)"
  using assms stale_fail_ignored [OF assms]
  by (auto simp: persist_parse_results_def split: option.splits)

definition demo_snapshot :: parse_snapshot where
  "demo_snapshot = \<lparr>ps_document_id = 5, ps_org_id = 9, ps_user_id = 2,
     ps_clean_identifier = ''a.clean'', ps_detected_mime = ''application/pdf'',
     ps_sha256_digest = ''h'', ps_file_size_bytes = 2, ps_parse_attempt_id = 77,
     ps_attempt_count = 1\<rparr>"

definition demo_persist_env :: persist_env where
  "demo_persist_env = \<lparr>pp_now = 4, pp_page_ids = (\<lambda>k. 100 + k), pp_flush_fails = False\<rparr>"

definition parsing_doc :: "uuid \<Rightarrow> document" where
  "parsing_doc token = (new_document 5 1 2 (uni ''rfp.pdf'') ''a.clean'' ''pdf'')
     \<lparr>d_ingestion_status := PARSING, d_sha256_digest := Some ''h'', d_file_size_bytes := Some 2,
      d_clean_storage_identifier := Some ''a.clean'', d_parse_attempt_id := Some token\<rparr>"

theorem stale_attempt_changes_nothing_witness:
  "persist_parse_results demo_persist_env demo_snapshot demo_response
     (open_session (empty_db\<lparr>documents := [5 \<mapsto> parsing_doc 78]\<rparr>)) =
   (Inr (), open_session (empty_db\<lparr>documents := [5 \<mapsto> parsing_doc 78]\<rparr>))"
  by (rule stale_attempt_changes_nothing [THEN conjunct1])
     (auto simp: holds_attempt_def parsing_doc_def demo_snapshot_def)

lemma new_pages_facts:
  "map pg_page_number (new_pages ids did us) = map un_sequence us"
  "map pg_content (new_pages ids did us) = map un_content us"
  "\<forall>p \<in> set (new_pages ids did us). pg_document_id p = did"
  "length (new_pages ids did us) = length us"
  by (auto simp: new_pages_def new_page_def enumerate_eq_zip intro!: nth_equalityI)

lemma pages_unique_replace:
  assumes "pages_unique ps" and "distinct (map pg_page_number new)"
    and "\<forall>p \<in> set new. pg_document_id p = did"
  shows "pages_unique (filter (\<lambda>p. pg_document_id p \<noteq> did) ps @ new)"
proof -
  have "distinct (map (\<lambda>p. (pg_document_id p, pg_page_number p)) new)"
    using assms(2,3) by (auto simp: distinct_map inj_on_def)
  moreover have "distinct (map (\<lambda>p. (pg_document_id p, pg_page_number p))
      (filter (\<lambda>p. pg_document_id p \<noteq> did) ps))"
    using assms(1) by (simp add: pages_unique_def distinct_map_filter)
  ultimately show ?thesis using assms(3) by (auto simp: pages_unique_def)
qed

lemma units_ok_distinct: "units_ok us \<Longrightarrow> distinct (map un_sequence us)"
  by (simp add: units_ok_def distinct_map del: upt_Suc)

lemma persist_completes:
  assumes "get_doc s (ps_document_id sn) = Some x" and "d_id x = ps_document_id sn"
    and "holds_attempt sn x" and "clean_identifier x = ps_clean_identifier sn"
    and "d_sha256_digest x = Some (ps_sha256_digest sn)"
    and "units_ok (rp_units resp)" and "pages_unique (pages (work s))" and "\<not> pp_flush_fails env"
  shows "\<exists>s' y. persist_parse_results env sn resp s = (Inr (), s')
    \<and> documents (stored s') (ps_document_id sn) = Some y \<and> d_ingestion_status y = COMPLETED
    \<and> pages (stored s') = filter (\<lambda>p. pg_document_id p \<noteq> ps_document_id sn) (pages (work s))
         @ new_pages (pp_page_ids env) (ps_document_id sn) (rp_units resp)
    \<and> pages_unique (pages (stored s'))
    \<and> outbox s' = outbox s @ [ExtractJob (ps_document_id sn) (ps_org_id sn)]"
proof -
  let ?new = "new_pages (pp_page_ids env) (ps_document_id sn) (rp_units resp)"
  have u: "pages_unique (filter (\<lambda>p. pg_document_id p \<noteq> ps_document_id sn) (pages (work s)) @ ?new)"
    using assms(6,7) by (intro pages_unique_replace)
      (simp_all add: new_pages_facts units_ok_distinct)
  have st: "d_ingestion_status x = PARSING" using assms(3) by (simp add: holds_attempt_def)
  show ?thesis
    using assms u st
    by (simp add: persist_parse_results_def replace_pages_def transition_moves Let_def)
qed



section \<open>All or nothing\<close>

lemma fail_parse_row:
  assumes "get_doc s (ps_document_id sn) = Some x" and "d_id x = ps_document_id sn"
    and "holds_attempt sn x"
  shows "\<exists>s' y. fail_parse_attempt sn code summary s = (Inr (), s')
    \<and> documents (stored s') (ps_document_id sn) = Some y \<and> d_ingestion_status y = PARSE_FAILED
    \<and> d_parse_error_code y = Some code \<and> pages (stored s') = pages (work s)
    \<and> outbox s' = outbox s \<and> d_parse_attempt_count y = d_parse_attempt_count x"
  using assms
  by (simp add: fail_parse_attempt_def transition_moves holds_attempt_def moved_def)

text \<open>
  Completing a parse is all or nothing: either the pages are replaced and the document is
  COMPLETED in the same commit, or the stored page table is the old one, no matter whether
  the database refused the rows, the metadata changed or the attempt was stale.
\<close>

lemma parse_completion_is_atomic:
  assumes "sess_ok s" and "stored s = work s"
    and "persist_parse_results env sn resp s = (r, s')"
  shows "pages (stored s') = pages (stored s) \<and> outbox s' = outbox s
    \<and> (\<forall>y. documents (stored s') (ps_document_id sn) = Some y \<longrightarrow> d_ingestion_status y = COMPLETED
         \<longrightarrow> (\<exists>x. documents (stored s) (ps_document_id sn) = Some x \<and> d_ingestion_status x = COMPLETED))
    \<or> r = Inr () \<and> (\<exists>y. documents (stored s') (ps_document_id sn) = Some y
         \<and> d_ingestion_status y = COMPLETED)
       \<and> pages (stored s') = filter (\<lambda>p. pg_document_id p \<noteq> ps_document_id sn) (pages (stored s))
           @ new_pages (pp_page_ids env) (ps_document_id sn) (rp_units resp)"
proof (cases "get_doc s (ps_document_id sn)")
  case None
  then show ?thesis using assms(3) by (auto simp: persist_parse_results_def)
next
  case (Some x)
  have id: "d_id x = ps_document_id sn" using lifecycle.row_id [OF assms(1) Some] .
  show ?thesis
  proof (cases "holds_attempt sn x")
    case False
    then show ?thesis using assms(2,3) Some by (auto simp: persist_parse_results_def get_doc_def)
  next
    case True
    have st: "d_ingestion_status x = PARSING" using True by (simp add: holds_attempt_def)
    show ?thesis
    proof (cases "clean_identifier x \<noteq> ps_clean_identifier sn
        \<or> d_sha256_digest x \<noteq> Some (ps_sha256_digest sn)")
      case drift: True
      obtain s'' y where "fail_parse_attempt sn ''PARSER_INPUT_CHANGED''
          ''Clean document metadata changed during parsing'' s = (Inr (), s'')"
        "documents (stored s'') (ps_document_id sn) = Some y" "d_ingestion_status y = PARSE_FAILED"
        "pages (stored s'') = pages (work s)" "outbox s'' = outbox s"
        using fail_parse_row [OF Some id True] by blast
      then show ?thesis using assms(2,3) Some True drift by (auto simp: persist_parse_results_def)
    next
      case False
      then show ?thesis
        using assms(2,3) Some True st id
        by (auto simp: persist_parse_results_def replace_pages_def transition_moves get_doc_def Let_def
            split: if_splits)
    qed
  qed
qed

definition demo_parsing_db :: db where
  "demo_parsing_db = empty_db\<lparr>documents := [5 \<mapsto> parsing_doc 77],
    audit := map (\<lambda>(a, b). \<lparr>ev_organization_id = 9, ev_user_id = None, ev_action = transition_action,
        ev_entity_type = ''Document'', ev_entity_id = 5,
        ev_details = [''from'' \<mapsto> JStatus a, ''to'' \<mapsto> JStatus b]\<rparr>)
      [(QUARANTINED, VALIDATING), (VALIDATING, SCANNING), (SCANNING, CLEAN_PENDING_PROMOTION),
       (CLEAN_PENDING_PROMOTION, PROMOTING), (PROMOTING, CLEAN), (CLEAN, PARSING)]\<rparr>"

lemma demo_parsing_ok: "sess_ok (open_session demo_parsing_db)"
  by (auto simp: demo_parsing_db_def sess_ok_def lifecycle_ok_def keyed_def empty_db_def trail_def is_move_of_def
      status_at_def parsing_doc_def start_status_def intro!: exI [of _ QUARANTINED])

theorem parse_completion_is_atomic_witness:
  "pages (stored (snd (persist_parse_results (demo_persist_env\<lparr>pp_flush_fails := True\<rparr>) demo_snapshot
     demo_response (open_session demo_parsing_db)))) = []"
  (is "pages (stored (snd ?r)) = []")
proof -
  have "fst ?r = Inl IntegrityError"
    by (simp add: persist_parse_results_def parsing_doc_def demo_snapshot_def holds_attempt_def
        clean_identifier_def demo_parsing_db_def)
  then have r: "?r = (Inl IntegrityError, snd ?r)" by (metis prod.collapse)
  show ?thesis
    using parse_completion_is_atomic [OF demo_parsing_ok _ r] by (simp add: empty_db_def demo_parsing_db_def)
qed

section \<open>Attempts\<close>

lemma retry_bounded:
  "outbox (snd (handle_call_failure cfg i sn e s)) = outbox s
   \<or> ps_attempt_count sn < pc_max_attempts cfg
     \<and> (\<exists>code msg. e = ParserClientError code msg \<and> code \<in> transient_parse_errors)
     \<and> outbox (snd (handle_call_failure cfg i sn e s))
         = outbox s @ [ParseRetryJob i (ps_attempt_count sn + 1)]"
proof -
  have quiet: "outbox (snd (fail_parse_attempt sn code m s)) = outbox s" for code m
    by (auto simp: fail_parse_attempt_def transition_moves holds_attempt_def split: option.splits)
  have two: "\<exists>s1. fail_parse_attempt sn code m s = (Inr (), s1) \<and> outbox s1 = outbox s" for code m
    using quiet [of code m]
    by (auto simp: fail_parse_attempt_def transition_moves holds_attempt_def split: option.splits)
  show ?thesis
  proof (cases e)
    case (ParserClientError code msg)
    then show ?thesis using two [of code msg]
      by (auto simp: handle_call_failure_def split: if_splits)
  qed (simp_all add: handle_call_failure_def quiet)
qed

text \<open>
  Beginning a parse counts one attempt, never beyond the configured maximum, and only
  from CLEAN or PARSE_FAILED; otherwise nothing changes. After a failed call a retry is
  published only for a transient error and only within the bound.
\<close>

lemma parse_attempts_bounded:
  assumes "sess_ok s" and "get_doc s i = Some x"
  shows "(prepare_parse_attempt cfg now token i s = (Inr None, s)
      \<or> d_ingestion_status x \<in> {CLEAN, PARSE_FAILED} \<and> d_parse_attempt_count x < pc_max_attempts cfg
        \<and> (\<exists>sn y. fst (prepare_parse_attempt cfg now token i s) = Inr (Some sn)
            \<and> get_doc (snd (prepare_parse_attempt cfg now token i s)) i = Some y
            \<and> d_ingestion_status y = PARSING \<and> d_parse_attempt_id y = Some token
            \<and> d_parse_attempt_count y = d_parse_attempt_count x + 1
            \<and> ps_attempt_count sn \<le> pc_max_attempts cfg))
    \<and> (outbox (snd (handle_call_failure cfg i sn' e s)) = outbox s
      \<or> ps_attempt_count sn' < pc_max_attempts cfg
        \<and> (\<exists>code msg. e = ParserClientError code msg \<and> code \<in> transient_parse_errors)
        \<and> outbox (snd (handle_call_failure cfg i sn' e s))
            = outbox s @ [ParseRetryJob i (ps_attempt_count sn' + 1)])"
proof -
  obtain r s1 where p: "prepare_parse_attempt cfg now token i s = (r, s1)" by fastforce
  show ?thesis
    using prepare_parse_cases [OF p assms(1)] assms(2) p retry_bounded [of cfg i sn' e s]
    by (auto simp: holds_attempt_def)
qed

theorem parse_attempts_bounded_witness:
  "prepare_parse_attempt \<lparr>pc_max_attempts = 3\<rparr> 0 1 5 (open_session demo_parsing_db)
     = (Inr None, open_session demo_parsing_db)"
proof -
  have row: "get_doc (open_session demo_parsing_db) 5 = Some (parsing_doc 77)"
    by (simp add: demo_parsing_db_def)
  have "d_ingestion_status (parsing_doc 77) = PARSING" by (simp add: parsing_doc_def)
  then show ?thesis
    using parse_attempts_bounded [OF demo_parsing_ok row, of "\<lparr>pc_max_attempts = 3\<rparr>" 0 1] by auto
qed

definition demo_pipeline_env :: pipeline_env where
  "demo_pipeline_env = \<lparr>pz_now = 1, pz_token = 77, pz_response = Inr demo_response,
     pz_persist = demo_persist_env\<lparr>pp_flush_fails := True\<rparr>, pz_usable = False, pz_error_text = []\<rparr>"

section \<open>What is not recovered\<close>

text \<open>
  A document in PARSING is never picked up again: every later pipeline run returns at
  once and leaves the database as it is, whatever became of the worker that set the status.
\<close>

lemma parsing_is_never_resumed:
  assumes "get_doc s i = Some x" and "d_ingestion_status x = PARSING" and "stored s = work s"
  shows "run_parse_pipeline cfg env i s = (Inr (), s)"
proof -
  have "prepare_parse_attempt cfg (pz_now env) (pz_token env) i s = (Inr None, s)"
    using assms(1,2) by (simp add: prepare_parse_attempt_def split: option.splits)
  moreover have "rollback s = s" using assms(3) by (simp add: rollback_def)
  ultimately show ?thesis by (simp add: run_parse_pipeline_def Let_def)
qed

theorem parsing_is_never_resumed_witness:
  "run_parse_pipeline \<lparr>pc_max_attempts = 3\<rparr> demo_pipeline_env 5 (open_session demo_parsing_db)
     = (Inr (), open_session demo_parsing_db)"
  by (rule parsing_is_never_resumed [where x = "parsing_doc 77"])
     (simp_all add: demo_parsing_db_def parsing_doc_def)

text \<open>
  When the database refuses the rows of a finished parse and the session is not rolled
  back, recording the failure raises too: the document stays in PARSING, and by the previous
  property it stays there.
\<close>

lemma refused_pages_strand_document:
  assumes "sess_ok s" and "prepare_parse_attempt cfg (pz_now env) (pz_token env) i s = (Inr (Some sn), s1)"
    and "pz_response env = Inr resp" and "pp_flush_fails (pz_persist env)" and "\<not> pz_usable env"
  shows "\<exists>y. fst (run_parse_pipeline cfg env i s) = Inl (OtherException ''PendingRollbackError'')
    \<and> documents (stored (snd (run_parse_pipeline cfg env i s))) i = Some y
    \<and> d_ingestion_status y = PARSING"
proof -
  obtain y where sn: "ps_document_id sn = i" "get_doc s1 i = Some y" "holds_attempt sn y"
    "stored s1 = work s1" "clean_identifier y = ps_clean_identifier sn"
    "d_sha256_digest y = Some (ps_sha256_digest sn)"
    using prepare_parse_cases [OF assms(2,1)] by auto
  have roll: "rollback s1 = s1" using sn(4) by (simp add: rollback_def)
  have "persist_parse_results (pz_persist env) sn resp s1 = (Inl IntegrityError, s1)"
    using sn assms(4) roll
    by (simp add: persist_parse_results_def replace_pages_def rollback_def Let_def)
  then show ?thesis
    using assms(2-5) sn
    by (simp add: run_parse_pipeline_def Let_def get_doc_def holds_attempt_def roll)
qed

definition demo_clean_db :: db where
  "demo_clean_db = demo_parsing_db\<lparr>
     documents := [5 \<mapsto> (parsing_doc 77)\<lparr>d_ingestion_status := CLEAN, d_parse_attempt_id := None\<rparr>],
     projects := [1 \<mapsto> \<lparr>pr_id = 1, pr_organization_id = 9, pr_name = uni ''p'', pr_created_by_id = 2,
       pr_client_name = uni ''c'', pr_due_date = None, pr_status = ''draft''\<rparr>],
     audit := butlast (audit demo_parsing_db)\<rparr>"

lemma demo_clean_ok: "sess_ok (open_session demo_clean_db)"
  by (auto simp: demo_clean_db_def demo_parsing_db_def sess_ok_def lifecycle_ok_def keyed_def
      empty_db_def trail_def is_move_of_def status_at_def parsing_doc_def start_status_def
      intro!: exI [of _ QUARANTINED])

theorem refused_pages_strand_document_witness:
  "\<exists>y. documents (stored (snd (run_parse_pipeline \<lparr>pc_max_attempts = 3\<rparr> demo_pipeline_env 5
      (open_session demo_clean_db)))) 5 = Some y \<and> d_ingestion_status y = PARSING"
proof -
  have "\<exists>sn s1. prepare_parse_attempt \<lparr>pc_max_attempts = 3\<rparr> (pz_now demo_pipeline_env)
      (pz_token demo_pipeline_env) 5 (open_session demo_clean_db) = (Inr (Some sn), s1)"
    by (simp add: prepare_parse_attempt_def demo_clean_db_def parsing_doc_def clean_metadata_def
        clean_identifier_def transition_moves begin_parse_def Let_def)
  then show ?thesis
    using refused_pages_strand_document [OF demo_clean_ok]
    by (fastforce simp: demo_pipeline_env_def)
qed

section \<open>Parsing respects the lifecycle\<close>

context db_invariant
begin

lemma prepare_parse_keeps:
  assumes "holds I s"
  shows "holds I (snd (prepare_parse_attempt cfg now token i s))"
proof (cases "get_doc s i")
  case None
  then show ?thesis using assms by (simp add: prepare_parse_attempt_def)
next
  case (Some x)
  have "holds I (snd (and_then (transition (begin_parse now token x) PARSING org usr None None det s)
      (\<lambda>_ s1. (Inr v, commit s1))))" for org usr det and v :: "parse_snapshot option"
    by (intro and_then_keeps keep_transition_row [OF assms Some])
       (simp_all add: begin_parse_def)
  then show ?thesis
    using assms Some
    by (simp add: prepare_parse_attempt_def Let_def split: option.splits)
qed

lemma fail_parse_keeps:
  assumes "holds I s"
  shows "holds I (snd (fail_parse_attempt sn code summary s))"
proof (cases "get_doc s (ps_document_id sn)")
  case None
  then show ?thesis using assms by (simp add: fail_parse_attempt_def)
next
  case (Some x)
  then show ?thesis
    using assms
    by (auto simp: fail_parse_attempt_def intro!: and_then_keeps keep_transition_row [OF assms Some])
qed

lemma keep_pages: "holds I s \<Longrightarrow> holds I (replace_pages did new s)"
  by (erule keep_elsewhere) (simp_all add: replace_pages_def)

lemma get_doc_replace_pages [simp]: "get_doc (replace_pages did new s) i = get_doc s i"
  by (simp add: get_doc_def replace_pages_def)

lemma persist_keeps:
  assumes "holds I s"
  shows "holds I (snd (persist_parse_results env sn resp s))"
proof (cases "get_doc s (ps_document_id sn)")
  case None
  then show ?thesis using assms by (simp add: persist_parse_results_def)
next
  case (Some x)
  have row: "get_doc (replace_pages did new s) (ps_document_id sn) = Some x" for did new
    using Some by simp
  have ok: "holds I (replace_pages did new s)" for did new using assms by (rule keep_pages)
  show ?thesis
    using assms Some fail_parse_keeps [OF assms] holds_simps(2) [OF assms]
    by (auto simp: persist_parse_results_def Let_def
        intro!: and_then_keeps keep_transition_row [OF ok row])
qed

lemma call_failure_keeps:
  assumes "holds I s"
  shows "holds I (snd (handle_call_failure cfg i sn e s))"
  by (cases e)
     (auto simp: handle_call_failure_def intro!: and_then_keeps fail_parse_keeps assms)

lemma pipeline_keeps:
  assumes "holds I s"
  shows "holds I (snd (run_parse_pipeline cfg env i s))"
  unfolding run_parse_pipeline_def
proof (rule and_then_keeps)
  show "holds I (snd (prepare_parse_attempt cfg (pz_now env) (pz_token env) i s))"
    using assms by (rule prepare_parse_keeps)
next
  fix sn s1 assume "holds I s1"
  then have ok: "holds I (rollback s1)" by simp
  have after: "holds I s3" if "persist_parse_results (pz_persist env) n resp (rollback s1) = (r, s3)"
    for n resp r s3
    using persist_keeps [OF ok] that by (metis snd_conv)
  show "holds I (snd (let s2 = rollback s1 in
       (case sn of None \<Rightarrow> (Inr (), s2)
        | Some n \<Rightarrow> (case pz_response env of
               Inl e \<Rightarrow> handle_call_failure cfg i n e s2
             | Inr resp \<Rightarrow> (case persist_parse_results (pz_persist env) n resp s2 of
                    (Inr _, s3) \<Rightarrow> (Inr (), s3)
                  | (Inl e, s3) \<Rightarrow>
                      if pz_usable env
                      then fail_parse_attempt n ''PARSER_PERSISTENCE_FAILED''
                             (''Database persistence error: '' @ pz_error_text env) s3
                      else (Inl (OtherException ''PendingRollbackError''), s3))))))"
    using ok after call_failure_keeps [OF ok]
    by (auto simp: Let_def fail_parse_keeps split: option.splits sum.splits prod.splits)
qed

end

definition parse_job :: "parse_config \<Rightarrow> pipeline_env \<times> uuid \<Rightarrow> sess \<Rightarrow> sess" where
  "parse_job cfg e s = snd (run_parse_pipeline cfg (fst e) (snd e) s)"

interpretation parses: document_job "parse_job cfg" for cfg
  by unfold_locales (simp add: parse_job_def db_invariant.pipeline_keeps)

end
