(* ===== verification/Queue.thy ===== *)
theory Queue
  imports MalwareScan Promotion Parsing
begin

text \<open>
  \<open>app/core/queue.py\<close> and the task entry points of \<open>app/worker.py\<close>: how jobs are handed
  to the queue, what happens when that fails, the retry delays, and the inline execution used
  when no queue is configured. The legacy \<open>ProcessingJob\<close> path is not modelled here.
\<close>

section \<open>Retry delays\<close>

text \<open>\<open>min(base * 2 ** (attempt - 1), max)\<close>, then a factor \<open>0.5 + random()\<close>.\<close>

definition backoff :: "rat \<Rightarrow> rat \<Rightarrow> nat \<Rightarrow> rat" where
  "backoff base cap attempt = min (base * 2 powi (int attempt - 1)) cap"

definition jittered :: "rat \<Rightarrow> rat \<Rightarrow> rat" where
  "jittered delay r = delay * (1 / 2 + r)"

section \<open>Handing a job to the queue\<close>

text \<open>\<open>QUEUE_ENABLED\<close>, whether an event loop is running in the caller, and whether the
  connection to Redis works.\<close>

record queue_env =
  qe_enabled :: bool
  qe_loop :: bool
  qe_redis_ok :: bool

text \<open>
  What an enqueue call leads to: the task runs inside the call, the task is scheduled on the
  running loop, the job is in Redis, the failure handler runs, nothing happens, or the call
  raises.
\<close>

datatype enqueue_effect = RunsInline | RunsOnLoop | InQueue | FailureHandled | Dropped | Raises

definition enqueue_scan_job :: "queue_env \<Rightarrow> enqueue_effect" where
  "enqueue_scan_job q = (if \<not> qe_enabled q then RunsInline
     else if qe_redis_ok q then InQueue else FailureHandled)"

definition enqueue_scan_retry :: "queue_env \<Rightarrow> enqueue_effect" where
  "enqueue_scan_retry q = (if \<not> qe_enabled q then RunsInline
     else if qe_redis_ok q then InQueue else if qe_loop q then Dropped else Raises)"

definition enqueue_promotion_job :: "queue_env \<Rightarrow> bool \<Rightarrow> enqueue_effect" where
  "enqueue_promotion_job q sync_mode = (if \<not> qe_enabled q \<or> sync_mode then RunsInline
     else if qe_redis_ok q then InQueue else FailureHandled)"

definition enqueue_extraction_job :: "queue_env \<Rightarrow> enqueue_effect" where
  "enqueue_extraction_job q = (if \<not> qe_enabled q then Dropped
     else if qe_redis_ok q then InQueue else FailureHandled)"

definition run_parse_sync :: "queue_env \<Rightarrow> enqueue_effect" where
  "run_parse_sync q = (if qe_loop q then RunsOnLoop else RunsInline)"

definition enqueue_parse_job :: "queue_env \<Rightarrow> bool \<Rightarrow> enqueue_effect" where
  "enqueue_parse_job q sync_mode =
     (if \<not> qe_enabled q then (if qe_loop q then RunsOnLoop else Dropped)
      else if sync_mode then run_parse_sync q
      else if qe_redis_ok q then InQueue else FailureHandled)"

definition enqueue_parse_retry :: "queue_env \<Rightarrow> enqueue_effect" where
  "enqueue_parse_retry q = (if \<not> qe_enabled q then run_parse_sync q
     else if qe_redis_ok q then InQueue else if qe_loop q then Dropped else Raises)"

section \<open>Failure handlers\<close>

text \<open>Each opens its own session; \<open>db_fails\<close> stands for an unavailable database, which is
  logged and otherwise ignored.\<close>

definition handle_scan_enqueue_failure :: "nat \<Rightarrow> bool \<Rightarrow> uuid \<Rightarrow> sess \<Rightarrow> sess" where
  "handle_scan_enqueue_failure max_attempts db_fails i s =
     (if db_fails then s
      else case get_doc s i of
        None \<Rightarrow> s
      | Some x \<Rightarrow>
          if d_ingestion_status x \<noteq> SCANNING then s
          else (case projects (work s) (d_project_id x) of
             None \<Rightarrow> s
           | Some p \<Rightarrow>
               let x1 = x\<lparr>d_scan_attempt_count := d_scan_attempt_count x + 1,
                          d_scan_status := Some ''SCAN_ENQUEUE_FAILED''\<rparr>;
                   s1 = snd (transition x1 SCAN_FAILED (pr_organization_id p)
                          (Some (d_created_by_id x1)) (Some ''SCAN_ENQUEUE_FAILED'')
                          (Some safe_scan_failure_summary)
                          (Some [''scan_attempt_count'' \<mapsto> JInt (int (d_scan_attempt_count x1))]) s)
               in if d_scan_attempt_count x1 < max_attempts
                  then publish (ScanRetryJob i (d_scan_attempt_count x1 + 1)) s1 else s1))"

definition handle_promotion_enqueue_failure :: "bool \<Rightarrow> uuid \<Rightarrow> sess \<Rightarrow> sess" where
  "handle_promotion_enqueue_failure db_fails i s =
     (if db_fails then s
      else case get_doc s i of
        None \<Rightarrow> s
      | Some x \<Rightarrow>
          if d_ingestion_status x \<noteq> CLEAN_PENDING_PROMOTION \<and> d_ingestion_status x \<noteq> PROMOTING then s
          else (case projects (work s) (d_project_id x) of
             None \<Rightarrow> s
           | Some p \<Rightarrow>
               let org = pr_organization_id p; usr = Some (d_created_by_id x);
                   s1 = (if d_ingestion_status x = CLEAN_PENDING_PROMOTION
                         then snd (transition x PROMOTING org usr (Some ''PROMOTION_QUEUE_FAILED'')
                                     None None s) else s)
               in (case get_doc s1 i of
                     None \<Rightarrow> s1
                   | Some y \<Rightarrow> snd (transition y PROMOTION_FAILED org usr
                       (Some ''PROMOTION_QUEUE_FAILED'')
                       (Some ''Clean storage promotion failed to queue. An operator will review the document.'')
                       None s1))))"

definition handle_extraction_enqueue_failure :: "bool \<Rightarrow> uuid \<Rightarrow> uuid \<Rightarrow> sess \<Rightarrow> sess" where
  "handle_extraction_enqueue_failure db_fails i org s =
     (if db_fails then s
      else commit (add_audit \<lparr>ev_organization_id = org, ev_user_id = None,
             ev_action = ''extraction_failed'', ev_entity_type = ''Document'', ev_entity_id = i,
             ev_details = [''result_code'' \<mapsto> JStr ''EXTRACTION_QUEUE_FAILED'']\<rparr> s))"

definition handle_parse_enqueue_failure :: "bool \<Rightarrow> uuid \<Rightarrow> sess \<Rightarrow> sess" where
  "handle_parse_enqueue_failure db_fails i s =
     (if db_fails then s
      else case get_doc s i of
        None \<Rightarrow> s
      | Some x \<Rightarrow>
          (case projects (work s) (d_project_id x) of
             None \<Rightarrow> s
           | Some p \<Rightarrow>
               commit (add_audit \<lparr>ev_organization_id = pr_organization_id p,
                 ev_user_id = Some (d_created_by_id x),
                 ev_action = ''document_parse_enqueue_failed'', ev_entity_type = ''document'',
                 ev_entity_id = d_id x,
                 ev_details = [''reason_code'' \<mapsto> JStr ''PARSE_QUEUE_FAILED'']\<rparr> s)))"

section \<open>Task entry points\<close>

definition scan_document_task ::
  "scan_config \<Rightarrow> (bytes \<Rightarrow> string) \<Rightarrow> (nat \<Rightarrow> nat option) \<Rightarrow> scan_env \<Rightarrow> uuid \<Rightarrow> sess
    \<Rightarrow> (exc + unit) \<times> sess" where
  "scan_document_task cfg H dv env i s =
     and_then (prepare_scan_attempt cfg i s) (\<lambda>org s1.
       case org of None \<Rightarrow> (Inr (), s1)
       | Some g \<Rightarrow> and_then (run_scan cfg H dv env i g s1) (\<lambda>_ s2. (Inr (), scan_again cfg i s2)))"

text \<open>A \<open>PromotionError\<close> is swallowed, anything else is raised again.\<close>

definition swallow_promotion_error :: "exc + unit \<Rightarrow> exc + unit" where
  "swallow_promotion_error r = (case r of Inl (PromotionError c m) \<Rightarrow> Inr () | _ \<Rightarrow> r)"

definition promote_document_task ::
  "(bytes \<Rightarrow> string) \<Rightarrow> promote_env \<Rightarrow> uuid \<Rightarrow> sess \<Rightarrow> store \<Rightarrow> (exc + unit) \<times> sess \<times> store" where
  "promote_document_task H env i s fs =
     (case get_doc s i of
        None \<Rightarrow> (Inr (), s, fs)
      | Some x \<Rightarrow>
          (case projects (work s) (d_project_id x) of
             None \<Rightarrow> (Inr (), s, fs)
           | Some p \<Rightarrow>
               (let (r, s1, fs1) = promote_document H env i (pr_organization_id p)
                                     (Some (d_created_by_id x)) s fs
                in (swallow_promotion_error r, s1, fs1))))"

definition run_promotion_sync ::
  "(bytes \<Rightarrow> string) \<Rightarrow> promote_env \<Rightarrow> uuid \<Rightarrow> sess \<Rightarrow> store \<Rightarrow> (exc + unit) \<times> sess \<times> store" where
  "run_promotion_sync H env i s fs =
     (case get_doc s i of
        None \<Rightarrow> (Inr (), s, fs)
      | Some x \<Rightarrow>
          (case projects (work s) (d_project_id x) of
             None \<Rightarrow> (Inr (), s, fs)
           | Some p \<Rightarrow>
               (let (r, s1, fs1) = promote_document H env i (pr_organization_id p)
                                     (Some (d_created_by_id x)) s fs
                in (swallow_promotion_error r, s1, fs1))))"

text \<open>
  With the queue disabled, \<open>run_scan_sync\<close> and \<open>enqueue_scan_retry\<close> call each other on
  fresh sessions; fuel stands for the recursion limit of the interpreter. \<open>envs\<close> gives the
  environment of each attempt.
\<close>

definition wants_retry :: "uuid \<Rightarrow> sess \<Rightarrow> bool" where
  "wants_retry i s \<longleftrightarrow> (\<exists>k \<in> set (outbox s). case k of ScanRetryJob j n \<Rightarrow> j = i | _ \<Rightarrow> False)"

fun scan_inline ::
  "nat \<Rightarrow> scan_config \<Rightarrow> (bytes \<Rightarrow> string) \<Rightarrow> (nat \<Rightarrow> nat option) \<Rightarrow> (nat \<Rightarrow> scan_env) \<Rightarrow> nat \<Rightarrow> uuid
    \<Rightarrow> db \<Rightarrow> db option" where
  "scan_inline 0 cfg H dv envs k i d = None"
| "scan_inline (Suc fuel) cfg H dv envs k i d =
     (let s = snd (run_scan_sync cfg H dv (envs k) i (open_session d))
      in if wants_retry i s then scan_inline fuel cfg H dv envs (Suc k) i (stored s)
         else Some (stored s))"

section \<open>Delays\<close>

text \<open>
  Every retry delay is at least half and less than one and a half times the capped
  exponential backoff, so never beyond one and a half times the configured maximum; the
  backoff itself never decreases from one attempt to the next.
\<close>

lemma retry_delay_bounded:
  assumes "0 \<le> base" and "0 \<le> cap" and "0 \<le> r" and "r < 1"
  shows "backoff base cap attempt / 2 \<le> jittered (backoff base cap attempt) r
    \<and> jittered (backoff base cap attempt) r \<le> 3 / 2 * cap
    \<and> backoff base cap attempt \<le> backoff base cap (Suc attempt)"
proof -
  let ?d = "backoff base cap attempt"
  have d: "0 \<le> ?d" "?d \<le> cap" using assms(1,2) by (auto simp: backoff_def)
  have "?d * (1 / 2) \<le> ?d * (1 / 2 + r)"
    using d(1) assms(3) by (intro mult_left_mono) auto
  moreover have "?d * (1 / 2 + r) \<le> cap * (3 / 2)"
    using d assms(2-4) by (intro mult_mono) auto
  moreover have "base * 2 powi (int attempt - 1) \<le> base * 2 powi (int (Suc attempt) - 1)"
    using assms(1) by (intro mult_left_mono power_int_increasing) auto
  ultimately show ?thesis
    by (auto simp: jittered_def backoff_def min_def algebra_simps)
qed

theorem retry_delay_bounded_witness:
  "jittered (backoff 5 300 3) (1 / 4) \<le> 450 \<and> backoff 5 300 3 \<le> backoff 5 300 4"
  using retry_delay_bounded [of 5 300 "1 / 4" 3] by simp

section \<open>No scan is lost\<close>

lemma scan_enqueue_failure_row:
  assumes "get_doc s i = Some x" and "d_id x = i" and "d_ingestion_status x = SCANNING"
    and "projects (work s) (d_project_id x) = Some p"
  shows "\<exists>y. documents (stored (handle_scan_enqueue_failure m False i s)) i = Some y
    \<and> d_ingestion_status y = SCAN_FAILED \<and> d_scan_attempt_count y = d_scan_attempt_count x + 1
    \<and> outbox (handle_scan_enqueue_failure m False i s) = outbox s @
        (if d_scan_attempt_count y < m then [ScanRetryJob i (d_scan_attempt_count y + 1)] else [])"
  using assms by (auto simp: handle_scan_enqueue_failure_def transition_moves Let_def)

text \<open>
  Whatever the state of the queue, asking for a scan is never silently dropped: the scan
  runs, is queued, or the failure handler moves the SCANNING document to SCAN_FAILED, counts
  the attempt, and publishes a retry exactly while attempts remain.
\<close>

lemma scan_request_not_lost:
  assumes "get_doc s i = Some x" and "d_id x = i" and "d_ingestion_status x = SCANNING"
    and "projects (work s) (d_project_id x) = Some p"
  shows "enqueue_scan_job q \<in> {RunsInline, InQueue, FailureHandled}
    \<and> (\<exists>y. documents (stored (handle_scan_enqueue_failure m False i s)) i = Some y
        \<and> d_ingestion_status y = SCAN_FAILED \<and> d_scan_attempt_count y = d_scan_attempt_count x + 1
        \<and> outbox (handle_scan_enqueue_failure m False i s) = outbox s @
            (if d_scan_attempt_count y < m then [ScanRetryJob i (d_scan_attempt_count y + 1)] else []))"
  using scan_enqueue_failure_row [OF assms] by (simp add: enqueue_scan_job_def)

theorem scan_request_not_lost_witness:
  "\<exists>y. documents (stored (handle_scan_enqueue_failure 3 False 5 (open_session demo_db))) 5 = Some y
     \<and> d_ingestion_status y = SCAN_FAILED \<and> d_scan_attempt_count y = 1"
proof -
  have "projects (work (open_session demo_db)) (d_project_id demo_document) = Some demo_project"
    by (simp add: demo_db_def demo_document_def)
  then show ?thesis
    using scan_request_not_lost [OF demo_row(1,3,2), where m = 3 and p = demo_project] by (auto simp: demo_count)
qed

text \<open>The calls that can be lost: a scheduled retry when Redis is down (dropped on a running
  loop, raised otherwise) and a parse request with the queue disabled and no running loop.\<close>

lemma lost_enqueues:
  "enqueue_scan_retry \<lparr>qe_enabled = True, qe_loop = True, qe_redis_ok = False\<rparr> = Dropped"
  "enqueue_scan_retry \<lparr>qe_enabled = True, qe_loop = False, qe_redis_ok = False\<rparr> = Raises"
  "enqueue_parse_job \<lparr>qe_enabled = False, qe_loop = False, qe_redis_ok = ok\<rparr> b = Dropped"
  by (simp_all add: enqueue_scan_retry_def enqueue_parse_job_def)

section \<open>Inline retries end\<close>

lemma transition_outbox [simp]:
  "outbox (snd (transition x new org usr reason summary detail s)) = outbox s"
  by (simp add: transition_def Let_def)

lemma prepare_scan_outbox: "outbox (snd (prepare_scan_attempt cfg i s)) = outbox s"
  by (auto simp: prepare_scan_attempt_def transition_moves Let_def split: option.splits)

lemma run_scan_no_retry:
  assumes "sess_ok s" and "outbox s = []"
  shows "\<not> wants_retry i (snd (run_scan cfg H dv env i org s))"
proof (cases "\<exists>x. get_doc s i = Some x \<and> d_ingestion_status x = SCANNING")
  case True
  then obtain x where "get_doc s i = Some x" "d_ingestion_status x = SCANNING" by blast
  then show ?thesis
    using run_scan_implements_verdict_aux [of s i x cfg H dv env org] lifecycle.row_id [OF assms(1)] assms(2)
    by (auto simp: wants_retry_def Let_def)
next
  case False
  then show ?thesis using assms(2) by (subst run_scan_idle) (auto simp: wants_retry_def)
qed

lemma retry_counts:
  assumes ok: "lifecycle_ok d"
    and retry: "wants_retry i (snd (run_scan_sync cfg H dv env i (open_session d)))"
  shows "\<exists>x y. documents d i = Some x
    \<and> documents (stored (snd (run_scan_sync cfg H dv env i (open_session d)))) i = Some y
    \<and> d_scan_attempt_count y = d_scan_attempt_count x + 1
    \<and> d_scan_attempt_count y < sc_max_attempts cfg"
proof -
  let ?s = "open_session d"
  have ok0: "sess_ok ?s" using ok by simp
  obtain r s1 where p: "prepare_scan_attempt cfg i ?s = (r, s1)" by fastforce
  have o1: "outbox s1 = []" using prepare_scan_outbox [of cfg i ?s] p by simp
  have ok1: "sess_ok s1" using lifecycle.prepare_scan_keeps [OF ok0, of cfg i] p by simp
  obtain org where r: "r = Inr (Some org)"
    using retry o1 by (cases r) (auto simp: run_scan_sync_def p wants_retry_def split: option.splits)
  obtain x where x: "get_doc ?s i = Some x"
    using p r by (auto simp: prepare_scan_attempt_def split: option.splits)
  note prep = prepare_scan_cases [OF p [unfolded r] x lifecycle.row_id [OF ok0 x]]
  obtain q s2 where run: "run_scan cfg H dv env i org s1 = (q, s2)" by fastforce
  have quiet: "\<not> wants_retry i s2" using run_scan_no_retry [OF ok1 o1, of i cfg H dv env org] run by simp
  have fin: "snd (run_scan_sync cfg H dv env i ?s) = (case q of Inl e \<Rightarrow> s2 | Inr _ \<Rightarrow> scan_again cfg i s2)"
    by (cases q) (simp_all add: run_scan_sync_def p r run)
  then obtain y where y: "get_doc s2 i = Some y" "d_ingestion_status y = SCAN_FAILED"
      "d_scan_attempt_count y < sc_max_attempts cfg"
    and fin2: "stored (snd (run_scan_sync cfg H dv env i ?s)) = stored s2"
    using retry quiet
    by (auto simp: scan_again_def split: sum.splits option.splits if_splits)
  show ?thesis
  proof (cases "\<exists>x1. get_doc s1 i = Some x1 \<and> d_ingestion_status x1 = SCANNING")
    case True
    then obtain x1 where x1: "get_doc s1 i = Some x1" "d_ingestion_status x1 = SCANNING" by blast
    have "d_scan_attempt_count x1 = d_scan_attempt_count x" using prep x1 x by auto
    moreover have "stored s2 = work s2 \<and> (\<exists>y. documents (stored s2) i = Some y
        \<and> d_scan_attempt_count y = d_scan_attempt_count x1 + 1)"
      using run_scan_implements_verdict_aux [OF x1 lifecycle.row_id [OF ok1 x1(1)], of cfg H dv env org] run
      by (auto simp: Let_def)
    ultimately show ?thesis using x y fin2 by (auto simp: get_doc_def)
  next
    case False
    then have "s2 = s1" using run by (subst (asm) run_scan_idle) auto
    then show ?thesis using False prep y x by auto
  qed
qed

lemma scan_inline_ends:
  assumes "lifecycle_ok d" and "0 < fuel"
    and "\<forall>x. documents d i = Some x \<longrightarrow> sc_max_attempts cfg - d_scan_attempt_count x < fuel"
  shows "\<exists>d'. scan_inline fuel cfg H dv envs k i d = Some d' \<and> lifecycle_ok d'"
  using assms
proof (induction fuel arbitrary: k d)
  case 0
  then show ?case by simp
next
  case (Suc fuel)
  let ?s = "snd (run_scan_sync cfg H dv (envs k) i (open_session d))"
  have ok: "lifecycle_ok (stored ?s)"
    using lifecycle.run_scan_sync_keeps [of "open_session d" cfg H dv "envs k" i] Suc.prems(1)
    by (simp add: sess_ok_def)
  show ?case
  proof (cases "wants_retry i ?s")
    case True
    obtain x' y where xy: "documents d i = Some x'" "documents (stored ?s) i = Some y"
      "d_scan_attempt_count y = d_scan_attempt_count x' + 1"
      "d_scan_attempt_count y < sc_max_attempts cfg"
      using retry_counts [OF Suc.prems(1) True] by blast
    moreover have "sc_max_attempts cfg - d_scan_attempt_count x' < Suc fuel"
      using Suc.prems(3) xy(1) by blast
    ultimately have "sc_max_attempts cfg - d_scan_attempt_count y < fuel" "0 < fuel" by linarith+
    then show ?thesis using Suc.IH [OF ok] xy(2) True by (simp add: Let_def)
  next
    case False
    then show ?thesis using ok by (simp add: Let_def)
  qed
qed

text \<open>
  C28. With the queue disabled, where every retry runs inside the attempt before it, scanning
  a document returns: one more unit of fuel than the attempts that are left is enough,
  whatever clamd and the file system do in each attempt, and the lifecycle invariant holds.
\<close>

theorem inline_scan_terminates:
  assumes "lifecycle_ok d" and "documents d i = Some x"
    and "sc_max_attempts cfg - d_scan_attempt_count x < fuel"
  shows "\<exists>d'. scan_inline fuel cfg H dv envs k i d = Some d' \<and> lifecycle_ok d'"
  using assms by (intro scan_inline_ends) auto

definition demo_scanning_db :: db where
  "demo_scanning_db = demo_db\<lparr>audit :=
      map (\<lambda>(a, b). \<lparr>ev_organization_id = 9, ev_user_id = None, ev_action = transition_action,
        ev_entity_type = ''Document'', ev_entity_id = 5,
        ev_details = [''from'' \<mapsto> JStatus a, ''to'' \<mapsto> JStatus b]\<rparr>)
      [(QUARANTINED, VALIDATING), (VALIDATING, SCANNING)]\<rparr>"

lemma demo_scanning_ok: "lifecycle_ok demo_scanning_db"
  by (auto simp: lifecycle_ok_def keyed_def demo_scanning_db_def demo_db_def empty_db_def trail_def
      is_move_of_def status_at_def demo_document_def start_status_def intro!: exI [of _ QUARANTINED])

theorem inline_scan_terminates_witness:
  "\<exists>d'. scan_inline 4 demo_scan_config (\<lambda>_. ''h'') ascii_digit (\<lambda>_. demo_scan_env) 0 5 demo_scanning_db = Some d' \<and> lifecycle_ok d'"
  by (rule inline_scan_terminates [OF demo_scanning_ok, where x = demo_document])
     (simp_all add: demo_scanning_db_def demo_db_def demo_scan_config_def demo_count)

section \<open>The handlers respect the lifecycle\<close>

context db_invariant
begin

lemma scan_failure_keeps:
  assumes "holds I s"
  shows "holds I (handle_scan_enqueue_failure m db_fails i s)"
proof (cases "get_doc s i")
  case None
  then show ?thesis using assms by (simp add: handle_scan_enqueue_failure_def)
next
  case (Some x)
  have "holds I (snd (transition (x\<lparr>d_scan_attempt_count := c, d_scan_status := v\<rparr>) new org usr r t det s))"
    for c v new org usr r t det
    by (rule keep_transition_row [OF assms Some]) simp_all
  then show ?thesis
    using assms Some
    by (simp add: handle_scan_enqueue_failure_def Let_def split: option.splits)
qed

lemma promotion_failure_keeps:
  assumes "holds I s"
  shows "holds I (handle_promotion_enqueue_failure db_fails i s)"
proof (cases "get_doc s i")
  case None
  then show ?thesis using assms by (simp add: handle_promotion_enqueue_failure_def)
next
  case (Some x)
  have one: "holds I (snd (transition x new org usr r t det s))" for new org usr r t det
    by (rule keep_transition_row [OF assms Some]) simp_all
  have two: "holds I (snd (transition y new org usr r t det s1))"
    if "holds I s1" "get_doc s1 i = Some y" for y s1 new org usr r t det
    by (rule keep_transition_row [OF that]) simp_all
  show ?thesis
    using assms Some one two
    by (simp add: handle_promotion_enqueue_failure_def Let_def split: option.splits)
qed

lemma extraction_failure_keeps:
  "holds I s \<Longrightarrow> holds I (handle_extraction_enqueue_failure db_fails i org s)"
  by (simp add: handle_extraction_enqueue_failure_def keep_audit transition_action_def)

lemma parse_failure_keeps:
  "holds I s \<Longrightarrow> holds I (handle_parse_enqueue_failure db_fails i s)"
  by (simp add: handle_parse_enqueue_failure_def keep_audit transition_action_def
      split: option.splits)

lemma promote_task_keeps:
  assumes "holds I s"
  shows "holds I (fst (snd (promote_document_task H env i s fs)))"
proof -
  have "holds I s1" if "promote_document H env i org usr s fs = (r, s1, fs1)" for org usr r s1 fs1
    using promote_keeps [OF assms, of H env i org usr fs] that by simp
  then show ?thesis
    using assms by (auto simp: promote_document_task_def split: option.splits prod.splits)
qed

end

datatype enqueue_failure =
    ScanEnqueueFailed nat bool uuid
  | PromotionEnqueueFailed bool uuid
  | ExtractionEnqueueFailed bool uuid uuid
  | ParseEnqueueFailed bool uuid

fun recover_enqueue :: "enqueue_failure \<Rightarrow> sess \<Rightarrow> sess" where
  "recover_enqueue (ScanEnqueueFailed m b i) s = handle_scan_enqueue_failure m b i s"
| "recover_enqueue (PromotionEnqueueFailed b i) s = handle_promotion_enqueue_failure b i s"
| "recover_enqueue (ExtractionEnqueueFailed b i org) s = handle_extraction_enqueue_failure b i org s"
| "recover_enqueue (ParseEnqueueFailed b i) s = handle_parse_enqueue_failure b i s"

interpretation enqueues: document_job recover_enqueue
proof
  fix I s e assume "db_invariant I" and "holds I s"
  then show "holds I (recover_enqueue e s)"
    by (cases e) (simp_all add: db_invariant.scan_failure_keeps db_invariant.promotion_failure_keeps
        db_invariant.extraction_failure_keeps db_invariant.parse_failure_keeps)
qed

end
