(* ===== verification/ProjectService.thy ===== *)
theory ProjectService
  imports Ingestion Security
begin

text \<open>
  \<open>app/services/project_service.py\<close>, the legacy job functions of \<open>app/core/queue.py\<close> and
  \<open>app/services/extraction_service.py\<close>: projects, the one active RFP document of a project,
  and the in-process pipeline that predates the security pipeline and is still reachable for
  CLEAN documents. Text extraction (PyMuPDF, python-docx) and the language model are
  parameters.
\<close>

section \<open>Projects and their active RFP\<close>

definition get_project :: "uuid \<Rightarrow> uuid \<Rightarrow> db \<Rightarrow> project option" where
  "get_project i org d =
     (case projects d i of None \<Rightarrow> None
      | Some p \<Rightarrow> if pr_organization_id p = org then Some p else None)"

text \<open>\<open>candidates\<close> is a query result, so \<open>rows\<close> lists the documents in its order.\<close>

definition first_active_rfp :: "document list \<Rightarrow> document option" where
  "first_active_rfp rows = find (\<lambda>x. \<not> rejected (d_ingestion_status x)) rows"

definition rfp_rows :: "db \<Rightarrow> uuid \<Rightarrow> document list \<Rightarrow> bool" where
  "rfp_rows d proj rows \<longleftrightarrow>
     set rows = {x. \<exists>i. documents d i = Some x \<and> d_project_id x = proj \<and> d_doc_role x = ''rfp''}"

definition create_project ::
  "uuid \<Rightarrow> uuid \<Rightarrow> uuid \<Rightarrow> ustr \<Rightarrow> ustr \<Rightarrow> time option \<Rightarrow> sess \<Rightarrow> project \<times> sess" where
  "create_project i org usr nm client due s =
     (let p = \<lparr>pr_id = i, pr_organization_id = org, pr_name = nm, pr_created_by_id = usr,
               pr_client_name = client, pr_due_date = due, pr_status = ''draft''\<rparr>;
          s1 = commit (s\<lparr>work := (work s)\<lparr>projects := (projects (work s))(i \<mapsto> p)\<rparr>\<rparr>)
      in (p, log_audit_event \<lparr>ev_organization_id = org, ev_user_id = Some usr,
               ev_action = ''project_create'', ev_entity_type = ''ProposalProject'', ev_entity_id = i,
               ev_details = [''name'' \<mapsto> JText nm, ''client_name'' \<mapsto> JText client]\<rparr> s1))"

section \<open>Uploading the RFP\<close>

text \<open>
  The project row is locked (on PostgreSQL) from the query to the first commit of the
  ingestion, so the check and the insertion are one step with respect to other uploads.
  \<open>rows\<close> is the result of the query for RFP documents.
\<close>

definition upload_rfp_document ::
  "(bytes \<Rightarrow> string) \<Rightarrow> ingest_config \<Rightarrow> ingest_env \<Rightarrow> document list \<Rightarrow> uuid \<Rightarrow> uuid \<Rightarrow> uuid \<Rightarrow> sess \<Rightarrow> dir
    \<Rightarrow> (exc + uuid) \<times> sess \<times> dir" where
  "upload_rfp_document H cfg env rows proj org usr s d =
     (case get_project proj org (work s) of
        None \<Rightarrow> (Inl (HTTPException 404 ''Project not found''), s, d)
      | Some p \<Rightarrow>
          if first_active_rfp rows \<noteq> None
          then (Inl (HTTPException 400 ''Project already has an active RFP document''), s, d)
          else ingest_uploaded_document H cfg env proj org usr ''rfp'' rfp_metadata s d)"

text \<open>The knowledge-base upload of the project page; the client's approval status is ignored.\<close>

definition upload_knowledge ::
  "(bytes \<Rightarrow> string) \<Rightarrow> ingest_config \<Rightarrow> ingest_env \<Rightarrow> bool \<Rightarrow> role_metadata \<Rightarrow> uuid \<Rightarrow> uuid \<Rightarrow> uuid \<Rightarrow> sess \<Rightarrow> dir
    \<Rightarrow> (exc + uuid) \<times> sess \<times> dir" where
  "upload_knowledge H cfg env audit_ok m proj org usr s d =
     (case get_project_for_org audit_ok proj org s of
        (Inl e, s1) \<Rightarrow> (Inl e, s1, d)
      | (Inr _, s1) \<Rightarrow> ingest_uploaded_document H cfg env proj org usr ''knowledge_base''
                          (m\<lparr>rm_approval_status := ''PENDING''\<rparr>) s1 d)"

section \<open>One active RFP per project\<close>

definition active_rfp :: "uuid \<Rightarrow> document \<Rightarrow> bool" where
  "active_rfp proj x \<longleftrightarrow> d_project_id x = proj \<and> d_doc_role x = ''rfp'' \<and> \<not> rejected (d_ingestion_status x)"

definition one_active_rfp :: "db \<Rightarrow> bool" where
  "one_active_rfp d \<longleftrightarrow>
     (\<forall>proj i j x y. documents d i = Some x \<longrightarrow> documents d j = Some y \<longrightarrow>
        active_rfp proj x \<longrightarrow> active_rfp proj y \<longrightarrow> i = j)"

text \<open>Background jobs keep it, because a rejected document is never revived.\<close>

lemma descends_active:
  "descends (Some x) (Some y) \<Longrightarrow> active_rfp proj y \<Longrightarrow> active_rfp proj x"
  using rejected_final by (fastforce simp: descends_def active_rfp_def)

lemma evolved_one_active:
  assumes "evolved d e" and "one_active_rfp d"
  shows "one_active_rfp e"
  unfolding one_active_rfp_def
proof (intro allI impI)
  fix proj i j x y
  assume *: "documents e i = Some x" "documents e j = Some y" "active_rfp proj x" "active_rfp proj y"
  have old: "\<exists>x0. documents d k = Some x0 \<and> active_rfp proj x0"
    if "documents e k = Some z" "active_rfp proj z" for k z
  proof -
    have "descends (documents d k) (Some z)" using assms(1) that(1) unfolding evolved_def by metis
    then show ?thesis using that(2)
      by (cases "documents d k") (auto simp: descends_def dest: descends_active [rotated])
  qed
  show "i = j"
    using old [OF *(1,3)] old [OF *(2,4)] assms(2) unfolding one_active_rfp_def by blast
qed

text \<open>Uploads keep it because the one of the RFP checks first.\<close>

lemma added_one_active:
  assumes "one_active_rfp d" and "documents d (d_id x) = None"
    and "documents e = (documents d)(d_id x \<mapsto> x)"
    and "d_doc_role x = ''rfp'' \<longrightarrow> (\<forall>j y. documents d j = Some y \<longrightarrow> \<not> active_rfp (d_project_id x) y)"
  shows "one_active_rfp e"
  using assms unfolding one_active_rfp_def active_rfp_def by (auto split: if_splits)

lemma one_active_kept:
  assumes "one_active_rfp d" and "rfp_rows d proj rows"
  shows "one_active_rfp (stored (fst (snd
           (upload_rfp_document H cfg env rows proj org usr (open_session d) dir))))"
proof (cases "get_project proj org d = None \<or> first_active_rfp rows \<noteq> None")
  case True
  then show ?thesis
    using assms(1) by (auto simp: upload_rfp_document_def split: option.splits)
next
  case False
  then have none: "\<not> active_rfp proj y" if "documents d j = Some y" for j y
    using assms(2) that
    by (auto simp: first_active_rfp_def find_None_iff rfp_rows_def active_rfp_def)
  from False have up: "upload_rfp_document H cfg env rows proj org usr (open_session d) dir =
      ingest_uploaded_document H cfg env proj org usr ''rfp'' rfp_metadata (open_session d) dir"
    by (auto simp: upload_rfp_document_def)
  have same: "one_active_rfp e" if "documents e = documents d" for e
    using assms(1) that by (simp add: one_active_rfp_def)
  obtain r s' d' where i: "ingest_uploaded_document H cfg env proj org usr ''rfp'' rfp_metadata
      (open_session d) dir = (r, s', d')" by (cases "ingest_uploaded_document H cfg env proj org usr ''rfp'' rfp_metadata
      (open_session d) dir") auto
  show ?thesis
    using ingest_documents [OF i] same added_one_active [OF assms(1)] none
    unfolding up i by (cases r) fastforce+
qed

text \<open>
  A project never has two active RFP documents: an upload of another RFP is refused while
  one is not rejected, and after any upload, accepted, rejected or failed, every project still
  has at most one.
\<close>

lemma one_active_rfp_per_project:
  assumes "one_active_rfp d" and "rfp_rows d proj rows"
  shows "one_active_rfp (stored (fst (snd
           (upload_rfp_document H cfg env rows proj org usr (open_session d) dir))))"
  using assms by (rule one_active_kept)

theorem one_active_rfp_per_project_witness:
  "one_active_rfp (stored (fst (snd (upload_rfp_document (\<lambda>_. ''h'') demo_ingest_config demo_ingest_env []
     1 2 4 (open_session empty_db) Map.empty))))"
  by (rule one_active_rfp_per_project)
    (simp_all add: one_active_rfp_def rfp_rows_def empty_db_def)

lemma knowledge_one_active:
  assumes "one_active_rfp d"
  shows "one_active_rfp (stored (fst (snd
           (upload_knowledge H cfg env audit_ok m proj org usr (open_session d) dir))))"
proof -
  have same: "one_active_rfp e" if "documents e = documents d" for e
    using assms that by (simp add: one_active_rfp_def)
  obtain r s1 where g: "get_project_for_org audit_ok proj org (open_session d) = (r, s1)" by fastforce
  show ?thesis
  proof (cases r)
    case (Inl e)
    then show ?thesis
      using g same by (auto simp: upload_knowledge_def get_project_for_org_def split: option.splits if_splits)
  next
    case (Inr p)
    then have s1: "s1 = open_session d" using project_for_org g by blast
    obtain r' s' d' where i: "ingest_uploaded_document H cfg env proj org usr ''knowledge_base''
        (m\<lparr>rm_approval_status := ''PENDING''\<rparr>) (open_session d) dir = (r', s', d')"
      by (cases "ingest_uploaded_document H cfg env proj org usr ''knowledge_base''
        (m\<lparr>rm_approval_status := ''PENDING''\<rparr>) (open_session d) dir") auto
    have up: "upload_knowledge H cfg env audit_ok m proj org usr (open_session d) dir = (r', s', d')"
      using g Inr s1 i by (simp add: upload_knowledge_def)
    show ?thesis
      using ingest_documents [OF i] same added_one_active [OF assms]
      unfolding up by (cases r') fastforce+
  qed
qed

section \<open>Uploads respect the lifecycle\<close>

lemma upload_rfp_keeps:
  "sess_ok s \<Longrightarrow> sess_ok (fst (snd (upload_rfp_document H cfg env rows proj org usr s d)))"
  by (simp add: upload_rfp_document_def ingest_keeps_lifecycle split: option.splits)

lemma upload_knowledge_keeps:
  assumes "sess_ok s"
  shows "sess_ok (fst (snd (upload_knowledge H cfg env audit_ok m proj org usr s d)))"
proof (cases "get_project_for_org audit_ok proj org s")
  case (Pair r s1)
  have "sess_ok s1"
    using Pair assms lifecycle.keep_audit [OF assms]
    by (auto simp: get_project_for_org_def access_event_def transition_action_def
        split: option.splits if_splits)
  then show ?thesis
    using Pair by (cases r) (simp_all add: upload_knowledge_def ingest_keeps_lifecycle)
qed

interpretation rfp_uploads: status_operation
  "\<lambda>(H, cfg, env, rfps, proj, org, usr, d) s. fst (snd (upload_rfp_document H cfg env rfps proj org usr s d))"
  by unfold_locales (auto intro: upload_rfp_keeps)

interpretation knowledge_uploads: status_operation
  "\<lambda>(H, cfg, env, ok, m, proj, org, usr, d) s. fst (snd (upload_knowledge H cfg env ok m proj org usr s d))"
  by unfold_locales (auto intro: upload_knowledge_keeps)

end
