(* ===== verification/LegacyJob.thy ===== *)
theory LegacyJob
  imports ProjectService CandidateExtraction
begin

text \<open>
  The in-process pipeline of \<open>project_service.process_job_pipeline_async\<close> with
  \<open>extraction_service.extract_requirements_from_document\<close>, and the job rows of
  \<open>app/core/queue.py\<close>. Reading the file (\<open>extract_pages\<close>) and the language model are
  parameters; a failing database inside the pipeline is not represented.
\<close>

section \<open>Requirement drafts\<close>

record requirement_draft =
  rd_original_text :: ustr
  rd_source_section :: "ustr option"
  rd_source_page :: "int option"
  rd_requirement_type :: "string option"
  rd_mandatory :: bool
  rd_risk_level :: "string option"

record legacy_env =
  lg_now :: time
  lg_finished :: time
  lg_pages :: "exc + (int \<times> ustr) list"
  lg_llm :: "ustr \<Rightarrow> exc + requirement_draft list"
  lg_page_ids :: "nat \<Rightarrow> uuid"
  lg_requirement_ids :: "nat \<Rightarrow> uuid"
  lg_queue_enabled :: bool
  lg_redis_ok :: bool
  lg_loop :: bool

fun batches :: "'a list \<Rightarrow> 'a list list" where
  "batches [] = []"
| "batches (x # xs) = take 10 (x # xs) # batches (drop 10 (x # xs))"

fun join_lines :: "ustr list \<Rightarrow> ustr" where
  "join_lines [] = []"
| "join_lines [l] = l"
| "join_lines (l # ls) = l @ 10 # join_lines ls"

definition batch_text :: "document_page list \<Rightarrow> ustr" where
  "batch_text ps = join_lines (map (\<lambda>p. uni (''[PAGE '' @ show_int (pg_page_number p) @ '']'') @ 10 # pg_content p) ps)"

text \<open>The first draft of every 100-character prefix.\<close>

fun unique_drafts :: "ustr set \<Rightarrow> requirement_draft list \<Rightarrow> requirement_draft list" where
  "unique_drafts seen [] = []"
| "unique_drafts seen (d # ds) =
     (let prefix = take 100 (rd_original_text d) in
      if prefix \<in> seen then unique_drafts seen ds else d # unique_drafts (insert prefix seen) ds)"

fun ask_llm :: "(ustr \<Rightarrow> exc + requirement_draft list) \<Rightarrow> document_page list list \<Rightarrow> exc + requirement_draft list" where
  "ask_llm llm [] = Inr []"
| "ask_llm llm (b # bs) =
     (case llm (batch_text b) of
        Inl e \<Rightarrow> Inl e
      | Inr ds \<Rightarrow> (case ask_llm llm bs of Inl e \<Rightarrow> Inl e | Inr rest \<Rightarrow> Inr (ds @ rest)))"

definition drafted_requirement :: "legacy_env \<Rightarrow> document \<Rightarrow> nat \<times> requirement_draft \<Rightarrow> requirement" where
  "drafted_requirement env x kd =
     \<lparr>rq_id = lg_requirement_ids env (fst kd), rq_project_id = d_project_id x,
      rq_source_document_id = Some (d_id x), rq_source_candidate_id = None,
      rq_original_text = rd_original_text (snd kd), rq_source_section = rd_source_section (snd kd),
      rq_source_page = rd_source_page (snd kd), rq_requirement_type = rd_requirement_type (snd kd),
      rq_mandatory = rd_mandatory (snd kd), rq_status = ''NOT_STARTED'',
      rq_owner_name = None, rq_proposal_section = None, rq_risk_level = rd_risk_level (snd kd),
      rq_assigned_to_user_id = None, rq_assigned_by_user_id = None, rq_assigned_at = None\<rparr>"

definition extract_requirements_from_document ::
  "legacy_env \<Rightarrow> uuid \<Rightarrow> sess \<Rightarrow> (exc + requirement list) \<times> sess" where
  "extract_requirements_from_document env i s =
     (case get_doc s i of
        None \<Rightarrow> (Inr [], s)
      | Some x \<Rightarrow>
          (case ask_llm (lg_llm env) (batches (load_ordered_pages (work s) i)) of
             Inl e \<Rightarrow> (Inl e, s)
           | Inr drafts \<Rightarrow>
               let org = (case projects (work s) (d_project_id x) of
                            None \<Rightarrow> d_created_by_id x | Some p \<Rightarrow> pr_organization_id p);
                   rs = map (drafted_requirement env x) (enumerate 0 (unique_drafts {} drafts));
                   s1 = commit (s\<lparr>work := (work s)\<lparr>requirements := requirements (work s) @ rs\<rparr>\<rparr>)
               in (Inr rs, log_audit_event
                     \<lparr>ev_organization_id = org, ev_user_id = Some (d_created_by_id x),
                      ev_action = ''requirements_extraction'', ev_entity_type = ''Document'',
                      ev_entity_id = d_id x,
                      ev_details = [''extracted_count'' \<mapsto> JInt (int (length rs))]\<rparr> s1)))"

section \<open>Job rows\<close>

definition set_job :: "uuid \<Rightarrow> (processing_job \<Rightarrow> processing_job) \<Rightarrow> sess \<Rightarrow> sess" where
  "set_job k f s = s\<lparr>work := (work s)\<lparr>processing_jobs := upd_row jb_id k f (processing_jobs (work s))\<rparr>\<rparr>"

definition find_job :: "db \<Rightarrow> uuid \<Rightarrow> processing_job option" where
  "find_job d k = find (\<lambda>j. jb_id j = k) (processing_jobs d)"

definition create_processing_job ::
  "nat \<Rightarrow> uuid \<Rightarrow> uuid \<Rightarrow> uuid option \<Rightarrow> uuid option \<Rightarrow> string \<Rightarrow> uuid option \<Rightarrow> sess \<Rightarrow> sess" where
  "create_processing_job max_retries k org proj doc kind usr s =
     commit (s\<lparr>work := (work s)\<lparr>processing_jobs := processing_jobs (work s) @
       [\<lparr>jb_id = k, jb_org_id = org, jb_project_id = proj, jb_document_id = doc, jb_job_type = kind,
         jb_status = ''QUEUED'', jb_progress_percent = 0, jb_current_step = [], jb_attempts = 0,
         jb_max_attempts = max_retries, jb_error_type = None, jb_safe_error_message = None,
         jb_started_at = None, jb_finished_at = None, jb_created_by_user_id = usr\<rparr>]\<rparr>\<rparr>)"

definition step_job :: "uuid \<Rightarrow> int \<Rightarrow> string \<Rightarrow> sess \<Rightarrow> sess" where
  "step_job k percent step s =
     commit (set_job k (\<lambda>j. j\<lparr>jb_progress_percent := percent, jb_current_step := step\<rparr>) s)"

definition start_job :: "legacy_env \<Rightarrow> uuid \<Rightarrow> sess \<Rightarrow> sess" where
  "start_job env k s =
     commit (set_job k (\<lambda>j. j\<lparr>jb_attempts := jb_attempts j + 1, jb_status := ''RUNNING'',
       jb_started_at := Some (lg_now env), jb_progress_percent := 10,
       jb_current_step := ''Fetching document record''\<rparr>) s)"

section \<open>The pipeline\<close>

definition legacy_page :: "legacy_env \<Rightarrow> uuid \<Rightarrow> nat \<times> int \<times> ustr \<Rightarrow> document_page" where
  "legacy_page env i p =
     \<lparr>pg_id = lg_page_ids env (fst p), pg_document_id = i, pg_page_number = fst (snd p),
      pg_content = snd (snd p), pg_unit_kind = None, pg_source_locator = None,
      pg_content_sha256 = None\<rparr>"

definition save_pages :: "legacy_env \<Rightarrow> document \<Rightarrow> (int \<times> ustr) list \<Rightarrow> sess \<Rightarrow> sess" where
  "save_pages env x pgs s =
     commit (put_doc (x\<lparr>d_content := Some (join_lines (map snd pgs))\<rparr>)
       (s\<lparr>work := (work s)\<lparr>pages := filter (\<lambda>p. pg_document_id p \<noteq> d_id x) (pages (work s))
            @ map (legacy_page env (d_id x)) (enumerate 0 pgs)\<rparr>\<rparr>))"

definition drop_requirements :: "uuid \<Rightarrow> sess \<Rightarrow> sess" where
  "drop_requirements i s = s\<lparr>work := (work s)\<lparr>requirements :=
     filter (\<lambda>r. rq_source_document_id r \<noteq> Some i) (requirements (work s))\<rparr>\<rparr>"

definition extract_stage :: "legacy_env \<Rightarrow> uuid \<Rightarrow> document \<Rightarrow> sess \<Rightarrow> (exc + unit) \<times> sess" where
  "extract_stage env k x s =
     (if d_doc_role x = ''rfp''
      then (let (r, s1) = extract_requirements_from_document env (d_id x)
                  (drop_requirements (d_id x)
                     (step_job k 70 ''Extracting requirements from RFP'' s))
            in (map_sum id (\<lambda>_. ()) r, s1))
      else (Inr (), s))"

definition finish_job :: "legacy_env \<Rightarrow> processing_job \<Rightarrow> nat \<Rightarrow> document \<Rightarrow> sess \<Rightarrow> sess" where
  "finish_job env j n x s =
     log_audit_event
       \<lparr>ev_organization_id = jb_org_id j, ev_user_id = jb_created_by_user_id j,
        ev_action = ''document_extraction_success'', ev_entity_type = ''Document'', ev_entity_id = d_id x,
        ev_details = [''page_count'' \<mapsto> JInt (int n)]\<rparr>
       (commit (put_doc (x\<lparr>d_processing_status := ''completed'', d_processing_error := None\<rparr>)
          (set_job (jb_id j) (\<lambda>j. j\<lparr>jb_progress_percent := 100, jb_current_step := ''Completed successfully'',
             jb_status := ''SUCCEEDED'', jb_finished_at := Some (lg_finished env)\<rparr>) s)))"

text \<open>The \<open>try\<close> block; \<open>Inl\<close> is an exception together with the open transaction.\<close>

definition process_clean :: "legacy_env \<Rightarrow> processing_job \<Rightarrow> document \<Rightarrow> sess \<Rightarrow> (exc + unit) \<times> sess" where
  "process_clean env j x s =
     (let x1 = x\<lparr>d_processing_status := ''processing''\<rparr>;
          s1 = step_job (jb_id j) 30 ''Extracting pages from file'' (commit (put_doc x1 s))
      in (case lg_pages env of
            Inl e \<Rightarrow> (Inl e, s1)
          | Inr pgs \<Rightarrow>
              let x2 = x1\<lparr>d_content := Some (join_lines (map snd pgs))\<rparr>;
                  s2 = save_pages env x1 pgs
                         (step_job (jb_id j) 50 ''Indexing and saving pages (idempotent)'' s1)
              in and_then (extract_stage env (jb_id j) x2 s2)
                   (\<lambda>_ s3. (Inr (), finish_job env j (length pgs) x2 s3))))"

definition job_body :: "legacy_env \<Rightarrow> processing_job \<Rightarrow> sess \<Rightarrow> (exc + unit) \<times> sess" where
  "job_body env j s =
     (case (case jb_document_id j of None \<Rightarrow> None | Some i \<Rightarrow> get_doc s i) of
        None \<Rightarrow> (Inl (OtherException ''ValueError''), s)
      | Some x \<Rightarrow>
          if d_ingestion_status x \<noteq> CLEAN then (Inl (OtherException ''IngestionStateError''), s)
          else process_clean env j x s)"

definition exc_name :: "exc \<Rightarrow> string" where
  "exc_name e = (case e of OtherException k \<Rightarrow> k | HTTPException _ _ \<Rightarrow> ''HTTPException''
     | IntegrityError \<Rightarrow> ''IntegrityError'' | _ \<Rightarrow> ''Exception'')"

definition failed_job :: "legacy_env \<Rightarrow> exc \<Rightarrow> processing_job \<Rightarrow> sess \<Rightarrow> (exc + unit) \<times> sess" where
  "failed_job env e j s =
     (let msg = ''Failed during step '' @ CHR 39 # jb_current_step j @ CHR 39 # '': '' @ exc_name e in
      if jb_attempts j < jb_max_attempts j then
        (if lg_queue_enabled env then Inl (OtherException ''Retry'') else Inr (),
         commit (set_job (jb_id j) (\<lambda>j. j\<lparr>jb_status := ''RETRYING'',
           jb_safe_error_message := Some msg, jb_error_type := Some (exc_name e)\<rparr>) s))
      else
        let s1 = set_job (jb_id j) (\<lambda>j. j\<lparr>jb_status := ''FAILED'', jb_finished_at := Some (lg_finished env),
                   jb_safe_error_message := Some msg, jb_error_type := Some (exc_name e)\<rparr>) s
        in (Inr (),
            case jb_document_id j of
              None \<Rightarrow> commit s1
            | Some i \<Rightarrow>
                let s2 = commit (case get_doc s1 i of None \<Rightarrow> s1
                     | Some x \<Rightarrow> put_doc (x\<lparr>d_processing_status := ''failed'', d_processing_error := Some msg\<rparr>) s1);
                    proj = (case jb_project_id j of None \<Rightarrow> None | Some p \<Rightarrow> projects (work s2) p)
                in log_audit_event
                     \<lparr>ev_organization_id = (case proj of None \<Rightarrow> jb_org_id j | Some p \<Rightarrow> pr_organization_id p),
                      ev_user_id = jb_created_by_user_id j, ev_action = ''document_extraction_failed'',
                      ev_entity_type = ''Document'', ev_entity_id = i,
                      ev_details = [''error'' \<mapsto> JStr msg]\<rparr> s2))"

definition process_job_pipeline :: "legacy_env \<Rightarrow> uuid \<Rightarrow> sess \<Rightarrow> (exc + unit) \<times> sess" where
  "process_job_pipeline env k s =
     (let s1 = start_job env k s in
      case find_job (work s1) k of
        None \<Rightarrow> (Inr (), s)
      | Some j \<Rightarrow>
          (case job_body env j s1 of
             (Inr _, s2) \<Rightarrow> (Inr (), s2)
           | (Inl e, s2) \<Rightarrow>
               (case find_job (stored s2) k of
                  None \<Rightarrow> (Inl e, rollback s2)
                | Some j2 \<Rightarrow> failed_job env e j2 (rollback s2))))"

text \<open>\<open>worker.process_document_task\<close> and \<open>run_job_sync\<close>: a missing job row raises in the
  worker and is ignored inline.\<close>

definition process_document_task :: "legacy_env \<Rightarrow> uuid \<Rightarrow> sess \<Rightarrow> (exc + unit) \<times> sess" where
  "process_document_task env k s =
     (if find_job (work s) k = None then (Inl (OtherException ''ValueError''), s)
      else process_job_pipeline env k s)"

definition run_job_sync :: "legacy_env \<Rightarrow> uuid \<Rightarrow> sess \<Rightarrow> (exc + unit) \<times> sess" where
  "run_job_sync env k s =
     (if find_job (work s) k = None then (Inr (), s) else process_job_pipeline env k s)"

text \<open>
  \<open>enqueue_job\<close>: with the queue enabled the job goes to Redis (a failure there is lost in a task
  of a running loop and raised otherwise), else it runs in the call.
\<close>

definition enqueue_job ::
  "legacy_env \<Rightarrow> nat \<Rightarrow> bool \<Rightarrow> uuid \<Rightarrow> uuid \<Rightarrow> uuid option \<Rightarrow> uuid option \<Rightarrow> string \<Rightarrow> uuid option \<Rightarrow> sess
    \<Rightarrow> (exc + unit) \<times> sess" where
  "enqueue_job env max_retries sync_mode k org proj doc kind usr s =
     (let s1 = create_processing_job max_retries k org proj doc kind usr s in
      if lg_queue_enabled env \<and> \<not> sync_mode then
        (if lg_redis_ok env then (Inr (), publish (ProcessingJob k) s1)
         else if lg_loop env then (Inr (), s1)
         else (Inl (OtherException ''ConnectionError''), s1))
      else run_job_sync env k s1)"

text \<open>The "retry" button of the project page.\<close>

definition retry_document_processing ::
  "legacy_env \<Rightarrow> nat \<Rightarrow> bool \<Rightarrow> uuid \<Rightarrow> uuid \<Rightarrow> uuid \<Rightarrow> uuid \<Rightarrow> uuid \<Rightarrow> sess \<Rightarrow> (exc + bool) \<times> sess" where
  "retry_document_processing env max_retries audit_ok k proj i org usr s =
     (case get_project_for_org audit_ok proj org s of
        (Inl e, s1) \<Rightarrow> (Inl e, s1)
      | (Inr _, s1) \<Rightarrow>
          (case get_doc s1 i of
             None \<Rightarrow> (Inl (HTTPException 404 ''Document not found''), s1)
           | Some x \<Rightarrow>
               if d_project_id x \<noteq> proj then (Inl (HTTPException 404 ''Document not found''), s1)
               else if d_ingestion_status x \<noteq> CLEAN then (Inr False, s1)
               else
                 let s2 = commit (put_doc (x\<lparr>d_processing_status := ''pending'', d_processing_error := None\<rparr>) s1);
                     (r, s3) = enqueue_job env max_retries False k org (Some proj) (Some i)
                                 ''document_processing'' (Some usr) s2
                 in (map_sum id (\<lambda>_. True) r, s3)))"

section \<open>What a run does to the job row\<close>

definition same_run :: "processing_job \<Rightarrow> processing_job \<Rightarrow> bool" where
  "same_run j j2 \<longleftrightarrow> jb_id j2 = jb_id j \<and> jb_attempts j2 = jb_attempts j
     \<and> jb_max_attempts j2 = jb_max_attempts j \<and> jb_document_id j2 = jb_document_id j"

text \<open>The row of this attempt is in the table.\<close>

definition running :: "processing_job \<Rightarrow> db \<Rightarrow> bool" where
  "running j d \<longleftrightarrow> (\<exists>j2. find_job d (jb_id j) = Some j2 \<and> same_run j j2)"

lemma running_cong: "processing_jobs d = processing_jobs e \<Longrightarrow> running j d = running j e"
  by (simp add: running_def find_job_def)

lemma set_job_frame [simp]:
  "stored (set_job k f s) = stored s" "documents (work (set_job k f s)) = documents (work s)"
  "pages (work (set_job k f s)) = pages (work s)" "requirements (work (set_job k f s)) = requirements (work s)"
  "audit (work (set_job k f s)) = audit (work s)" "candidates (work (set_job k f s)) = candidates (work s)"
  "tasks (work (set_job k f s)) = tasks (work s)" "projects (work (set_job k f s)) = projects (work s)"
  "get_doc (set_job k f s) i = get_doc s i"
  by (simp_all add: set_job_def get_doc_def)

lemma find_job_set:
  assumes "\<And>j. jb_id (f j) = jb_id j"
  shows "find_job (work (set_job k f s)) m =
    (if m = k then map_option f (find_job (work s) m) else find_job (work s) m)"
  by (simp add: find_job_def set_job_def find_upd_row assms)

lemma running_set:
  assumes "running j (work s)" and "\<And>i. same_run i (f i)"
  shows "running j (work (set_job k f s))"
proof -
  have "jb_id (f i) = jb_id i" for i using assms(2) [of i] by (simp add: same_run_def)
  then show ?thesis
    using assms by (auto simp: running_def find_job_set same_run_def)
qed

lemma running_step:
  "holds (running j) s \<Longrightarrow> holds (running j) (step_job k p st s)"
  by (simp add: step_job_def holds_def running_set same_run_def)

lemma running_writes:
  "holds (running j) s \<Longrightarrow> holds (running j) (put_doc x s)"
  "holds (running j) s \<Longrightarrow> holds (running j) (add_audit e s)"
  "holds (running j) s \<Longrightarrow> holds (running j) (log_audit_event e s)"
  "holds (running j) s \<Longrightarrow> holds (running j) (drop_requirements i s)"
  "holds (running j) s \<Longrightarrow> holds (running j) (save_pages env x pgs s)"
  "holds (running j) s \<Longrightarrow> holds (running j) (snd (extract_requirements_from_document env i s))"
  by (simp_all add: holds_def log_audit_event_def drop_requirements_def save_pages_def
      extract_requirements_from_document_def Let_def running_def find_job_def
      split: option.splits sum.splits)

lemma extract_stage_state:
  "snd (extract_stage env k x s) =
     (if d_doc_role x = ''rfp''
      then snd (extract_requirements_from_document env (d_id x) (drop_requirements (d_id x)
             (step_job k 70 ''Extracting requirements from RFP'' s)))
      else s)"
  by (simp add: extract_stage_def Let_def case_prod_beta')

lemma running_stage:
  assumes "holds (running j) s"
  shows "holds (running j) (snd (extract_stage env k x s))"
  unfolding extract_stage_state
  by (simp add: assms running_writes running_step)

lemma finish_job_row:
  assumes "running j (work s)"
  shows "\<exists>j2. find_job (stored (finish_job env j n x s)) (jb_id j) = Some j2
    \<and> jb_attempts j2 = jb_attempts j \<and> jb_status j2 = ''SUCCEEDED''"
proof -
  let ?f = "\<lambda>j. j\<lparr>jb_progress_percent := 100, jb_current_step := ''Completed successfully'',
             jb_status := ''SUCCEEDED'', jb_finished_at := Some (lg_finished env)\<rparr>"
  obtain j2 where j2: "find_job (work s) (jb_id j) = Some j2" "same_run j j2"
    using assms by (auto simp: running_def)
  have "find_job (stored (finish_job env j n x s)) (jb_id j) = find_job (work (set_job (jb_id j) ?f s)) (jb_id j)"
    by (simp add: finish_job_def log_audit_event_def find_job_def)
  also have "\<dots> = Some (?f j2)" by (simp add: find_job_set j2(1))
  finally show ?thesis using j2(2) by (simp add: same_run_def)
qed

text \<open>
  An exception of the body leaves the row of the attempt in the committed database; a normal
  end marks it as succeeded.
\<close>

lemma process_clean_row:
  assumes "holds (running j) s"
  shows "case process_clean env j x s of
      (Inl _, s') \<Rightarrow> running j (stored s')
    | (Inr _, s') \<Rightarrow> \<exists>j2. find_job (stored s') (jb_id j) = Some j2 \<and> jb_attempts j2 = jb_attempts j
        \<and> jb_status j2 = ''SUCCEEDED''"
proof (cases "lg_pages env")
  case (Inl e)
  then show ?thesis
    using assms running_step running_writes(1)
    by (simp add: process_clean_def Let_def holds_stored)
next
  case (Inr pgs)
  let ?x1 = "x\<lparr>d_processing_status := ''processing''\<rparr>"
  let ?x2 = "?x1\<lparr>d_content := Some (join_lines (map snd pgs))\<rparr>"
  let ?s2 = "save_pages env ?x1 pgs (step_job (jb_id j) 50 ''Indexing and saving pages (idempotent)''
     (step_job (jb_id j) 30 ''Extracting pages from file'' (commit (put_doc ?x1 s))))"
  have "holds (running j) ?s2"
    by (intro running_writes(5) running_step holds_simps(1) running_writes(1) assms)
  then have st: "holds (running j) (snd (extract_stage env (jb_id j) ?x2 ?s2))" by (rule running_stage)
  obtain q s3 where q: "extract_stage env (jb_id j) ?x2 ?s2 = (q, s3)" by fastforce
  then have s3: "holds (running j) s3" using st by simp
  then have "running j (work s3)" by (rule holds_work)
  from finish_job_row [OF this] show ?thesis
    using s3 q Inr
    by (cases q) (simp_all add: process_clean_def Let_def holds_stored)
qed

lemma job_body_row:
  assumes "holds (running j) s"
  shows "case job_body env j s of
      (Inl _, s') \<Rightarrow> running j (stored s')
    | (Inr _, s') \<Rightarrow> \<exists>j2. find_job (stored s') (jb_id j) = Some j2 \<and> jb_attempts j2 = jb_attempts j
        \<and> jb_status j2 = ''SUCCEEDED''"
  using assms process_clean_row [OF assms, of env]
  by (auto simp: job_body_def holds_stored split: option.splits)

lemma failed_job_row:
  assumes "find_job (work s) k = Some j" and "jb_id j = k"
  shows "\<exists>j2. find_job (stored (snd (failed_job env e j s))) k = Some j2 \<and> jb_attempts j2 = jb_attempts j
    \<and> jb_status j2 = (if jb_attempts j < jb_max_attempts j then ''RETRYING'' else ''FAILED'')"
proof -
  have set: "find_job (work (set_job k f s)) k = Some (f j)" if "\<And>i. jb_id (f i) = jb_id i" for f
    using assms that by (simp add: find_job_set)
  show ?thesis
  proof (cases "jb_attempts j < jb_max_attempts j")
    case True
    then show ?thesis using assms(2) by (simp add: failed_job_def Let_def set)
  next
    case False
    then show ?thesis
      using assms(2) set
      by (auto simp: failed_job_def Let_def log_audit_event_def find_job_def put_doc_def
          split: option.splits)
  qed
qed

text \<open>
  Every run of a legacy job counts exactly one attempt and ends in a settled row: the job
  succeeded, or it waits for a retry with attempts left, or it failed because the attempts are
  used up. No exception of the pipeline leaves it RUNNING.
\<close>

lemma job_run_is_settled:
  assumes "find_job d k = Some j"
  shows "\<exists>j2. find_job (stored (snd (process_job_pipeline env k (open_session d)))) k = Some j2
    \<and> jb_attempts j2 = jb_attempts j + 1
    \<and> (jb_status j2 = ''SUCCEEDED''
       \<or> jb_status j2 = ''RETRYING'' \<and> jb_attempts j2 < jb_max_attempts j
       \<or> jb_status j2 = ''FAILED'' \<and> jb_max_attempts j \<le> jb_attempts j2)"
proof -
  let ?f = "\<lambda>j. j\<lparr>jb_attempts := jb_attempts j + 1, jb_status := ''RUNNING'',
       jb_started_at := Some (lg_now env), jb_progress_percent := 10,
       jb_current_step := ''Fetching document record''\<rparr>"
  let ?s1 = "start_job env k (open_session d)"
  have id: "jb_id j = k" using find_Some_in assms by (fastforce simp: find_job_def)
  have j1: "find_job (work ?s1) k = Some (?f j)"
    using assms by (simp add: start_job_def find_job_set)
  have cl: "stored ?s1 = work ?s1" by (simp add: start_job_def)
  have run: "holds (running (?f j)) ?s1"
    using j1 cl id by (simp add: holds_def running_def same_run_def)
  obtain r s2 where b: "job_body env (?f j) ?s1 = (r, s2)" by fastforce
  show ?thesis
  proof (cases r)
    case (Inr v)
    then show ?thesis
      using job_body_row [OF run, of env] b j1 id by (auto simp: process_job_pipeline_def Let_def)
  next
    case (Inl e)
    obtain j3 where j3: "find_job (stored s2) k = Some j3" "same_run (?f j) j3"
      using job_body_row [OF run, of env] b Inl id by (auto simp: running_def)
    have "jb_id j3 = k" using j3(2) id by (simp add: same_run_def)
    then show ?thesis
      using failed_job_row [of "rollback s2" k j3 env e] j3 b Inl j1
      by (auto simp: process_job_pipeline_def Let_def same_run_def split: if_splits)
  qed
qed

definition demo_job :: processing_job where
  "demo_job = \<lparr>jb_id = 70, jb_org_id = 9, jb_project_id = Some 1, jb_document_id = Some 5,
     jb_job_type = ''document_processing'', jb_status = ''QUEUED'', jb_progress_percent = 0,
     jb_current_step = [], jb_attempts = 0, jb_max_attempts = 3, jb_error_type = None,
     jb_safe_error_message = None, jb_started_at = None, jb_finished_at = None,
     jb_created_by_user_id = Some 2\<rparr>"

definition demo_legacy_env :: legacy_env where
  "demo_legacy_env = \<lparr>lg_now = 1, lg_finished = 2, lg_pages = Inr [(1, uni ''The vendor must comply.'')],
     lg_llm = (\<lambda>_. Inr [\<lparr>rd_original_text = uni ''The vendor must comply.'', rd_source_section = None,
        rd_source_page = Some 1, rd_requirement_type = None, rd_mandatory = True, rd_risk_level = None\<rparr>]),
     lg_page_ids = id, lg_requirement_ids = id, lg_queue_enabled = False, lg_redis_ok = True,
     lg_loop = False\<rparr>"

definition demo_legacy_db :: "ingestion_status \<Rightarrow> db" where
  "demo_legacy_db st = demo_completed_db\<lparr>documents := [5 \<mapsto> (new_document 5 1 2 (uni ''rfp.pdf'') ''a.clean'' ''pdf'')
     \<lparr>d_ingestion_status := st\<rparr>], processing_jobs := [demo_job]\<rparr>"

lemma demo_job_found: "find_job (demo_legacy_db st) 70 = Some demo_job"
  by (simp add: find_job_def demo_legacy_db_def demo_job_def)

theorem job_run_is_settled_witness:
  "\<exists>j2. find_job (stored (snd (process_job_pipeline demo_legacy_env 70 (open_session (demo_legacy_db CLEAN)))))
     70 = Some j2 \<and> jb_attempts j2 = 1"
  using job_run_is_settled [OF demo_job_found, of demo_legacy_env CLEAN] by (auto simp: demo_job_def)

section \<open>The legacy parser needs a CLEAN document\<close>

definition content_of :: "db \<Rightarrow> (uuid \<rightharpoonup> ingestion_status \<times> ustr option) \<times> document_page list \<times> requirement list
    \<times> candidate list \<times> review_task list" where
  "content_of d = (\<lambda>i. map_option (\<lambda>x. (d_ingestion_status x, d_content x)) (documents d i), pages d, requirements d,
     candidates d, tasks d)"

lemma content_put:
  "get_doc s (d_id x) = Some y \<Longrightarrow> d_ingestion_status x = d_ingestion_status y \<Longrightarrow> d_content x = d_content y \<Longrightarrow>
   content_of (work (put_doc x s)) = content_of (work s)"
  by (auto simp: content_of_def get_doc_def)

lemma content_frame [simp]:
  "content_of (work (set_job k f s)) = content_of (work s)"
  "content_of (work (log_audit_event e s)) = content_of (work s)"
  "content_of (stored (log_audit_event e s)) = content_of (work s)"
  by (simp_all add: content_of_def log_audit_event_def)

lemma failed_job_content:
  assumes "keyed (work s)"
  shows "content_of (stored (snd (failed_job env e j s))) = content_of (work s)"
proof -
  have "content_of (work (put_doc (x\<lparr>d_processing_status := v, d_processing_error := m\<rparr>) (set_job k f s))) =
      content_of (work s)" if "get_doc s i = Some x" for i x v m k f
    using content_put [of "set_job k f s" "x\<lparr>d_processing_status := v, d_processing_error := m\<rparr>" x]
      that assms by (auto simp: keyed_def get_doc_def)
  then show ?thesis
    by (simp add: failed_job_def Let_def split: option.splits)
qed

text \<open>
  The in-process parser never touches a document that has not passed the security
  pipeline: unless the job's document is CLEAN, a run changes no page, no requirement, no
  candidate, no review task, and neither status nor content of any document.
\<close>

lemma legacy_job_needs_clean:
  assumes "keyed d" and "find_job d k = Some j"
    and "\<And>i x. jb_document_id j = Some i \<Longrightarrow> documents d i = Some x \<Longrightarrow> d_ingestion_status x \<noteq> CLEAN"
  shows "content_of (stored (snd (process_job_pipeline env k (open_session d)))) = content_of d"
proof -
  let ?s1 = "start_job env k (open_session d)"
  have s1: "content_of (work ?s1) = content_of d" "stored ?s1 = work ?s1" "keyed (work ?s1)"
    "documents (work ?s1) = documents d"
    using assms(1) by (simp_all add: start_job_def keyed_def)
  obtain j1 where j1: "find_job (work ?s1) k = Some j1" "jb_document_id j1 = jb_document_id j"
    using assms(2) by (auto simp: start_job_def find_job_set)
  have "\<exists>e. job_body env j1 ?s1 = (Inl e, ?s1)"
    using assms(3) j1(2) s1(4) by (auto simp: job_body_def get_doc_def split: option.splits)
  then obtain e where "job_body env j1 ?s1 = (Inl e, ?s1)" by blast
  then have "process_job_pipeline env k (open_session d) = failed_job env e j1 (rollback ?s1)"
    using j1(1) s1(2) by (simp add: process_job_pipeline_def Let_def)
  then show ?thesis
    using failed_job_content [of "rollback ?s1" env e j1] s1 by simp
qed

theorem legacy_job_needs_clean_witness:
  "content_of (stored (snd (process_job_pipeline demo_legacy_env 70 (open_session (demo_legacy_db SCANNING))))) =
   content_of (demo_legacy_db SCANNING)"
  by (rule legacy_job_needs_clean [OF _ demo_job_found])
    (auto simp: keyed_def demo_legacy_db_def demo_job_def split: if_splits)

section \<open>But it bypasses the review\<close>

lemma ask_llm_const:
  "ask_llm (\<lambda>_. Inr ds) bs = Inr (concat (map (\<lambda>_. ds) bs))"
  by (induction bs) auto

lemma unique_drafts_first:
  "hd ds \<in> set (unique_drafts {} ds)" if "ds \<noteq> []"
  using that by (cases ds) (auto simp: Let_def)

lemma drafted_exists:
  assumes "d \<in> set ds"
  shows "\<exists>q \<in> set (map (drafted_requirement env x) (enumerate 0 ds)).
    rq_source_document_id q = Some (d_id x) \<and> rq_source_candidate_id q = None
    \<and> rq_original_text q = rd_original_text d"
proof -
  obtain n where "n < length ds" "ds ! n = d" using assms by (auto simp: in_set_conv_nth)
  then have "(n, d) \<in> set (enumerate 0 ds)" by (auto simp: in_set_enumerate_eq)
  then show ?thesis by (force simp: drafted_requirement_def)
qed

lemma loaded_nonempty:
  assumes "\<exists>p \<in> set (pages d). pg_document_id p = i"
  shows "load_ordered_pages d i \<noteq> []"
proof -
  have "set (load_ordered_pages d i) = {p \<in> set (pages d). pg_document_id p = i}"
    by (auto simp: load_ordered_pages_def)
  then show ?thesis using assms by fastforce
qed

lemma batches_nonempty: "xs \<noteq> [] \<Longrightarrow> batches xs \<noteq> []"
  by (cases xs) auto

lemma extraction_unreviewed:
  assumes "get_doc s (d_id x) = Some x" and "\<exists>p \<in> set (pages (work s)). pg_document_id p = d_id x"
    and "lg_llm env = (\<lambda>_. Inr ds)" and "ds \<noteq> []"
  shows "\<exists>rs s'. extract_requirements_from_document env (d_id x) s = (Inr rs, s')
    \<and> (\<exists>q \<in> set (requirements (work s')). rq_source_document_id q = Some (d_id x)
         \<and> rq_source_candidate_id q = None \<and> rq_original_text q = rd_original_text (hd ds))"
proof -
  let ?bs = "batches (load_ordered_pages (work s) (d_id x))"
  obtain b bs where b: "?bs = b # bs"
    using batches_nonempty [OF loaded_nonempty [OF assms(2)]] by (cases ?bs) auto
  let ?all = "concat (map (\<lambda>_. ds) ?bs)"
  have "hd ?all = hd ds" "?all \<noteq> []" using assms(4) b by auto
  then have "hd ds \<in> set (unique_drafts {} ?all)" using unique_drafts_first [of ?all] by simp
  from drafted_exists [OF this, of env x] show ?thesis
    by (auto simp: extract_requirements_from_document_def assms(1,3) ask_llm_const Let_def log_audit_event_def)
qed

definition unreviewed :: "ustr \<Rightarrow> uuid \<Rightarrow> db \<Rightarrow> bool" where
  "unreviewed t i d \<longleftrightarrow> (\<exists>q \<in> set (requirements d). rq_source_document_id q = Some i
     \<and> rq_source_candidate_id q = None \<and> rq_original_text q = t)"

lemma process_clean_unreviewed:
  assumes "d_doc_role x = ''rfp''" and "lg_pages env = Inr (pg # pgs)"
    and "lg_llm env = (\<lambda>_. Inr ds)" and "ds \<noteq> []"
  shows "\<exists>s'. process_clean env j x s = (Inr (), s') \<and> unreviewed (rd_original_text (hd ds)) (d_id x) (stored s')"
proof -
  let ?x1 = "x\<lparr>d_processing_status := ''processing''\<rparr>"
  let ?x2 = "?x1\<lparr>d_content := Some (join_lines (map snd (pg # pgs)))\<rparr>"
  let ?s1 = "step_job (jb_id j) 30 ''Extracting pages from file'' (commit (put_doc ?x1 s))"
  let ?s2 = "save_pages env ?x1 (pg # pgs) (step_job (jb_id j) 50 ''Indexing and saving pages (idempotent)'' ?s1)"
  let ?s3 = "drop_requirements (d_id x) (step_job (jb_id j) 70 ''Extracting requirements from RFP'' ?s2)"
  have doc: "get_doc ?s3 (d_id ?x2) = Some ?x2"
    by (simp add: drop_requirements_def save_pages_def step_job_def get_doc_def)
  have pgs: "\<exists>p \<in> set (pages (work ?s3)). pg_document_id p = d_id ?x2"
    by (simp add: drop_requirements_def save_pages_def step_job_def legacy_page_def)
  obtain rs s' where e: "extract_requirements_from_document env (d_id x) ?s3 = (Inr rs, s')"
    "unreviewed (rd_original_text (hd ds)) (d_id x) (work s')"
    using extraction_unreviewed [OF doc pgs assms(3,4)] by (auto simp: unreviewed_def)
  have "extract_stage env (jb_id j) ?x2 ?s2 = (Inr (), s')"
    using assms(1) e(1) by (simp add: extract_stage_def)
  then have "process_clean env j x s = (Inr (), finish_job env j (length (pg # pgs)) ?x2 s')"
    by (simp add: process_clean_def Let_def assms(2))
  moreover have "unreviewed t i (stored (finish_job env j n y s')) = unreviewed t i (work s')" for t i n y
    by (simp add: unreviewed_def finish_job_def log_audit_event_def)
  ultimately show ?thesis using e(2) by simp
qed



section \<open>The pipeline respects the lifecycle\<close>

context db_invariant
begin

lemma legacy_writes:
  "holds I s \<Longrightarrow> holds I (set_job k f s)" "holds I s \<Longrightarrow> holds I (drop_requirements i s)"
  by (erule keep_elsewhere; simp add: drop_requirements_def)+

lemma log_keeps:
  "holds I s \<Longrightarrow> ev_action e \<noteq> transition_action \<Longrightarrow> holds I (log_audit_event e s)"
  by (simp add: log_audit_event_def keep_audit)

lemma requirements_keep:
  assumes "holds I s"
  shows "holds I (snd (extract_requirements_from_document env i s))"
proof -
  have "holds I (s\<lparr>work := (work s)\<lparr>requirements := rs\<rparr>\<rparr>)" for rs
    using assms by (rule keep_elsewhere) simp_all
  then show ?thesis
    using assms
    by (auto simp: extract_requirements_from_document_def Let_def transition_action_def
        intro!: log_keeps split: option.splits sum.splits)
qed

lemma get_doc_requirements [simp]:
  "get_doc (snd (extract_requirements_from_document env i s)) k = get_doc s k"
  by (simp add: extract_requirements_from_document_def Let_def log_audit_event_def get_doc_def
      split: option.splits sum.splits)

lemma get_doc_steps [simp]:
  "get_doc (drop_requirements i s) k = get_doc s k" "get_doc (step_job j p st s) k = get_doc s k"
  by (simp_all add: drop_requirements_def step_job_def get_doc_def)

lemma get_doc_stage: "get_doc (snd (extract_stage env j x s)) k = get_doc s k"
  by (simp add: extract_stage_state)

lemma steps_keep:
  "holds I s \<Longrightarrow> holds I (step_job j p st s)" "holds I s \<Longrightarrow> holds I (start_job env j s)"
  "holds I s \<Longrightarrow> holds I (snd (extract_stage env j x s))"
  by (simp_all add: step_job_def start_job_def extract_stage_state legacy_writes requirements_keep)

lemma save_pages_keeps:
  assumes "holds I s" and "get_doc s (d_id x) = Some x"
  shows "holds I (save_pages env x pgs s)"
proof -
  have "holds I (s\<lparr>work := (work s)\<lparr>pages := ps\<rparr>\<rparr>)" for ps
    using assms(1) by (rule keep_elsewhere) simp_all
  then show ?thesis
    unfolding save_pages_def using assms(2)
    by (intro holds_simps(1) keep_put [of _ _ x]) (simp_all add: get_doc_def)
qed

lemma finish_job_keeps:
  assumes "holds I s" and "get_doc s (d_id x) = Some x"
  shows "holds I (finish_job env j n x s)"
  unfolding finish_job_def
  by (intro log_keeps holds_simps(1) keep_put [of _ _ x] legacy_writes assms)
    (simp_all add: assms(2) transition_action_def)

lemma process_clean_keeps:
  assumes ok: "holds I s" and row: "get_doc s (d_id x) = Some x"
  shows "holds I (snd (process_clean env j x s))"
proof (cases "lg_pages env")
  case (Inl e)
  have "holds I (put_doc (x\<lparr>d_processing_status := ''processing''\<rparr>) s)"
    using row by (intro keep_put [OF ok]) simp_all
  then show ?thesis using Inl by (simp add: process_clean_def Let_def steps_keep)
next
  case (Inr pgs)
  let ?x1 = "x\<lparr>d_processing_status := ''processing''\<rparr>"
  let ?x2 = "?x1\<lparr>d_content := Some (join_lines (map snd pgs))\<rparr>"
  let ?s1 = "step_job (jb_id j) 50 ''Indexing and saving pages (idempotent)''
     (step_job (jb_id j) 30 ''Extracting pages from file'' (commit (put_doc ?x1 s)))"
  let ?s2 = "save_pages env ?x1 pgs ?s1"
  have "holds I (put_doc ?x1 s)"
    using row by (intro keep_put [OF ok]) simp_all
  then have s1: "holds I ?s1" by (simp add: steps_keep)
  have s2: "holds I ?s2" by (rule save_pages_keeps [OF s1]) simp
  obtain q s3 where q: "extract_stage env (jb_id j) ?x2 ?s2 = (q, s3)" by fastforce
  have s3: "holds I s3" using steps_keep(3) [OF s2, of env "jb_id j" ?x2] q by simp
  have row3: "get_doc s3 (d_id ?x2) = Some ?x2"
    using get_doc_stage [of env "jb_id j" ?x2 ?s2 "d_id ?x2"] q by (simp add: save_pages_def)
  show ?thesis
    using s3 finish_job_keeps [OF s3 row3] q Inr by (cases q) (simp_all add: process_clean_def Let_def)
qed

lemma failed_job_keeps:
  assumes "holds I s"
  shows "holds I (snd (failed_job env e j s))"
proof -
  have put: "holds I (put_doc (x\<lparr>d_processing_status := v, d_processing_error := m\<rparr>) (set_job k f s))"
    if "get_doc s i = Some x" for i x v m k f
    by (rule keep_put_row [OF legacy_writes(1) [OF assms], of _ _ i x]) (use that in simp_all)
  show ?thesis
    using assms put
    by (auto simp: failed_job_def Let_def transition_action_def legacy_writes
        intro!: log_keeps split: option.splits)
qed

lemma job_pipeline_keeps:
  assumes "holds I s"
  shows "holds I (snd (process_job_pipeline env k s))"
proof -
  let ?s1 = "start_job env k s"
  have s1: "holds I ?s1" using assms by (rule steps_keep)
  have body: "holds I (snd (job_body env j ?s1))" for j
    using s1 process_clean_keeps [OF s1] row_id [OF s1]
    by (auto simp: job_body_def split: option.splits)
  show ?thesis
  proof (cases "find_job (work ?s1) k")
    case None
    then show ?thesis using assms by (simp add: process_job_pipeline_def Let_def)
  next
    case (Some j)
    obtain r s2 where b: "job_body env j ?s1 = (r, s2)" by fastforce
    have s2: "holds I s2" using body [of j] b by simp
    then show ?thesis
      using failed_job_keeps [OF holds_simps(2) [OF s2]] b Some
      by (cases r) (auto simp: process_job_pipeline_def Let_def split: option.splits)
  qed
qed

end

definition legacy_job :: "legacy_env \<times> uuid \<Rightarrow> sess \<Rightarrow> sess" where
  "legacy_job e s = snd (process_document_task (fst e) (snd e) s)"

interpretation legacy: document_job legacy_job
  by unfold_locales
    (simp add: legacy_job_def process_document_task_def db_invariant.job_pipeline_keeps)

end
