(* ===== verification/Lifecycle.thy ===== *)
theory Lifecycle
  imports Queue LegacyJob Review
begin

text \<open>
  The components together: one database, the two storage directories and the job queue, and a
  step relation with one rule per thing that can happen to them (an upload, a job delivered
  once or again, a lost job, a failed hand-over, a review, the retry button). The properties
  are invariants of the reachable worlds and a simulation by the transition table.
\<close>

section \<open>Worlds\<close>

text \<open>\<open>w_sent\<close> remembers the bytes each document was uploaded as; no operation reads it.\<close>

record world =
  w_db :: db
  w_files :: store
  w_queue :: "job list"
  w_sent :: "uuid \<rightharpoonup> bytes"

text \<open>What is fixed for a deployment: the settings, SHA-256 and \<open>str.isdigit\<close>'s digit values.\<close>

record deployment =
  dp_hash :: "bytes \<Rightarrow> string"
  dp_digit :: "nat \<Rightarrow> nat option"
  dp_scan :: scan_config
  dp_parse :: parse_config
  dp_extract :: extract_config
  dp_ingest :: ingest_config

section \<open>Running one job\<close>

inductive runs_task :: "deployment \<Rightarrow> job \<Rightarrow> sess \<Rightarrow> store \<Rightarrow> sess \<Rightarrow> store \<Rightarrow> bool" for dp where
  by_scan: "j = ScanJob i \<or> j = ScanRetryJob i n \<Longrightarrow> se_quarantine env = st_quarantine fs \<Longrightarrow>
    runs_task dp j s fs (snd (scan_document_task (dp_scan dp) (dp_hash dp) (dp_digit dp) env i s)) fs"
| by_promotion: "promote_document_task (dp_hash dp) env i s fs = (r, s', fs') \<Longrightarrow>
    runs_task dp (PromoteJob i) s fs s' fs'"
| by_parser: "j = ParseJob i \<or> j = ParseRetryJob i n \<Longrightarrow>
    runs_task dp j s fs (snd (run_parse_pipeline (dp_parse dp) env i s)) fs"
| by_extraction: "runs_task dp (ExtractJob i org) s fs
    (extract_requirements_task (dp_hash dp) (dp_extract dp) built i org s) fs"
| by_legacy: "runs_task dp (ProcessingJob k) s fs (snd (process_document_task env k s)) fs"

inductive_cases runs_taskE: "runs_task dp j s fs s' fs'"

inductive_simps runs_promote: "runs_task dp (PromoteJob i) s fs s' fs'"
inductive_simps runs_scan: "runs_task dp (ScanJob i) s fs s' fs'"

text \<open>Every job keeps every invariant of documents: the interpretations of the components.\<close>

lemma task_keeps:
  assumes "runs_task dp j s fs s' fs'" and "db_invariant I" and "holds I s"
  shows "holds I s'"
  using assms(1)
proof (cases rule: runs_task.cases)
  case (by_scan i n env)
  then show ?thesis
    using scans.keeps_all [OF assms(2,3), of "dp_scan dp" "dp_hash dp" "dp_digit dp" "(env, i)"]
    by (simp add: scan_job_def run_scan_sync_def scan_document_task_def)
next
  case (by_promotion env i r)
  then show ?thesis
    using db_invariant.promote_task_keeps [OF assms(2,3), of "dp_hash dp" env i fs] by simp
next
  case (by_parser i n env)
  then show ?thesis
    using parses.keeps_all [OF assms(2,3), of "dp_parse dp" "(env, i)"] by (simp add: parse_job_def)
next
  case (by_extraction i org built)
  then show ?thesis
    using extractions.keeps_all [OF assms(2,3), of "dp_hash dp" "dp_extract dp" "(built, i, org)"]
    by (simp add: extraction_job_def)
next
  case (by_legacy k env)
  then show ?thesis
    using legacy.keeps_all [OF assms(2,3), of "(env, k)"] by (simp add: legacy_job_def)
qed

section \<open>Steps\<close>

definition after_upload :: "world \<Rightarrow> ingest_env \<Rightarrow> exc + uuid \<Rightarrow> sess \<Rightarrow> dir \<Rightarrow> world" where
  "after_upload w env r s q =
     w\<lparr>w_db := stored s, w_files := (w_files w)\<lparr>st_quarantine := q\<rparr>, w_queue := w_queue w @ outbox s,
       w_sent := (case r of Inl _ \<Rightarrow> w_sent w
                  | Inr i \<Rightarrow> (w_sent w)(i \<mapsto> sent (up_reads (ie_upload env))))\<rparr>"

text \<open>
  The queue delivers at least once: a job that has run may stay. An enqueue that fails loses
  the job, with or without the recovery handler.
\<close>

inductive step :: "deployment \<Rightarrow> world \<Rightarrow> world \<Rightarrow> bool" for dp where
  rfp_upload: "rfp_rows (w_db w) proj rfps \<Longrightarrow>
    upload_rfp_document (dp_hash dp) (dp_ingest dp) env rfps proj org usr (open_session (w_db w))
      (st_quarantine (w_files w)) = (r, s, q) \<Longrightarrow>
    step dp w (after_upload w env r s q)"
| knowledge_upload:
    "upload_knowledge (dp_hash dp) (dp_ingest dp) env audit_ok m proj org usr (open_session (w_db w))
      (st_quarantine (w_files w)) = (r, s, q) \<Longrightarrow>
    step dp w (after_upload w env r s q)"
| deliver: "j \<in> set (w_queue w) \<Longrightarrow> runs_task dp j (open_session (w_db w)) (w_files w) s fs \<Longrightarrow>
    queue = w_queue w \<or> queue = remove1 j (w_queue w) \<Longrightarrow>
    step dp w (w\<lparr>w_db := stored s, w_files := fs, w_queue := queue @ outbox s\<rparr>)"
| lose: "step dp w (w\<lparr>w_queue := remove1 j (w_queue w)\<rparr>)"
| enqueue_fails: "s = recover_enqueue e (open_session (w_db w)) \<Longrightarrow>
    step dp w (w\<lparr>w_db := stored s, w_queue := w_queue w @ outbox s\<rparr>)"
| review: "s = snd (review_requirement_candidate (dp_hash dp) env i usr org dec edited comment
                     (open_session (w_db w))) \<Longrightarrow>
    step dp w (w\<lparr>w_db := stored s\<rparr>)"
| retry: "s = snd (retry_document_processing env m audit_ok k proj i org usr (open_session (w_db w))) \<Longrightarrow>
    step dp w (w\<lparr>w_db := stored s, w_queue := w_queue w @ outbox s\<rparr>)"

inductive_cases stepE: "step dp w w'"

lemmas world_moves = step.intros runs_task.intros

section \<open>Every step moves documents along the table\<close>

text \<open>Reviews and the retry button keep document invariants, too.\<close>

context db_invariant
begin

lemma settled_keeps:
  "holds I s \<Longrightarrow> holds I (snd (settled env org usr dec c s))"
  by (simp add: settled_def Let_def keep_audit conflict_event_def transition_action_def)

lemma write_decision_keeps:
  assumes "holds I s"
  shows "holds I (write_decision env org usr dec ed cm tx c t s)"
proof -
  have "holds I (s\<lparr>work := (work s)\<lparr>candidates := cs, tasks := ts, requirements := rs\<rparr>\<rparr>)" for cs ts rs
    using assms by (rule keep_elsewhere) simp_all
  then show ?thesis
    unfolding write_decision_def
    by (rule keep_audit)
      (simp add: decision_event_def decision_action_def transition_action_def split: decision.splits)
qed

lemma review_request_keeps:
  assumes "holds I s"
  shows "holds I (snd (review_requirement_candidate H env i usr org dec edited comment s))"
proof (rule review_cases [OF surjective_pairing, of H env i usr org dec edited comment s])
  let ?s' = "snd (review_requirement_candidate H env i usr org dec edited comment s)"
  fix e
  assume "?s' = s \<or> ?s' = rollback s
    \<or> (\<exists>x. ?s' = commit (add_audit (unauthorized_event org usr dec i x) (rollback s)))"
  then show ?thesis
    using assms keep_audit [OF holds_simps(2) [OF assms]]
    by (auto simp: unauthorized_event_def transition_action_def)
next
  let ?r = "review_requirement_candidate H env i usr org dec edited comment s"
  assume "review_candidate H env i usr org dec edited comment s = (fst ?r, snd ?r)"
  then show ?thesis
  proof (cases rule: review_candidate_cases)
    case (failed e)
    then show ?thesis
      using assms keep_audit [OF assms] by (auto simp: conflict_event_def transition_action_def)
  next
    case (replayed c)
    then show ?thesis
      using keep_audit [OF assms] by (auto simp: conflict_event_def transition_action_def)
  next
    case (decided c t)
    then show ?thesis using assms by (auto simp: decides_row_def write_decision_keeps)
  qed
qed

lemma retry_keeps:
  assumes "holds I s"
  shows "holds I (snd (retry_document_processing env m audit_ok k proj i org usr s))"
proof -
  obtain r s1 where g: "get_project_for_org audit_ok proj org s = (r, s1)" by fastforce
  have s1: "holds I s1"
    using g assms keep_audit [OF assms]
    by (auto simp: get_project_for_org_def access_event_def transition_action_def split: option.splits if_splits)
  have create: "holds I (create_processing_job m k org p d knd u s2)" if "holds I s2" for p d knd u s2
    unfolding create_processing_job_def
    by (rule holds_simps(1), rule keep_elsewhere [OF that]) simp_all
  have run: "holds I (snd (enqueue_job env m False k org p d knd u s2))" if "holds I s2" for p d knd u s2
    using create [OF that] job_pipeline_keeps
    by (simp add: enqueue_job_def run_job_sync_def Let_def)
  have put: "holds I (commit (put_doc (x\<lparr>d_processing_status := v, d_processing_error := None\<rparr>) s1))"
    if "get_doc s1 i = Some x" for x v
    by (rule holds_simps(1), rule keep_put_row [OF s1 that]) simp_all
  show ?thesis
    using s1 run put by (auto simp: retry_document_processing_def g Let_def case_prod_beta'
        split: sum.splits option.splits)
qed

end

text \<open>What an upload adds; \<open>q\<close> is the result, \<open>b\<close> the bytes.\<close>

definition upload_adds :: "(bytes \<Rightarrow> string) \<Rightarrow> db \<Rightarrow> exc + uuid \<Rightarrow> bytes \<Rightarrow> db \<Rightarrow> bool" where
  "upload_adds H d q b e = (case q of
     Inl _ \<Rightarrow> documents e = documents d
   | Inr i \<Rightarrow> documents d i = None
        \<and> (\<exists>x. documents e = (documents d)(i \<mapsto> x) \<and> d_id x = i \<and> d_sha256_digest x = Some (H b)
             \<and> d_file_size_bytes x = Some (int (length b)) \<and> d_approval_status x = ''PENDING''))"

lemma rfp_upload_adds:
  assumes "upload_rfp_document H cfg env rfps proj org usr (open_session d) dir = (r, s, q)"
  shows "upload_adds H d r (sent (up_reads (ie_upload env))) (stored s)"
proof (cases "get_project proj org d = None \<or> first_active_rfp rfps \<noteq> None")
  case True
  then show ?thesis
    using assms by (auto simp: upload_rfp_document_def upload_adds_def split: option.splits)
next
  case False
  then have "ingest_uploaded_document H cfg env proj org usr ''rfp'' rfp_metadata (open_session d) dir = (r, s, q)"
    using assms by (auto simp: upload_rfp_document_def)
  from ingest_documents [OF this] show ?thesis
    by (auto simp: upload_adds_def rfp_metadata_def split: sum.splits)
qed

lemma knowledge_upload_adds:
  assumes "upload_knowledge H cfg env audit_ok m proj org usr (open_session d) dir = (r, s, q)"
  shows "upload_adds H d r (sent (up_reads (ie_upload env))) (stored s)"
proof (cases "get_project_for_org audit_ok proj org (open_session d)")
  case (Pair g s1)
  show ?thesis
  proof (cases g)
    case (Inl e)
    then show ?thesis
      using assms Pair
      by (auto simp: upload_knowledge_def upload_adds_def get_project_for_org_def split: option.splits if_splits)
  next
    case (Inr p)
    have "s1 = open_session d" using project_for_org Pair Inr by blast
    then have "ingest_uploaded_document H cfg env proj org usr ''knowledge_base''
        (m\<lparr>rm_approval_status := ''PENDING''\<rparr>) (open_session d) dir = (r, s, q)"
      using assms Pair Inr by (simp add: upload_knowledge_def)
    from ingest_documents [OF this] show ?thesis
      by (auto simp: upload_adds_def split: sum.splits)
  qed
qed

text \<open>The steps that are not uploads keep every document invariant.\<close>

lemma step_cases:
  assumes "step dp w w'"
  obtains (upload) env :: ingest_env and r where
      "upload_adds (dp_hash dp) (w_db w) r (sent (up_reads (ie_upload env))) (w_db w')"
      "w_sent w' = (case r of Inl _ \<Rightarrow> w_sent w | Inr i \<Rightarrow> (w_sent w)(i \<mapsto> sent (up_reads (ie_upload env))))"
      "lifecycle_ok (w_db w) \<Longrightarrow> lifecycle_ok (w_db w')"
      "one_active_rfp (w_db w) \<Longrightarrow> one_active_rfp (w_db w')"
  | (other) "\<And>I. db_invariant I \<Longrightarrow> I (w_db w) \<Longrightarrow> I (w_db w')" "w_sent w' = w_sent w"
  using assms
proof (cases rule: step.cases)
  case (rfp_upload proj rfps env org usr r s q)
  have "one_active_rfp (w_db w) \<Longrightarrow> one_active_rfp (stored s)"
    using one_active_kept [OF _ rfp_upload(2), of "dp_hash dp" "dp_ingest dp" env org usr
        "st_quarantine (w_files w)"] rfp_upload(3) by simp
  moreover have "lifecycle_ok (w_db w) \<Longrightarrow> lifecycle_ok (stored s)"
    using rfp_uploads.fresh_session [of "w_db w" "(dp_hash dp, dp_ingest dp, env, rfps, proj, org, usr,
        st_quarantine (w_files w))"] rfp_upload(3) by simp
  ultimately show thesis
    using upload [of r env] rfp_upload_adds [OF rfp_upload(3)] rfp_upload(1)
    by (simp add: after_upload_def)
next
  case (knowledge_upload env audit_ok m proj org usr r s q)
  have "one_active_rfp (w_db w) \<Longrightarrow> one_active_rfp (stored s)"
    using knowledge_one_active [of "w_db w" "dp_hash dp" "dp_ingest dp" env audit_ok m proj org usr
        "st_quarantine (w_files w)"] knowledge_upload(2) by simp
  moreover have "lifecycle_ok (w_db w) \<Longrightarrow> lifecycle_ok (stored s)"
    using knowledge_uploads.fresh_session [of "w_db w" "(dp_hash dp, dp_ingest dp, env, audit_ok, m, proj,
        org, usr, st_quarantine (w_files w))"] knowledge_upload(2) by simp
  ultimately show thesis
    using upload [of r env] knowledge_upload_adds [OF knowledge_upload(2)] knowledge_upload(1)
    by (simp add: after_upload_def)
next
  case (deliver j s fs queue)
  then show thesis
    using other task_keeps [OF deliver(3)] by (simp add: holds_stored)
next
  case (lose j)
  then show thesis using other by simp
next
  case (enqueue_fails s e)
  then show thesis
    using other enqueues.keeps_all by (simp add: holds_stored)
next
  case (review s env i usr org dec edited comment)
  then show thesis
    using other db_invariant.review_request_keeps by (simp add: holds_stored)
next
  case (retry s env m audit_ok k proj i org usr)
  then show thesis
    using other db_invariant.retry_keeps by (simp add: holds_stored)
qed

lemma step_simulates:
  assumes "step dp w w'" and "lifecycle_ok (w_db w)" and "documents (w_db w) i = Some x"
  shows "\<exists>y. documents (w_db w') i = Some y \<and> same_identity y x
    \<and> moves\<^sup>*\<^sup>* (d_ingestion_status x) (d_ingestion_status y)"
  using assms(1)
proof (cases rule: step_cases)
  case (upload env r)
  then show ?thesis using assms(3) by (auto simp: upload_adds_def split: sum.splits)
next
  case other
  have "evolved (w_db w) (w_db w')"
    using other(1) [OF evolution.db_invariant_axioms] evolved_refl lifecycle.keyed [OF assms(2)] by blast
  then have "descends (Some x) (documents (w_db w') i)"
    using assms(3) unfolding evolved_def by metis
  then show ?thesis by (auto simp: descends_def split: option.splits)
qed

section \<open>Invariants of the reachable worlds\<close>

definition sent_ok :: "deployment \<Rightarrow> world \<Rightarrow> bool" where
  "sent_ok dp w \<longleftrightarrow> (\<forall>i x. documents (w_db w) i = Some x \<longrightarrow>
     (\<exists>b. w_sent w i = Some b \<and> d_sha256_digest x = Some (dp_hash dp b)
        \<and> d_file_size_bytes x = Some (int (length b))))"

definition world_ok :: "deployment \<Rightarrow> world \<Rightarrow> bool" where
  "world_ok dp w \<longleftrightarrow> lifecycle_ok (w_db w) \<and> one_active_rfp (w_db w) \<and> sent_ok dp w"

text \<open>
  A fresh installation is fine, whatever users, projects and files there are. An installation
  may also start from an older state that satisfies the invariant.
\<close>

lemma initial_ok:
  "documents (w_db w) = Map.empty \<Longrightarrow> audit (w_db w) = [] \<Longrightarrow> world_ok dp w"
  by (simp add: world_ok_def lifecycle_ok_def keyed_def one_active_rfp_def sent_ok_def)

inductive reachable :: "deployment \<Rightarrow> world \<Rightarrow> bool" for dp where
  start: "world_ok dp w \<Longrightarrow> reachable dp w"
| next_step: "reachable dp w \<Longrightarrow> step dp w w' \<Longrightarrow> reachable dp w'"

lemma evolved_sent:
  assumes "evolved (w_db w) (w_db w')" and "w_sent w' = w_sent w" and "sent_ok dp w"
  shows "sent_ok dp w'"
  unfolding sent_ok_def
proof (intro allI impI)
  fix i y assume y: "documents (w_db w') i = Some y"
  have "descends (documents (w_db w) i) (Some y)"
    using assms(1) y unfolding evolved_def by metis
  then show "\<exists>b. w_sent w' i = Some b \<and> d_sha256_digest y = Some (dp_hash dp b)
        \<and> d_file_size_bytes y = Some (int (length b))"
    using assms(2,3) by (auto simp: descends_def sent_ok_def split: option.splits)
qed

lemma step_keeps_ok:
  assumes "step dp w w'" and "world_ok dp w"
  shows "world_ok dp w'"
  using assms(1)
proof (cases rule: step_cases)
  case (upload env r)
  have "sent_ok dp w'"
    using assms(2) upload(1,2)
    by (auto simp: world_ok_def sent_ok_def upload_adds_def split: sum.splits)
  then show ?thesis using assms(2) upload(3,4) by (simp add: world_ok_def)
next
  case other
  note ok = assms(2) [unfolded world_ok_def]
  have ev: "evolved (w_db w) (w_db w')"
    using other(1) [OF evolution.db_invariant_axioms] evolved_refl lifecycle.keyed ok by blast
  then show ?thesis
    using ok other evolved_one_active [OF ev] evolved_sent [OF ev]
      other(1) [OF lifecycle.db_invariant_axioms] by (simp add: world_ok_def)
qed

lemma reachable_ok: "reachable dp w \<Longrightarrow> world_ok dp w"
  by (induction rule: reachable.induct) (auto intro: step_keeps_ok)

section \<open>Concrete worlds\<close>

definition demo_deployment :: deployment where
  "demo_deployment = \<lparr>dp_hash = demo_hash, dp_digit = ascii_digit, dp_scan = demo_scan_config,
     dp_parse = \<lparr>pc_max_attempts = 3\<rparr>, dp_extract = demo_extract_config,
     dp_ingest = demo_ingest_config\<rparr>"

definition demo_world :: world where
  "demo_world = \<lparr>w_db = demo_promote_db, w_files = demo_store, w_queue = [PromoteJob 5],
     w_sent = [5 \<mapsto> [1, 2, 3]]\<rparr>"

definition empty_world :: world where
  "empty_world = \<lparr>w_db = empty_db\<lparr>projects := [1 \<mapsto> demo_project]\<rparr>,
     w_files = \<lparr>st_quarantine = Map.empty, st_clean = Map.empty\<rparr>, w_queue = [], w_sent = Map.empty\<rparr>"

lemma demo_world_docs: "documents (w_db demo_world) = [5 \<mapsto> demo_clean_doc]"
  by (simp add: demo_world_def demo_promote_db_def)

lemma demo_world_reachable: "reachable demo_deployment demo_world"
proof (rule start)
  have "lifecycle_ok (w_db demo_world)"
    using demo_promote_ok by (simp add: demo_world_def holds_def)
  moreover have "one_active_rfp (w_db demo_world)"
    by (simp add: one_active_rfp_def demo_world_docs)
  moreover have "sent_ok demo_deployment demo_world"
    unfolding sent_ok_def demo_world_docs
    by (simp add: demo_world_def demo_deployment_def demo_clean_doc_def)
  ultimately show "world_ok demo_deployment demo_world" by (simp add: world_ok_def)
qed

text \<open>An upload into the empty installation.\<close>

lemma empty_world_reachable: "reachable demo_deployment empty_world"
  by (rule start, rule initial_ok) (simp_all add: empty_world_def empty_db_def)

lemma empty_world_uploads:
  "\<exists>w. step demo_deployment empty_world w \<and> w_sent w = [3 \<mapsto> demo_pdf]"
proof -
  let ?d = "w_db empty_world"
  have rfps: "rfp_rows ?d 1 []" by (simp add: rfp_rows_def empty_world_def empty_db_def)
  obtain wr q0 where "stream_upload_to_quarantine demo_hash (ic_max_upload demo_ingest_config)
      (ie_upload demo_ingest_env) Map.empty = (Inr wr, q0)"
    using demo_stream [of demo_hash] by auto
  then obtain s q where "ingest_uploaded_document demo_hash demo_ingest_config demo_ingest_env 1 9 2 ''rfp''
      rfp_metadata (open_session ?d) Map.empty = (Inr 3, s, q)"
    using ingest_persisted [of demo_hash demo_ingest_config demo_ingest_env Map.empty wr q0
        "open_session ?d" 1 9 2 "''rfp''" rfp_metadata]
    by (auto simp: empty_world_def empty_db_def)
  then have "upload_rfp_document (dp_hash demo_deployment) (dp_ingest demo_deployment) demo_ingest_env [] 1 9 2
      (open_session ?d) (st_quarantine (w_files empty_world)) = (Inr 3, s, q)"
    by (simp add: upload_rfp_document_def get_project_def empty_world_def demo_project_def
        first_active_rfp_def demo_deployment_def)
  from rfp_upload [OF rfps this] show ?thesis
    by (auto simp: after_upload_def empty_world_def length_demo_pdf)
qed

section \<open>Properties of the system\<close>

text \<open>
  C32. Simulation by the transition table: in every step of the system each document keeps its
  identity (key, project, role, creator, digest and size), and its status moves along zero or
  more edges of ALLOWED\_TRANSITIONS; documents never disappear.
\<close>

theorem steps_follow_the_table:
  assumes "step dp w w'" and "lifecycle_ok (w_db w)" and "documents (w_db w) i = Some x"
  shows "\<exists>y. documents (w_db w') i = Some y \<and> same_identity y x
    \<and> moves\<^sup>*\<^sup>* (d_ingestion_status x) (d_ingestion_status y)"
  using step_simulates [OF assms] .

theorem steps_follow_the_table_witness:
  "\<exists>y. documents (w_db (demo_world\<lparr>w_queue := []\<rparr>)) 5 = Some y \<and> same_identity y demo_clean_doc
     \<and> moves\<^sup>*\<^sup>* CLEAN_PENDING_PROMOTION (d_ingestion_status y)"
proof -
  have "step demo_deployment demo_world (demo_world\<lparr>w_queue := remove1 (PromoteJob 5) (w_queue demo_world)\<rparr>)"
    by (rule lose)
  then have st: "step demo_deployment demo_world (demo_world\<lparr>w_queue := []\<rparr>)"
    by (simp add: demo_world_def)
  have ok: "lifecycle_ok (w_db demo_world)" using demo_promote_ok by (simp add: demo_world_def holds_def)
  have d: "documents (w_db demo_world) 5 = Some demo_clean_doc" by (simp add: demo_world_docs)
  from steps_follow_the_table [OF st ok d] show ?thesis by (simp add: demo_clean_doc_def)
qed

text \<open>
  C30. In every world the system can reach, by any interleaving of uploads, deliveries and
  redeliveries of jobs, lost jobs, failed hand-overs, reviews and retries: the audit trail of
  each document is a path of the table that ends in its status, no project has two active RFP
  documents, and each row still records digest and size of the bytes that were uploaded.
\<close>

theorem reachable_worlds_are_ok:
  assumes "reachable dp w"
  shows "lifecycle_ok (w_db w) \<and> one_active_rfp (w_db w) \<and> sent_ok dp w"
  using reachable_ok [OF assms] by (simp add: world_ok_def)

theorem reachable_worlds_are_ok_witness:
  "\<exists>w. w_sent w = [3 \<mapsto> demo_pdf] \<and> lifecycle_ok (w_db w) \<and> sent_ok demo_deployment w"
proof -
  obtain w where w: "step demo_deployment empty_world w" "w_sent w = [3 \<mapsto> demo_pdf]"
    using empty_world_uploads by blast
  from reachable_worlds_are_ok [OF next_step [OF empty_world_reachable w(1)]] w(2) show ?thesis by blast
qed



text \<open>
  A rejection is for ever: once a document of a reachable world is rejected, it has that
  status in every later world.
\<close>

lemma rejection_is_final:
  assumes "reachable dp w" and "(step dp)\<^sup>*\<^sup>* w w'"
    and "documents (w_db w) i = Some x" and "rejected (d_ingestion_status x)"
  shows "\<exists>y. documents (w_db w') i = Some y \<and> d_ingestion_status y = d_ingestion_status x"
proof -
  have "reachable dp w' \<and> (\<exists>y. documents (w_db w') i = Some y \<and> d_ingestion_status y = d_ingestion_status x)"
    using assms(2)
  proof (induction rule: rtranclp_induct)
    case base
    then show ?case using assms(1,3) by blast
  next
    case (step u v)
    then obtain y where y: "reachable dp u" "documents (w_db u) i = Some y"
      "d_ingestion_status y = d_ingestion_status x" by blast
    moreover have "lifecycle_ok (w_db u)" using reachable_ok [OF y(1)] by (simp add: world_ok_def)
    ultimately show ?case
      using step_simulates [OF step.hyps(2)] next_step [OF y(1) step.hyps(2)] assms(4)
      by (metis rejected_final)
  qed
  then show ?thesis by blast
qed

definition rejected_world :: world where
  "rejected_world = demo_world\<lparr>w_db := empty_db\<lparr>documents := [5 \<mapsto> demo_clean_doc
       \<lparr>d_ingestion_status := REJECTED_TYPE\<rparr>],
     audit := [\<lparr>ev_organization_id = 9, ev_user_id = None, ev_action = transition_action,
        ev_entity_type = ''Document'', ev_entity_id = 5,
        ev_details = [''from'' \<mapsto> JStatus QUARANTINED, ''to'' \<mapsto> JStatus VALIDATING]\<rparr>,
       \<lparr>ev_organization_id = 9, ev_user_id = None, ev_action = transition_action,
        ev_entity_type = ''Document'', ev_entity_id = 5,
        ev_details = [''from'' \<mapsto> JStatus VALIDATING, ''to'' \<mapsto> JStatus REJECTED_TYPE]\<rparr>]\<rparr>\<rparr>"

lemma rejected_world_reachable: "reachable demo_deployment rejected_world"
proof (rule start)
  have "trail 5 (audit (w_db rejected_world)) = [(QUARANTINED, VALIDATING), (VALIDATING, REJECTED_TYPE)]"
    by (simp add: rejected_world_def trail_def is_move_of_def status_at_def)
  moreover have "trail i (audit (w_db rejected_world)) = []" if "i \<noteq> 5" for i
    using that by (simp add: rejected_world_def trail_def is_move_of_def)
  ultimately have "lifecycle_ok (w_db rejected_world)"
    by (auto simp: lifecycle_ok_def keyed_def rejected_world_def demo_clean_doc_def empty_db_def
        start_status_def intro!: exI [of _ QUARANTINED])
  then show "world_ok demo_deployment rejected_world"
    by (auto simp: world_ok_def one_active_rfp_def sent_ok_def rejected_world_def demo_world_def
        demo_deployment_def demo_clean_doc_def empty_db_def)
qed

theorem rejection_is_final_witness:
  "\<exists>y. documents (w_db (rejected_world\<lparr>w_queue := []\<rparr>)) 5 = Some y \<and> d_ingestion_status y = REJECTED_TYPE"
proof -
  have "step demo_deployment rejected_world (rejected_world\<lparr>w_queue := remove1 (PromoteJob 5) (w_queue rejected_world)\<rparr>)"
    by (rule lose)
  then have st: "(step demo_deployment)\<^sup>*\<^sup>* rejected_world (rejected_world\<lparr>w_queue := []\<rparr>)"
    by (simp add: rejected_world_def demo_world_def)
  have d: "documents (w_db rejected_world) 5 = Some (demo_clean_doc\<lparr>d_ingestion_status := REJECTED_TYPE\<rparr>)"
    by (simp add: rejected_world_def)
  from rejection_is_final [OF rejected_world_reachable st d] show ?thesis by (simp add: rejected_def)
qed



end
