(* ===== verification/WorkspaceSafety.thy ===== *)
theory WorkspaceSafety
  imports Exports Lifecycle
begin

text \<open>
  What the workspace routes keep, whoever calls them: the rows of other organizations, the
  references between the tables, approvals with an approver, and evidence that is quoted from a
  document of the project. The interface \<open>workspace_invariant\<close> lists the writes the routes make
  to the rows of the acting organization.
\<close>

section \<open>One route for every request\<close>

datatype request =
    EditRow uuid requirement_form
  | DeleteRow uuid
  | MergeRows uuid "string list"
  | SplitRow uuid ustr
  | LinkEvidence uuid uuid ustr "int option"
  | GenerateDraft uuid provider
  | EditDraft uuid ustr
  | ApproveDraft uuid
  | RejectDraft uuid "ustr option"
  | AssignReviewer uuid "string option" "ustr option"
  | StartReview uuid
  | RequestChanges uuid ustr
  | RejectReview uuid ustr
  | ReopenReview uuid
  | AddComment uuid ustr

fun serve :: "web_env \<Rightarrow> request \<Rightarrow> action" where
  "serve env (EditRow i f) = update_requirement_action env i f"
| "serve env (DeleteRow i) = delete_requirement_action env i"
| "serve env (MergeRows p ids) = merge_requirements_action env p ids"
| "serve env (SplitRow i t) = split_requirement_action env i t"
| "serve env (LinkEvidence i j t n) = link_evidence_action env i j t n"
| "serve env (GenerateDraft i p) = draft_requirement_response env p i"
| "serve env (EditDraft i t) = edit_draft_response env i t"
| "serve env (ApproveDraft i) = approve_draft_response env i"
| "serve env (RejectDraft i t) = reject_draft_response env i t"
| "serve env (AssignReviewer i u t) = assign_requirement_reviewer env i u t"
| "serve env (StartReview i) = start_review_action env i"
| "serve env (RequestChanges i t) = request_changes_action env i t"
| "serve env (RejectReview i t) = reject_review_action env i t"
| "serve env (ReopenReview i) = reopen_review_action env i"
| "serve env (AddComment i t) = add_comment_action env i t"

text \<open>The organization a request acts for, if it gets past the login.\<close>

definition acting :: "web_env \<Rightarrow> sess \<Rightarrow> uuid option" where
  "acting env s = (case fst (current_org_and_user env s) of Inl _ \<Rightarrow> None | Inr (org, _) \<Rightarrow> Some org)"

text \<open>\<open>uuid4\<close> gives an unused key.\<close>

definition fresh_key :: "uuid \<Rightarrow> db \<Rightarrow> bool" where
  "fresh_key k d \<longleftrightarrow> k \<notin> rq_id ` set (requirements d) \<and> k \<notin> dr_id ` set (draft_responses d)"

section \<open>The interface\<close>

definition owns :: "db \<Rightarrow> uuid \<Rightarrow> uuid \<Rightarrow> bool" where
  "owns d org i \<longleftrightarrow> (\<exists>r \<in> set (requirements d). rq_id r = i \<and> belongs_to d (rq_project_id r) org)"

text \<open>The tables the workspace works on.\<close>

definition same_desk :: "db \<Rightarrow> db \<Rightarrow> bool" where
  "same_desk d e \<longleftrightarrow> requirements e = requirements d \<and> evidence_links e = evidence_links d
     \<and> draft_responses e = draft_responses d \<and> requirement_comments e = requirement_comments d
     \<and> routing_tasks e = routing_tasks d \<and> projects e = projects d \<and> documents e = documents d
     \<and> pages e = pages d"

definition keeps_place :: "(requirement \<Rightarrow> requirement) \<Rightarrow> bool" where
  "keeps_place f \<longleftrightarrow> (\<forall>r. rq_id (f r) = rq_id r \<and> rq_project_id (f r) = rq_project_id r)"

definition approver_known :: "draft_response \<Rightarrow> bool" where
  "approver_known x \<longleftrightarrow> (dr_status x = ''approved'' \<longrightarrow> dr_approved_by_id x \<noteq> None)"

definition keeps_draft :: "(draft_response \<Rightarrow> draft_response) \<Rightarrow> bool" where
  "keeps_draft f \<longleftrightarrow> (\<forall>x. dr_id (f x) = dr_id x \<and> dr_requirement_id (f x) = dr_requirement_id x
     \<and> (approver_known x \<longrightarrow> approver_known (f x)))"

definition without :: "uuid \<Rightarrow> db \<Rightarrow> db" where
  "without i d = work (delete_requirement i (open_session d))"

definition quotable :: "db \<Rightarrow> uuid \<Rightarrow> evidence_link \<Rightarrow> bool" where
  "quotable d proj l \<longleftrightarrow> snippet_min_len \<le> length (el_snippet l) \<and> length (el_snippet l) \<le> snippet_max_len
     \<and> (\<exists>x c cf. usable_document d proj (el_document_id l) x \<and> quoted_from d x (el_page_number l) c
          \<and> contains (normalize_evidence_text cf (el_snippet l)) (normalize_evidence_text cf c))"

definition evidence_for :: "db \<Rightarrow> evidence_link \<Rightarrow> bool" where
  "evidence_for d l \<longleftrightarrow>
     (\<exists>r \<in> set (requirements d). rq_id r = el_requirement_id l \<and> quotable d (rq_project_id r) l)"

lemma quotable_cong:
  assumes "documents e = documents d" and "pages e = pages d"
  shows "quotable e = quotable d"
proof -
  have "usable_document e = usable_document d"
    using assms(1) by (simp add: usable_document_def fun_eq_iff)
  moreover have "quoted_from e = quoted_from d"
    using assms(2) by (simp add: quoted_from_def find_page_def fun_eq_iff split: option.split)
  ultimately show ?thesis by (simp add: quotable_def fun_eq_iff)
qed

lemma quotable_tables [simp]:
  "quotable (d\<lparr>draft_responses := xs\<rparr>) = quotable d" "quotable (d\<lparr>evidence_links := ls\<rparr>) = quotable d"
  "quotable (d\<lparr>requirement_comments := cs\<rparr>) = quotable d" "quotable (d\<lparr>routing_tasks := ts\<rparr>) = quotable d"
  "quotable (d\<lparr>requirements := rs\<rparr>) = quotable d"
  by (rule quotable_cong; simp)+

lemma owns_row: "r \<in> set (requirements d) \<Longrightarrow> rq_id r = i \<Longrightarrow> belongs_to d (rq_project_id r) org \<Longrightarrow> owns d org i"
  by (auto simp: owns_def)

lemma keeps_place_if: "keeps_place f \<Longrightarrow> rq_id (if b then f r else r) = rq_id r \<and>
    rq_project_id (if b then f r else r) = rq_project_id r"
  by (simp add: keeps_place_def)

lemma owns_changed [simp]:
  "keeps_place f \<Longrightarrow> owns (work (change_requirement i f s)) org j = owns (work s) org j"
  "owns (work (change_draft k g s)) org j = owns (work s) org j"
  "owns (work (add_comment c s)) org j = owns (work s) org j"
  by (simp_all add: owns_def belongs_to_def change_requirement_def change_draft_def add_comment_def bex_upd_row
      keeps_place_if)

lemma owns_tables [simp]:
  "owns (d\<lparr>draft_responses := xs\<rparr>) org i = owns d org i"
  "owns (d\<lparr>routing_tasks := ts\<rparr>) org i = owns d org i"
  by (simp_all add: owns_def belongs_to_def)

lemma newest_in: "newest xs = Some x \<Longrightarrow> x \<in> set xs"
proof -
  have "fold (\<lambda>y b. if dr_version y > dr_version b then y else b) ys z \<in> insert z (set ys)" for ys and z :: draft_response
    by (induction ys arbitrary: z) auto
  then show "newest xs = Some x \<Longrightarrow> x \<in> set xs"
    by (cases xs) (auto simp: newest_def)
qed

lemma latest_in: "latest_draft d i = Some x \<Longrightarrow> x \<in> set (draft_responses d) \<and> dr_requirement_id x = i"
  by (auto simp: latest_draft_def dest!: newest_in)

lemma keeps_place_simps [simp]:
  "keeps_place (set_status st)" "keeps_place (edited_requirement f)" "keeps_place (routed usr now t nm)"
  "keeps_place (\<lambda>r. r\<lparr>rq_original_text := h r\<rparr>)"
  by (simp_all add: keeps_place_def set_status_def edited_requirement_def routed_def)

lemma keeps_draft_simps [simp]:
  "keeps_draft (\<lambda>y. y\<lparr>dr_content := t\<rparr>)" "st \<noteq> ''approved'' \<Longrightarrow> keeps_draft (set_draft_status st)"
  "keeps_draft (\<lambda>y. y\<lparr>dr_status := st, dr_approved_by_id := Some usr\<rparr>)"
  by (simp_all add: keeps_draft_def set_draft_status_def approver_known_def)

lemma without_owns: "owns d org j \<Longrightarrow> j \<noteq> i \<Longrightarrow> owns (without i d) org j"
  by (auto simp: owns_def without_def delete_requirement_def belongs_to_def)

lemma length_parse_ids: "parse_ids parse ts = Some ks \<Longrightarrow> length ks = length ts"
  by (induction ts arbitrary: ks) (auto split: option.splits)

lemma owns_latest [simp]: "owns (work (change_latest_draft k st s)) org i = owns (work s) org i"
  by (simp add: change_latest_draft_def split: option.split)

locale workspace_invariant =
  fixes I :: "uuid \<Rightarrow> db \<Rightarrow> bool"
  assumes distinct_rows: "I org d \<Longrightarrow> distinct (map rq_id (requirements d))"
    and keyed_projects: "I org d \<Longrightarrow> projects d p = Some pr \<Longrightarrow> pr_id pr = p"
    and requirement_changed: "I org d \<Longrightarrow> owns d org i \<Longrightarrow> keeps_place f \<Longrightarrow>
      I org (d\<lparr>requirements := upd_row rq_id i f (requirements d)\<rparr>)"
    and requirement_added: "I org d \<Longrightarrow> belongs_to d (rq_project_id r) org \<Longrightarrow> rq_id r \<notin> rq_id ` set (requirements d) \<Longrightarrow>
      I org (d\<lparr>requirements := requirements d @ [r]\<rparr>)"
    and requirement_deleted: "I org d \<Longrightarrow> owns d org i \<Longrightarrow> I org (without i d)"
    and draft_changed: "I org d \<Longrightarrow> x \<in> set (draft_responses d) \<Longrightarrow> owns d org (dr_requirement_id x) \<Longrightarrow> keeps_draft g \<Longrightarrow>
      I org (d\<lparr>draft_responses := upd_row dr_id (dr_id x) g (draft_responses d)\<rparr>)"
    and draft_added: "I org d \<Longrightarrow> owns d org (dr_requirement_id x) \<Longrightarrow> dr_id x \<notin> dr_id ` set (draft_responses d) \<Longrightarrow>
      approver_known x \<Longrightarrow> I org (d\<lparr>draft_responses := draft_responses d @ [x]\<rparr>)"
    and link_added: "I org d \<Longrightarrow> owns d org (el_requirement_id l) \<Longrightarrow> evidence_for d l \<Longrightarrow>
      I org (d\<lparr>evidence_links := evidence_links d @ [l]\<rparr>)"
    and comment_added: "I org d \<Longrightarrow> owns d org (rc_requirement_id c) \<Longrightarrow>
      I org (d\<lparr>requirement_comments := requirement_comments d @ [c]\<rparr>)"
    and task_added: "I org d \<Longrightarrow> owns d org (rt_requirement_id t) \<Longrightarrow>
      I org (d\<lparr>routing_tasks := routing_tasks d @ [t]\<rparr>)"
    and elsewhere: "I org d \<Longrightarrow> same_desk d e \<Longrightarrow> I org e"
begin

text \<open>In the open transaction and in what is committed.\<close>

definition kept :: "uuid \<Rightarrow> sess \<Rightarrow> bool" where
  "kept org s \<longleftrightarrow> I org (work s) \<and> I org (stored s)"

lemma kept_commit: "I org (work s) \<Longrightarrow> kept org (commit s)"
  by (simp add: kept_def)

lemma kept_audit: "kept org s \<Longrightarrow> kept org (log_audit_event e s)"
  using elsewhere [of org "work s" "(work s)\<lparr>audit := audit (work s) @ [e]\<rparr>"]
  by (simp add: kept_def log_audit_event_def same_desk_def)

lemma work_change_requirement:
  "I org (work s) \<Longrightarrow> owns (work s) org i \<Longrightarrow> keeps_place f \<Longrightarrow> I org (work (change_requirement i f s))"
  by (simp add: change_requirement_def requirement_changed)

lemma work_change_draft:
  "I org (work s) \<Longrightarrow> x \<in> set (draft_responses (work s)) \<Longrightarrow> owns (work s) org (dr_requirement_id x) \<Longrightarrow> keeps_draft f \<Longrightarrow>
   I org (work (change_draft (dr_id x) f s))"
  by (simp add: change_draft_def draft_changed)

lemma work_add_comment:
  "I org (work s) \<Longrightarrow> owns (work s) org (rc_requirement_id c) \<Longrightarrow> I org (work (add_comment c s))"
  by (simp add: add_comment_def comment_added)

text \<open>The login and the lookup of the row.\<close>

lemma identity_kept:
  assumes "kept org s" and "current_org_and_user env s = (r, s1)"
  shows "kept org s1 \<and> same_desk (work s) (work s1)"
proof -
  have "kept org s1" if "same_desk (work s) (work s1)" "stored s1 = work s1"
    using elsewhere [OF _ that(1)] assms(1) that(2) by (simp add: kept_def)
  then show ?thesis
    using assms
    by (auto simp: current_org_and_user_def get_default_org_and_user_def put_user_def same_desk_def Let_def
        split: sum.splits if_splits option.splits prod.splits)
qed

lemma lookup_kept:
  assumes "kept org s" and "get_project_for_org a i g s = (r, s1)"
  shows "kept org s1 \<and> same_desk (work s) (work s1)"
proof (cases "s1 = s")
  case True
  then show ?thesis using assms(1) by (simp add: same_desk_def)
next
  case False
  then obtain pr where "s1 = log_audit_event (access_event g pr) s"
    using assms(2) by (auto simp: get_project_for_org_def log_audit_event_def split: option.splits if_splits)
  then show ?thesis using kept_audit [OF assms(1)] by (simp add: same_desk_def log_audit_event_def)
qed

lemma for_project_kept:
  assumes "kept org s" and "acting env s \<in> {None, Some org}"
    and "\<And>usr pr s1. kept org s1 \<Longrightarrow> same_desk (work s) (work s1) \<Longrightarrow> projects (work s1) i = Some pr \<Longrightarrow>
      pr_organization_id pr = org \<Longrightarrow> kept org (snd (k org usr pr s1))"
  shows "kept org (snd (for_project env i k s))"
proof (cases "current_org_and_user env s")
  case (Pair r s1)
  note s1 = identity_kept [OF assms(1) Pair]
  show ?thesis
  proof (cases r)
    case (Inr p)
    obtain usr where p: "p = (org, usr)" using assms(2) Pair Inr by (cases p) (auto simp: acting_def)
    obtain q s2 where q: "get_project_for_org (wb_audit_ok env) i org s1 = (q, s2)" by fastforce
    note s2 = lookup_kept [OF conjunct1 [OF s1] q]
    have "same_desk (work s) (work s2)" using s1 s2 by (auto simp: same_desk_def)
    then show ?thesis
      using Pair Inr p q s2 assms(3) [of s2] by (cases q) (auto simp: for_project_def dest: project_for_org)
  qed (use Pair s1 in \<open>simp add: for_project_def\<close>)
qed

lemma for_requirement_kept:
  assumes "kept org s" and "acting env s \<in> {None, Some org}"
    and "\<And>usr r s1. kept org s1 \<Longrightarrow> same_desk (work s) (work s1) \<Longrightarrow> r \<in> set (requirements (work s1)) \<Longrightarrow>
      rq_id r = i \<Longrightarrow> belongs_to (work s1) (rq_project_id r) org \<Longrightarrow> kept org (snd (k org usr r s1))"
  shows "kept org (snd (for_requirement env i k s))"
proof (cases "current_org_and_user env s")
  case (Pair r s1)
  note s1 = identity_kept [OF assms(1) Pair]
  show ?thesis
  proof (cases r)
    case (Inr p)
    obtain usr where p: "p = (org, usr)" using assms(2) Pair Inr by (cases p) (auto simp: acting_def)
    obtain q s2 where q: "get_requirement_for_org (wb_audit_ok env) i org s1 = (q, s2)" by fastforce
    have "kept org s2 \<and> same_desk (work s1) (work s2)"
      using q s1 lookup_kept by (fastforce simp: get_requirement_for_org_def same_desk_def split: option.splits prod.splits sum.splits)
    moreover from this have "same_desk (work s) (work s2)" using s1 by (auto simp: same_desk_def)
    ultimately show ?thesis
      using Pair Inr p q assms(3) [of s2] requirements_stay_in_tenant [where audit_ok = "wb_audit_ok env" and i = i and org = org and s = s1]
      by (cases q) (auto simp: for_requirement_def)
  qed (use Pair s1 in \<open>simp add: for_requirement_def\<close>)
qed

text \<open>The routes.\<close>

lemma on_requirement:
  assumes "kept org s" and "acting env s \<in> {None, Some org}"
    and "\<And>usr r s1. I org (work s1) \<Longrightarrow> kept org s1 \<Longrightarrow> same_desk (work s) (work s1) \<Longrightarrow> owns (work s1) org i \<Longrightarrow>
      rq_id r = i \<Longrightarrow> r \<in> set (requirements (work s1)) \<Longrightarrow> belongs_to (work s1) (rq_project_id r) org \<Longrightarrow>
      kept org (snd (k org usr r s1))"
  shows "kept org (snd (for_requirement env i k s))"
  by (rule for_requirement_kept [OF assms(1,2)]) (rule assms(3), auto simp: kept_def intro: owns_row)

lemma edit_row_kept:
  "kept org s \<Longrightarrow> acting env s \<in> {None, Some org} \<Longrightarrow> kept org (snd (update_requirement_action env i f s))"
  unfolding update_requirement_action_def
  by (simp, intro impI, rule on_requirement) (auto intro!: kept_audit kept_commit work_change_requirement)

lemma delete_row_kept:
  assumes "kept org s" and "acting env s \<in> {None, Some org}"
  shows "kept org (snd (delete_requirement_action env i s))"
proof -
  have "I org (work (delete_requirement i s1))" if "I org (work s1)" "owns (work s1) org i" for s1
    using requirement_deleted [OF that] by (simp add: without_def delete_requirement_def)
  then show ?thesis
    unfolding delete_requirement_action_def
    by (intro on_requirement [OF assms]) (auto intro!: kept_audit kept_commit)
qed

lemma split_row_kept:
  assumes "kept org s" and "acting env s \<in> {None, Some org}" and "fresh_key (wb_new_id env) (work s)"
  shows "kept org (snd (split_requirement_action env i t s))"
  unfolding split_requirement_action_def
proof (rule on_requirement [OF assms(1,2)])
  fix usr and r :: requirement and s1 :: sess
  assume s1: "I org (work s1)" "same_desk (work s) (work s1)" "owns (work s1) org i"
    "belongs_to (work s1) (rq_project_id r) org"
  let ?s2 = "change_requirement i (\<lambda>q. q\<lparr>rq_original_text := split_rest t (rq_original_text q)\<rparr>) s1"
  have "I org (work ?s2)" using s1 by (intro work_change_requirement) auto
  moreover have "belongs_to (work ?s2) (rq_project_id (split_off (wb_new_id env) t r)) org"
    using s1(4) by (simp add: belongs_to_def change_requirement_def split_off_def)
  moreover have "rq_id (split_off (wb_new_id env) t r) \<notin> rq_id ` set (requirements (work ?s2))"
    using s1(2) assms(3) by (simp add: change_requirement_def keys_upd_row same_desk_def fresh_key_def split_off_def)
  ultimately have "I org ((work ?s2)\<lparr>requirements := requirements (work ?s2) @ [split_off (wb_new_id env) t r]\<rparr>)"
    by (rule requirement_added)
  then show "kept org (snd (let s2 = ?s2;
      s3 = commit (s2\<lparr>work := (work s2)\<lparr>requirements := requirements (work s2) @ [split_off (wb_new_id env) t r]\<rparr>\<rparr>)
    in (Inr (ToMatrix (rq_project_id r) None), log_audit_event (web_event org usr ''requirement_split''
         ''Requirement'' i [''new_requirement_id'' \<mapsto> JId (wb_new_id env)]) s3)))"
    unfolding Let_def snd_conv by (intro kept_audit kept_commit) simp
qed

text \<open>A merge changes the first row and deletes the others; all are rows of the project.\<close>

lemma delete_each_kept:
  assumes "I org (work s)" and "distinct (map rq_id rs)" and "\<And>r. r \<in> set rs \<Longrightarrow> owns (work s) org (rq_id r)"
  shows "I org (work (fold (\<lambda>r. delete_requirement (rq_id r)) rs s))"
  using assms
proof (induction rs arbitrary: s)
  case (Cons r rs)
  have w: "work (delete_requirement (rq_id r) s) = without (rq_id r) (work s)"
    by (simp add: without_def delete_requirement_def)
  have "I org (work (delete_requirement (rq_id r) s))"
    unfolding w using Cons.prems by (intro requirement_deleted) auto
  moreover have "owns (work (delete_requirement (rq_id r) s)) org (rq_id q)" if "q \<in> set rs" for q
    unfolding w
  proof (rule without_owns)
    show "owns (work s) org (rq_id q)" using Cons.prems(3) [of q] that by simp
    have "rq_id q \<in> set (map rq_id rs)" using that by simp
    then show "rq_id q \<noteq> rq_id r" using Cons.prems(2) by auto
  qed
  ultimately show ?case using Cons.IH Cons.prems(2) by simp
qed simp

lemma merged_rows_kept:
  assumes "I org (work s)" and "rs = filter Q (requirements (work s))" and "rs \<noteq> []"
    and "\<And>r. r \<in> set rs \<Longrightarrow> belongs_to (work s) (rq_project_id r) org"
  shows "I org (work (fold (\<lambda>r. delete_requirement (rq_id r)) (tl rs) (commit
      (change_requirement (rq_id (hd rs)) (\<lambda>r. r\<lparr>rq_original_text := t\<rparr>) s))))"
proof -
  have own: "owns (work s) org (rq_id r)" if "r \<in> set rs" for r
    using that assms(2) assms(4) [OF that] by (auto simp: owns_def)
  have "distinct (map rq_id rs)"
    using distinct_rows [OF assms(1)] assms(2) by (simp add: distinct_map_filter)
  then have d: "distinct (map rq_id (tl rs))" by (simp add: map_tl distinct_tl)
  let ?s2 = "commit (change_requirement (rq_id (hd rs)) (\<lambda>r. r\<lparr>rq_original_text := t\<rparr>) s)"
  have "I org (work ?s2)"
    using assms(1,3) own by (simp add: work_change_requirement)
  then show ?thesis
    using delete_each_kept [of org ?s2 "tl rs"] d own assms(3) by (auto dest: list.set_sel(2))
qed

lemma merge_kept:
  assumes "kept org s" and "acting env s \<in> {None, Some org}"
  shows "kept org (snd (merge_requirements_action env p ids s))"
proof (cases "length ids < 2")
  case False
  show ?thesis
    unfolding merge_requirements_action_def if_not_P [OF False]
  proof (rule for_project_kept [OF assms], goal_cases)
    case (1 usr pr s1)
    have work: "I org (work s1)" using 1(1) by (simp add: kept_def)
    show ?case
    proof (cases "parse_ids (wb_parse env) ids")
      case (Some ks)
      let ?rs = "filter (\<lambda>r. rq_id r \<in> set ks \<and> rq_project_id r = pr_id pr) (requirements (work s1))"
      have rows: "length ?rs = length ks \<Longrightarrow> ?rs \<noteq> []" using length_parse_ids [OF Some] False by auto
      have "belongs_to (work s1) (rq_project_id r) org" if "r \<in> set ?rs" for r
        using that 1(3,4) keyed_projects [OF work 1(3)] by (simp add: belongs_to_def)
      note m = merged_rows_kept [OF work refl rows this]
      show ?thesis using Some 1(1) m by (auto simp: Let_def intro!: kept_audit kept_commit)
    qed (use 1(1) in simp)
  qed
qed (use assms(1) in \<open>simp add: merge_requirements_action_def\<close>)

lemma link_kept:
  assumes "kept org s" and "acting env s \<in> {None, Some org}"
  shows "kept org (snd (link_evidence_action env i j t n s))"
  unfolding link_evidence_action_def
proof (rule on_requirement [OF assms])
  fix usr r and s1 :: sess
  assume s1: "I org (work s1)" "kept org s1" "owns (work s1) org i" "rq_id r = i" "r \<in> set (requirements (work s1))"
  show "kept org (snd (case validate_evidence_candidate (wb_casefold env) (work s1) (rq_project_id r) j n t of
       Inl e \<Rightarrow> (Inl (evidence_exc e), s1)
     | Inr (canonical, page) \<Rightarrow>
         let l = \<lparr>el_id = wb_new_id env, el_requirement_id = i, el_document_id = j, el_snippet = canonical,
               el_page_number = page, el_score = 0\<rparr>;
             s2 = commit (s1\<lparr>work := (work s1)\<lparr>evidence_links := evidence_links (work s1) @ [l]\<rparr>\<rparr>)
         in (Inr (ToWorkspace i None), log_audit_event (web_event org usr ''evidence_link'' ''EvidenceLink'' (el_id l)
              [''requirement_id'' \<mapsto> JId i, ''document_id'' \<mapsto> JId j,
               ''page_number'' \<mapsto> (case page of None \<Rightarrow> JNull | Some n \<Rightarrow> JInt n),
               ''snippet_len'' \<mapsto> JInt (int (length canonical))]) s2)))"
  proof (cases "validate_evidence_candidate (wb_casefold env) (work s1) (rq_project_id r) j n t")
    case (Inr v)
    obtain sn pg where v: "v = (sn, pg)" by fastforce
    let ?l = "\<lparr>el_id = wb_new_id env, el_requirement_id = i, el_document_id = j, el_snippet = sn,
               el_page_number = pg, el_score = 0\<rparr>"
    have "evidence_for (work s1) ?l"
      using accepted_evidence [OF Inr [unfolded v]] s1(4,5) by (fastforce simp: evidence_for_def quotable_def)
    then have "I org ((work s1)\<lparr>evidence_links := evidence_links (work s1) @ [?l]\<rparr>)"
      using s1 by (intro link_added) simp_all
    then show ?thesis using Inr v by (auto simp: Let_def intro!: kept_audit kept_commit)
  qed (use s1 in simp)
qed

lemma draft_kept:
  assumes "kept org s" and "acting env s \<in> {None, Some org}" and "fresh_key (wb_new_id env) (work s)"
  shows "kept org (snd (draft_requirement_response env p i s))"
proof -
  have "I org ((work s1)\<lparr>draft_responses := draft_responses (work s1) @ [new_draft env i v a]\<rparr>)"
    if "I org (work s1)" "same_desk (work s) (work s1)" "owns (work s1) org i" for s1 :: sess and v a
    using that assms(3)
    by (intro draft_added) (simp_all add: new_draft_def fresh_key_def same_desk_def approver_known_def)
  then show ?thesis
    unfolding draft_requirement_response_def
    by (intro on_requirement [OF assms(1,2)])
      (auto simp: Let_def split: option.split intro!: kept_audit kept_commit work_change_requirement)
qed

text \<open>The routes on the latest draft.\<close>

lemma on_draft:
  assumes "kept org s" and "I org (work s)"
    and "\<And>x. x \<in> set (draft_responses (work s)) \<Longrightarrow> dr_requirement_id x = i \<Longrightarrow> kept org (snd (k x s))"
  shows "kept org (snd (with_draft i k s))"
  using assms latest_in by (auto simp: with_draft_def split: option.split)

lemma status_and_draft:
  assumes "I org (work s)" and "owns (work s) org i" and "x \<in> set (draft_responses (work s))"
    and "dr_requirement_id x = i" and "keeps_draft g"
  shows "I org (work (change_requirement i (set_status st) (change_draft (dr_id x) g s)))"
  using assms by (intro work_change_requirement work_change_draft) auto

lemma latest_changed:
  assumes "I org (work s)" and "owns (work s) org i" and "st \<noteq> ''approved''"
  shows "I org (work (change_latest_draft i st s))"
  using assms latest_in by (auto simp: change_latest_draft_def split: option.split intro!: work_change_draft)

lemma edit_draft_kept:
  "kept org s \<Longrightarrow> acting env s \<in> {None, Some org} \<Longrightarrow> kept org (snd (edit_draft_response env i t s))"
  unfolding edit_draft_response_def
  by (rule on_requirement) (auto simp: Let_def intro!: on_draft kept_audit kept_commit status_and_draft)

lemma approve_kept:
  "kept org s \<Longrightarrow> acting env s \<in> {None, Some org} \<Longrightarrow> kept org (snd (approve_draft_response env i s))"
  unfolding approve_draft_response_def
  by (rule on_requirement) (auto simp: Let_def block_approval_def approve_draft_def
      intro!: on_draft kept_audit kept_commit status_and_draft)

lemma reject_kept:
  assumes "kept org s" and "acting env s \<in> {None, Some org}"
  shows "kept org (snd (reject_draft_response env i t s))"
  unfolding reject_draft_response_def
proof (rule on_requirement [OF assms])
  fix usr r and s1 :: sess
  assume s1: "I org (work s1)" "kept org s1" "owns (work s1) org i"
  have "I org (work (add_comment (new_comment env i usr c ''REJECTED'') (change_requirement i (set_status ''REJECTED'')
      (change_draft (dr_id x) (set_draft_status ''rejected'') s1))))"
    if "x \<in> set (draft_responses (work s1))" "dr_requirement_id x = i" for x c
    using s1 that by (intro work_add_comment status_and_draft) (auto simp: new_comment_def)
  then show "kept org (snd (with_draft i (\<lambda>x s1.
       let s2 = change_requirement i (set_status ''REJECTED'') (change_draft (dr_id x) (set_draft_status ''rejected'') s1);
           reason_text = (case t of None \<Rightarrow> [] | Some t \<Rightarrow> strip t);
           s3 = commit (if reason_text \<noteq> [] then add_comment (new_comment env i usr reason_text ''REJECTED'') s2 else s2)
       in (Inr (ToWorkspace i None),
           log_audit_event (web_event org usr ''REVIEW_REJECTED'' ''Requirement'' i
               [''reason'' \<mapsto> JText (if reason_text = [] then uni ''No reason provided'' else reason_text)])
             (log_audit_event (web_event org usr ''draft_reject'' ''DraftResponse'' (dr_id x)
               [''requirement_id'' \<mapsto> JId i]) s3))) s1))"
    using s1 by (intro on_draft) (auto simp: Let_def intro!: kept_audit kept_commit status_and_draft)
qed

lemma assign_kept:
  assumes "kept org s" and "acting env s \<in> {None, Some org}"
  shows "kept org (snd (assign_requirement_reviewer env i u t s))"
  unfolding assign_requirement_reviewer_def
  by (intro on_requirement [OF assms])
    (auto simp: Let_def split: sum.split prod.split intro!: kept_audit kept_commit task_added work_change_requirement)

lemma start_kept:
  "kept org s \<Longrightarrow> acting env s \<in> {None, Some org} \<Longrightarrow> kept org (snd (start_review_action env i s))"
  unfolding start_review_action_def
  by (rule on_requirement) (auto intro!: kept_audit kept_commit work_change_requirement)

lemma reviewed_kept:
  assumes "kept org s" and "acting env s \<in> {None, Some org}" and "dst \<noteq> ''approved''"
  shows "kept org (snd (review_with_reason env i t st dst action s))"
  unfolding review_with_reason_def
  by (rule on_requirement [OF assms(1,2)])
    (use assms(3) in \<open>auto simp: Let_def new_comment_def
      intro!: kept_audit kept_commit work_add_comment latest_changed work_change_requirement\<close>)

lemma reopen_kept:
  "kept org s \<Longrightarrow> acting env s \<in> {None, Some org} \<Longrightarrow> kept org (snd (reopen_review_action env i s))"
  unfolding reopen_review_action_def
  by (rule on_requirement) (auto intro!: kept_audit kept_commit latest_changed work_change_requirement)

lemma comment_kept:
  "kept org s \<Longrightarrow> acting env s \<in> {None, Some org} \<Longrightarrow> kept org (snd (add_comment_action env i t s))"
  unfolding add_comment_action_def
  by (rule on_requirement) (auto simp: Let_def new_comment_def intro!: kept_audit kept_commit work_add_comment)

lemmas routes_kept = edit_row_kept delete_row_kept merge_kept split_row_kept link_kept draft_kept edit_draft_kept
  approve_kept reject_kept assign_kept start_kept reopen_kept comment_kept

lemma serve_kept:
  assumes "kept org s" and "acting env s \<in> {None, Some org}" and "fresh_key (wb_new_id env) (work s)"
  shows "kept org (snd (serve env rq s))"
  using assms
  by (cases rq) (simp_all add: routes_kept request_changes_action_def reject_review_action_def reviewed_kept)

end

section \<open>References\<close>

definition desk_ok :: "db \<Rightarrow> bool" where
  "desk_ok d \<longleftrightarrow> distinct (map rq_id (requirements d)) \<and> distinct (map dr_id (draft_responses d))
     \<and> (\<forall>p pr. projects d p = Some pr \<longrightarrow> pr_id pr = p)
     \<and> (\<forall>x \<in> set (draft_responses d). dr_requirement_id x \<in> rq_id ` set (requirements d) \<and> approver_known x)
     \<and> (\<forall>c \<in> set (requirement_comments d). rc_requirement_id c \<in> rq_id ` set (requirements d))
     \<and> (\<forall>t \<in> set (routing_tasks d). rt_requirement_id t \<in> rq_id ` set (requirements d))
     \<and> (\<forall>l \<in> set (evidence_links d). evidence_for d l)"

lemma evidence_tables [simp]:
  "evidence_for (d\<lparr>draft_responses := xs\<rparr>) l = evidence_for d l"
  "evidence_for (d\<lparr>evidence_links := ls\<rparr>) l = evidence_for d l"
  "evidence_for (d\<lparr>requirement_comments := cs\<rparr>) l = evidence_for d l"
  "evidence_for (d\<lparr>routing_tasks := ts\<rparr>) l = evidence_for d l"
  "keeps_place f \<Longrightarrow> evidence_for (d\<lparr>requirements := upd_row rq_id i f (requirements d)\<rparr>) l = evidence_for d l"
  by (simp_all add: evidence_for_def bex_upd_row keeps_place_if)

lemma evidence_added: "evidence_for d l \<Longrightarrow> evidence_for (d\<lparr>requirements := requirements d @ [r]\<rparr>) l"
  by (auto simp: evidence_for_def)

lemma without_simps [simp]:
  "requirements (without i d) = filter (\<lambda>r. rq_id r \<noteq> i) (requirements d)"
  "evidence_links (without i d) = filter (\<lambda>l. el_requirement_id l \<noteq> i) (evidence_links d)"
  "draft_responses (without i d) = filter (\<lambda>x. dr_requirement_id x \<noteq> i) (draft_responses d)"
  "requirement_comments (without i d) = filter (\<lambda>c. rc_requirement_id c \<noteq> i) (requirement_comments d)"
  "routing_tasks (without i d) = filter (\<lambda>t. rt_requirement_id t \<noteq> i) (routing_tasks d)"
  "projects (without i d) = projects d" "documents (without i d) = documents d" "pages (without i d) = pages d"
  by (simp_all add: without_def delete_requirement_def)

lemma evidence_without: "evidence_for d l \<Longrightarrow> el_requirement_id l \<noteq> i \<Longrightarrow> evidence_for (without i d) l"
  using quotable_cong [of "without i d" d] by (auto simp: evidence_for_def)

lemma draft_rows_changed:
  assumes "keeps_draft g" and "y \<in> set (upd_row dr_id k g xs)"
    and "\<forall>x \<in> set xs. dr_requirement_id x \<in> K \<and> approver_known x"
  shows "dr_requirement_id y \<in> K \<and> approver_known y"
  using assms by (auto simp: keeps_draft_def elim!: in_upd_row_E)

lemma owns_key: "owns d org i \<Longrightarrow> i \<in> rq_id ` set (requirements d)"
  by (auto simp: owns_def)

lemma same_desk_ok: "same_desk d e \<Longrightarrow> desk_ok d \<Longrightarrow> desk_ok e"
  using quotable_cong [of e d] by (simp add: same_desk_def desk_ok_def evidence_for_def)

interpretation desk: workspace_invariant "\<lambda>org. desk_ok"
proof
  fix org i d f assume "desk_ok d" "owns d org i" "keeps_place f"
  moreover from this(3) have "map rq_id (upd_row rq_id i f (requirements d)) = map rq_id (requirements d)"
    by (intro map_upd_row) (simp add: keeps_place_def)
  moreover from \<open>keeps_place f\<close> have "rq_id ` set (upd_row rq_id i f (requirements d)) = rq_id ` set (requirements d)"
    by (intro keys_upd_row) (simp add: keeps_place_def)
  ultimately show "desk_ok (d\<lparr>requirements := upd_row rq_id i f (requirements d)\<rparr>)"
    by (simp add: desk_ok_def)
next
  fix org x d g assume "desk_ok d" "x \<in> set (draft_responses d)" "owns d org (dr_requirement_id x)" "keeps_draft g"
  moreover from this(4) have "map dr_id (upd_row dr_id (dr_id x) g (draft_responses d)) = map dr_id (draft_responses d)"
    by (intro map_upd_row) (simp add: keeps_draft_def)
  ultimately show "desk_ok (d\<lparr>draft_responses := upd_row dr_id (dr_id x) g (draft_responses d)\<rparr>)"
    using draft_rows_changed [of g _ "dr_id x" "draft_responses d" "rq_id ` set (requirements d)"]
    by (simp add: desk_ok_def)
next
  fix org i d assume "desk_ok d" "owns d org i"
  then show "desk_ok (without i d)"
    by (auto simp: desk_ok_def distinct_map_filter intro!: evidence_without)
next
  fix org d and r :: requirement assume "desk_ok d" "rq_id r \<notin> rq_id ` set (requirements d)"
  then show "desk_ok (d\<lparr>requirements := requirements d @ [r]\<rparr>)"
    by (auto simp: desk_ok_def intro!: evidence_added)
next
  fix d e assume "desk_ok d" "same_desk d e"
  then show "desk_ok e" by (blast intro: same_desk_ok)
qed (auto simp: desk_ok_def dest: owns_key)

section \<open>The rows of another organization\<close>

definition tenant_rows ::
  "db \<Rightarrow> uuid \<Rightarrow> requirement list \<times> evidence_link list \<times> draft_response list \<times> requirement_comment list \<times> routing_task list" where
  "tenant_rows d org =
     (filter (\<lambda>r. belongs_to d (rq_project_id r) org) (requirements d),
      filter (\<lambda>l. owns d org (el_requirement_id l)) (evidence_links d),
      filter (\<lambda>x. owns d org (dr_requirement_id x)) (draft_responses d),
      filter (\<lambda>c. owns d org (rc_requirement_id c)) (requirement_comments d),
      filter (\<lambda>t. owns d org (rt_requirement_id t)) (routing_tasks d))"

lemma one_owner:
  assumes "desk_ok d" and "owns d A i" and "owns d B i"
  shows "A = B"
proof -
  obtain r q where "r \<in> set (requirements d)" "rq_id r = i" "belongs_to d (rq_project_id r) A"
    and "q \<in> set (requirements d)" "rq_id q = i" "belongs_to d (rq_project_id q) B"
    using assms(2,3) by (auto simp: owns_def)
  moreover from this have "r = q"
    using assms(1) by (auto simp: desk_ok_def distinct_map inj_on_def)
  ultimately show ?thesis by (auto simp: belongs_to_def)
qed

lemma not_owned: "desk_ok d \<Longrightarrow> owns d A i \<Longrightarrow> A \<noteq> B \<Longrightarrow> \<not> owns d B i"
  using one_owner by blast

lemma same_desk_rows: "same_desk d e \<Longrightarrow> tenant_rows e B = tenant_rows d B"
  by (simp add: same_desk_def tenant_rows_def owns_def belongs_to_def)

lemma belongs_tables [simp]:
  "belongs_to (d\<lparr>requirements := rs\<rparr>) = belongs_to d" "belongs_to (d\<lparr>draft_responses := xs\<rparr>) = belongs_to d"
  "belongs_to (d\<lparr>evidence_links := ls\<rparr>) = belongs_to d" "belongs_to (d\<lparr>requirement_comments := cs\<rparr>) = belongs_to d"
  "belongs_to (d\<lparr>routing_tasks := ts\<rparr>) = belongs_to d" "belongs_to (without i d) = belongs_to d"
  by (simp_all add: belongs_to_def fun_eq_iff)

lemma owns_added: "owns (d\<lparr>requirements := requirements d @ [r]\<rparr>) B j \<longleftrightarrow>
    owns d B j \<or> rq_id r = j \<and> belongs_to d (rq_project_id r) B"
  by (auto simp: owns_def)

lemma owns_edited: "keeps_place f \<Longrightarrow> owns (d\<lparr>requirements := upd_row rq_id i f (requirements d)\<rparr>) B j = owns d B j"
  by (simp add: owns_def bex_upd_row keeps_place_if)

lemma owns_without: "owns (without i d) B j \<longleftrightarrow> owns d B j \<and> j \<noteq> i"
  by (auto simp: owns_def)

lemma owns_others [simp]:
  "owns (d\<lparr>evidence_links := ls\<rparr>) org i = owns d org i" "owns (d\<lparr>requirement_comments := cs\<rparr>) org i = owns d org i"
  by (simp_all add: owns_def)

lemma rows_edited:
  assumes "desk_ok d" and "owns d A i" and "A \<noteq> B" and "keeps_place f"
  shows "tenant_rows (d\<lparr>requirements := upd_row rq_id i f (requirements d)\<rparr>) B = tenant_rows d B"
proof -
  have "filter (\<lambda>r. belongs_to d (rq_project_id r) B) (upd_row rq_id i f (requirements d))
      = filter (\<lambda>r. belongs_to d (rq_project_id r) B) (requirements d)"
    using not_owned [OF assms(1-3)] assms(4)
    by (intro filter_upd_row_other) (auto simp: owns_def keeps_place_def)
  then show ?thesis using assms(4) by (simp add: tenant_rows_def owns_edited)
qed

lemma rows_deleted:
  assumes "desk_ok d" and "owns d A i" and "A \<noteq> B"
  shows "tenant_rows (without i d) B = tenant_rows d B"
proof -
  have no: "\<not> owns d B i" using assms by (rule not_owned)
  then have "filter (\<lambda>r. belongs_to d (rq_project_id r) B) (filter (\<lambda>r. rq_id r \<noteq> i) (requirements d))
      = filter (\<lambda>r. belongs_to d (rq_project_id r) B) (requirements d)"
    by (auto simp: owns_def intro!: filter_cong)
  moreover have "owns d B j \<and> j \<noteq> i \<and> j \<noteq> i \<longleftrightarrow> owns d B j" "j \<noteq> i \<and> owns d B j \<longleftrightarrow> owns d B j" for j
    using no by auto
  ultimately show ?thesis by (simp add: tenant_rows_def owns_without)
qed

lemma rows_drafted:
  assumes "desk_ok d" and "x \<in> set (draft_responses d)" and "owns d A (dr_requirement_id x)" and "A \<noteq> B" and "keeps_draft g"
  shows "tenant_rows (d\<lparr>draft_responses := upd_row dr_id (dr_id x) g (draft_responses d)\<rparr>) B = tenant_rows d B"
proof -
  have "y = x" if "y \<in> set (draft_responses d)" "dr_id y = dr_id x" for y
    using that assms(1,2) by (auto simp: desk_ok_def distinct_map inj_on_def)
  then have "filter (\<lambda>y. owns d B (dr_requirement_id y)) (upd_row dr_id (dr_id x) g (draft_responses d))
      = filter (\<lambda>y. owns d B (dr_requirement_id y)) (draft_responses d)"
    using not_owned [OF assms(1,3,4)] assms(5)
    by (intro filter_upd_row_other) (auto simp: keeps_draft_def)
  then show ?thesis by (simp add: tenant_rows_def)
qed

interpretation isolation: workspace_invariant "\<lambda>org d. desk_ok d \<and> org \<noteq> B \<and> tenant_rows d B = v" for B v
proof
  fix org i d f assume "desk_ok d \<and> org \<noteq> B \<and> tenant_rows d B = v" "owns d org i" "keeps_place f"
  then show "desk_ok (d\<lparr>requirements := upd_row rq_id i f (requirements d)\<rparr>) \<and> org \<noteq> B
      \<and> tenant_rows (d\<lparr>requirements := upd_row rq_id i f (requirements d)\<rparr>) B = v"
    by (simp add: desk.requirement_changed rows_edited)
next
  fix org d and r :: requirement
  assume "desk_ok d \<and> org \<noteq> B \<and> tenant_rows d B = v" "belongs_to d (rq_project_id r) org"
    "rq_id r \<notin> rq_id ` set (requirements d)"
  then show "desk_ok (d\<lparr>requirements := requirements d @ [r]\<rparr>) \<and> org \<noteq> B
      \<and> tenant_rows (d\<lparr>requirements := requirements d @ [r]\<rparr>) B = v"
    using desk.requirement_added [of d r org] by (auto simp: tenant_rows_def owns_added belongs_to_def)
next
  fix org i d assume "desk_ok d \<and> org \<noteq> B \<and> tenant_rows d B = v" "owns d org i"
  then show "desk_ok (without i d) \<and> org \<noteq> B \<and> tenant_rows (without i d) B = v"
    by (simp add: desk.requirement_deleted rows_deleted)
next
  fix org x d g assume "desk_ok d \<and> org \<noteq> B \<and> tenant_rows d B = v" "x \<in> set (draft_responses d)"
    "owns d org (dr_requirement_id x)" "keeps_draft g"
  then show "desk_ok (d\<lparr>draft_responses := upd_row dr_id (dr_id x) g (draft_responses d)\<rparr>) \<and> org \<noteq> B
      \<and> tenant_rows (d\<lparr>draft_responses := upd_row dr_id (dr_id x) g (draft_responses d)\<rparr>) B = v"
    by (simp add: desk.draft_changed rows_drafted)
next
  fix org d and x :: draft_response
  assume "desk_ok d \<and> org \<noteq> B \<and> tenant_rows d B = v" "owns d org (dr_requirement_id x)"
    "dr_id x \<notin> dr_id ` set (draft_responses d)" "approver_known x"
  then show "desk_ok (d\<lparr>draft_responses := draft_responses d @ [x]\<rparr>) \<and> org \<noteq> B
      \<and> tenant_rows (d\<lparr>draft_responses := draft_responses d @ [x]\<rparr>) B = v"
    using desk.draft_added [of d org x] by (auto simp: tenant_rows_def dest: not_owned)
next
  fix org d and l :: evidence_link
  assume "desk_ok d \<and> org \<noteq> B \<and> tenant_rows d B = v" "owns d org (el_requirement_id l)" "evidence_for d l"
  then show "desk_ok (d\<lparr>evidence_links := evidence_links d @ [l]\<rparr>) \<and> org \<noteq> B
      \<and> tenant_rows (d\<lparr>evidence_links := evidence_links d @ [l]\<rparr>) B = v"
    using desk.link_added [of d org l] by (auto simp: tenant_rows_def dest: not_owned)
next
  fix org d and c :: requirement_comment
  assume "desk_ok d \<and> org \<noteq> B \<and> tenant_rows d B = v" "owns d org (rc_requirement_id c)"
  then show "desk_ok (d\<lparr>requirement_comments := requirement_comments d @ [c]\<rparr>) \<and> org \<noteq> B
      \<and> tenant_rows (d\<lparr>requirement_comments := requirement_comments d @ [c]\<rparr>) B = v"
    using desk.comment_added [of d org c] by (auto simp: tenant_rows_def dest: not_owned)
next
  fix org d and t :: routing_task
  assume "desk_ok d \<and> org \<noteq> B \<and> tenant_rows d B = v" "owns d org (rt_requirement_id t)"
  then show "desk_ok (d\<lparr>routing_tasks := routing_tasks d @ [t]\<rparr>) \<and> org \<noteq> B
      \<and> tenant_rows (d\<lparr>routing_tasks := routing_tasks d @ [t]\<rparr>) B = v"
    using desk.task_added [of d org t] by (auto simp: tenant_rows_def dest: not_owned)
next
  fix org d e assume "desk_ok d \<and> org \<noteq> B \<and> tenant_rows d B = v" "same_desk d e"
  then show "desk_ok e \<and> org \<noteq> B \<and> tenant_rows e B = v"
    using same_desk_ok same_desk_rows by blast
qed (auto simp: desk_ok_def)

end
