(* ===== verification/WorkspaceProperties.thy ===== *)
theory WorkspaceProperties
  imports WorkspaceSafety
begin

text \<open>
  What series of workspace requests keep, when an answer is approved, and what the export and
  the evidence search do with the states the other routes and jobs can reach.
\<close>

section \<open>A small workspace\<close>

definition desk_row :: "uuid \<Rightarrow> uuid \<Rightarrow> bool \<Rightarrow> requirement" where
  "desk_row i proj must = \<lparr>rq_id = i, rq_project_id = proj, rq_source_document_id = None,
     rq_source_candidate_id = None, rq_original_text = uni ''Data must be encrypted.'', rq_source_section = None,
     rq_source_page = None, rq_requirement_type = None, rq_mandatory = must, rq_status = ''DRAFTED'',
     rq_owner_name = None, rq_proposal_section = None, rq_risk_level = None, rq_assigned_to_user_id = None,
     rq_assigned_by_user_id = None, rq_assigned_at = None\<rparr>"

definition desk_project :: "uuid \<Rightarrow> uuid \<Rightarrow> project" where
  "desk_project i org = \<lparr>pr_id = i, pr_organization_id = org, pr_name = [], pr_created_by_id = 7,
     pr_client_name = [], pr_due_date = None, pr_status = ''active''\<rparr>"

definition desk_user :: user where
  "desk_user = \<lparr>us_id = 7, us_organization_id = 5, us_email = [], us_hashed_password = [], us_full_name = [],
     us_is_active = True, us_can_review_requirements = False\<rparr>"

definition desk_source :: document where
  "desk_source = (new_document 9 3 5 (uni ''policy.pdf'') ''pdf'' ''rfp'')
     \<lparr>d_processing_status := ''completed'', d_ingestion_status := COMPLETED\<rparr>"

text \<open>\<open>we encrypt data at rest\<close>\<close>

definition desk_quote :: ustr where
  "desk_quote = [119, 101, 32, 101, 110, 99, 114, 121, 112, 116, 32, 100, 97, 116, 97, 32, 97, 116, 32, 114, 101, 115, 116]"

definition desk_link :: evidence_link where
  "desk_link = \<lparr>el_id = 21, el_requirement_id = 11, el_document_id = 9, el_snippet = desk_quote,
     el_page_number = Some 1, el_score = 0\<rparr>"

definition desk_draft :: "string \<Rightarrow> draft_response" where
  "desk_draft st = \<lparr>dr_id = 31, dr_requirement_id = 11, dr_content = desk_quote, dr_version = 1, dr_status = st,
     dr_confidence = 0, dr_needs_evidence = False, dr_assumptions = None, dr_approved_by_id = Some 7\<rparr>"

definition desk :: "string \<Rightarrow> db" where
  "desk st = empty_db\<lparr>organizations := {5}, users := [7 \<mapsto> desk_user],
     projects := [3 \<mapsto> desk_project 3 5, 4 \<mapsto> desk_project 4 6], documents := [9 \<mapsto> desk_source],
     pages := [\<lparr>pg_id = 41, pg_document_id = 9, pg_page_number = 1, pg_content = desk_quote, pg_unit_kind = None,
       pg_source_locator = None, pg_content_sha256 = None\<rparr>],
     requirements := [desk_row 11 3 True, desk_row 12 4 False], evidence_links := [desk_link],
     draft_responses := [desk_draft st]\<rparr>"

definition desk_env :: web_env where
  "desk_env = \<lparr>wb_parse = (\<lambda>t. if t = ''user'' then Some 7 else if t = ''org'' then Some 5 else None),
     wb_user_text = Some ''user'', wb_org_text = Some ''org'', wb_auth_mode = ''session'', wb_app_env = ''production'',
     wb_first_org = None, wb_first_user = None, wb_audit_ok = True, wb_new_id = 77, wb_now = 0,
     wb_casefold = (\<lambda>t. t)\<rparr>"

lemma desk_text: "normalize_evidence_text (\<lambda>t. t) desk_quote = desk_quote" "tokenize (\<lambda>t. t) desk_quote \<noteq> {}"
  by (simp_all add: tokenize_def word_char_def desk_quote_def normalize_evidence_text_def strip_def lstrip_def rstrip_def is_space_def)

lemma desk_claims: "set (extract_draft_claims (\<lambda>t. t) desk_quote) = {desk_quote}"
proof -
  have "sentences False [] desk_quote = [desk_quote]" "strip (rstrip_terminators (strip desk_quote)) = desk_quote" "length desk_quote = 23"
    by (simp_all add: desk_quote_def terminator_def boundary_def rstrip_terminators_def strip_def lstrip_def rstrip_def is_space_def)
  moreover have "\<not> boilerplate (\<lambda>t. t) desk_quote"
    unfolding boilerplate_def desk_text boilerplate_phrases_def by (simp add: desk_quote_def starts_with_def)
  ultimately show ?thesis by (simp add: extract_draft_claims_def)
qed

lemma desk_login: "current_org_and_user desk_env (open_session (desk st)) = (Inr (5, 7), open_session (desk st))"
  by (simp add: current_org_and_user_def get_current_org_and_user_def desk_env_def desk_def desk_user_def)

lemma desk_lookup: "get_requirement_for_org b 11 5 (open_session (desk st)) = (Inr (desk_row 11 3 True), open_session (desk st))"
  by (simp add: get_requirement_for_org_def get_project_for_org_def desk_def desk_row_def desk_project_def)

lemma desk_drafts: "latest_draft (desk st) 11 = Some (desk_draft st)" "links_of (desk st) 11 = [desk_link]"
  by (simp_all add: latest_draft_def newest_def desk_def desk_draft_def desk_link_def links_of_def)

lemma desk_acting: "acting desk_env (open_session (desk st)) = Some 5"
  by (simp add: acting_def desk_login)

lemma desk_tables:
  "requirements (desk st) = [desk_row 11 3 True, desk_row 12 4 False]" "draft_responses (desk st) = [desk_draft st]"
  "evidence_links (desk st) = [desk_link]" "requirement_comments (desk st) = []" "routing_tasks (desk st) = []"
  "projects (desk st) = [3 \<mapsto> desk_project 3 5, 4 \<mapsto> desk_project 4 6]"
  by (simp_all add: desk_def empty_db_def)

lemma desk_is_ok: "desk_ok (desk st)"
proof -
  have "evidence_for (desk st) desk_link"
  proof -
    have "usable_document (desk st) 3 9 desk_source"
      by (simp add: usable_document_def desk_def desk_source_def new_document_def)
    moreover have "quoted_from (desk st) desk_source (Some 1) desk_quote"
      by (simp add: quoted_from_def desk_def desk_source_def)
    ultimately have "quotable (desk st) 3 desk_link"
      unfolding quotable_def by (auto simp: desk_link_def desk_quote_def snippet_min_len_def snippet_max_len_def contains_iff
        intro!: exI [where x = desk_source] exI [where x = desk_quote])
    then show ?thesis by (auto simp: evidence_for_def desk_def desk_row_def desk_link_def)
  qed
  then show ?thesis
    unfolding desk_ok_def desk_tables
    by (auto simp: desk_row_def desk_project_def desk_draft_def approver_known_def split: if_splits)
qed

section \<open>Series of requests\<close>

text \<open>Requests of any users whose organizations satisfy \<open>A\<close>; a refused login acts for nobody.\<close>

inductive desk_run :: "(uuid \<Rightarrow> bool) \<Rightarrow> sess \<Rightarrow> sess \<Rightarrow> bool" for A s where
  closed: "desk_run A s s"
| request: "desk_run A s s1 \<Longrightarrow> acting env s1 \<in> {None, Some org} \<Longrightarrow> A org \<Longrightarrow> fresh_key (wb_new_id env) (work s1) \<Longrightarrow>
    desk_run A s (snd (serve env rq s1))"

lemma desk_run_kept:
  assumes "desk_run A s s'" and "desk_ok (work s)" and "stored s = work s"
  shows "desk_ok (work s') \<and> desk_ok (stored s')
    \<and> (\<forall>B. \<not> A B \<longrightarrow> tenant_rows (work s') B = tenant_rows (work s) B \<and> tenant_rows (stored s') B = tenant_rows (work s) B)"
  using assms(1)
proof induction
  case closed
  then show ?case using assms(2,3) by simp
next
  case (request s1 env org rq)
  have ok: "desk_ok (work (snd (serve env rq s1))) \<and> desk_ok (stored (snd (serve env rq s1)))"
    using desk.serve_kept [of org s1 env rq] request by (simp add: desk.kept_def)
  have "tenant_rows (work (snd (serve env rq s1))) B = tenant_rows (work s) B
      \<and> tenant_rows (stored (snd (serve env rq s1))) B = tenant_rows (work s) B" if "\<not> A B" for B
  proof -
    have "org \<noteq> B" using that request(3) by auto
    then show ?thesis
      using isolation.serve_kept [of B "tenant_rows (work s) B" org s1 env rq] request that
      by (simp add: isolation.kept_def)
  qed
  with ok show ?case by blast
qed

text \<open>
  C11. No series of workspace requests touches the rows of an organization none of its users
  belongs to: its requirements, links, answers, comments and review tasks stay as they are.
\<close>

theorem workspace_stays_in_tenant:
  assumes "desk_run (\<lambda>org. org \<noteq> B) s s'" and "desk_ok (work s)" and "stored s = work s"
  shows "tenant_rows (stored s') B = tenant_rows (stored s) B"
  using desk_run_kept [OF assms] assms(3) by simp

lemma desk_request: "A 5 \<Longrightarrow> desk_run A (open_session (desk st)) (snd (serve desk_env rq (open_session (desk st))))"
  by (rule desk_run.request [OF desk_run.closed, where org = 5])
    (simp_all add: desk_acting fresh_key_def desk_tables, simp add: desk_row_def desk_draft_def desk_env_def)

theorem workspace_stays_in_tenant_witness:
  "tenant_rows (stored (snd (serve desk_env (DeleteRow 11) (open_session (desk ''draft''))))) 6
     = ([desk_row 12 4 False], [], [], [], [])"
  using workspace_stays_in_tenant [OF desk_request [of "\<lambda>org. org \<noteq> 6" "''draft''" "DeleteRow 11"]] desk_is_ok
  by (simp add: tenant_rows_def owns_def belongs_to_def desk_tables desk_row_def desk_project_def desk_draft_def desk_link_def)



section \<open>Approval\<close>

lemma for_requirement_cases:
  assumes "for_requirement env i k s = (Inr a, s')"
  obtains org usr r s1 where "r \<in> set (requirements (work s1))" and "rq_id r = i" and "same_desk (work s) (work s1)"
    and "k org usr r s1 = (Inr a, s')" and "belongs_to (work s1) (rq_project_id r) org"
proof -
  obtain v s1 where c: "current_org_and_user env s = (v, s1)" by fastforce
  have d: "same_desk (work s) (work s1)"
    using c by (auto simp: current_org_and_user_def get_default_org_and_user_def put_user_def same_desk_def Let_def
        split: sum.splits if_splits option.splits prod.splits)
  obtain org usr where v: "v = Inr (org, usr)"
    using assms c by (cases v) (auto simp: for_requirement_def)
  obtain q s2 where q: "get_requirement_for_org (wb_audit_ok env) i org s1 = (q, s2)" by fastforce
  obtain r where r: "q = Inr r" using assms c v q by (cases q) (auto simp: for_requirement_def)
  have "s2 = s1 \<and> r \<in> set (requirements (work s1)) \<and> rq_id r = i \<and> belongs_to (work s1) (rq_project_id r) org"
    using requirements_stay_in_tenant [where audit_ok = "wb_audit_ok env" and i = i and org = org and s = s1] q r by simp
  then show thesis using that [of r s1 org usr] assms c v q r d by (simp add: for_requirement_def)
qed

lemma log_audit_rows [simp]:
  "requirements (work (log_audit_event e s)) = requirements (work s)"
  "draft_responses (work (log_audit_event e s)) = draft_responses (work s)"
  "evidence_links (work (log_audit_event e s)) = evidence_links (work s)"
  "documents (work (log_audit_event e s)) = documents (work s)"
  "pages (work (log_audit_event e s)) = pages (work s)"
  "projects (work (log_audit_event e s)) = projects (work s)"
  by (simp_all add: log_audit_event_def)

text \<open>What an approval requires of the answer and the links it is checked against.\<close>

definition may_be_approved :: "(ustr \<Rightarrow> ustr) \<Rightarrow> requirement \<Rightarrow> draft_response \<Rightarrow> evidence_link list \<Rightarrow> bool" where
  "may_be_approved cf r x ls \<longleftrightarrow> (rq_mandatory r \<longrightarrow> ls \<noteq> [])
     \<and> (ls \<noteq> [] \<longrightarrow> (\<forall>c \<in> set (extract_draft_claims cf (dr_content x)). backed cf claim_support_threshold (map el_snippet ls) c))"

lemma passes_backed:
  "gr_passes (grounding_of env d i x) \<longleftrightarrow>
   (\<forall>c \<in> set (extract_draft_claims (wb_casefold env) (dr_content x)).
      backed (wb_casefold env) claim_support_threshold (map el_snippet (links_of d i)) c)"
  using grounding_exact [of claim_support_threshold "wb_casefold env" "dr_content x" "map el_snippet (links_of d i)"]
  by (simp add: grounding_of_def claim_support_threshold_def Let_def)

lemma desk_backed: "gr_passes (grounding_of desk_env (desk st) 11 (desk_draft sd))"
  using desk_text(2) by (simp add: passes_backed desk_env_def desk_def desk_draft_def desk_claims links_of_def desk_link_def backed_def
      jaccard_def claim_support_threshold_def tokenize_def)

lemma desk_approved: "fst (approve_draft_response desk_env 11 (open_session (desk ''draft''))) = Inr (ToWorkspace 11 None)"
  by (simp add: approve_draft_response_def for_requirement_def desk_login desk_lookup with_draft_def desk_drafts desk_backed approve_draft_def Let_def)



section \<open>An edit after the approval\<close>

lemma newest_map:
  assumes "\<And>y. dr_version (f y) = dr_version y"
  shows "newest (map f xs) = map_option f (newest xs)"
proof -
  have "fold (\<lambda>y b. if dr_version y > dr_version b then y else b) (map f ys) (f z)
      = f (fold (\<lambda>y b. if dr_version y > dr_version b then y else b) ys z)" for ys z
    by (induction ys arbitrary: z) (auto simp: assms)
  then show ?thesis by (cases xs) (simp_all add: newest_def)
qed

lemma latest_changed_draft:
  assumes "latest_draft (work s) i = Some x" and "\<And>y. dr_version (f y) = dr_version y"
    and "\<And>y. dr_requirement_id (f y) = dr_requirement_id y"
  shows "latest_draft (work (change_draft (dr_id x) f s)) i = Some (f x)"
proof -
  let ?g = "\<lambda>y. if dr_id y = dr_id x then f y else y"
  have "filter (\<lambda>y. dr_requirement_id y = i) (map ?g ys) = map ?g (filter (\<lambda>y. dr_requirement_id y = i) ys)" for ys
    by (induction ys) (auto simp: assms(3))
  then show ?thesis
    using assms(1) newest_map [of ?g] assms(2)
    by (simp add: latest_draft_def change_draft_def upd_row_def)
qed

lemma latest_other [simp]:
  "latest_draft (work (change_requirement j h s)) i = latest_draft (work s) i"
  "latest_draft (work (log_audit_event e s)) i = latest_draft (work s) i"
  by (simp_all add: latest_draft_def change_requirement_def)

lemma project_rows_exported:
  "r \<in> set (requirements d) \<Longrightarrow> rq_project_id r = pr_id pr \<Longrightarrow> b \<in> set (requirement_blocks shown d r) \<Longrightarrow>
   b \<in> set (proposal_blocks shown today d pr)"
  by (auto simp: proposal_blocks_def project_requirements_def matrix_order_def Let_def)

text \<open>
  C13. Editing an approved answer replaces its text and keeps its approval: the answer is still
  marked approved by the earlier approver, and the exported proposal presents the new text,
  which no grounding check and no reviewer has seen, as the approved response.
\<close>

theorem edited_answer_is_exported:
  assumes "edit_draft_response env i content s = (Inr rep, s')"
    and "latest_draft (work s) i = Some x" and "dr_status x = ''approved''"
    and "r \<in> set (requirements (work s'))" and "rq_id r = i" and "rq_project_id r = pr_id pr"
  shows "latest_draft (work s') i = Some (x\<lparr>dr_content := content\<rparr>)
    \<and> Paragraph content \<in> set (proposal_blocks shown today (work s') pr)"
proof -
  obtain org usr and q :: requirement and s1 where d: "same_desk (work s) (work s1)"
    and k: "with_draft i (\<lambda>x s1.
       let s2 = commit (change_requirement i (set_status ''DRAFTED'')
                  (change_draft (dr_id x) (\<lambda>y. y\<lparr>dr_content := content\<rparr>) s1))
       in (Inr (ToWorkspace i None), log_audit_event (web_event org usr ''draft_edit'' ''DraftResponse'' (dr_id x)
             [''requirement_id'' \<mapsto> JId i]) s2)) s1 = (Inr rep, s')"
    by (rule for_requirement_cases [OF assms(1) [unfolded edit_draft_response_def]]) (rule that; assumption)
  have x: "latest_draft (work s1) i = Some x"
    using assms(2) d by (simp add: latest_draft_def same_desk_def)
  have l: "latest_draft (work s') i = Some (x\<lparr>dr_content := content\<rparr>)"
    using k x latest_changed_draft [OF x, of "\<lambda>y. y\<lparr>dr_content := content\<rparr>"] by (auto simp: with_draft_def Let_def)
  then have "approved_answer (work s') r = Some (x\<lparr>dr_content := content\<rparr>)"
    using assms(3,5) by (simp add: approved_answer_def)
  then have "Paragraph content \<in> set (requirement_blocks shown (work s') r)"
    by (simp add: requirement_blocks_def)
  with l show ?thesis using project_rows_exported [OF assms(4,6)] by blast
qed

lemma desk_edited:
  "edit_draft_response desk_env 11 t (open_session (desk st)) =
     (Inr (ToWorkspace 11 None), log_audit_event (web_event 5 7 ''draft_edit'' ''DraftResponse'' 31 [''requirement_id'' \<mapsto> JId 11])
       (commit (change_requirement 11 (set_status ''DRAFTED'') (change_draft 31 (\<lambda>y. y\<lparr>dr_content := t\<rparr>) (open_session (desk st))))))"
  by (simp add: edit_draft_response_def for_requirement_def desk_login desk_lookup with_draft_def desk_drafts Let_def)
    (simp add: desk_draft_def)

theorem edited_answer_is_exported_witness:
  "Paragraph (uni ''We lie.'') \<in> set (proposal_blocks (\<lambda>i. []) []
     (work (snd (edit_draft_response desk_env 11 (uni ''We lie.'') (open_session (desk ''approved''))))) (desk_project 3 5))"
  using edited_answer_is_exported [OF desk_edited [of "uni ''We lie.''" "''approved''"], of "desk_draft ''approved''"
      "set_status ''DRAFTED'' (desk_row 11 3 True)" "desk_project 3 5" "\<lambda>i. []" "[]"] desk_drafts(1)
  by (simp add: desk_edited desk_tables change_requirement_def change_draft_def) (simp add: desk_draft_def desk_row_def set_status_def desk_project_def)

section \<open>Splitting\<close>

text \<open>
  A split makes a requirement out of any text: the new row is authoritative, comes from no
  candidate and no page, and the route asks for no reviewer capability and settles no review task.
\<close>

lemma split_bypasses_review:
  assumes "split_requirement_action env i part s = (Inr rep, s')"
  shows "\<exists>r \<in> set (requirements (work s)). \<exists>q \<in> set (requirements (work s')). rq_id r = i
    \<and> q = split_off (wb_new_id env) part r \<and> rq_original_text q = part \<and> rq_source_candidate_id q = None"
  using assms unfolding split_requirement_action_def
proof (rule for_requirement_cases)
  fix org usr and r :: requirement and s1 :: sess
  assume r: "r \<in> set (requirements (work s1))" "rq_id r = i" "same_desk (work s) (work s1)"
    and k: "(let s2 = change_requirement i (\<lambda>q :: requirement. q\<lparr>rq_original_text := split_rest part (rq_original_text q)\<rparr>) s1;
           s3 = commit (s2\<lparr>work := (work s2)\<lparr>requirements := requirements (work s2) @ [split_off (wb_new_id env) part r]\<rparr>\<rparr>)
       in (Inr (ToMatrix (rq_project_id r) None), log_audit_event (web_event org usr ''requirement_split''
             ''Requirement'' i [''new_requirement_id'' \<mapsto> JId (wb_new_id env)]) s3)) = (Inr rep, s')"
  let ?q = "split_off (wb_new_id env) part r"
  have s': "s' = log_audit_event (web_event org usr ''requirement_split'' ''Requirement'' i
      [''new_requirement_id'' \<mapsto> JId (wb_new_id env)])
      (commit ((change_requirement i (\<lambda>q :: requirement. q\<lparr>rq_original_text := split_rest part (rq_original_text q)\<rparr>) s1)
        \<lparr>work := (work (change_requirement i (\<lambda>q :: requirement. q\<lparr>rq_original_text := split_rest part (rq_original_text q)\<rparr>) s1))
          \<lparr>requirements := requirements (work (change_requirement i
             (\<lambda>q :: requirement. q\<lparr>rq_original_text := split_rest part (rq_original_text q)\<rparr>) s1)) @ [?q]\<rparr>\<rparr>))"
    using k by (simp add: Let_def)
  have "?q \<in> set (requirements (work s'))" unfolding s' by simp
  moreover have "r \<in> set (requirements (work s))" using r by (simp add: same_desk_def)
  moreover have "rq_original_text ?q = part \<and> rq_source_candidate_id ?q = None" by (simp add: split_off_def)
  ultimately show ?thesis using r(2) by blast
qed

lemma desk_split: "fst (split_requirement_action desk_env 11 t (open_session (desk st))) = Inr (ToMatrix 3 None)"
  by (simp add: split_requirement_action_def for_requirement_def desk_login desk_lookup Let_def) (simp add: desk_row_def)

theorem split_bypasses_review_witness:
  "\<not> us_can_review_requirements desk_user \<and>
   (\<exists>q \<in> set (requirements (work (snd (split_requirement_action desk_env 11 (uni ''Invented.'') (open_session (desk ''draft'')))))).
      rq_original_text q = uni ''Invented.'' \<and> rq_source_candidate_id q = None)"
proof -
  have "split_requirement_action desk_env 11 (uni ''Invented.'') (open_session (desk ''draft''))
    = (Inr (ToMatrix 3 None), snd (split_requirement_action desk_env 11 (uni ''Invented.'') (open_session (desk ''draft''))))"
    using desk_split by (metis prod.collapse)
  from split_bypasses_review [OF this] show ?thesis by (auto simp: desk_user_def)
qed

section \<open>Knowledge documents\<close>

definition unapproved :: "db \<Rightarrow> bool" where
  "unapproved d \<longleftrightarrow> keyed d \<and> (\<forall>i x. documents d i = Some x \<longrightarrow> d_approval_status x = ''PENDING'')"

interpretation pending: db_invariant unapproved
  by unfold_locales (auto simp: unapproved_def keyed_def)

lemma unapproved_upload: "upload_adds H d r b e \<Longrightarrow> unapproved d \<Longrightarrow> unapproved e"
  by (cases r) (auto simp: upload_adds_def unapproved_def keyed_def split: if_splits)

lemma unapproved_steps:
  assumes "(step dp)\<^sup>*\<^sup>* w w'" and "unapproved (w_db w)"
  shows "unapproved (w_db w')"
  using assms
proof induction
  case (step w1 w2)
  from step(2) show ?case
  proof (cases rule: step_cases)
    case (upload env r)
    then show ?thesis
      using unapproved_upload [OF upload(1)] step(3) [OF step(4)] by blast
  next
    case other
    show ?thesis by (rule other(1) [OF pending.db_invariant_axioms step(3) [OF step(4)]])
  qed
qed simp

text \<open>
  No upload, job, review or retry ever approves a document. Starting without approved
  documents, a knowledge-base document is refused as evidence in every state the system reaches,
  and the evidence search finds nothing.
\<close>

lemma knowledge_is_never_evidence:
  assumes "(step dp)\<^sup>*\<^sup>* w w'" and "unapproved (w_db w)"
    and "documents (w_db w') i = Some x" and "d_doc_role x = ''knowledge_base''"
  shows "(\<exists>st m. validate_evidence_candidate cf (w_db w') proj i page snippet = Inl (st, m) \<and> st \<in> {400, 404})
    \<and> retrieve_evidence sh (w_db w') proj query limit = []"
proof -
  have pending: "documents (w_db w') j = Some y \<Longrightarrow> d_approval_status y = ''PENDING''" for j y
    using unapproved_steps [OF assms(1,2)] by (auto simp: unapproved_def)
  have no: "\<not> usable_document (w_db w') proj i y" for y
    using pending assms(3,4) by (auto simp: usable_document_def)
  have "\<exists>st m. validate_evidence_candidate cf (w_db w') proj i page snippet = Inl (st, m) \<and> st \<in> {400, 404}"
    by (rule unusable_refused) (rule no)
  moreover have "\<not> searchable proj y" if "(p, y) \<in> set (joined_pages (w_db w'))" for p y
    using that pending by (auto simp: joined_pages_def searchable_def split: option.splits)
  then have "retrieve_evidence_postgresql sh (w_db w') proj q limit = []" for q
  proof -
    have "filter (\<lambda>(p, x). searchable proj x \<and> sh_matches sh (pg_content p) q) (joined_pages (w_db w')) = []"
      using \<open>\<And>p y. (p, y) \<in> set (joined_pages (w_db w')) \<Longrightarrow> \<not> searchable proj y\<close>
      by (auto simp: filter_empty_conv)
    then show ?thesis by (simp add: retrieve_evidence_postgresql_def)
  qed
  then have "retrieve_evidence sh (w_db w') proj query limit = []" by (simp add: retrieve_evidence_def)
  ultimately show ?thesis by blast
qed

definition library_world :: world where
  "library_world = empty_world\<lparr>w_db := empty_db\<lparr>documents := [9 \<mapsto> desk_source\<lparr>d_doc_role := ''knowledge_base''\<rparr>]\<rparr>,
     w_queue := [ParseJob 9]\<rparr>"

theorem knowledge_is_never_evidence_witness:
  "\<exists>st m. validate_evidence_candidate (\<lambda>t. t) (w_db (library_world\<lparr>w_queue := []\<rparr>)) 3 9 (Some 1) desk_quote = Inl (st, m)
     \<and> st \<in> {400, 404}"
proof -
  have "step demo_deployment library_world (library_world\<lparr>w_queue := []\<rparr>)"
    using step.lose [of demo_deployment library_world "ParseJob 9"] by (simp add: library_world_def)
  then have "(step demo_deployment)\<^sup>*\<^sup>* library_world (library_world\<lparr>w_queue := []\<rparr>)" by (rule r_into_rtranclp)
  then show ?thesis
    by (rule knowledge_is_never_evidence [THEN conjunct1])
      (simp_all add: library_world_def unapproved_def keyed_def desk_source_def, simp_all add: new_document_def)
qed

end
