(* ===== verification/Dashboards.thy ===== *)
theory Dashboards
  imports Workspace ProjectService
begin

text \<open>
  The project pages of \<open>app/web/routes/projects.py\<close> and \<open>app/web/routes/feedback.py\<close>. The
  tables for projects and documents are maps; what a query over them lists, newest first, is a
  parameter (\<open>listed\<close>), and the conditions of the query are applied here. Of the two pages that
  are built from f-strings the computed parts are kept, the fixed HTML around them is not.
\<close>

section \<open>Lists\<close>

definition listed :: "(uuid \<rightharpoonup> 'r) \<Rightarrow> 'r list \<Rightarrow> bool" where
  "listed table rs \<longleftrightarrow> set rs = ran table"

definition get_projects :: "project list \<Rightarrow> uuid \<Rightarrow> project list" where
  "get_projects ps org = filter (\<lambda>p. pr_organization_id p = org) ps"

definition get_project_document :: "document list \<Rightarrow> uuid \<Rightarrow> document option" where
  "get_project_document ds proj = first_active_rfp (filter (\<lambda>x. d_project_id x = proj \<and> d_doc_role x = ''rfp'') ds)"

definition knowledge_docs :: "document list \<Rightarrow> uuid \<Rightarrow> document list" where
  "knowledge_docs ds proj = filter (\<lambda>x. d_project_id x = proj \<and> d_doc_role x = ''knowledge_base'') ds"

definition latest_job :: "db \<Rightarrow> uuid \<Rightarrow> processing_job option" where
  "latest_job d i = find (\<lambda>j. jb_document_id j = Some i) (rev (processing_jobs d))"

section \<open>The project pages\<close>

definition list_projects_view :: "web_env \<Rightarrow> project list \<Rightarrow> sess \<Rightarrow> (exc + project list) \<times> sess" where
  "list_projects_view env ps s =
     (case current_org_and_user env s of
        (Inl e, s1) \<Rightarrow> (Inl e, s1)
      | (Inr (org, usr), s1) \<Rightarrow> (Inr (get_projects ps org), s1))"

datatype project_reply = ToProjects | ToProject uuid "string option"

text \<open>A due date that does not parse is dropped; \<open>with_time\<close> and \<open>date_only\<close> are the two parsers.\<close>

definition parsed_due_date :: "(ustr \<Rightarrow> time option) \<Rightarrow> (ustr \<Rightarrow> time option) \<Rightarrow> ustr option \<Rightarrow> time option" where
  "parsed_due_date with_time date_only due =
     (case due of None \<Rightarrow> None
      | Some t \<Rightarrow> if t = [] then None else if 84 \<in> set t then with_time t else date_only t)"

definition create_project_action ::
  "web_env \<Rightarrow> (ustr \<Rightarrow> time option) \<Rightarrow> (ustr \<Rightarrow> time option) \<Rightarrow> ustr \<Rightarrow> ustr \<Rightarrow> ustr option \<Rightarrow> sess
    \<Rightarrow> (exc + project_reply) \<times> sess" where
  "create_project_action env with_time date_only nm client due s =
     (case current_org_and_user env s of
        (Inl e, s1) \<Rightarrow> (Inl e, s1)
      | (Inr (org, usr), s1) \<Rightarrow>
          (Inr ToProjects, snd (create_project (wb_new_id env) org usr nm client (parsed_due_date with_time date_only due) s1)))"

record project_page =
  pp_project :: project
  pp_document :: "document option"
  pp_knowledge_docs :: "document list"
  pp_job :: "processing_job option"

definition project_detail_view ::
  "web_env \<Rightarrow> document list \<Rightarrow> uuid \<Rightarrow> sess \<Rightarrow> (exc + project_page) \<times> sess" where
  "project_detail_view env ds proj =
     for_project env proj (\<lambda>org usr pr s1.
       let doc = get_project_document ds (pr_id pr) in
       (Inr \<lparr>pp_project = pr, pp_document = doc, pp_knowledge_docs = knowledge_docs ds proj,
             pp_job = (case doc of None \<Rightarrow> None | Some x \<Rightarrow> latest_job (work s1) (d_id x))\<rparr>, s1))"

definition project_document_status_partial ::
  "web_env \<Rightarrow> document list \<Rightarrow> uuid \<Rightarrow> sess \<Rightarrow> (exc + project \<times> document option \<times> processing_job option) \<times> sess" where
  "project_document_status_partial env ds proj =
     for_project env proj (\<lambda>org usr pr s1.
       let doc = get_project_document ds (pr_id pr) in
       (Inr (pr, doc, case doc of None \<Rightarrow> None | Some x \<Rightarrow> latest_job (work s1) (d_id x)), s1))"

text \<open>The upload turns every error into a redirect to the project page.\<close>

definition upload_rfp_action ::
  "(bytes \<Rightarrow> string) \<Rightarrow> ingest_config \<Rightarrow> ingest_env \<Rightarrow> web_env \<Rightarrow> document list \<Rightarrow> uuid \<Rightarrow> sess \<Rightarrow> dir
    \<Rightarrow> (exc + project_reply) \<times> sess \<times> dir" where
  "upload_rfp_action H cfg ienv env ds proj s q =
     (case current_org_and_user env s of
        (Inl e, s1) \<Rightarrow> (Inl e, s1, q)
      | (Inr (org, usr), s1) \<Rightarrow>
          (case upload_rfp_document H cfg ienv (filter (\<lambda>x. d_project_id x = proj \<and> d_doc_role x = ''rfp'') ds)
                  proj org usr s1 q of
             (Inr i, s2, q2) \<Rightarrow> (Inr (ToProject proj None), s2, q2)
           | (Inl (HTTPException code detail), s2, q2) \<Rightarrow> (Inr (ToProject proj (Some detail)), rollback s2, q2)
           | (Inl e, s2, q2) \<Rightarrow>
               (Inr (ToProject proj (Some ''An unexpected error occurred while processing the upload.'')), rollback s2, q2)))"

section \<open>The job log\<close>

text \<open>\<open>str.title\<close> on ASCII letters, after underscores became spaces.\<close>

fun title_from :: "bool \<Rightarrow> ustr \<Rightarrow> ustr" where
  "title_from inside [] = []"
| "title_from inside (c # cs) =
     (if 97 \<le> c \<and> c \<le> 122 then (if inside then c else c - 32) # title_from True cs
      else if 65 \<le> c \<and> c \<le> 90 then (if inside then c + 32 else c) # title_from True cs
      else c # title_from False cs)"

definition job_title :: "string \<Rightarrow> ustr" where
  "job_title t = title_from False (map (\<lambda>c. if c = 95 then 32 else c) (uni t))"

definition status_color :: "string \<Rightarrow> string" where
  "status_color st =
     (if st = ''SUCCEEDED'' then ''var(--status-approved)''
      else if st = ''FAILED'' then ''var(--status-needs-evidence)''
      else if st = ''RETRYING'' then ''#e67e22'' else ''var(--accent)'')"

text \<open>The retry button of a card: project, document and the CSRF token of its form.\<close>

record job_card =
  jc_title :: ustr
  jc_color :: string
  jc_status :: string
  jc_attempts :: "nat \<times> nat"
  jc_progress :: int
  jc_step :: string
  jc_error :: ustr
  jc_retry :: "(uuid \<times> uuid \<times> ustr) option"

definition err_div :: "string option \<Rightarrow> ustr" where
  "err_div m = (if m \<in> {None, Some []} then [] else uni ''<div class=\"err-box\">'' @ uni (the m) @ uni ''</div>'')"

definition job_card_of :: "uuid \<Rightarrow> ustr \<Rightarrow> processing_job \<Rightarrow> job_card" where
  "job_card_of proj csrf j =
     \<lparr>jc_title = job_title (jb_job_type j), jc_color = status_color (jb_status j), jc_status = jb_status j,
      jc_attempts = (jb_attempts j, jb_max_attempts j), jc_progress = jb_progress_percent j,
      jc_step = (if jb_current_step j = [] then ''None'' else jb_current_step j),
      jc_error = err_div (jb_safe_error_message j),
      jc_retry = (if jb_status j \<in> {''FAILED'', ''CANCELLED''}
                  then map_option (\<lambda>i. (proj, i, csrf)) (jb_document_id j) else None)\<rparr>"

definition list_project_jobs ::
  "web_env \<Rightarrow> ustr \<Rightarrow> uuid \<Rightarrow> sess \<Rightarrow> (exc + ustr \<times> job_card list) \<times> sess" where
  "list_project_jobs env csrf proj =
     for_project env proj (\<lambda>org usr pr s1.
       (Inr (uni ''<title>Jobs for '' @ pr_name pr @ uni ''</title>'',
             map (job_card_of (pr_id pr) csrf)
               (rev (filter (\<lambda>j. jb_project_id j = Some proj) (processing_jobs (work s1))))), s1))"

record job_status =
  js_status :: string
  js_progress_percent :: int
  js_current_step :: string
  js_attempts :: nat
  js_max_attempts :: nat
  js_safe_error_message :: "string option"

definition job_status_of :: "processing_job \<Rightarrow> job_status" where
  "job_status_of j = \<lparr>js_status = jb_status j, js_progress_percent = jb_progress_percent j,
     js_current_step = jb_current_step j, js_attempts = jb_attempts j, js_max_attempts = jb_max_attempts j,
     js_safe_error_message = jb_safe_error_message j\<rparr>"

definition get_document_status_json ::
  "web_env \<Rightarrow> uuid \<Rightarrow> uuid \<Rightarrow> sess \<Rightarrow> (exc + uuid \<times> string \<times> string option \<times> job_status option) \<times> sess" where
  "get_document_status_json env proj i =
     for_project env proj (\<lambda>org usr pr s1.
       case get_doc s1 i of
         None \<Rightarrow> (Inl (HTTPException 404 ''Document not found''), s1)
       | Some x \<Rightarrow>
           if d_project_id x \<noteq> proj then (Inl (HTTPException 404 ''Document not found''), s1)
           else (Inr (d_id x, d_processing_status x, d_processing_error x,
                      map_option job_status_of (latest_job (work s1) i)), s1))"

section \<open>The operations dashboard\<close>

record dashboard =
  db_projects_count :: nat
  db_docs_success :: nat
  db_docs_failed :: nat
  db_reqs_extracted :: nat
  db_reqs_approved :: nat
  db_reqs_needing_evidence :: nat
  db_reqs_needing_review :: nat
  db_failed_jobs :: "processing_job list"
  db_exports_count :: nat
  db_approval_rate :: rat
  db_avg_processing_time :: "rat option"

definition number_of :: "('a \<Rightarrow> bool) \<Rightarrow> 'a list \<Rightarrow> nat" where
  "number_of P xs = length (filter P xs)"

definition in_org :: "db \<Rightarrow> uuid \<Rightarrow> uuid \<Rightarrow> bool" where
  "in_org d org proj \<longleftrightarrow> (case projects d proj of None \<Rightarrow> False | Some p \<Rightarrow> pr_organization_id p = org)"

text \<open>\<open>AVG\<close> over the finished runs, in seconds.\<close>

definition run_times :: "uuid \<Rightarrow> processing_job list \<Rightarrow> int list" where
  "run_times org js = concat (map (\<lambda>j. case (jb_started_at j, jb_finished_at j) of
     (Some a, Some b) \<Rightarrow> if jb_org_id j = org \<and> jb_status j = ''SUCCEEDED'' then [b - a] else [] | _ \<Rightarrow> []) js)"

definition average :: "int list \<Rightarrow> rat option" where
  "average ts = (if ts = [] then None else Some (of_int (sum_list ts) / (1000000 * of_nat (length ts))))"

definition dashboard_of :: "project list \<Rightarrow> document list \<Rightarrow> uuid \<Rightarrow> db \<Rightarrow> dashboard" where
  "dashboard_of ps ds org d =
     (let rs = filter (\<lambda>r. in_org d org (rq_project_id r)) (requirements d);
          approved = number_of (\<lambda>r. rq_status r = ''APPROVED'') rs
      in \<lparr>db_projects_count = number_of (\<lambda>p. pr_organization_id p = org) ps,
          db_docs_success = number_of (\<lambda>x. in_org d org (d_project_id x) \<and> d_processing_status x = ''succeeded'') ds,
          db_docs_failed = number_of (\<lambda>x. in_org d org (d_project_id x) \<and> d_processing_status x = ''failed'') ds,
          db_reqs_extracted = length rs, db_reqs_approved = approved,
          db_reqs_needing_evidence = number_of (\<lambda>r. rq_status r = ''NEEDS_EVIDENCE'') rs,
          db_reqs_needing_review = number_of (\<lambda>r. rq_status r = ''NEEDS_REVIEW'') rs,
          db_failed_jobs = take 5 (rev (filter (\<lambda>j. jb_org_id j = org \<and> jb_status j = ''FAILED'') (processing_jobs d))),
          db_exports_count = number_of (\<lambda>e. ev_organization_id e = org \<and> starts_with ''EXPORT'' (ev_action e)
            \<and> length (ev_action e) \<ge> 7) (audit d),
          db_approval_rate = (if length rs > 0 then of_nat approved / of_nat (length rs) else 0),
          db_avg_processing_time = average (run_times org (processing_jobs d))\<rparr>)"

definition ops_dashboard ::
  "web_env \<Rightarrow> project list \<Rightarrow> document list \<Rightarrow> sess \<Rightarrow> (exc + dashboard) \<times> sess" where
  "ops_dashboard env ps ds s =
     (case current_org_and_user env s of
        (Inl e, s1) \<Rightarrow> (Inl e, s1)
      | (Inr (org, usr), s1) \<Rightarrow> (Inr (dashboard_of ps ds org (work s1)), s1))"

section \<open>Feedback (feedback.py)\<close>

definition valid_categories :: "string list" where
  "valid_categories = [''BUG'', ''USABILITY'', ''AI_QUALITY'', ''EVIDENCE'', ''EXPORT'', ''PERFORMANCE'', ''OTHER'']"

definition valid_severities :: "string list" where
  "valid_severities = [''LOW'', ''MEDIUM'', ''HIGH'', ''BLOCKER'']"

text \<open>
  A form field with an identifier: nothing if it is missing or blank, an error if it does not
  parse or \<open>owned\<close> refuses it. \<open>blank\<close> is \<open>not t.strip()\<close> for the ASCII texts of an identifier.
\<close>

definition blank :: "string \<Rightarrow> bool" where
  "blank t \<longleftrightarrow> strip (uni t) = []"

definition reference_field ::
  "(string \<Rightarrow> uuid option) \<Rightarrow> (uuid \<Rightarrow> bool) \<Rightarrow> string \<Rightarrow> string \<Rightarrow> string option \<Rightarrow> exc + uuid option" where
  "reference_field parse owned missing invalid field =
     (case field of None \<Rightarrow> Inr None
      | Some t \<Rightarrow>
          if t = [] \<or> blank t then Inr None
          else (case parse t of
                  None \<Rightarrow> Inl (HTTPException 400 invalid)
                | Some i \<Rightarrow> if owned i then Inr (Some i) else Inl (HTTPException 404 missing)))"

definition requirement_in_org :: "db \<Rightarrow> uuid \<Rightarrow> uuid \<Rightarrow> bool" where
  "requirement_in_org d org i \<longleftrightarrow> list_ex (\<lambda>r. rq_id r = i \<and> in_org d org (rq_project_id r)) (requirements d)"

datatype feedback_reply = FeedbackThanks "uuid option"

definition max_feedback_len :: nat where "max_feedback_len = 2000"

definition submit_feedback ::
  "web_env \<Rightarrow> string option \<Rightarrow> string option \<Rightarrow> string \<Rightarrow> string \<Rightarrow> ustr \<Rightarrow> sess \<Rightarrow> (exc + feedback_reply) \<times> sess" where
  "submit_feedback env project_id requirement_id category severity message s =
     (case get_current_org_and_user (wb_parse env) (wb_user_text env) (wb_org_text env) (work s) of
        Inl e \<Rightarrow> (Inl e, s)
      | Inr (org, usr) \<Rightarrow>
          let clean_message = strip message in
          if category \<notin> set valid_categories then (Inl (HTTPException 400 ''Invalid category''), s)
          else if severity \<notin> set valid_severities then (Inl (HTTPException 400 ''Invalid severity''), s)
          else if clean_message = [] \<or> length clean_message > max_feedback_len
          then (Inl (HTTPException 400 ''Message must be between 1 and 2000 characters''), s)
          else
            (case reference_field (wb_parse env) (in_org (work s) org) ''Project not found'' ''Invalid project ID'' project_id of
               Inl e \<Rightarrow> (Inl e, s)
             | Inr p \<Rightarrow>
                 (case reference_field (wb_parse env) (requirement_in_org (work s) org) ''Requirement not found''
                         ''Invalid requirement ID'' requirement_id of
                    Inl e \<Rightarrow> (Inl e, s)
                  | Inr r \<Rightarrow>
                      (Inr (FeedbackThanks p), commit (s\<lparr>work := (work s)\<lparr>pilot_feedback_rows := pilot_feedback_rows (work s)
                         @ [\<lparr>fb_id = wb_new_id env, fb_project_id = p, fb_requirement_id = r, fb_category = category,
                             fb_severity = severity, fb_message = clean_message, fb_created_by_user_id = usr,
                             fb_organization_id = org, fb_status = ''OPEN''\<rparr>]\<rparr>\<rparr>)))))"

text \<open>The form ignores an identifier that does not parse.\<close>

definition shown_reference ::
  "(string \<Rightarrow> uuid option) \<Rightarrow> (uuid \<Rightarrow> bool) \<Rightarrow> string \<Rightarrow> string option \<Rightarrow> exc + uuid option" where
  "shown_reference parse owned missing field =
     (if field \<in> {None, Some []} then Inr None
      else (case parse (the field) of None \<Rightarrow> Inr None
            | Some i \<Rightarrow> if owned i then Inr (Some i) else Inl (HTTPException 404 missing)))"

definition feedback_form ::
  "web_env \<Rightarrow> string option \<Rightarrow> string option \<Rightarrow> sess \<Rightarrow> (exc + uuid option \<times> uuid option) \<times> sess" where
  "feedback_form env project_id requirement_id s =
     (case get_current_org_and_user (wb_parse env) (wb_user_text env) (wb_org_text env) (work s) of
        Inl e \<Rightarrow> (Inl e, s)
      | Inr (org, usr) \<Rightarrow>
          (case shown_reference (wb_parse env) (in_org (work s) org) ''Project not found'' project_id of
             Inl e \<Rightarrow> (Inl e, s)
           | Inr p \<Rightarrow>
               (case shown_reference (wb_parse env) (requirement_in_org (work s) org) ''Requirement not found'' requirement_id of
                  Inl e \<Rightarrow> (Inl e, s)
                | Inr r \<Rightarrow> (Inr (p, r), s))))"

section \<open>What the pages and the feedback keep\<close>

text \<open>The document of the project page is the one active RFP document.\<close>

lemma project_document_is_active:
  assumes "one_active_rfp d" and "listed (documents d) ds" and "keyed d"
  shows "get_project_document ds proj = Some x \<longleftrightarrow> documents d (d_id x) = Some x \<and> active_rfp proj x"
proof
  have rows: "y \<in> set ds \<longleftrightarrow> documents d (d_id y) = Some y" for y
    using assms(2,3) by (auto simp: listed_def ran_def keyed_def)
  have unique: "y = z" if "y \<in> set ds" "z \<in> set ds" "active_rfp proj y" "active_rfp proj z" for y z
    using that rows assms(1) unfolding one_active_rfp_def by (metis option.inject)
  show "documents d (d_id x) = Some x \<and> active_rfp proj x" if "get_project_document ds proj = Some x"
    using find_Some_in [OF that [unfolded get_project_document_def first_active_rfp_def]] rows
    by (simp add: active_rfp_def)
  show "get_project_document ds proj = Some x" if x: "documents d (d_id x) = Some x \<and> active_rfp proj x"
  proof (cases "get_project_document ds proj")
    case None
    then show ?thesis using x rows
      by (auto simp: get_project_document_def first_active_rfp_def find_None_iff active_rfp_def)
  next
    case (Some y)
    have "y \<in> set ds" "active_rfp proj y"
      using find_Some_in [OF Some [unfolded get_project_document_def first_active_rfp_def]] by (auto simp: active_rfp_def)
    then have "y = x" using unique x rows by blast
    then show ?thesis using Some by simp
  qed
qed

definition feedback_ok :: "db \<Rightarrow> pilot_feedback \<Rightarrow> bool" where
  "feedback_ok d f \<longleftrightarrow> fb_category f \<in> set valid_categories \<and> fb_severity f \<in> set valid_severities
     \<and> fb_message f \<noteq> [] \<and> length (fb_message f) \<le> 2000 \<and> strip (fb_message f) = fb_message f
     \<and> (\<forall>p. fb_project_id f = Some p \<longrightarrow> in_org d (fb_organization_id f) p)
     \<and> (\<forall>r. fb_requirement_id f = Some r \<longrightarrow> requirement_in_org d (fb_organization_id f) r)
     \<and> (\<exists>u. users d (fb_created_by_user_id f) = Some u \<and> us_organization_id u = fb_organization_id f)"

lemma reference_owned: "reference_field parse owned m v field = Inr (Some i) \<Longrightarrow> owned i"
  by (auto simp: reference_field_def split: option.splits if_splits)

text \<open>
  Feedback is stored with a valid category and severity, a trimmed message within its bounds, and
  references into the organization of its author; refused feedback changes nothing.
\<close>

lemma stored_feedback_is_valid:
  assumes "submit_feedback env p r c v t s = (q, s')" and "\<forall>f \<in> set (pilot_feedback_rows (work s)). feedback_ok (work s) f"
  shows "\<forall>f \<in> set (pilot_feedback_rows (work s')). feedback_ok (work s') f"
proof (cases q)
  case (Inl e)
  then have "s' = s"
    using assms(1) by (auto simp: submit_feedback_def Let_def split: sum.splits if_splits prod.splits)
  then show ?thesis using assms(2) by simp
next
  case (Inr a)
  then obtain org usr p1 r1 where login: "get_current_org_and_user (wb_parse env) (wb_user_text env) (wb_org_text env) (work s) = Inr (org, usr)"
    and fields: "c \<in> set valid_categories" "v \<in> set valid_severities" "strip t \<noteq> []" "length (strip t) \<le> 2000"
      "reference_field (wb_parse env) (in_org (work s) org) ''Project not found'' ''Invalid project ID'' p = Inr p1"
      "reference_field (wb_parse env) (requirement_in_org (work s) org) ''Requirement not found'' ''Invalid requirement ID'' r = Inr r1"
    and s': "s' = commit (s\<lparr>work := (work s)\<lparr>pilot_feedback_rows := pilot_feedback_rows (work s)
       @ [\<lparr>fb_id = wb_new_id env, fb_project_id = p1, fb_requirement_id = r1, fb_category = c,
           fb_severity = v, fb_message = strip t, fb_created_by_user_id = usr,
           fb_organization_id = org, fb_status = ''OPEN''\<rparr>]\<rparr>\<rparr>)"
    using assms(1) by (auto simp: submit_feedback_def Let_def max_feedback_len_def split: sum.splits if_splits prod.splits)
  have same: "feedback_ok (work s') f = feedback_ok (work s) f" for f
    unfolding s' by (simp add: feedback_ok_def in_org_def requirement_in_org_def)
  show ?thesis
    using assms(2) fields logged_in [OF login] reference_owned
    unfolding same unfolding s' by (auto simp: feedback_ok_def)
qed

text \<open>A listing shows the rows of one organization only.\<close>

lemma listing_stays_in_tenant:
  "p \<in> set (get_projects ps org) \<Longrightarrow> pr_organization_id p = org"
  by (simp add: get_projects_def)

end
