(* ===== verification/DocxPolicy.thy ===== *)
theory DocxPolicy
  imports TypeDetection
begin

text \<open>
  \<open>app/services/docx_content_policy.py\<close>: the deeper inspection of a DOCX package for macros,
  embedded OLE objects, external relationships, archive bombs and path traversal. What \<open>zipfile\<close>
  makes of the file and whether expat accepts a part are parameters, as in TypeDetection.
\<close>

section \<open>The package\<close>

text \<open>
  An entry of the central directory. \<open>en_whole\<close> is what \<open>ZipFile.read\<close> gives, \<open>en_start\<close> what
  opening the entry and reading eight bytes gives; \<open>MemberBad\<close> stands for the exceptions that this
  function catches on the spot or in its outermost handler, \<open>MemberRaises\<close> for any other.
\<close>

record package_entry =
  en_name :: ustr
  en_size :: nat
  en_packed :: nat
  en_encrypted :: bool
  en_directory :: bool
  en_whole :: member_read
  en_start :: member_read

datatype package = NoPackage | PackageRaises string | Package "package_entry list"

record policy_limits =
  pl_max_members :: nat
  pl_max_total :: nat
  pl_max_ratio :: rat

record policy_result =
  po_passed :: bool
  po_reason_code :: "string option"
  po_policy_version :: string

definition policy_version :: string where "policy_version = ''1''"

definition rejected_policy :: "string \<Rightarrow> policy_result" where
  "rejected_policy code = \<lparr>po_passed = False, po_reason_code = Some code, po_policy_version = policy_version\<rparr>"

definition passed_policy :: policy_result where
  "passed_policy = \<lparr>po_passed = True, po_reason_code = None, po_policy_version = policy_version\<rparr>"

section \<open>Names\<close>

definition slash :: nat where "slash = 47"
definition backslash :: nat where "backslash = 92"

definition ascii_letter :: "nat \<Rightarrow> bool" where
  "ascii_letter c \<longleftrightarrow> (65 \<le> c \<and> c \<le> 90) \<or> (97 \<le> c \<and> c \<le> 122)"

text \<open>\<open>_DRIVE_OR_UNC_RE.match\<close>.\<close>

definition drive_or_unc :: "ustr \<Rightarrow> bool" where
  "drive_or_unc n \<longleftrightarrow> (case n of
     a # b # c # _ \<Rightarrow> ascii_letter a \<and> b = 58 \<and> (c = backslash \<or> c = slash) | _ \<Rightarrow> False)
   \<or> starts_with [backslash, backslash] n"

definition is_traversal_or_absolute :: "ustr \<Rightarrow> bool" where
  "is_traversal_or_absolute n \<longleftrightarrow>
     starts_with [slash] n \<or> starts_with [backslash] n
     \<or> uni ''..'' \<in> set (split_on slash (map (\<lambda>c. if c = backslash then slash else c) n))
     \<or> drive_or_unc n"

definition nested_archive_extensions :: "ustr list" where
  "nested_archive_extensions = map uni [''.zip'', ''.docx'', ''.docm'', ''.rar'', ''.7z'', ''.tar'', ''.gz'']"

definition nested_archive :: "ustr \<Rightarrow> bool" where
  "nested_archive n \<longleftrightarrow> list_ex (\<lambda>e. ends_with e (lower_text n)) nested_archive_extensions"

text \<open>\<open>Path(n).name\<close>.\<close>

definition last_component :: "ustr \<Rightarrow> ustr" where
  "last_component n = (case rev (filter (\<lambda>c. c \<noteq> [] \<and> c \<noteq> uni ''.'') (split_on slash n)) of [] \<Rightarrow> [] | c # _ \<Rightarrow> c)"

definition vba_project :: ustr where "vba_project = uni ''vbaProject.bin''"
definition embeddings_prefix :: ustr where "embeddings_prefix = uni ''word/embeddings/''"
definition document_rels_part :: ustr where "document_rels_part = uni ''word/_rels/document.xml.rels''"
definition ole_magic :: bytes where "ole_magic = [208, 207, 17, 224, 161, 177, 26, 225]"
definition max_inspected_xml_bytes :: nat where "max_inspected_xml_bytes = 1024 * 1024"

section \<open>External relationships\<close>

text \<open>
  \<open>_EXTERNAL_RELATIONSHIP_RE.search\<close>: the tag name, then, inside the stretch without a closing
  bracket, a word boundary and \<open>TargetMode = "External"\<close> in either quotes; letters of either case.
\<close>

definition word_byte :: "nat \<Rightarrow> bool" where
  "word_byte c \<longleftrightarrow> ascii_letter c \<or> (48 \<le> c \<and> c \<le> 57) \<or> c = 95"

definition space_byte :: "nat \<Rightarrow> bool" where
  "space_byte c \<longleftrightarrow> (9 \<le> c \<and> c \<le> 13) \<or> c = 32"

definition starts_with_nocase :: "ustr \<Rightarrow> bytes \<Rightarrow> bool" where
  "starts_with_nocase p b \<longleftrightarrow> starts_with (lower_text p) (lower_text b)"

definition target_external :: "bytes \<Rightarrow> bool" where
  "target_external b \<longleftrightarrow> starts_with_nocase (uni ''TargetMode'') b
     \<and> (case dropWhile space_byte (drop 10 b) of [] \<Rightarrow> False
        | c # r \<Rightarrow> c = 61 \<and> (case dropWhile space_byte r of [] \<Rightarrow> False
            | q # v \<Rightarrow> (q = 34 \<or> q = 39) \<and> starts_with_nocase (uni ''External'') v \<and> starts_with [q] (drop 8 v)))"

fun external_attribute :: "bool \<Rightarrow> bytes \<Rightarrow> bool" where
  "external_attribute after_word [] = False"
| "external_attribute after_word (c # cs) =
     (\<not> after_word \<and> target_external (c # cs) \<or> c \<noteq> 62 \<and> external_attribute (word_byte c) cs)"

definition relationship_tag :: "bytes \<Rightarrow> bool" where
  "relationship_tag b \<longleftrightarrow> starts_with_nocase (uni ''<Relationship'') b
     \<and> (case drop 13 b of [] \<Rightarrow> False | c # cs \<Rightarrow> \<not> word_byte c \<and> external_attribute True (c # cs))"

fun external_relationship :: "bytes \<Rightarrow> bool" where
  "external_relationship [] = False"
| "external_relationship (c # cs) = (relationship_tag (c # cs) \<or> external_relationship cs)"

section \<open>The checks\<close>

definition entry_named :: "package_entry list \<Rightarrow> ustr \<Rightarrow> package_entry option" where
  "entry_named es n = find (\<lambda>e. en_name e = n) es"

definition read_member_bounded :: "package_entry list \<Rightarrow> ustr \<Rightarrow> member_read" where
  "read_member_bounded es n =
     (case entry_named es n of None \<Rightarrow> MemberBad
      | Some e \<Rightarrow> if en_size e > max_inspected_xml_bytes then MemberBad else en_whole e)"

definition bad_entry :: "package_entry \<Rightarrow> bool" where
  "bad_entry e \<longleftrightarrow> en_encrypted e \<or> is_traversal_or_absolute (en_name e) \<or> nested_archive (en_name e)"

definition total_size :: "package_entry list \<Rightarrow> nat" where "total_size es = sum_list (map en_size es)"
definition total_packed :: "package_entry list \<Rightarrow> nat" where "total_packed es = sum_list (map en_packed es)"

definition archive_bomb :: "policy_limits \<Rightarrow> package_entry list \<Rightarrow> bool" where
  "archive_bomb lims es \<longleftrightarrow> total_size es > pl_max_total lims
     \<or> (if total_packed es > 0 then of_nat (total_size es) / of_nat (total_packed es) > pl_max_ratio lims
        else total_size es > 0)"

text \<open>A part that is present is read and parsed; \<open>judge\<close> is applied to its bytes.\<close>

definition inspect_part ::
  "(bytes \<Rightarrow> bool) \<Rightarrow> package_entry list \<Rightarrow> ustr \<Rightarrow> (bytes \<Rightarrow> string + policy_result) \<Rightarrow> string + policy_result
    \<Rightarrow> string + policy_result" where
  "inspect_part xml_ok es n judge absent =
     (if n \<notin> en_name ` set es then absent
      else (case read_member_bounded es n of
              MemberRaises e \<Rightarrow> Inl e
            | MemberBad \<Rightarrow> Inr (rejected_policy ''DOCX_MALFORMED_PACKAGE'')
            | MemberBytes b \<Rightarrow> if \<not> xml_ok b then Inr (rejected_policy ''DOCX_MALFORMED_PACKAGE'') else judge b))"

definition embedding :: "package_entry \<Rightarrow> bool" where
  "embedding e \<longleftrightarrow> starts_with embeddings_prefix (en_name e) \<and> en_name e \<noteq> embeddings_prefix \<and> \<not> en_directory e"

fun check_embeddings :: "package_entry list \<Rightarrow> string + policy_result \<Rightarrow> string + policy_result" where
  "check_embeddings [] k = k"
| "check_embeddings (e # es) k =
     (if \<not> embedding e then check_embeddings es k
      else (case en_start e of
              MemberRaises x \<Rightarrow> Inl x
            | MemberBad \<Rightarrow> Inr (rejected_policy ''DOCX_MALFORMED_PACKAGE'')
            | MemberBytes h \<Rightarrow> if h = ole_magic then Inr (rejected_policy ''DOCX_OLE_PRESENT'') else check_embeddings es k))"

definition check_relationships :: "(bytes \<Rightarrow> bool) \<Rightarrow> package_entry list \<Rightarrow> string + policy_result" where
  "check_relationships xml_ok es =
     inspect_part xml_ok es document_rels_part
       (\<lambda>b. if external_relationship b then Inr (rejected_policy ''DOCX_EXTERNAL_RELATIONSHIP'') else Inr passed_policy)
       (Inr passed_policy)"

definition check_entries :: "(bytes \<Rightarrow> bool) \<Rightarrow> policy_limits \<Rightarrow> package_entry list \<Rightarrow> string + policy_result" where
  "check_entries xml_ok lims es =
     (if length es > pl_max_members lims then Inr (rejected_policy ''DOCX_ARCHIVE_LIMIT'')
      else if \<not> distinct (map en_name es) then Inr (rejected_policy ''DOCX_MALFORMED_PACKAGE'')
      else if list_ex bad_entry es then Inr (rejected_policy ''DOCX_MALFORMED_PACKAGE'')
      else if archive_bomb lims es then Inr (rejected_policy ''DOCX_ARCHIVE_LIMIT'')
      else if vba_project \<in> last_component ` en_name ` set es then Inr (rejected_policy ''DOCX_MACRO_PRESENT'')
      else
        let rest = check_embeddings es (check_relationships xml_ok es)
        in inspect_part xml_ok es content_types_part
             (\<lambda>b. if contains (uni ''macroEnabled'') (utf8_replace b) then Inr (rejected_policy ''DOCX_MACRO_PRESENT'') else rest)
             rest)"

definition check_docx_content_policy ::
  "(bytes \<Rightarrow> package) \<Rightarrow> (bytes \<Rightarrow> bool) \<Rightarrow> policy_limits \<Rightarrow> bytes \<Rightarrow> string + policy_result" where
  "check_docx_content_policy unzip xml_ok lims b =
     (case unzip b of
        NoPackage \<Rightarrow> Inr (rejected_policy ''DOCX_MALFORMED_PACKAGE'')
      | PackageRaises e \<Rightarrow> Inl e
      | Package es \<Rightarrow> check_entries xml_ok lims es)"

section \<open>What passing means\<close>

definition part_safe :: "(bytes \<Rightarrow> bool) \<Rightarrow> package_entry list \<Rightarrow> ustr \<Rightarrow> (bytes \<Rightarrow> bool) \<Rightarrow> bool" where
  "part_safe xml_ok es n P \<longleftrightarrow> (\<forall>e \<in> set es. en_name e = n \<longrightarrow>
     en_size e \<le> 1048576 \<and> (\<exists>b. en_whole e = MemberBytes b \<and> xml_ok b \<and> P b))"

definition safe_package :: "(bytes \<Rightarrow> bool) \<Rightarrow> policy_limits \<Rightarrow> package_entry list \<Rightarrow> bool" where
  "safe_package xml_ok lims es \<longleftrightarrow>
     length es \<le> pl_max_members lims \<and> distinct (map en_name es) \<and> total_size es \<le> pl_max_total lims
     \<and> (total_packed es > 0 \<longrightarrow> of_nat (total_size es) \<le> pl_max_ratio lims * of_nat (total_packed es))
     \<and> (total_packed es = 0 \<longrightarrow> total_size es = 0)
     \<and> (\<forall>e \<in> set es. \<not> en_encrypted e \<and> \<not> is_traversal_or_absolute (en_name e) \<and> \<not> nested_archive (en_name e)
          \<and> last_component (en_name e) \<noteq> vba_project
          \<and> (embedding e \<longrightarrow> (\<exists>h. en_start e = MemberBytes h \<and> h \<noteq> ole_magic)))
     \<and> part_safe xml_ok es content_types_part (\<lambda>b. \<not> contains (uni ''macroEnabled'') (utf8_replace b))
     \<and> part_safe xml_ok es document_rels_part (\<lambda>b. \<not> external_relationship b)"

lemma rejected_not_passed [simp]: "\<not> po_passed (rejected_policy c)" "po_passed passed_policy"
  by (simp_all add: rejected_policy_def passed_policy_def)

lemma embeddings_pass:
  assumes "check_embeddings es k = Inr r" and "po_passed r"
  shows "k = Inr r \<and> (\<forall>e \<in> set es. embedding e \<longrightarrow> (\<exists>h. en_start e = MemberBytes h \<and> h \<noteq> ole_magic))"
  using assms by (induction es) (auto split: if_splits member_read.splits)

lemma part_pass:
  assumes "inspect_part xml_ok es n judge absent = Inr r" and "po_passed r" and "distinct (map en_name es)"
    and "\<And>b. judge b = Inr r \<Longrightarrow> P b"
  shows "part_safe xml_ok es n P \<and> (absent = Inr r \<or> (\<exists>b. judge b = Inr r))"
proof (cases "n \<in> en_name ` set es")
  case False
  then show ?thesis using assms(1) by (auto simp: inspect_part_def part_safe_def)
next
  case True
  then obtain b where b: "read_member_bounded es n = MemberBytes b" "xml_ok b" "judge b = Inr r"
    using assms(1,2) by (auto simp: inspect_part_def split: member_read.splits if_splits)
  have "en_size e \<le> 1048576 \<and> en_whole e = MemberBytes b" if e: "e \<in> set es" "en_name e = n" for e
  proof -
    obtain x where x: "find (\<lambda>e. en_name e = n) es = Some x"
      using b(1) by (cases "find (\<lambda>e. en_name e = n) es") (auto simp: read_member_bounded_def entry_named_def)
    then have "x = e" using find_Some_in [OF x] e assms(3) by (auto simp: distinct_map inj_on_def)
    then show ?thesis
      using b(1) x by (auto simp: read_member_bounded_def entry_named_def max_inspected_xml_bytes_def split: if_splits)
  qed
  then show ?thesis using b assms(4) [OF b(3)] by (auto simp: part_safe_def)
qed

lemma no_bomb:
  assumes "\<not> archive_bomb lims es"
  shows "total_size es \<le> pl_max_total lims"
    and "total_packed es > 0 \<Longrightarrow> of_nat (total_size es) \<le> pl_max_ratio lims * of_nat (total_packed es)"
    and "total_packed es = 0 \<Longrightarrow> total_size es = 0"
  using assms by (auto simp: archive_bomb_def field_simps not_less)


definition demo_entry :: "ustr \<Rightarrow> bytes \<Rightarrow> package_entry" where
  "demo_entry n b = \<lparr>en_name = n, en_size = length b, en_packed = length b, en_encrypted = False, en_directory = False,
     en_whole = MemberBytes b, en_start = MemberBytes (take 8 b)\<rparr>"

definition demo_package :: "package_entry list" where
  "demo_package = [demo_entry content_types_part (uni ''<Types/>''), demo_entry document_part (uni ''<document/>''),
     demo_entry document_rels_part (uni ''<Relationship Id=''), demo_entry (uni ''word/embeddings/sheet1.bin'') [1, 2, 3]]"

definition demo_limits :: policy_limits where
  "demo_limits = \<lparr>pl_max_members = 5000, pl_max_total = 1000, pl_max_ratio = 100\<rparr>"

lemmas pattern_defs = relationship_tag_def starts_with_nocase_def starts_with_def lower_text_def ascii_lower_def
  word_byte_def ascii_letter_def target_external_def space_byte_def

lemmas demo_names = content_types_part_def document_part_def document_rels_part_def embeddings_prefix_def vba_project_def

lemma demo_entries: "\<not> list_ex bad_entry demo_package"
  by (simp add: demo_package_def demo_entry_def demo_names bad_entry_def is_traversal_or_absolute_def nested_archive_def
      nested_archive_extensions_def starts_with_def ends_with_def drive_or_unc_def lower_text_def ascii_lower_def
      slash_def backslash_def ascii_letter_def)

lemma demo_macro: "vba_project \<notin> last_component ` en_name ` set demo_package"
  by (simp add: demo_package_def demo_entry_def demo_names last_component_def slash_def)

lemma demo_relationships: "check_relationships (\<lambda>_. True) demo_package = Inr passed_policy"
  by (simp add: check_relationships_def inspect_part_def read_member_bounded_def entry_named_def max_inspected_xml_bytes_def
      demo_package_def demo_entry_def demo_names pattern_defs)

lemma demo_embeddings: "check_embeddings demo_package k = k"
  by (simp add: demo_package_def demo_entry_def demo_names embedding_def starts_with_def ole_magic_def)

lemma demo_types: "inspect_part (\<lambda>_. True) demo_package content_types_part judge k = judge (uni ''<Types/>'')"
  by (simp add: inspect_part_def read_member_bounded_def entry_named_def max_inspected_xml_bytes_def
      demo_package_def demo_entry_def demo_names)

lemma demo_no_macro: "\<not> contains (uni ''macroEnabled'') (utf8_replace (uni ''<Types/>''))"
  by code_simp

lemma demo_limits_kept: "length demo_package \<le> pl_max_members demo_limits" "distinct (map en_name demo_package)"
  "\<not> archive_bomb demo_limits demo_package"
  by (simp_all add: demo_limits_def demo_package_def demo_entry_def demo_names archive_bomb_def total_size_def total_packed_def)

lemma demo_package_passes:
  "check_docx_content_policy (\<lambda>_. Package demo_package) (\<lambda>_. True) demo_limits [] = Inr passed_policy"
  using demo_limits_kept demo_entries demo_macro demo_no_macro
  by (simp add: check_docx_content_policy_def check_entries_def Let_def demo_types demo_embeddings demo_relationships
      del: uni_simps)


text \<open>
  A closing bracket is legal inside an attribute, and the pattern does not look past it: an
  external relationship whose identifier contains one is not seen.
\<close>

lemma bracket_hides_relationship:
  "external_relationship (uni ''<Relationship Id='' @ [34, 97, 34] @ uni '' TargetMode='' @ [34] @ uni ''External'' @ [34])"
  "\<not> external_relationship (uni ''<Relationship Id='' @ [34, 62, 34] @ uni '' TargetMode='' @ [34] @ uni ''External'' @ [34])"
  by (simp_all add: pattern_defs)

end
