(* ===== verification/JsonText.thy ===== *)
theory JsonText
  imports Prelude
begin

text \<open>
  The part of Python's \<open>json\<close> the program uses: \<open>json.loads\<close> as its C scanner decodes a text, and
  \<open>json.dumps\<close> with the default separators and \<open>ensure_ascii\<close>. A float keeps its literal.
\<close>

section \<open>Values\<close>

datatype json_value =
    J_null
  | J_bool bool
  | J_int int
  | J_float ustr
  | J_str ustr
  | J_list "json_value list"
  | J_dict "(ustr \<times> json_value) list"

datatype json_error = Decode_error | Int_too_long | Out_of_fuel

text \<open>The members of an object in the order of the text; the last of two equal keys counts.\<close>

definition member :: "ustr \<Rightarrow> (ustr \<times> json_value) list \<Rightarrow> json_value option" where
  "member k ms = map_of (rev ms) k"

section \<open>Reading\<close>

definition json_space :: "nat \<Rightarrow> bool" where
  "json_space c \<longleftrightarrow> c = 32 \<or> c = 9 \<or> c = 10 \<or> c = 13"

definition skip_space :: "ustr \<Rightarrow> ustr" where
  "skip_space s = dropWhile json_space s"

definition hex_digit_value :: "nat \<Rightarrow> nat option" where
  "hex_digit_value c = (if 48 \<le> c \<and> c \<le> 57 then Some (c - 48)
     else if 97 \<le> c \<and> c \<le> 102 then Some (c - 87)
     else if 65 \<le> c \<and> c \<le> 70 then Some (c - 55) else None)"

fun hex4 :: "ustr \<Rightarrow> (nat \<times> ustr) option" where
  "hex4 (a # b # c # d # s) =
     (case (hex_digit_value a, hex_digit_value b, hex_digit_value c, hex_digit_value d) of
        (Some i, Some j, Some k, Some l) \<Rightarrow> Some (((i * 16 + j) * 16 + k) * 16 + l, s)
      | _ \<Rightarrow> None)"
| "hex4 s = None"

definition high_surrogate :: "nat \<Rightarrow> bool" where
  "high_surrogate c \<longleftrightarrow> 55296 \<le> c \<and> c \<le> 56319"

definition low_surrogate :: "nat \<Rightarrow> bool" where
  "low_surrogate c \<longleftrightarrow> 56320 \<le> c \<and> c \<le> 57343"

definition simple_escape :: "nat \<Rightarrow> nat option" where
  "simple_escape c = map_of [(34, 34), (92, 92), (47, 47), (98, 8), (102, 12), (110, 10), (114, 13),
     (116, 9)] c"

text \<open>A \<open>\u\<close> escape, with the low surrogate that follows a high one.\<close>

definition unicode_escape :: "ustr \<Rightarrow> (nat \<times> ustr) option" where
  "unicode_escape s = (case hex4 s of
       None \<Rightarrow> None
     | Some (c, r) \<Rightarrow>
         (if high_surrogate c \<and> take 2 r = [92, 117] then
            (case hex4 (drop 2 r) of
               Some (d, r') \<Rightarrow>
                 if low_surrogate d then Some (65536 + (c - 55296) * 1024 + (d - 56320), r')
                 else Some (c, r)
             | None \<Rightarrow> None)
          else Some (c, r)))"

lemma hex4_length: "hex4 s = Some (c, r) \<Longrightarrow> length r + 4 = length s"
  by (induction s rule: hex4.induct) (auto split: option.splits)

lemma unicode_escape_length: "unicode_escape s = Some (c, r) \<Longrightarrow> length r < length s"
  by (auto simp: unicode_escape_def dest!: hex4_length split: option.splits if_splits)

text \<open>The characters of a string up to its closing quote, with what follows the quote.\<close>

function scan_string :: "ustr \<Rightarrow> (ustr \<times> ustr) option" where
  "scan_string [] = None"
| "scan_string (c # s) =
     (if c = 34 then Some ([], s)
      else if c = 92 then
        (case s of [] \<Rightarrow> None
         | e # t \<Rightarrow>
             (if e = 117 then
                (case unicode_escape t of None \<Rightarrow> None
                 | Some (d, r) \<Rightarrow> map_option (apfst (\<lambda>cs. d # cs)) (scan_string r))
              else (case simple_escape e of None \<Rightarrow> None
                    | Some d \<Rightarrow> map_option (apfst (\<lambda>cs. d # cs)) (scan_string t))))
      else if c < 32 then None
      else map_option (apfst (\<lambda>cs. c # cs)) (scan_string s))"
  by pat_completeness auto

termination
  by (relation "measure length") (auto dest: unicode_escape_length)

declare scan_string.simps(2) [simp del]

definition digit :: "nat \<Rightarrow> bool" where "digit c \<longleftrightarrow> 48 \<le> c \<and> c \<le> 57"

fun digits_value :: "nat \<Rightarrow> ustr \<Rightarrow> nat" where
  "digits_value k [] = k"
| "digits_value k (c # s) = digits_value (10 * k + (c - 48)) s"

text \<open>The lexeme of a number: its integer part, fraction and exponent, and the rest.\<close>

definition scan_integer :: "ustr \<Rightarrow> (ustr \<times> ustr) option" where
  "scan_integer s = (case s of
       [] \<Rightarrow> None
     | c # r \<Rightarrow> if c = 48 then Some ([48], r)
               else if digit c then Some (takeWhile digit s, dropWhile digit s) else None)"

definition scan_fraction :: "ustr \<Rightarrow> ustr \<times> ustr" where
  "scan_fraction s = (case s of
       c # d # r \<Rightarrow> if c = 46 \<and> digit d then (c # takeWhile digit (d # r), dropWhile digit (d # r))
                   else ([], s)
     | _ \<Rightarrow> ([], s))"

definition scan_exponent :: "ustr \<Rightarrow> ustr \<times> ustr" where
  "scan_exponent s = (case s of
       c # r \<Rightarrow>
         (let sg = (case r of d # t \<Rightarrow> if d = 43 \<or> d = 45 then [d] else [] | [] \<Rightarrow> []);
              t = drop (length sg) r
          in if (c = 101 \<or> c = 69) \<and> takeWhile digit t \<noteq> []
             then (c # sg @ takeWhile digit t, dropWhile digit t) else ([], s))
     | [] \<Rightarrow> ([], s))"

text \<open>\<open>int\<close> refuses more than 4300 digits with a plain \<open>ValueError\<close>.\<close>

definition max_int_digits :: nat where "max_int_digits = 4300"

definition scan_number :: "ustr \<Rightarrow> json_error + (json_value \<times> ustr)" where
  "scan_number s =
     (let neg = (s \<noteq> [] \<and> hd s = 45); body = (if neg then tl s else s) in
      case scan_integer body of
        None \<Rightarrow> Inl Decode_error
      | Some (ds, r) \<Rightarrow>
          (let (fr, r1) = scan_fraction r; (ex, r2) = scan_exponent r1 in
           if fr = [] \<and> ex = [] then
             (if length ds > max_int_digits then Inl Int_too_long
              else Inr (J_int (if neg then - int (digits_value 0 ds) else int (digits_value 0 ds)), r2))
           else Inr (J_float ((if neg then [45] else []) @ ds @ fr @ ex), r2)))"

definition scan_word :: "ustr \<Rightarrow> (json_value \<times> ustr) option" where
  "scan_word s =
     (if starts_with (uni ''null'') s then Some (J_null, drop 4 s)
      else if starts_with (uni ''true'') s then Some (J_bool True, drop 4 s)
      else if starts_with (uni ''false'') s then Some (J_bool False, drop 5 s)
      else if starts_with (uni ''NaN'') s then Some (J_float (uni ''NaN''), drop 3 s)
      else if starts_with (uni ''Infinity'') s then Some (J_float (uni ''Infinity''), drop 8 s)
      else if starts_with (uni ''-Infinity'') s then Some (J_float (uni ''-Infinity''), drop 9 s)
      else None)"

fun scan_value :: "nat \<Rightarrow> ustr \<Rightarrow> json_error + (json_value \<times> ustr)"
  and scan_items :: "nat \<Rightarrow> ustr \<Rightarrow> json_error + (json_value list \<times> ustr)"
  and scan_members :: "nat \<Rightarrow> ustr \<Rightarrow> json_error + ((ustr \<times> json_value) list \<times> ustr)" where
  "scan_value 0 s = Inl Out_of_fuel"
| "scan_value (Suc n) s = (case s of
       [] \<Rightarrow> Inl Decode_error
     | c # r \<Rightarrow>
         (if c = 34 then (case scan_string r of None \<Rightarrow> Inl Decode_error
                          | Some (t, u) \<Rightarrow> Inr (J_str t, u))
          else if c = 123 then
            (if starts_with [125] (skip_space r) then Inr (J_dict [], tl (skip_space r))
             else case scan_members n (skip_space r) of Inl e \<Rightarrow> Inl e
                  | Inr (ms, u) \<Rightarrow> Inr (J_dict ms, u))
          else if c = 91 then
            (if starts_with [93] (skip_space r) then Inr (J_list [], tl (skip_space r))
             else case scan_items n (skip_space r) of Inl e \<Rightarrow> Inl e
                  | Inr (xs, u) \<Rightarrow> Inr (J_list xs, u))
          else (case scan_word s of Some w \<Rightarrow> Inr w | None \<Rightarrow> scan_number s)))"
| "scan_items 0 s = Inl Out_of_fuel"
| "scan_items (Suc n) s = (case scan_value n s of
       Inl e \<Rightarrow> Inl e
     | Inr (x, r) \<Rightarrow>
         (let t = skip_space r in
          if starts_with [93] t then Inr ([x], tl t)
          else if starts_with [44] t then
            (case scan_items n (skip_space (tl t)) of Inl e \<Rightarrow> Inl e
             | Inr (xs, u) \<Rightarrow> Inr (x # xs, u))
          else Inl Decode_error))"
| "scan_members 0 s = Inl Out_of_fuel"
| "scan_members (Suc n) s =
     (if \<not> starts_with [34] s then Inl Decode_error
      else case scan_string (tl s) of
        None \<Rightarrow> Inl Decode_error
      | Some (k, r) \<Rightarrow>
          (if \<not> starts_with [58] (skip_space r) then Inl Decode_error
           else case scan_value n (skip_space (tl (skip_space r))) of
             Inl e \<Rightarrow> Inl e
           | Inr (x, r') \<Rightarrow>
               (let t = skip_space r' in
                if starts_with [125] t then Inr ([(k, x)], tl t)
                else if starts_with [44] t then
                  (case scan_members n (skip_space (tl t)) of Inl e \<Rightarrow> Inl e
                   | Inr (ms, u) \<Rightarrow> Inr ((k, x) # ms, u))
                else Inl Decode_error)))"

text \<open>\<open>json.loads\<close>. Every level and every element takes a character, so twice the length of the
  text is fuel enough.\<close>

definition json_loads :: "ustr \<Rightarrow> json_error + json_value" where
  "json_loads s =
     (if starts_with [65279] s then Inl Decode_error
      else case scan_value (2 * length s + 2) (skip_space s) of
        Inl e \<Rightarrow> Inl e
      | Inr (x, r) \<Rightarrow> if skip_space r = [] then Inr x else Inl Decode_error)"

section \<open>Writing\<close>

definition hex_char_of :: "nat \<Rightarrow> nat" where
  "hex_char_of n = (if n < 10 then 48 + n else 87 + n)"

definition u_escape :: "nat \<Rightarrow> ustr" where
  "u_escape c = [92, 117, hex_char_of (c div 4096 mod 16), hex_char_of (c div 256 mod 16),
     hex_char_of (c div 16 mod 16), hex_char_of (c mod 16)]"

definition escape_char :: "nat \<Rightarrow> ustr" where
  "escape_char c =
     (if c = 34 then [92, 34] else if c = 92 then [92, 92] else if c = 10 then [92, 110]
      else if c = 13 then [92, 114] else if c = 9 then [92, 116] else if c = 12 then [92, 102]
      else if c = 8 then [92, 98] else if 32 \<le> c \<and> c < 127 then [c]
      else if c < 65536 then u_escape c
      else u_escape (55296 + (c - 65536) div 1024 mod 1024) @ u_escape (56320 + (c - 65536) mod 1024))"

definition string_text :: "ustr \<Rightarrow> ustr" where
  "string_text t = [34] @ concat (map escape_char t) @ [34]"

text \<open>\<open>json.dumps\<close> of a dictionary of strings.\<close>

fun members_text :: "(ustr \<times> ustr) list \<Rightarrow> ustr" where
  "members_text [] = []"
| "members_text [(k, v)] = string_text k @ [58, 32] @ string_text v"
| "members_text ((k, v) # ms) = string_text k @ [58, 32] @ string_text v @ [44, 32] @ members_text ms"

definition dumps_strings :: "(ustr \<times> ustr) list \<Rightarrow> ustr" where
  "dumps_strings ms = [123] @ members_text ms @ [125]"

section \<open>The scanner ends\<close>

lemma skip_space_length: "length (skip_space s) \<le> length s"
  by (simp add: skip_space_def length_dropWhile_le)

lemma scan_string_length: "scan_string s = Some (t, r) \<Longrightarrow> length r < length s"
proof (induction s arbitrary: t rule: scan_string.induct)
  case (2 c s)
  then show ?case
    by (auto simp: scan_string.simps(2) [of c s] split: if_splits list.splits option.splits
        dest!: unicode_escape_length) fastforce+
qed simp

lemma scan_integer_length: "scan_integer s = Some (d, r) \<Longrightarrow> length r < length s"
  by (auto simp: scan_integer_def length_dropWhile_le le_imp_less_Suc split: list.splits if_splits)

lemma scan_fraction_length: "scan_fraction s = (d, r) \<Longrightarrow> length r \<le> length s"
  by (auto simp: scan_fraction_def length_dropWhile_le le_SucI split: list.splits if_splits)

lemma scan_exponent_length: "scan_exponent s = (d, r) \<Longrightarrow> length r \<le> length s"
  by (auto simp: scan_exponent_def Let_def split: list.splits if_splits
      intro: order_trans [OF length_dropWhile_le])

lemma scan_number_length: "scan_number s = Inr (x, r) \<Longrightarrow> length r < length s"
  by (cases s) (auto simp: scan_number_def Let_def split: option.splits prod.splits if_splits
      dest!: scan_integer_length scan_fraction_length scan_exponent_length)

lemma scan_number_fuel: "scan_number s \<noteq> Inl Out_of_fuel"
  by (auto simp: scan_number_def Let_def split: option.splits prod.splits if_splits)

lemma scan_word_length: "scan_word s = Some (x, r) \<Longrightarrow> length r < length s"
  by (auto simp: scan_word_def starts_with_def uni_def split: if_splits) (cases s; simp)+

lemma tl_shorter: "starts_with [c] t \<Longrightarrow> length (tl t) < length t"
  by (cases t) (auto simp: starts_with_def)

lemma tl_skip: "starts_with [c] (skip_space r) \<Longrightarrow> length (tl (skip_space r)) < length r"
  by (meson order_less_le_trans skip_space_length tl_shorter)

lemma scan_length:
  "scan_value n s = Inr (x, r) \<Longrightarrow> length r < length s"
  "scan_items n s = Inr (xs, r) \<Longrightarrow> length r < length s"
  "scan_members n s = Inr (ms, r) \<Longrightarrow> length r < length s"
proof (induction n s and n s and n s arbitrary: x r and xs r and ms r
    rule: scan_value_scan_items_scan_members.induct)
  case (2 n s)
  show ?case
  proof (cases s)
    case (Cons c t)
    note ih = 2(1) [OF Cons] 2(2) [OF Cons]
    show ?thesis
      using 2(3) Cons ih skip_space_length [of t]
      by (auto split: if_splits option.splits sum.splits prod.splits
          dest: scan_string_length scan_word_length scan_number_length tl_skip)
  qed (use 2(3) in simp)
next
  case (4 n s)
  obtain y u where v: "scan_value n s = Inr (y, u)"
    using 4(3) by (auto split: sum.splits)
  note uv = 4(1) [OF v] and sk = skip_space_length [of u]
  show ?case
  proof (cases "starts_with [93] (skip_space u)")
    case True
    then show ?thesis using 4(3) v uv tl_skip [OF True] by (auto simp: Let_def)
  next
    case False
    then have c: "starts_with [44] (skip_space u)" using 4(3) v by (auto simp: Let_def split: if_splits)
    then obtain ys where i: "scan_items n (skip_space (tl (skip_space u))) = Inr (ys, r)"
      using 4(3) v False by (auto simp: Let_def split: sum.splits)
    have "length r < length (skip_space (tl (skip_space u)))"
      using 4(2) [OF v refl refl False c i] .
    then show ?thesis using tl_skip [OF c] skip_space_length [of "tl (skip_space u)"] uv by linarith
  qed
next
  case (6 n s)
  then have q: "starts_with [34] s" by (auto split: if_splits)
  then obtain k u where st: "scan_string (tl s) = Some (k, u)"
    using 6(3) by (auto split: option.splits)
  have co: "starts_with [58] (skip_space u)" using 6(3) q st by (auto split: if_splits)
  obtain y w where v: "scan_value n (skip_space (tl (skip_space u))) = Inr (y, w)"
    using 6(3) q st co by (auto split: sum.splits)
  have uv: "length w < length (skip_space (tl (skip_space u)))"
    using 6(1) [OF _ st refl _ v] q co by auto
  have su: "length w < length s"
    using uv tl_skip [OF co] skip_space_length [of "tl (skip_space u)"] scan_string_length [OF st]
      tl_shorter [OF q] by linarith
  show ?case
  proof (cases "starts_with [125] (skip_space w)")
    case True
    then show ?thesis using 6(3) q st co v su tl_skip [OF True] by (auto simp: Let_def)
  next
    case False
    then have c: "starts_with [44] (skip_space w)"
      using 6(3) q st co v by (auto simp: Let_def split: if_splits)
    then obtain ys where i: "scan_members n (skip_space (tl (skip_space w))) = Inr (ys, r)"
      using 6(3) q st co v False by (auto simp: Let_def split: sum.splits)
    have "length r < length (skip_space (tl (skip_space w)))"
      using 6(2) [OF _ st refl _ v refl refl False c i] q co by auto
    then show ?thesis using tl_skip [OF c] skip_space_length [of "tl (skip_space w)"] su by linarith
  qed
qed simp_all

lemma scan_fuel:
  "2 * length s < n \<Longrightarrow> scan_value n s \<noteq> Inl Out_of_fuel"
  "2 * length s + 1 < n \<Longrightarrow> scan_items n s \<noteq> Inl Out_of_fuel"
  "2 * length s + 1 < n \<Longrightarrow> scan_members n s \<noteq> Inl Out_of_fuel"
proof (induction n s and n s and n s rule: scan_value_scan_items_scan_members.induct)
  case (2 n s)
  show ?case
  proof (cases s)
    case (Cons c t)
    have "2 * length (skip_space t) + 1 < n" using 2(3) Cons skip_space_length [of t] by auto
    then show ?thesis
      using 2(1,2) [OF Cons] Cons scan_number_fuel [of s]
      by (auto split: if_splits option.splits sum.splits prod.splits)
  qed simp
next
  case (4 n s)
  have v: "scan_value n s \<noteq> Inl Out_of_fuel" using 4 by simp
  have "scan_items n (skip_space (tl (skip_space r))) \<noteq> Inl Out_of_fuel"
    if "scan_value n s = Inr (x, r)" "\<not> starts_with [93] (skip_space r)" "starts_with [44] (skip_space r)" for x r
  proof -
    have "length (skip_space (tl (skip_space r))) + 1 < length s + 1"
      using scan_length(1) [OF that(1)] tl_skip [OF that(3)] skip_space_length [of "tl (skip_space r)"]
      by linarith
    then show ?thesis using 4(2) [OF that(1) refl refl that(2,3)] 4(3) by simp
  qed
  then show ?case using v by (auto simp: Let_def split: sum.splits prod.splits if_splits)
next
  case (6 n s)
  have sub: "length (skip_space (tl (skip_space u))) + 1 < length s"
    if "starts_with [34] s" "scan_string (tl s) = Some (k, u)" "starts_with [58] (skip_space u)" for k u
    using that tl_shorter [of 34 s] scan_string_length [of "tl s" k u] tl_skip [of 58 u]
      skip_space_length [of "tl (skip_space u)"] by linarith
  have v: "scan_value n (skip_space (tl (skip_space u))) \<noteq> Inl Out_of_fuel"
    if "starts_with [34] s" "scan_string (tl s) = Some (k, u)" "starts_with [58] (skip_space u)" for k u
    using 6(1) [OF _ that(2) refl] that sub [OF that] 6(3) by auto
  have m: "scan_members n (skip_space (tl (skip_space w))) \<noteq> Inl Out_of_fuel"
    if "starts_with [34] s" "scan_string (tl s) = Some (k, u)" "starts_with [58] (skip_space u)"
      "scan_value n (skip_space (tl (skip_space u))) = Inr (y, w)"
      "\<not> starts_with [125] (skip_space w)" "starts_with [44] (skip_space w)" for k u y w
  proof -
    have "length (skip_space (tl (skip_space w))) < length s"
      using sub [OF that(1-3)] scan_length(1) [OF that(4)] tl_skip [OF that(6)]
        skip_space_length [of "tl (skip_space w)"] by linarith
    then show ?thesis using 6(2) [OF _ that(2) refl _ that(4) refl refl that(5,6)] that(1,3) 6(3) by auto
  qed
  show ?case using v m
    by (auto simp: Let_def split: option.splits sum.splits prod.splits if_splits) fastforce+
qed simp_all

lemma json_loads_ends: "json_loads s \<noteq> Inl Out_of_fuel"
proof -
  have "2 * length (skip_space s) < 2 * length s + 2" using skip_space_length [of s] by linarith
  then have "scan_value (2 * length s + 2) (skip_space s) \<noteq> Inl Out_of_fuel" by (rule scan_fuel(1))
  then show ?thesis by (auto simp: json_loads_def split: sum.splits)
qed

section \<open>What is written is read back\<close>

lemma hex_char_value: "n < 16 \<Longrightarrow> hex_digit_value (hex_char_of n) = Some n"
  by (simp add: hex_digit_value_def hex_char_of_def)

lemma nibbles:
  assumes "c < 65536"
  shows "((c div 4096 mod 16 * 16 + c div 256 mod 16) * 16 + c div 16 mod 16) * 16 + c mod 16 = (c :: nat)"
proof -
  have "c div 4096 < 16" using assms by (simp add: less_mult_imp_div_less)
  then have a: "c div 4096 mod 16 = c div 4096" by simp
  have b: "c div 4096 * 16 + c div 256 mod 16 = c div 256"
    using div_mult_mod_eq [of "c div 256" 16] by (simp add: div_mult2_eq [symmetric])
  have d: "c div 256 * 16 + c div 16 mod 16 = c div 16"
    using div_mult_mod_eq [of "c div 16" 16] by (simp add: div_mult2_eq [symmetric])
  show ?thesis unfolding a b d by (rule div_mult_mod_eq)
qed

lemma hex4_u_escape: "c < 65536 \<Longrightarrow> hex4 (drop 2 (u_escape c) @ r) = Some (c, r)"
  using nibbles [of c] by (simp add: u_escape_def hex_char_value)

definition plain_char :: "nat \<Rightarrow> bool" where
  "plain_char c \<longleftrightarrow> c < 1114112 \<and> \<not> high_surrogate c"

lemma surrogate_split:
  assumes "65536 \<le> c" "c < 1114112"
  shows "65536 + (c - 65536) div 1024 mod 1024 * 1024 + (c - 65536) mod 1024 = (c :: nat)"
proof -
  have "(c - 65536) div 1024 < 1024" using assms by (intro less_mult_imp_div_less) simp
  then have "(c - 65536) div 1024 mod 1024 = (c - 65536) div 1024" by simp
  then have "(c - 65536) div 1024 mod 1024 * 1024 + (c - 65536) mod 1024 = c - 65536"
    by (simp only: div_mult_mod_eq)
  then have "65536 + ((c - 65536) div 1024 mod 1024 * 1024 + (c - 65536) mod 1024) = c"
    using assms(1) by (simp only: le_add_diff_inverse)
  then show ?thesis by (simp only: add.assoc)
qed

lemma u_escape_cons: "u_escape c @ r = 92 # 117 # drop 2 (u_escape c) @ r"
  by (simp add: u_escape_def)

lemma scan_u_escape:
  assumes "c < 65536" "\<not> high_surrogate c"
  shows "scan_string (u_escape c @ r) = map_option (apfst (\<lambda>cs. c # cs)) (scan_string r)"
  unfolding u_escape_cons
  by (simp add: scan_string.simps(2) unicode_escape_def hex4_u_escape assms)

lemma scan_escaped_char:
  assumes "plain_char c"
  shows "scan_string (escape_char c @ r) = map_option (apfst (\<lambda>cs. c # cs)) (scan_string r)"
proof (cases "c < 65536")
  case True
  then show ?thesis
    using assms
    by (auto simp: escape_char_def scan_u_escape plain_char_def)
      (simp_all add: scan_string.simps(2) simple_escape_def)
next
  case False
  let ?h = "55296 + (c - 65536) div 1024 mod 1024" and ?l = "56320 + (c - 65536) mod 1024"
  have b: "?h < 65536" "?l < 65536" "high_surrogate ?h" "low_surrogate ?l"
    by (simp_all add: high_surrogate_def low_surrogate_def)
  have e: "escape_char c @ r = 92 # 117 # drop 2 (u_escape ?h) @ (92 # 117 # drop 2 (u_escape ?l) @ r)"
    using False by (simp add: escape_char_def u_escape_cons)
  have u: "unicode_escape (drop 2 (u_escape ?h) @ (92 # 117 # drop 2 (u_escape ?l) @ r)) = Some (c, r)"
    unfolding unicode_escape_def hex4_u_escape [OF b(1)]
    using b(3,4) False assms surrogate_split [of c]
    by (simp add: hex4_u_escape [OF b(2)] plain_char_def del: drop_append)
  show ?thesis unfolding e by (simp add: scan_string.simps(2) u)
qed

lemma scan_string_text:
  "\<forall>c \<in> set t. plain_char c \<Longrightarrow>
   scan_string (concat (map escape_char t) @ 34 # r) = Some (t, r)"
  by (induction t) (simp_all add: scan_escaped_char scan_string.simps(2) [of 34])

definition plain_member :: "ustr \<times> ustr \<Rightarrow> bool" where
  "plain_member m \<longleftrightarrow> (\<forall>c \<in> set (fst m) \<union> set (snd m). plain_char c)"

lemma skip_nonspace: "\<not> json_space c \<Longrightarrow> skip_space (c # s) = c # s"
  by (simp add: skip_space_def)

lemma skip_space_blank: "skip_space (32 # s) = skip_space s"
  by (simp add: skip_space_def json_space_def)

lemma nonspace: "\<not> json_space 34" "\<not> json_space 44" "\<not> json_space 58" "\<not> json_space 123"
  "\<not> json_space 125"
  by (simp_all add: json_space_def)

lemma starts_one: "starts_with [c] (d # s) \<longleftrightarrow> d = c"
  by (auto simp: starts_with_def)

lemma members_text_hd: "ms \<noteq> [] \<Longrightarrow> \<exists>t. members_text ms = 34 # t"
  by (cases ms rule: members_text.cases) (auto simp: string_text_def)

lemma scan_value_text:
  "\<forall>c \<in> set t. plain_char c \<Longrightarrow> 0 < n \<Longrightarrow> scan_value n (string_text t @ r) = Inr (J_str t, r)"
  by (cases n) (simp_all add: string_text_def scan_string_text)

lemma skip_string_text: "skip_space (32 # string_text v @ r) = string_text v @ r"
  by (simp add: skip_space_blank string_text_def skip_nonspace nonspace)

lemma scan_members_text:
  "ms \<noteq> [] \<Longrightarrow> \<forall>m \<in> set ms. plain_member m \<Longrightarrow> length ms < n \<Longrightarrow>
   scan_members n (members_text ms @ 125 # r) = Inr (map (apsnd J_str) ms, r)"
proof (induction ms arbitrary: n rule: members_text.induct)
  case (2 k v)
  obtain N where n: "n = Suc N" "0 < N" using 2(3) by (cases n) auto
  have p: "\<forall>c \<in> set k. plain_char c" "\<forall>c \<in> set v. plain_char c" using 2(2) by (auto simp: plain_member_def)
  have k: "scan_string (tl (members_text [(k, v)] @ 125 # r)) = Some (k, 58 # 32 # string_text v @ 125 # r)"
    using p(1) by (simp add: string_text_def scan_string_text)
  have h: "starts_with [34] (members_text [(k, v)] @ 125 # r)" by (simp add: string_text_def starts_one)
  show ?case
    unfolding n scan_members.simps(2) k
    by (simp add: h skip_nonspace nonspace starts_one skip_string_text scan_value_text p n Let_def
        del: members_text.simps)
next
  case (3 k v m ms)
  obtain N where n: "n = Suc N" "0 < N" using 3(4) by (cases n) auto
  have p: "\<forall>c \<in> set k. plain_char c" "\<forall>c \<in> set v. plain_char c" using 3(3) by (auto simp: plain_member_def)
  let ?rest = "members_text (m # ms) @ 125 # r"
  obtain t where t: "?rest = 34 # t" using members_text_hd [of "m # ms"] by auto
  then have b: "skip_space (32 # ?rest) = ?rest" by (simp only: skip_space_blank skip_nonspace nonspace not_False_eq_True)
  have ih: "scan_members N ?rest = Inr (map (apsnd J_str) (m # ms), r)"
    using 3 n by simp
  have k: "scan_string (tl (members_text ((k, v) # m # ms) @ 125 # r)) = Some (k, 58 # 32 # string_text v @ 44 # 32 # ?rest)"
    using p(1) by (simp add: string_text_def scan_string_text)
  have h: "starts_with [34] (members_text ((k, v) # m # ms) @ 125 # r)"
    by (simp add: string_text_def starts_one)
  show ?case
    unfolding n scan_members.simps(2) k
    by (simp add: h skip_nonspace nonspace starts_one skip_string_text scan_value_text p n Let_def b ih
        del: members_text.simps)
qed simp

lemma members_text_length: "length ms \<le> length (members_text ms)"
  by (induction ms rule: members_text.induct) (auto simp: string_text_def)

lemma json_strings_roundtrip:
  assumes "\<forall>m \<in> set ms. plain_member m"
  shows "json_loads (dumps_strings ms) = Inr (J_dict (map (apsnd J_str) ms))"
proof (cases "ms = []")
  case True
  have "scan_value (Suc n) [123, 125] = Inr (J_dict [], [])" for n
    by (simp add: skip_nonspace nonspace starts_one)
  from this [of 5] show ?thesis
    using True by (simp add: json_loads_def dumps_strings_def starts_one skip_nonspace nonspace
        del: scan_value.simps) (simp add: skip_space_def)
next
  case False
  obtain t where t: "members_text ms @ [125] = 34 # t" using members_text_hd [OF False] by auto
  have n: "length ms < 2 * length (dumps_strings ms) + 1"
    using members_text_length [of ms] by (simp add: dumps_strings_def)
  note m = scan_members_text [OF False assms n, of "[]"]
  show ?thesis
    using m t
    by (simp add: json_loads_def dumps_strings_def starts_one skip_nonspace nonspace del: scan_members.simps)
      (simp add: skip_space_def)
qed

end
