(* ===== verification/PdfPolicy.thy ===== *)
theory PdfPolicy
  imports MalwareScan JsonText
begin

text \<open>
  \<open>app/services/pdf_inspector_subprocess.py\<close>, the isolated inspector of a PDF's structure, and
  \<open>app/services/pdf_content_policy.py\<close>, the parent that runs it and reads its one line of JSON.
  pypdf is a parameter: a reader is what each call on it gives or raises.
\<close>

section \<open>What pypdf answers\<close>

datatype 'a pdf_call = Gives 'a | Attribute_error | Type_error | Key_error | Other_error

text \<open>An iteration gives its elements and may then raise.\<close>

type_synonym 'a iter = "'a list \<times> bool"

text \<open>An action is its \<open>get("/S")\<close>; an annotation its \<open>get("/Subtype")\<close>, \<open>"/FS" in\<close> and
  \<open>get("/A")\<close>; a page its \<open>get("/Annots")\<close>, whose references are resolved one by one.\<close>

type_synonym pdf_action = "string option pdf_call"

record pdf_annotation =
  an_subtype :: "string option pdf_call"
  an_has_fs :: "bool pdf_call"
  an_action :: "pdf_action option pdf_call"

record pdf_page =
  pg_annots :: "pdf_annotation pdf_call iter option pdf_call"

text \<open>\<open>pr_root\<close> is the catalog's membership test. An object is the outcome of \<open>get_object\<close> and
  of the \<open>get("/Type")\<close> on it; the numbers are in the order in which their set is walked.\<close>

record pdf_reader =
  pr_encrypted :: "bool pdf_call"
  pr_root :: "(string \<Rightarrow> bool pdf_call) pdf_call"
  pr_pages :: "pdf_page iter pdf_call"
  pr_attachments :: "string iter pdf_call"
  pr_xref :: "nat iter"
  pr_objstm :: "nat iter"
  pr_object :: "nat \<Rightarrow> string option pdf_call pdf_call"

section \<open>The inspector\<close>

definition active_content_action_types :: "string list" where
  "active_content_action_types = [''/JS'', ''/JavaScript'', ''/Launch'', ''/URI'']"

datatype inspector_status = Clean | Rejected | Failed

type_synonym inspection = "inspector_status \<times> string option"

text \<open>Exceptions that escape a helper end \<open>inspect_pdf\<close> in its last handler: \<open>None\<close>.\<close>

definition action_dict_is_active_content :: "pdf_action \<Rightarrow> string option option" where
  "action_dict_is_active_content a = (case a of
       Gives t \<Rightarrow> Some (if (case t of None \<Rightarrow> '''' | Some k \<Rightarrow> k) \<in> set active_content_action_types
                        then Some ''PDF_ACTIVE_CONTENT'' else None)
     | Other_error \<Rightarrow> None
     | _ \<Rightarrow> Some None)"

definition key_in_root :: "(string \<Rightarrow> bool pdf_call) \<Rightarrow> string \<Rightarrow> bool option" where
  "key_in_root catalog k = (case catalog k of Gives b \<Rightarrow> Some b | Type_error \<Rightarrow> Some False | _ \<Rightarrow> None)"

definition catalog_has_open_action_or_aa :: "pdf_reader \<Rightarrow> bool option" where
  "catalog_has_open_action_or_aa r = (case pr_root r of
       Gives catalog \<Rightarrow> (case key_in_root catalog ''/OpenAction'' of
           None \<Rightarrow> None | Some True \<Rightarrow> Some True | Some False \<Rightarrow> key_in_root catalog ''/AA'')
     | _ \<Rightarrow> Some False)"

definition catalog_has_embedded_files :: "pdf_reader \<Rightarrow> bool" where
  "catalog_has_embedded_files r = (case pr_attachments r of
       Gives it \<Rightarrow> fst it \<noteq> [] | _ \<Rightarrow> False)"

definition all_object_numbers :: "pdf_reader \<Rightarrow> nat list" where
  "all_object_numbers r = remdups (fst (pr_xref r) @ fst (pr_objstm r))"

fun orphan_filespec :: "(nat \<Rightarrow> string option pdf_call pdf_call) \<Rightarrow> nat list \<Rightarrow> bool option" where
  "orphan_filespec f [] = Some False"
| "orphan_filespec f (n # ns) = (case f n of
       Gives (Gives t) \<Rightarrow> if t = Some ''/Filespec'' then Some True else orphan_filespec f ns
     | Gives Attribute_error \<Rightarrow> orphan_filespec f ns
     | Gives Type_error \<Rightarrow> orphan_filespec f ns
     | Gives _ \<Rightarrow> None
     | _ \<Rightarrow> orphan_filespec f ns)"

definition has_orphan_filespec_object :: "pdf_reader \<Rightarrow> bool option" where
  "has_orphan_filespec_object r = orphan_filespec (pr_object r) (all_object_numbers r)"

definition annot_is_file_attachment :: "pdf_annotation \<Rightarrow> bool option" where
  "annot_is_file_attachment a =
     (let fs = (case an_has_fs a of Gives b \<Rightarrow> Some b | Type_error \<Rightarrow> Some False | _ \<Rightarrow> None)
      in case an_subtype a of
           Gives t \<Rightarrow> if t = Some ''/FileAttachment'' then Some True else fs
         | Attribute_error \<Rightarrow> fs
         | Type_error \<Rightarrow> fs
         | _ \<Rightarrow> None)"

definition annot_reason :: "pdf_annotation \<Rightarrow> string option option" where
  "annot_reason a = (case annot_is_file_attachment a of
       None \<Rightarrow> None
     | Some True \<Rightarrow> Some (Some ''PDF_EMBEDDED_FILE'')
     | Some False \<Rightarrow> (case an_action a of
           Gives None \<Rightarrow> Some None
         | Gives (Some act) \<Rightarrow> action_dict_is_active_content act
         | Attribute_error \<Rightarrow> Some None
         | Type_error \<Rightarrow> Some None
         | _ \<Rightarrow> None))"

fun annots_reason :: "pdf_annotation pdf_call list \<Rightarrow> bool \<Rightarrow> string option option" where
  "annots_reason [] raises = (if raises then None else Some None)"
| "annots_reason (c # cs) raises = (case c of
       Gives a \<Rightarrow> (case annot_reason a of None \<Rightarrow> None | Some None \<Rightarrow> annots_reason cs raises
                   | Some (Some code) \<Rightarrow> Some (Some code))
     | _ \<Rightarrow> annots_reason cs raises)"

definition page_reason :: "pdf_page \<Rightarrow> string option option" where
  "page_reason p = (case pg_annots p of
       Gives None \<Rightarrow> Some None
     | Gives (Some it) \<Rightarrow> annots_reason (fst it) (snd it)
     | Attribute_error \<Rightarrow> Some None
     | Type_error \<Rightarrow> Some None
     | _ \<Rightarrow> None)"

fun pages_reason :: "pdf_page list \<Rightarrow> bool \<Rightarrow> string option option" where
  "pages_reason [] raises = (if raises then None else Some None)"
| "pages_reason (p # ps) raises = (case page_reason p of
       None \<Rightarrow> None | Some None \<Rightarrow> pages_reason ps raises | Some (Some code) \<Rightarrow> Some (Some code))"

definition pages_have_active_content_or_uri :: "pdf_reader \<Rightarrow> string option option" where
  "pages_have_active_content_or_uri r = (case pr_pages r of
       Gives it \<Rightarrow> pages_reason (fst it) (snd it)
     | _ \<Rightarrow> Some (Some ''PDF_INSPECTION_FAILED''))"

definition inspection_failed :: inspection where
  "inspection_failed = (Failed, Some ''PDF_INSPECTION_FAILED'')"

text \<open>\<open>inspect_pdf\<close>; \<open>None\<close> is a file the reader's constructor refuses.\<close>

definition inspect_pdf :: "pdf_reader option \<Rightarrow> inspection" where
  "inspect_pdf file = (case file of None \<Rightarrow> inspection_failed | Some r \<Rightarrow>
     (case pr_encrypted r of
        Gives True \<Rightarrow> (Rejected, Some ''PDF_ENCRYPTED'')
      | Gives False \<Rightarrow>
          (case catalog_has_open_action_or_aa r of
             None \<Rightarrow> inspection_failed
           | Some True \<Rightarrow> (Rejected, Some ''PDF_ACTIVE_CONTENT'')
           | Some False \<Rightarrow>
               (case pages_have_active_content_or_uri r of
                  None \<Rightarrow> inspection_failed
                | Some (Some code) \<Rightarrow>
                    if code = ''PDF_INSPECTION_FAILED'' then inspection_failed
                    else (Rejected, Some code)
                | Some None \<Rightarrow>
                    if catalog_has_embedded_files r then (Rejected, Some ''PDF_EMBEDDED_FILE'')
                    else (case has_orphan_filespec_object r of
                            None \<Rightarrow> inspection_failed
                          | Some True \<Rightarrow> (Rejected, Some ''PDF_EMBEDDED_FILE'')
                          | Some False \<Rightarrow> (Clean, None))))
      | _ \<Rightarrow> inspection_failed))"

section \<open>The child's answer\<close>

definition status_text :: "inspector_status \<Rightarrow> string" where
  "status_text v = (case v of Clean \<Rightarrow> ''CLEAN'' | Rejected \<Rightarrow> ''REJECTED'' | Failed \<Rightarrow> ''FAILED'')"

definition emit :: "inspection \<Rightarrow> ustr" where
  "emit v = dumps_strings ((uni ''status'', uni (status_text (fst v)))
     # (case snd v of None \<Rightarrow> [] | Some c \<Rightarrow> [(uni ''reason_code'', uni c)])) @ [10]"

definition exit_failed :: int where "exit_failed = 3"

text \<open>What the parent sees of the child.\<close>

datatype inspector_run = Took_too_long | Did_not_start | Finished int ustr

definition inspector_main :: "ustr list \<Rightarrow> (ustr \<Rightarrow> pdf_reader option) \<Rightarrow> inspector_run" where
  "inspector_main argv open_pdf = (case argv of
       [prog, path] \<Rightarrow>
         (let v = inspect_pdf (open_pdf path)
          in Finished (if fst v \<in> {Clean, Rejected} then 0 else exit_failed) (emit v))
     | _ \<Rightarrow> Finished exit_failed (emit inspection_failed))"

section \<open>The parent\<close>

definition pdf_policy_version :: string where "pdf_policy_version = ''1''"

definition failed_policy :: "string \<Rightarrow> policy_result" where
  "failed_policy c = \<lparr>po_passed = False, po_reason_code = Some c, po_policy_version = pdf_policy_version\<rparr>"

definition pdf_passed :: policy_result where
  "pdf_passed = \<lparr>po_passed = True, po_reason_code = None, po_policy_version = pdf_policy_version\<rparr>"

definition failed_reason :: string where "failed_reason = ''PDF_INSPECTION_FAILED''"

text \<open>\<open>str.splitlines\<close>.\<close>

definition line_break :: "nat \<Rightarrow> bool" where
  "line_break c \<longleftrightarrow> (10 \<le> c \<and> c \<le> 13) \<or> (28 \<le> c \<and> c \<le> 30) \<or> c = 133 \<or> c = 8232 \<or> c = 8233"

lemma dropWhile_tail: "dropWhile P s = c # t \<Longrightarrow> length t < length s"
  using length_dropWhile_le [of P s] by simp

function splitlines :: "ustr \<Rightarrow> ustr list" where
  "splitlines s = (if s = [] then [] else
     takeWhile (\<lambda>c. \<not> line_break c) s #
       (case dropWhile (\<lambda>c. \<not> line_break c) s of
          [] \<Rightarrow> []
        | c # t \<Rightarrow> splitlines (if c = 13 \<and> take 1 t = [10] then tl t else t)))"
  by pat_completeness auto

termination
  by (relation "measure length") (auto dest: dropWhile_tail)

declare splitlines.simps [simp del]

text \<open>The code keeps the text of the code points; a reason outside the table below is as good
  as any other string.\<close>

definition chars_of :: "ustr \<Rightarrow> string" where
  "chars_of t = map char_of t"

text \<open>The three shapes a payload may have; anything else is \<open>None\<close>.\<close>

definition judge_payload :: "(ustr \<times> json_value) list \<Rightarrow> policy_result option" where
  "judge_payload ms =
     (let status = member (uni ''status'') ms;
          reason = (case member (uni ''reason_code'') ms of Some J_null \<Rightarrow> None | v \<Rightarrow> v)
      in case reason of
           Some (J_str c) \<Rightarrow>
             (if status = Some (J_str (uni ''REJECTED''))
              then (if c = [] then None else Some (failed_policy (chars_of c)))
              else if status = Some (J_str (uni ''FAILED'')) then Some (failed_policy (chars_of c))
              else None)
         | Some v \<Rightarrow> None
         | None \<Rightarrow>
             (if status = Some (J_str (uni ''CLEAN'')) then Some pdf_passed
              else if status = Some (J_str (uni ''FAILED'')) then Some (failed_policy failed_reason)
              else None))"

text \<open>An integer of more than 4300 digits raises a \<open>ValueError\<close> that is not a
  \<open>JSONDecodeError\<close>.\<close>

definition parse_subprocess_stdout :: "ustr \<Rightarrow> exc + policy_result option" where
  "parse_subprocess_stdout out =
     (case filter (\<lambda>l. strip l \<noteq> []) (splitlines out) of
        [l] \<Rightarrow> (case json_loads l of
            Inr (J_dict ms) \<Rightarrow> Inr (judge_payload ms)
          | Inr v \<Rightarrow> Inr None
          | Inl Int_too_long \<Rightarrow> Inl (OtherException ''ValueError'')
          | Inl e \<Rightarrow> Inr None)
      | _ \<Rightarrow> Inr None)"

definition check_pdf_content_policy :: "inspector_run \<Rightarrow> exc + policy_result" where
  "check_pdf_content_policy run = (case run of
       Took_too_long \<Rightarrow> Inr (failed_policy failed_reason)
     | Did_not_start \<Rightarrow> Inr (failed_policy failed_reason)
     | Finished code out \<Rightarrow>
         (if code \<noteq> 0 then Inr (failed_policy failed_reason)
          else case parse_subprocess_stdout out of
            Inl e \<Rightarrow> Inl e
          | Inr None \<Rightarrow> Inr (failed_policy failed_reason)
          | Inr (Some p) \<Rightarrow> Inr p))"

text \<open>The environment of the child.\<close>

definition minimal_subprocess_env :: "int \<Rightarrow> int \<Rightarrow> bool \<Rightarrow> (string \<Rightarrow> string option)
    \<Rightarrow> (string \<times> string) list" where
  "minimal_subprocess_env cpu memory win32 environ =
     [(''PDF_INSPECTOR_CPU_SECONDS'', show_int cpu), (''PDF_INSPECTOR_MEMORY_BYTES'', show_int memory)]
     @ (case environ ''PATH'' of None \<Rightarrow> [] | Some p \<Rightarrow> if p = [] then [] else [(''PATH'', p)])
     @ (if win32 then (case environ ''SystemRoot'' of None \<Rightarrow> []
          | Some p \<Rightarrow> if p = [] then [] else [(''SystemRoot'', p)]) else [])"

definition env_int :: "(string \<Rightarrow> int option) \<Rightarrow> (string \<Rightarrow> string option) \<Rightarrow> string \<Rightarrow> int \<Rightarrow> int" where
  "env_int parse_int environ name fallback = (case environ name of
       None \<Rightarrow> fallback
     | Some raw \<Rightarrow> if raw = [] then fallback
                   else (case parse_int raw of None \<Rightarrow> fallback
                         | Some v \<Rightarrow> if v > 0 then v else fallback))"

text \<open>The CPU and address-space limits the child asks for; a refused \<open>setrlimit\<close> is ignored.\<close>

definition resource_limits :: "(string \<Rightarrow> int option) \<Rightarrow> bool \<Rightarrow> (string \<Rightarrow> string option)
    \<Rightarrow> (int \<times> int) option" where
  "resource_limits parse_int has_resource environ =
     (if \<not> has_resource then None
      else Some (env_int parse_int environ ''PDF_INSPECTOR_CPU_SECONDS'' 10,
                 env_int parse_int environ ''PDF_INSPECTOR_MEMORY_BYTES'' (512 * 1024 * 1024)))"

section \<open>The answer reaches the parent\<close>

definition reason_codes :: "string list" where
  "reason_codes = [''PDF_ENCRYPTED'', ''PDF_ACTIVE_CONTENT'', ''PDF_EMBEDDED_FILE'',
     ''PDF_INSPECTION_FAILED'']"

lemma action_codes: "action_dict_is_active_content a = Some (Some c) \<Longrightarrow> c = ''PDF_ACTIVE_CONTENT''"
  by (auto simp: action_dict_is_active_content_def split: pdf_call.splits if_splits)

lemma annot_codes:
  "annot_reason a = Some (Some c) \<Longrightarrow> c = ''PDF_EMBEDDED_FILE'' \<or> c = ''PDF_ACTIVE_CONTENT''"
  by (auto simp: annot_reason_def dest: action_codes
      split: option.splits bool.splits pdf_call.splits)

lemma annots_codes:
  "annots_reason cs e = Some (Some c) \<Longrightarrow> c = ''PDF_EMBEDDED_FILE'' \<or> c = ''PDF_ACTIVE_CONTENT''"
  by (induction cs) (auto dest: annot_codes split: if_splits pdf_call.splits option.splits)

lemma pages_codes:
  "pages_reason ps e = Some (Some c) \<Longrightarrow> c = ''PDF_EMBEDDED_FILE'' \<or> c = ''PDF_ACTIVE_CONTENT''"
  by (induction ps) (auto simp: page_reason_def dest: annots_codes
      split: if_splits pdf_call.splits option.splits)

lemma inspect_cases:
  obtains "inspect_pdf f = (Clean, None)"
  | c where "inspect_pdf f = (Rejected, Some c)" "c \<in> set reason_codes"
  | "inspect_pdf f = inspection_failed"
proof -
  have "inspect_pdf f = (Clean, None) \<or> (\<exists>c. inspect_pdf f = (Rejected, Some c) \<and> c \<in> set reason_codes)
      \<or> inspect_pdf f = inspection_failed"
    by (auto simp: inspect_pdf_def reason_codes_def pages_have_active_content_or_uri_def
        split: option.splits pdf_call.splits bool.splits dest!: pages_codes)
  then show ?thesis using that by blast
qed

lemma hex_char_range: "n < 16 \<Longrightarrow> 32 \<le> hex_char_of n \<and> hex_char_of n < 127"
  by (simp add: hex_char_of_def)

lemma escape_printable: "x \<in> set (escape_char c) \<Longrightarrow> 32 \<le> x \<and> x < 127"
  by (auto simp: escape_char_def u_escape_def hex_char_range split: if_splits)

lemma members_printable: "x \<in> set (members_text ms) \<Longrightarrow> 32 \<le> x \<and> x < 127"
  by (induction ms rule: members_text.induct) (auto simp: string_text_def dest: escape_printable)

lemma dumps_printable: "x \<in> set (dumps_strings ms) \<Longrightarrow> 32 \<le> x \<and> x < 127"
  by (auto simp: dumps_strings_def dest: members_printable)

lemma one_line:
  assumes "\<forall>x \<in> set s. 32 \<le> x \<and> x < 127" "s \<noteq> []"
  shows "splitlines (s @ [10]) = [s]"
proof -
  have p: "\<not> line_break x" if "x \<in> set s" for x using assms(1) that by (fastforce simp: line_break_def)
  have b: "line_break 10" by (simp add: line_break_def)
  have "takeWhile (\<lambda>c. \<not> line_break c) (s @ [10]) = s"
    using p b by (subst takeWhile_append2) auto
  moreover have "dropWhile (\<lambda>c. \<not> line_break c) (s @ [10]) = [10]"
    using p b by (subst dropWhile_append2) auto
  ultimately show ?thesis by (subst splitlines.simps) (simp add: splitlines.simps [of "[]"])
qed

lemma dumps_stripped: "strip (dumps_strings ms) \<noteq> []"
proof -
  have "lstrip (dumps_strings ms) = dumps_strings ms"
    by (rule lstrip_nonspace_hd) (simp_all add: dumps_strings_def is_space_def)
  moreover have "rstrip (dumps_strings ms) = dumps_strings ms"
    by (rule rstrip_nonspace_last) (simp_all add: dumps_strings_def is_space_def)
  ultimately show ?thesis by (simp add: strip_def dumps_strings_def)
qed

lemma plain_uni: "\<forall>c \<in> set (uni t). plain_char c"
proof -
  have "of_char c < (256 :: nat)" for c :: char
    using mod_less_divisor [of 256 "of_char c :: nat"] by (simp only: of_char_mod_256)
  moreover have "plain_char n" if "n < 256" for n
    unfolding plain_char_def high_surrogate_def using that by linarith
  ultimately have "plain_char (of_char c)" for c :: char by blast
  then show ?thesis by (simp add: uni_def)
qed

lemma chars_of_uni [simp]: "chars_of (uni t) = t"
  by (simp add: chars_of_def uni_def comp_def)

lemma emitted_line:
  assumes "\<forall>m \<in> set ms. plain_member m"
  shows "parse_subprocess_stdout (dumps_strings ms @ [10]) = Inr (judge_payload (map (apsnd J_str) ms))"
proof -
  have "dumps_strings ms \<noteq> []" by (simp add: dumps_strings_def)
  then have "splitlines (dumps_strings ms @ [10]) = [dumps_strings ms]"
    using dumps_printable by (intro one_line) blast+
  then show ?thesis
    by (simp add: parse_subprocess_stdout_def dumps_stripped json_strings_roundtrip [OF assms])
qed

lemma uni_eq: "uni a = uni b \<longleftrightarrow> a = b"
  unfolding uni_def by (rule inj_map_eq_map) (simp add: inj_def)

lemma keys_differ: "uni ''status'' \<noteq> uni ''reason_code''" "uni ''CLEAN'' \<noteq> uni ''FAILED''"
  "uni ''CLEAN'' \<noteq> uni ''REJECTED''" "uni ''FAILED'' \<noteq> uni ''REJECTED''"
  by (simp_all add: uni_eq del: uni_simps)

lemma parse_emitted: "parse_subprocess_stdout (emit v) =
    Inr (judge_payload ((uni ''status'', J_str (uni (status_text (fst v))))
      # (case snd v of None \<Rightarrow> [] | Some c \<Rightarrow> [(uni ''reason_code'', J_str (uni c))])))"
proof -
  have "\<forall>m \<in> set ((uni ''status'', uni (status_text (fst v)))
      # (case snd v of None \<Rightarrow> [] | Some c \<Rightarrow> [(uni ''reason_code'', uni c)])). plain_member m"
    using plain_uni by (auto simp: plain_member_def simp del: uni_simps split: option.splits)
  from emitted_line [OF this] show ?thesis
    unfolding emit_def by (simp del: uni_simps split: option.splits)
qed

text \<open>
  Whatever the file is, the verdict of the isolated process is the verdict the parent acts on:
  through the text on standard output and the exit code, a clean inspection is a pass, a
  rejection keeps its reason, and everything else fails closed.
\<close>

definition verdict_of :: "inspection \<Rightarrow> policy_result" where
  "verdict_of v = (case v of (Clean, _) \<Rightarrow> pdf_passed
     | (Rejected, Some c) \<Rightarrow> failed_policy c | _ \<Rightarrow> failed_policy failed_reason)"

lemma verdict_reaches_parent:
  "check_pdf_content_policy (inspector_main [prog, path] open_pdf) = Inr (verdict_of (inspect_pdf (open_pdf path)))"
proof (cases rule: inspect_cases [of "open_pdf path"])
  case 1
  then show ?thesis
    by (simp add: inspector_main_def check_pdf_content_policy_def parse_emitted verdict_of_def
        judge_payload_def member_def status_text_def keys_differ keys_differ [symmetric] Let_def del: uni_simps)
next
  case (2 c)
  then have "uni c \<noteq> []" by (auto simp: reason_codes_def)
  then show ?thesis
    using 2 by (simp add: inspector_main_def check_pdf_content_policy_def parse_emitted verdict_of_def
        judge_payload_def member_def status_text_def keys_differ keys_differ [symmetric] Let_def
        del: uni_simps)
next
  case 3
  then show ?thesis
    by (simp add: inspector_main_def check_pdf_content_policy_def verdict_of_def inspection_failed_def
        exit_failed_def)
qed

section \<open>What a pass means\<close>

definition annotation_harmless :: "pdf_annotation \<Rightarrow> bool" where
  "annotation_harmless a \<longleftrightarrow> an_subtype a \<noteq> Gives (Some ''/FileAttachment'') \<and> an_has_fs a \<noteq> Gives True
     \<and> (\<forall>t. an_action a = Gives (Some (Gives (Some t))) \<longrightarrow> t \<notin> set active_content_action_types)"

definition page_harmless :: "pdf_page \<Rightarrow> bool" where
  "page_harmless p \<longleftrightarrow> (\<forall>it. pg_annots p = Gives (Some it) \<longrightarrow>
     \<not> snd it \<and> (\<forall>a. Gives a \<in> set (fst it) \<longrightarrow> annotation_harmless a))"

definition pdf_harmless :: "pdf_reader \<Rightarrow> bool" where
  "pdf_harmless r \<longleftrightarrow> pr_encrypted r = Gives False
     \<and> (\<forall>catalog. pr_root r = Gives catalog \<longrightarrow>
          catalog ''/OpenAction'' \<noteq> Gives True \<and> catalog ''/AA'' \<noteq> Gives True)
     \<and> (\<exists>ps. pr_pages r = Gives (ps, False) \<and> (\<forall>p \<in> set ps. page_harmless p))
     \<and> (\<forall>it. pr_attachments r = Gives it \<longrightarrow> fst it = [])
     \<and> (\<forall>n \<in> set (fst (pr_xref r)) \<union> set (fst (pr_objstm r)).
          pr_object r n \<noteq> Gives (Gives (Some ''/Filespec'')))"

lemma annot_harmless: "annot_reason a = Some None \<Longrightarrow> annotation_harmless a"
  by (auto simp: annot_reason_def annotation_harmless_def annot_is_file_attachment_def Let_def
      action_dict_is_active_content_def split: option.splits bool.splits pdf_call.splits if_splits)

lemma annots_harmless:
  "annots_reason cs e = Some None \<Longrightarrow> \<not> e \<and> (\<forall>a. Gives a \<in> set cs \<longrightarrow> annotation_harmless a)"
  by (induction cs) (auto dest: annot_harmless split: if_splits pdf_call.splits option.splits)

lemma page_harmless_reason: "page_reason p = Some None \<Longrightarrow> page_harmless p"
  by (auto simp: page_reason_def page_harmless_def dest: annots_harmless
      split: pdf_call.splits option.splits)

lemma pages_harmless:
  "pages_reason ps e = Some None \<Longrightarrow> \<not> e \<and> (\<forall>p \<in> set ps. page_harmless p)"
  by (induction ps) (auto dest: page_harmless_reason split: if_splits option.splits)

lemma no_filespec:
  "orphan_filespec f ns = Some False \<Longrightarrow> n \<in> set ns \<Longrightarrow> f n \<noteq> Gives (Gives (Some ''/Filespec''))"
  by (induction ns) (auto split: pdf_call.splits if_splits)

lemma root_clean:
  "catalog_has_open_action_or_aa r = Some False \<Longrightarrow> pr_root r = Gives catalog \<Longrightarrow>
   catalog ''/OpenAction'' \<noteq> Gives True \<and> catalog ''/AA'' \<noteq> Gives True"
  by (auto simp: catalog_has_open_action_or_aa_def key_in_root_def
      split: pdf_call.splits option.splits bool.splits)

lemma pages_clean:
  "pages_have_active_content_or_uri r = Some None \<Longrightarrow>
   \<exists>ps. pr_pages r = Gives (ps, False) \<and> (\<forall>p \<in> set ps. page_harmless p)"
  by (auto simp: pages_have_active_content_or_uri_def dest: pages_harmless split: pdf_call.splits)

lemma clean_is_harmless:
  assumes "inspect_pdf file = (Clean, None)"
  obtains r where "file = Some r" "pdf_harmless r"
proof -
  obtain r where r: "file = Some r" and e: "pr_encrypted r = Gives False"
    and c: "catalog_has_open_action_or_aa r = Some False"
    and p: "pages_have_active_content_or_uri r = Some None"
    and f: "\<not> catalog_has_embedded_files r" and o: "has_orphan_filespec_object r = Some False"
    using assms
    by (auto simp: inspect_pdf_def inspection_failed_def split: option.splits pdf_call.splits bool.splits if_splits)
  have "\<forall>it. pr_attachments r = Gives it \<longrightarrow> fst it = []"
    using f by (auto simp: catalog_has_embedded_files_def)
  moreover have "\<forall>n \<in> set (fst (pr_xref r)) \<union> set (fst (pr_objstm r)).
      pr_object r n \<noteq> Gives (Gives (Some ''/Filespec''))"
    using o by (auto simp: has_orphan_filespec_object_def all_object_numbers_def dest: no_filespec)
  ultimately have "pdf_harmless r"
    unfolding pdf_harmless_def using e root_clean [OF c] pages_clean [OF p] by blast
  then show ?thesis using r that by blast
qed

lemma verdict_passed: "po_passed (verdict_of v) \<longleftrightarrow> fst v = Clean"
  by (cases v; cases "fst v"; cases "snd v") (auto simp: verdict_of_def pdf_passed_def failed_policy_def)

lemma passed_pdf_is_harmless:
  assumes "check_pdf_content_policy (inspector_main [prog, path] open_pdf) = Inr p" "po_passed p"
  shows "\<exists>r. open_pdf path = Some r \<and> pdf_harmless r"
proof -
  have "fst (inspect_pdf (open_pdf path)) = Clean"
    using assms by (simp add: verdict_reaches_parent) (metis verdict_passed)
  then have "inspect_pdf (open_pdf path) = (Clean, None)"
    by (cases rule: inspect_cases [of "open_pdf path"]) (auto simp: inspection_failed_def)
  then show ?thesis using clean_is_harmless by metis
qed

section \<open>The scan of a PDF\<close>

definition calm_reader :: pdf_reader where
  "calm_reader = \<lparr>pr_encrypted = Gives False, pr_root = Gives (\<lambda>_. Gives False), pr_pages = Gives ([], False),
     pr_attachments = Gives ([], False), pr_xref = ([1], False), pr_objstm = ([], False),
     pr_object = (\<lambda>_. Gives (Gives (Some ''/Page'')))\<rparr>"

lemma calm_reader_clean: "inspect_pdf (Some calm_reader) = (Clean, None)"
  by (simp add: inspect_pdf_def calm_reader_def catalog_has_open_action_or_aa_def key_in_root_def
      pages_have_active_content_or_uri_def catalog_has_embedded_files_def
      has_orphan_filespec_object_def all_object_numbers_def)



text \<open>
  C18. A PDF that the scan hands on to promotion was read by the inspector and is unencrypted,
  without an action on opening, without attachment annotation, JavaScript, launch or URI action on
  any annotation that could be read, and without embedded files or file specifications among the
  objects that could be read.
\<close>

theorem scanned_pdf_is_inactive:
  assumes "get_doc s i = Some x" and "d_ingestion_status x = SCANNING" and "d_id x = i"
    and "d_detected_content_type x = Some pdf_mime"
    and "se_pdf_policy env = check_pdf_content_policy (inspector_main [prog, path] open_pdf)"
    and "documents (stored (snd (run_scan cfg H dv env i org s))) i = Some y"
    and "d_ingestion_status y = CLEAN_PENDING_PROMOTION"
  shows "\<exists>r. open_pdf path = Some r \<and> pdf_harmless r"
proof -
  have "verdict_status (scan_verdict cfg H dv env x) = CLEAN_PENDING_PROMOTION"
    using run_scan_implements_verdict_aux [OF assms(1-3), of cfg H dv env org] assms(6,7)
    by (auto simp: Let_def)
  then have "scan_verdict cfg H dv env x = Passed" by (cases "scan_verdict cfg H dv env x") auto
  then have "policy_verdict env x = Passed"
    by (auto simp: scan_verdict_def stream_verdict_def split: option.splits if_splits)
  then obtain p where "se_pdf_policy env = Inr p" "po_passed p"
    using assms(4) by (auto simp: policy_verdict_def split: sum.splits if_splits)
  then show ?thesis using passed_pdf_is_harmless assms(5) by metis
qed

theorem scanned_pdf_is_inactive_witness: "pdf_harmless calm_reader"
proof -
  have policy: "se_pdf_policy demo_scan_env
      = check_pdf_content_policy (inspector_main [[], []] (\<lambda>_. Some calm_reader))"
    by (simp add: verdict_reaches_parent calm_reader_clean verdict_of_def demo_scan_env_def
        pdf_passed_def pdf_policy_version_def)
  have pdf: "d_detected_content_type demo_document = Some pdf_mime" by (simp add: demo_document_def)
  obtain y where y: "documents (stored (snd (run_scan demo_scan_config (\<lambda>_. ''h'') ascii_digit
      demo_scan_env 5 9 (open_session demo_db)))) 5 = Some y"
    "d_ingestion_status y = CLEAN_PENDING_PROMOTION"
    using demo_cleared by blast
  show ?thesis using scanned_pdf_is_inactive [OF demo_row pdf policy y] by simp
qed

text \<open>
  The inspector is not closed against pypdf's own failures: a file whose catalog, attachment list,
  cross-reference tables and annotations all raise is reported CLEAN and passes.
\<close>

definition unreadable_reader :: pdf_reader where
  "unreadable_reader = \<lparr>pr_encrypted = Gives False, pr_root = Other_error,
     pr_pages = Gives ([\<lparr>pg_annots = Gives (Some ([Other_error], False))\<rparr>], False),
     pr_attachments = Other_error, pr_xref = ([1], True), pr_objstm = ([], True),
     pr_object = (\<lambda>_. Other_error)\<rparr>"

lemma unreadable_structure_passes:
  "check_pdf_content_policy (inspector_main [prog, path] (\<lambda>_. Some unreadable_reader)) = Inr pdf_passed"
proof -
  have "inspect_pdf (Some unreadable_reader) = (Clean, None)"
    by (simp add: inspect_pdf_def unreadable_reader_def catalog_has_open_action_or_aa_def
        pages_have_active_content_or_uri_def page_reason_def catalog_has_embedded_files_def
        has_orphan_filespec_object_def all_object_numbers_def)
  then show ?thesis by (simp add: verdict_reaches_parent verdict_of_def)
qed

text \<open>No variable but these four reaches the child, so no secret does.\<close>

lemma child_env_names:
  "(k, v) \<in> set (minimal_subprocess_env cpu memory win32 environ) \<Longrightarrow>
     k \<in> {''PDF_INSPECTOR_CPU_SECONDS'', ''PDF_INSPECTOR_MEMORY_BYTES'', ''PATH'', ''SystemRoot''}"
  unfolding minimal_subprocess_env_def by (cases "environ ''PATH''"; cases "environ ''SystemRoot''"; cases win32) (force split: if_splits)+

end
