(* ===== verification/ParserService.thy ===== *)
theory ParserService
  imports ParserClient Bytes
begin

text \<open>
  The isolated parser: \<open>app/parser_service/normalizer.py\<close>, \<open>pdf_extractor.py\<close>,
  \<open>docx_extractor.py\<close> and the request handler of \<open>main.py\<close>. PyMuPDF and python-docx are
  parameters that give the pages or blocks of a file; NFKC, \<open>str.lower\<close> and SHA-256 are
  parameters too.
\<close>

section \<open>Normalisation\<close>

definition control_char :: "nat \<Rightarrow> bool" where
  "control_char c \<longleftrightarrow> c \<le> 8 \<or> c = 11 \<or> c = 12 \<or> (14 \<le> c \<and> c \<le> 31) \<or> (127 \<le> c \<and> c \<le> 159)"

lemma cut_length: "length (tl (dropWhile P s)) < Suc (length s)"
  using length_dropWhile_le [of P s] by (simp add: less_Suc_eq_le)

text \<open>The substitution of \<open><[^>]+>\<close> by nothing: a bracket, at least one character other than a
  closing bracket, and the next closing bracket.\<close>

function strip_tags :: "ustr \<Rightarrow> ustr" where
  "strip_tags [] = []"
| "strip_tags (c # s) =
     (if c = 60 \<and> s \<noteq> [] \<and> hd s \<noteq> 62 \<and> 62 \<in> set s
      then strip_tags (tl (dropWhile (\<lambda>x. x \<noteq> 62) s)) else c # strip_tags s)"
  by pat_completeness auto

termination
  by (relation "measure length") (use cut_length in auto)

definition normalize_text :: "(ustr \<Rightarrow> ustr) \<Rightarrow> ustr \<Rightarrow> ustr" where
  "normalize_text nfkc t =
     (if t = [] then [] else strip (strip_tags (filter (\<lambda>c. \<not> control_char c) (nfkc t))))"

text \<open>\<open>encode\<close> raises on surrogates.\<close>

definition compute_sha256 :: "(bytes \<Rightarrow> string) \<Rightarrow> ustr \<Rightarrow> string option" where
  "compute_sha256 H t = (if \<forall>c \<in> set t. scalar c then Some (H (utf8_encode t)) else None)"

section \<open>Limits\<close>

definition max_file_size_bytes :: nat where "max_file_size_bytes = 50 * 1024 * 1024"
definition max_chars_per_unit :: nat where "max_chars_per_unit = 100000"
definition chunk_target_chars :: nat where "chunk_target_chars = 4000"
definition parser_version :: string where "parser_version = ''1.0.0''"
definition parser_pdf_mime :: string where "parser_pdf_mime = ''application/pdf''"
definition parser_docx_mime :: string where
  "parser_docx_mime = ''application/vnd.openxmlformats-officedocument.wordprocessingml.document''"

section \<open>Extraction\<close>

text \<open>An error with its code and message, or the class name of an unexpected exception.\<close>

datatype extract_error = Extractor_error string string | Crash string

definition unit_of :: "(bytes \<Rightarrow> string) \<Rightarrow> unit_kind \<Rightarrow> string \<Rightarrow> nat \<Rightarrow> ustr \<Rightarrow> parser_unit option" where
  "unit_of H kind prefix n t = map_option (\<lambda>h. \<lparr>un_sequence = int n, un_kind = kind,
     un_source_locator = uni (prefix @ show_int (int n)), un_content = t, un_content_sha256 = h\<rparr>)
     (compute_sha256 H t)"

text \<open>The loop both extractors share: the \<open>n\<close>-th raw text, which reading may refuse, is
  normalised, cut at the limit of a unit, and counted.\<close>

fun build_units :: "(ustr \<Rightarrow> ustr) \<Rightarrow> (bytes \<Rightarrow> string) \<Rightarrow> unit_kind \<Rightarrow> string \<Rightarrow> nat \<Rightarrow> nat
    \<Rightarrow> (string + ustr) list \<Rightarrow> extract_error + parser_unit list \<times> nat" where
  "build_units nfkc H kind prefix n count [] = Inr ([], count)"
| "build_units nfkc H kind prefix n count (raw # raws) = (case raw of
       Inl name \<Rightarrow> Inl (Crash name)
     | Inr t \<Rightarrow>
         (let norm = take max_chars_per_unit (normalize_text nfkc t); count' = count + length norm in
          if count' > max_total_chars then
            Inl (Extractor_error ''OUTPUT_LIMIT_EXCEEDED''
              (''Total output characters ('' @ show_int (int count') @ '') exceeds limit''))
          else case unit_of H kind prefix n norm of
            None \<Rightarrow> Inl (Crash ''UnicodeEncodeError'')
          | Some x \<Rightarrow> map_sum id (apfst ((#) x)) (build_units nfkc H kind prefix (n + 1) count' raws)))"

text \<open>A PDF as PyMuPDF opens it: whether it is encrypted, and the text of its pages.\<close>

type_synonym fitz_document = "bool \<times> (string + ustr) list"

definition extract_pdf_units :: "(bytes \<Rightarrow> string + fitz_document) \<Rightarrow> (ustr \<Rightarrow> ustr)
    \<Rightarrow> (bytes \<Rightarrow> string) \<Rightarrow> bytes \<Rightarrow> extract_error + parser_unit list \<times> nat" where
  "extract_pdf_units open_pdf nfkc H b = (case open_pdf b of
       Inl err \<Rightarrow> Inl (Extractor_error ''PDF_CORRUPT'' (''Failed to open PDF: '' @ err))
     | Inr (encrypted, ps) \<Rightarrow>
         (if encrypted then Inl (Extractor_error ''PDF_ENCRYPTED'' ''Encrypted PDF is not supported'')
          else if length ps > max_units then
            Inl (Extractor_error ''PAGE_LIMIT_EXCEEDED''
              (''PDF page count ('' @ show_int (int (length ps)) @ '') exceeds limit of ''
               @ show_int (int max_units)))
          else build_units nfkc H PDF_PAGE ''page_'' 1 0 ps))"

text \<open>The children of a document's body; others than paragraphs and tables are skipped.\<close>

datatype body_item = Paragraph_item ustr | Table_item "ustr list list" | Other_item

fun join_text :: "ustr \<Rightarrow> ustr list \<Rightarrow> ustr" where
  "join_text sep [] = []"
| "join_text sep [t] = t"
| "join_text sep (t # ts) = t @ sep @ join_text sep ts"

definition extract_table_text :: "ustr list list \<Rightarrow> ustr" where
  "extract_table_text rows = join_text [10]
     (filter (\<lambda>r. r \<noteq> []) (map (\<lambda>cells. join_text (uni '' | '') (filter (\<lambda>t. t \<noteq> []) (map strip cells))) rows))"

definition block_text :: "body_item \<Rightarrow> ustr" where
  "block_text x = (case x of Paragraph_item t \<Rightarrow> strip t | Table_item rows \<Rightarrow> extract_table_text rows
     | Other_item \<Rightarrow> [])"

definition docx_blocks :: "body_item list \<Rightarrow> ustr list" where
  "docx_blocks items = filter (\<lambda>t. t \<noteq> []) (map block_text items)"

text \<open>The chunks as lists of blocks, \<open>cur\<close> the chunk being filled and \<open>k\<close> its length.\<close>

fun group_blocks :: "ustr list \<Rightarrow> nat \<Rightarrow> ustr list \<Rightarrow> ustr list list" where
  "group_blocks cur k [] = (if cur = [] then [] else [cur])"
| "group_blocks cur k (t # ts) =
     (if 0 < k \<and> k + length t > chunk_target_chars then cur # group_blocks [t] (length t) ts
      else group_blocks (cur @ [t]) (k + length t) ts)"

definition extract_docx_units :: "(bytes \<Rightarrow> string + body_item list) \<Rightarrow> (ustr \<Rightarrow> ustr)
    \<Rightarrow> (bytes \<Rightarrow> string) \<Rightarrow> bytes \<Rightarrow> extract_error + parser_unit list \<times> nat" where
  "extract_docx_units open_docx nfkc H b = (case open_docx b of
       Inl err \<Rightarrow> Inl (Extractor_error ''DOCX_CORRUPT'' (''Failed to open DOCX document: '' @ err))
     | Inr items \<Rightarrow>
         (if docx_blocks items = [] then
            Inr (case unit_of H DOCX_LOGICAL_CHUNK ''chunk_'' 1 [] of None \<Rightarrow> [] | Some x \<Rightarrow> [x], 0)
          else let groups = group_blocks [] 0 (docx_blocks items) in
          if length groups > max_units then
            Inl (Extractor_error ''CHUNK_LIMIT_EXCEEDED''
              (''DOCX chunk count ('' @ show_int (int (length groups)) @ '') exceeds limit of ''
               @ show_int (int max_units)))
          else build_units nfkc H DOCX_LOGICAL_CHUNK ''chunk_'' 1 0
            (map (\<lambda>g. Inr (join_text [10, 10] g)) groups)))"

section \<open>The request\<close>

text \<open>The same five fields may come in the form and in the headers.\<close>

record request_fields =
  rf_content_type :: "string option"
  rf_sha256 :: "string option"
  rf_size :: "int option"
  rf_protocol :: "string option"
  rf_request_id :: "string option"

record parse_request =
  pq_file :: bytes
  pq_file_type :: "string option"
  pq_form :: request_fields
  pq_headers :: request_fields

text \<open>What the service runs on: the libraries, the clock and its temporary directory.\<close>

record parser_env =
  pv_open_pdf :: "bytes \<Rightarrow> string + fitz_document"
  pv_open_docx :: "bytes \<Rightarrow> string + body_item list"
  pv_nfkc :: "ustr \<Rightarrow> ustr"
  pv_hash :: "bytes \<Rightarrow> string"
  pv_lower :: "string \<Rightarrow> string"
  pv_times_out :: bool
  pv_new_id :: string
  pv_tmp_name :: string
  pv_unlink_fails :: bool

datatype parse_reply = Parsed string parser_response | Refused nat string string string

text \<open>Python's \<open>a or b or c\<close> on optional texts.\<close>

fun first_text :: "string option list \<Rightarrow> string" where
  "first_text [] = ''''"
| "first_text (None # xs) = first_text xs"
| "first_text (Some t # xs) = (if t = '''' then first_text xs else t)"

definition strip_string :: "string \<Rightarrow> string" where
  "strip_string t = map char_of (strip (uni t))"

definition effective_content_type :: "parse_request \<Rightarrow> string" where
  "effective_content_type q =
     first_text [rf_content_type (pq_form q), rf_content_type (pq_headers q), pq_file_type q]"

definition effective_sha256 :: "(string \<Rightarrow> string) \<Rightarrow> parse_request \<Rightarrow> string" where
  "effective_sha256 lower q =
     strip_string (lower (first_text [rf_sha256 (pq_form q), rf_sha256 (pq_headers q)]))"

definition effective_size :: "parse_request \<Rightarrow> int option" where
  "effective_size q = (case rf_size (pq_form q) of None \<Rightarrow> rf_size (pq_headers q) | v \<Rightarrow> v)"

definition effective_request_id :: "parser_env \<Rightarrow> parse_request \<Rightarrow> string" where
  "effective_request_id env q =
     first_text [rf_request_id (pq_form q), rf_request_id (pq_headers q), Some (pv_new_id env)]"

definition effective_protocol :: "parse_request \<Rightarrow> string" where
  "effective_protocol q =
     first_text [rf_protocol (pq_form q), rf_protocol (pq_headers q), Some protocol_version]"

text \<open>The write loop: what has been written, and the count at which it was given up.\<close>

fun receive_upload :: "nat \<Rightarrow> bytes list \<Rightarrow> bytes \<times> nat option" where
  "receive_upload n [] = ([], None)"
| "receive_upload n (c # cs) =
     (if n + length c > max_file_size_bytes then ([], Some (n + length c))
      else apfst ((@) c) (receive_upload (n + length c) cs))"

definition run_extractor :: "parser_env \<Rightarrow> bool \<Rightarrow> bytes \<Rightarrow> extract_error + parser_unit list \<times> nat" where
  "run_extractor env pdf b =
     (if pdf then extract_pdf_units (pv_open_pdf env) (pv_nfkc env) (pv_hash env) b
      else extract_docx_units (pv_open_docx env) (pv_nfkc env) (pv_hash env) b)"

definition parse_received :: "parser_env \<Rightarrow> parse_request \<Rightarrow> bytes \<Rightarrow> parse_reply" where
  "parse_received env q b =
     (let rid = effective_request_id env q; pdf = (effective_content_type q = parser_pdf_mime) in
      if Some (int (length b)) \<noteq> effective_size q then
        Refused 400 ''SIZE_MISMATCH'' (''Streamed bytes ('' @ show_int (int (length b)) @ '') != expected (''
          @ (case effective_size q of None \<Rightarrow> ''None'' | Some n \<Rightarrow> show_int n) @ '')'') rid
      else if pv_lower env (pv_hash env b) \<noteq> effective_sha256 (pv_lower env) q then
        Refused 400 ''DIGEST_MISMATCH'' ''Streamed SHA-256 digest does not match expected_sha256'' rid
      else if pv_times_out env then
        Refused 408 ''PARSE_TIMEOUT'' ''Document parsing timed out after 15.0s'' rid
      else case run_extractor env pdf b of
        Inl (Extractor_error code msg) \<Rightarrow> Refused 422 code msg rid
      | Inl (Crash name) \<Rightarrow> Refused 500 ''PARSER_INTERNAL_ERROR'' (''Parsing failed: '' @ name) rid
      | Inr (us, count) \<Rightarrow>
          Parsed (if pdf then ''PDF'' else ''DOCX'')
            \<lparr>rp_protocol_version = effective_protocol q, rp_parser_name = parser_name,
             rp_parser_version = parser_version, rp_units = us, rp_total_units = int (length us),
             rp_total_characters = int count\<rparr>)"

text \<open>The temporary file exists while the request is handled and is removed in every case.\<close>

definition cleanup_tmp :: "parser_env \<Rightarrow> dir \<Rightarrow> dir" where
  "cleanup_tmp env d =
     (if path_exists d (pv_tmp_name env) \<and> \<not> pv_unlink_fails env
      then d(pv_tmp_name env := None) else d)"

definition parse_document :: "parser_env \<Rightarrow> parse_request \<Rightarrow> dir \<Rightarrow> parse_reply \<times> dir" where
  "parse_document env q d =
     (let rid = effective_request_id env q; digest = effective_sha256 (pv_lower env) q in
      if effective_content_type q \<notin> {parser_pdf_mime, parser_docx_mime} then
        (Refused 400 ''UNSUPPORTED_CONTENT_TYPE''
           (''Unsupported content type '' @ quoted (effective_content_type q)) rid, d)
      else if length digest \<noteq> 64 then
        (Refused 400 ''INVALID_SHA256_PARAMETER''
           ''A valid 64-character hex expected_sha256 is required'' rid, d)
      else case effective_size q of
        None \<Rightarrow> (Refused 400 ''INVALID_SIZE_PARAMETER'' ''A positive expected_size_bytes is required'' rid, d)
      | Some n \<Rightarrow>
          (if n \<le> 0 then
             (Refused 400 ''INVALID_SIZE_PARAMETER'' ''A positive expected_size_bytes is required'' rid, d)
           else if n > int max_file_size_bytes then
             (Refused 413 ''FILE_TOO_LARGE'' (''Expected file size ('' @ show_int n @ '') exceeds limit'') rid, d)
           else case receive_upload 0 (chunks (64 * 1024) (pq_file q)) of
             (b, Some k) \<Rightarrow>
               (Refused 413 ''FILE_TOO_LARGE''
                  (''Streamed bytes ('' @ show_int (int k) @ '') exceeded limit'') rid,
                cleanup_tmp env (d(pv_tmp_name env \<mapsto> RegularFile b)))
           | (b, None) \<Rightarrow>
               (parse_received env q b,
                cleanup_tmp env (d(pv_tmp_name env \<mapsto> RegularFile b)))))"

section \<open>Normalised text has no tags\<close>

definition has_tag :: "ustr \<Rightarrow> bool" where
  "has_tag s \<longleftrightarrow> (\<exists>a x b. s = a @ 60 # x @ 62 # b \<and> x \<noteq> [] \<and> 62 \<notin> set x)"

lemma set_strip_tags: "set (strip_tags s) \<subseteq> set s"
proof (induction s rule: strip_tags.induct)
  case (2 c s)
  have "set (tl (dropWhile (\<lambda>x. x \<noteq> 62) s)) \<subseteq> set s"
  proof
    fix x assume "x \<in> set (tl (dropWhile (\<lambda>x. x \<noteq> 62) s))"
    then have "x \<in> set (dropWhile (\<lambda>x. x \<noteq> 62) s)" by (cases "dropWhile (\<lambda>x. x \<noteq> 62) s") auto
    then show "x \<in> set s" by (rule set_dropWhileD)
  qed
  then show ?case using 2 by auto
qed simp

lemma strip_tags_tag_free: "\<not> has_tag (strip_tags s)"
proof (induction s rule: strip_tags.induct)
  case (2 c s)
  show ?case
  proof (cases "c = 60 \<and> s \<noteq> [] \<and> hd s \<noteq> 62 \<and> 62 \<in> set s")
    case False
    have ih: "\<not> has_tag (strip_tags s)" using 2 False by blast
    have "False" if "c # strip_tags s = a @ 60 # x @ 62 # b" "x \<noteq> []" "62 \<notin> set x" for a x b
    proof (cases a)
      case Nil
      then have s: "c = 60" "strip_tags s = x @ 62 # b" using that by auto
      then have "62 \<in> set s" using set_strip_tags [of s] by auto
      then obtain s' where s': "s = 62 # s'" using False s by (cases s) auto
      then have "strip_tags s = 62 # strip_tags s'" by simp
      then show False using s that by (cases x) auto
    next
      case (Cons d a')
      then show False using that ih by (auto simp: has_tag_def)
    qed
    then show ?thesis using False by (auto simp: has_tag_def)
  qed (use 2 in simp)
qed (simp add: has_tag_def)

lemma has_tag_infix: "has_tag t \<Longrightarrow> has_tag (a @ t @ b)"
  unfolding has_tag_def by (metis append.assoc append_Cons)

lemma tag_free_take: "\<not> has_tag s \<Longrightarrow> \<not> has_tag (take n s)"
  using has_tag_infix [of "take n s" "[]" "drop n s"] by auto

lemma tag_free_strip: "\<not> has_tag s \<Longrightarrow> \<not> has_tag (strip s)"
proof -
  obtain b where b: "lstrip s = rstrip (lstrip s) @ b" using rstrip_prefix by blast
  have "s = takeWhile is_space s @ strip s @ b"
    using b by (simp add: strip_def lstrip_def)
  then show "\<not> has_tag s \<Longrightarrow> \<not> has_tag (strip s)" using has_tag_infix by metis
qed

lemma set_strip_text: "set (strip s) \<subseteq> set s"
proof -
  obtain b where "lstrip s = rstrip (lstrip s) @ b" using rstrip_prefix by blast
  then have "set (rstrip (lstrip s)) \<subseteq> set (lstrip s)" by (metis Un_upper1 set_append)
  also have "\<dots> \<subseteq> set s" by (auto simp: lstrip_def dest: set_dropWhileD)
  finally show ?thesis by (simp add: strip_def)
qed

lemma normalized_text:
  "\<not> has_tag (normalize_text nfkc t) \<and> (\<forall>c \<in> set (normalize_text nfkc t). \<not> control_char c)
   \<and> strip (normalize_text nfkc t) = normalize_text nfkc t"
proof (cases "t = []")
  case True
  then show ?thesis by (simp add: normalize_text_def has_tag_def strip_def lstrip_def rstrip_def)
next
  case False
  let ?f = "filter (\<lambda>c. \<not> control_char c) (nfkc t)"
  have "set (strip (strip_tags ?f)) \<subseteq> set ?f" using set_strip_text set_strip_tags by blast
  then show ?thesis
    using False tag_free_strip [OF strip_tags_tag_free, of ?f] by (auto simp: normalize_text_def)
qed

text \<open>Whatever stands between two comparison signs is taken for a tag and lost.\<close>

lemma comparisons_are_dropped:
  "normalize_text (\<lambda>t. t) (uni ''latency < 5 ms and uptime > 99'') = uni ''latency  99''"
  by (simp add: normalize_text_def control_char_def strip_def lstrip_def rstrip_def is_space_def)

section \<open>The units\<close>

lemma unit_of_fields:
  "unit_of H kind prefix n t = Some x \<Longrightarrow>
     un_sequence x = int n \<and> un_kind x = kind \<and> un_source_locator x = uni (prefix @ show_int (int n))
     \<and> un_content x = t \<and> un_content_sha256 x = H (utf8_encode t) \<and> (\<forall>c \<in> set t. scalar c)"
  by (auto simp: unit_of_def compute_sha256_def split: if_splits)

definition sound_unit :: "(bytes \<Rightarrow> string) \<Rightarrow> parser_unit \<Rightarrow> bool" where
  "sound_unit H x \<longleftrightarrow> un_content_sha256 x = H (utf8_encode (un_content x))
     \<and> length (un_content x) \<le> max_chars_per_unit \<and> \<not> has_tag (un_content x)
     \<and> (\<forall>c \<in> set (un_content x). scalar c \<and> \<not> control_char c)"

definition numbered_units :: "unit_kind \<Rightarrow> string \<Rightarrow> nat \<Rightarrow> parser_unit list \<Rightarrow> bool" where
  "numbered_units kind prefix n us \<longleftrightarrow> map un_sequence us = map int [n..<n + length us]
     \<and> map un_source_locator us = map (\<lambda>k. uni (prefix @ show_int (int k))) [n..<n + length us]
     \<and> (\<forall>x \<in> set us. un_kind x = kind)"

lemma numbered_Cons:
  assumes "unit_of H kind prefix n t = Some x" "numbered_units kind prefix (n + 1) us"
  shows "numbered_units kind prefix n (x # us)"
proof -
  have "[n..<n + length (x # us)] = n # [n + 1..<n + 1 + length us]"
    by (subst upt_conv_Cons) simp_all
  then show ?thesis
    using assms(2) unit_of_fields [OF assms(1)] by (simp add: numbered_units_def del: upt_Suc)
qed

lemma build_units_ok:
  "build_units nfkc H kind prefix n count raws = Inr (us, count') \<Longrightarrow> count \<le> max_total_chars \<Longrightarrow>
   length us = length raws \<and> numbered_units kind prefix n us \<and> (\<forall>x \<in> set us. sound_unit H x)
   \<and> count' = count + sum_list (map (\<lambda>x. length (un_content x)) us) \<and> count' \<le> max_total_chars"
proof (induction raws arbitrary: n count us)
  case Nil
  then show ?case by (simp add: numbered_units_def)
next
  case (Cons raw raws)
  obtain t where t: "raw = Inr t" using Cons.prems by (cases raw) auto
  let ?norm = "take max_chars_per_unit (normalize_text nfkc t)"
  have le: "count + length ?norm \<le> max_total_chars"
    using Cons.prems t by (auto simp: Let_def split: if_splits)
  obtain x where x: "unit_of H kind prefix n ?norm = Some x"
    using Cons.prems t le by (auto simp: Let_def split: option.splits)
  obtain vs where vs: "build_units nfkc H kind prefix (n + 1) (count + length ?norm) raws = Inr (vs, count')"
    and us: "us = x # vs"
    using Cons.prems t le x by (auto simp: Let_def map_sum_def split: sum.splits)
  note f = unit_of_fields [OF x]
  have "sound_unit H x"
    using f normalized_text [of nfkc t] tag_free_take [of "normalize_text nfkc t" max_chars_per_unit]
    by (auto simp: sound_unit_def dest: in_set_takeD)
  moreover have "un_content x = ?norm" using f by simp
  ultimately show ?case
    using Cons.IH [OF vs le] numbered_Cons [OF x] us by simp
qed

section \<open>The chunks of a DOCX\<close>

lemma concat_groups: "concat (group_blocks cur k ts) = cur @ ts"
  by (induction cur k ts rule: group_blocks.induct) auto

definition text_size :: "ustr list \<Rightarrow> nat" where
  "text_size g = sum_list (map length g)"

definition fits_chunk :: "ustr list \<Rightarrow> bool" where
  "fits_chunk g \<longleftrightarrow> g \<noteq> [] \<and> (length g = 1 \<or> text_size g \<le> chunk_target_chars)"

lemma groups_fit:
  "k = text_size cur \<Longrightarrow> cur = [] \<or> fits_chunk cur \<Longrightarrow> \<forall>t \<in> set cur \<union> set ts. t \<noteq> [] \<Longrightarrow>
   g \<in> set (group_blocks cur k ts) \<Longrightarrow> fits_chunk g"
proof (induction cur k ts rule: group_blocks.induct)
  case (2 cur k t ts)
  have one: "fits_chunk [t]" by (simp add: fits_chunk_def)
  show ?case
  proof (cases "0 < k \<and> k + length t > chunk_target_chars")
    case True
    then have "g = cur \<or> g \<in> set (group_blocks [t] (length t) ts)" using "2.prems" by auto
    moreover have "cur \<noteq> []" using True "2.prems"(1) by (auto simp: text_size_def)
    ultimately show ?thesis using "2.IH"(1) [OF True] "2.prems" one by (auto simp: text_size_def)
  next
    case False
    have "fits_chunk (cur @ [t])"
    proof (cases "cur = []")
      case False
      then have "0 < k" using "2.prems" by (cases cur) (auto simp: text_size_def)
      then show ?thesis
        using \<open>\<not> (0 < k \<and> _)\<close> "2.prems"(1) by (simp add: fits_chunk_def text_size_def)
    qed (simp add: one)
    then show ?thesis using "2.IH"(2) [OF False] "2.prems" False by (auto simp: text_size_def)
  qed
qed (auto split: if_splits)

text \<open>The chunks are the blocks of the document in order, none lost; a chunk of more than one
  block stays within the target.\<close>

lemma docx_chunks:
  "concat (group_blocks [] 0 (docx_blocks items)) = docx_blocks items
   \<and> (\<forall>g \<in> set (group_blocks [] 0 (docx_blocks items)). fits_chunk g)"
  using groups_fit [of 0 "[]" "docx_blocks items"]
  by (auto simp: concat_groups text_size_def docx_blocks_def)

section \<open>What the extractors return\<close>

definition units_sound :: "(bytes \<Rightarrow> string) \<Rightarrow> bool \<Rightarrow> parser_unit list \<Rightarrow> nat \<Rightarrow> bool" where
  "units_sound H pdf us count \<longleftrightarrow>
     numbered_units (if pdf then PDF_PAGE else DOCX_LOGICAL_CHUNK) (if pdf then ''page_'' else ''chunk_'') 1 us
     \<and> length us \<le> max_units \<and> (\<forall>x \<in> set us. sound_unit H x)
     \<and> count = sum_list (map (\<lambda>x. length (un_content x)) us) \<and> count \<le> max_total_chars"

lemma empty_unit: "unit_of H DOCX_LOGICAL_CHUNK ''chunk_'' 1 [] = Some x \<Longrightarrow>
    units_sound H False [x] 0"
  using unit_of_fields [of H DOCX_LOGICAL_CHUNK "''chunk_''" 1 "[]" x]
    numbered_Cons [of H DOCX_LOGICAL_CHUNK "''chunk_''" 1 "[]" x "[]"]
  by (simp add: units_sound_def sound_unit_def numbered_units_def has_tag_def max_units_def)

lemma extracted_units_sound:
  assumes "run_extractor env pdf b = Inr (us, count)"
  shows "units_sound (pv_hash env) pdf us count"
proof (cases pdf)
  case True
  then obtain ps where "length ps \<le> max_units"
    "build_units (pv_nfkc env) (pv_hash env) PDF_PAGE ''page_'' 1 0 ps = Inr (us, count)"
    using assms by (auto simp: run_extractor_def extract_pdf_units_def not_less split: sum.splits if_splits)
  with build_units_ok [OF this(2)] True show ?thesis by (simp add: units_sound_def)
next
  case False
  then obtain items where o: "pv_open_docx env b = Inr items"
    using assms by (auto simp: run_extractor_def extract_docx_units_def split: sum.splits)
  show ?thesis
  proof (cases "docx_blocks items = []")
    case True
    have "unit_of (pv_hash env) DOCX_LOGICAL_CHUNK ''chunk_'' 1 [] \<noteq> None"
      by (simp add: unit_of_def compute_sha256_def)
    then show ?thesis
      using assms o False True empty_unit by (auto simp: run_extractor_def extract_docx_units_def)
  next
    case full: False
    let ?raws = "map (\<lambda>g. Inr (join_text [10, 10] g)) (group_blocks [] 0 (docx_blocks items)) :: (string + ustr) list"
    have "length ?raws \<le> max_units"
      "build_units (pv_nfkc env) (pv_hash env) DOCX_LOGICAL_CHUNK ''chunk_'' 1 0 ?raws = Inr (us, count)"
      using assms o False full
      by (auto simp: run_extractor_def extract_docx_units_def Let_def split: if_splits)
    with build_units_ok [OF this(2)] False show ?thesis by (simp add: units_sound_def)
  qed
qed

section \<open>The client accepts them\<close>

lemma digits_value_foldl:
  "foldl (\<lambda>a c. 10 * a + (of_char c - 48)) 0 (digits n) = (n :: nat)"
proof (induction n rule: digits.induct)
  case (1 n)
  show ?case
  proof (cases "n < 10")
    case True
    then show ?thesis by (subst digits.simps) (simp add: of_char_of)
  next
    case False
    then show ?thesis using 1 by (subst digits.simps) (simp add: of_char_of)
  qed
qed

lemma digits_inj: "digits m = digits n \<Longrightarrow> m = n"
  by (metis digits_value_foldl)

lemma show_int_inj: "show_int (int m) = show_int (int n) \<longleftrightarrow> m = n"
  by (auto simp: show_int_def dest: digits_inj)

lemma uni_same: "uni a = uni b \<longleftrightarrow> a = b"
  unfolding uni_def by (rule inj_map_eq_map) (simp add: inj_def)

lemma numbered_distinct: "numbered_units kind prefix n us \<Longrightarrow> distinct (map un_source_locator us)"
  by (simp add: numbered_units_def distinct_map inj_on_def uni_same show_int_inj)

lemma check_units_accepts:
  "map un_sequence us = map int [n..<n + length us] \<Longrightarrow> distinct (map un_source_locator us) \<Longrightarrow>
   seen \<inter> set (map un_source_locator us) = {} \<Longrightarrow> check_units (int n) seen us = None"
proof (induction us arbitrary: n seen)
  case (Cons x xs)
  have "[n..<n + length (x # xs)] = n # [n + 1..<n + 1 + length xs]"
    by (subst upt_conv_Cons) simp_all
  then have h: "un_sequence x = int n" "map un_sequence xs = map int [n + 1..<n + 1 + length xs]"
    using Cons.prems(1) by (simp_all del: upt_Suc)
  have "check_units (int (n + 1)) (insert (un_source_locator x) seen) xs = None"
    using Cons.IH [OF h(2)] Cons.prems(2,3) by auto
  then show ?case using h(1) Cons.prems(3) by (simp add: add.commute)
qed simp

lemma sound_units_validate:
  assumes "units_sound H pdf us count"
  shows "validate_parser_response \<lparr>rp_protocol_version = protocol_version, rp_parser_name = parser_name,
     rp_parser_version = v, rp_units = us, rp_total_units = int (length us),
     rp_total_characters = int count\<rparr> = Inr \<lparr>rp_protocol_version = protocol_version,
     rp_parser_name = parser_name, rp_parser_version = v, rp_units = us,
     rp_total_units = int (length us), rp_total_characters = int count\<rparr>"
proof -
  obtain kind prefix where num: "numbered_units kind prefix 1 us"
    using assms unfolding units_sound_def by blast
  have seq: "map un_sequence us = map int [1..<1 + length us]" using num unfolding numbered_units_def by blast
  have "check_units (int 1) {} us = None"
    by (rule check_units_accepts [OF seq numbered_distinct [OF num]]) simp
  then have "check_units 1 {} us = None" by simp
  then show ?thesis using assms by (simp add: validate_parser_response_def schema_ok_def units_sound_def)
qed

section \<open>The reply on the wire\<close>

text \<open>The body of a JSON response: \<open>json.dumps\<close> without \<open>ensure_ascii\<close> and with compact
  separators, in UTF-8.\<close>

definition body_char :: "nat \<Rightarrow> bytes" where
  "body_char c = (if c = 34 \<or> c = 92 then [92, c]
     else if c \<in> {8, 9, 10, 12, 13} then [92, the (map_of [(8, 98), (9, 116), (10, 110), (12, 102), (13, 114)] c)]
     else if c < 32 then [92, 117, 48, 48] @ [48 + c div 16, if c mod 16 < 10 then 48 + c mod 16 else 87 + c mod 16]
     else utf8_char c)"

definition body_string :: "ustr \<Rightarrow> bytes" where
  "body_string t = [34] @ concat (map body_char t) @ [34]"

definition body_field :: "string \<Rightarrow> bytes \<Rightarrow> bytes" where
  "body_field k v = body_string (uni k) @ [58] @ v"

definition kind_text :: "unit_kind \<Rightarrow> string" where
  "kind_text k = (case k of PDF_PAGE \<Rightarrow> ''PDF_PAGE'' | DOCX_LOGICAL_CHUNK \<Rightarrow> ''DOCX_LOGICAL_CHUNK'')"

definition unit_body :: "parser_unit \<Rightarrow> bytes" where
  "unit_body x = [123] @ join_text [44] [body_field ''sequence'' (uni (show_int (un_sequence x))),
     body_field ''unit_kind'' (body_string (uni (kind_text (un_kind x)))),
     body_field ''source_locator'' (body_string (un_source_locator x)),
     body_field ''content'' (body_string (un_content x)),
     body_field ''content_sha256'' (body_string (uni (un_content_sha256 x)))] @ [125]"

definition response_body :: "string \<Rightarrow> parser_response \<Rightarrow> bytes" where
  "response_body label r = [123] @ join_text [44]
     [body_field ''protocol_version'' (body_string (uni (rp_protocol_version r))),
      body_field ''parser_name'' (body_string (uni (rp_parser_name r))),
      body_field ''parser_version'' (body_string (uni (rp_parser_version r))),
      body_field ''document_type'' (body_string (uni label)),
      body_field ''units'' ([91] @ join_text [44] (map unit_body (rp_units r)) @ [93]),
      body_field ''total_units'' (uni (show_int (rp_total_units r))),
      body_field ''total_characters'' (uni (show_int (rp_total_characters r)))] @ [125]"

lemma body_char_length: "length (body_char c) \<le> 6"
  by (auto simp: body_char_def utf8_char_def)

lemma body_char_text: "\<not> control_char c \<Longrightarrow> length (body_char c) \<le> 4"
  by (auto simp: body_char_def utf8_char_def control_char_def)

lemma body_string_length: "length (body_string t) \<le> 6 * length t + 2"
proof (induction t)
  case (Cons c t)
  then show ?case using body_char_length [of c] by (simp add: body_string_def)
qed (simp add: body_string_def)

lemma body_string_text: "\<forall>c \<in> set t. \<not> control_char c \<Longrightarrow> length (body_string t) \<le> 4 * length t + 2"
proof (induction t)
  case (Cons c t)
  then show ?case using body_char_text [of c] by (simp add: body_string_def)
qed (simp add: body_string_def)

lemma digits_length: "n < 10 ^ k \<Longrightarrow> 0 < k \<Longrightarrow> length (digits n) \<le> k"
proof (induction k arbitrary: n)
  case (Suc k)
  show ?case
  proof (cases "n < 10")
    case True
    then show ?thesis by (subst digits.simps) simp
  next
    case False
    then have "0 < k" using Suc.prems by (cases k) auto
    moreover have "n div 10 < 10 ^ k" using Suc.prems(1) by (simp add: less_mult_imp_div_less mult.commute)
    ultimately show ?thesis using Suc.IH [of "n div 10"] False by (subst digits.simps) simp
  qed
qed simp

lemma body_field_length: "length (body_field k v) \<le> 6 * length k + 3 + length v"
  using body_string_length [of "uni k"] by (simp add: body_field_def)

lemma unit_body_length:
  assumes "sound_unit H x" "un_sequence x = int n" "n \<le> 500"
    "un_source_locator x = uni (prefix @ show_int (int n))" "length prefix \<le> 6" "\<forall>b. length (H b) = 64"
  shows "length (unit_body x) \<le> 4 * length (un_content x) + 1200"
proof -
  have d: "length (show_int (int n)) \<le> 3"
    using digits_length [of n 3] assms(3) by (simp add: show_int_def)
  have s: "length (uni (show_int (un_sequence x))) \<le> 3" using d assms(2) by simp
  have l: "length (body_string (un_source_locator x)) \<le> 56"
    using body_string_length [of "un_source_locator x"] d assms(4,5) by simp
  have k: "length (body_string (uni (kind_text (un_kind x)))) \<le> 110"
    using body_string_length [of "uni (kind_text (un_kind x))"]
    by (cases "un_kind x") (simp_all add: kind_text_def)
  have h: "length (body_string (uni (un_content_sha256 x))) \<le> 386"
    using body_string_length [of "uni (un_content_sha256 x)"] assms(1,6) by (simp add: sound_unit_def)
  have c: "length (body_string (un_content x)) \<le> 4 * length (un_content x) + 2"
    using assms(1) by (intro body_string_text) (simp add: sound_unit_def)
  show ?thesis
    using s l k h c
      body_field_length [of "''sequence''" "uni (show_int (un_sequence x))"]
      body_field_length [of "''unit_kind''" "body_string (uni (kind_text (un_kind x)))"]
      body_field_length [of "''source_locator''" "body_string (un_source_locator x)"]
      body_field_length [of "''content''" "body_string (un_content x)"]
      body_field_length [of "''content_sha256''" "body_string (uni (un_content_sha256 x))"]
    by (simp add: unit_body_def)
qed

lemma join_length: "length (join_text sep ts) \<le> sum_list (map length ts) + length sep * length ts"
  by (induction sep ts rule: join_text.induct) auto

lemma numbered_nth:
  assumes "numbered_units kind prefix n us" "i < length us"
  shows "un_sequence (us ! i) = int (n + i) \<and> un_source_locator (us ! i) = uni (prefix @ show_int (int (n + i)))"
proof -
  have "map un_sequence us ! i = map int [n..<n + length us] ! i"
    "map un_source_locator us ! i = map (\<lambda>k. uni (prefix @ show_int (int k))) [n..<n + length us] ! i"
    using assms(1) by (simp_all only: numbered_units_def)
  then show ?thesis using assms(2) by (simp del: uni_append)
qed

lemma units_length:
  assumes "numbered_units kind prefix 1 us" "length prefix \<le> 6" "length us \<le> 500"
    and "\<forall>x \<in> set us. sound_unit H x" "\<forall>b. length (H b) = 64"
  shows "length (join_text [44] (map unit_body us))
     \<le> 4 * sum_list (map (\<lambda>x. length (un_content x)) us) + 1201 * length us"
proof -
  have each: "length (unit_body x) \<le> 4 * length (un_content x) + 1200" if x: "x \<in> set us" for x
  proof -
    obtain i where i: "i < length us" "us ! i = x"
      using x [unfolded in_set_conv_nth] by blast
    note f = numbered_nth [OF assms(1) i(1), unfolded i(2)]
    show ?thesis
    proof (rule unit_body_length)
      show "sound_unit H x" using assms(4) x by blast
      show "un_sequence x = int (1 + i)" "un_source_locator x = uni (prefix @ show_int (int (1 + i)))"
        by (rule conjunct1 [OF f], rule conjunct2 [OF f])
      show "1 + i \<le> 500" using i(1) assms(3) by linarith
      show "length prefix \<le> 6" by (rule assms(2))
      show "\<forall>b. length (H b) = 64" by (rule assms(5))
    qed
  qed
  have "sum_list (map length (map unit_body us)) \<le> sum_list (map (\<lambda>x. 4 * length (un_content x) + 1200) us)"
    unfolding map_map comp_def by (rule sum_list_mono) (rule each)
  also have "\<dots> = 4 * sum_list (map (\<lambda>x. length (un_content x)) us) + 1200 * length us"
    by (induction us) auto
  finally show ?thesis using join_length [of "[44]" "map unit_body us"] by simp
qed

lemma field_bound: "length v \<le> n \<Longrightarrow> 6 * length k + 3 + n \<le> m \<Longrightarrow> length (body_field k v) \<le> m"
  using body_field_length [of k v] by linarith

lemma text_bound: "6 * length t + 2 \<le> n \<Longrightarrow> length (body_string (uni t)) \<le> n"
  using body_string_length [of "uni t"] by simp

lemma reply_length:
  assumes "units_sound H pdf us count" "\<forall>b. length (H b) = 64"
  shows "length (response_body (if pdf then ''PDF'' else ''DOCX'')
     \<lparr>rp_protocol_version = protocol_version, rp_parser_name = parser_name,
      rp_parser_version = parser_version, rp_units = us, rp_total_units = int (length us),
      rp_total_characters = int count\<rparr>) \<le> max_response_body"
proof -
  let ?label = "if pdf then ''PDF'' else ''DOCX''"
  obtain kind prefix where num: "numbered_units kind prefix 1 us" "length (prefix :: string) \<le> 6"
  proof (cases pdf)
    case True
    then show ?thesis using that [of PDF_PAGE "''page_''"] assms(1) by (simp add: units_sound_def)
  next
    case False
    then show ?thesis using that [of DOCX_LOGICAL_CHUNK "''chunk_''"] assms(1) by (simp add: units_sound_def)
  qed
  have len: "length us \<le> 500" and snd: "\<forall>x \<in> set us. sound_unit H x"
    and cnt: "count = sum_list (map (\<lambda>x. length (un_content x)) us)" "count \<le> 2000000"
    using assms(1) by (simp_all add: units_sound_def max_units_def max_total_chars_def)
  have d: "length (uni (show_int (int (length us)))) \<le> 3" "length (uni (show_int (int count))) \<le> 7"
    using digits_length [of "length us" 3] digits_length [of count 7] len cnt(2) by (simp_all add: show_int_def)
  let ?p = "body_field ''protocol_version'' (body_string (uni protocol_version))"
  let ?n = "body_field ''parser_name'' (body_string (uni parser_name))"
  let ?v = "body_field ''parser_version'' (body_string (uni parser_version))"
  let ?t = "body_field ''document_type'' (body_string (uni ?label))"
  let ?u = "body_field ''units'' ([91] @ join_text [44] (map unit_body us) @ [93])"
  let ?c = "body_field ''total_units'' (uni (show_int (int (length us))))"
  let ?k = "body_field ''total_characters'' (uni (show_int (int count)))"
  have p: "length ?p \<le> 200"
    by (rule field_bound, rule text_bound [of _ 20]) (simp_all add: protocol_version_def)
  have n: "length ?n \<le> 300"
    by (rule field_bound, rule text_bound [of _ 120]) (simp_all add: parser_name_def)
  have v: "length ?v \<le> 200"
    by (rule field_bound, rule text_bound [of _ 40]) (simp_all add: parser_version_def)
  have t: "length ?t \<le> 200"
    by (rule field_bound, rule text_bound [of _ 40]) simp_all
  have c: "length ?c \<le> 100" by (rule field_bound [OF d(1)]) simp
  have k: "length ?k \<le> 200" by (rule field_bound [OF d(2)]) simp
  have "length (join_text [44] (map unit_body us)) \<le> 4 * count + 1201 * length us"
    using units_length [OF num len snd assms(2)] cnt(1) by simp
  then have u: "length ?u \<le> 4 * 2000000 + 1201 * 500 + 100"
    using len cnt(2) by (intro field_bound [OF order_refl]) simp
  have "length (response_body ?label \<lparr>rp_protocol_version = protocol_version, rp_parser_name = parser_name,
      rp_parser_version = parser_version, rp_units = us, rp_total_units = int (length us),
      rp_total_characters = int count\<rparr>)
    = 8 + length ?p + length ?n + length ?v + length ?t + length ?u + length ?c + length ?k"
    by (simp add: response_body_def del: uni_simps if_split)
  then show ?thesis using p n v t u c k by (simp only: max_response_body_def)
qed

section \<open>The exchange\<close>

text \<open>The request \<open>send_document_for_parsing\<close> posts.\<close>

definition client_fields :: "string \<Rightarrow> string \<Rightarrow> int \<Rightarrow> string \<Rightarrow> request_fields" where
  "client_fields mime digest sz rid = \<lparr>rf_content_type = Some mime, rf_sha256 = Some digest,
     rf_size = Some sz, rf_protocol = Some protocol_version, rf_request_id = Some rid\<rparr>"

definition client_request :: "string \<Rightarrow> string \<Rightarrow> int \<Rightarrow> string \<Rightarrow> bytes \<Rightarrow> parse_request" where
  "client_request mime digest sz rid b = \<lparr>pq_file = b, pq_file_type = Some mime,
     pq_form = client_fields mime digest sz rid, pq_headers = client_fields mime digest sz rid\<rparr>"

definition http_reply :: "parse_reply \<Rightarrow> http_outcome" where
  "http_reply r = (case r of Parsed label resp \<Rightarrow> OkStatus (length (response_body label resp)) (Payload resp)
     | Refused st code msg rid \<Rightarrow> ErrorStatus st (Some (code, msg)))"

lemma receive_all:
  "n + length (concat cs) \<le> max_file_size_bytes \<Longrightarrow> receive_upload n cs = (concat cs, None)"
  by (induction cs arbitrary: n) auto

lemma received_bounded: "receive_upload n cs = (b, k) \<Longrightarrow> n \<le> max_file_size_bytes \<Longrightarrow>
    n + length b \<le> max_file_size_bytes"
proof (induction cs arbitrary: n b)
  case (Cons c cs)
  then show ?case
    by (cases "receive_upload (n + length c) cs") (fastforce split: if_splits)
qed simp

text \<open>The temporary file never outlives the request, and never holds more than the limit.\<close>

lemma no_temporary_file_left:
  "d (pv_tmp_name env) = None \<Longrightarrow> \<not> pv_unlink_fails env \<Longrightarrow> snd (parse_document env q d) = d"
  by (auto simp: parse_document_def cleanup_tmp_def path_exists_def Let_def fun_upd_idem
      split: option.splits prod.splits)

text \<open>The service answers in whatever protocol version it is asked for.\<close>

lemma protocol_is_echoed:
  "fst (parse_document env q d) = Parsed label r \<Longrightarrow> rp_protocol_version r = effective_protocol q"
  by (auto simp: parse_document_def parse_received_def Let_def
      split: if_splits option.splits prod.splits sum.splits extract_error.splits)

text \<open>
  C27. When the clean file of a document is intact and the isolated parser can extract it, one
  exchange ends in the client accepting exactly the extracted units: the reply is within the
  client's limits on bytes, units and characters, numbered without a gap, and every unit carries the
  digest of its text, which holds no tag and no control character.
\<close>

theorem parser_exchange_succeeds:
  assumes "verify_clean_file (pv_hash env) (pv_lower env) cenv ident digest sz = Inr b"
    and "mime \<in> {parser_pdf_mime, parser_docx_mime}"
    and "b \<noteq> []" "length b \<le> max_file_size_bytes"
    and "length digest = 64" "pv_lower env digest = digest" "strip_string digest = digest"
    and "\<forall>b. length (pv_hash env b) = 64" "\<not> pv_times_out env"
    and "run_extractor env (mime = parser_pdf_mime) b = Inr (us, count)"
  shows "send_document_for_parsing (pv_hash env) (pv_lower env) cenv
      (\<lambda>b. http_reply (fst (parse_document env (client_request mime digest sz rid b) d))) ident digest sz
    = Inr \<lparr>rp_protocol_version = protocol_version, rp_parser_name = parser_name,
        rp_parser_version = parser_version, rp_units = us, rp_total_units = int (length us),
        rp_total_characters = int count\<rparr>
    \<and> units_sound (pv_hash env) (mime = parser_pdf_mime) us count"
proof -
  let ?q = "client_request mime digest sz rid b"
  have sz: "sz = int (length b)" and h: "pv_lower env (pv_hash env b) = digest"
    using verified_clean_file [OF assms(1)] assms(6) by auto
  have ne: "digest \<noteq> ''''" "mime \<noteq> ''''" "protocol_version \<noteq> ''''"
    using assms(2,5) by (auto simp: parser_pdf_mime_def parser_docx_mime_def protocol_version_def)
  have q: "effective_content_type ?q = mime" "effective_sha256 (pv_lower env) ?q = digest"
    "effective_size ?q = Some (int (length b))" "effective_protocol ?q = protocol_version" "pq_file ?q = b"
    using ne assms(6,7) by (simp_all add: effective_content_type_def effective_sha256_def effective_size_def
        effective_protocol_def client_request_def client_fields_def sz)
  have rec: "receive_upload 0 (chunks (64 * 1024) b) = (b, None)"
    using receive_all [of 0 "chunks (64 * 1024) b"] assms(4) by (simp add: concat_chunks)
  have sound: "units_sound (pv_hash env) (mime = parser_pdf_mime) us count"
    using extracted_units_sound [OF assms(10)] .
  have "fst (parse_document env ?q d) = parse_received env ?q b"
    using assms(2-5) rec unfolding parse_document_def q Let_def by simp
  also have "\<dots> = Parsed (if mime = parser_pdf_mime then ''PDF'' else ''DOCX'')
      \<lparr>rp_protocol_version = protocol_version, rp_parser_name = parser_name,
        rp_parser_version = parser_version, rp_units = us, rp_total_units = int (length us),
        rp_total_characters = int count\<rparr>"
    using assms(9,10) by (simp add: parse_received_def q h Let_def)
  finally show ?thesis
    using reply_length [OF sound assms(8)] sound_units_validate [OF sound] sound
    by (simp add: send_document_for_parsing_def assms(1) http_reply_def not_less del: if_split)
qed

text \<open>One page with one sentence.\<close>

definition demo_digest :: string where "demo_digest = replicate 64 (CHR ''a'')"

definition demo_parser_env :: parser_env where
  "demo_parser_env = \<lparr>pv_open_pdf = (\<lambda>_. Inr (False, [Inr (uni ''The <b>vendor</b> shall comply.'')])),
     pv_open_docx = (\<lambda>_. Inl ''''), pv_nfkc = (\<lambda>t. t), pv_hash = (\<lambda>_. demo_digest), pv_lower = (\<lambda>t. t),
     pv_times_out = False, pv_new_id = ''id'', pv_tmp_name = ''parse.tmp'', pv_unlink_fails = False\<rparr>"

theorem parser_exchange_succeeds_witness:
  "send_document_for_parsing (pv_hash demo_parser_env) (pv_lower demo_parser_env) demo_clean_env
      (\<lambda>b. http_reply (fst (parse_document demo_parser_env
         (client_request parser_pdf_mime demo_digest 2 ''r'' b) Map.empty))) ''a.clean'' demo_digest 2
    = Inr \<lparr>rp_protocol_version = protocol_version, rp_parser_name = parser_name,
        rp_parser_version = parser_version,
        rp_units = [\<lparr>un_sequence = 1, un_kind = PDF_PAGE, un_source_locator = uni ''page_1'',
          un_content = uni ''The vendor shall comply.'', un_content_sha256 = demo_digest\<rparr>],
        rp_total_units = 1, rp_total_characters = 24\<rparr>"
proof -
  have clean: "verify_clean_file (pv_hash demo_parser_env) (pv_lower demo_parser_env) demo_clean_env
      ''a.clean'' demo_digest 2 = Inr [1, 2]"
    by (simp add: verify_clean_file_def demo_clean_env_def demo_parser_env_def path_exists_def
        is_symlink_def file_content_def)
  have "strip (uni demo_digest) = uni demo_digest"
    by (simp add: demo_digest_def uni_def strip_def lstrip_def rstrip_def is_space_def)
  then have strip: "strip_string demo_digest = demo_digest"
    by (simp add: strip_string_def) (simp add: uni_def comp_def)
  have cleaned: "normalize_text (\<lambda>t. t) (uni ''The <b>vendor</b> shall comply.'') = uni ''The vendor shall comply.''"
    by (simp add: normalize_text_def control_char_def strip_def lstrip_def rstrip_def is_space_def)
  have one: "show_int 1 = ''1''" by code_simp
  have plain: "\<forall>c \<in> set (uni ''The vendor shall comply.''). scalar c" by (simp add: scalar_def)
  have units: "run_extractor demo_parser_env (parser_pdf_mime = parser_pdf_mime) [1, 2] = Inr ([\<lparr>un_sequence = 1,
      un_kind = PDF_PAGE, un_source_locator = uni ''page_1'', un_content = uni ''The vendor shall comply.'',
      un_content_sha256 = demo_digest\<rparr>], 24)"
    using plain
    by (simp add: run_extractor_def extract_pdf_units_def demo_parser_env_def max_units_def unit_of_def
        compute_sha256_def cleaned max_chars_per_unit_def max_total_chars_def one Let_def del: uni_simps)
  show ?thesis
    using parser_exchange_succeeds [OF clean _ _ _ _ _ strip _ _ units, of "''r''" Map.empty]
    by (simp add: max_file_size_bytes_def demo_digest_def demo_parser_env_def)
qed

text \<open>Text beyond the limit of a unit is cut without a sign.\<close>

lemma long_page_is_truncated:
  assumes "build_units nfkc H kind prefix n count [Inr t] = Inr (us, count')"
  shows "\<exists>x. us = [x] \<and> un_content x = take max_chars_per_unit (normalize_text nfkc t)"
  using assms by (auto simp: Let_def map_sum_def dest: unit_of_fields split: if_splits option.splits sum.splits)

end
