(* ===== verification/NetworkBoundary.thy ===== *)
theory NetworkBoundary
  imports Bytes Filename
begin

text \<open>
  \<open>app/core/client_ip.py\<close> and \<open>app/core/host_validation.py\<close>: which address a request is
  attributed to, and which Host headers reach the application. \<open>ipaddress.ip_address\<close> of the
  standard library is written out (CPython 3.12).
\<close>

section \<open>ipaddress.ip\_address\<close>

definition comma :: nat where "comma = 44"
definition colon :: nat where "colon = 58"
definition percent :: nat where "percent = 37"

definition is_digit :: "nat \<Rightarrow> bool" where
  "is_digit c \<longleftrightarrow> 48 \<le> c \<and> c \<le> 57"

definition is_hex :: "nat \<Rightarrow> bool" where
  "is_hex c \<longleftrightarrow> is_digit c \<or> (65 \<le> c \<and> c \<le> 70) \<or> (97 \<le> c \<and> c \<le> 102)"

definition decimal :: "ustr \<Rightarrow> nat" where
  "decimal s = foldl (\<lambda>n c. 10 * n + (c - 48)) 0 s"

definition octet_ok :: "ustr \<Rightarrow> bool" where
  "octet_ok s \<longleftrightarrow> s \<noteq> [] \<and> list_all is_digit s \<and> length s \<le> 3
     \<and> \<not> (s \<noteq> [48] \<and> hd s = 48) \<and> decimal s \<le> 255"

definition is_ipv4 :: "ustr \<Rightarrow> bool" where
  "is_ipv4 s \<longleftrightarrow> slash \<notin> set s
     \<and> (let parts = split_on dot s in length parts = 4 \<and> list_all octet_ok parts)"

definition hextet_ok :: "ustr \<Rightarrow> bool" where
  "hextet_ok s \<longleftrightarrow> s \<noteq> [] \<and> length s \<le> 4 \<and> list_all is_hex s"

text \<open>The inner empty parts of \<open>parts\<close>, i.e. the positions of \<open>::\<close>.\<close>

definition skips :: "ustr list \<Rightarrow> nat list" where
  "skips parts = filter (\<lambda>i. parts ! i = []) [1..<length parts - 1]"

definition hextets_ok :: "ustr list \<Rightarrow> bool" where
  "hextets_ok parts \<longleftrightarrow>
     (case skips parts of
        [] \<Rightarrow> length parts = 8 \<and> list_all hextet_ok parts
      | [i] \<Rightarrow>
          let hi = (if hd parts = [] then i - 1 else i);
              lo = (if last parts = [] then length parts - i - 2 else length parts - i - 1)
          in (hd parts = [] \<longrightarrow> hi = 0) \<and> (last parts = [] \<longrightarrow> lo = 0) \<and> hi + lo \<le> 7
             \<and> list_all hextet_ok (take hi parts) \<and> list_all hextet_ok (drop (length parts - lo) parts)
      | _ \<Rightarrow> False)"

text \<open>A trailing dotted quad counts as two groups; its text is a valid pair of groups.\<close>

definition ipv6_groups :: "ustr \<Rightarrow> ustr list option" where
  "ipv6_groups s =
     (let parts = split_on colon s in
      if length parts < 3 then None
      else if dot \<in> set (last parts)
      then (if is_ipv4 (last parts) then Some (butlast parts @ [[48], [48]]) else None)
      else Some parts)"

definition scope_ok :: "ustr \<Rightarrow> bool" where
  "scope_ok s \<longleftrightarrow> percent \<notin> set s
     \<or> (let scope = tl (dropWhile (\<lambda>c. c \<noteq> percent) s) in scope \<noteq> [] \<and> percent \<notin> set scope)"

definition is_ipv6 :: "ustr \<Rightarrow> bool" where
  "is_ipv6 s \<longleftrightarrow> slash \<notin> set s \<and> scope_ok s
     \<and> (case ipv6_groups (takeWhile (\<lambda>c. c \<noteq> percent) s) of
          None \<Rightarrow> False | Some parts \<Rightarrow> length parts \<le> 9 \<and> hextets_ok parts)"

definition is_ip_address :: "ustr \<Rightarrow> bool" where
  "is_ip_address s \<longleftrightarrow> is_ipv4 s \<or> is_ipv6 s"

section \<open>client\_ip.py\<close>

definition max_forwarded_ip_length :: nat where "max_forwarded_ip_length = 45"

definition wildcard_proxies :: "ustr list" where
  "wildcard_proxies = [uni ''*'', uni ''0.0.0.0/0'', uni ''::/0'', uni ''0.0.0.0'', uni ''::'']"

fun trusted_entries :: "ustr list \<Rightarrow> string + ustr set" where
  "trusted_entries [] = Inr {}"
| "trusted_entries (e # es) =
     (let x = strip e in
      if x = [] then trusted_entries es
      else if x \<in> set wildcard_proxies then Inl ''wildcard trusted-proxy value is not allowed''
      else if slash \<in> set x then Inl ''CIDR ranges are not allowed for TRUSTED_PROXY_IPS''
      else if \<not> is_ip_address x then Inl ''invalid trusted-proxy IP''
      else map_sum id (insert x) (trusted_entries es))"

definition parse_trusted_proxy_ips :: "ustr option \<Rightarrow> string + ustr set" where
  "parse_trusted_proxy_ips raw =
     (case raw of None \<Rightarrow> Inr {}
      | Some t \<Rightarrow> if strip t = [] then Inr {} else trusted_entries (split_on comma t))"

definition validate_single_forwarded_ip :: "ustr \<Rightarrow> ustr option" where
  "validate_single_forwarded_ip value =
     (let v = strip value in
      if v = [] \<or> length v > max_forwarded_ip_length then None
      else if comma \<in> set v then None
      else if \<not> is_ip_address v then None
      else Some v)"

text \<open>\<open>peer\<close> is \<open>request.client.host\<close>, \<open>forwarded\<close> the \<open>X-Forwarded-For\<close> header.\<close>

definition resolve_client_ip :: "ustr set \<Rightarrow> ustr option \<Rightarrow> ustr option \<Rightarrow> ustr" where
  "resolve_client_ip trusted peer forwarded =
     (case peer of
        None \<Rightarrow> uni ''unknown''
      | Some p \<Rightarrow>
          if p = [] then uni ''unknown''
          else if trusted = {} \<or> p \<notin> trusted then p
          else (case forwarded of
                  None \<Rightarrow> p
                | Some f \<Rightarrow>
                    if f = [] then p
                    else (case validate_single_forwarded_ip f of None \<Rightarrow> p | Some v \<Rightarrow> v)))"

section \<open>host\_validation.py\<close>

text \<open>\<open>lc\<close> is \<open>str.lower\<close>.\<close>

definition host_admitted :: "(ustr \<Rightarrow> ustr) \<Rightarrow> ustr list \<Rightarrow> string \<Rightarrow> ustr option \<Rightarrow> bool" where
  "host_admitted lc allowed_hosts path host \<longleftrightarrow>
     (let allowed = set (map lc allowed_hosts) in
      allowed = {} \<or> path \<in> {''/healthz'', ''/health'', ''/readyz'', ''/metrics''}
      \<or> (let hostname = lc (strip (hd (split_on colon (case host of None \<Rightarrow> [] | Some h \<Rightarrow> h))))
         in hostname \<noteq> [] \<and> hostname \<in> allowed))"

section \<open>Who is believed\<close>

text \<open>Without a trusted proxy in between, no header changes the address.\<close>

lemma untrusted_peer:
  "p \<noteq> [] \<Longrightarrow> p \<notin> trusted \<Longrightarrow> resolve_client_ip trusted (Some p) forwarded = p"
  by (simp add: resolve_client_ip_def)

text \<open>A forwarded address is one well-formed address, named by a trusted proxy.\<close>

lemma forwarded_address:
  assumes "resolve_client_ip trusted (Some p) forwarded = a" and "a \<noteq> p" and "p \<noteq> []"
  shows "p \<in> trusted \<and> is_ip_address a \<and> comma \<notin> set a \<and> length a \<le> 45
    \<and> (\<exists>f. forwarded = Some f \<and> a = strip f)"
  using assms
  by (auto simp: resolve_client_ip_def validate_single_forwarded_ip_def Let_def max_forwarded_ip_length_def
      split: if_splits option.splits)

text \<open>The configured proxies are single addresses: no range, no wildcard.\<close>

lemma trusted_entries_are_addresses:
  "trusted_entries es = Inr T \<Longrightarrow> x \<in> T \<Longrightarrow>
   is_ip_address x \<and> slash \<notin> set x \<and> x \<notin> set wildcard_proxies"
proof (induction es arbitrary: T)
  case (Cons e es)
  then show ?case by (cases "trusted_entries es") (auto simp: Let_def split: if_splits)
qed simp

text \<open>The wildcard check is textual: another spelling of the unspecified address passes.\<close>

lemma unspecified_address_passes:
  "parse_trusted_proxy_ips (Some (uni ''0:0:0:0:0:0:0:0'')) = Inr {uni ''0:0:0:0:0:0:0:0''}"
  by (simp add: parse_trusted_proxy_ips_def strip_def lstrip_def rstrip_def is_space_def comma_def
      wildcard_proxies_def slash_def is_ip_address_def is_ipv6_def is_ipv4_def scope_ok_def percent_def
      ipv6_groups_def colon_def dot_def hextets_ok_def skips_def hextet_ok_def is_hex_def is_digit_def
      upt_rec Let_def)

end
