(* ===== verification/Regex.thy ===== *)
theory Regex
  imports Filename
begin

text \<open>
  The regular expressions of the program as data, with the order in which Python's backtracking
  matcher tries the ways to match. A place in a text is the character before it and what follows.
\<close>

type_synonym place = "nat option \<times> ustr"

datatype re =
    Eps
  | Cls "nat \<Rightarrow> bool"
  | Seq re re
  | Alt re re
  | Opt re
  | Many "nat \<Rightarrow> bool"
  | Plus "nat \<Rightarrow> bool"
  | Edge
  | Ahead "nat \<Rightarrow> bool"

text \<open>The ends of a greedy run, longest first.\<close>

fun runs :: "(nat \<Rightarrow> bool) \<Rightarrow> nat option \<Rightarrow> ustr \<Rightarrow> place list" where
  "runs P p [] = [(p, [])]"
| "runs P p (c # s) = (if P c then runs P (Some c) s @ [(p, c # s)] else [(p, c # s)])"

fun one_char :: "(nat \<Rightarrow> bool) \<Rightarrow> ustr \<Rightarrow> place list" where
  "one_char P [] = []"
| "one_char P (c # s) = (if P c then [(Some c, s)] else [])"

text \<open>\<open>\b\<close> for the word characters \<open>w\<close>.\<close>

definition at_edge :: "(nat \<Rightarrow> bool) \<Rightarrow> place \<Rightarrow> bool" where
  "at_edge w pl \<longleftrightarrow> (case fst pl of None \<Rightarrow> False | Some c \<Rightarrow> w c)
     \<noteq> (case snd pl of [] \<Rightarrow> False | c # s \<Rightarrow> w c)"

text \<open>The ends of all matches that start at a place, in the order they are tried.\<close>

primrec ends :: "(nat \<Rightarrow> bool) \<Rightarrow> re \<Rightarrow> place \<Rightarrow> place list" where
  "ends w Eps = (\<lambda>pl. [pl])"
| "ends w (Cls P) = (\<lambda>pl. one_char P (snd pl))"
| "ends w (Seq a b) = (\<lambda>pl. concat (map (ends w b) (ends w a pl)))"
| "ends w (Alt a b) = (\<lambda>pl. ends w a pl @ ends w b pl)"
| "ends w (Opt a) = (\<lambda>pl. ends w a pl @ [pl])"
| "ends w (Many P) = (\<lambda>pl. runs P (fst pl) (snd pl))"
| "ends w (Plus P) = (\<lambda>pl. concat (map (\<lambda>q. runs P (fst q) (snd q)) (one_char P (snd pl))))"
| "ends w Edge = (\<lambda>pl. if at_edge w pl then [pl] else [])"
| "ends w (Ahead P) = (\<lambda>pl. if one_char P (snd pl) \<noteq> [] then [pl] else [])"

text \<open>\<open>search\<close> at a place, and \<open>search\<close> and \<open>match\<close> of a whole text.\<close>

fun found_from :: "(nat \<Rightarrow> bool) \<Rightarrow> re \<Rightarrow> nat option \<Rightarrow> ustr \<Rightarrow> bool" where
  "found_from w r p [] = (ends w r (p, []) \<noteq> [])"
| "found_from w r p (c # s) = (ends w r (p, c # s) \<noteq> [] \<or> found_from w r (Some c) s)"

definition found :: "(nat \<Rightarrow> bool) \<Rightarrow> re \<Rightarrow> ustr \<Rightarrow> bool" where
  "found w r s = found_from w r None s"

definition matches_start :: "(nat \<Rightarrow> bool) \<Rightarrow> re \<Rightarrow> ustr \<Rightarrow> bool" where
  "matches_start w r s \<longleftrightarrow> ends w r (None, s) \<noteq> []"

text \<open>The pieces between the matches of a pattern, and the matches; no pattern of the program
  matches the empty text.\<close>

function pieces :: "(nat \<Rightarrow> bool) \<Rightarrow> re \<Rightarrow> nat option \<Rightarrow> ustr \<Rightarrow> ustr \<Rightarrow> ustr list \<times> ustr list" where
  "pieces w r p acc [] = ([acc], [])"
| "pieces w r p acc (c # s) =
     (case ends w r (p, c # s) of
        (q, t) # _ \<Rightarrow>
          (if length t < length (c # s) then
             (case pieces w r q [] t of
                (ps, ms) \<Rightarrow> (acc # ps, take (length (c # s) - length t) (c # s) # ms))
           else pieces w r (Some c) (acc @ [c]) s)
      | [] \<Rightarrow> pieces w r (Some c) (acc @ [c]) s)"
  by pat_completeness auto

termination
  by (relation "measure (\<lambda>(w, r, p, acc, s). length s)") auto

declare pieces.simps(2) [simp del]

definition re_split :: "(nat \<Rightarrow> bool) \<Rightarrow> re \<Rightarrow> ustr \<Rightarrow> ustr list" where
  "re_split w r s = fst (pieces w r None [] s)"

definition re_matches :: "(nat \<Rightarrow> bool) \<Rightarrow> re \<Rightarrow> ustr \<Rightarrow> ustr list" where
  "re_matches w r s = snd (pieces w r None [] s)"

fun join_with :: "ustr \<Rightarrow> ustr list \<Rightarrow> ustr" where
  "join_with sep [] = []"
| "join_with sep [t] = t"
| "join_with sep (t # ts) = t @ sep @ join_with sep ts"

definition re_sub :: "(nat \<Rightarrow> bool) \<Rightarrow> re \<Rightarrow> ustr \<Rightarrow> ustr \<Rightarrow> ustr" where
  "re_sub w r new s = join_with new (re_split w r s)"

text \<open>A letter under \<open>re.I\<close>: Python also lets the long s, the Kelvin sign and the two Turkish
  letters match.\<close>

definition same_letter :: "nat \<Rightarrow> nat \<Rightarrow> bool" where
  "same_letter a c \<longleftrightarrow> ascii_lower c = a \<or> (a = 115 \<and> c = 383) \<or> (a = 107 \<and> c = 8490)
     \<or> (a = 105 \<and> (c = 304 \<or> c = 305))"

definition word_re :: "string \<Rightarrow> re" where
  "word_re t = foldr (\<lambda>c r. Seq (Cls (same_letter (of_char c))) r) t Eps"

primrec any_re :: "re list \<Rightarrow> re" where
  "any_re [] = Alt (Cls (\<lambda>_. False)) (Cls (\<lambda>_. False))"
| "any_re (r # rs) = (if rs = [] then r else Alt r (any_re rs))"

primrec seq_re :: "re list \<Rightarrow> re" where
  "seq_re [] = Eps"
| "seq_re (r # rs) = Seq r (seq_re rs)"

definition spaces_re :: re where "spaces_re = Plus is_space"

section \<open>Where matches end\<close>

lemma runs_suffix: "(q, t) \<in> set (runs P p s) \<Longrightarrow> \<exists>a. s = a @ t"
  by (induction P p s rule: runs.induct) (auto split: if_splits intro: exI [of _ "_ # _"])

lemma one_char_suffix: "(q, t) \<in> set (one_char P s) \<Longrightarrow> \<exists>a. s = a @ t"
  by (cases s) (auto split: if_splits)

lemma ends_suffix: "(q, t) \<in> set (ends w r (p, s)) \<Longrightarrow> \<exists>a. s = a @ t"
proof (induction r arbitrary: p s q t)
  case (Seq a b)
  then obtain q' t' where m: "(q', t') \<in> set (ends w a (p, s))" "(q, t) \<in> set (ends w b (q', t'))" by auto
  then show ?case using Seq.IH(1) [OF m(1)] Seq.IH(2) [OF m(2)] by auto
next
  case (Plus P)
  then obtain q' t' where m: "(q', t') \<in> set (one_char P s)" "(q, t) \<in> set (runs P q' t')" by auto
  then show ?case using one_char_suffix [OF m(1)] runs_suffix [OF m(2)] by auto
qed (auto dest: runs_suffix one_char_suffix split: if_splits)

lemma piece_inside:
  "t \<in> set (fst (pieces w r p acc s)) \<Longrightarrow> \<exists>a b. acc @ s = a @ t @ b"
proof (induction w r p acc s rule: pieces.induct)
  case (1 w r p acc)
  then show ?case by (auto intro: exI [of _ "[]"])
next
  case (2 w r p acc c s)
  show ?case
  proof (cases "\<exists>q u rest. ends w r (p, c # s) = (q, u) # rest \<and> length u < length (c # s)")
    case True
    then obtain q u rest where e: "ends w r (p, c # s) = (q, u) # rest" "length u < length (c # s)" by blast
    obtain a where a: "c # s = a @ u" using ends_suffix [of q u w r p "c # s"] e(1) by auto
    have "t = acc \<or> t \<in> set (fst (pieces w r q [] u))"
      using "2.prems" e by (auto simp: pieces.simps(2) split: prod.splits)
    then show ?thesis
    proof
      assume "t \<in> set (fst (pieces w r q [] u))"
      from "2.IH"(2) [OF e(1) refl e(2) this] obtain x b where "u = x @ t @ b" by auto
      then have "acc @ c # s = (acc @ a @ x) @ t @ b" by (simp add: a)
      then show ?thesis by blast
    qed (auto intro: exI [of _ "[]"])
  next
    case False
    then have "pieces w r p acc (c # s) = pieces w r (Some c) (acc @ [c]) s"
      by (auto simp: pieces.simps(2) split: list.splits)
    then have "t \<in> set (fst (pieces w r (Some c) (acc @ [c]) s))" using "2.prems" by simp
    then show ?thesis
      using False "2.IH"(1,3)
      by (cases "ends w r (p, c # s)") (auto simp: not_less)
  qed
qed

lemma split_inside: "t \<in> set (re_split w r s) \<Longrightarrow> \<exists>a b. s = a @ t @ b"
  using piece_inside [of t w r None "[]" s] by (simp add: re_split_def)

end
