(* ===== verification/LlmExtraction.thy ===== *)
theory LlmExtraction
  imports Regex JsonText Grounding LegacyJob Exports "HOL-Library.Sublist"
begin

text \<open>
  The first half of \<open>app/core/llm.py\<close>: the prompt-injection patterns, the validated requirement
  draft, the normalisation and merging of near-duplicates, the reading of a model's JSON, and the
  rule-based extractor. The Unicode tables, \<open>str.casefold\<close> and \<open>repr\<close> are parameters.
\<close>

section \<open>Prompt injection\<close>

text \<open>\<open>\w\<close>, the value of a \<open>\d\<close>, \<open>str.casefold\<close> and \<open>repr\<close> of an optional text.\<close>

record unicode =
  uc_word :: "nat \<Rightarrow> bool"
  uc_digit :: "nat \<Rightarrow> nat option"
  uc_casefold :: "ustr \<Rightarrow> ustr"
  uc_repr :: "ustr option \<Rightarrow> ustr"

definition words_re :: "string list \<Rightarrow> re" where
  "words_re ts = any_re (map word_re ts)"

definition injection_patterns :: "re list" where
  "injection_patterns =
    [seq_re [word_re ''ignore'', spaces_re, words_re [''previous'', ''all'', ''above'', ''prior''], spaces_re,
       word_re ''instruction''],
     seq_re [word_re ''disregard'', spaces_re, words_re [''previous'', ''all'', ''above'', ''prior'']],
     seq_re [word_re ''you'', spaces_re, word_re ''are'', spaces_re, word_re ''now'', spaces_re],
     seq_re [word_re ''act'', spaces_re, word_re ''as'', spaces_re, words_re [''if'', ''a'', ''an''], spaces_re],
     seq_re [word_re ''mark'', spaces_re, word_re ''all'', spaces_re, word_re ''requirement'', Opt (word_re ''s''),
       spaces_re, word_re ''compliant''],
     seq_re [word_re ''system'', spaces_re, word_re ''prompt''],
     seq_re [word_re ''override'', spaces_re, Opt (Seq (word_re ''the'') spaces_re),
       words_re [''system'', ''instruction'']]]"

definition is_injection_text :: "unicode \<Rightarrow> ustr \<Rightarrow> bool" where
  "is_injection_text uc t = list_ex (\<lambda>r. found (uc_word uc) r t) injection_patterns"

section \<open>JSON in a model's answer\<close>

text \<open>The text before and after the first fence.\<close>

definition fence :: ustr where "fence = [96, 96, 96]"

fun at_fence :: "ustr \<Rightarrow> (ustr \<times> ustr) option" where
  "at_fence [] = None"
| "at_fence (c # s) = (if starts_with fence (c # s) then Some ([], drop 2 s)
     else map_option (apfst ((#) c)) (at_fence s))"

definition fenced_block :: "ustr \<Rightarrow> ustr option" where
  "fenced_block t = (case at_fence t of
       None \<Rightarrow> None
     | Some (_, r) \<Rightarrow>
         (case at_fence (if starts_with (uni ''json'') r then drop 4 r else r) of
            None \<Rightarrow> None | Some (body, _) \<Rightarrow> Some (strip body)))"

text \<open>From the first opening to the last closing bracket; \<open>None\<close> if one of them is missing.\<close>

definition outer_brackets :: "nat \<Rightarrow> nat \<Rightarrow> ustr \<Rightarrow> ustr option" where
  "outer_brackets a b t =
     (if a \<notin> set t \<or> b \<notin> set t then None
      else let start = length (takeWhile (\<lambda>c. c \<noteq> a) t);
               stop = length t - length (takeWhile (\<lambda>c. c \<noteq> b) (rev t))
           in Some (drop start (take stop t)))"

definition loads_option :: "ustr option \<Rightarrow> json_value option" where
  "loads_option t = (case t of None \<Rightarrow> None
     | Some s \<Rightarrow> (case json_loads s of Inr v \<Rightarrow> Some v | Inl e \<Rightarrow> None))"

definition parse_json_block :: "bool \<Rightarrow> ustr \<Rightarrow> json_value" where
  "parse_json_block is_list t =
     (case loads_option (fenced_block t) of Some v \<Rightarrow> v
      | None \<Rightarrow> (case loads_option (if is_list then outer_brackets 91 93 t else outer_brackets 123 125 t) of
            Some v \<Rightarrow> v
          | None \<Rightarrow> (case loads_option (Some (strip t)) of Some v \<Rightarrow> v
                    | None \<Rightarrow> if is_list then J_list [] else J_dict [])))"

section \<open>Drafts\<close>

text \<open>The draft of the old pipeline with the warnings.\<close>

record extracted_draft = requirement_draft +
  xd_warnings :: "ustr list"

definition validate_original_text :: "unicode \<Rightarrow> ustr \<Rightarrow> ustr option" where
  "validate_original_text uc t =
     (let v = strip t in if v = [] \<or> is_injection_text uc v then None else Some v)"

section \<open>Normalisation and merging\<close>

definition version_aliases :: "(re \<times> ustr) list" where
  "version_aliases = [(seq_re [Edge, word_re ''postgres'', Edge], uni ''postgresql''),
     (seq_re [Edge, word_re ''mfa'', Edge], uni ''multi-factor authentication'')]"

definition normalize_requirement :: "unicode \<Rightarrow> ustr \<Rightarrow> ustr" where
  "normalize_requirement uc t =
     (let a = foldl (\<lambda>s p. re_sub (uc_word uc) (fst p) (snd p) s) (strip (uc_casefold uc t)) version_aliases
      in strip (collapse_spaces (map (\<lambda>c. if word_char c \<or> is_space c then c else 32) a)))"

definition token_set :: "unicode \<Rightarrow> ustr \<Rightarrow> ustr set" where
  "token_set uc t = set (space_words (normalize_requirement uc t))"

definition token_overlap :: "unicode \<Rightarrow> ustr \<Rightarrow> ustr \<Rightarrow> rat" where
  "token_overlap uc a b =
     (if token_set uc a = {} \<or> token_set uc b = {} then 0 else jaccard (token_set uc a) (token_set uc b))"

definition overlap_threshold :: rat where "overlap_threshold = 3 / 4"

definition page_text :: "int option \<Rightarrow> ustr" where
  "page_text p = (case p of None \<Rightarrow> uni ''None'' | Some n \<Rightarrow> uni (show_int n))"

definition merge_warning :: "unicode \<Rightarrow> extracted_draft \<Rightarrow> ustr" where
  "merge_warning uc r = uni ''Merged duplicate from page '' @ page_text (rd_source_page r) @ uni '' section ''
     @ uc_repr uc (rd_source_section r) @ uni '': '' @ take 80 (rd_original_text r)"

text \<open>The first kept draft that overlaps enough takes the warning.\<close>

fun merge_into :: "unicode \<Rightarrow> rat \<Rightarrow> extracted_draft \<Rightarrow> extracted_draft list \<Rightarrow> extracted_draft list option" where
  "merge_into uc thr r [] = None"
| "merge_into uc thr r (e # es) =
     (if thr \<le> token_overlap uc (rd_original_text r) (rd_original_text e)
      then Some (e\<lparr>xd_warnings := xd_warnings e @ [merge_warning uc r]\<rparr> # es)
      else map_option ((#) e) (merge_into uc thr r es))"

definition keep_or_merge :: "unicode \<Rightarrow> rat \<Rightarrow> extracted_draft list \<Rightarrow> extracted_draft \<Rightarrow> extracted_draft list" where
  "keep_or_merge uc thr kept r = (case merge_into uc thr r kept of None \<Rightarrow> kept @ [r] | Some es \<Rightarrow> es)"

definition deduplicate_requirements :: "unicode \<Rightarrow> rat \<Rightarrow> extracted_draft list \<Rightarrow> extracted_draft list" where
  "deduplicate_requirements uc thr rs = foldl (keep_or_merge uc thr) [] rs"

section \<open>The rule-based extractor\<close>

definition req_trigger :: re where
  "req_trigger = seq_re [Edge, any_re [word_re ''must'', word_re ''shall'', word_re ''should'',
     seq_re [word_re ''required'', spaces_re, word_re ''to''], seq_re [word_re ''is'', spaces_re, word_re ''required''],
     seq_re [word_re ''will'', spaces_re, word_re ''be'', spaces_re, word_re ''required''],
     seq_re [word_re ''need'', spaces_re, word_re ''to''], seq_re [word_re ''needs'', spaces_re, word_re ''to''],
     Seq (word_re ''require'') (Opt (word_re ''s''))], Edge]"

definition mandatory_re :: re where
  "mandatory_re = seq_re [Edge, words_re [''must'', ''shall'', ''required''], Edge]"

definition is_digit :: "unicode \<Rightarrow> nat \<Rightarrow> bool" where
  "is_digit uc c \<longleftrightarrow> uc_digit uc c \<noteq> None"

definition page_marker :: "unicode \<Rightarrow> re" where
  "page_marker uc = seq_re [Cls (\<lambda>c. c = 91), word_re ''page'', spaces_re, Plus (is_digit uc), Cls (\<lambda>c. c = 93)]"

definition section_header :: "unicode \<Rightarrow> re" where
  "section_header uc = seq_re [Edge, word_re ''section'', spaces_re, Plus (\<lambda>c. is_digit uc c \<or> c = 46),
     Cls (\<lambda>c. c = 58 \<or> is_space c), Many (\<lambda>c. c \<noteq> 10)]"

definition sentence_end :: re where
  "sentence_end = seq_re [Cls (\<lambda>c. c = 46), spaces_re, Ahead (\<lambda>c. 65 \<le> c \<and> c \<le> 90)]"

definition classify_req_type :: "ustr \<Rightarrow> string" where
  "classify_req_type line =
     (let has = (\<lambda>ks. \<exists>k \<in> set ks. contains (uni k) (lower_text line)) in
      if has [''comply'', ''certif'', ''licen'', ''authoris'', ''authoriz'', ''registr'', ''soc'', ''iso'']
      then ''Compliance''
      else if has [''fee'', ''cost'', ''rate'', ''price'', ''margin'', ''payment'', ''loan''] then ''Commercial''
      else if has [''submit'', ''upload'', ''portal'', ''deadline'', ''form'', ''bid''] then ''Procedural''
      else ''Technical'')"

definition new_extracted :: "unicode \<Rightarrow> int option \<Rightarrow> ustr option \<Rightarrow> ustr \<Rightarrow> ustr \<Rightarrow> extracted_draft list" where
  "new_extracted uc page sec sentence t =
     (if \<not> found (uc_word uc) req_trigger sentence then []
      else case validate_original_text uc t of
        None \<Rightarrow> []
      | Some v \<Rightarrow> [\<lparr>rd_original_text = v, rd_source_section = sec, rd_source_page = page,
          rd_requirement_type = Some (classify_req_type sentence),
          rd_mandatory = found (uc_word uc) mandatory_re sentence, rd_risk_level = Some ''Medium'',
          xd_warnings = []\<rparr>])"

definition rstrip_dots_text :: "ustr \<Rightarrow> ustr" where
  "rstrip_dots_text t = rev (dropWhile (\<lambda>c. c = 46) (rev t))"

text \<open>Behind a sentence that looks like an injection, the rest of its line is still searched.\<close>

definition salvage_sentence :: "unicode \<Rightarrow> int option \<Rightarrow> ustr option \<Rightarrow> ustr \<Rightarrow> extracted_draft list" where
  "salvage_sentence uc page sec s =
     (let u = rstrip_dots_text (strip s) in
      if u = [] \<or> is_injection_text uc u then [] else new_extracted uc page sec u (u @ [46]))"

definition plain_sentence :: "unicode \<Rightarrow> int option \<Rightarrow> ustr option \<Rightarrow> ustr \<Rightarrow> extracted_draft list" where
  "plain_sentence uc page sec s =
     (let u = strip s in if u = [] \<or> is_injection_text uc u then [] else new_extracted uc page sec u u)"

definition section_name :: "ustr \<Rightarrow> ustr" where
  "section_name line = strip (hd (split_on 58 line))"

text \<open>\<open>int\<close> of the digits of the first marker.\<close>

definition marker_page :: "unicode \<Rightarrow> ustr \<Rightarrow> exc + int" where
  "marker_page uc m =
     (let ds = filter (is_digit uc) m in
      if length ds > max_int_digits then Inl (OtherException ''ValueError'')
      else Inr (int (foldl (\<lambda>n c. 10 * n + the (uc_digit uc c)) 0 ds)))"

type_synonym line_state = "int option \<times> ustr option \<times> extracted_draft list"

definition parse_line :: "unicode \<Rightarrow> line_state \<Rightarrow> ustr \<Rightarrow> exc + line_state" where
  "parse_line uc st raw =
     (case st of (page, sec, ds) \<Rightarrow>
       (let line = strip raw; w = uc_word uc in
        if line = [] then Inr st
        else case re_matches w (page_marker uc) line of
          m # ms \<Rightarrow>
            (case marker_page uc m of
               Inl e \<Rightarrow> Inl e
             | Inr n \<Rightarrow>
                 (let rest = strip (re_sub w (page_marker uc) [] line) in
                  Inr (Some n, if matches_start w (section_header uc) rest then Some (section_name rest) else sec, ds)))
        | [] \<Rightarrow>
            (if matches_start w (section_header uc) line then Inr (page, Some (section_name line), ds)
             else if is_injection_text uc line then
               Inr (page, sec, ds @ concat (map (salvage_sentence uc page sec) (tl (re_split w sentence_end line))))
             else Inr (page, sec, ds @ concat (map (plain_sentence uc page sec) (re_split w sentence_end line))))))"

fun parse_lines :: "unicode \<Rightarrow> line_state \<Rightarrow> ustr list \<Rightarrow> exc + line_state" where
  "parse_lines uc st [] = Inr st"
| "parse_lines uc st (l # ls) = (case parse_line uc st l of Inl e \<Rightarrow> Inl e | Inr st' \<Rightarrow> parse_lines uc st' ls)"

definition parse_rfp_text :: "unicode \<Rightarrow> ustr \<Rightarrow> exc + extracted_draft list" where
  "parse_rfp_text uc t = (case parse_lines uc (None, None, []) (split_on 10 t) of
       Inl e \<Rightarrow> Inl e
     | Inr (_, _, ds) \<Rightarrow> Inr (deduplicate_requirements uc overlap_threshold ds))"

section \<open>Every draft quotes the document and carries no injection\<close>

definition inside :: "ustr \<Rightarrow> ustr \<Rightarrow> bool" where
  "inside u t \<longleftrightarrow> (\<exists>a b. t = a @ u @ b)"

lemma inside_refl: "inside u u"
  unfolding inside_def by (metis append_Nil append_Nil2)

lemma inside_trans: "inside u v \<Longrightarrow> inside v t \<Longrightarrow> inside u t"
  unfolding inside_def by (metis append.assoc)

lemma strip_inside: "inside (strip t) t"
proof -
  obtain b where b: "lstrip t = rstrip (lstrip t) @ b" using rstrip_prefix by blast
  have "t = takeWhile is_space t @ strip t @ b" using b by (simp add: strip_def lstrip_def)
  then show ?thesis unfolding inside_def by blast
qed

lemma rstrip_dots_inside: "inside (rstrip_dots_text t) t"
proof -
  have "rev t = takeWhile (\<lambda>c. c = 46) (rev t) @ dropWhile (\<lambda>c. c = 46) (rev t)" by simp
  then have "t = rstrip_dots_text t @ rev (takeWhile (\<lambda>c. c = 46) (rev t))"
    unfolding rstrip_dots_text_def by (metis rev_append rev_rev_ident)
  then show ?thesis unfolding inside_def by (metis append_Nil)
qed

lemma split_on_inside: "l \<in> set (split_on c t) \<Longrightarrow> inside l t"
proof (induction t arbitrary: l)
  case Nil
  then show ?case by (simp add: inside_refl)
next
  case (Cons x t)
  have tail: "inside l (x # t)" if "l \<in> set (split_on c t)" for l
    using Cons.IH [OF that] unfolding inside_def by (metis append_Cons)
  obtain y ys where s: "split_on c t = y # ys" using split_on_not_Nil by (metis list.exhaust)
  have pre: "\<exists>r. t = y @ r" using s
  proof (induction t arbitrary: y ys)
    case (Cons z t)
    then show ?case by (auto split: if_splits list.splits)
  qed simp
  then have "inside (x # y) (x # t)" unfolding inside_def by (metis append_Cons append_Nil)
  moreover have "inside [] (x # t)" unfolding inside_def by (metis append_Nil)
  ultimately show ?case using Cons.prems tail s by (auto split: if_splits)
qed

definition quotes :: "ustr \<Rightarrow> ustr \<Rightarrow> bool" where
  "quotes t source \<longleftrightarrow> (\<exists>u. inside u source \<and> (t = u \<or> t = u @ [46]))"

definition clean_draft :: "unicode \<Rightarrow> ustr \<Rightarrow> 'a requirement_draft_scheme \<Rightarrow> bool" where
  "clean_draft uc source d \<longleftrightarrow> rd_original_text d \<noteq> [] \<and> strip (rd_original_text d) = rd_original_text d
     \<and> \<not> is_injection_text uc (rd_original_text d) \<and> quotes (rd_original_text d) source"

lemma validated_text:
  "validate_original_text uc t = Some v \<Longrightarrow> v = strip t \<and> v \<noteq> [] \<and> \<not> is_injection_text uc v"
  by (auto simp: validate_original_text_def Let_def split: if_splits)

lemma new_extracted_clean:
  "d \<in> set (new_extracted uc page sec sentence t) \<Longrightarrow> quotes (strip t) source \<Longrightarrow> clean_draft uc source d"
  by (cases "validate_original_text uc t")
    (auto simp: new_extracted_def clean_draft_def dest: validated_text split: if_splits)

lemma plain_sentence_clean:
  assumes "d \<in> set (plain_sentence uc page sec s)" "inside s source"
  shows "clean_draft uc source d"
proof -
  have "d \<in> set (new_extracted uc page sec (strip s) (strip s))"
    using assms(1) by (auto simp: plain_sentence_def Let_def split: if_splits)
  moreover have "quotes (strip (strip s)) source"
    using inside_trans [OF strip_inside assms(2)] by (auto simp: quotes_def)
  ultimately show ?thesis by (rule new_extracted_clean)
qed

lemma strip_dotted:
  assumes "u \<noteq> []" "\<not> is_space (hd u)"
  shows "strip (u @ [46]) = u @ [46]"
proof -
  have "lstrip (u @ [46]) = u @ [46]" using assms by (intro lstrip_nonspace_hd) auto
  moreover have "rstrip (u @ [46]) = u @ [46]" by (intro rstrip_nonspace_last) (auto simp: is_space_def)
  ultimately show ?thesis by (simp add: strip_def)
qed

lemma strip_hd: "strip t \<noteq> [] \<Longrightarrow> \<not> is_space (hd (strip t))"
  unfolding strip_def by (metis lstrip_hd rstrip_hd rstrip_def dropWhile.simps(1) rev.simps(1))

lemma salvage_sentence_clean:
  assumes "d \<in> set (salvage_sentence uc page sec s)" "inside s source"
  shows "clean_draft uc source d"
proof -
  let ?u = "rstrip_dots_text (strip s)"
  have u: "?u \<noteq> []" "d \<in> set (new_extracted uc page sec ?u (?u @ [46]))"
    using assms(1) by (auto simp: salvage_sentence_def Let_def split: if_splits)
  obtain b where b: "strip s = ?u @ b"
  proof -
    have "rev (strip s) = takeWhile (\<lambda>c. c = 46) (rev (strip s)) @ dropWhile (\<lambda>c. c = 46) (rev (strip s))" by simp
    then have "strip s = ?u @ rev (takeWhile (\<lambda>c. c = 46) (rev (strip s)))"
      unfolding rstrip_dots_text_def by (metis rev_append rev_rev_ident)
    then show ?thesis using that by blast
  qed
  have "hd ?u = hd (strip s)" "strip s \<noteq> []" using b u(1) by (metis hd_append2, metis Nil_is_append_conv)
  then have "strip (?u @ [46]) = ?u @ [46]" using strip_dotted u(1) strip_hd by metis
  moreover have "inside ?u source"
    using inside_trans [OF rstrip_dots_inside inside_trans [OF strip_inside assms(2)]] .
  ultimately have "quotes (strip (?u @ [46])) source" by (auto simp: quotes_def)
  then show ?thesis using new_extracted_clean [OF u(2)] by blast
qed

lemma parse_line_clean:
  assumes "parse_line uc (page, sec, ds) raw = Inr (page', sec', ds')" "inside raw source"
    and "\<forall>d \<in> set ds. clean_draft uc source d"
  shows "\<forall>d \<in> set ds'. clean_draft uc source d"
proof -
  have line: "inside (strip raw) source" using inside_trans [OF strip_inside assms(2)] .
  have piece: "inside s source" if "s \<in> set (re_split (uc_word uc) sentence_end (strip raw))" for s
    using split_inside [OF that] line inside_trans unfolding inside_def by metis
  have tail: "s \<in> set (re_split (uc_word uc) sentence_end (strip raw))"
    if "s \<in> set (tl (re_split (uc_word uc) sentence_end (strip raw)))" for s
    using that by (cases "re_split (uc_word uc) sentence_end (strip raw)") auto
  show ?thesis
    using assms(1,3) salvage_sentence_clean plain_sentence_clean piece tail
    by (auto simp: parse_line_def Let_def split: if_splits list.splits sum.splits)
qed

lemma parse_lines_clean:
  "parse_lines uc (page, sec, ds) ls = Inr (page', sec', ds') \<Longrightarrow> \<forall>l \<in> set ls. inside l source \<Longrightarrow>
   \<forall>d \<in> set ds. clean_draft uc source d \<Longrightarrow> \<forall>d \<in> set ds'. clean_draft uc source d"
proof (induction ls arbitrary: page sec ds)
  case (Cons l ls)
  obtain p2 s2 d2 where st: "parse_line uc (page, sec, ds) l = Inr (p2, s2, d2)"
    using Cons.prems(1) by (cases "parse_line uc (page, sec, ds) l") auto
  have "\<forall>d \<in> set d2. clean_draft uc source d"
    using parse_line_clean [OF st _ Cons.prems(3)] Cons.prems(2) by simp
  then show ?case using Cons.IH [of p2 s2 d2] Cons.prems st by simp
qed simp

section \<open>Merging\<close>

lemma merge_into_text:
  "merge_into uc thr r es = Some es' \<Longrightarrow> map rd_original_text es' = map rd_original_text es"
  by (induction es arbitrary: es') (auto split: if_splits)

lemma merge_into_some:
  "merge_into uc thr r es = Some es' \<Longrightarrow> \<exists>e \<in> set es. thr \<le> token_overlap uc (rd_original_text r) (rd_original_text e)"
  by (induction es arbitrary: es') (auto split: if_splits)

lemma merge_into_none:
  "merge_into uc thr r es = None \<Longrightarrow> e \<in> set es \<Longrightarrow> token_overlap uc (rd_original_text r) (rd_original_text e) < thr"
  by (induction es) (auto simp: not_le split: if_splits)

definition texts_apart :: "unicode \<Rightarrow> rat \<Rightarrow> ustr list \<Rightarrow> bool" where
  "texts_apart uc thr ts \<longleftrightarrow> sorted_wrt (\<lambda>a b. token_overlap uc b a < thr) ts"

lemma keep_or_merge_texts:
  "map rd_original_text (keep_or_merge uc thr kept r) = map rd_original_text kept
   \<or> map rd_original_text (keep_or_merge uc thr kept r) = map rd_original_text kept @ [rd_original_text r]"
  by (auto simp: keep_or_merge_def dest: merge_into_text split: option.splits)

lemma keep_or_merge_apart:
  assumes "texts_apart uc thr (map rd_original_text kept)"
  shows "texts_apart uc thr (map rd_original_text (keep_or_merge uc thr kept r))"
  using assms
  by (auto simp: keep_or_merge_def texts_apart_def sorted_wrt_append dest: merge_into_text merge_into_none
      split: option.splits)

lemma keep_or_merge_covers:
  "\<exists>t \<in> set (map rd_original_text (keep_or_merge uc thr kept r)).
     t = rd_original_text r \<or> thr \<le> token_overlap uc (rd_original_text r) t"
proof (cases "merge_into uc thr r kept")
  case None
  then show ?thesis by (simp add: keep_or_merge_def)
next
  case (Some es)
  then show ?thesis
    using merge_into_some [OF Some] merge_into_text [OF Some] by (auto simp: keep_or_merge_def)
qed

lemma dedup_fold:
  "texts_apart uc thr (map rd_original_text kept) \<Longrightarrow>
   texts_apart uc thr (map rd_original_text (foldl (keep_or_merge uc thr) kept rs))
   \<and> (\<exists>ks. subseq ks (map rd_original_text rs)
        \<and> map rd_original_text (foldl (keep_or_merge uc thr) kept rs) = map rd_original_text kept @ ks)
   \<and> (\<forall>r \<in> set rs. \<exists>t \<in> set (map rd_original_text (foldl (keep_or_merge uc thr) kept rs)).
        t = rd_original_text r \<or> thr \<le> token_overlap uc (rd_original_text r) t)"
proof (induction rs arbitrary: kept)
  case (Cons r rs)
  let ?k = "keep_or_merge uc thr kept r"
  note ih = Cons.IH [OF keep_or_merge_apart [OF Cons.prems, of r]]
  then obtain ks where ks: "subseq ks (map rd_original_text rs)"
    "map rd_original_text (foldl (keep_or_merge uc thr) ?k rs) = map rd_original_text ?k @ ks" by blast
  have "\<exists>ks'. subseq ks' (map rd_original_text (r # rs))
      \<and> map rd_original_text (foldl (keep_or_merge uc thr) ?k rs) = map rd_original_text kept @ ks'"
  proof (cases "map rd_original_text ?k = map rd_original_text kept")
    case True
    have "subseq ks (map rd_original_text (r # rs))" using ks(1) by (simp add: list_emb_Cons)
    then show ?thesis using ks(2) True by auto
  next
    case False
    then have "map rd_original_text ?k = map rd_original_text kept @ [rd_original_text r]"
      using keep_or_merge_texts [of uc thr kept r] by blast
    moreover have "subseq (rd_original_text r # ks) (map rd_original_text (r # rs))" using ks(1) by simp
    ultimately show ?thesis using ks(2) by (metis append.assoc append_Cons append_Nil)
  qed
  moreover have "\<exists>t \<in> set (map rd_original_text (foldl (keep_or_merge uc thr) ?k rs)).
      t = rd_original_text r \<or> thr \<le> token_overlap uc (rd_original_text r) t"
    using keep_or_merge_covers [of uc thr kept r] ks(2) by auto
  ultimately show ?case using ih by simp
qed simp

lemma clean_draft_text: "rd_original_text d = rd_original_text e \<Longrightarrow> clean_draft uc t d = clean_draft uc t e"
  by (simp add: clean_draft_def)

text \<open>
  C38. Whatever the text of an RFP is, the rule-based extractor only drafts requirements whose
  text stands in the document (a final dot aside), is stripped and not empty, and matches none of the
  injection patterns; and no two drafts overlap by three quarters of their words.
\<close>

theorem drafts_quote_the_document:
  assumes "parse_rfp_text uc t = Inr ds"
  shows "(\<forall>d \<in> set ds. clean_draft uc t d) \<and> texts_apart uc (3 / 4) (map rd_original_text ds)"
proof -
  obtain page sec raw where p: "parse_lines uc (None, None, []) (split_on 10 t) = Inr (page, sec, raw)"
    and ds: "ds = foldl (keep_or_merge uc overlap_threshold) [] raw"
    using assms by (auto simp: parse_rfp_text_def deduplicate_requirements_def split: sum.splits)
  have "\<forall>d \<in> set raw. clean_draft uc t d"
    by (rule parse_lines_clean [OF p]) (auto intro: split_on_inside)
  moreover obtain ks where ks: "subseq ks (map rd_original_text raw)" "map rd_original_text ds = ks"
    and apart: "texts_apart uc overlap_threshold (map rd_original_text ds)"
    using dedup_fold [of uc overlap_threshold "[]" raw] unfolding ds by (auto simp: texts_apart_def)
  moreover have "\<exists>e \<in> set raw. rd_original_text d = rd_original_text e" if "d \<in> set ds" for d
  proof -
    have "rd_original_text d \<in> set ks" using that ks(2) by auto
    then have "rd_original_text d \<in> set (map rd_original_text raw)"
      using subseq_singleton_left subseq_order.order_trans ks(1) by metis
    then show ?thesis by auto
  qed
  ultimately show ?thesis unfolding overlap_threshold_def by (metis clean_draft_text)
qed

definition ascii_unicode :: unicode where
  "ascii_unicode = \<lparr>uc_word = (\<lambda>c. word_char c \<or> (65 \<le> c \<and> c \<le> 90) \<or> c = 95),
     uc_digit = (\<lambda>c. if 48 \<le> c \<and> c \<le> 57 then Some (c - 48) else None),
     uc_casefold = lower_text, uc_repr = (\<lambda>_. [])\<rparr>"

lemma ascii_unicode_simps:
  "uc_word ascii_unicode = (\<lambda>c. word_char c \<or> (65 \<le> c \<and> c \<le> 90) \<or> c = 95)"
  "uc_digit ascii_unicode = (\<lambda>c. if 48 \<le> c \<and> c \<le> 57 then Some (c - 48) else None)"
  by (simp_all add: ascii_unicode_def)

lemmas regex_eval = re_matches_def re_split_def re_sub_def found_def matches_start_def pieces.simps
  at_edge_def same_letter_def ascii_lower_def word_re_def words_re_def spaces_re_def page_marker_def
  section_header_def sentence_end_def req_trigger_def mandatory_re_def is_digit_def ascii_unicode_simps
  word_char_def is_space_def

lemma demo_line: "parse_line ascii_unicode (Some 9, None, []) (uni ''it must do'') =
   Inr (Some 9, None, [\<lparr>rd_original_text = uni ''it must do'', rd_source_section = None, rd_source_page = Some 9,
     rd_requirement_type = Some ''Technical'', rd_mandatory = True, rd_risk_level = Some ''Medium'',
     xd_warnings = []\<rparr>])"
  by (simp add: parse_line_def regex_eval strip_def lstrip_def rstrip_def plain_sentence_def is_injection_text_def
      injection_patterns_def new_extracted_def validate_original_text_def classify_req_type_def lower_text_def
      starts_with_def Let_def)

lemma demo_marker: "parse_line ascii_unicode (p, None, []) (uni ''[PAGE 9]'') = Inr (Some 9, None, [])"
  by (simp add: parse_line_def regex_eval strip_def lstrip_def rstrip_def marker_page_def max_int_digits_def Let_def)

definition demo_text :: ustr where
  "demo_text = uni ''[PAGE 1]'' @ [10] @ uni ''[PAGE 9]'' @ [10] @ uni ''it must do''"

definition demo_draft :: extracted_draft where
  "demo_draft = \<lparr>rd_original_text = uni ''it must do'', rd_source_section = None, rd_source_page = Some 9,
     rd_requirement_type = Some ''Technical'', rd_mandatory = True, rd_risk_level = Some ''Medium'', xd_warnings = []\<rparr>"

lemma demo_marker_one: "parse_line ascii_unicode (None, None, []) (uni ''[PAGE 1]'') = Inr (Some 1, None, [])"
  by (simp add: parse_line_def regex_eval strip_def lstrip_def rstrip_def marker_page_def max_int_digits_def Let_def)

lemma demo_parsed: "parse_rfp_text ascii_unicode demo_text = Inr [demo_draft]"
proof -
  have "split_on 10 demo_text = [uni ''[PAGE 1]'', uni ''[PAGE 9]'', uni ''it must do'']"
    by (simp add: demo_text_def)
  then show ?thesis
    by (simp add: parse_rfp_text_def demo_line demo_marker demo_marker_one deduplicate_requirements_def
        keep_or_merge_def demo_draft_def del: uni_simps)
qed

theorem drafts_quote_the_document_witness: "clean_draft ascii_unicode demo_text demo_draft"
  using drafts_quote_the_document [OF demo_parsed] by simp

text \<open>The page a draft names is the last marker before it, and the text of a page can hold one: a
  single page numbered 1 yields a requirement of page 9.\<close>

lemma page_marker_is_forgeable:
  assumes "pg_page_number p = 1" "pg_content p = uni ''[PAGE 9]'' @ [10] @ uni ''it must do''"
  shows "parse_rfp_text ascii_unicode (batch_text [p]) = Inr [demo_draft]"
proof -
  have one: "show_int 1 = ''1''" by code_simp
  have "batch_text [p] = demo_text" by (simp add: batch_text_def assms one demo_text_def)
  then show ?thesis by (simp only: demo_parsed)
qed

end
