(* ===== verification/Observability.thy ===== *)
theory Observability
  imports Schema JsonText Filename Clamav FileStore
begin

text \<open>
  \<open>app/core/observability.py\<close>, \<open>app/core/readiness.py\<close> and the middleware, the probes and the
  exception handler of \<open>app/main.py\<close>: the counters of the process, the log formatter with its
  redaction, the metrics page as its lines, and what readiness depends on. The texts of floats are a
  parameter, the clock a number of milliseconds.
\<close>

section \<open>The registry\<close>

text \<open>Dictionaries keep the order in which their keys were first set.\<close>

fun put_count :: "'k \<Rightarrow> int \<Rightarrow> ('k \<times> int) list \<Rightarrow> ('k \<times> int) list" where
  "put_count k n [] = [(k, n)]"
| "put_count k n ((j, m) # xs) = (if j = k then (j, n) # xs else (j, m) # put_count k n xs)"

definition count_of :: "'k \<Rightarrow> ('k \<times> int) list \<Rightarrow> int" where
  "count_of k xs = (case map_of xs k of None \<Rightarrow> 0 | Some n \<Rightarrow> n)"

definition bump :: "'k \<Rightarrow> ('k \<times> int) list \<Rightarrow> ('k \<times> int) list" where
  "bump k xs = put_count k (count_of k xs + 1) xs"

record metrics =
  mt_request_counts :: "((ustr \<times> ustr \<times> int) \<times> int) list"
  mt_request_latencies :: "((ustr \<times> ustr) \<times> int list) list"
  mt_llm_calls :: "((ustr \<times> ustr \<times> ustr) \<times> int) list"
  mt_llm_estimated_cost :: rat
  mt_evidence_validation_failures :: int
  mt_session_creations :: int
  mt_session_idle_expirations :: int
  mt_session_absolute_expirations :: int
  mt_session_logout_revocations :: int
  mt_session_admin_revocations :: int
  mt_session_store_failures :: int
  mt_login_throttle_decisions :: "(ustr \<times> int) list"

definition fresh_metrics :: metrics where
  "fresh_metrics = \<lparr>mt_request_counts = [], mt_request_latencies = [], mt_llm_calls = [],
     mt_llm_estimated_cost = 0, mt_evidence_validation_failures = 0, mt_session_creations = 0,
     mt_session_idle_expirations = 0, mt_session_absolute_expirations = 0,
     mt_session_logout_revocations = 0, mt_session_admin_revocations = 0,
     mt_session_store_failures = 0, mt_login_throttle_decisions = []\<rparr>"

section \<open>CorrelationIdAndMetricsMiddleware\<close>

definition safe_id_char :: "nat \<Rightarrow> bool" where
  "safe_id_char c \<longleftrightarrow> (97 \<le> c \<and> c \<le> 122) \<or> (65 \<le> c \<and> c \<le> 90) \<or> (48 \<le> c \<and> c \<le> 57) \<or> c = 45 \<or> c = 95"

text \<open>\<open>$\<close> also matches before a final line feed.\<close>

definition safe_id :: "ustr \<Rightarrow> bool" where
  "safe_id t = (let u = (if t \<noteq> [] \<and> last t = 10 then butlast t else t) in
     1 \<le> length u \<and> length u \<le> 50 \<and> list_all safe_id_char u)"

record http_request =
  hq_path :: ustr
  hq_method :: ustr
  hq_request_id :: "ustr option"
  hq_accept :: ustr

record http_response =
  hr_status :: int
  hr_request_id :: "ustr option"
  hr_location :: "ustr option"

definition request_id_of :: "ustr \<Rightarrow> http_request \<Rightarrow> ustr" where
  "request_id_of new_id q = (case hq_request_id q of None \<Rightarrow> new_id
     | Some t \<Rightarrow> if t \<noteq> [] \<and> safe_id t then t else new_id)"

text \<open>The last hundred latencies of a route.\<close>

definition push_latency :: "int \<Rightarrow> int list \<Rightarrow> int list" where
  "push_latency ms xs = (let ys = xs @ [ms] in if length ys > 100 then tl ys else ys)"

fun put_latency :: "'k \<Rightarrow> int \<Rightarrow> ('k \<times> int list) list \<Rightarrow> ('k \<times> int list) list" where
  "put_latency k ms [] = [(k, push_latency ms [])]"
| "put_latency k ms ((j, xs) # rest) =
     (if j = k then (j, push_latency ms xs) # rest else (j, xs) # put_latency k ms rest)"

text \<open>\<open>handle\<close> is the rest of the application, given the request id of the context; an exception
  passes through without being counted.\<close>

definition dispatch_metrics :: "ustr \<Rightarrow> int \<Rightarrow> (ustr option \<Rightarrow> http_request \<Rightarrow> exc + http_response)
    \<Rightarrow> http_request \<Rightarrow> metrics \<Rightarrow> (exc + http_response) \<times> metrics" where
  "dispatch_metrics new_id ms handle q m =
     (if starts_with (uni ''/static'') (hq_path q) then (handle None q, m)
      else case handle (Some (request_id_of new_id q)) q of
        Inl e \<Rightarrow> (Inl e, m)
      | Inr r \<Rightarrow>
          (Inr (r\<lparr>hr_request_id := Some (request_id_of new_id q)\<rparr>),
           m\<lparr>mt_request_counts := bump (hq_path q, hq_method q, hr_status r) (mt_request_counts m),
             mt_request_latencies := put_latency (hq_path q, hq_method q) ms (mt_request_latencies m)\<rparr>))"

text \<open>\<open>http_exception_handler\<close>: a browser without a session is sent to the login page.\<close>

definition http_exception_response :: "http_request \<Rightarrow> int \<Rightarrow> http_response" where
  "http_exception_response q status =
     (if status = 401 \<and> hq_method q = uni ''GET'' \<and> contains (uni ''text/html'') (hq_accept q)
      then \<lparr>hr_status = 303, hr_request_id = None, hr_location = Some (uni ''/login'')\<rparr>
      else \<lparr>hr_status = status, hr_request_id = None, hr_location = None\<rparr>)"

section \<open>JSONFormatter\<close>

datatype logged = Plain json_value | Opaque ustr

record log_record =
  lr_level :: ustr
  lr_logger :: ustr
  lr_message :: ustr
  lr_event :: ustr
  lr_attributes :: "(ustr \<times> logged) list"
  lr_exception :: "(ustr \<times> ustr \<times> ustr) option"

definition sensitive_keys :: "ustr list" where
  "sensitive_keys = map uni [''prompt'', ''completion'', ''text'', ''secret'', ''key'', ''token'', ''password'',
     ''cookie'', ''auth_header'', ''email'', ''hashed_password'', ''document_content'', ''csrf_token'',
     ''session_secret_key'', ''anthropic_api_key'']"

text \<open>\<open>str.lower\<close> as far as it can produce one of these words: besides the capitals, the Kelvin
  sign becomes a k.\<close>

definition lower_key :: "ustr \<Rightarrow> ustr" where
  "lower_key t = map (\<lambda>c. if c = 8490 then 107 else ascii_lower c) t"

definition sensitive :: "ustr \<Rightarrow> bool" where
  "sensitive k \<longleftrightarrow> (\<exists>w \<in> set sensitive_keys. contains w (lower_key k))"

definition redacted :: json_value where "redacted = J_str (uni ''[REDACTED]'')"

text \<open>The first character of the first part of \<open>split("@")\<close>, three stars, and the second part; an empty
  local part raises an \<open>IndexError\<close>.\<close>

definition mask_email :: "ustr \<Rightarrow> exc + json_value" where
  "mask_email t = (let parts = split_on 64 t in
     if parts ! 0 = [] then Inl (OtherException ''IndexError'')
     else Inr (J_str ([hd (parts ! 0)] @ uni ''***@'' @ parts ! 1)))"

definition mask_value :: "ustr list \<Rightarrow> ustr \<Rightarrow> logged \<Rightarrow> exc + json_value" where
  "mask_value masked k v =
     (if \<not> sensitive k then Inr (case v of Plain x \<Rightarrow> x | Opaque t \<Rightarrow> J_str t)
      else case v of
        Plain (J_str t) \<Rightarrow> if k \<in> set masked \<and> 64 \<in> set t then mask_email t else Inr redacted
      | _ \<Rightarrow> Inr redacted)"

fun mask_all :: "ustr list \<Rightarrow> (ustr \<times> logged) list \<Rightarrow> exc + (ustr \<times> json_value) list" where
  "mask_all masked [] = Inr []"
| "mask_all masked ((k, v) # xs) = (case mask_value masked k v of
       Inl e \<Rightarrow> Inl e
     | Inr x \<Rightarrow> (case mask_all masked xs of Inl e \<Rightarrow> Inl e | Inr ys \<Rightarrow> Inr ((k, x) # ys)))"

definition copied_attributes :: "ustr list" where
  "copied_attributes = map uni [''org_id'', ''user_id'', ''project_id'', ''document_id'', ''job_id'',
     ''latency_ms'', ''status_code'', ''method'', ''route'']"

definition standard_attributes :: "ustr list" where
  "standard_attributes = map uni [''args'', ''asctime'', ''created'', ''exc_info'', ''exc_text'', ''filename'',
     ''funcName'', ''levelname'', ''levelno'', ''lineno'', ''module'', ''msecs'', ''message'', ''msg'', ''name'',
     ''pathname'', ''process'', ''processName'', ''relativeCreated'', ''stack_info'', ''thread'', ''threadName'']"

text \<open>\<open>show\<close> is \<open>str\<close> of an attribute.\<close>

definition base_fields :: "(logged \<Rightarrow> ustr) \<Rightarrow> ustr \<Rightarrow> ustr option \<Rightarrow> log_record \<Rightarrow> (ustr \<times> logged) list" where
  "base_fields shw now req_id r =
     [(uni ''timestamp'', Plain (J_str (now @ uni ''Z''))), (uni ''level'', Plain (J_str (lr_level r))),
      (uni ''logger'', Plain (J_str (lr_logger r))), (uni ''message'', Plain (J_str (lr_message r))),
      (uni ''event'', Plain (J_str (lr_event r)))]
     @ (case req_id of None \<Rightarrow> [] | Some t \<Rightarrow> if t = [] then [] else [(uni ''request_id'', Plain (J_str t))])
     @ concat (map (\<lambda>a. case map_of (lr_attributes r) a of None \<Rightarrow> []
          | Some v \<Rightarrow> [(a, Plain (J_str (shw v)))]) copied_attributes)
     @ (case lr_exception r of None \<Rightarrow> []
        | Some (kind, msg, trace) \<Rightarrow> [(uni ''exception_type'', Plain (J_str kind)),
            (uni ''exception_message'', Plain (J_str msg)), (uni ''stack_trace'', Plain (J_str trace))])"

definition extra_fields :: "(ustr \<times> logged) list \<Rightarrow> log_record \<Rightarrow> (ustr \<times> logged) list" where
  "extra_fields base r = filter (\<lambda>kv. fst kv \<notin> set standard_attributes \<and> fst kv \<notin> fst ` set base)
     (lr_attributes r)"

text \<open>The object that is dumped; the first pass also masks a \<open>user_id\<close> with an at sign.\<close>

definition format_record :: "(logged \<Rightarrow> ustr) \<Rightarrow> ustr \<Rightarrow> ustr option \<Rightarrow> log_record \<Rightarrow> exc + (ustr \<times> json_value) list" where
  "format_record shw now req_id r =
     (let base = base_fields shw now req_id r in
      case mask_all [uni ''email'', uni ''user_id''] base of
        Inl e \<Rightarrow> Inl e
      | Inr xs \<Rightarrow> (case mask_all [uni ''email''] (extra_fields base r) of
            Inl e \<Rightarrow> Inl e | Inr ys \<Rightarrow> Inr (xs @ ys)))"

section \<open>What the log keeps\<close>

lemma mask_value_cases:
  "mask_value masked k v = Inr x \<Longrightarrow> sensitive k \<Longrightarrow>
   x = redacted \<or> (k \<in> set masked \<and> (\<exists>t. v = Plain (J_str t) \<and> mask_email t = Inr x))"
  by (auto simp: mask_value_def split: logged.splits json_value.splits if_splits)

lemma mask_all_in:
  "mask_all masked xs = Inr ys \<Longrightarrow> (k, x) \<in> set ys \<Longrightarrow> \<exists>v. (k, v) \<in> set xs \<and> mask_value masked k v = Inr x"
  by (induction xs arbitrary: ys) (auto split: sum.splits, blast+)

lemma mask_all_keys: "mask_all masked xs = Inr ys \<Longrightarrow> map fst ys = map fst xs"
  by (induction xs arbitrary: ys) (auto split: sum.splits)

definition base_names :: "ustr list" where
  "base_names = map uni [''timestamp'', ''level'', ''logger'', ''message'', ''event'', ''request_id'',
     ''exception_type'', ''exception_message'', ''stack_trace''] @ copied_attributes"

lemma base_field_names: "kv \<in> set (base_fields shw now req_id r) \<Longrightarrow> fst kv \<in> set base_names"
  by (auto simp: base_fields_def base_names_def simp del: uni_simps split: option.splits if_splits)

lemma base_names_not_sensitive: "\<forall>k \<in> set base_names. \<not> sensitive k"
  by (simp add: base_names_def copied_attributes_def sensitive_def sensitive_keys_def lower_key_def
      ascii_lower_def starts_with_def)

lemma mask_email_hides:
  assumes "mask_email t = Inr x"
  shows "\<exists>c d. x = J_str (c # uni ''***@'' @ d) \<and> t \<noteq> [] \<and> hd t = c"
proof -
  have "hd t = hd (split_on 64 t ! 0)" if "split_on 64 t ! 0 \<noteq> []"
    using that by (cases t; cases "split_on 64 (tl t)") (auto split: if_splits)
  moreover have "t \<noteq> []" if "split_on 64 t ! 0 \<noteq> []" using that by (cases t) auto
  ultimately show ?thesis using assms by (auto simp: mask_email_def Let_def split: if_splits)
qed


definition demo_record :: log_record where
  "demo_record = \<lparr>lr_level = uni ''INFO'', lr_logger = uni ''app'', lr_message = uni ''hi'', lr_event = uni ''hi'',
     lr_attributes = [(uni ''API_Key'', Plain (J_str (uni ''sk-1''))), (uni ''email'', Plain (J_str (uni ''bob@x'')))],
     lr_exception = None\<rparr>"

lemma demo_formatted: "format_record (\<lambda>_. []) [] None demo_record
    = Inr (map (\<lambda>kv. (fst kv, case snd kv of Plain v \<Rightarrow> v | Opaque t \<Rightarrow> J_str t)) (base_fields (\<lambda>_. []) [] None demo_record)
        @ [(uni ''API_Key'', redacted), (uni ''email'', J_str (uni ''b***@x''))])"
  by (simp add: format_record_def demo_record_def base_fields_def extra_fields_def copied_attributes_def
      standard_attributes_def mask_value_def sensitive_def sensitive_keys_def lower_key_def ascii_lower_def
      starts_with_def mask_email_def Let_def)


text \<open>An address without a local part makes the formatter raise, and a \<open>user_id\<close> is never
  masked although the first pass provides for it.\<close>

lemma malformed_email_breaks_logging:
  "format_record shw now None (demo_record\<lparr>lr_attributes := [(uni ''email'', Plain (J_str (uni ''@x'')))]\<rparr>)
     = Inl (OtherException ''IndexError'')"
  by (simp add: format_record_def demo_record_def base_fields_def extra_fields_def copied_attributes_def
      standard_attributes_def mask_value_def sensitive_def sensitive_keys_def lower_key_def ascii_lower_def
      starts_with_def mask_email_def Let_def)

lemma user_id_is_never_masked: "\<not> sensitive (uni ''user_id'')"
  using base_names_not_sensitive by (simp add: base_names_def copied_attributes_def del: uni_simps)

section \<open>The middleware\<close>

lemma put_latency_bounded:
  "\<forall>(k, xs) \<in> set ls. length xs \<le> 100 \<Longrightarrow> \<forall>(k, xs) \<in> set (put_latency k ms ls). length xs \<le> 100"
  by (induction ls) (auto simp: push_latency_def Let_def split: if_splits)

lemma latencies_bounded:
  "\<forall>(k, xs) \<in> set (mt_request_latencies m). length xs \<le> 100 \<Longrightarrow>
   \<forall>(k, xs) \<in> set (mt_request_latencies (snd (dispatch_metrics new_id ms handle q m))). length xs \<le> 100"
  using put_latency_bounded [of "mt_request_latencies m" "(hq_path q, hq_method q)" ms]
  by (auto simp: dispatch_metrics_def split: sum.splits)

text \<open>The counters are kept by the path of the request, not by its route: every new path adds an
  entry that is never removed.\<close>

lemma put_count_length:
  "k \<notin> fst ` set xs \<Longrightarrow> length (put_count k n xs) = length xs + 1"
  by (induction k n xs rule: put_count.induct) auto

lemma new_path_grows_registry:
  assumes "\<not> starts_with (uni ''/static'') (hq_path q)" "handle (Some (request_id_of new_id q)) q = Inr r"
    and "(hq_path q, hq_method q, hr_status r) \<notin> fst ` set (mt_request_counts m)"
  shows "length (mt_request_counts (snd (dispatch_metrics new_id ms handle q m))) = length (mt_request_counts m) + 1"
  using assms by (simp add: dispatch_metrics_def bump_def put_count_length)

lemma put_count_value: "map_of (put_count k n xs) k = Some n"
  by (induction k n xs rule: put_count.induct) auto

lemma put_count_other: "j \<noteq> k \<Longrightarrow> map_of (put_count k n xs) j = map_of xs j"
  by (induction k n xs rule: put_count.induct) auto

lemma bump_counts: "count_of j (bump k xs) = count_of j xs + (if j = k then 1 else 0)"
  by (simp add: bump_def count_of_def put_count_value put_count_other)

section \<open>The metrics page\<close>

text \<open>The lines of the page. A sample is a metric with its labels and the text of its value; the
  header lines come with every sample that has a help text.\<close>

fun join_commas :: "ustr list \<Rightarrow> ustr" where
  "join_commas [] = []"
| "join_commas [t] = t"
| "join_commas (t # ts) = t @ 44 # join_commas ts"

definition sample_text :: "string \<Rightarrow> (string \<times> ustr) list \<Rightarrow> ustr \<Rightarrow> ustr" where
  "sample_text name labels v =
     (if labels = [] then uni name @ [32] @ v
      else uni name @ [123] @ join_commas (map (\<lambda>kv. uni (fst kv) @ [61, 34] @ snd kv @ [34]) labels) @ [125, 32] @ v)"

definition add_metric :: "string \<Rightarrow> ustr \<Rightarrow> (string \<times> ustr) list \<Rightarrow> string \<Rightarrow> string \<Rightarrow> ustr list" where
  "add_metric name v labels kind help =
     (if help = '''' then [] else [uni (''# HELP '' @ name @ '' '' @ help), uni (''# TYPE '' @ name @ '' '' @ kind)])
     @ [sample_text name labels v]"

definition help_line :: "string \<Rightarrow> string \<Rightarrow> ustr" where
  "help_line name help = uni (''# HELP '' @ name @ '' '' @ help)"

lemma add_metric_help:
  "help \<noteq> '''' \<Longrightarrow> help_line name help \<in> set (add_metric name v labels kind help)"
  by (simp add: add_metric_def help_line_def)

definition num :: "int \<Rightarrow> ustr" where "num n = uni (show_int n)"

text \<open>\<open>LIKE 'EXPORT_%'\<close>: the underscore stands for any one character.\<close>

definition export_action :: "string \<Rightarrow> bool" where
  "export_action a \<longleftrightarrow> take 6 a = ''EXPORT'' \<and> 6 < length a"

text \<open>The groups of \<open>GROUP BY status, job_type\<close>, in the order of their first row.\<close>

definition job_groups :: "processing_job list \<Rightarrow> ((string \<times> string) \<times> int) list" where
  "job_groups js = map (\<lambda>g. (g, int (length (filter (\<lambda>j. (jb_status j, jb_job_type j) = g) js))))
     (remdups (map (\<lambda>j. (jb_status j, jb_job_type j)) js))"

definition counted :: "('a \<Rightarrow> bool) \<Rightarrow> 'a list \<Rightarrow> int" where
  "counted P xs = int (length (filter P xs))"

definition approval_rate :: "int \<Rightarrow> int \<Rightarrow> rat" where
  "approval_rate approved n = (if n > 0 then of_int approved / of_int n else 0)"

definition database_metrics :: "(nat \<Rightarrow> rat \<Rightarrow> ustr) \<Rightarrow> project list \<Rightarrow> document list \<Rightarrow> db \<Rightarrow> int \<Rightarrow> ustr list" where
  "database_metrics rounded prs docs d failures =
     (let with_status = (\<lambda>s. counted (\<lambda>q. rq_status q = s) (requirements d)) in
      add_metric ''pilot_projects_active'' (num (int (length prs))) [] ''gauge'' ''Total active projects in pilot''
    @ add_metric ''document_uploads_total'' (num (counted (\<lambda>x. d_processing_status x = ''succeeded'') docs))
        [(''status'', uni ''success'')] ''counter'' ''Total uploaded documents count''
    @ add_metric ''document_uploads_total'' (num (counted (\<lambda>x. d_processing_status x = ''failed'') docs))
        [(''status'', uni ''failure'')] ''counter'' ''''
    @ concat (map (\<lambda>g. add_metric ''processing_jobs_total'' (num (snd g))
        [(''status'', uni (fst (fst g))), (''job_type'', uni (snd (fst g)))] ''counter'' ''Total background jobs count'')
        (job_groups (processing_jobs d)))
    @ add_metric ''processing_job_retries_total'' (num (int (sum_list (map jb_attempts (processing_jobs d))))) []
        ''counter'' ''Total background job retry attempts''
    @ add_metric ''requirements_total'' (num (with_status ''NEEDS_REVIEW'')) [(''status'', uni ''NEEDS_REVIEW'')]
        ''gauge'' ''Requirements count by status''
    @ add_metric ''requirements_total'' (num (with_status ''APPROVED'')) [(''status'', uni ''APPROVED'')] ''gauge'' ''''
    @ add_metric ''requirements_total'' (num (with_status ''NEEDS_EVIDENCE'')) [(''status'', uni ''NEEDS_EVIDENCE'')]
        ''gauge'' ''''
    @ add_metric ''requirements_approval_rate''
        (rounded 4 (approval_rate (with_status ''APPROVED'') (int (length (requirements d))))) []
        ''gauge'' ''Ratio of approved requirements to total''
    @ add_metric ''evidence_validation_failures_total'' (num failures) []
        ''counter'' ''Total evidence candidate or citation validation failures''
    @ add_metric ''proposal_exports_total'' (num (counted (\<lambda>e. export_action (ev_action e)) (audit d))) []
        ''counter'' ''Total proposals or compliance matrices exported'')"

definition average :: "int list \<Rightarrow> rat" where
  "average xs = (if xs = [] then 0 else of_int (sum_list xs) / of_nat (length xs))"

definition process_metrics :: "(nat \<Rightarrow> rat \<Rightarrow> ustr) \<Rightarrow> metrics \<Rightarrow> ustr list" where
  "process_metrics rounded m =
      concat (map (\<lambda>((route, meth, status), n). add_metric ''http_requests_total'' (num n)
        [(''route'', route), (''method'', meth), (''status'', num status)] ''counter'' ''Total HTTP requests handled'')
        (mt_request_counts m))
    @ concat (map (\<lambda>((route, meth), xs). add_metric ''http_request_duration_ms_average'' (rounded 2 (average xs))
        [(''route'', route), (''method'', meth)] ''gauge'' ''Average HTTP request latency in ms'')
        (mt_request_latencies m))
    @ concat (map (\<lambda>((provider, model, operation), n). add_metric ''llm_calls_total'' (num n)
        [(''provider'', provider), (''model'', model), (''operation'', operation)] ''counter''
        ''Total AI LLM provider calls'') (mt_llm_calls m))
    @ add_metric ''llm_cost_estimated_usd'' (rounded 6 (mt_llm_estimated_cost m)) [] ''counter''
        ''Aggregated cost of all LLM calls in USD''
    @ add_metric ''session_creations_total'' (num (mt_session_creations m)) [] ''counter''
        ''Total server-side sessions created''
    @ add_metric ''session_expirations_total'' (num (mt_session_idle_expirations m)) [(''reason'', uni ''idle'')]
        ''counter'' ''Total sessions expired by idle timeout''
    @ add_metric ''session_expirations_total'' (num (mt_session_absolute_expirations m))
        [(''reason'', uni ''absolute'')] ''counter'' ''''
    @ add_metric ''session_revocations_total'' (num (mt_session_logout_revocations m)) [(''reason'', uni ''logout'')]
        ''counter'' ''Total sessions revoked''
    @ add_metric ''session_revocations_total'' (num (mt_session_admin_revocations m)) [(''reason'', uni ''admin'')]
        ''counter'' ''''
    @ add_metric ''session_store_failures_total'' (num (mt_session_store_failures m)) [] ''counter''
        ''Total session-store (Redis) operation failures''
    @ concat (map (\<lambda>(decision, n). add_metric ''login_throttle_decisions_total'' (num n) [(''decision'', decision)]
        ''counter'' ''Total login-throttle decisions by outcome'') (mt_login_throttle_decisions m))"

definition generate_prometheus_metrics ::
  "(nat \<Rightarrow> rat \<Rightarrow> ustr) \<Rightarrow> project list \<Rightarrow> document list \<Rightarrow> db \<Rightarrow> metrics \<Rightarrow> ustr list" where
  "generate_prometheus_metrics rounded prs docs d m =
     database_metrics rounded prs docs d (mt_evidence_validation_failures m) @ process_metrics rounded m"

text \<open>With two requested pages the page states the help of one metric twice, which the exposition
  format does not allow.\<close>

lemma help_is_repeated:
  assumes "mt_request_counts m = a # b # rest"
  shows "2 \<le> count_list (process_metrics rounded m) (help_line ''http_requests_total'' ''Total HTTP requests handled'')"
proof -
  obtain r1 n1 where a: "a = (r1, n1)" by (cases a)
  obtain r2 n2 where b: "b = (r2, n2)" by (cases b)
  obtain p1 q1 s1 where r1: "r1 = (p1, q1, s1)" by (cases r1)
  obtain p2 q2 s2 where r2: "r2 = (p2, q2, s2)" by (cases r2)
  show ?thesis
    by (simp add: process_metrics_def assms a b r1 r2 add_metric_def help_line_def del: uni_simps uni_append)
qed

lemma approval_rate_range:
  "0 \<le> approved \<Longrightarrow> approved \<le> n \<Longrightarrow> 0 \<le> approval_rate approved n \<and> approval_rate approved n \<le> 1"
  by (auto simp: approval_rate_def divide_le_eq)

section \<open>Readiness\<close>

text \<open>The configured root as the file system shows it, and whether the probe file can be
  created, closed and removed there.\<close>

record storage_env =
  st_exists :: bool
  st_is_symlink :: bool
  st_is_dir :: bool
  st_create_fails :: bool
  st_unlink_fails :: bool

definition check_quarantine_storage :: "storage_env \<Rightarrow> string \<Rightarrow> dir \<Rightarrow> bool \<times> dir" where
  "check_quarantine_storage env probe d =
     (if \<not> st_exists env \<or> st_is_symlink env \<or> \<not> st_is_dir env then (False, d)
      else if st_create_fails env \<or> d probe \<noteq> None then (False, d)
      else if st_unlink_fails env then (False, d(probe \<mapsto> RegularFile []))
      else (True, (d(probe \<mapsto> RegularFile []))(probe := None)))"

text \<open>The database answers a query, the session store a save, a get and a delete.\<close>

definition readiness_check :: "bool \<Rightarrow> bool \<Rightarrow> storage_env \<Rightarrow> string \<Rightarrow> peer \<Rightarrow> dir \<Rightarrow> (exc + unit) \<times> dir" where
  "readiness_check db_ok store_ok env probe scanner d =
     (if \<not> db_ok then (Inl (HTTPException 503 ''Database not ready''), d)
      else if \<not> store_ok then (Inl (HTTPException 503 ''Session store not ready''), d)
      else case check_quarantine_storage env probe d of
        (False, d') \<Rightarrow> (Inl (HTTPException 503 ''Quarantine storage not ready''), d')
      | (True, d') \<Rightarrow>
          (if check_connectivity scanner then (Inr (), d')
           else (Inl (HTTPException 503 ''Scanner not ready''), d')))"

text \<open>Ready means that all four dependencies answered; and the probe leaves the quarantine as it
  was, unless its own file cannot be removed.\<close>

lemma ready_means_ready:
  "fst (readiness_check db_ok store_ok env probe scanner d) = Inr () \<longleftrightarrow>
     db_ok \<and> store_ok \<and> st_exists env \<and> \<not> st_is_symlink env \<and> st_is_dir env \<and> \<not> st_create_fails env
     \<and> d probe = None \<and> \<not> st_unlink_fails env \<and> check_connectivity scanner"
  by (auto simp: readiness_check_def check_quarantine_storage_def)

lemma probe_leaves_no_trace:
  "\<not> st_unlink_fails env \<Longrightarrow> snd (readiness_check db_ok store_ok env probe scanner d) = d"
  by (auto simp: readiness_check_def check_quarantine_storage_def)

end
