(* ===== verification/Evaluation.thy ===== *)
theory Evaluation
  imports Llm
begin

text \<open>
  \<open>scripts/run_ai_eval.py\<close>: the golden cases that gate the language model. A case is scored into a
  tally, the tallies are added, and the thresholds decide. The provider is a pair of functions on the
  telemetry state; \<open>lc\<close> is \<open>str.lower\<close>, \<open>rnd\<close> is \<open>round\<close>. Ratios are exact.
\<close>

section \<open>The fixtures\<close>

record expected_requirement =
  xr_original_text :: ustr
  xr_source_page :: "int option"

record expected_draft =
  xd_requirement :: ustr
  xd_needs_evidence :: bool
  xd_answer_contains :: ustr

record integrity_case =
  ic_description :: ustr
  ic_document_text :: ustr
  ic_document_page :: int
  ic_client_page :: "int option"
  ic_client_snippet :: ustr
  ic_expected_status :: string

record draft_case =
  gc_draft_text :: ustr
  gc_evidence_snippets :: "ustr list"
  gc_expected_pass :: bool

record eval_case =
  ec_name :: ustr
  ec_source_text :: ustr
  ec_expected_requirements :: "expected_requirement list"
  ec_evidence_snippets :: "evidence_snippet list"
  ec_expected_drafts :: "expected_draft list"
  ec_integrity_cases :: "integrity_case list"
  ec_draft_cases :: "draft_case list"

section \<open>Matching\<close>

definition match_threshold :: rat where "match_threshold = 55 / 100"

definition same_requirement :: "unicode \<Rightarrow> ustr \<Rightarrow> ustr \<Rightarrow> bool" where
  "same_requirement uc a b \<longleftrightarrow> match_threshold \<le> token_overlap uc a b"

text \<open>Each expected text takes the first extracted one that is still free and overlaps with it; the
  pairs are the positions.\<close>

definition first_match :: "unicode \<Rightarrow> nat set \<Rightarrow> ustr list \<Rightarrow> ustr \<Rightarrow> nat option" where
  "first_match uc used extracted t =
     find (\<lambda>j. j \<notin> used \<and> same_requirement uc t (extracted ! j)) [0..<length extracted]"

fun match_from :: "unicode \<Rightarrow> nat \<Rightarrow> (nat \<times> nat) list \<Rightarrow> ustr list \<Rightarrow> ustr list \<Rightarrow> (nat \<times> nat) list" where
  "match_from uc i ms extracted [] = ms"
| "match_from uc i ms extracted (t # ts) =
     match_from uc (i + 1)
       (case first_match uc (snd ` set ms) extracted t of None \<Rightarrow> ms | Some j \<Rightarrow> ms @ [(i, j)]) extracted ts"

definition match_requirements :: "unicode \<Rightarrow> ustr list \<Rightarrow> ustr list \<Rightarrow> (nat \<times> nat) list" where
  "match_requirements uc expected extracted = match_from uc 0 [] extracted expected"

text \<open>The page is compared with that of the first overlapping requirement matched to anything.\<close>

definition page_checks :: "unicode \<Rightarrow> expected_requirement list \<Rightarrow> extracted_draft list \<Rightarrow> (nat \<times> nat) list \<Rightarrow> nat \<times> nat" where
  "page_checks uc expected extracted ms =
     (let checked = List.map_filter (\<lambda>(i, _). map_option (Pair i)
            (find (\<lambda>j. j \<in> snd ` set ms \<and> same_requirement uc (xr_original_text (expected ! i))
               (rd_original_text (extracted ! j))) [0..<length extracted])) ms
      in (length checked,
          length (filter (\<lambda>(i, j). rd_source_page (extracted ! j) = xr_source_page (expected ! i)) checked)))"

section \<open>The tally\<close>

record tally =
  ta_tp :: nat
  ta_fp :: nat
  ta_fn :: nat
  ta_unsupported_claims :: nat
  ta_evidence_attempts :: nat
  ta_evidence_covered :: nat
  ta_pages_checked :: nat
  ta_pages_correct :: nat
  ta_fabricated_rejected :: nat
  ta_invalid_citation_rejected :: nat
  ta_validation_attempts :: nat
  ta_validation_correct :: nat
  ta_grounding_attempts :: nat
  ta_grounding_passed :: nat
  ta_grounding_correct :: nat
  ta_unsupported_claim_count :: nat

definition no_tally :: tally where
  "no_tally = \<lparr>ta_tp = 0, ta_fp = 0, ta_fn = 0, ta_unsupported_claims = 0, ta_evidence_attempts = 0,
     ta_evidence_covered = 0, ta_pages_checked = 0, ta_pages_correct = 0, ta_fabricated_rejected = 0,
     ta_invalid_citation_rejected = 0, ta_validation_attempts = 0, ta_validation_correct = 0,
     ta_grounding_attempts = 0, ta_grounding_passed = 0, ta_grounding_correct = 0, ta_unsupported_claim_count = 0\<rparr>"

definition score_extraction :: "unicode \<Rightarrow> expected_requirement list \<Rightarrow> extracted_draft list \<Rightarrow> tally \<Rightarrow> tally" where
  "score_extraction uc expected extracted a =
     (let ms = match_requirements uc (map xr_original_text expected) (map rd_original_text extracted);
          (checked, correct) = page_checks uc expected extracted ms in
      a\<lparr>ta_tp := ta_tp a + length ms, ta_fp := ta_fp a + (length extracted - length ms),
        ta_fn := ta_fn a + (length expected - length ms),
        ta_pages_checked := ta_pages_checked a + checked, ta_pages_correct := ta_pages_correct a + correct\<rparr>)"

definition draft_covered :: "(ustr \<Rightarrow> ustr) \<Rightarrow> expected_draft \<Rightarrow> draft_response_draft \<Rightarrow> bool" where
  "draft_covered lc x r =
     (if xd_needs_evidence x then dd_needs_evidence r \<or> contains (uni ''NEEDS_EVIDENCE'') (dd_answer_text r)
      else contains (lc (xd_answer_contains x)) (lc (dd_answer_text r)))"

definition score_draft :: "(ustr \<Rightarrow> ustr) \<Rightarrow> expected_draft \<Rightarrow> draft_response_draft \<Rightarrow> tally \<Rightarrow> tally" where
  "score_draft lc x r a =
     (if draft_covered lc x r
      then a\<lparr>ta_evidence_attempts := ta_evidence_attempts a + 1, ta_evidence_covered := ta_evidence_covered a + 1\<rparr>
      else a\<lparr>ta_evidence_attempts := ta_evidence_attempts a + 1, ta_unsupported_claims := ta_unsupported_claims a + 1\<rparr>)"

text \<open>The mock session holds one approved knowledge document with one page.\<close>

definition mock_db :: "integrity_case \<Rightarrow> db" where
  "mock_db x = empty_db
     \<lparr>documents := [1 \<mapsto> (new_document 1 2 0 (uni ''EvalDoc'') [] [])
        \<lparr>d_processing_status := ''completed'', d_approval_status := ''APPROVED'', d_doc_role := ''knowledge_base'',
         d_content := Some (ic_document_text x), d_ingestion_status := COMPLETED\<rparr>],
      pages := [\<lparr>pg_id = 3, pg_document_id = 1, pg_page_number = ic_document_page x,
        pg_content = ic_document_text x, pg_unit_kind = None, pg_source_locator = None,
        pg_content_sha256 = None\<rparr>]\<rparr>"

definition integrity_status :: "(ustr \<Rightarrow> ustr) \<Rightarrow> integrity_case \<Rightarrow> string" where
  "integrity_status cf x =
     (if is_ok (validate_evidence_candidate cf (mock_db x) 2 1 (ic_client_page x) (ic_client_snippet x))
      then ''VALID'' else ''REJECTED'')"

definition score_integrity :: "(ustr \<Rightarrow> ustr) \<Rightarrow> (ustr \<Rightarrow> ustr) \<Rightarrow> integrity_case \<Rightarrow> tally \<Rightarrow> tally" where
  "score_integrity lc cf x a0 =
     (let a = a0\<lparr>ta_validation_attempts := ta_validation_attempts a0 + 1\<rparr> in
      if integrity_status cf x \<noteq> ic_expected_status x then a
      else let b = a\<lparr>ta_validation_correct := ta_validation_correct a + 1\<rparr> in
        if ic_expected_status x \<noteq> ''REJECTED'' then b
        else if contains (uni ''fabricated'') (lc (ic_description x))
          then b\<lparr>ta_fabricated_rejected := ta_fabricated_rejected b + 1\<rparr>
        else if contains (uni ''wrong-page'') (lc (ic_description x))
          then b\<lparr>ta_invalid_citation_rejected := ta_invalid_citation_rejected b + 1\<rparr>
        else b)"

definition grounding_verdict :: "(ustr \<Rightarrow> ustr) \<Rightarrow> draft_case \<Rightarrow> grounding_result" where
  "grounding_verdict cf x =
     validate_draft_grounding cf claim_support_threshold (gc_draft_text x) (gc_evidence_snippets x)"

definition score_grounding :: "(ustr \<Rightarrow> ustr) \<Rightarrow> draft_case \<Rightarrow> tally \<Rightarrow> tally" where
  "score_grounding cf x a =
     (let r = grounding_verdict cf x in
      a\<lparr>ta_grounding_attempts := ta_grounding_attempts a + 1,
        ta_grounding_passed := ta_grounding_passed a + (if gr_passes r then 1 else 0),
        ta_grounding_correct := ta_grounding_correct a + (if gr_passes r = gc_expected_pass x then 1 else 0),
        ta_unsupported_claim_count := ta_unsupported_claim_count a + length (gr_unsupported_claims r)\<rparr>)"

section \<open>run\_evaluation\<close>

record eval_provider =
  ep_extract :: "ustr \<Rightarrow> llm_state \<Rightarrow> (exc + extracted_draft list) \<times> llm_state"
  ep_draft :: "ustr \<Rightarrow> evidence_snippet list \<Rightarrow> llm_state \<Rightarrow> (exc + draft_response_draft) \<times> llm_state"

fun score_drafts :: "(ustr \<Rightarrow> ustr) \<Rightarrow> eval_provider \<Rightarrow> evidence_snippet list \<Rightarrow> expected_draft list \<Rightarrow> tally
    \<Rightarrow> llm_state \<Rightarrow> (exc + tally) \<times> llm_state" where
  "score_drafts lc pv es [] a s = (Inr a, s)"
| "score_drafts lc pv es (x # xs) a s =
     (case ep_draft pv (xd_requirement x) (if xd_needs_evidence x then [] else es) s of
        (Inl e, s1) \<Rightarrow> (Inl e, s1)
      | (Inr r, s1) \<Rightarrow> score_drafts lc pv es xs (score_draft lc x r a) s1)"

record case_result =
  cr_name :: ustr
  cr_expected_count :: nat
  cr_extracted_count :: nat
  cr_tp :: nat
  cr_fp :: nat
  cr_fn :: nat

definition case_result_of :: "unicode \<Rightarrow> eval_case \<Rightarrow> extracted_draft list \<Rightarrow> case_result" where
  "case_result_of uc c ds =
     (let n = length (match_requirements uc (map xr_original_text (ec_expected_requirements c)) (map rd_original_text ds)) in
      \<lparr>cr_name = ec_name c, cr_expected_count = length (ec_expected_requirements c), cr_extracted_count = length ds,
       cr_tp = n, cr_fp = length ds - n, cr_fn = length (ec_expected_requirements c) - n\<rparr>)"

text \<open>The casefolding of \<open>uc\<close> is also that of the evidence validation.\<close>

definition score_case :: "unicode \<Rightarrow> (ustr \<Rightarrow> ustr) \<Rightarrow> eval_provider \<Rightarrow> eval_case \<Rightarrow> tally \<Rightarrow> llm_state
    \<Rightarrow> (exc + case_result \<times> tally) \<times> llm_state" where
  "score_case uc lc pv c a s = (case ep_extract pv (ec_source_text c) s of
       (Inl e, s1) \<Rightarrow> (Inl e, s1)
     | (Inr ds, s1) \<Rightarrow>
         (case score_drafts lc pv (ec_evidence_snippets c) (ec_expected_drafts c)
                 (score_extraction uc (ec_expected_requirements c) ds a) s1 of
            (Inl e, s2) \<Rightarrow> (Inl e, s2)
          | (Inr b, s2) \<Rightarrow>
              (Inr (case_result_of uc c ds,
                    fold (score_grounding (uc_casefold uc)) (ec_draft_cases c)
                      (fold (score_integrity lc (uc_casefold uc)) (ec_integrity_cases c) b)), s2)))"

fun score_cases :: "unicode \<Rightarrow> (ustr \<Rightarrow> ustr) \<Rightarrow> eval_provider \<Rightarrow> eval_case list \<Rightarrow> tally \<Rightarrow> llm_state
    \<Rightarrow> (exc + case_result list \<times> tally) \<times> llm_state" where
  "score_cases uc lc pv [] a s = (Inr ([], a), s)"
| "score_cases uc lc pv (c # cs) a s = (case score_case uc lc pv c a s of
       (Inl e, s1) \<Rightarrow> (Inl e, s1)
     | (Inr (r, b), s1) \<Rightarrow> (case score_cases uc lc pv cs b s1 of
           (Inl e, s2) \<Rightarrow> (Inl e, s2)
         | (Inr (rs, t), s2) \<Rightarrow> (Inr (r # rs, t), s2)))"

definition share :: "rat \<Rightarrow> nat \<Rightarrow> nat \<Rightarrow> rat" where
  "share z n m = (if m > 0 then of_nat n / of_nat m else z)"

definition recall_of :: "tally \<Rightarrow> rat" where "recall_of a = share 0 (ta_tp a) (ta_tp a + ta_fn a)"
definition precision_of :: "tally \<Rightarrow> rat" where "precision_of a = share 0 (ta_tp a) (ta_tp a + ta_fp a)"

definition f1_of :: "tally \<Rightarrow> rat" where
  "f1_of a = (if precision_of a + recall_of a > 0
     then 2 * (precision_of a * recall_of a) / (precision_of a + recall_of a) else 0)"

definition evidence_coverage :: "tally \<Rightarrow> rat" where
  "evidence_coverage a = share 0 (ta_evidence_covered a) (ta_evidence_attempts a)"

definition validation_accuracy :: "tally \<Rightarrow> rat" where
  "validation_accuracy a = share 1 (ta_validation_correct a) (ta_validation_attempts a)"

definition grounding_accuracy :: "tally \<Rightarrow> rat" where
  "grounding_accuracy a = share 1 (ta_grounding_correct a) (ta_grounding_attempts a)"

definition thresholds_pass :: "tally \<Rightarrow> bool" where
  "thresholds_pass a \<longleftrightarrow> recall_of a \<ge> 90 / 100 \<and> ta_fp a = 0 \<and> evidence_coverage a \<ge> 85 / 100
     \<and> ta_unsupported_claims a = 0 \<and> validation_accuracy a = 1 \<and> grounding_accuracy a = 1"

record eval_report =
  er_offline :: bool
  er_thresholds_pass :: bool
  er_metrics :: "(string \<times> rat) list"
  er_telemetry :: "(string \<times> rat) list"
  er_cases :: "case_result list"

definition eval_metrics :: "(nat \<Rightarrow> rat \<Rightarrow> rat) \<Rightarrow> tally \<Rightarrow> (string \<times> rat) list" where
  "eval_metrics rnd a =
     [(''recall'', rnd 3 (recall_of a)), (''precision'', rnd 3 (precision_of a)), (''f1'', rnd 3 (f1_of a)),
      (''hallucinated_count'', of_nat (ta_fp a)), (''missed_count'', of_nat (ta_fn a)),
      (''evidence_coverage'', rnd 3 (evidence_coverage a)),
      (''unsupported_claim_count'', of_nat (ta_unsupported_claims a)),
      (''citation_accuracy'', rnd 3 (share 0 (ta_pages_correct a) (ta_pages_checked a))),
      (''fabricated_evidence_rejected_count'', of_nat (ta_fabricated_rejected a)),
      (''invalid_citation_rejected_count'', of_nat (ta_invalid_citation_rejected a)),
      (''draft_grounding_pass_rate'', rnd 3 (share 1 (ta_grounding_passed a) (ta_grounding_attempts a))),
      (''unsupported_claim_count_grounding'', of_nat (ta_unsupported_claim_count a)),
      (''evidence_validation_accuracy'', rnd 3 (validation_accuracy a))]"

definition telemetry_summary :: "(nat \<Rightarrow> rat \<Rightarrow> rat) \<Rightarrow> llm_record list \<Rightarrow> (string \<times> rat) list" where
  "telemetry_summary rnd rs =
     [(''total_calls'', of_nat (length rs)), (''failures'', of_nat (length (filter (\<lambda>r. \<not> lm_success r) rs))),
      (''avg_latency_ms'', rnd 1 (if rs = [] then 0 else of_int (sum_list (map lm_latency_ms rs)) / of_nat (length rs))),
      (''total_tokens'', of_int (sum_list (map (\<lambda>r. lm_input_tokens r + lm_output_tokens r) rs))),
      (''estimated_cost_usd'', rnd 6 (sum_list (map lm_estimated_cost rs)))]"

text \<open>The settings are the provider and the key; \<open>provider_of\<close> makes the provider the factory names.\<close>

definition run_evaluation :: "unicode \<Rightarrow> (ustr \<Rightarrow> ustr) \<Rightarrow> (nat \<Rightarrow> rat \<Rightarrow> rat) \<Rightarrow> (llm_provider \<Rightarrow> eval_provider)
    \<Rightarrow> ustr \<Rightarrow> ustr \<Rightarrow> ustr \<Rightarrow> ustr \<Rightarrow> bool \<Rightarrow> eval_case list \<Rightarrow> llm_state \<Rightarrow> (exc + eval_report) \<times> llm_state" where
  "run_evaluation uc lc rnd provider_of name app_env key model offline cases s =
     (if \<not> offline \<and> (name \<noteq> uni ''anthropic'' \<or> key = []) then (Inl (OtherException ''SystemExit''), s)
      else case get_llm_provider (if offline then uni ''fake'' else name)
                  (if offline then uni ''development'' else app_env) key model of
        Inl e \<Rightarrow> (Inl e, s)
      | Inr p \<Rightarrow>
          (if cases = [] then (Inl (OtherException ''SystemExit''), s)
           else case score_cases uc lc (provider_of p) cases no_tally (clear_telemetry_records s) of
             (Inl e, s1) \<Rightarrow> (Inl e, s1)
           | (Inr (rs, a), s1) \<Rightarrow>
               (Inr \<lparr>er_offline = offline, er_thresholds_pass = thresholds_pass a, er_metrics = eval_metrics rnd a,
                     er_telemetry = telemetry_summary rnd (get_telemetry_records s1), er_cases = rs\<rparr>, s1)))"

section \<open>The matching is one to one\<close>

lemma first_match_in:
  "first_match uc used extracted t = Some j \<Longrightarrow>
   j < length extracted \<and> j \<notin> used \<and> same_requirement uc t (extracted ! j)"
  by (auto simp: first_match_def find_Some_iff)

definition sound_pairs :: "unicode \<Rightarrow> ustr list \<Rightarrow> ustr list \<Rightarrow> nat \<Rightarrow> (nat \<times> nat) list \<Rightarrow> bool" where
  "sound_pairs uc expected extracted n ms \<longleftrightarrow> distinct (map fst ms) \<and> distinct (map snd ms)
     \<and> (\<forall>(i, j) \<in> set ms. i < n \<and> j < length extracted \<and> same_requirement uc (expected ! i) (extracted ! j))"

lemma match_from_sound:
  "sound_pairs uc expected extracted i ms \<Longrightarrow> ts = drop i expected \<Longrightarrow>
   sound_pairs uc expected extracted (i + length ts) (match_from uc i ms extracted ts)"
proof (induction ts arbitrary: i ms)
  case (Cons t ts)
  have t: "t = expected ! i" "ts = drop (i + 1) expected"
    using Cons.prems(2) by (metis Cons_nth_drop_Suc drop_all list.discI list.inject not_le, metis Cons_nth_drop_Suc Suc_eq_plus1 drop_all list.discI list.inject not_le)
  have "sound_pairs uc expected extracted (i + 1)
      (case first_match uc (snd ` set ms) extracted t of None \<Rightarrow> ms | Some j \<Rightarrow> ms @ [(i, j)])"
    using Cons.prems(1) t(1) by (fastforce simp: sound_pairs_def dest: first_match_in split: option.splits)
  from Cons.IH [OF this t(2)] show ?case by simp
qed simp

lemma matching_is_sound:
  "sound_pairs uc expected extracted (length expected) (match_requirements uc expected extracted)"
  using match_from_sound [of uc expected extracted 0 "[]" expected]
  by (simp add: match_requirements_def sound_pairs_def)

lemma matching_bounds:
  "length (match_requirements uc expected extracted) \<le> length expected"
  "length (match_requirements uc expected extracted) \<le> length extracted"
proof -
  let ?ms = "match_requirements uc expected extracted"
  have s: "distinct (map fst ?ms)" "distinct (map snd ?ms)"
    "set (map fst ?ms) \<subseteq> {..<length expected}" "set (map snd ?ms) \<subseteq> {..<length extracted}"
    using matching_is_sound [of uc expected extracted] by (fastforce simp: sound_pairs_def)+
  show "length ?ms \<le> length expected"
    using card_mono [OF _ s(3)] distinct_card [OF s(1)] by simp
  show "length ?ms \<le> length extracted"
    using card_mono [OF _ s(4)] distinct_card [OF s(2)] by simp
qed

section \<open>What a passing report means\<close>

definition integrity_ok :: "(ustr \<Rightarrow> ustr) \<Rightarrow> integrity_case \<Rightarrow> bool" where
  "integrity_ok cf x \<longleftrightarrow> integrity_status cf x = ic_expected_status x"

definition grounding_ok :: "(ustr \<Rightarrow> ustr) \<Rightarrow> draft_case \<Rightarrow> bool" where
  "grounding_ok cf x \<longleftrightarrow> gr_passes (grounding_verdict cf x) = gc_expected_pass x"

text \<open>The counters of the extraction, of the two kinds of integrity cases.\<close>

definition found_counts :: "tally \<Rightarrow> nat \<times> nat \<times> nat" where
  "found_counts a = (ta_tp a, ta_fp a, ta_fn a)"

definition validation_counts :: "tally \<Rightarrow> nat \<times> nat" where
  "validation_counts a = (ta_validation_attempts a, ta_validation_correct a)"

definition grounding_counts :: "tally \<Rightarrow> nat \<times> nat" where
  "grounding_counts a = (ta_grounding_attempts a, ta_grounding_correct a)"

lemmas count_defs = found_counts_def validation_counts_def grounding_counts_def

lemma score_draft_counts:
  "found_counts (score_draft lc x r a) = found_counts a"
  "validation_counts (score_draft lc x r a) = validation_counts a"
  "grounding_counts (score_draft lc x r a) = grounding_counts a"
  by (simp_all add: count_defs score_draft_def)

lemma score_drafts_counts:
  "score_drafts lc pv es xs a s = (Inr b, s') \<Longrightarrow> found_counts b = found_counts a
     \<and> validation_counts b = validation_counts a \<and> grounding_counts b = grounding_counts a"
  by (induction lc pv es xs a s rule: score_drafts.induct)
    (auto simp: score_draft_counts split: prod.splits sum.splits)

lemma score_integrity_counts:
  "found_counts (score_integrity lc cf x a) = found_counts a"
  "grounding_counts (score_integrity lc cf x a) = grounding_counts a"
  "validation_counts (score_integrity lc cf x a)
     = (ta_validation_attempts a + 1, ta_validation_correct a + (if integrity_ok cf x then 1 else 0))"
  by (simp_all add: count_defs score_integrity_def integrity_ok_def Let_def)

lemma score_grounding_counts:
  "found_counts (score_grounding cf x a) = found_counts a"
  "validation_counts (score_grounding cf x a) = validation_counts a"
  "grounding_counts (score_grounding cf x a)
     = (ta_grounding_attempts a + 1, ta_grounding_correct a + (if grounding_ok cf x then 1 else 0))"
  by (simp_all add: count_defs score_grounding_def grounding_ok_def Let_def)

lemma integrity_fold:
  "found_counts (fold (score_integrity lc cf) xs a) = found_counts a
   \<and> grounding_counts (fold (score_integrity lc cf) xs a) = grounding_counts a
   \<and> validation_counts (fold (score_integrity lc cf) xs a)
      = (ta_validation_attempts a + length xs, ta_validation_correct a + length (filter (integrity_ok cf) xs))"
proof (induction xs arbitrary: a)
  case Nil
  show ?case by (simp add: validation_counts_def)
next
  case (Cons x xs)
  show ?case using Cons.IH [of "score_integrity lc cf x a"] score_integrity_counts [of lc cf x a]
    by (simp add: validation_counts_def)
qed

lemma grounding_fold:
  "found_counts (fold (score_grounding cf) xs a) = found_counts a
   \<and> validation_counts (fold (score_grounding cf) xs a) = validation_counts a
   \<and> grounding_counts (fold (score_grounding cf) xs a)
      = (ta_grounding_attempts a + length xs, ta_grounding_correct a + length (filter (grounding_ok cf) xs))"
proof (induction xs arbitrary: a)
  case Nil
  show ?case by (simp add: grounding_counts_def)
next
  case (Cons x xs)
  show ?case using Cons.IH [of "score_grounding cf x a"] score_grounding_counts [of cf x a]
    by (simp add: grounding_counts_def)
qed

lemma score_extraction_counts:
  "found_counts (score_extraction uc (ec_expected_requirements c) ds a)
     = (ta_tp a + cr_tp (case_result_of uc c ds), ta_fp a + cr_fp (case_result_of uc c ds),
        ta_fn a + cr_fn (case_result_of uc c ds))"
  "validation_counts (score_extraction uc es ds a) = validation_counts a"
  "grounding_counts (score_extraction uc es ds a) = grounding_counts a"
  by (simp_all add: count_defs score_extraction_def case_result_of_def Let_def case_prod_unfold)

lemma score_case_counts:
  assumes "score_case uc lc pv c a s = (Inr (r, b), s')"
  shows "\<exists>ds. r = case_result_of uc c ds"
    "found_counts b = (ta_tp a + cr_tp r, ta_fp a + cr_fp r, ta_fn a + cr_fn r)"
    "validation_counts b = (ta_validation_attempts a + length (ec_integrity_cases c),
       ta_validation_correct a + length (filter (integrity_ok (uc_casefold uc)) (ec_integrity_cases c)))"
    "grounding_counts b = (ta_grounding_attempts a + length (ec_draft_cases c),
       ta_grounding_correct a + length (filter (grounding_ok (uc_casefold uc)) (ec_draft_cases c)))"
proof -
  obtain ds s1 d s2 where d: "score_drafts lc pv (ec_evidence_snippets c) (ec_expected_drafts c)
        (score_extraction uc (ec_expected_requirements c) ds a) s1 = (Inr d, s2)"
    and r: "r = case_result_of uc c ds"
    and b: "b = fold (score_grounding (uc_casefold uc)) (ec_draft_cases c)
         (fold (score_integrity lc (uc_casefold uc)) (ec_integrity_cases c) d)"
    using assms by (auto simp: score_case_def split: prod.splits sum.splits)
  note dd = score_drafts_counts [OF d]
  let ?e = "fold (score_integrity lc (uc_casefold uc)) (ec_integrity_cases c) d"
  note e = integrity_fold [of lc "uc_casefold uc" "ec_integrity_cases c" d]
  note g = grounding_fold [of "uc_casefold uc" "ec_draft_cases c" ?e]
  note x = score_extraction_counts(1) [of uc c ds a] score_extraction_counts(2,3) [of uc "ec_expected_requirements c" ds a]
  show "\<exists>ds. r = case_result_of uc c ds" using r by blast
  show "found_counts b = (ta_tp a + cr_tp r, ta_fp a + cr_fp r, ta_fn a + cr_fn r)"
    using dd e g x by (simp add: b r)
  show "validation_counts b = (ta_validation_attempts a + length (ec_integrity_cases c),
       ta_validation_correct a + length (filter (integrity_ok (uc_casefold uc)) (ec_integrity_cases c)))"
    using dd e g x by (simp add: b validation_counts_def)
  show "grounding_counts b = (ta_grounding_attempts a + length (ec_draft_cases c),
       ta_grounding_correct a + length (filter (grounding_ok (uc_casefold uc)) (ec_draft_cases c)))"
    using dd e g x by (simp add: b grounding_counts_def)
qed

lemma score_cases_counts:
  "score_cases uc lc pv cs a s = (Inr (rs, b), s') \<Longrightarrow>
     list_all2 (\<lambda>c r. \<exists>ds. r = case_result_of uc c ds) cs rs
   \<and> found_counts b = (ta_tp a + sum_list (map cr_tp rs), ta_fp a + sum_list (map cr_fp rs),
       ta_fn a + sum_list (map cr_fn rs))
   \<and> validation_counts b = (ta_validation_attempts a + length (concat (map ec_integrity_cases cs)),
       ta_validation_correct a + length (filter (integrity_ok (uc_casefold uc)) (concat (map ec_integrity_cases cs))))
   \<and> grounding_counts b = (ta_grounding_attempts a + length (concat (map ec_draft_cases cs)),
       ta_grounding_correct a + length (filter (grounding_ok (uc_casefold uc)) (concat (map ec_draft_cases cs))))"
proof (induction cs arbitrary: a s rs)
  case Nil
  then show ?case by (simp add: count_defs)
next
  case (Cons c cs)
  obtain r d s1 qs where c: "score_case uc lc pv c a s = (Inr (r, d), s1)"
    and cs: "score_cases uc lc pv cs d s1 = (Inr (qs, b), s')" and rs: "rs = r # qs"
    using Cons.prems by (auto split: prod.splits sum.splits)
  note 1 = score_case_counts [OF c] and 2 = Cons.IH [OF cs]
  show ?case using 1 2 by (simp add: rs count_defs)
qed

lemma share_at_least: "share 0 n m \<ge> 90 / 100 \<Longrightarrow> 9 * m \<le> 10 * n"
proof -
  assume a: "share 0 n m \<ge> 90 / 100"
  then have "0 < m" by (auto simp: share_def split: if_splits)
  then have "(9 :: rat) * of_nat m \<le> 10 * of_nat n" using a by (simp add: share_def field_simps)
  then have "of_nat (9 * m) \<le> (of_nat (10 * n) :: rat)" by simp
  then show ?thesis by (simp only: of_nat_le_iff)
qed

lemma share_one: "share 1 n m = 1 \<Longrightarrow> 0 < m \<Longrightarrow> n = m"
  by (simp add: share_def)

lemma all_counted: "length (filter P xs) = length xs \<Longrightarrow> \<forall>x \<in> set xs. P x"
  by (metis length_filter_less less_irrefl)

lemma case_result_counts:
  "cr_tp (case_result_of uc c ds) \<le> cr_extracted_count (case_result_of uc c ds)"
  "cr_fp (case_result_of uc c ds) = cr_extracted_count (case_result_of uc c ds) - cr_tp (case_result_of uc c ds)"
  "cr_tp (case_result_of uc c ds) + cr_fn (case_result_of uc c ds) = length (ec_expected_requirements c)"
  using matching_bounds [of uc "map xr_original_text (ec_expected_requirements c)" "map rd_original_text ds"]
  by (simp_all add: case_result_of_def Let_def)

lemma expected_counts:
  "list_all2 (\<lambda>c r. \<exists>ds. r = case_result_of uc c ds) cs rs \<Longrightarrow>
   sum_list (map cr_tp rs) + sum_list (map cr_fn rs) = length (concat (map ec_expected_requirements cs))"
proof (induction rule: list_all2_induct)
  case (Cons c cs r rs)
  then obtain ds where "r = case_result_of uc c ds" by blast
  then show ?case using Cons case_result_counts(3) [of uc c ds] by simp
qed simp

text \<open>
  A passing evaluation report means what it is read as: of all expected requirements at least
  nine in ten are matched one to one, every requirement the model extracted in any case is one of the
  expected, and every integrity case and every grounding case of the fixtures is decided as expected.
\<close>

lemma passing_evaluation:
  assumes "run_evaluation uc lc rnd provider_of name app_env key model offline cases s = (Inr r, s')"
    and "er_thresholds_pass r"
  shows "9 * length (concat (map ec_expected_requirements cases)) \<le> 10 * sum_list (map cr_tp (er_cases r))
    \<and> (\<forall>x \<in> set (er_cases r). cr_tp x = cr_extracted_count x)
    \<and> (\<forall>c \<in> set cases. (\<forall>x \<in> set (ec_integrity_cases c). integrity_ok (uc_casefold uc) x)
          \<and> (\<forall>x \<in> set (ec_draft_cases c). grounding_ok (uc_casefold uc) x))"
proof -
  let ?s0 = "clear_telemetry_records s"
  obtain p rs a s1 where sc: "score_cases uc lc (provider_of p) cases no_tally ?s0 = (Inr (rs, a), s1)"
    and r: "er_cases r = rs" and pass: "thresholds_pass a"
    using assms by (auto simp: run_evaluation_def split: if_splits sum.splits prod.splits)
  note k = score_cases_counts [OF sc]
  have two: "list_all2 (\<lambda>c r. \<exists>ds. r = case_result_of uc c ds) cases rs" using k by blast
  have tp: "ta_tp a = sum_list (map cr_tp rs)" "ta_fn a = sum_list (map cr_fn rs)" "ta_fp a = sum_list (map cr_fp rs)"
    using k by (auto simp: found_counts_def no_tally_def)
  have expected: "sum_list (map cr_tp rs) + sum_list (map cr_fn rs) = length (concat (map ec_expected_requirements cases))"
    using two by (rule expected_counts)
  have "9 * (ta_tp a + ta_fn a) \<le> 10 * ta_tp a"
    using pass share_at_least [of "ta_tp a" "ta_tp a + ta_fn a"] unfolding thresholds_pass_def recall_of_def by blast
  then have recall: "9 * length (concat (map ec_expected_requirements cases)) \<le> 10 * sum_list (map cr_tp rs)"
    using tp expected by simp
  have "\<forall>x \<in> set rs. cr_fp x = 0" using pass tp by (auto simp: thresholds_pass_def)
  moreover have "\<forall>x \<in> set rs. \<exists>c ds. x = case_result_of uc c ds"
    using two by (induction rule: list_all2_induct) auto
  ultimately have matched: "\<forall>x \<in> set rs. cr_tp x = cr_extracted_count x"
    using case_result_counts(1,2) by (metis diff_is_0_eq le_antisym)
  have v: "length (filter (integrity_ok (uc_casefold uc)) (concat (map ec_integrity_cases cases)))
      = length (concat (map ec_integrity_cases cases))"
    using pass k share_one [of "ta_validation_correct a" "ta_validation_attempts a"]
    by (cases "ta_validation_attempts a = 0") (auto simp: thresholds_pass_def validation_accuracy_def
        validation_counts_def no_tally_def)
  have g: "length (filter (grounding_ok (uc_casefold uc)) (concat (map ec_draft_cases cases)))
      = length (concat (map ec_draft_cases cases))"
    using pass k share_one [of "ta_grounding_correct a" "ta_grounding_attempts a"]
    by (cases "ta_grounding_attempts a = 0") (auto simp: thresholds_pass_def grounding_accuracy_def
        grounding_counts_def no_tally_def)
  show ?thesis using recall matched all_counted [OF v] all_counted [OF g] r by auto
qed

definition demo_case :: eval_case where
  "demo_case = \<lparr>ec_name = [], ec_source_text = demo_text,
     ec_expected_requirements = [\<lparr>xr_original_text = uni ''it must do'', xr_source_page = Some 9\<rparr>],
     ec_evidence_snippets = [],
     ec_expected_drafts = [\<lparr>xd_requirement = [], xd_needs_evidence = True, xd_answer_contains = []\<rparr>],
     ec_integrity_cases = [], ec_draft_cases = []\<rparr>"

definition demo_provider :: eval_provider where
  "demo_provider = \<lparr>ep_extract = \<lambda>t s. (Inr [demo_draft], s), ep_draft = \<lambda>t es s. (Inr no_evidence_draft, s)\<rparr>"

lemma same_itself: "token_set uc t \<noteq> {} \<Longrightarrow> finite (token_set uc t) \<Longrightarrow> same_requirement uc t t"
  by (simp add: same_requirement_def token_overlap_def match_threshold_def jaccard_def)

lemma same_matches:
  assumes "same_requirement uc t t"
  shows "match_requirements uc [t] [t] = [(0, 0)]" "match_requirements uc [t, t] [t, t] = [(0, 0), (1, 1)]"
  using assms by (simp_all add: match_requirements_def first_match_def upt_rec)

text \<open>Of two equal requirements on two pages the second is compared with the page of the first.\<close>

lemma page_of_another_match:
  assumes "same_requirement uc t t" "rd_original_text d = t" "rd_original_text e = t"
    and "rd_source_page d = Some 1" "rd_source_page e = Some 2"
  shows "page_checks uc [\<lparr>xr_original_text = t, xr_source_page = Some 1\<rparr>, \<lparr>xr_original_text = t, xr_source_page = Some 2\<rparr>]
      [d, e] (match_requirements uc [t, t] [t, t]) = (2, 1)"
  using assms by (simp add: same_matches page_checks_def List.map_filter_def upt_rec)

lemma demo_tokens: "token_set ascii_unicode (uni ''it must do'') \<noteq> {}"
  by (simp add: token_set_def normalize_requirement_def version_aliases_def regex_eval strip_def lstrip_def
      rstrip_def Let_def ascii_unicode_def lower_text_def)

theorem passing_evaluation_witness:
  "\<exists>r s'. run_evaluation ascii_unicode id (\<lambda>_ q. q) (\<lambda>_. demo_provider) [] [] [] [] True [demo_case] fresh_llm = (Inr r, s')
     \<and> er_thresholds_pass r \<and> (\<forall>x \<in> set (er_cases r). cr_tp x = cr_extracted_count x)"
proof -
  let ?t = "uni ''it must do''"
  have "same_requirement ascii_unicode ?t ?t" using demo_tokens by (intro same_itself) (simp_all add: token_set_def)
  then have m: "match_requirements ascii_unicode [?t] [?t] = [(0, 0)]" by (rule same_matches)
  obtain r s' where e: "run_evaluation ascii_unicode id (\<lambda>_ q. q) (\<lambda>_. demo_provider) [] [] [] [] True [demo_case] fresh_llm
      = (Inr r, s')" and p: "er_thresholds_pass r"
    by (simp add: run_evaluation_def get_llm_provider_def Let_def demo_case_def score_case_def demo_provider_def
        score_extraction_def demo_draft_def m case_result_of_def no_tally_def score_draft_def draft_covered_def
        no_evidence_draft_def thresholds_pass_def recall_of_def share_def evidence_coverage_def
        validation_accuracy_def grounding_accuracy_def case_prod_unfold del: uni_simps)
  show ?thesis using passing_evaluation [OF e p] e p by blast
qed

end
