(* ===== verification/LegacyExtractor.thy ===== *)
theory LegacyExtractor
  imports Filename Schema
begin

text \<open>
  \<open>app/services/extractor.py\<close>, the reader of the legacy pipeline: what it makes of a PDF or DOCX
  that PyMuPDF or python-docx has opened. \<open>lc\<close> is \<open>str.lower\<close>; the texts of a file are parameters.
\<close>

section \<open>Paths\<close>

text \<open>\<open>PurePosixPath.suffix\<close>: the last component, from its last dot unless that is its first or last
  character.\<close>

definition path_components :: "ustr \<Rightarrow> ustr list" where
  "path_components t = filter (\<lambda>c. c \<noteq> [] \<and> c \<noteq> [46]) (split_on 47 t)"

definition path_name :: "ustr \<Rightarrow> ustr" where
  "path_name t = (if path_components t = [] then [] else last (path_components t))"

definition path_suffix :: "ustr \<Rightarrow> ustr" where
  "path_suffix t = (let n = path_name t; e = rev (takeWhile (\<lambda>c. c \<noteq> 46) (rev n)) in
     if 46 \<notin> set n \<or> e = [] \<or> length n = length e + 1 then [] else 46 # e)"

section \<open>validate\_uploaded\_file\<close>

definition allowed_extensions :: "ustr list" where
  "allowed_extensions = [uni ''.pdf'', uni ''.docx'']"

definition allowed_mimetypes :: "string list" where
  "allowed_mimetypes = [''application/pdf'',
     ''application/vnd.openxmlformats-officedocument.wordprocessingml.document'']"

definition validate_uploaded_file :: "(ustr \<Rightarrow> ustr) \<Rightarrow> nat \<Rightarrow> bytes \<Rightarrow> ustr option \<Rightarrow> string option \<Rightarrow> exc + unit" where
  "validate_uploaded_file lc max_size content filename mime =
     (let start = take (max_size + 1) content;
          ext = lc (path_suffix (case filename of None \<Rightarrow> [] | Some n \<Rightarrow> n)) in
      if start = [] then Inl (HTTPException 400 ''File is empty'')
      else if length start > max_size then Inl (HTTPException 400 ''File exceeds maximum size limit'')
      else if ext \<notin> set allowed_extensions then
        Inl (HTTPException 400 (''Unsupported file extension: '' @ map char_of ext))
      else (case mime of
          None \<Rightarrow> Inl (HTTPException 400 ''Unsupported MIME type: None'')
        | Some k \<Rightarrow> if k \<in> set allowed_mimetypes then Inr ()
                    else Inl (HTTPException 400 (''Unsupported MIME type: '' @ k))))"

lemma validated_upload:
  "validate_uploaded_file lc max_size content filename mime = Inr () \<longleftrightarrow>
     content \<noteq> [] \<and> length content \<le> max_size
     \<and> (\<exists>n. filename = Some n \<and> lc (path_suffix n) \<in> {uni ''.pdf'', uni ''.docx''}
          \<or> filename = None \<and> lc [] \<in> {uni ''.pdf'', uni ''.docx''})
     \<and> (\<exists>k \<in> set allowed_mimetypes. mime = Some k)"
  by (cases filename; cases mime)
    (auto simp: validate_uploaded_file_def Let_def allowed_extensions_def path_suffix_def path_name_def
      path_components_def simp del: uni_simps)

section \<open>str.split\<close>

fun words_from :: "ustr \<Rightarrow> ustr \<Rightarrow> ustr list" where
  "words_from cur [] = (if cur = [] then [] else [cur])"
| "words_from cur (c # s) =
     (if is_space c then (if cur = [] then [] else [cur]) @ words_from [] s else words_from (cur @ [c]) s)"

definition split_words :: "ustr \<Rightarrow> ustr list" where
  "split_words t = words_from [] t"

definition is_word :: "ustr \<Rightarrow> bool" where
  "is_word w \<longleftrightarrow> w \<noteq> [] \<and> (\<forall>c \<in> set w. \<not> is_space c)"

lemma words_from_words:
  "w \<in> set (words_from cur s) \<Longrightarrow> \<forall>c \<in> set cur. \<not> is_space c \<Longrightarrow> is_word w"
proof (induction cur s rule: words_from.induct)
  case (1 cur)
  then show ?case by (cases "cur = []") (simp_all add: is_word_def)
next
  case (2 cur c s)
  show ?case
  proof (cases "is_space c")
    case True
    have "w = cur \<and> cur \<noteq> [] \<or> w \<in> set (words_from [] s)" using 2(3) True by (cases "cur = []") simp_all
    then show ?thesis using 2(1) [OF True] 2(4) by (auto simp: is_word_def)
  next
    case False
    then show ?thesis using 2 by simp
  qed
qed

lemma split_words_words: "w \<in> set (split_words t) \<Longrightarrow> is_word w"
  using words_from_words [of w "[]" t] by (simp add: split_words_def)

fun joined_words :: "ustr list \<Rightarrow> ustr" where
  "joined_words [] = []"
| "joined_words [w] = w"
| "joined_words (w # ws) = w @ 32 # joined_words ws"

lemma words_from_word: "\<forall>c \<in> set w. \<not> is_space c \<Longrightarrow> words_from cur (w @ s) = words_from (cur @ w) s"
  by (induction w arbitrary: cur) auto

lemma split_joined: "\<forall>w \<in> set ws. is_word w \<Longrightarrow> split_words (joined_words ws) = ws"
proof (induction ws rule: joined_words.induct)
  case (2 w)
  then show ?case using words_from_word [of w "[]" "[]"] by (simp add: split_words_def is_word_def)
next
  case (3 w v ws)
  have "split_words (joined_words (w # v # ws)) = words_from w (32 # joined_words (v # ws))"
    using 3(2) words_from_word [of w "[]"] by (simp add: split_words_def is_word_def)
  also have "\<dots> = w # split_words (joined_words (v # ws))"
    using 3(2) by (simp add: split_words_def is_word_def is_space_def)
  finally show ?case using 3 by simp
qed (simp add: split_words_def)

section \<open>extract\_pages\<close>

type_synonym legacy_page = "int \<times> ustr"

text \<open>Reading the text of a page may raise.\<close>

fun number_pages :: "int \<Rightarrow> (exc + ustr) list \<Rightarrow> exc + legacy_page list" where
  "number_pages n [] = Inr []"
| "number_pages n (p # ps) = (case p of Inl e \<Rightarrow> Inl e
     | Inr t \<Rightarrow> map_sum id ((#) (n, t)) (number_pages (n + 1) ps))"

definition extract_pdf :: "(bytes \<Rightarrow> exc + (exc + ustr) list) \<Rightarrow> bytes \<Rightarrow> exc + legacy_page list" where
  "extract_pdf open_pdf b = (case open_pdf b of Inl e \<Rightarrow> Inl e | Inr ps \<Rightarrow> number_pages 1 ps)"

text \<open>A DOCX as python-docx gives it: the paragraphs, and the tables as rows of cells.\<close>

type_synonym legacy_docx = "ustr list \<times> ustr list list list"

fun joined_cells :: "ustr list \<Rightarrow> ustr" where
  "joined_cells [] = []"
| "joined_cells [t] = t"
| "joined_cells (t # ts) = t @ [32, 124, 32] @ joined_cells ts"

definition row_text :: "ustr list \<Rightarrow> ustr list" where
  "row_text cells = (let ts = filter (\<lambda>t. t \<noteq> []) (map strip cells) in if ts = [] then [] else [joined_cells ts])"

definition docx_parts :: "legacy_docx \<Rightarrow> ustr list" where
  "docx_parts x = filter (\<lambda>t. strip t \<noteq> []) (fst x) @ concat (map row_text (concat (snd x)))"

fun chunk_words :: "ustr list \<Rightarrow> ustr list \<Rightarrow> ustr list list" where
  "chunk_words cur [] = (if cur = [] then [] else [cur])"
| "chunk_words cur (p # ps) =
     (let ws = cur @ split_words p in
      if length ws \<ge> 500 then ws # chunk_words [] ps else chunk_words ws ps)"

definition extract_docx :: "(bytes \<Rightarrow> exc + legacy_docx) \<Rightarrow> bytes \<Rightarrow> exc + legacy_page list" where
  "extract_docx open_docx b = (case open_docx b of Inl e \<Rightarrow> Inl e
     | Inr x \<Rightarrow> (let chunks = map joined_words (chunk_words [] (docx_parts x)) in
         if chunks = [] then Inr [(1, [])]
         else Inr (map (\<lambda>(i, t). (int i + 1, t)) (enumerate 0 chunks))))"

text \<open>\<open>file\<close> is the content of the file, if it exists.\<close>

definition extract_pages :: "(ustr \<Rightarrow> ustr) \<Rightarrow> (bytes \<Rightarrow> exc + (exc + ustr) list) \<Rightarrow> (bytes \<Rightarrow> exc + legacy_docx)
    \<Rightarrow> ustr \<Rightarrow> bytes option \<Rightarrow> string \<Rightarrow> exc + legacy_page list" where
  "extract_pages lc open_pdf open_docx path content file_type = (case content of
       None \<Rightarrow> Inl (OtherException ''FileNotFoundError'')
     | Some b \<Rightarrow>
         (let ext = lc (path_suffix path) in
          if ext = uni ''.pdf'' \<or> file_type = ''application/pdf'' then extract_pdf open_pdf b
          else if ext = uni ''.docx''
            \<or> file_type = ''application/vnd.openxmlformats-officedocument.wordprocessingml.document''
          then extract_docx open_docx b
          else Inl (OtherException ''ValueError'')))"

section \<open>No word is lost\<close>

lemma chunk_words_all: "concat (chunk_words cur ps) = cur @ concat (map split_words ps)"
  by (induction cur ps rule: chunk_words.induct) (auto simp: Let_def)

lemma chunk_words_words:
  "ws \<in> set (chunk_words cur ps) \<Longrightarrow> \<forall>w \<in> set cur. is_word w \<Longrightarrow> ws \<noteq> [] \<and> (\<forall>w \<in> set ws. is_word w)"
proof (induction cur ps rule: chunk_words.induct)
  case (1 cur)
  then show ?case by (cases "cur = []") simp_all
next
  case (2 cur p ps)
  let ?ws = "cur @ split_words p"
  have w: "\<forall>w \<in> set ?ws. is_word w" using 2(4) split_words_words by auto
  show ?case
  proof (cases "500 \<le> length ?ws")
    case True
    then have "chunk_words cur (p # ps) = ?ws # chunk_words [] ps" by (simp add: Let_def)
    moreover have "?ws \<noteq> []" using True by (metis list.size(3) not_numeral_le_zero)
    ultimately show ?thesis using 2(1) [OF refl True] 2(3) w by auto
  next
    case False
    then have "chunk_words cur (p # ps) = chunk_words ?ws ps" by (simp add: Let_def)
    then show ?thesis using 2(2) [OF refl False _ w] 2(3) by metis
  qed
qed

lemma chunk_words_full:
  "i + 1 < length (chunk_words cur ps) \<Longrightarrow> 500 \<le> length (chunk_words cur ps ! i)"
proof (induction cur ps arbitrary: i rule: chunk_words.induct)
  case (1 cur)
  then show ?case by (cases "cur = []") simp_all
next
  case (2 cur p ps)
  let ?ws = "cur @ split_words p"
  show ?case
  proof (cases "500 \<le> length ?ws")
    case True
    then have e: "chunk_words cur (p # ps) = ?ws # chunk_words [] ps" by (simp add: Let_def)
    show ?thesis
    proof (cases i)
      case 0 then show ?thesis using True by (simp only: e nth_Cons_0)
    next
      case (Suc k)
      then have "k + 1 < length (chunk_words [] ps)" using 2(3) unfolding e by simp
      then show ?thesis using 2(1) [OF refl True] by (simp only: e Suc nth_Cons_Suc)
    qed
  next
    case False
    then have e: "chunk_words cur (p # ps) = chunk_words ?ws ps" by (simp add: Let_def)
    show ?thesis using 2(2) [OF refl False] 2(3) unfolding e by blast
  qed
qed

lemma docx_page_texts:
  assumes "open_docx b = Inr x" "extract_docx open_docx b = Inr res"
  shows "map fst res = map (\<lambda>i. int i + 1) [0..<length res]"
    and "concat (map (split_words \<circ> snd) res) = concat (map split_words (docx_parts x))"
    and "i + 1 < length res \<Longrightarrow> 500 \<le> length (split_words (snd (res ! i)))"
proof -
  let ?cs = "chunk_words [] (docx_parts x)"
  have w: "ws \<in> set ?cs \<Longrightarrow> split_words (joined_words ws) = ws" for ws
    using chunk_words_words [of ws "[]"] split_joined by simp
  have all: "concat ?cs = concat (map split_words (docx_parts x))" by (simp add: chunk_words_all)
  consider "?cs = []" "res = [(1, [])]"
    | "?cs \<noteq> []" "res = map (\<lambda>(i, t). (int i + 1, t)) (enumerate 0 (map joined_words ?cs))"
    using assms by (cases "?cs = []") (simp_all add: extract_docx_def)
  then have "map fst res = map (\<lambda>i. int i + 1) [0..<length res]
    \<and> concat (map (split_words \<circ> snd) res) = concat (map split_words (docx_parts x))
    \<and> (i + 1 < length res \<longrightarrow> 500 \<le> length (split_words (snd (res ! i))))"
  proof cases
    case 1
    then show ?thesis using all by (simp add: split_words_def)
  next
    case 2
    have l: "length res = length ?cs" by (simp only: 2(2) length_map length_enumerate)
    have "map snd res = map snd (enumerate 0 (map joined_words ?cs))"
      unfolding 2(2) map_map by (rule map_cong [OF refl]) auto
    then have s: "map snd res = map joined_words ?cs" by (simp only: map_snd_enumerate)
    have "map fst res = map (\<lambda>i. int i + 1) (map fst (enumerate 0 (map joined_words ?cs)))"
      unfolding 2(2) map_map by (rule map_cong [OF refl]) auto
    then have f: "map fst res = map (\<lambda>i. int i + 1) [0..<length res]"
      by (simp only: map_fst_enumerate l length_map add_0)
    have "map (split_words \<circ> snd) res = map (split_words \<circ> joined_words) ?cs" using s by (metis map_map)
    also have "\<dots> = ?cs" using w by (simp add: map_idI)
    finally have e: "map (split_words \<circ> snd) res = ?cs" .
    have "500 \<le> length (split_words (snd (res ! i)))" if k: "i + 1 < length res"
    proof -
      have "split_words (snd (res ! i)) = map (split_words \<circ> snd) res ! i" using k by simp
      also have "\<dots> = ?cs ! i" by (simp only: e)
      finally show ?thesis using chunk_words_full [of i "[]" "docx_parts x"] k l by presburger
    qed
    then show ?thesis using e f all by simp
  qed
  then show "map fst res = map (\<lambda>i. int i + 1) [0..<length res]"
    "concat (map (split_words \<circ> snd) res) = concat (map split_words (docx_parts x))"
    "i + 1 < length res \<Longrightarrow> 500 \<le> length (split_words (snd (res ! i)))" by auto
qed

end
