(* ===== verification/LegacyBackground.thy ===== *)
theory LegacyBackground
  imports LegacyJob LegacyExtractor Promotion
begin

text \<open>
  Operations nothing in the application calls any more: \<open>project_service.process_document_background\<close>
  with \<open>extraction_service.run_extraction_sync\<close>, the predecessor of the job pipeline, and
  \<open>clean_storage_promotion.resolve_clean_path\<close>. \<open>str_of\<close> is \<open>str\<close> of an exception.
\<close>

section \<open>process\_document\_background\<close>

definition run_extraction_sync :: "legacy_env \<Rightarrow> uuid \<Rightarrow> sess \<Rightarrow> (exc + unit) \<times> sess" where
  "run_extraction_sync env i s = (case extract_requirements_from_document env i s of
       (Inl e, s1) \<Rightarrow> (Inl e, rollback s1) | (Inr _, s1) \<Rightarrow> (Inr (), s1))"

text \<open>The unique constraint on document and page number.\<close>

definition page_conflict :: "db \<Rightarrow> uuid \<Rightarrow> (int \<times> ustr) list \<Rightarrow> bool" where
  "page_conflict d i pgs \<longleftrightarrow> \<not> distinct (map fst pgs)
     \<or> (\<exists>p \<in> set (pages d). pg_document_id p = i \<and> pg_page_number p \<in> fst ` set pgs)"

text \<open>The pages are added to those that are there.\<close>

definition add_pages :: "legacy_env \<Rightarrow> document \<Rightarrow> (int \<times> ustr) list \<Rightarrow> sess \<Rightarrow> sess" where
  "add_pages env x pgs s =
     commit (put_doc (x\<lparr>d_content := Some (join_lines (map snd pgs)), d_processing_status := ''completed''\<rparr>)
       (s\<lparr>work := (work s)\<lparr>pages := pages (work s) @ map (legacy_page env (d_id x)) (enumerate 0 pgs)\<rparr>\<rparr>))"

definition background_event :: "string \<Rightarrow> document \<Rightarrow> project \<Rightarrow> details \<Rightarrow> audit_event" where
  "background_event action x p details =
     \<lparr>ev_organization_id = pr_organization_id p, ev_user_id = Some (d_created_by_id x), ev_action = action,
      ev_entity_type = ''Document'', ev_entity_id = d_id x, ev_details = details\<rparr>"

definition log_for_document :: "string \<Rightarrow> document \<Rightarrow> details \<Rightarrow> sess \<Rightarrow> (exc + unit) \<times> sess" where
  "log_for_document action x details s = (case projects (work s) (d_project_id x) of
       None \<Rightarrow> (Inl (OtherException ''AttributeError''), s)
     | Some p \<Rightarrow> (Inr (), log_audit_event (background_event action x p details) s))"

definition background_body :: "legacy_env \<Rightarrow> document \<Rightarrow> sess \<Rightarrow> (exc + unit) \<times> sess" where
  "background_body env x s = (case lg_pages env of
       Inl e \<Rightarrow> (Inl e, s)
     | Inr pgs \<Rightarrow>
         (if page_conflict (work s) (d_id x) pgs then (Inl IntegrityError, s)
          else and_then (if d_doc_role x = ''rfp'' then run_extraction_sync env (d_id x) (add_pages env x pgs s)
                         else (Inr (), add_pages env x pgs s))
                 (\<lambda>_. log_for_document ''document_extraction_success'' x
                    [''page_count'' \<mapsto> JInt (int (length pgs))])))"

definition background_failed :: "(exc \<Rightarrow> string) \<Rightarrow> exc \<Rightarrow> uuid \<Rightarrow> sess \<Rightarrow> (exc + unit) \<times> sess" where
  "background_failed str_of e i s = (case get_doc s i of
       None \<Rightarrow> (Inr (), s)
     | Some x \<Rightarrow>
         log_for_document ''document_extraction_failed'' x [''error'' \<mapsto> JStr (str_of e)]
           (commit (put_doc (x\<lparr>d_processing_status := ''failed'',
              d_processing_error := Some (take 500 (str_of e))\<rparr>) s)))"

definition process_document_background :: "legacy_env \<Rightarrow> (exc \<Rightarrow> string) \<Rightarrow> uuid \<Rightarrow> sess \<Rightarrow> (exc + unit) \<times> sess" where
  "process_document_background env str_of i s = (case get_doc s i of
       None \<Rightarrow> (Inr (), s)
     | Some x \<Rightarrow> (case background_body env x s of
           (Inr _, s1) \<Rightarrow> (Inr (), s1)
         | (Inl e, s1) \<Rightarrow> background_failed str_of e i (rollback s1)))"

lemma extraction_keeps_documents:
  "documents (work (snd (extract_requirements_from_document env i s))) = documents (work s)"
  "documents (stored (snd (extract_requirements_from_document env i s))) = documents (stored s)
   \<or> documents (stored (snd (extract_requirements_from_document env i s))) = documents (work s)"
  by (auto simp: extract_requirements_from_document_def log_audit_event_def Let_def split: option.splits sum.splits)

text \<open>Unlike the job pipeline it reads a file in any ingestion state: a knowledge document that is
  still in quarantine, or was rejected as malware, ends as completed.\<close>

lemma background_skips_the_scan:
  assumes "get_doc s i = Some x" "d_id x = i" "d_doc_role x \<noteq> ''rfp''" "lg_pages env = Inr pgs"
    and "\<not> page_conflict (work s) i pgs" "projects (work s) (d_project_id x) = Some p"
  shows "\<exists>y. documents (stored (snd (process_document_background env str_of i s))) i = Some y
     \<and> d_processing_status y = ''completed'' \<and> d_ingestion_status y = d_ingestion_status x"
  using assms
  by (auto simp: process_document_background_def background_body_def add_pages_def log_for_document_def
      log_audit_event_def put_doc_def)

text \<open>A second run over the same pages is refused by the unique constraint and marks the document as
  failed.\<close>

lemma second_background_run_fails:
  assumes "get_doc s i = Some x" "d_id x = i" "lg_pages env = Inr ((n, t) # pgs)"
    and "\<exists>q \<in> set (pages (work s)). pg_document_id q = i \<and> pg_page_number q = n"
    and "stored s = work s" "projects (work s) (d_project_id x) = Some p"
  shows "\<exists>y. documents (stored (snd (process_document_background env str_of i s))) i = Some y
     \<and> d_processing_status y = ''failed''"
proof -
  have "page_conflict (work s) i ((n, t) # pgs)" using assms(4) by (auto simp: page_conflict_def)
  then show ?thesis
    using assms
    by (auto simp: process_document_background_def background_body_def background_failed_def rollback_def
        log_for_document_def log_audit_event_def put_doc_def get_doc_def)
qed

section \<open>resolve\_clean\_path\<close>

text \<open>\<open>resolve\<close> is \<open>Path.resolve\<close>, \<open>is_link\<close> is \<open>Path.is_symlink\<close>; \<open>rp\<close> is \<open>repr\<close>;
  paths are lists of components.\<close>

definition clean_candidate :: "ustr list \<Rightarrow> ustr \<Rightarrow> ustr list" where
  "clean_candidate root_path ident =
     (if ident \<noteq> [] \<and> hd ident = 47 then path_components ident else root_path @ path_components ident)"

definition resolve_clean_path :: "(ustr \<Rightarrow> string) \<Rightarrow> (ustr list \<Rightarrow> ustr list) \<Rightarrow> (ustr list \<Rightarrow> bool) \<Rightarrow> ustr list \<Rightarrow> ustr
    \<Rightarrow> exc + ustr list" where
  "resolve_clean_path rp resolve is_link root_path ident =
     (let p = resolve (clean_candidate root_path ident) in
      if take (length root_path) p \<noteq> root_path then
        Inl (PromotionError ''PROMOTION_SOURCE_INVALID'' (''Storage identifier '' @ rp ident @ '' escapes clean root''))
      else if is_link p then
        Inl (PromotionError ''PROMOTION_SOURCE_INVALID'' (''Clean storage path for '' @ rp ident @ '' is a symlink''))
      else Inr p)"

lemma resolved_clean_path_is_inside:
  "resolve_clean_path rp resolve is_link root_path ident = Inr p \<Longrightarrow> \<exists>rest. p = root_path @ rest"
  by (auto simp: resolve_clean_path_def Let_def split: if_splits) (metis append_take_drop_id)

text \<open>The check for symbolic links comes after they were followed: as \<open>resolve\<close> leaves none, a link
  inside the root is accepted as the file it points to.\<close>

lemma clean_link_is_followed:
  assumes "\<forall>p. \<not> is_link (resolve p)" "resolve (clean_candidate root_path ident) = root_path @ rest"
  shows "resolve_clean_path rp resolve is_link root_path ident = Inr (root_path @ rest)"
proof -
  have "\<not> is_link (root_path @ rest)" using assms(1) [rule_format, of "clean_candidate root_path ident"] assms(2) by simp
  then show ?thesis by (simp add: resolve_clean_path_def assms(2))
qed

end
