(* ===== verification/SearchFallback.thy ===== *)
theory SearchFallback
  imports Exports
begin

text \<open>
  The other path of \<open>services/retriever.py\<close>: the search on SQLite, which matches the first word of
  the query as a \<open>LIKE\<close> pattern.
\<close>

text \<open>\<open>LIKE\<close>: 37 stands for any text, 95 for any one character.\<close>

fun like :: "ustr \<Rightarrow> ustr \<Rightarrow> bool" where
  "like [] t = (t = [])"
| "like (c # p) [] = (c = 37 \<and> like p [])"
| "like (c # p) (d # t) =
     (if c = 37 then like p (d # t) \<or> like (c # p) t else (c = 95 \<or> c = d) \<and> like p t)"

text \<open>\<open>ilike\<close> on SQLite compares the lowered texts.\<close>

definition ilike :: "ustr \<Rightarrow> ustr \<Rightarrow> bool" where
  "ilike p t = like (lower_text p) (lower_text t)"

definition retrieve_evidence_sqlite :: "db \<Rightarrow> uuid \<Rightarrow> ustr \<Rightarrow> nat \<Rightarrow> (document_page \<times> document) list" where
  "retrieve_evidence_sqlite d proj q limit = (case space_words q of
       [] \<Rightarrow> []
     | t # _ \<Rightarrow> take limit (filter (\<lambda>(p, x). searchable proj x \<and> ilike (37 # t @ [37]) (pg_content p)) (joined_pages d)))"

text \<open>\<open>retrieve_evidence\<close> on both dialects; the score is 1 on SQLite.\<close>

definition retrieve_evidence_on :: "string \<Rightarrow> search \<Rightarrow> db \<Rightarrow> uuid \<Rightarrow> ustr \<Rightarrow> nat \<Rightarrow> passage list" where
  "retrieve_evidence_on dialect sh d proj query_text limit =
     (if dialect = ''postgresql'' then retrieve_evidence sh d proj query_text limit
      else if strip query_text = [] \<or> clean_query query_text = [] then []
      else List.map_filter (passage_of (sh\<lparr>sh_rank := \<lambda>_ _. 1\<rparr>) (clean_query query_text))
        (retrieve_evidence_sqlite d proj (clean_query query_text) limit))"

lemma like_all: "like [37] t"
  by (induction t) auto

lemma like_literal:
  "37 \<notin> set p \<Longrightarrow> 95 \<notin> set p \<Longrightarrow> like (p @ [37]) t \<longleftrightarrow> starts_with p t"
proof (induction p arbitrary: t)
  case (Cons c p)
  then show ?case by (cases t) (auto simp: starts_with_def)
qed (simp add: like_all starts_with_def)

lemma like_contains:
  assumes "37 \<notin> set p" "95 \<notin> set p"
  shows "like (37 # p @ [37]) t \<longleftrightarrow> contains p t"
proof (induction t)
  case Nil
  show ?case using like_literal [OF assms, of "[]"] by (auto simp: starts_with_def)
next
  case (Cons d t)
  then show ?case using like_literal [OF assms, of "d # t"] by simp
qed

text \<open>Without wildcards in the first word it is looked for anywhere in the page, in any capitalisation.\<close>

lemma sqlite_search_is_containment:
  assumes "space_words q = w # ws" "37 \<notin> set (lower_text w)" "95 \<notin> set (lower_text w)"
  shows "retrieve_evidence_sqlite d proj q limit = take limit (filter (\<lambda>(p, x). searchable proj x
     \<and> contains (lower_text w) (lower_text (pg_content p))) (joined_pages d))"
proof -
  have "lower_text (37 # w @ [37]) = 37 # lower_text w @ [37]" by (simp add: lower_text_def ascii_lower_def)
  then show ?thesis by (simp add: retrieve_evidence_sqlite_def assms(1) ilike_def like_contains [OF assms(2,3)])
qed

lemma passage_of_document:
  "passage_of sh q (p, x) = Some v \<Longrightarrow> ps_document_id v = d_id x"
  by (auto simp: passage_of_def Let_def split: if_splits)

text \<open>On either dialect a passage comes from an approved knowledge document of the project that has
  passed the security pipeline.\<close>

lemma passages_are_searchable:
  assumes "v \<in> set (retrieve_evidence_on dialect sh d proj q limit)"
  shows "\<exists>p x. (p, x) \<in> set (joined_pages d) \<and> searchable proj x \<and> ps_document_id v = d_id x"
proof (cases "dialect = ''postgresql''")
  case True
  then have "v \<in> set (retrieve_evidence sh d proj q limit)" using assms by (simp add: retrieve_evidence_on_def)
  then obtain p x where "(p, x) \<in> set (retrieve_evidence_postgresql sh d proj (clean_query q) limit)"
    "passage_of sh (clean_query q) (p, x) = Some v"
    by (auto simp: retrieve_evidence_def split: if_splits)
  then show ?thesis using passage_of_document
    by (fastforce simp: retrieve_evidence_postgresql_def dest!: in_set_takeD)
next
  case False
  then obtain p x where "(p, x) \<in> set (retrieve_evidence_sqlite d proj (clean_query q) limit)"
    "passage_of (sh\<lparr>sh_rank := \<lambda>_ _. 1\<rparr>) (clean_query q) (p, x) = Some v"
    using assms by (auto simp: retrieve_evidence_on_def List.map_filter_def split: if_splits)
  then show ?thesis using passage_of_document
    by (fastforce simp: retrieve_evidence_sqlite_def split: list.splits dest!: in_set_takeD)
qed

end
