(* ===== verification/Redis.thy ===== *)
theory Redis
  imports Prelude
begin

text \<open>
  The Redis server the session and throttle stores talk to. The server is not part of the
  repository: its commands are the record \<open>redis\<close> the stores take as an argument, and the
  locale \<open>redis_server\<close> states their documented effect on an observable keyspace (value and
  remaining time to live of every key). The connection is scripted: a call is served, or its
  request or its reply is lost, and the client library then raises.
\<close>

section \<open>Commands\<close>

text \<open>\<open>'v\<close> is the type of the texts the sessions are stored as.\<close>

datatype 'v rvalue = RText 'v | RSet "ustr set" | RCount nat

record ('r, 'v) redis =
  rd_get :: "ustr \<Rightarrow> 'r \<Rightarrow> 'v option \<times> 'r"
  rd_set :: "ustr \<Rightarrow> 'v \<Rightarrow> nat \<Rightarrow> 'r \<Rightarrow> unit \<times> 'r"
  rd_del :: "ustr \<Rightarrow> 'r \<Rightarrow> unit \<times> 'r"
  rd_expire :: "ustr \<Rightarrow> nat \<Rightarrow> 'r \<Rightarrow> unit \<times> 'r"
  rd_sadd :: "ustr \<Rightarrow> ustr \<Rightarrow> 'r \<Rightarrow> unit \<times> 'r"
  rd_srem :: "ustr \<Rightarrow> ustr \<Rightarrow> 'r \<Rightarrow> unit \<times> 'r"
  rd_smembers :: "ustr \<Rightarrow> 'r \<Rightarrow> ustr list \<times> 'r"
  rd_scard :: "ustr \<Rightarrow> 'r \<Rightarrow> nat \<times> 'r"
  rd_count :: "ustr \<Rightarrow> 'r \<Rightarrow> nat option \<times> 'r"
  rd_incr :: "ustr \<Rightarrow> 'r \<Rightarrow> nat \<times> 'r"

text \<open>A transaction or script runs its commands without interruption.\<close>

definition both :: "('r \<Rightarrow> 'a \<times> 'r) \<Rightarrow> ('a \<Rightarrow> 'r \<Rightarrow> 'b \<times> 'r) \<Rightarrow> 'r \<Rightarrow> 'b \<times> 'r" where
  "both f g r = (case f r of (a, r1) \<Rightarrow> g a r1)"

section \<open>Connections\<close>

datatype fate = Served | LostRequest | LostReply

record 'r conn =
  cn_server :: 'r
  cn_fates :: "fate list"

definition next_fate :: "'r conn \<Rightarrow> fate" where
  "next_fate c = (case cn_fates c of [] \<Rightarrow> Served | f # _ \<Rightarrow> f)"

definition redis_call :: "('r \<Rightarrow> 'a \<times> 'r) \<Rightarrow> 'r conn \<Rightarrow> 'a option \<times> 'r conn" where
  "redis_call cmd c =
     (let c1 = c\<lparr>cn_fates := tl (cn_fates c)\<rparr>; (a, r) = cmd (cn_server c) in
      case next_fate c of
        Served \<Rightarrow> (Some a, c1\<lparr>cn_server := r\<rparr>)
      | LostRequest \<Rightarrow> (None, c1)
      | LostReply \<Rightarrow> (None, c1\<lparr>cn_server := r\<rparr>))"

lemma redis_call_cases:
  assumes "redis_call cmd c = (a, c')"
  obtains "a = Some (fst (cmd (cn_server c)))" "cn_server c' = snd (cmd (cn_server c))"
  | "a = None" "cn_server c' = cn_server c"
  | "a = None" "cn_server c' = snd (cmd (cn_server c))"
  using assms
  by (cases "cmd (cn_server c)"; cases "next_fate c") (auto simp: redis_call_def Let_def)

lemma redis_call_ok [simp]:
  "cn_fates c = [] \<Longrightarrow> redis_call cmd c
     = (Some (fst (cmd (cn_server c))), c\<lparr>cn_server := snd (cmd (cn_server c))\<rparr>)"
  by (cases c) (simp add: redis_call_def next_fate_def Let_def case_prod_unfold)

definition conn_up :: "'r conn \<Rightarrow> bool" where
  "conn_up c \<longleftrightarrow> cn_fates c = []"

section \<open>Laws of the server\<close>

type_synonym 'v keyspace = "ustr \<rightharpoonup> 'v rvalue \<times> nat option"

text \<open>Remaining times are microseconds; the arguments of \<open>EX\<close> and \<open>EXPIRE\<close> are seconds.\<close>

definition second :: nat where "second = 1000000"

lemma second_pos [simp]: "0 < second"
  by (simp add: second_def)

definition aged :: "nat \<Rightarrow> 'v keyspace \<Rightarrow> 'v keyspace" where
  "aged d K k =
     (case K k of None \<Rightarrow> None
      | Some (v, None) \<Rightarrow> Some (v, None)
      | Some (v, Some n) \<Rightarrow> if d < n then Some (v, Some (n - d)) else None)"

definition members_of :: "'v keyspace \<Rightarrow> ustr \<Rightarrow> ustr set" where
  "members_of K k = (case K k of Some (RSet S, _) \<Rightarrow> S | _ \<Rightarrow> {})"

definition text_of :: "'v keyspace \<Rightarrow> ustr \<Rightarrow> 'v option" where
  "text_of K k = (case K k of Some (RText v, _) \<Rightarrow> Some v | _ \<Rightarrow> None)"

definition count_of :: "'v keyspace \<Rightarrow> ustr \<Rightarrow> nat option" where
  "count_of K k = (case K k of Some (RCount n, _) \<Rightarrow> Some n | _ \<Rightarrow> None)"

definition ttl_of :: "'v keyspace \<Rightarrow> ustr \<Rightarrow> nat option" where
  "ttl_of K k = (case K k of None \<Rightarrow> None | Some (_, n) \<Rightarrow> n)"

text \<open>A command on a key of another type is an error; the laws say nothing about it.\<close>

definition holds_text :: "'v keyspace \<Rightarrow> ustr \<Rightarrow> bool" where
  "holds_text K k \<longleftrightarrow> (case K k of None \<Rightarrow> True | Some (RText _, _) \<Rightarrow> True | _ \<Rightarrow> False)"

definition holds_set :: "'v keyspace \<Rightarrow> ustr \<Rightarrow> bool" where
  "holds_set K k \<longleftrightarrow> (case K k of None \<Rightarrow> True | Some (RSet _, _) \<Rightarrow> True | _ \<Rightarrow> False)"

definition holds_count :: "'v keyspace \<Rightarrow> ustr \<Rightarrow> bool" where
  "holds_count K k \<longleftrightarrow> (case K k of None \<Rightarrow> True | Some (RCount _, _) \<Rightarrow> True | _ \<Rightarrow> False)"

definition count_at :: "'v keyspace \<Rightarrow> ustr \<Rightarrow> nat" where
  "count_at K k = (case count_of K k of None \<Rightarrow> 0 | Some n \<Rightarrow> n)"

text \<open>Removing the last member of a set removes the key.\<close>

definition set_entry :: "ustr set \<Rightarrow> nat option \<Rightarrow> ('v rvalue \<times> nat option) option" where
  "set_entry S n = (if S = {} then None else Some (RSet S, n))"

locale redis_server =
  fixes R :: "('r, 'v) redis"
    and entry :: "'r \<Rightarrow> 'v keyspace"
    and wait :: "nat \<Rightarrow> 'r \<Rightarrow> 'r"
  assumes get_value: "holds_text (entry r) k \<Longrightarrow> fst (rd_get R k r) = text_of (entry r) k"
    and get_keeps [simp]: "entry (snd (rd_get R k r)) = entry r"
    and set_effect: "0 < n \<Longrightarrow> entry (snd (rd_set R k v n r)) = (entry r)(k \<mapsto> (RText v, Some (n * second)))"
    and del_effect: "entry (snd (rd_del R k r)) = (entry r)(k := None)"
    and expire_effect: "0 < n \<Longrightarrow> entry (snd (rd_expire R k n r))
      = (entry r)(k := map_option (\<lambda>(v, _). (v, Some (n * second))) (entry r k))"
    and sadd_effect: "holds_set (entry r) k \<Longrightarrow> entry (snd (rd_sadd R k m r))
      = (entry r)(k := set_entry (insert m (members_of (entry r) k)) (ttl_of (entry r) k))"
    and srem_effect: "holds_set (entry r) k \<Longrightarrow> entry (snd (rd_srem R k m r))
      = (entry r)(k := set_entry (members_of (entry r) k - {m}) (ttl_of (entry r) k))"
    and smembers_value: "holds_set (entry r) k \<Longrightarrow> set (fst (rd_smembers R k r)) = members_of (entry r) k"
      "holds_set (entry r) k \<Longrightarrow> distinct (fst (rd_smembers R k r))"
    and smembers_keeps [simp]: "entry (snd (rd_smembers R k r)) = entry r"
    and scard_value: "holds_set (entry r) k \<Longrightarrow> fst (rd_scard R k r) = card (members_of (entry r) k)"
    and scard_keeps [simp]: "entry (snd (rd_scard R k r)) = entry r"
    and count_value: "holds_count (entry r) k \<Longrightarrow> fst (rd_count R k r) = count_of (entry r) k"
    and count_keeps [simp]: "entry (snd (rd_count R k r)) = entry r"
    and incr_value: "holds_count (entry r) k \<Longrightarrow> fst (rd_incr R k r) = Suc (count_at (entry r) k)"
    and incr_effect: "holds_count (entry r) k \<Longrightarrow> entry (snd (rd_incr R k r))
      = (entry r)(k \<mapsto> (RCount (Suc (count_at (entry r) k)), ttl_of (entry r) k))"
    and wait_effect: "entry (wait d r) = aged d (entry r)"

lemma keyspace_upd [simp]:
  "members_of (K(k := set_entry S n)) k = S"
  "members_of (K(k := map_option (\<lambda>(v, _). (v, n)) (K k))) k = members_of K k"
  "k' \<noteq> k \<Longrightarrow> members_of (K(k := e)) k' = members_of K k'"
  "members_of (K(k := None)) k = {}"
  "text_of (K(k \<mapsto> (RText v, n))) k = Some v"
  "k' \<noteq> k \<Longrightarrow> text_of (K(k := e)) k' = text_of K k'"
  "text_of (K(k := None)) k = None"
  "count_of (K(k \<mapsto> (RCount c, n))) k = Some c"
  "k' \<noteq> k \<Longrightarrow> count_of (K(k := e)) k' = count_of K k'"
  "count_of (K(k := None)) k = None"
  "ttl_of (K(k \<mapsto> (w, n))) k = n"
  "k' \<noteq> k \<Longrightarrow> ttl_of (K(k := e)) k' = ttl_of K k'"
  "ttl_of (K(k := None)) k = None"
  by (auto simp: members_of_def text_of_def count_of_def ttl_of_def set_entry_def
      split: option.splits rvalue.splits)

lemma holds_upd [simp]:
  "k' \<noteq> k \<Longrightarrow> holds_text (K(k := e)) k' = holds_text K k'"
  "k' \<noteq> k \<Longrightarrow> holds_set (K(k := e)) k' = holds_set K k'"
  "k' \<noteq> k \<Longrightarrow> holds_count (K(k := e)) k' = holds_count K k'"
  "holds_text (K(k := None)) k" "holds_set (K(k := None)) k" "holds_count (K(k := None)) k"
  "holds_text (K(k \<mapsto> (RText v, n))) k" "holds_count (K(k \<mapsto> (RCount c, n))) k"
  "holds_set (K(k := set_entry S n)) k"
  by (simp_all add: holds_text_def holds_set_def holds_count_def set_entry_def)

section \<open>A keyspace obeys them\<close>

text \<open>
  A server that is nothing but a keyspace with sets as lists, for concrete runs: a text, a
  list of members or a number under each key, with its remaining time.
\<close>

datatype 'v cell = CText 'v | CList "ustr list" | CCount nat

type_synonym 'v cells = "ustr \<rightharpoonup> 'v cell \<times> nat option"

fun cell_value :: "'v cell \<Rightarrow> 'v rvalue" where
  "cell_value (CText v) = RText v"
| "cell_value (CList ms) = RSet (set ms)"
| "cell_value (CCount n) = RCount n"

definition cells_entry :: "'v cells \<Rightarrow> 'v keyspace" where
  "cells_entry C k = map_option (\<lambda>(c, n). (cell_value c, n)) (C k)"

definition cell_list :: "'v cells \<Rightarrow> ustr \<Rightarrow> ustr list" where
  "cell_list C k = (case C k of Some (CList ms, _) \<Rightarrow> remdups ms | _ \<Rightarrow> [])"

definition cell_ttl :: "'v cells \<Rightarrow> ustr \<Rightarrow> nat option" where
  "cell_ttl C k = (case C k of None \<Rightarrow> None | Some (_, n) \<Rightarrow> n)"

definition put_list :: "ustr \<Rightarrow> ustr list \<Rightarrow> 'v cells \<Rightarrow> 'v cells" where
  "put_list k ms C = C(k := if ms = [] then None else Some (CList ms, cell_ttl C k))"

definition cell_count :: "'v cells \<Rightarrow> ustr \<Rightarrow> nat option" where
  "cell_count C k = (case C k of Some (CCount n, _) \<Rightarrow> Some n | _ \<Rightarrow> None)"

definition cells_wait :: "nat \<Rightarrow> 'v cells \<Rightarrow> 'v cells" where
  "cells_wait d C = (\<lambda>k. case C k of None \<Rightarrow> None
     | Some (c, None) \<Rightarrow> Some (c, None)
     | Some (c, Some n) \<Rightarrow> if d < n then Some (c, Some (n - d)) else None)"

definition cells_redis :: "('v cells, 'v) redis" where
  "cells_redis =
     \<lparr>rd_get = \<lambda>k C. (case C k of Some (CText v, _) \<Rightarrow> Some v | _ \<Rightarrow> None, C),
      rd_set = \<lambda>k v n C. ((), C(k \<mapsto> (CText v, Some (n * second)))),
      rd_del = \<lambda>k C. ((), C(k := None)),
      rd_expire = \<lambda>k n C. ((), C(k := map_option (\<lambda>(c, _). (c, Some (n * second))) (C k))),
      rd_sadd = \<lambda>k m C. ((), put_list k (m # cell_list C k) C),
      rd_srem = \<lambda>k m C. ((), put_list k (filter (\<lambda>x. x \<noteq> m) (cell_list C k)) C),
      rd_smembers = \<lambda>k C. (cell_list C k, C),
      rd_scard = \<lambda>k C. (length (cell_list C k), C),
      rd_count = \<lambda>k C. (cell_count C k, C),
      rd_incr = \<lambda>k C. (let n = Suc (case cell_count C k of None \<Rightarrow> 0 | Some n \<Rightarrow> n)
                       in (n, C(k \<mapsto> (CCount n, cell_ttl C k))))\<rparr>"

lemma cells_observed [simp]:
  shows "text_of (cells_entry C) k = (case C k of Some (CText v, _) \<Rightarrow> Some v | _ \<Rightarrow> None)"
    and "members_of (cells_entry C) k = set (cell_list C k)"
    and "count_of (cells_entry C) k = cell_count C k"
    and "ttl_of (cells_entry C) k = cell_ttl C k"
  unfolding text_of_def members_of_def count_of_def ttl_of_def cells_entry_def
        cell_list_def cell_count_def cell_ttl_def
  by ((cases "C k"; cases "fst (the (C k))"; auto)+)

lemma cells_entry_upd [simp]:
  "cells_entry (C(k := e)) = (cells_entry C)(k := map_option (\<lambda>(c, n). (cell_value c, n)) e)"
  by (simp add: cells_entry_def fun_eq_iff)

lemma cells_entry_put_list [simp]:
  "cells_entry (put_list k ms C) = (cells_entry C)(k := set_entry (set ms) (cell_ttl C k))"
  by (simp add: put_list_def set_entry_def)

lemma set_filter_not: "{x \<in> S. x \<noteq> m} = S - {m}"
  by auto

lemma distinct_cell_list [simp]: "distinct (cell_list C k)"
  by (simp add: cell_list_def split: option.split prod.split cell.split)

lemma cells_expire:
  "map_option (\<lambda>(c, n). (cell_value c, n)) (map_option (\<lambda>(c, _). (c, m)) e)
   = map_option (\<lambda>(v, _). (v, m)) (map_option (\<lambda>(c, n). (cell_value c, n)) e)"
  by (cases e) auto

lemma cells_aged: "cells_entry (cells_wait d C) = aged d (cells_entry C)"
  by (auto simp: cells_entry_def cells_wait_def aged_def fun_eq_iff split: option.splits)

interpretation cells: redis_server cells_redis cells_entry cells_wait
  by unfold_locales
    (simp_all add: cells_redis_def count_at_def Let_def set_filter_not cells_expire cells_aged
      distinct_card,
     simp_all add: cells_entry_def)

end
