(* ===== verification/Throttle.thy ===== *)
theory Throttle
  imports Redis
begin

text \<open>
  \<open>app/core/sessions/throttling.py\<close>: the counter stores behind one interface (Redis in
  production, the in-memory double of the tests) and the three limits of \<open>LoginThrottle\<close>.
  HMAC-SHA256 is a parameter; times are microseconds, windows are seconds.
\<close>

section \<open>The interface\<close>

text \<open>A call to a store returns, or raises its unavailability error (\<open>None\<close>).\<close>

type_synonym ('a, 's) store_call = "'s \<Rightarrow> 'a option \<times> 's"

definition ask :: "('a, 's) store_call \<Rightarrow> ('a \<Rightarrow> ('b, 's) store_call) \<Rightarrow> ('b, 's) store_call" where
  "ask f g s = (case f s of (None, s1) \<Rightarrow> (None, s1) | (Some a, s1) \<Rightarrow> g a s1)"

definition done_with :: "'a \<Rightarrow> ('a, 's) store_call" where
  "done_with a s = (Some a, s)"

lemma ask_up: "f s = (Some a, s1) \<Longrightarrow> ask f g s = g a s1"
  by (simp add: ask_def)

record 's throttle_ops =
  to_get_count :: "ustr \<Rightarrow> (nat, 's) store_call"
  to_increment :: "ustr \<Rightarrow> nat \<Rightarrow> (nat, 's) store_call"
  to_reset :: "ustr \<Rightarrow> (unit, 's) store_call"

section \<open>RedisThrottleStore\<close>

definition incr_with_ttl :: "('r, 'v) redis \<Rightarrow> ustr \<Rightarrow> nat \<Rightarrow> 'r \<Rightarrow> nat \<times> 'r" where
  "incr_with_ttl R k w =
     both (rd_incr R k)
       (\<lambda>n. if n = 1 then both (rd_expire R k w) (\<lambda>_ r. (n, r)) else (\<lambda>r. (n, r)))"

definition redis_throttle :: "('r, 'v) redis \<Rightarrow> 'r conn throttle_ops" where
  "redis_throttle R =
     \<lparr>to_get_count = \<lambda>k. ask (redis_call (rd_count R k))
        (\<lambda>raw. done_with (case raw of None \<Rightarrow> 0 | Some n \<Rightarrow> n)),
      to_increment = \<lambda>k w. redis_call (incr_with_ttl R k w),
      to_reset = \<lambda>k. redis_call (rd_del R k)\<rparr>"

section \<open>InMemoryThrottleStore\<close>

record memory_throttle =
  mt_counts :: "ustr \<rightharpoonup> nat \<times> nat"
  mt_clock :: nat
  mt_available :: bool

definition memory_get_count :: "ustr \<Rightarrow> (nat, memory_throttle) store_call" where
  "memory_get_count k m =
     (if \<not> mt_available m then (None, m)
      else (case mt_counts m k of
              None \<Rightarrow> (Some 0, m)
            | Some (n, expires) \<Rightarrow>
                if mt_clock m \<ge> expires
                then (Some 0, m\<lparr>mt_counts := (mt_counts m)(k := None)\<rparr>)
                else (Some n, m)))"

definition memory_increment :: "ustr \<Rightarrow> nat \<Rightarrow> (nat, memory_throttle) store_call" where
  "memory_increment k w m =
     (if \<not> mt_available m then (None, m)
      else
        let (n, expires) =
              (case mt_counts m k of
                 None \<Rightarrow> (1, mt_clock m + w * second)
               | Some (c, x) \<Rightarrow>
                   if mt_clock m \<ge> x then (1, mt_clock m + w * second) else (c + 1, x))
        in (Some n, m\<lparr>mt_counts := (mt_counts m)(k \<mapsto> (n, expires))\<rparr>))"

definition memory_reset :: "ustr \<Rightarrow> (unit, memory_throttle) store_call" where
  "memory_reset k m =
     (if \<not> mt_available m then (None, m)
      else (Some (), m\<lparr>mt_counts := (mt_counts m)(k := None)\<rparr>))"

definition memory_throttle_ops :: "memory_throttle throttle_ops" where
  "memory_throttle_ops =
     \<lparr>to_get_count = memory_get_count, to_increment = memory_increment, to_reset = memory_reset\<rparr>"

section \<open>What a counter store promises\<close>

definition throttle_prefix :: ustr where "throttle_prefix = uni ''rfp:throttle:''"

definition counter_keys :: "ustr set" where
  "counter_keys = range (\<lambda>x. throttle_prefix @ x)"

text \<open>
  \<open>counts\<close> is the number of hits in the running window of each key. A call that raises may
  still have had its effect (the reply was lost).
\<close>

locale throttle_store =
  fixes ops :: "'s throttle_ops" and counts :: "'s \<Rightarrow> ustr \<Rightarrow> nat" and ok :: "'s \<Rightarrow> bool"
  assumes get_count: "ok s \<Longrightarrow> k \<in> counter_keys \<Longrightarrow> to_get_count ops k s = (a, s') \<Longrightarrow>
      ok s' \<and> counts s' = counts s \<and> (a = None \<or> a = Some (counts s k))"
    and increment: "ok s \<Longrightarrow> k \<in> counter_keys \<Longrightarrow> 0 < w \<Longrightarrow> to_increment ops k w s = (a, s') \<Longrightarrow>
      ok s' \<and> (counts s' = (counts s)(k := Suc (counts s k)) \<and> (a = None \<or> a = Some (Suc (counts s k)))
             \<or> counts s' = counts s \<and> a = None)"
    and reset: "ok s \<Longrightarrow> k \<in> counter_keys \<Longrightarrow> to_reset ops k s = (b, s') \<Longrightarrow>
      ok s' \<and> (counts s' = (counts s)(k := 0) \<or> counts s' = counts s \<and> b = None)"

text \<open>The in-memory double.\<close>

definition memory_counts :: "memory_throttle \<Rightarrow> ustr \<Rightarrow> nat" where
  "memory_counts m k =
     (case mt_counts m k of None \<Rightarrow> 0 | Some (n, x) \<Rightarrow> if mt_clock m \<ge> x then 0 else n)"

lemma memory_counts_upd [simp]:
  "memory_counts (m\<lparr>mt_counts := (mt_counts m)(k \<mapsto> (n, x))\<rparr>)
     = (memory_counts m)(k := if mt_clock m \<ge> x then 0 else n)"
  "memory_counts (m\<lparr>mt_counts := (mt_counts m)(k := None)\<rparr>) = (memory_counts m)(k := 0)"
  by (auto simp: memory_counts_def fun_eq_iff split: option.split)

lemma memory_counts_at [simp]:
  "mt_counts m k = None \<Longrightarrow> memory_counts m k = 0"
  "mt_counts m k = Some (n, x) \<Longrightarrow> memory_counts m k = (if mt_clock m \<ge> x then 0 else n)"
  by (simp_all add: memory_counts_def)

interpretation memory_throttles: throttle_store memory_throttle_ops memory_counts "\<lambda>_. True"
proof
  fix s s' k a
  assume "to_get_count memory_throttle_ops k s = (a, s')"
  then show "True \<and> memory_counts s' = memory_counts s \<and> (a = None \<or> a = Some (memory_counts s k))"
    by (auto simp: memory_throttle_ops_def memory_get_count_def fun_upd_idem split: if_splits option.splits)
next
  fix s s' k a and w :: nat
  assume "to_increment memory_throttle_ops k w s = (a, s')" and "0 < w"
  then show "True \<and> (memory_counts s' = (memory_counts s)(k := Suc (memory_counts s k))
      \<and> (a = None \<or> a = Some (Suc (memory_counts s k))) \<or> memory_counts s' = memory_counts s \<and> a = None)"
    by (auto simp: memory_throttle_ops_def memory_increment_def second_def split: if_splits option.splits)
next
  fix s s' k b
  assume "to_reset memory_throttle_ops k s = (b, s')"
  then show "True \<and> (memory_counts s' = (memory_counts s)(k := 0) \<or> memory_counts s' = memory_counts s \<and> b = None)"
    by (auto simp: memory_throttle_ops_def memory_reset_def split: if_splits)
qed

text \<open>Redis, as long as nobody puts values of another type under the keys.\<close>

definition counters_ok :: "('r \<Rightarrow> 'v keyspace) \<Rightarrow> 'r conn \<Rightarrow> bool" where
  "counters_ok ent c \<longleftrightarrow> (\<forall>k \<in> counter_keys. holds_count (ent (cn_server c)) k)"

definition redis_counts :: "('r \<Rightarrow> 'v keyspace) \<Rightarrow> 'r conn \<Rightarrow> ustr \<Rightarrow> nat" where
  "redis_counts ent c k = count_at (ent (cn_server c)) k"

context redis_server
begin

lemma incr_with_ttl:
  assumes "holds_count (entry r) k" and "0 < w"
  shows "fst (incr_with_ttl R k w r) = Suc (count_at (entry r) k)"
    and "entry (snd (incr_with_ttl R k w r)) = (entry r)(k \<mapsto> (RCount (Suc (count_at (entry r) k)),
           if count_at (entry r) k = 0 then Some (w * second) else ttl_of (entry r) k))"
  using incr_value [OF assms(1)] incr_effect [OF assms(1)] expire_effect [OF assms(2), of k "snd (rd_incr R k r)"]
  by (simp_all add: incr_with_ttl_def both_def case_prod_unfold)

lemma count_at_upd [simp]:
  "count_at (K(k \<mapsto> (RCount n, t))) j = (if j = k then n else count_at K j)"
  "count_at (K(k := None)) j = (if j = k then 0 else count_at K j)"
  by (simp_all add: count_at_def)

lemma holds_count_upd [simp]:
  "holds_count (K(k \<mapsto> (RCount n, t))) j \<longleftrightarrow> j = k \<or> holds_count K j"
  "holds_count (K(k := None)) j \<longleftrightarrow> j = k \<or> holds_count K j"
  by (cases "j = k"; simp)+

end

sublocale redis_server \<subseteq> redis_throttles: throttle_store "redis_throttle R" "redis_counts entry" "counters_ok entry"
proof
  fix s s' k a
  assume ok: "counters_ok entry s" and k: "k \<in> counter_keys" and run: "to_get_count (redis_throttle R) k s = (a, s')"
  have v: "fst (rd_count R k (cn_server s)) = count_of (entry (cn_server s)) k"
    using ok k by (simp add: count_value counters_ok_def)
  obtain x where x: "redis_call (rd_count R k) s = (x, s')"
    "a = map_option (\<lambda>raw. case raw of None \<Rightarrow> 0 | Some n \<Rightarrow> n) x"
    using run by (auto simp: redis_throttle_def ask_def done_with_def split: option.splits prod.splits)
  have "entry (cn_server s') = entry (cn_server s)" "x = None \<or> x = Some (count_of (entry (cn_server s)) k)"
    using x(1) v by (auto elim!: redis_call_cases)
  then show "counters_ok entry s' \<and> redis_counts entry s' = redis_counts entry s \<and> (a = None \<or> a = Some (redis_counts entry s k))"
    using ok x(2) by (auto simp: counters_ok_def redis_counts_def [abs_def] count_at_def)
next
  fix s s' k a and w :: nat
  assume ok: "counters_ok entry s" and k: "k \<in> counter_keys" and w: "0 < w"
    and run: "to_increment (redis_throttle R) k w s = (a, s')"
  have h: "holds_count (entry (cn_server s)) k" using ok k by (simp add: counters_ok_def)
  note i = incr_with_ttl [OF h w]
  show "counters_ok entry s' \<and> (redis_counts entry s' = (redis_counts entry s)(k := Suc (redis_counts entry s k))
      \<and> (a = None \<or> a = Some (Suc (redis_counts entry s k))) \<or> redis_counts entry s' = redis_counts entry s \<and> a = None)"
    using run ok unfolding redis_throttle_def throttle_ops.simps
    by (elim redis_call_cases) (auto simp: i counters_ok_def redis_counts_def fun_eq_iff)
next
  fix s s' k b
  assume ok: "counters_ok entry s" and k: "k \<in> counter_keys" and run: "to_reset (redis_throttle R) k s = (b, s')"
  show "counters_ok entry s' \<and> (redis_counts entry s' = (redis_counts entry s)(k := 0) \<or> redis_counts entry s' = redis_counts entry s \<and> b = None)"
    using run ok unfolding redis_throttle_def throttle_ops.simps
    by (elim redis_call_cases) (auto simp: del_effect counters_ok_def redis_counts_def fun_eq_iff)
qed

section \<open>The two stores are interchangeable\<close>

datatype throttle_op = GetCount ustr | Increment ustr nat | Reset ustr | Pass nat

fun throttle_key :: "throttle_op \<Rightarrow> ustr option" where
  "throttle_key (GetCount k) = Some k"
| "throttle_key (Increment k w) = Some k"
| "throttle_key (Reset k) = Some k"
| "throttle_key (Pass d) = None"

definition throttle_op_ok :: "throttle_op \<Rightarrow> bool" where
  "throttle_op_ok p \<longleftrightarrow> (case throttle_key p of None \<Rightarrow> True | Some k \<Rightarrow> k \<in> counter_keys)
     \<and> (case p of Increment k w \<Rightarrow> 0 < w | _ \<Rightarrow> True)"

text \<open>One call, or the passing of some microseconds, with the number it answers.\<close>

fun throttle_do :: "'s throttle_ops \<Rightarrow> (nat \<Rightarrow> 's \<Rightarrow> 's) \<Rightarrow> throttle_op \<Rightarrow> (nat option, 's) store_call" where
  "throttle_do ops pass (GetCount k) = ask (to_get_count ops k) (\<lambda>n. done_with (Some n))"
| "throttle_do ops pass (Increment k w) = ask (to_increment ops k w) (\<lambda>n. done_with (Some n))"
| "throttle_do ops pass (Reset k) = ask (to_reset ops k) (\<lambda>_. done_with None)"
| "throttle_do ops pass (Pass d) = (\<lambda>s. (Some None, pass d s))"

fun throttle_run ::
  "'s throttle_ops \<Rightarrow> (nat \<Rightarrow> 's \<Rightarrow> 's) \<Rightarrow> throttle_op list \<Rightarrow> 's \<Rightarrow> nat option option list" where
  "throttle_run ops pass [] s = []"
| "throttle_run ops pass (p # ps) s =
     (case throttle_do ops pass p s of (a, s1) \<Rightarrow> a # throttle_run ops pass ps s1)"

definition memory_pass :: "nat \<Rightarrow> memory_throttle \<Rightarrow> memory_throttle" where
  "memory_pass d m = m\<lparr>mt_clock := mt_clock m + d\<rparr>"

definition conn_pass :: "(nat \<Rightarrow> 'r \<Rightarrow> 'r) \<Rightarrow> nat \<Rightarrow> 'r conn \<Rightarrow> 'r conn" where
  "conn_pass w d c = c\<lparr>cn_server := w d (cn_server c)\<rparr>"

text \<open>The counter with its remaining time, or nothing once the window is over.\<close>

definition memory_window :: "memory_throttle \<Rightarrow> ustr \<Rightarrow> (nat \<times> nat) option" where
  "memory_window m k =
     (case mt_counts m k of None \<Rightarrow> None
      | Some (n, x) \<Rightarrow> if mt_clock m \<ge> x then None else Some (n, x - mt_clock m))"

definition window_entry :: "(nat \<times> nat) option \<Rightarrow> ('v rvalue \<times> nat option) option" where
  "window_entry = map_option (\<lambda>(n, t). (RCount n, Some t))"

definition same_windows :: "'v keyspace \<Rightarrow> memory_throttle \<Rightarrow> bool" where
  "same_windows K m \<longleftrightarrow> (\<forall>k \<in> counter_keys. K k = window_entry (memory_window m k)
     \<and> (case memory_window m k of None \<Rightarrow> True | Some (n, t) \<Rightarrow> 0 < n))"

lemma memory_window_pass:
  "memory_window (memory_pass d m) k
   = (case memory_window m k of None \<Rightarrow> None | Some (n, t) \<Rightarrow> if d < t then Some (n, t - d) else None)"
  by (auto simp: memory_window_def memory_pass_def split: option.split)

lemma same_windows_pass: "same_windows K m \<Longrightarrow> same_windows (aged d K) (memory_pass d m)"
  by (auto simp: same_windows_def aged_def memory_window_pass window_entry_def split: option.splits if_splits)

lemma memory_window_upd:
  "memory_window (m\<lparr>mt_counts := (mt_counts m)(k \<mapsto> (n, x))\<rparr>) j
   = (if j = k then if mt_clock m \<ge> x then None else Some (n, x - mt_clock m) else memory_window m j)"
  "memory_window (m\<lparr>mt_counts := (mt_counts m)(k := None)\<rparr>) j
   = (if j = k then None else memory_window m j)"
  by (auto simp: memory_window_def split: option.split)

lemma window_of:
  assumes "same_windows K m" and "k \<in> counter_keys"
  shows "holds_count K k" and "count_of K k = map_option fst (memory_window m k)"
    and "count_at K k = (case memory_window m k of None \<Rightarrow> 0 | Some (n, _) \<Rightarrow> n)"
    and "ttl_of K k = map_option snd (memory_window m k)"
  using assms
  by (auto simp: same_windows_def holds_count_def count_of_def count_at_def ttl_of_def window_entry_def
      split: option.splits)

definition windows_linked :: "('r \<Rightarrow> 'v keyspace) \<Rightarrow> 'r conn \<Rightarrow> memory_throttle \<Rightarrow> bool" where
  "windows_linked ent c m \<longleftrightarrow> cn_fates c = [] \<and> mt_available m \<and> same_windows (ent (cn_server c)) m"

text \<open>Both stores answer the same and stay linked.\<close>

definition agree_on ::
  "('r \<Rightarrow> 'v keyspace) \<Rightarrow> ('a, 'r conn) store_call \<Rightarrow> ('a, memory_throttle) store_call \<Rightarrow> 'r conn \<Rightarrow> memory_throttle \<Rightarrow> bool" where
  "agree_on ent f g c m \<longleftrightarrow> fst (f c) = fst (g m) \<and> windows_linked ent (snd (f c)) (snd (g m))"

lemma agree_on_ask:
  "agree_on ent f g c m \<Longrightarrow>
   agree_on ent (ask f (\<lambda>x. done_with (h x))) (ask g (\<lambda>x. done_with (h x))) c m"
  by (auto simp: agree_on_def ask_def done_with_def split: prod.splits option.splits)

context redis_server
begin

lemma get_count_agrees:
  assumes "windows_linked entry c m" and "k \<in> counter_keys"
  shows "agree_on entry (to_get_count (redis_throttle R) k) (memory_get_count k) c m"
proof -
  have l: "cn_fates c = []" "mt_available m" "same_windows (entry (cn_server c)) m"
    using assms(1) by (simp_all add: windows_linked_def)
  note w = window_of [OF l(3) assms(2)]
  have "fst (to_get_count (redis_throttle R) k c) = fst (memory_get_count k m)"
    using l w by (auto simp: redis_throttle_def ask_def done_with_def count_value memory_get_count_def
        memory_window_def split: option.splits)
  moreover have "windows_linked entry (snd (to_get_count (redis_throttle R) k c)) (snd (memory_get_count k m))"
    using l assms(2)
    by (auto simp: redis_throttle_def ask_def done_with_def memory_get_count_def windows_linked_def
        same_windows_def memory_window_upd memory_window_def split: option.splits)
  ultimately show ?thesis by (simp add: agree_on_def)
qed

lemma increment_agrees:
  assumes "windows_linked entry c m" and "k \<in> counter_keys" and "0 < n"
  shows "agree_on entry (to_increment (redis_throttle R) k n) (memory_increment k n) c m"
proof -
  have l: "cn_fates c = []" "mt_available m" "same_windows (entry (cn_server c)) m"
    using assms(1) by (simp_all add: windows_linked_def)
  note w = window_of [OF l(3) assms(2)]
  note i = incr_with_ttl [OF w(1) assms(3)]
  have "fst (to_increment (redis_throttle R) k n c) = fst (memory_increment k n m)"
    using l w by (auto simp: redis_throttle_def i memory_increment_def Let_def memory_window_def
        split: option.splits)
  moreover have pos: "memory_window m k = Some (a, b) \<Longrightarrow> 0 < a" for a b
    using l(3) assms(2) by (auto simp: same_windows_def)
  have "windows_linked entry (snd (to_increment (redis_throttle R) k n c)) (snd (memory_increment k n m))"
    using l w(3,4) assms(3) pos
    by (auto simp: redis_throttle_def i memory_increment_def windows_linked_def same_windows_def
        window_entry_def memory_window_upd memory_window_def [of m k] second_def split: option.splits if_splits)
  ultimately show ?thesis by (simp add: agree_on_def)
qed

lemma reset_agrees:
  assumes "windows_linked entry c m" and "k \<in> counter_keys"
  shows "agree_on entry (to_reset (redis_throttle R) k) (memory_reset k) c m"
  using assms
  by (auto simp: agree_on_def redis_throttle_def memory_reset_def windows_linked_def same_windows_def
      del_effect memory_window_upd window_entry_def)

lemma pass_agrees:
  assumes "windows_linked entry c m"
  shows "agree_on entry (\<lambda>c. (Some None, conn_pass wait d c)) (\<lambda>m. (Some None, memory_pass d m)) c m"
  using assms same_windows_pass [of "entry (cn_server c)" m d]
  by (simp add: agree_on_def windows_linked_def conn_pass_def wait_effect) (simp add: memory_pass_def)

lemma throttle_do_agrees:
  assumes "windows_linked entry c m" and "throttle_op_ok p"
  shows "agree_on entry (throttle_do (redis_throttle R) (conn_pass wait) p)
           (throttle_do memory_throttle_ops memory_pass p) c m"
  using assms get_count_agrees increment_agrees reset_agrees pass_agrees
  by (cases p) (auto simp: throttle_op_ok_def memory_throttle_ops_def intro!: agree_on_ask)

lemma throttle_runs_agree:
  assumes "windows_linked entry c m" and "\<forall>p \<in> set ps. throttle_op_ok p"
  shows "throttle_run (redis_throttle R) (conn_pass wait) ps c = throttle_run memory_throttle_ops memory_pass ps m"
  using assms
proof (induction ps arbitrary: c m)
  case (Cons p ps)
  then show ?case using throttle_do_agrees [of c m p] by (auto simp: agree_on_def case_prod_unfold)
qed simp

end

section \<open>LoginThrottle\<close>

text \<open>\<open>lt_mac\<close> is the hexadecimal HMAC-SHA256 of the UTF-8 bytes under the server's secret.\<close>

record throttle_config =
  lt_mac :: "ustr \<Rightarrow> ustr"
  lt_account_ip_max :: nat
  lt_account_ip_window :: nat
  lt_ip_max :: nat
  lt_ip_window :: nat
  lt_account_max :: nat
  lt_account_window :: nat
  lt_max_cooldown :: nat

record throttle_decision =
  td_allowed :: bool
  td_retry_after_seconds :: "nat option"
  td_reason :: "string option"

definition normalize_email :: "(ustr \<Rightarrow> ustr) \<Rightarrow> ustr \<Rightarrow> ustr" where
  "normalize_email lc email = lc (strip email)"

definition ip_key :: "ustr \<Rightarrow> ustr" where
  "ip_key ip = throttle_prefix @ uni ''ip:'' @ ip"

definition acct_ip_key :: "throttle_config \<Rightarrow> ustr \<Rightarrow> ustr \<Rightarrow> ustr" where
  "acct_ip_key cfg email ip = throttle_prefix @ uni ''acct_ip:'' @ lt_mac cfg email @ uni '':'' @ ip"

definition acct_key :: "throttle_config \<Rightarrow> ustr \<Rightarrow> ustr" where
  "acct_key cfg email = throttle_prefix @ uni ''acct:'' @ lt_mac cfg email"

definition blocked :: "throttle_config \<Rightarrow> string \<Rightarrow> throttle_decision" where
  "blocked cfg reason =
     \<lparr>td_allowed = False, td_retry_after_seconds = Some (lt_max_cooldown cfg), td_reason = Some reason\<rparr>"

definition unthrottled :: throttle_decision where
  "unthrottled = \<lparr>td_allowed = True, td_retry_after_seconds = None, td_reason = None\<rparr>"

definition throttle_check ::
  "'s throttle_ops \<Rightarrow> throttle_config \<Rightarrow> ustr \<Rightarrow> ustr \<Rightarrow> (throttle_decision, 's) store_call" where
  "throttle_check ops cfg email ip =
     ask (to_get_count ops (ip_key ip)) (\<lambda>n.
       if n \<ge> lt_ip_max cfg then done_with (blocked cfg ''ip'')
       else ask (to_get_count ops (acct_ip_key cfg email ip)) (\<lambda>n.
         if n \<ge> lt_account_ip_max cfg then done_with (blocked cfg ''account_ip'')
         else ask (to_get_count ops (acct_key cfg email)) (\<lambda>n.
           if n \<ge> lt_account_max cfg then done_with (blocked cfg ''account'')
           else done_with unthrottled)))"

definition record_failure ::
  "'s throttle_ops \<Rightarrow> throttle_config \<Rightarrow> ustr \<Rightarrow> ustr \<Rightarrow> (unit, 's) store_call" where
  "record_failure ops cfg email ip =
     ask (to_increment ops (ip_key ip) (lt_ip_window cfg)) (\<lambda>_.
       ask (to_increment ops (acct_ip_key cfg email ip) (lt_account_ip_window cfg)) (\<lambda>_.
         ask (to_increment ops (acct_key cfg email) (lt_account_window cfg)) (\<lambda>_. done_with ())))"

definition record_success ::
  "'s throttle_ops \<Rightarrow> throttle_config \<Rightarrow> ustr \<Rightarrow> ustr \<Rightarrow> (unit, 's) store_call" where
  "record_success ops cfg email ip =
     ask (to_reset ops (acct_ip_key cfg email ip)) (\<lambda>_.
       ask (to_reset ops (acct_key cfg email)) (\<lambda>_. done_with ()))"

lemma counter_keys_login [simp]:
  "ip_key ip \<in> counter_keys" "acct_ip_key cfg email ip \<in> counter_keys" "acct_key cfg email \<in> counter_keys"
  by (auto simp: ip_key_def acct_ip_key_def acct_key_def counter_keys_def)

lemma login_keys_differ [simp]:
  "ip_key ip \<noteq> acct_ip_key cfg email ip'" "acct_ip_key cfg email ip' \<noteq> ip_key ip"
  "ip_key ip \<noteq> acct_key cfg email" "acct_key cfg email \<noteq> ip_key ip"
  "acct_key cfg email \<noteq> acct_ip_key cfg email' ip" "acct_ip_key cfg email' ip \<noteq> acct_key cfg email"
  by (simp_all add: ip_key_def acct_ip_key_def acct_key_def)

lemma ip_key_inj [simp]: "ip_key ip = ip_key ip' \<longleftrightarrow> ip = ip'"
  by (simp add: ip_key_def)

definition windows_positive :: "throttle_config \<Rightarrow> bool" where
  "windows_positive cfg \<longleftrightarrow> 0 < lt_ip_window cfg \<and> 0 < lt_account_ip_window cfg \<and> 0 < lt_account_window cfg"

text \<open>Below all three limits.\<close>

definition below_limits :: "throttle_config \<Rightarrow> (ustr \<Rightarrow> nat) \<Rightarrow> ustr \<Rightarrow> ustr \<Rightarrow> bool" where
  "below_limits cfg n email ip \<longleftrightarrow> n (ip_key ip) < lt_ip_max cfg
     \<and> n (acct_ip_key cfg email ip) < lt_account_ip_max cfg \<and> n (acct_key cfg email) < lt_account_max cfg"

text \<open>A decision is exactly whether all three counters are below their limits.\<close>

definition decided :: "throttle_config \<Rightarrow> (ustr \<Rightarrow> nat) \<Rightarrow> ustr \<Rightarrow> ustr \<Rightarrow> throttle_decision option \<Rightarrow> bool" where
  "decided cfg n email ip a \<longleftrightarrow> (case a of None \<Rightarrow> True
     | Some d \<Rightarrow> td_allowed d = below_limits cfg n email ip
         \<and> td_retry_after_seconds d = (if td_allowed d then None else Some (lt_max_cooldown cfg)))"

lemma decided_simps [simp]:
  "decided cfg n email ip None"
  "decided cfg n email ip (Some (blocked cfg reason)) \<longleftrightarrow> \<not> below_limits cfg n email ip"
  "decided cfg n email ip (Some unthrottled) \<longleftrightarrow> below_limits cfg n email ip"
  by (auto simp: decided_def blocked_def unthrottled_def)

context throttle_store
begin

lemma ask_count:
  assumes "ok s" and "k \<in> counter_keys" and "ask (to_get_count ops k) g s = (a, s')"
  shows "a = None \<and> ok s' \<and> counts s' = counts s
    \<or> (\<exists>s1. ok s1 \<and> counts s1 = counts s \<and> g (counts s k) s1 = (a, s'))"
proof (cases "to_get_count ops k s")
  case (Pair b s1)
  with get_count [OF assms(1,2) Pair] assms(3) show ?thesis by (cases b) (auto simp: ask_def)
qed

lemma ask_increment:
  assumes "ok s" and "k \<in> counter_keys" and "0 < w" and "ask (to_increment ops k w) g s = (a, s')"
  shows "a = None \<and> ok s' \<and> (counts s' = counts s \<or> counts s' = (counts s)(k := Suc (counts s k)))
    \<or> (\<exists>s1 n. ok s1 \<and> counts s1 = (counts s)(k := Suc (counts s k)) \<and> g n s1 = (a, s'))"
proof (cases "to_increment ops k w s")
  case (Pair b s1)
  with increment [OF assms(1,2,3) Pair] assms(4) show ?thesis by (cases b) (auto simp: ask_def)
qed

lemma ask_reset:
  assumes "ok s" and "k \<in> counter_keys" and "ask (to_reset ops k) g s = (a, s')"
  shows "a = None \<and> ok s' \<and> (counts s' = counts s \<or> counts s' = (counts s)(k := 0))
    \<or> (\<exists>s1. ok s1 \<and> counts s1 = (counts s)(k := 0) \<and> g () s1 = (a, s'))"
proof (cases "to_reset ops k s")
  case (Pair b s1)
  with reset [OF assms(1,2) Pair] assms(3) show ?thesis by (cases b) (auto simp: ask_def)
qed

lemma check_decides:
  assumes "ok s" and "throttle_check ops cfg email ip s = (a, s')"
  shows "ok s' \<and> counts s' = counts s \<and> decided cfg (counts s) email ip a"
proof -
  define n where "n = counts s"
  have last: "ok s1 \<Longrightarrow> counts s1 = n \<Longrightarrow> n (ip_key ip) < lt_ip_max cfg \<Longrightarrow>
      n (acct_ip_key cfg email ip) < lt_account_ip_max cfg \<Longrightarrow>
      ask (to_get_count ops (acct_key cfg email)) (\<lambda>n. if n \<ge> lt_account_max cfg
        then done_with (blocked cfg ''account'') else done_with unthrottled) s1 = (a, s') \<Longrightarrow>
      ok s' \<and> counts s' = n \<and> decided cfg n email ip a" for s1
    by (drule (1) ask_count [OF _ counter_keys_login(3)])
      (auto simp: done_with_def below_limits_def split: if_splits)
  have mid: "ok s1 \<Longrightarrow> counts s1 = n \<Longrightarrow> n (ip_key ip) < lt_ip_max cfg \<Longrightarrow>
      ask (to_get_count ops (acct_ip_key cfg email ip)) (\<lambda>n.
         if n \<ge> lt_account_ip_max cfg then done_with (blocked cfg ''account_ip'')
         else ask (to_get_count ops (acct_key cfg email)) (\<lambda>n.
           if n \<ge> lt_account_max cfg then done_with (blocked cfg ''account'')
           else done_with unthrottled)) s1 = (a, s') \<Longrightarrow>
      ok s' \<and> counts s' = n \<and> decided cfg n email ip a" for s1
    by (drule (1) ask_count [OF _ counter_keys_login(2)])
      (use last in \<open>auto simp: done_with_def below_limits_def split: if_splits\<close>)
  show ?thesis
    using ask_count [OF assms(1) counter_keys_login(1) assms(2) [unfolded throttle_check_def]] mid
    unfolding n_def [symmetric]
    by (auto simp: done_with_def below_limits_def split: if_splits)
qed

lemma failure_counts:
  assumes "ok s" and "windows_positive cfg" and "record_failure ops cfg email ip s = (a, s')"
  shows "ok s' \<and> counts s k \<le> counts s' k
    \<and> (k \<notin> {ip_key ip, acct_ip_key cfg email ip, acct_key cfg email} \<longrightarrow> counts s' k = counts s k)
    \<and> (a \<noteq> None \<longrightarrow> counts s' = (counts s)(ip_key ip := Suc (counts s (ip_key ip)),
         acct_ip_key cfg email ip := Suc (counts s (acct_ip_key cfg email ip)),
         acct_key cfg email := Suc (counts s (acct_key cfg email))))"
proof -
  have w: "0 < lt_ip_window cfg" "0 < lt_account_ip_window cfg" "0 < lt_account_window cfg"
    using assms(2) by (simp_all add: windows_positive_def)
  from ask_increment [OF assms(1) counter_keys_login(1) w(1) assms(3) [unfolded record_failure_def]]
  show ?thesis
  proof (elim disjE exE conjE)
    fix s1
    assume s1: "ok s1" "counts s1 = (counts s)(ip_key ip := Suc (counts s (ip_key ip)))"
      "ask (to_increment ops (acct_ip_key cfg email ip) (lt_account_ip_window cfg))
        (\<lambda>_. ask (to_increment ops (acct_key cfg email) (lt_account_window cfg)) (\<lambda>_. done_with ())) s1 = (a, s')"
    from ask_increment [OF s1(1) counter_keys_login(2) w(2) s1(3)] show ?thesis
    proof (elim disjE exE conjE)
      fix s2
      assume s2: "ok s2" "counts s2 = (counts s1)(acct_ip_key cfg email ip := Suc (counts s1 (acct_ip_key cfg email ip)))"
        "ask (to_increment ops (acct_key cfg email) (lt_account_window cfg)) (\<lambda>_. done_with ()) s2 = (a, s')"
      from ask_increment [OF s2(1) counter_keys_login(3) w(3) s2(3)] show ?thesis
        using s1(2) s2(2) by (auto simp: done_with_def)
    qed (use s1(2) in auto)
  qed auto
qed

lemma success_resets:
  assumes "ok s" and "record_success ops cfg email ip s = (a, s')"
  shows "ok s' \<and> (k \<notin> {acct_ip_key cfg email ip, acct_key cfg email} \<longrightarrow> counts s' k = counts s k)
    \<and> counts s' k \<le> counts s k"
proof -
  from ask_reset [OF assms(1) counter_keys_login(2) assms(2) [unfolded record_success_def]] show ?thesis
  proof (elim disjE exE conjE)
    fix s1
    assume s1: "ok s1" "counts s1 = (counts s)(acct_ip_key cfg email ip := 0)"
      "ask (to_reset ops (acct_key cfg email)) (\<lambda>_. done_with ()) s1 = (a, s')"
    from ask_reset [OF s1(1) counter_keys_login(3) s1(3)] show ?thesis
      using s1(2) by (auto simp: done_with_def)
  qed auto
qed

end

section \<open>A store that can be reached\<close>

locale reliable_throttle_store = throttle_store +
  fixes up :: "'s \<Rightarrow> bool"
  assumes get_count_up: "up s \<Longrightarrow> \<exists>n s'. to_get_count ops k s = (Some n, s') \<and> up s'"
    and increment_up: "up s \<Longrightarrow> \<exists>n s'. to_increment ops k w s = (Some n, s') \<and> up s'"
    and reset_up: "up s \<Longrightarrow> \<exists>s'. to_reset ops k s = (Some (), s') \<and> up s'"
begin

lemma ask_answers:
  assumes "\<exists>a s1. f s = (Some a, s1) \<and> up s1" and "\<And>a s1. up s1 \<Longrightarrow> \<exists>b s'. g a s1 = (Some b, s') \<and> up s'"
  shows "\<exists>b s'. ask f g s = (Some b, s') \<and> up s'"
  using assms by (auto simp: ask_up)

lemma record_failure_up: "up s \<Longrightarrow> \<exists>b s'. record_failure ops cfg email ip s = (Some b, s') \<and> up s'"
  unfolding record_failure_def
  by (intro ask_answers increment_up) (simp_all add: done_with_def)

lemma record_success_up: "up s \<Longrightarrow> \<exists>b s'. record_success ops cfg email ip s = (Some b, s') \<and> up s'"
  unfolding record_success_def
  by (intro ask_answers) (use reset_up in \<open>auto simp: done_with_def\<close>)

lemma check_up: "up s \<Longrightarrow> \<exists>d s'. throttle_check ops cfg email ip s = (Some d, s') \<and> up s'"
  unfolding throttle_check_def
  by (intro ask_answers get_count_up) (auto intro!: ask_answers get_count_up simp: done_with_def)

end

sublocale redis_server \<subseteq> redis_throttle_up: reliable_throttle_store "redis_throttle R" "redis_counts entry"
    "counters_ok entry" conn_up
  by unfold_locales (auto simp: redis_throttle_def conn_up_def ask_def done_with_def)

lemma memory_throttle_answers:
  "mt_available m \<Longrightarrow> \<exists>n m'. memory_get_count k m = (Some n, m') \<and> mt_available m'"
  "mt_available m \<Longrightarrow> \<exists>n m'. memory_increment k w m = (Some n, m') \<and> mt_available m'"
  "mt_available m \<Longrightarrow> \<exists>m'. memory_reset k m = (Some (), m') \<and> mt_available m'"
  by (simp_all add: memory_get_count_def memory_increment_def memory_reset_def case_prod_unfold Let_def
      split: option.split)

interpretation memory_throttle_up: reliable_throttle_store memory_throttle_ops memory_counts "\<lambda>_. True" mt_available
  by unfold_locales (simp_all add: memory_throttle_ops_def memory_throttle_answers)

text \<open>For statements outside the locale.\<close>

context redis_server
begin

lemma redis_throttle_store: "throttle_store (redis_throttle R) (redis_counts entry) (counters_ok entry)"
  by (rule redis_throttles.throttle_store_axioms)

lemma redis_reliable_throttle_store:
  "reliable_throttle_store (redis_throttle R) (redis_counts entry) (counters_ok entry) conn_up"
  by (rule redis_throttle_up.reliable_throttle_store_axioms)

end

text \<open>
  C4. The in-memory counters of the tests and the Lua script on Redis are the same fixed-window
  counters: from linked states (for instance both empty) every series of reads, increments,
  resets and waits is answered with the same numbers, windows that expire in between included.
\<close>

theorem throttle_stores_agree:
  assumes "redis_server R ent pass" and "windows_linked ent c m" and "\<forall>p \<in> set ps. throttle_op_ok p"
  shows "throttle_run (redis_throttle R) (conn_pass pass) ps c = throttle_run memory_throttle_ops memory_pass ps m"
  by (rule redis_server.throttle_runs_agree [OF assms])

theorem throttle_stores_agree_witness:
  "throttle_run (redis_throttle cells_redis) (conn_pass cells_wait)
      [Increment (ip_key []) 60, Pass 59000000, Increment (ip_key []) 60, Pass 1000000, GetCount (ip_key [])]
      \<lparr>cn_server = Map.empty :: unit cells, cn_fates = []\<rparr>
   = [Some (Some 1), Some None, Some (Some 2), Some None, Some (Some 0)]"
proof -
  have "windows_linked cells_entry \<lparr>cn_server = Map.empty :: unit cells, cn_fates = []\<rparr>
      \<lparr>mt_counts = Map.empty, mt_clock = 0, mt_available = True\<rparr>"
    by (simp add: windows_linked_def same_windows_def memory_window_def window_entry_def cells_entry_def)
  from throttle_stores_agree [OF cells.redis_server_axioms this, of "[Increment (ip_key []) 60, Pass 59000000,
      Increment (ip_key []) 60, Pass 1000000, GetCount (ip_key [])]"]
  show ?thesis
    by (simp add: throttle_op_ok_def memory_throttle_ops_def memory_increment_def memory_get_count_def
        memory_pass_def ask_def done_with_def second_def)
qed

end
