(* ===== verification/SessionStore.thy ===== *)
theory SessionStore
  imports Throttle
begin

text \<open>
  \<open>app/core/sessions/models.py\<close> and \<open>store.py\<close>: the server-side session record, its strict
  reading from JSON, and the two session stores. Printing and parsing JSON text and pydantic's
  field conversion are parameters (\<open>codec\<close>); the checks around them are the module's own.
  Times are microseconds.
\<close>

section \<open>SessionRecord\<close>

record session_record =
  sr_version :: int
  sr_created_at :: int
  sr_last_activity_at :: int
  sr_csrf_token :: "string option"
  sr_user_id :: "string option"
  sr_org_id :: "string option"
  sr_authenticated_at :: "int option"

definition new_session :: "int \<Rightarrow> session_record" where
  "new_session now = \<lparr>sr_version = 1, sr_created_at = now, sr_last_activity_at = now,
     sr_csrf_token = None, sr_user_id = None, sr_org_id = None, sr_authenticated_at = None\<rparr>"

text \<open>\<open>_validate_authenticated_fields\<close>: the identity fields are set together or not at all.\<close>

definition identity_together :: "session_record \<Rightarrow> bool" where
  "identity_together r \<longleftrightarrow>
     (let some = [sr_user_id r \<noteq> None, sr_org_id r \<noteq> None, sr_authenticated_at r \<noteq> None]
      in (True \<in> set some \<longrightarrow> list_all id some))"

definition is_authenticated :: "session_record \<Rightarrow> bool" where
  "is_authenticated r \<longleftrightarrow> sr_user_id r \<noteq> None"

section \<open>JSON\<close>

datatype json =
    JsonNull | JsonBool bool | JsonNumber int | JsonText ustr | JsonList "json list"
  | JsonObject "(string \<times> json) list"

text \<open>\<open>cd_size\<close> is the number of UTF-8 bytes; \<open>cd_fields\<close> is the field reading of
  \<open>model_validate\<close> with \<open>extra="forbid"\<close>.\<close>

record 'v codec =
  cd_dump :: "session_record \<Rightarrow> 'v"
  cd_size :: "'v \<Rightarrow> nat"
  cd_loads :: "'v \<Rightarrow> json option"
  cd_fields :: "(string \<times> json) list \<Rightarrow> session_record option"

definition current_session_version :: int where "current_session_version = 1"
definition max_session_record_bytes :: nat where "max_session_record_bytes = 4096"

text \<open>\<open>data.get("version") != CURRENT_SESSION_VERSION\<close>; in Python \<open>True == 1\<close>.\<close>

definition version_ok :: "(string \<times> json) list \<Rightarrow> bool" where
  "version_ok kv \<longleftrightarrow> (case map_of kv ''version'' of
     Some (JsonNumber n) \<Rightarrow> n = current_session_version
   | Some (JsonBool b) \<Rightarrow> b | _ \<Rightarrow> False)"

definition from_json :: "'v codec \<Rightarrow> 'v \<Rightarrow> string + session_record" where
  "from_json cd raw =
     (if cd_size cd raw > max_session_record_bytes then Inl ''session record exceeds maximum size''
      else
        (case cd_loads cd raw of
           None \<Rightarrow> Inl ''session record is not valid JSON''
         | Some (JsonObject kv) \<Rightarrow>
             if \<not> version_ok kv then Inl ''unsupported session record version''
             else (case cd_fields cd kv of
                     None \<Rightarrow> Inl ''session record failed schema validation''
                   | Some r \<Rightarrow> if identity_together r then Inr r
                               else Inl ''session record failed schema validation'')
         | Some _ \<Rightarrow> Inl ''session record must be a JSON object''))"

text \<open>What \<open>get\<close> makes of a stored text.\<close>

definition readable :: "'v codec \<Rightarrow> 'v \<Rightarrow> session_record option" where
  "readable cd raw = (case from_json cd raw of Inl _ \<Rightarrow> None | Inr r \<Rightarrow> Some r)"

lemma readable_valid: "readable cd raw = Some r \<Longrightarrow> identity_together r"
  by (auto simp: readable_def from_json_def split: if_splits option.splits json.splits sum.splits)

text \<open>A record that is read back as it was written.\<close>

definition storable :: "'v codec \<Rightarrow> session_record \<Rightarrow> bool" where
  "storable cd r \<longleftrightarrow> readable cd (cd_dump cd r) = Some r"

section \<open>Session identifiers\<close>

definition session_id_length :: nat where "session_id_length = 43"

definition url_safe :: "nat \<Rightarrow> bool" where
  "url_safe c \<longleftrightarrow> (65 \<le> c \<and> c \<le> 90) \<or> (97 \<le> c \<and> c \<le> 122) \<or> (48 \<le> c \<and> c \<le> 57) \<or> c = 95 \<or> c = 45"

text \<open>The \<open>$\<close> of the pattern also matches before a final newline.\<close>

definition is_valid_session_id :: "ustr \<Rightarrow> bool" where
  "is_valid_session_id s \<longleftrightarrow> length s = session_id_length
     \<and> (list_all url_safe s \<or> (last s = 10 \<and> list_all url_safe (butlast s)))"

section \<open>The interface\<close>

record 's session_ops =
  so_get :: "ustr \<Rightarrow> (session_record option, 's) store_call"
  so_save :: "ustr \<Rightarrow> session_record \<Rightarrow> int \<Rightarrow> (unit, 's) store_call"
  so_delete :: "ustr \<Rightarrow> (unit, 's) store_call"
  so_register :: "string \<Rightarrow> ustr \<Rightarrow> int \<Rightarrow> (unit, 's) store_call"
  so_unregister :: "string \<Rightarrow> ustr \<Rightarrow> (unit, 's) store_call"
  so_revoke_all :: "string \<Rightarrow> (nat, 's) store_call"
  so_count :: "string \<Rightarrow> (nat, 's) store_call"

section \<open>RedisSessionStore\<close>

definition session_key :: "ustr \<Rightarrow> ustr" where
  "session_key i = uni ''rfp:session:'' @ i"

definition user_index_key :: "string \<Rightarrow> ustr" where
  "user_index_key u = uni ''rfp:user_sessions:'' @ uni u"

definition user_index_max_ttl :: int where "user_index_max_ttl = 60 * 60 * 24"

definition redis_delete :: "('r, 'v) redis \<Rightarrow> ustr \<Rightarrow> (unit, 'r conn) store_call" where
  "redis_delete R i = redis_call (rd_del R (session_key i))"

definition redis_get :: "('r, 'v) redis \<Rightarrow> 'v codec \<Rightarrow> ustr \<Rightarrow> (session_record option, 'r conn) store_call" where
  "redis_get R cd i =
     ask (redis_call (rd_get R (session_key i))) (\<lambda>raw.
       case raw of
         None \<Rightarrow> done_with None
       | Some t \<Rightarrow> (case readable cd t of
                     Some r \<Rightarrow> done_with (Some r)
                   | None \<Rightarrow> ask (redis_delete R i) (\<lambda>_. done_with None)))"

definition redis_save :: "('r, 'v) redis \<Rightarrow> 'v codec \<Rightarrow> ustr \<Rightarrow> session_record \<Rightarrow> int \<Rightarrow> (unit, 'r conn) store_call" where
  "redis_save R cd i r ttl =
     (if ttl \<le> 0 then redis_delete R i
      else redis_call (rd_set R (session_key i) (cd_dump cd r) (nat ttl)))"

definition redis_register :: "('r, 'v) redis \<Rightarrow> string \<Rightarrow> ustr \<Rightarrow> int \<Rightarrow> (unit, 'r conn) store_call" where
  "redis_register R u i ttl =
     redis_call (both (rd_sadd R (user_index_key u) i)
       (\<lambda>_. rd_expire R (user_index_key u) (nat (min (max ttl 1) user_index_max_ttl))))"

definition redis_unregister :: "('r, 'v) redis \<Rightarrow> string \<Rightarrow> ustr \<Rightarrow> (unit, 'r conn) store_call" where
  "redis_unregister R u i = redis_call (rd_srem R (user_index_key u) i)"

fun delete_each :: "('r, 'v) redis \<Rightarrow> ustr list \<Rightarrow> nat \<Rightarrow> (nat, 'r conn) store_call" where
  "delete_each R [] n = done_with n"
| "delete_each R (i # is) n = ask (redis_delete R i) (\<lambda>_. delete_each R is (n + 1))"

definition redis_revoke_all :: "('r, 'v) redis \<Rightarrow> string \<Rightarrow> (nat, 'r conn) store_call" where
  "redis_revoke_all R u =
     ask (redis_call (rd_smembers R (user_index_key u))) (\<lambda>members.
       ask (delete_each R members 0) (\<lambda>n.
         ask (redis_call (rd_del R (user_index_key u))) (\<lambda>_. done_with n)))"

definition redis_count_for_user :: "('r, 'v) redis \<Rightarrow> string \<Rightarrow> (nat, 'r conn) store_call" where
  "redis_count_for_user R u = redis_call (rd_scard R (user_index_key u))"

definition redis_sessions :: "('r, 'v) redis \<Rightarrow> 'v codec \<Rightarrow> 'r conn session_ops" where
  "redis_sessions R cd =
     \<lparr>so_get = redis_get R cd, so_save = redis_save R cd, so_delete = redis_delete R,
      so_register = redis_register R, so_unregister = redis_unregister R,
      so_revoke_all = redis_revoke_all R, so_count = redis_count_for_user R\<rparr>"

section \<open>InMemorySessionStore\<close>

record 'v memory_sessions =
  ms_records :: "ustr \<rightharpoonup> 'v"
  ms_user_index :: "string \<Rightarrow> ustr list"
  ms_available :: bool

definition when_available ::
  "('v memory_sessions \<Rightarrow> 'a \<times> 'v memory_sessions) \<Rightarrow> ('a, 'v memory_sessions) store_call" where
  "when_available f m = (if \<not> ms_available m then (None, m) else (case f m of (a, m1) \<Rightarrow> (Some a, m1)))"

definition memory_delete :: "ustr \<Rightarrow> (unit, 'v memory_sessions) store_call" where
  "memory_delete i = when_available (\<lambda>m. ((), m\<lparr>ms_records := (ms_records m)(i := None)\<rparr>))"

definition memory_get :: "'v codec \<Rightarrow> ustr \<Rightarrow> (session_record option, 'v memory_sessions) store_call" where
  "memory_get cd i =
     ask (when_available (\<lambda>m. (ms_records m i, m))) (\<lambda>raw.
       case raw of
         None \<Rightarrow> done_with None
       | Some t \<Rightarrow> (case readable cd t of
                     Some r \<Rightarrow> done_with (Some r)
                   | None \<Rightarrow> ask (memory_delete i) (\<lambda>_. done_with None)))"

definition memory_save :: "'v codec \<Rightarrow> ustr \<Rightarrow> session_record \<Rightarrow> int \<Rightarrow> (unit, 'v memory_sessions) store_call" where
  "memory_save cd i r ttl =
     (if ttl \<le> 0 then memory_delete i
      else when_available (\<lambda>m. ((), m\<lparr>ms_records := (ms_records m)(i \<mapsto> cd_dump cd r)\<rparr>)))"

definition memory_register :: "string \<Rightarrow> ustr \<Rightarrow> int \<Rightarrow> (unit, 'v memory_sessions) store_call" where
  "memory_register u i ttl = when_available (\<lambda>m.
     ((), m\<lparr>ms_user_index := (ms_user_index m)(u := List.insert i (ms_user_index m u))\<rparr>))"

definition memory_unregister :: "string \<Rightarrow> ustr \<Rightarrow> (unit, 'v memory_sessions) store_call" where
  "memory_unregister u i = when_available (\<lambda>m.
     ((), m\<lparr>ms_user_index := (ms_user_index m)(u := filter (\<lambda>j. j \<noteq> i) (ms_user_index m u))\<rparr>))"

fun pop_each :: "ustr list \<Rightarrow> (ustr \<rightharpoonup> 'v) \<Rightarrow> nat \<Rightarrow> nat \<times> (ustr \<rightharpoonup> 'v)" where
  "pop_each [] recs n = (n, recs)"
| "pop_each (i # is) recs n = pop_each is (recs(i := None)) (if recs i = None then n else n + 1)"

definition memory_revoke_all :: "string \<Rightarrow> (nat, 'v memory_sessions) store_call" where
  "memory_revoke_all u = when_available (\<lambda>m.
     case pop_each (ms_user_index m u) (ms_records m) 0 of
       (n, recs) \<Rightarrow> (n, m\<lparr>ms_records := recs, ms_user_index := (ms_user_index m)(u := [])\<rparr>))"

definition memory_count_for_user :: "string \<Rightarrow> (nat, 'v memory_sessions) store_call" where
  "memory_count_for_user u = when_available (\<lambda>m. (length (ms_user_index m u), m))"

definition memory_sessions_ops :: "'v codec \<Rightarrow> 'v memory_sessions session_ops" where
  "memory_sessions_ops cd =
     \<lparr>so_get = memory_get cd, so_save = memory_save cd, so_delete = memory_delete,
      so_register = memory_register, so_unregister = memory_unregister,
      so_revoke_all = memory_revoke_all, so_count = memory_count_for_user\<rparr>"

section \<open>What a session store promises\<close>

text \<open>
  \<open>view\<close> is the record a lookup finds under an identifier, \<open>index\<close> the identifiers registered
  for a user, \<open>fits\<close> the records that survive storage. A raising call may have had its effect.
\<close>

locale session_store =
  fixes ops :: "'s session_ops"
    and view :: "'s \<Rightarrow> ustr \<Rightarrow> session_record option"
    and index :: "'s \<Rightarrow> string \<Rightarrow> ustr set"
    and fits :: "session_record \<Rightarrow> bool"
    and ok :: "'s \<Rightarrow> bool"
  assumes valid: "view s i = Some r \<Longrightarrow> identity_together r"
    and get: "ok s \<Longrightarrow> so_get ops i s = (a, s') \<Longrightarrow>
      ok s' \<and> view s' = view s \<and> index s' = index s \<and> (a = None \<or> a = Some (view s i))"
    and save: "ok s \<Longrightarrow> 0 < ttl \<Longrightarrow> fits r \<Longrightarrow> so_save ops i r ttl s = (b, s') \<Longrightarrow>
      ok s' \<and> index s' = index s \<and> (view s' = (view s)(i \<mapsto> r) \<or> b = None \<and> view s' = view s)"
    and delete: "ok s \<Longrightarrow> so_delete ops i s = (b, s') \<Longrightarrow>
      ok s' \<and> index s' = index s \<and> (view s' = (view s)(i := None) \<or> b = None \<and> view s' = view s)"
    and register: "ok s \<Longrightarrow> so_register ops u i t s = (b, s') \<Longrightarrow>
      ok s' \<and> view s' = view s
      \<and> (index s' = (index s)(u := insert i (index s u)) \<or> b = None \<and> index s' = index s)"
    and unregister: "ok s \<Longrightarrow> so_unregister ops u i s = (b, s') \<Longrightarrow>
      ok s' \<and> view s' = view s
      \<and> (index s' = (index s)(u := index s u - {i}) \<or> b = None \<and> index s' = index s)"
    and revoke_all: "ok s \<Longrightarrow> so_revoke_all ops u s = (n, s') \<Longrightarrow>
      ok s' \<and> (\<forall>v. v \<noteq> u \<longrightarrow> index s' v = index s v) \<and> (\<forall>i. i \<notin> index s u \<longrightarrow> view s' i = view s i)
      \<and> (\<forall>i. view s' i = None \<or> view s' i = view s i)
      \<and> (n \<noteq> None \<longrightarrow> index s' u = {} \<and> (\<forall>i \<in> index s u. view s' i = None))"
    and count: "ok s \<Longrightarrow> so_count ops u s = (n, s') \<Longrightarrow>
      ok s' \<and> view s' = view s \<and> index s' = index s \<and> (n = None \<or> n = Some (card (index s u)))"

section \<open>Redis keeps the promise\<close>

lemma uni_inject [simp]: "uni s = uni t \<longleftrightarrow> s = t"
  unfolding uni_def by (rule inj_map_eq_map) (simp add: inj_def)

lemma session_keys [simp]:
  "session_key i = session_key j \<longleftrightarrow> i = j" "user_index_key u = user_index_key v \<longleftrightarrow> u = v"
  "session_key i \<noteq> user_index_key u" "user_index_key u \<noteq> session_key i"
  by (simp_all add: session_key_def user_index_key_def)

definition session_view :: "'v codec \<Rightarrow> 'v keyspace \<Rightarrow> ustr \<Rightarrow> session_record option" where
  "session_view cd K i = Option.bind (text_of K (session_key i)) (readable cd)"

definition session_index :: "'v keyspace \<Rightarrow> string \<Rightarrow> ustr set" where
  "session_index K u = members_of K (user_index_key u)"

definition sessions_typed :: "'v keyspace \<Rightarrow> bool" where
  "sessions_typed K \<longleftrightarrow> (\<forall>i. holds_text K (session_key i)) \<and> (\<forall>u. holds_set K (user_index_key u))"

lemma typed_holds:
  "sessions_typed K \<Longrightarrow> holds_text K (session_key i)"
  "sessions_typed K \<Longrightarrow> holds_set K (user_index_key u)"
  by (simp_all add: sessions_typed_def)

lemma holds_at:
  "holds_text (K(k := e)) j = (if j = k then case e of None \<Rightarrow> True | Some (RText _, _) \<Rightarrow> True | _ \<Rightarrow> False
     else holds_text K j)"
  "holds_set (K(k := e)) j = (if j = k then case e of None \<Rightarrow> True | Some (RSet _, _) \<Rightarrow> True | _ \<Rightarrow> False
     else holds_set K j)"
  by (simp_all add: holds_text_def holds_set_def)

lemma typed_upd:
  assumes "sessions_typed K"
  shows "sessions_typed (K(session_key i \<mapsto> (RText v, n)))" and "sessions_typed (K(session_key i := None))"
    and "sessions_typed (K(user_index_key u := set_entry S n))" and "sessions_typed (K(user_index_key u := None))"
  using assms by (simp_all add: sessions_typed_def holds_at set_entry_def del: holds_upd)

lemma typed_expire:
  assumes "sessions_typed K"
  shows "sessions_typed (K(user_index_key u := map_option (\<lambda>(v, _). (v, n)) (K (user_index_key u))))"
proof -
  have "holds_set K (user_index_key u)" using assms by (rule typed_holds)
  then have "case map_option (\<lambda>(v, _). (v, n)) (K (user_index_key u)) of
      None \<Rightarrow> True | Some (RSet _, _) \<Rightarrow> True | _ \<Rightarrow> False"
    by (auto simp: holds_set_def split: option.splits rvalue.splits)
  then show ?thesis using assms by (simp add: sessions_typed_def holds_at del: holds_upd)
qed

lemma session_view_upd [simp]:
  "session_view cd (K(session_key i \<mapsto> (RText v, n))) = (session_view cd K)(i := readable cd v)"
  "session_view cd (K(session_key i := None)) = (session_view cd K)(i := None)"
  "session_view cd (K(user_index_key u := e)) = session_view cd K"
  by (simp_all add: session_view_def fun_eq_iff)

lemma session_index_upd [simp]:
  "session_index (K(session_key i := e)) = session_index K"
  "session_index (K(user_index_key u := set_entry S n)) = (session_index K)(u := S)"
  "session_index (K(user_index_key u := None)) = (session_index K)(u := {})"
  "session_index (K(user_index_key u := map_option (\<lambda>(v, _). (v, n)) (K (user_index_key u)))) = session_index K"
  by (auto simp: session_index_def fun_eq_iff) (metis keyspace_upd(2,3))+

lemma expire_set_entry [simp]:
  "map_option (\<lambda>p. (fst p, n)) (set_entry S m) = set_entry S n"
  by (simp add: set_entry_def)

definition redis_view :: "('r \<Rightarrow> 'v keyspace) \<Rightarrow> 'v codec \<Rightarrow> 'r conn \<Rightarrow> ustr \<Rightarrow> session_record option" where
  "redis_view ent cd c = session_view cd (ent (cn_server c))"

definition redis_index :: "('r \<Rightarrow> 'v keyspace) \<Rightarrow> 'r conn \<Rightarrow> string \<Rightarrow> ustr set" where
  "redis_index ent c = session_index (ent (cn_server c))"

definition redis_ok :: "('r \<Rightarrow> 'v keyspace) \<Rightarrow> 'r conn \<Rightarrow> bool" where
  "redis_ok ent c \<longleftrightarrow> sessions_typed (ent (cn_server c))"

context redis_server
begin

lemma redis_delete:
  assumes "redis_ok entry c" and "redis_delete R i c = (b, c')"
  shows "redis_ok entry c' \<and> redis_index entry c' = redis_index entry c
    \<and> (redis_view entry cd c' = (redis_view entry cd c)(i := None) \<or> b = None \<and> redis_view entry cd c' = redis_view entry cd c)"
  using assms unfolding redis_delete_def
  by (elim redis_call_cases) (auto simp: redis_ok_def redis_index_def redis_view_def del_effect typed_upd)

lemma redis_get_text:
  assumes "redis_ok entry c"
  shows "fst (rd_get R (session_key i) (cn_server c)) = text_of (entry (cn_server c)) (session_key i)"
  using assms by (simp add: redis_ok_def get_value typed_holds)

lemma redis_get:
  assumes "redis_ok entry c" and "redis_get R cd i c = (a, c')"
  shows "redis_ok entry c' \<and> redis_view entry cd c' = redis_view entry cd c \<and> redis_index entry c' = redis_index entry c
    \<and> (a = None \<or> a = Some (redis_view entry cd c i))"
proof (cases "redis_call (rd_get R (session_key i)) c")
  case (Pair x c1)
  have c1: "entry (cn_server c1) = entry (cn_server c)"
    "x = None \<or> x = Some (text_of (entry (cn_server c)) (session_key i))"
    using Pair redis_get_text [OF assms(1)] by (auto elim!: redis_call_cases)
  then have same: "redis_ok entry c1" "redis_view entry cd c1 = redis_view entry cd c" "redis_index entry c1 = redis_index entry c"
    using assms(1) by (simp_all add: redis_ok_def redis_view_def redis_index_def)
  consider "a = None" "c' = c1" | "a = Some (redis_view entry cd c i)" "c' = c1"
    | b where "redis_view entry cd c i = None" "redis_delete R i c1 = (b, c')" "a = map_option (\<lambda>_. None) b"
    using assms(2) Pair c1(2)
    by (auto simp: redis_get_def ask_def done_with_def redis_view_def session_view_def
        split: option.splits prod.splits)
  then show ?thesis
  proof cases
    case 3
    have "(redis_view entry cd c)(i := None) = redis_view entry cd c" using 3(1) by auto
    then show ?thesis
      using redis_delete [OF same(1) 3(2), of cd] same 3(1,3) by (cases b) auto
  qed (use same in auto)
qed

lemma redis_save:
  assumes "redis_ok entry c" and "0 < ttl" and "storable cd r" and "redis_save R cd i r ttl c = (b, c')"
  shows "redis_ok entry c' \<and> redis_index entry c' = redis_index entry c
    \<and> (redis_view entry cd c' = (redis_view entry cd c)(i \<mapsto> r) \<or> b = None \<and> redis_view entry cd c' = redis_view entry cd c)"
proof -
  have "0 < nat ttl" using assms(2) by simp
  note e = set_effect [OF this]
  have "redis_call (rd_set R (session_key i) (cd_dump cd r) (nat ttl)) c = (b, c')"
    using assms(2,4) by (simp add: redis_save_def)
  then show ?thesis
    using assms(1,3)
    by (elim redis_call_cases)
      (auto simp: e redis_ok_def redis_index_def redis_view_def storable_def typed_upd)
qed

lemma redis_register:
  assumes "redis_ok entry c" and "redis_register R u i t c = (b, c')"
  shows "redis_ok entry c' \<and> redis_view entry cd c' = redis_view entry cd c
    \<and> (redis_index entry c' = (redis_index entry c)(u := insert i (redis_index entry c u)) \<or> b = None \<and> redis_index entry c' = redis_index entry c)"
proof -
  have "0 < nat (min (max t 1) user_index_max_ttl)" by (simp add: user_index_max_ttl_def)
  note e = expire_effect [OF this]
  have "holds_set (entry (cn_server c)) (user_index_key u)"
    using assms(1) by (simp add: redis_ok_def typed_holds)
  note a = sadd_effect [OF this]
  show ?thesis
    using assms unfolding redis_register_def
    by (elim redis_call_cases)
      (auto simp: both_def case_prod_unfold a e redis_ok_def redis_index_def redis_view_def typed_upd
        typed_expire session_index_def)
qed

lemma redis_unregister:
  assumes "redis_ok entry c" and "redis_unregister R u i c = (b, c')"
  shows "redis_ok entry c' \<and> redis_view entry cd c' = redis_view entry cd c
    \<and> (redis_index entry c' = (redis_index entry c)(u := redis_index entry c u - {i}) \<or> b = None \<and> redis_index entry c' = redis_index entry c)"
proof -
  have "holds_set (entry (cn_server c)) (user_index_key u)"
    using assms(1) by (simp add: redis_ok_def typed_holds)
  note e = srem_effect [OF this]
  show ?thesis
    using assms unfolding redis_unregister_def
    by (elim redis_call_cases)
      (auto simp: e redis_ok_def redis_index_def redis_view_def typed_upd session_index_def)
qed

lemma delete_each:
  assumes "redis_ok entry c" and "delete_each R is n c = (a, c')"
  shows "redis_ok entry c' \<and> redis_index entry c' = redis_index entry c
    \<and> (\<forall>i. i \<notin> set is \<longrightarrow> redis_view entry cd c' i = redis_view entry cd c i)
    \<and> (\<forall>i. redis_view entry cd c' i = None \<or> redis_view entry cd c' i = redis_view entry cd c i)
    \<and> (a \<noteq> None \<longrightarrow> a = Some (n + length is) \<and> (\<forall>i \<in> set is. redis_view entry cd c' i = None))"
  using assms
proof (induction "is" arbitrary: n c)
  case Nil
  then show ?case by (simp add: done_with_def)
next
  case (Cons i "is")
  obtain b c1 where d: "redis_delete R i c = (b, c1)" by (cases "redis_delete R i c")
  note r = redis_delete [OF Cons.prems(1) d, of cd]
  show ?case
  proof (cases b)
    case None
    then show ?thesis using Cons.prems(2) d r by (auto simp: ask_def)
  next
    case (Some x)
    then have "delete_each R is (n + 1) c1 = (a, c')" using Cons.prems(2) d by (simp add: ask_def)
    from Cons.IH [OF _ this] r Some show ?thesis by (auto; metis)
  qed
qed

lemma redis_revoke_all:
  assumes "redis_ok entry c" and "redis_revoke_all R u c = (n, c')"
  shows "redis_ok entry c' \<and> (\<forall>v. v \<noteq> u \<longrightarrow> redis_index entry c' v = redis_index entry c v)
    \<and> (\<forall>i. i \<notin> redis_index entry c u \<longrightarrow> redis_view entry cd c' i = redis_view entry cd c i)
    \<and> (\<forall>i. redis_view entry cd c' i = None \<or> redis_view entry cd c' i = redis_view entry cd c i)
    \<and> (n \<noteq> None \<longrightarrow> redis_index entry c' u = {} \<and> (\<forall>i \<in> redis_index entry c u. redis_view entry cd c' i = None))"
proof (cases "redis_call (rd_smembers R (user_index_key u)) c")
  case (Pair x c1)
  have h: "holds_set (entry (cn_server c)) (user_index_key u)"
    using assms(1) by (simp add: redis_ok_def typed_holds)
  have c1: "entry (cn_server c1) = entry (cn_server c)"
    "x = None \<or> (\<exists>ms. x = Some ms \<and> set ms = redis_index entry c u)"
    using Pair smembers_value [OF h]
    by (auto simp: redis_index_def session_index_def elim!: redis_call_cases)
  then have same: "redis_ok entry c1" "redis_view entry cd c1 = redis_view entry cd c" "redis_index entry c1 = redis_index entry c"
    using assms(1) by (simp_all add: redis_ok_def redis_view_def redis_index_def)
  show ?thesis
  proof (cases x)
    case None
    then show ?thesis using assms(2) Pair same by (simp add: redis_revoke_all_def ask_def)
  next
    case (Some ms)
    then have ms: "set ms = redis_index entry c u" using c1(2) by auto
    obtain a c2 where d: "delete_each R ms 0 c1 = (a, c2)" by (cases "delete_each R ms 0 c1")
    note e = delete_each [OF same(1) d, of cd]
    show ?thesis
    proof (cases a)
      case None
      then show ?thesis
        using assms(2) Pair Some d e same ms by (simp add: redis_revoke_all_def ask_def)
    next
      case (Some k)
      obtain b c3 where f: "redis_call (rd_del R (user_index_key u)) c2 = (b, c3)"
        by (cases "redis_call (rd_del R (user_index_key u)) c2")
      have "redis_ok entry c3 \<and> redis_view entry cd c3 = redis_view entry cd c2
          \<and> (redis_index entry c3 = (redis_index entry c2)(u := {}) \<or> b = None \<and> redis_index entry c3 = redis_index entry c2)"
        using f e
        by (elim redis_call_cases) (auto simp: redis_ok_def redis_view_def redis_index_def del_effect typed_upd)
      moreover have "n = map_option (\<lambda>_. k) b \<and> c' = c3"
        using assms(2) Pair \<open>x = Some ms\<close> d Some f
        by (cases b) (auto simp: redis_revoke_all_def ask_def done_with_def)
      ultimately show ?thesis using e same ms Some by auto
    qed
  qed
qed

lemma redis_count_for_user:
  assumes "redis_ok entry c" and "redis_count_for_user R u c = (n, c')"
  shows "redis_ok entry c' \<and> redis_view entry cd c' = redis_view entry cd c \<and> redis_index entry c' = redis_index entry c
    \<and> (n = None \<or> n = Some (card (redis_index entry c u)))"
proof -
  have "holds_set (entry (cn_server c)) (user_index_key u)"
    using assms(1) by (simp add: redis_ok_def typed_holds)
  note v = scard_value [OF this]
  show ?thesis
    using assms unfolding redis_count_for_user_def
    by (elim redis_call_cases)
      (auto simp: v redis_ok_def redis_index_def redis_view_def session_index_def)
qed

lemma redis_view_valid: "redis_view entry cd c i = Some r \<Longrightarrow> identity_together r"
  by (auto simp: redis_view_def session_view_def bind_eq_Some_conv readable_valid)

lemmas redis_store_laws = redis_view_valid redis_get redis_save redis_delete redis_register
  redis_unregister redis_revoke_all redis_count_for_user

end

sublocale redis_server \<subseteq>
  redis_store: session_store "redis_sessions R cd" "redis_view entry cd" "redis_index entry" "storable cd" "redis_ok entry" for cd
  by (rule session_store.intro, unfold redis_sessions_def session_ops.simps, (rule redis_store_laws; assumption)+)

section \<open>The in-memory double keeps it too\<close>

definition memory_view :: "'v codec \<Rightarrow> 'v memory_sessions \<Rightarrow> ustr \<Rightarrow> session_record option" where
  "memory_view cd m i = Option.bind (ms_records m i) (readable cd)"

definition memory_index :: "'v memory_sessions \<Rightarrow> string \<Rightarrow> ustr set" where
  "memory_index m u = set (ms_user_index m u)"

definition memory_ok :: "'v memory_sessions \<Rightarrow> bool" where
  "memory_ok m \<longleftrightarrow> (\<forall>u. distinct (ms_user_index m u))"

lemma when_available_cases:
  assumes "when_available f m = (a, m')"
  obtains "a = Some (fst (f m))" "m' = snd (f m)" | "a = None" "m' = m"
  using assms by (cases "f m") (auto simp: when_available_def split: if_splits)

lemma memory_view_upd [simp]:
  "memory_view cd (m\<lparr>ms_records := (ms_records m)(i \<mapsto> t)\<rparr>) = (memory_view cd m)(i := readable cd t)"
  "memory_view cd (m\<lparr>ms_records := (ms_records m)(i := None)\<rparr>) = (memory_view cd m)(i := None)"
  "memory_view cd (m\<lparr>ms_user_index := x\<rparr>) = memory_view cd m"
  by (simp_all add: memory_view_def fun_eq_iff)

lemma memory_index_upd [simp]:
  "memory_index (m\<lparr>ms_records := x\<rparr>) = memory_index m"
  "memory_index (m\<lparr>ms_user_index := (ms_user_index m)(u := is)\<rparr>) = (memory_index m)(u := set is)"
  by (simp_all add: memory_index_def fun_eq_iff)

lemma memory_ok_upd [simp]:
  "memory_ok (m\<lparr>ms_records := x\<rparr>) = memory_ok m"
  "memory_ok m \<Longrightarrow> memory_ok (m\<lparr>ms_user_index := (ms_user_index m)(u := is)\<rparr>) = distinct is"
  by (auto simp: memory_ok_def)

lemma memory_delete:
  assumes "memory_ok m" and "memory_delete i m = (b, m')"
  shows "memory_ok m' \<and> memory_index m' = memory_index m
    \<and> (memory_view cd m' = (memory_view cd m)(i := None) \<or> b = None \<and> memory_view cd m' = memory_view cd m)"
  using assms unfolding memory_delete_def by (elim when_available_cases) auto

lemma memory_get:
  assumes "memory_ok m" and "memory_get cd i m = (a, m')"
  shows "memory_ok m' \<and> memory_view cd m' = memory_view cd m \<and> memory_index m' = memory_index m
    \<and> (a = None \<or> a = Some (memory_view cd m i))"
proof (cases "ms_available m")
  case True
  then show ?thesis
    using assms
    by (cases "ms_records m i"; cases "readable cd (the (ms_records m i))")
      (auto simp: memory_get_def memory_delete_def when_available_def ask_def done_with_def
        memory_view_def fun_eq_iff)
next
  case False
  then show ?thesis using assms by (simp add: memory_get_def when_available_def ask_def)
qed

lemma memory_save:
  assumes "memory_ok m" and "0 < ttl" and "storable cd r" and "memory_save cd i r ttl m = (b, m')"
  shows "memory_ok m' \<and> memory_index m' = memory_index m
    \<and> (memory_view cd m' = (memory_view cd m)(i \<mapsto> r) \<or> b = None \<and> memory_view cd m' = memory_view cd m)"
  using assms by (auto simp: memory_save_def storable_def elim!: when_available_cases)

lemma memory_register:
  assumes "memory_ok m" and "memory_register u i t m = (b, m')"
  shows "memory_ok m' \<and> memory_view cd m' = memory_view cd m
    \<and> (memory_index m' = (memory_index m)(u := insert i (memory_index m u)) \<or> b = None \<and> memory_index m' = memory_index m)"
proof -
  have "distinct (ms_user_index m u)" using assms(1) by (simp add: memory_ok_def)
  then show ?thesis
    using assms unfolding memory_register_def
    by (elim when_available_cases) (auto simp: memory_index_def [of m])
qed

lemma memory_unregister:
  assumes "memory_ok m" and "memory_unregister u i m = (b, m')"
  shows "memory_ok m' \<and> memory_view cd m' = memory_view cd m
    \<and> (memory_index m' = (memory_index m)(u := memory_index m u - {i}) \<or> b = None \<and> memory_index m' = memory_index m)"
proof -
  have "distinct (ms_user_index m u)" using assms(1) by (simp add: memory_ok_def)
  moreover have "{j \<in> set (ms_user_index m u). j \<noteq> i} = set (ms_user_index m u) - {i}" by auto
  ultimately show ?thesis
    using assms unfolding memory_unregister_def
    by (elim when_available_cases) (auto simp: memory_index_def [of m])
qed

lemma pop_each_records: "snd (pop_each is recs n) i = (if i \<in> set is then None else recs i)"
  by (induction "is" arbitrary: recs n) auto

lemma memory_revoke_all:
  assumes "memory_ok m" and "memory_revoke_all u m = (n, m')"
  shows "memory_ok m' \<and> (\<forall>v. v \<noteq> u \<longrightarrow> memory_index m' v = memory_index m v)
    \<and> (\<forall>i. i \<notin> memory_index m u \<longrightarrow> memory_view cd m' i = memory_view cd m i)
    \<and> (\<forall>i. memory_view cd m' i = None \<or> memory_view cd m' i = memory_view cd m i)
    \<and> (n \<noteq> None \<longrightarrow> memory_index m' u = {} \<and> (\<forall>i \<in> memory_index m u. memory_view cd m' i = None))"
  using assms unfolding memory_revoke_all_def
  by (elim when_available_cases)
    (auto simp: case_prod_unfold memory_view_def memory_index_def memory_ok_def pop_each_records)

lemma memory_count_for_user:
  assumes "memory_ok m" and "memory_count_for_user u m = (n, m')"
  shows "memory_ok m' \<and> memory_view cd m' = memory_view cd m \<and> memory_index m' = memory_index m
    \<and> (n = None \<or> n = Some (card (memory_index m u)))"
  using assms unfolding memory_count_for_user_def
  by (elim when_available_cases) (auto simp: memory_index_def memory_ok_def distinct_card)

lemma memory_view_valid: "memory_view cd m i = Some r \<Longrightarrow> identity_together r"
  by (auto simp: memory_view_def bind_eq_Some_conv readable_valid)

lemmas memory_store_laws = memory_view_valid memory_get memory_save memory_delete memory_register
  memory_unregister memory_revoke_all memory_count_for_user

interpretation memory_store: session_store "memory_sessions_ops cd" "memory_view cd" memory_index
    "storable cd" memory_ok for cd
  by (rule session_store.intro, unfold memory_sessions_ops_def session_ops.simps, (rule memory_store_laws; assumption)+)

section \<open>A store that can be reached\<close>

locale reliable_session_store = session_store +
  fixes up :: "'s \<Rightarrow> bool"
  assumes get_up: "up s \<Longrightarrow> \<exists>x s'. so_get ops i s = (Some x, s') \<and> up s'"
    and save_up: "up s \<Longrightarrow> \<exists>s'. so_save ops i r ttl s = (Some (), s') \<and> up s'"
    and delete_up: "up s \<Longrightarrow> \<exists>s'. so_delete ops i s = (Some (), s') \<and> up s'"
    and register_up: "up s \<Longrightarrow> \<exists>s'. so_register ops u i t s = (Some (), s') \<and> up s'"
    and unregister_up: "up s \<Longrightarrow> \<exists>s'. so_unregister ops u i s = (Some (), s') \<and> up s'"
    and revoke_all_up: "up s \<Longrightarrow> \<exists>n s'. so_revoke_all ops u s = (Some n, s') \<and> up s'"

lemma delete_each_up: "conn_up c \<Longrightarrow> \<exists>n c'. delete_each R is k c = (Some n, c') \<and> conn_up c'"
  by (induction "is" arbitrary: k c) (auto simp: done_with_def redis_delete_def conn_up_def ask_up)

sublocale redis_server \<subseteq> redis_up: reliable_session_store "redis_sessions R cd" "redis_view entry cd"
    "redis_index entry" "storable cd" "redis_ok entry" conn_up for cd
proof unfold_locales
  fix c :: "'r conn" and i
  assume up: "conn_up c"
  show "\<exists>x c'. so_get (redis_sessions R cd) i c = (Some x, c') \<and> conn_up c'"
    using up by (auto simp: redis_sessions_def redis_get_def redis_delete_def conn_up_def ask_def done_with_def
        split: option.split)
next
  fix c :: "'r conn" and u
  assume up: "conn_up c"
  let ?c = "c\<lparr>cn_server := snd (rd_smembers R (user_index_key u) (cn_server c))\<rparr>"
  obtain n c2 where "delete_each R (fst (rd_smembers R (user_index_key u) (cn_server c))) 0 ?c = (Some n, c2)" "conn_up c2"
    using delete_each_up [of ?c R] up unfolding conn_up_def by fastforce
  then show "\<exists>n c'. so_revoke_all (redis_sessions R cd) u c = (Some n, c') \<and> conn_up c'"
    using up by (auto simp: redis_sessions_def redis_revoke_all_def conn_up_def ask_def done_with_def)
qed (auto simp: redis_sessions_def redis_save_def redis_delete_def redis_register_def redis_unregister_def
      conn_up_def)

interpretation memory_up: reliable_session_store "memory_sessions_ops (cd :: 'a codec)" "memory_view cd" memory_index
    "storable cd" memory_ok ms_available for cd
proof unfold_locales
  fix m :: "'a memory_sessions" and i
  assume "ms_available m"
  then show "\<exists>x m'. so_get (memory_sessions_ops cd) i m = (Some x, m') \<and> ms_available m'"
    by (auto simp: memory_sessions_ops_def memory_get_def memory_delete_def when_available_def ask_def
        done_with_def split: option.split)
qed (auto simp: memory_sessions_ops_def memory_save_def memory_delete_def memory_register_def
      memory_unregister_def memory_revoke_all_def when_available_def split: prod.splits)

end
