(* ===== verification/SessionMiddleware.thy ===== *)
theory SessionMiddleware
  imports SessionStore
begin

text \<open>
  \<open>app/core/sessions/middleware.py\<close> and \<open>app/core/csrf.py\<close>: what happens to the session
  cookie, the stored record and the index of a user around one request, and the CSRF check.
  A request is resolved (\<open>resolve_session\<close>), handed to its route, and persisted
  (\<open>persist_session\<close>); the two halves are separate operations because requests interleave.
\<close>

section \<open>SessionProxy\<close>

definition session_field :: "session_record \<Rightarrow> string \<Rightarrow> string option" where
  "session_field r key =
     (if key = ''user_id'' then sr_user_id r
      else if key = ''org_id'' then sr_org_id r
      else if key = ''csrf_token'' then sr_csrf_token r else None)"

definition put_field :: "string \<Rightarrow> string option \<Rightarrow> session_record \<Rightarrow> session_record" where
  "put_field key v r =
     (if key = ''user_id'' then r\<lparr>sr_user_id := v\<rparr>
      else if key = ''org_id'' then r\<lparr>sr_org_id := v\<rparr>
      else if key = ''csrf_token'' then r\<lparr>sr_csrf_token := v\<rparr> else r)"

definition session_keys :: "string list" where
  "session_keys = [''user_id'', ''org_id'', ''csrf_token'']"

text \<open>\<open>__getitem__\<close>, \<open>__setitem__\<close> and \<open>__delitem__\<close>; \<open>None\<close> is a \<open>KeyError\<close>.\<close>

definition proxy_get :: "string \<Rightarrow> session_record \<Rightarrow> string option" where
  "proxy_get key r = (if key \<notin> set session_keys then None else session_field r key)"

definition proxy_set :: "string \<Rightarrow> string \<Rightarrow> session_record \<Rightarrow> session_record option" where
  "proxy_set key v r = (if key \<notin> set session_keys then None else Some (put_field key (Some v) r))"

definition proxy_del :: "string \<Rightarrow> session_record \<Rightarrow> session_record option" where
  "proxy_del key r = (if key \<notin> set session_keys then None else Some (put_field key None r))"

definition proxy_iter :: "session_record \<Rightarrow> string list" where
  "proxy_iter r = filter (\<lambda>key. session_field r key \<noteq> None) session_keys"

definition proxy_clear :: "session_record \<Rightarrow> session_record" where
  "proxy_clear r = fold (\<lambda>key. put_field key None) session_keys r"

text \<open>A route reaches the record through the proxy only.\<close>

definition proxy_only :: "session_record \<Rightarrow> session_record \<Rightarrow> bool" where
  "proxy_only r r' \<longleftrightarrow> sr_version r' = sr_version r \<and> sr_created_at r' = sr_created_at r
     \<and> sr_last_activity_at r' = sr_last_activity_at r \<and> sr_authenticated_at r' = sr_authenticated_at r"

lemma proxy_only_steps:
  "proxy_only r r" "proxy_only r (proxy_clear r)"
  "proxy_set key v r = Some r' \<Longrightarrow> proxy_only r r'" "proxy_del key r = Some r' \<Longrightarrow> proxy_only r r'"
  by (auto simp: proxy_only_def proxy_clear_def session_keys_def put_field_def proxy_set_def proxy_del_def
      split: if_splits)

section \<open>Configuration, responses, environment\<close>

record middleware_config =
  mw_idle_timeout :: int
  mw_absolute_timeout :: int
  mw_https_only :: bool

record set_cookie =
  sc_value :: ustr
  sc_httponly :: bool
  sc_samesite :: string
  sc_secure :: bool
  sc_path :: string

datatype cookie_change = CookieUntouched | CookieSet set_cookie | CookieDeleted

record response =
  rs_status :: nat
  rs_location :: "string option"
  rs_retry_after :: "nat option"
  rs_cookie :: cookie_change

text \<open>The two clock readings, \<open>generate_session_id()\<close> and \<open>secrets.token_hex(32)\<close>.\<close>

record request_env =
  re_now :: int
  re_now_after :: int
  re_session_id :: ustr
  re_csrf_token :: string

definition starts_session :: "middleware_config \<Rightarrow> ustr \<Rightarrow> response \<Rightarrow> response" where
  "starts_session cfg i resp = resp\<lparr>rs_cookie := CookieSet
     \<lparr>sc_value = i, sc_httponly = True, sc_samesite = ''lax'', sc_secure = mw_https_only cfg,
      sc_path = ''/''\<rparr>\<rparr>"

definition is_exempt :: "string \<Rightarrow> bool" where
  "is_exempt path \<longleftrightarrow> path \<in> {''/healthz'', ''/health'', ''/readyz'', ''/metrics''}
     \<or> starts_with ''/static'' path"

section \<open>Before the route\<close>

definition absolute_anchor :: "session_record \<Rightarrow> int" where
  "absolute_anchor r = (case sr_authenticated_at r of Some t \<Rightarrow> t | None \<Rightarrow> sr_created_at r)"

definition seconds :: "int \<Rightarrow> int" where
  "seconds n = n * int second"

definition session_expired :: "middleware_config \<Rightarrow> int \<Rightarrow> session_record \<Rightarrow> bool" where
  "session_expired cfg now r \<longleftrightarrow> now - sr_last_activity_at r > seconds (mw_idle_timeout cfg)
     \<or> now - absolute_anchor r > seconds (mw_absolute_timeout cfg)"

definition truthy :: "string option \<Rightarrow> bool" where
  "truthy v \<longleftrightarrow> v \<noteq> None \<and> v \<noteq> Some []"

text \<open>The clean-up of an expired session; its exception is logged and swallowed.\<close>

definition drop_expired :: "'s session_ops \<Rightarrow> ustr \<Rightarrow> session_record \<Rightarrow> 's \<Rightarrow> 's" where
  "drop_expired ops i r s =
     snd (ask (so_delete ops i) (\<lambda>_.
       if truthy (sr_user_id r) then so_unregister ops (the (sr_user_id r)) i else done_with ()) s)"

datatype resolved = StoreDown | Resolved "ustr option" session_record

definition resolve_session ::
  "'s session_ops \<Rightarrow> middleware_config \<Rightarrow> int \<Rightarrow> ustr option \<Rightarrow> 's \<Rightarrow> resolved \<times> 's" where
  "resolve_session ops cfg now cookie s =
     (let i = (case cookie of None \<Rightarrow> [] | Some c \<Rightarrow> c);
          (found, s1) = (if i \<noteq> [] \<and> is_valid_session_id i then so_get ops i s else (Some None, s))
      in case found of
           None \<Rightarrow> (StoreDown, s1)
         | Some None \<Rightarrow> (Resolved None (new_session now), s1)
         | Some (Some r) \<Rightarrow>
             if session_expired cfg now r
             then (Resolved None (new_session now), drop_expired ops i r s1)
             else (Resolved (Some i) (r\<lparr>sr_last_activity_at := now\<rparr>), s1))"

section \<open>After the route\<close>

definition with_csrf :: "string \<Rightarrow> session_record \<Rightarrow> session_record" where
  "with_csrf token r = (if sr_csrf_token r = None then r\<lparr>sr_csrf_token := Some token\<rparr> else r)"

definition close_session ::
  "'s session_ops \<Rightarrow> ustr option \<Rightarrow> string \<Rightarrow> (unit, 's) store_call" where
  "close_session ops sid was =
     (case sid of None \<Rightarrow> done_with ()
      | Some i \<Rightarrow> ask (so_delete ops i) (\<lambda>_. so_unregister ops was i))"

definition open_authenticated ::
  "'s session_ops \<Rightarrow> middleware_config \<Rightarrow> ustr option \<Rightarrow> ustr \<Rightarrow> session_record \<Rightarrow> (unit, 's) store_call" where
  "open_authenticated ops cfg sid new_id r =
     ask (case sid of None \<Rightarrow> done_with () | Some i \<Rightarrow> so_delete ops i) (\<lambda>_.
       let ttl = max 1 (min (mw_idle_timeout cfg) (mw_absolute_timeout cfg)) in
       ask (so_save ops new_id r ttl) (\<lambda>_. so_register ops (the (sr_user_id r)) new_id ttl))"

definition remaining_ttl :: "middleware_config \<Rightarrow> int \<Rightarrow> session_record \<Rightarrow> int" where
  "remaining_ttl cfg now r =
     max 1 (min (mw_idle_timeout cfg)
       ((seconds (mw_absolute_timeout cfg) - (now - absolute_anchor r)) div int second))"

definition keep_session ::
  "'s session_ops \<Rightarrow> middleware_config \<Rightarrow> int \<Rightarrow> ustr \<Rightarrow> session_record \<Rightarrow> (unit, 's) store_call" where
  "keep_session ops cfg now i r =
     ask (so_save ops i r (remaining_ttl cfg now r)) (\<lambda>_.
       case sr_user_id r of None \<Rightarrow> done_with ()
       | Some u \<Rightarrow> so_register ops u i (remaining_ttl cfg now r))"

text \<open>\<open>was\<close> is the user of the record before the route ran. An unreachable store is logged and
  swallowed; the response then carries no cookie.\<close>

definition persist_session ::
  "'s session_ops \<Rightarrow> middleware_config \<Rightarrow> request_env \<Rightarrow> ustr option \<Rightarrow> string option \<Rightarrow> session_record
    \<Rightarrow> response \<Rightarrow> 's \<Rightarrow> response \<times> 's" where
  "persist_session ops cfg env sid was r0 resp s =
     (let r = with_csrf (re_csrf_token env) r0;
          answer = (\<lambda>(a, s') changed. (case a of None \<Rightarrow> resp | Some _ \<Rightarrow> changed, s'))
      in if was \<noteq> None \<and> sr_user_id r = None
         then answer (close_session ops sid (the was) s) (resp\<lparr>rs_cookie := CookieDeleted\<rparr>)
         else if was = None \<and> sr_user_id r \<noteq> None
         then answer (open_authenticated ops cfg sid (re_session_id env)
                        (r\<lparr>sr_authenticated_at := Some (re_now_after env)\<rparr>) s)
                (starts_session cfg (re_session_id env) resp)
         else
           let i = (case sid of None \<Rightarrow> re_session_id env | Some i \<Rightarrow> i)
           in answer (keep_session ops cfg (re_now_after env) i r s) (starts_session cfg i resp))"

section \<open>dispatch\<close>

text \<open>
  A route maps the record (reached through the proxy) and the rest of the application to a
  response, or raises (\<open>None\<close>); then nothing is persisted.
\<close>

type_synonym 'e route = "session_record \<Rightarrow> 'e \<Rightarrow> (response \<times> session_record) option \<times> 'e"

definition unavailable :: response where
  "unavailable = \<lparr>rs_status = 503, rs_location = None, rs_retry_after = None, rs_cookie = CookieUntouched\<rparr>"

definition dispatch ::
  "'s session_ops \<Rightarrow> middleware_config \<Rightarrow> request_env \<Rightarrow> string \<Rightarrow> ustr option
    \<Rightarrow> ('e \<Rightarrow> response option \<times> 'e) \<Rightarrow> 'e route \<Rightarrow> 's \<Rightarrow> 'e \<Rightarrow> response option \<times> 's \<times> 'e" where
  "dispatch ops cfg env path cookie plain route s e =
     (if is_exempt path then (case plain e of (r, e1) \<Rightarrow> (r, s, e1))
      else
        (case resolve_session ops cfg (re_now env) cookie s of
           (StoreDown, s1) \<Rightarrow> (Some unavailable, s1, e)
         | (Resolved sid r, s1) \<Rightarrow>
             (case route r e of
                (None, e1) \<Rightarrow> (None, s1, e1)
              | (Some (resp, r1), e1) \<Rightarrow>
                  (case persist_session ops cfg env sid (sr_user_id r) r1 resp s1 of
                     (resp1, s2) \<Rightarrow> (Some resp1, s2, e1)))))"

section \<open>CSRF (csrf.py)\<close>

definition generate_csrf_token :: "string \<Rightarrow> session_record \<Rightarrow> string \<times> session_record" where
  "generate_csrf_token token r =
     (case proxy_get ''csrf_token'' r of Some t \<Rightarrow> (t, r)
      | None \<Rightarrow> (token, put_field ''csrf_token'' (Some token) r))"

record csrf_request =
  cr_method :: string
  cr_header_token :: "string option"
  cr_content_type :: string
  cr_form_token :: "string option"

text \<open>\<open>bypass\<close>: pytest is loaded and the request does not ask for the check.\<close>

definition validate_csrf_token :: "bool \<Rightarrow> csrf_request \<Rightarrow> session_record \<Rightarrow> bool" where
  "validate_csrf_token bypass q r \<longleftrightarrow>
     cr_method q \<in> {''GET'', ''HEAD'', ''OPTIONS''} \<or> bypass
     \<or> (let session_token = proxy_get ''csrf_token'' r;
            user_token = (case cr_header_token q of Some t \<Rightarrow> Some t
              | None \<Rightarrow> if contains ''application/x-www-form-urlencoded'' (cr_content_type q)
                          \<or> contains ''multipart/form-data'' (cr_content_type q)
                        then cr_form_token q else None)
        in truthy session_token \<and> truthy user_token \<and> user_token = session_token)"

section \<open>Well-formed records\<close>

text \<open>Identifiers and tokens of the application are far shorter than the record limit.\<close>

definition short :: "string option \<Rightarrow> bool" where
  "short v \<longleftrightarrow> (case v of None \<Rightarrow> True | Some t \<Rightarrow> length t \<le> 128)"

definition proper :: "session_record \<Rightarrow> bool" where
  "proper r \<longleftrightarrow> identity_together r \<and> sr_version r = 1 \<and> short (sr_user_id r) \<and> short (sr_org_id r)
     \<and> short (sr_csrf_token r)"

definition codec_ok :: "'v codec \<Rightarrow> bool" where
  "codec_ok cd \<longleftrightarrow> (\<forall>r. proper r \<longrightarrow> storable cd r)"

lemma identity_together_iff:
  "identity_together r \<longleftrightarrow> (sr_user_id r = None \<longleftrightarrow> sr_org_id r = None)
     \<and> (sr_user_id r = None \<longleftrightarrow> sr_authenticated_at r = None)"
  by (auto simp: identity_together_def Let_def)

lemma new_session_proper [simp]: "proper (new_session now)"
  by (simp add: proper_def new_session_def identity_together_iff short_def)

lemma with_csrf_simps [simp]:
  "sr_user_id (with_csrf t r) = sr_user_id r" "sr_org_id (with_csrf t r) = sr_org_id r"
  "sr_authenticated_at (with_csrf t r) = sr_authenticated_at r" "sr_version (with_csrf t r) = sr_version r"
  "sr_created_at (with_csrf t r) = sr_created_at r"
  "sr_last_activity_at (with_csrf t r) = sr_last_activity_at r"
  "sr_csrf_token (with_csrf t r) \<noteq> None"
  by (simp_all add: with_csrf_def)

lemma short_csrf: "short (sr_csrf_token r) \<Longrightarrow> length t \<le> 128 \<Longrightarrow> short (sr_csrf_token (with_csrf t r))"
  by (simp add: with_csrf_def short_def)

lemma remaining_ttl_pos [simp]: "0 < remaining_ttl cfg now r"
  by (simp add: remaining_ttl_def)

text \<open>The records of a store that the application can have written.\<close>

definition all_proper :: "(ustr \<Rightarrow> session_record option) \<Rightarrow> bool" where
  "all_proper v \<longleftrightarrow> (\<forall>i r. v i = Some r \<longrightarrow> proper r)"

lemma all_properD: "all_proper v \<Longrightarrow> v i = Some r \<Longrightarrow> proper r"
  by (simp add: all_proper_def)

lemma all_proper_step:
  assumes "all_proper v" and "proper r" and "\<And>j. v' j = v j \<or> v' j = None \<or> v' j = Some r"
  shows "all_proper v'"
  unfolding all_proper_def using assms by (metis all_properD option.distinct(1) option.inject)

text \<open>What a route may leave behind.\<close>

definition left_by_route :: "session_record \<Rightarrow> session_record \<Rightarrow> bool" where
  "left_by_route r r1 \<longleftrightarrow> proxy_only r r1 \<and> (sr_user_id r1 = None \<longleftrightarrow> sr_org_id r1 = None)
     \<and> short (sr_user_id r1) \<and> short (sr_org_id r1) \<and> short (sr_csrf_token r1)"

text \<open>What the routes of the application do to the record.\<close>

definition well_behaved :: "'e route \<Rightarrow> bool" where
  "well_behaved route \<longleftrightarrow> (\<forall>r e resp r1 e1. route r e = (Some (resp, r1), e1) \<longrightarrow>
     rs_cookie resp = CookieUntouched \<and> (proper r \<longrightarrow> left_by_route r r1))"

text \<open>An identifier nobody is logged in under.\<close>

definition anonymous :: "(ustr \<Rightarrow> session_record option) \<Rightarrow> ustr \<Rightarrow> bool" where
  "anonymous v i \<longleftrightarrow> (\<forall>r. v i = Some r \<longrightarrow> sr_user_id r = None)"

text \<open>The cookie of a response names a session that can be read back and is indexed.\<close>

definition cookie_backed ::
  "middleware_config \<Rightarrow> (ustr \<Rightarrow> session_record option) \<Rightarrow> (string \<Rightarrow> ustr set) \<Rightarrow> response \<Rightarrow> bool" where
  "cookie_backed cfg v ix resp \<longleftrightarrow> (case rs_cookie resp of
     CookieSet ck \<Rightarrow> (\<exists>r. v (sc_value ck) = Some r \<and> proper r
         \<and> (\<forall>u. sr_user_id r = Some u \<longrightarrow> sc_value ck \<in> ix u)
         \<and> sc_httponly ck \<and> sc_secure ck = mw_https_only cfg)
   | _ \<Rightarrow> True)"

lemma cookie_backed_simps [simp]:
  "rs_cookie resp = CookieUntouched \<Longrightarrow> cookie_backed cfg v ix resp"
  "cookie_backed cfg v ix (resp\<lparr>rs_cookie := CookieDeleted\<rparr>)"
  "cookie_backed cfg v ix (starts_session cfg i resp) \<longleftrightarrow>
     (\<exists>r. v i = Some r \<and> proper r \<and> (\<forall>u. sr_user_id r = Some u \<longrightarrow> i \<in> ix u))"
  by (auto simp: cookie_backed_def starts_session_def)

section \<open>What one request does to the store\<close>

context session_store
begin

lemma drop_expired_effect:
  assumes "ok s"
  shows "ok (drop_expired ops i r s) \<and> (\<forall>j. j \<noteq> i \<longrightarrow> view (drop_expired ops i r s) j = view s j)
    \<and> (view (drop_expired ops i r s) i = None \<or> view (drop_expired ops i r s) i = view s i)"
proof (cases "so_delete ops i s")
  case (Pair b s1)
  note d = delete [OF assms Pair]
  show ?thesis
  proof (cases b)
    case (Some x)
    then have eq: "drop_expired ops i r s = snd ((if truthy (sr_user_id r)
        then so_unregister ops (the (sr_user_id r)) i else done_with ()) s1)"
      using Pair by (simp add: drop_expired_def ask_def)
    obtain c s2 where u: "so_unregister ops (the (sr_user_id r)) i s1 = (c, s2)"
      by (cases "so_unregister ops (the (sr_user_id r)) i s1")
    have "ok s2" "view s2 = view s1" using unregister [OF _ u] d by auto
    then show ?thesis using d u unfolding eq by (auto simp: done_with_def)
  qed (use Pair d in \<open>auto simp: drop_expired_def ask_def\<close>)
qed

lemma resolve_sound:
  assumes "ok s" and "resolve_session ops cfg now cookie s = (x, s')"
  shows "ok s'" and "\<And>j. view s' j = view s j \<or> view s' j = None \<and> cookie = Some j"
    and "x = Resolved None r \<Longrightarrow> r = new_session now"
    and "x = Resolved (Some i) r \<Longrightarrow> cookie = Some i \<and> is_valid_session_id i \<and> view s' = view s
      \<and> index s' = index s
      \<and> (\<exists>r0. view s i = Some r0 \<and> r = r0\<lparr>sr_last_activity_at := now\<rparr> \<and> \<not> session_expired cfg now r0)"
proof -
  define c where "c = (case cookie of None \<Rightarrow> [] | Some c \<Rightarrow> c)"
  obtain found s1 where g: "(if c \<noteq> [] \<and> is_valid_session_id c then so_get ops c s else (Some None, s)) = (found, s1)"
    by fastforce
  have g1: "ok s1 \<and> view s1 = view s \<and> index s1 = index s
      \<and> (\<forall>r. found = Some (Some r) \<longrightarrow> cookie = Some c \<and> is_valid_session_id c \<and> view s c = Some r)"
    using g assms(1) get [OF assms(1), of c] unfolding c_def
    by (auto split: if_splits option.splits)
  have eq: "(x, s') = (case found of None \<Rightarrow> (StoreDown, s1)
         | Some None \<Rightarrow> (Resolved None (new_session now), s1)
         | Some (Some r) \<Rightarrow>
             if session_expired cfg now r
             then (Resolved None (new_session now), drop_expired ops c r s1)
             else (Resolved (Some c) (r\<lparr>sr_last_activity_at := now\<rparr>), s1))"
    using assms(2) g unfolding resolve_session_def c_def [symmetric] Let_def by simp
  show "ok s'" "\<And>j. view s' j = view s j \<or> view s' j = None \<and> cookie = Some j"
    using eq g1 drop_expired_effect [of s1 c]
    by (auto split: option.splits if_splits) metis+
  show "x = Resolved None r \<Longrightarrow> r = new_session now"
    using eq by (auto split: option.splits if_splits)
  show "x = Resolved (Some i) r \<Longrightarrow> cookie = Some i \<and> is_valid_session_id i \<and> view s' = view s
      \<and> index s' = index s
      \<and> (\<exists>r0. view s i = Some r0 \<and> r = r0\<lparr>sr_last_activity_at := now\<rparr> \<and> \<not> session_expired cfg now r0)"
    using eq g1 by (auto split: option.splits if_splits)
qed

lemma ask_unit_cases:
  assumes "ask f g s = (b, s')"
  obtains "b = None" "f s = (None, s')" | x s1 where "f s = (Some x, s1)" "g x s1 = (b, s')"
  using assms by (auto simp: ask_def split: prod.splits option.splits)

lemma close_effect:
  assumes "ok s" and "close_session ops sid u s = (b, s')"
  shows "ok s' \<and> (\<forall>j. view s' j = view s j \<or> view s' j = None)
    \<and> (\<forall>i. b \<noteq> None \<and> sid = Some i \<longrightarrow> view s' i = None \<and> i \<notin> index s' u)"
proof (cases sid)
  case (Some i)
  with assms(2) have "ask (so_delete ops i) (\<lambda>_. so_unregister ops u i) s = (b, s')"
    by (simp add: close_session_def)
  then show ?thesis
  proof (cases rule: ask_unit_cases)
    case 1
    with delete [OF assms(1) 1(2)] show ?thesis by (auto split: if_splits)
  next
    case (2 x s1)
    note d = delete [OF assms(1) 2(1)]
    from unregister [of s1 u i b s'] d 2(2) Some show ?thesis by auto
  qed
qed (use assms in \<open>simp add: close_session_def done_with_def\<close>)

lemma save_then_register:
  assumes "ok s" and "0 < ttl" and "fits r"
    and "ask (so_save ops i r ttl) (\<lambda>_. case w of None \<Rightarrow> done_with () | Some u \<Rightarrow> so_register ops u i t) s = (b, s')"
  shows "ok s' \<and> (\<forall>j. j \<noteq> i \<longrightarrow> view s' j = view s j) \<and> (view s' i = view s i \<or> view s' i = Some r)
    \<and> (b \<noteq> None \<longrightarrow> view s' i = Some r \<and> (\<forall>u. w = Some u \<longrightarrow> i \<in> index s' u))"
  using assms(4)
proof (cases rule: ask_unit_cases)
  case 1
  with save [OF assms(1-3) 1(2)] show ?thesis by auto
next
  case (2 x s1)
  note d = save [OF assms(1-3) 2(1)]
  show ?thesis
  proof (cases w)
    case None
    then show ?thesis using 2 d by (auto simp: done_with_def)
  next
    case (Some u)
    with register [of s1 u i t b s'] d 2(2) show ?thesis by auto
  qed
qed

lemma keep_effect:
  assumes "ok s" and "fits r" and "keep_session ops cfg now i r s = (b, s')"
  shows "ok s' \<and> (\<forall>j. j \<noteq> i \<longrightarrow> view s' j = view s j) \<and> (view s' i = view s i \<or> view s' i = Some r)
    \<and> (b \<noteq> None \<longrightarrow> view s' i = Some r \<and> (\<forall>u. sr_user_id r = Some u \<longrightarrow> i \<in> index s' u))"
  by (rule save_then_register [OF assms(1) remaining_ttl_pos assms(2) assms(3) [unfolded keep_session_def]])

lemma open_effect:
  assumes "ok s" and "fits r" and "sr_user_id r = Some u" and "open_authenticated ops cfg sid n r s = (b, s')"
  shows "ok s' \<and> (\<forall>j. j \<noteq> n \<longrightarrow> view s' j = view s j \<or> view s' j = None)
    \<and> (view s' n = view s n \<or> view s' n = None \<or> view s' n = Some r)
    \<and> (b \<noteq> None \<longrightarrow> view s' n = Some r \<and> n \<in> index s' u \<and> (\<forall>i. sid = Some i \<and> i \<noteq> n \<longrightarrow> view s' i = None))"
proof -
  let ?ttl = "max 1 (min (mw_idle_timeout cfg) (mw_absolute_timeout cfg))"
  have run: "ask (case sid of None \<Rightarrow> done_with () | Some i \<Rightarrow> so_delete ops i) (\<lambda>_.
       ask (so_save ops n r ?ttl) (\<lambda>_. case Some u of None \<Rightarrow> done_with () | Some u \<Rightarrow> so_register ops u n ?ttl)) s = (b, s')"
    using assms(3,4) by (simp add: open_authenticated_def Let_def)
  have gone: "ok s1 \<and> (\<forall>j. view s1 j = view s j \<or> view s1 j = None)
      \<and> (\<forall>i. c \<noteq> None \<and> sid = Some i \<longrightarrow> view s1 i = None)"
    if "(case sid of None \<Rightarrow> done_with () | Some i \<Rightarrow> so_delete ops i) s = (c, s1)" for c s1
  proof (cases sid)
    case (Some i)
    with that delete [OF assms(1), of i c s1] show ?thesis by (auto split: if_splits)
  qed (use that assms(1) in \<open>simp add: done_with_def\<close>)
  from run show ?thesis
  proof (cases rule: ask_unit_cases)
    case 1
    with gone [OF 1(2)] show ?thesis by auto
  next
    case (2 x s1)
    note g = gone [OF 2(1)]
    then have "ok s1" by blast
    have "0 < ?ttl" by simp
    note r = save_then_register [OF \<open>ok s1\<close> this assms(2) 2(2)]
    have "view s' j = view s j \<or> view s' j = None" if "j \<noteq> n" for j
      using r g that by metis
    moreover have "view s' n = view s n \<or> view s' n = None \<or> view s' n = Some r"
      using r g by metis
    moreover have "view s' i = None" if "sid = Some i" "i \<noteq> n" for i
      using r g that by (metis option.distinct(1))
    ultimately show ?thesis using r by simp
  qed
qed

lemma resolved_proper:
  assumes "ok s" and "all_proper (view s)" and "resolve_session ops cfg now cookie s = (Resolved sid r, s')"
  shows "ok s'" and "all_proper (view s')" and "proper r" and "sid = None \<Longrightarrow> r = new_session now"
proof -
  note rs = resolve_sound [OF assms(1,3)]
  show "ok s'" by (rule rs(1))
  show "all_proper (view s')"
    unfolding all_proper_def using rs(2) assms(2) by (metis all_properD option.distinct(1))
  show "sid = None \<Longrightarrow> r = new_session now" using rs(3) by blast
  show "proper r"
  proof (cases sid)
    case None
    then show ?thesis using rs(3) by simp
  next
    case (Some i)
    then obtain r0 where "view s i = Some r0" "r = r0\<lparr>sr_last_activity_at := now\<rparr>"
      using rs(4) by blast
    then show ?thesis
      using all_properD [OF assms(2)] by (auto simp: proper_def identity_together_iff)
  qed
qed

lemma saved_proper:
  assumes "proper r" and "left_by_route r r1" and "length t \<le> 128"
  shows "sr_user_id r1 \<noteq> None \<Longrightarrow> proper (with_csrf t r1\<lparr>sr_authenticated_at := Some n\<rparr>)"
    and "(sr_user_id r = None) = (sr_user_id r1 = None) \<Longrightarrow> proper (with_csrf t r1)"
  using assms short_csrf [of r1 t]
  by (auto simp: proper_def left_by_route_def proxy_only_def identity_together_iff)

lemma persist_effect:
  assumes "ok s" and "\<forall>r. proper r \<longrightarrow> fits r" and "proper r" and "left_by_route r r1"
    and "length (re_csrf_token env) \<le> 128" and "rs_cookie resp = CookieUntouched"
    and "persist_session ops cfg env sid (sr_user_id r) r1 resp s = (resp', s')"
  obtains (closed) u b where "sr_user_id r = Some u" "sr_user_id r1 = None"
      "close_session ops sid u s = (b, s')"
      "resp' = (if b = None then resp else resp\<lparr>rs_cookie := CookieDeleted\<rparr>)"
  | (opened) u b where "sr_user_id r = None" "sr_user_id r1 = Some u"
      "fits (with_csrf (re_csrf_token env) r1\<lparr>sr_authenticated_at := Some (re_now_after env)\<rparr>)"
      "proper (with_csrf (re_csrf_token env) r1\<lparr>sr_authenticated_at := Some (re_now_after env)\<rparr>)"
      "open_authenticated ops cfg sid (re_session_id env)
         (with_csrf (re_csrf_token env) r1\<lparr>sr_authenticated_at := Some (re_now_after env)\<rparr>) s = (b, s')"
      "resp' = (if b = None then resp else starts_session cfg (re_session_id env) resp)"
  | (kept) i b where "(sr_user_id r = None) = (sr_user_id r1 = None)"
      "i = (case sid of None \<Rightarrow> re_session_id env | Some i \<Rightarrow> i)"
      "fits (with_csrf (re_csrf_token env) r1)" "proper (with_csrf (re_csrf_token env) r1)"
      "keep_session ops cfg (re_now_after env) i (with_csrf (re_csrf_token env) r1) s = (b, s')"
      "resp' = (if b = None then resp else starts_session cfg i resp)"
proof -
  note sp = saved_proper [OF assms(3,4,5)]
  consider "sr_user_id r \<noteq> None" "sr_user_id r1 = None" | "sr_user_id r = None" "sr_user_id r1 \<noteq> None"
    | "(sr_user_id r = None) = (sr_user_id r1 = None)" by metis
  then show thesis
  proof cases
    case 1
    then show thesis
      using closed assms(7) by (auto simp: persist_session_def Let_def split: prod.splits option.splits)
  next
    case 2
    then show thesis
      using opened assms(2,7) sp(1)
      by (auto simp: persist_session_def Let_def split: prod.splits option.splits)
  next
    case 3
    then show thesis
      using kept assms(2,7) sp(2)
      by (cases "sr_user_id r"; cases "sr_user_id r1")
        (auto simp: persist_session_def Let_def split: prod.splits option.splits)
  qed
qed

lemma dispatch_cases:
  assumes "dispatch ops cfg env path cookie plain route s e = (Some resp', s', e')" and "\<not> is_exempt path"
  obtains "resolve_session ops cfg (re_now env) cookie s = (StoreDown, s')" "resp' = unavailable" "e' = e"
  | sid r s1 resp r1 where "resolve_session ops cfg (re_now env) cookie s = (Resolved sid r, s1)"
      "route r e = (Some (resp, r1), e')"
      "persist_session ops cfg env sid (sr_user_id r) r1 resp s1 = (resp', s')"
  using assms
  by (auto simp: dispatch_def split: prod.splits resolved.splits option.splits)

text \<open>An authenticated record reaches the route only from a stored session that is not expired.\<close>

lemma resolved_user:
  assumes "ok s" and "resolve_session ops cfg now cookie s = (Resolved sid r, s')" and "sr_user_id r = Some u"
  shows "\<exists>i r0 t. cookie = Some i \<and> sid = Some i \<and> is_valid_session_id i \<and> view s i = Some r0
    \<and> sr_user_id r0 = Some u \<and> sr_org_id r0 = sr_org_id r \<and> sr_authenticated_at r0 = Some t
    \<and> now - sr_last_activity_at r0 \<le> seconds (mw_idle_timeout cfg)
    \<and> now - t \<le> seconds (mw_absolute_timeout cfg)"
proof (cases sid)
  case None
  then show ?thesis using resolve_sound(3) [OF assms(1,2)] assms(3) by (simp add: new_session_def)
next
  case (Some i)
  then obtain r0 where r0: "cookie = Some i" "is_valid_session_id i" "view s i = Some r0"
    "r = r0\<lparr>sr_last_activity_at := now\<rparr>" "\<not> session_expired cfg now r0"
    using resolve_sound(4) [OF assms(1,2)] by blast
  from valid [OF r0(3)] r0(4) assms(3) obtain t where "sr_authenticated_at r0 = Some t"
    by (auto simp: identity_together_iff)
  then show ?thesis
    using r0 Some assms(3) by (auto simp: session_expired_def absolute_anchor_def)
qed

text \<open>The effect of one request on the records, whatever fails.\<close>

lemma persist_sound:
  assumes "ok s" and "all_proper (view s)" and "\<forall>r. proper r \<longrightarrow> fits r" and "proper r" and "left_by_route r r1"
    and "length (re_csrf_token env) \<le> 128" and "rs_cookie resp = CookieUntouched"
    and "persist_session ops cfg env sid (sr_user_id r) r1 resp s = (resp', s')"
    and "\<And>i. sid = Some i \<Longrightarrow> anonymous (view s) i \<Longrightarrow> sr_user_id r = None"
  shows "ok s' \<and> all_proper (view s') \<and> cookie_backed cfg (view s') (index s') resp'
    \<and> (i \<noteq> re_session_id env \<and> anonymous (view s) i \<longrightarrow> anonymous (view s') i)"
  using assms(1,3-8)
proof (cases rule: persist_effect)
  case (closed u b)
  note c = close_effect [OF assms(1) closed(3)]
  then have "all_proper (view s')" using all_proper_step [OF assms(2) new_session_proper] by blast
  moreover have "anonymous (view s) i \<longrightarrow> anonymous (view s') i"
    using c unfolding anonymous_def by (metis option.distinct(1))
  ultimately show ?thesis using c closed(4) assms(7) by simp
next
  case (opened u b)
  have user: "sr_user_id (with_csrf (re_csrf_token env) r1\<lparr>sr_authenticated_at := Some (re_now_after env)\<rparr>) = Some u"
    using opened(2) by simp
  note c = open_effect [OF assms(1) opened(3) user opened(5)]
  have "all_proper (view s')" using all_proper_step [OF assms(2) opened(4)] c by metis
  moreover have "i \<noteq> re_session_id env \<and> anonymous (view s) i \<longrightarrow> anonymous (view s') i"
    using c unfolding anonymous_def by (metis option.distinct(1))
  moreover have "cookie_backed cfg (view s') (index s') resp'" using c opened(2,4,6) assms(7) by (cases b) auto
  ultimately show ?thesis using c by simp
next
  case (kept j b)
  note c = keep_effect [OF assms(1) kept(3,5)]
  have "all_proper (view s')" using all_proper_step [OF assms(2) kept(4)] c by metis
  moreover have "i \<noteq> re_session_id env \<and> anonymous (view s) i \<longrightarrow> anonymous (view s') i"
  proof (cases "i = j")
    case True
    have "sid = Some i" if "i \<noteq> re_session_id env" using that kept(2) True by (cases sid) auto
    then have "anonymous (view s) i \<Longrightarrow> i \<noteq> re_session_id env \<Longrightarrow> sr_user_id r1 = None"
      using assms(9) kept(1) by auto
    then show ?thesis using c True unfolding anonymous_def by auto
  qed (use c in \<open>auto simp: anonymous_def\<close>)
  moreover have "cookie_backed cfg (view s') (index s') resp'" using c kept(4,6) assms(7) by (cases b) auto
  ultimately show ?thesis using c by simp
qed

lemma dispatch_sound:
  assumes "ok s" and "all_proper (view s)" and "\<forall>r. proper r \<longrightarrow> fits r" and "well_behaved route"
    and "length (re_csrf_token env) \<le> 128" and "\<not> is_exempt path"
    and "dispatch ops cfg env path cookie plain route s e = (Some resp', s', e')"
  shows "ok s' \<and> all_proper (view s') \<and> cookie_backed cfg (view s') (index s') resp'
    \<and> (i \<noteq> re_session_id env \<and> anonymous (view s) i \<longrightarrow> anonymous (view s') i)"
  using assms(7,6)
proof (cases rule: dispatch_cases)
  case 1
  note rs = resolve_sound(1,2) [OF assms(1) 1(1)]
  have "all_proper (view s')" using all_proper_step [OF assms(2) new_session_proper] rs(2) by blast
  moreover have "anonymous (view s) i \<longrightarrow> anonymous (view s') i"
    using rs(2) unfolding anonymous_def by (metis option.distinct(1))
  ultimately show ?thesis using rs(1) 1(2) by (simp add: unavailable_def)
next
  case (2 sid r s1 resp r1)
  note rs = resolve_sound(2,4) [OF assms(1) 2(1)]
  note rp = resolved_proper [OF assms(1,2) 2(1)]
  have left: "left_by_route r r1" "rs_cookie resp = CookieUntouched"
    using assms(4) 2(2) rp(3) unfolding well_behaved_def by blast+
  have "sr_user_id r = None" if "sid = Some j" "anonymous (view s1) j" for j
    using rs(2) [of j r] that by (auto simp: anonymous_def)
  from persist_sound [OF rp(1,2) assms(3) rp(3) left(1) assms(5) left(2) 2(3) this]
  have "ok s' \<and> all_proper (view s') \<and> cookie_backed cfg (view s') (index s') resp'
    \<and> (i \<noteq> re_session_id env \<and> anonymous (view s1) i \<longrightarrow> anonymous (view s') i)" .
  moreover have "anonymous (view s) i \<longrightarrow> anonymous (view s1) i"
    using rs(1) unfolding anonymous_def by (metis option.distinct(1))
  ultimately show ?thesis by blast
qed

text \<open>A user appears under an identifier only because the route put that user into the record.\<close>

lemma persist_new_user:
  assumes "ok s" and "\<forall>r. proper r \<longrightarrow> fits r" and "proper r" and "left_by_route r r1"
    and "length (re_csrf_token env) \<le> 128" and "rs_cookie resp = CookieUntouched"
    and "persist_session ops cfg env sid (sr_user_id r) r1 resp s = (resp', s')"
    and "sid = None \<Longrightarrow> sr_user_id r = None"
    and "view s' i = Some r'" and "sr_user_id r' = Some w"
  shows "view s i = Some r' \<or> sr_user_id r1 = Some w \<and> (sr_user_id r = None \<or> sid = Some i)"
  using assms(1-7)
proof (cases rule: persist_effect)
  case (closed u b)
  then show ?thesis using close_effect [OF assms(1) closed(3)] assms(9) by (metis option.distinct(1))
next
  case (opened u b)
  have user: "sr_user_id (with_csrf (re_csrf_token env) r1\<lparr>sr_authenticated_at := Some (re_now_after env)\<rparr>) = Some u"
    using opened(2) by simp
  note c = open_effect [OF assms(1) opened(3) user opened(5)]
  show ?thesis
  proof (cases "i = re_session_id env \<and> r' = with_csrf (re_csrf_token env) r1\<lparr>sr_authenticated_at := Some (re_now_after env)\<rparr>")
    case True
    then show ?thesis using user assms(10) opened(1,2) by auto
  next
    case False
    then show ?thesis using c assms(9) by (metis option.distinct(1) option.inject)
  qed
next
  case (kept j b)
  note c = keep_effect [OF assms(1) kept(3,5)]
  show ?thesis
  proof (cases "view s' i = view s i")
    case False
    then have "i = j" using c by metis
    then have "r' = with_csrf (re_csrf_token env) r1" using c assms(9) False by auto
    with \<open>i = j\<close> show ?thesis using assms(8,10) kept(1,2) by (cases sid) auto
  qed (use assms(9) in simp)
qed

lemma dispatch_new_user:
  assumes "ok s" and "all_proper (view s)" and "\<forall>r. proper r \<longrightarrow> fits r" and "well_behaved route"
    and "length (re_csrf_token env) \<le> 128" and "\<not> is_exempt path"
    and "dispatch ops cfg env path cookie plain route s e = (Some resp', s', e')"
    and "view s' i = Some r'" and "sr_user_id r' = Some w"
    and "\<And>r. view s i = Some r \<Longrightarrow> sr_user_id r \<noteq> Some w"
  obtains r resp r1 where "route r e = (Some (resp, r1), e')" "sr_user_id r1 = Some w" "sr_user_id r \<noteq> Some w"
  using assms(7,6)
proof (cases rule: dispatch_cases)
  case 1
  then have "view s i = Some r'"
    using resolve_sound(2) [OF assms(1) 1(1), of i] assms(8) by auto
  then show thesis using assms(9,10) by blast
next
  case (2 sid r s1 resp r1)
  note rs = resolve_sound(2,4) [OF assms(1) 2(1)]
  note rp = resolved_proper [OF assms(1,2) 2(1)]
  have left: "left_by_route r r1" "rs_cookie resp = CookieUntouched"
    using assms(4) 2(2) rp(3) unfolding well_behaved_def by blast+
  have anon: "sid = None \<Longrightarrow> sr_user_id r = None" using rp(4) by (simp add: new_session_def)
  have "view s1 i = Some r' \<or> sr_user_id r1 = Some w \<and> (sr_user_id r = None \<or> sid = Some i)"
    by (rule persist_new_user [OF rp(1) assms(3) rp(3) left(1) assms(5) left(2) 2(3) _ assms(8,9)])
      (rule anon)
  then show thesis
  proof (elim disjE conjE)
    assume "view s1 i = Some r'"
    then have "view s i = Some r'" using rs(1) [of i] by auto
    then show thesis using assms(9,10) by blast
  next
    assume "sr_user_id r1 = Some w" "sr_user_id r = None"
    then show thesis using that 2(2) by simp
  next
    assume a: "sr_user_id r1 = Some w" "sid = Some i"
    then obtain r0 where "view s i = Some r0" "r = r0\<lparr>sr_last_activity_at := re_now env\<rparr>" using rs(2) by blast
    then show thesis using that 2(2) a(1) assms(10) by auto
  qed
qed

end

context reliable_session_store
begin

lemma close_up:
  assumes "up s"
  shows "\<exists>s'. close_session ops sid u s = (Some (), s') \<and> up s'"
proof (cases sid)
  case (Some i)
  obtain s1 where "so_delete ops i s = (Some (), s1)" "up s1" using delete_up [OF assms] by blast
  then show ?thesis using unregister_up [of s1] Some by (simp add: close_session_def ask_up)
qed (use assms in \<open>simp add: close_session_def done_with_def\<close>)

lemma save_then_register_up:
  assumes "up s"
  shows "\<exists>s'. ask (so_save ops i r ttl) (\<lambda>_. case w of None \<Rightarrow> done_with () | Some u \<Rightarrow> so_register ops u i t) s
      = (Some (), s') \<and> up s'"
proof -
  obtain s1 where "so_save ops i r ttl s = (Some (), s1)" "up s1" using save_up [OF assms] by blast
  then show ?thesis
    using register_up [of s1] by (cases w) (auto simp: ask_up done_with_def)
qed

lemma keep_up: "up s \<Longrightarrow> \<exists>s'. keep_session ops cfg now i r s = (Some (), s') \<and> up s'"
  unfolding keep_session_def by (rule save_then_register_up)

lemma resolved_up:
  assumes "up s" and "resolve_session ops cfg now cookie s = (Resolved (Some i) r, s')"
  shows "up s'"
proof -
  obtain x s1 where "so_get ops i s = (Some x, s1)" "up s1" using get_up [OF assms(1)] by blast
  then show ?thesis
    using assms(2) by (auto simp: resolve_session_def Let_def split: prod.splits if_splits option.splits)
qed

text \<open>With a reachable store a request that leaves nobody logged in removes the session.\<close>

lemma logout_closes:
  assumes "ok s" and "up s" and "sr_user_id r1 = None"
    and "persist_session ops cfg env (Some i) (Some u) r1 resp s = (resp', s')"
  shows "view s' i = None \<and> i \<notin> index s' u \<and> rs_cookie resp' = CookieDeleted"
proof -
  obtain s2 where "close_session ops (Some i) u s = (Some (), s2)" using close_up [OF assms(2)] by blast
  then show ?thesis
    using close_effect [OF assms(1), of "Some i" u "Some ()" s2] assms(3,4)
    by (auto simp: persist_session_def Let_def)
qed

text \<open>A request that was authenticated and still is writes its record, whatever is stored by then.\<close>

lemma kept_whatever:
  assumes "ok s" and "up s" and "sr_user_id r1 = Some u" and "fits (with_csrf (re_csrf_token env) r1)"
    and "persist_session ops cfg env (Some i) (Some w) r1 resp s = (resp', s')"
  shows "view s' i = Some (with_csrf (re_csrf_token env) r1) \<and> i \<in> index s' u
    \<and> resp' = starts_session cfg i resp"
proof -
  obtain s2 where k: "keep_session ops cfg (re_now_after env) i (with_csrf (re_csrf_token env) r1) s = (Some (), s2)"
    using keep_up [OF assms(2)] by blast
  then show ?thesis
    using keep_effect [OF assms(1,4) k] assms(3,5)
    by (auto simp: persist_session_def Let_def)
qed

end

section \<open>On Redis\<close>

context redis_server
begin

lemma redis_session_store:
  "session_store (redis_sessions R cd) (redis_view entry cd) (redis_index entry) (storable cd) (redis_ok entry)"
  by (rule redis_store.session_store_axioms)

lemma redis_reliable_store:
  "reliable_session_store (redis_sessions R cd) (redis_view entry cd) (redis_index entry) (storable cd)
     (redis_ok entry) conn_up"
  by (rule redis_up.reliable_session_store_axioms)

end

end
