(* ===== verification/SessionSecurity.thy ===== *)
theory SessionSecurity
  imports SessionMiddleware
begin

text \<open>
  The guarantees of the session layer on the production store, and the three ways in which it
  falls short of its documentation. Every statement is about \<open>redis_sessions\<close> over any server
  that obeys the laws of \<open>redis_server\<close>.
\<close>

section \<open>A concrete store\<close>

text \<open>
  Records kept as the JSON objects \<open>model_dump_json\<close> prints, without the text. Every one of
  them is far below the size limit.
\<close>

definition opt_json :: "('a \<Rightarrow> json) \<Rightarrow> 'a option \<Rightarrow> json" where
  "opt_json f v = (case v of None \<Rightarrow> JsonNull | Some x \<Rightarrow> f x)"

definition record_fields :: "session_record \<Rightarrow> (string \<times> json) list" where
  "record_fields r =
     [(''version'', JsonNumber (sr_version r)), (''created_at'', JsonNumber (sr_created_at r)),
      (''last_activity_at'', JsonNumber (sr_last_activity_at r)),
      (''csrf_token'', opt_json (\<lambda>t. JsonText (uni t)) (sr_csrf_token r)),
      (''user_id'', opt_json (\<lambda>t. JsonText (uni t)) (sr_user_id r)),
      (''org_id'', opt_json (\<lambda>t. JsonText (uni t)) (sr_org_id r)),
      (''authenticated_at'', opt_json JsonNumber (sr_authenticated_at r))]"

fun json_text :: "json \<Rightarrow> string option option" where
  "json_text JsonNull = Some None"
| "json_text (JsonText t) = Some (Some (map char_of t))"
| "json_text _ = None"

fun read_fields :: "(string \<times> json) list \<Rightarrow> session_record option" where
  "read_fields [(_, JsonNumber v), (_, JsonNumber c), (_, JsonNumber l), (_, t), (_, u), (_, g), (_, a)] =
     (case (json_text t, json_text u, json_text g) of
        (Some t', Some u', Some g') \<Rightarrow>
          Some \<lparr>sr_version = v, sr_created_at = c, sr_last_activity_at = l, sr_csrf_token = t',
            sr_user_id = u', sr_org_id = g',
            sr_authenticated_at = (case a of JsonNumber n \<Rightarrow> Some n | _ \<Rightarrow> None)\<rparr>
      | _ \<Rightarrow> None)"
| "read_fields _ = None"

definition demo_codec :: "json codec" where
  "demo_codec = \<lparr>cd_dump = \<lambda>r. JsonObject (record_fields r), cd_size = \<lambda>_. 400, cd_loads = Some,
     cd_fields = read_fields\<rparr>"

lemma json_text_opt [simp]: "json_text (opt_json (\<lambda>t. JsonText (uni t)) v) = Some v"
  by (cases v) (simp_all add: opt_json_def uni_def comp_def)

lemma read_record_fields [simp]: "read_fields (record_fields r) = Some r"
  by (cases "sr_authenticated_at r") (simp_all add: record_fields_def opt_json_def [of JsonNumber])

lemma record_version [simp]: "map_of (record_fields r) ''version'' = Some (JsonNumber (sr_version r))"
  by (simp add: record_fields_def)

lemma demo_codec_ok: "codec_ok demo_codec"
  by (auto simp: codec_ok_def proper_def storable_def readable_def from_json_def demo_codec_def
      max_session_record_bytes_def version_ok_def current_session_version_def)

definition demo_conn :: "json cells \<Rightarrow> json cells conn" where
  "demo_conn C = \<lparr>cn_server = C, cn_fates = []\<rparr>"

definition demo_mw :: middleware_config where
  "demo_mw = \<lparr>mw_idle_timeout = 1800, mw_absolute_timeout = 28800, mw_https_only = True\<rparr>"

definition demo_id :: ustr where "demo_id = replicate 43 65"
definition fresh_id :: ustr where "fresh_id = replicate 43 66"

definition demo_request :: request_env where
  "demo_request = \<lparr>re_now = 2000000, re_now_after = 3000000, re_session_id = fresh_id, re_csrf_token = ''t''\<rparr>"

definition found :: response where
  "found = \<lparr>rs_status = 200, rs_location = None, rs_retry_after = None, rs_cookie = CookieUntouched\<rparr>"

definition demo_session :: "string option \<Rightarrow> session_record" where
  "demo_session u = (new_session 1000000)
     \<lparr>sr_user_id := u, sr_org_id := map_option (\<lambda>_. ''9'') u,
      sr_authenticated_at := map_option (\<lambda>_. 1000000) u\<rparr>"

text \<open>One stored session, of nobody or of a user with its index entry.\<close>

definition demo_cells :: "string option \<Rightarrow> json cells" where
  "demo_cells u = (case u of None \<Rightarrow> Map.empty | Some w \<Rightarrow> [user_index_key w \<mapsto> (CList [demo_id], Some 9000000)])
     (session_key demo_id \<mapsto> (CText (cd_dump demo_codec (demo_session u)), Some 9000000))"

text \<open>A login and a read-only request.\<close>

definition logs_in_as :: "string \<Rightarrow> unit route" where
  "logs_in_as u r e = (Some (found, r\<lparr>sr_user_id := Some u, sr_org_id := Some ''9''\<rparr>), e)"

definition only_reads :: "unit route" where
  "only_reads r e = (Some (found, r), e)"

lemma demo_routes: "length u \<le> 128 \<Longrightarrow> well_behaved (logs_in_as u)" "well_behaved only_reads"
  by (auto simp: well_behaved_def logs_in_as_def only_reads_def proxy_only_def found_def short_def proper_def
      left_by_route_def identity_together_iff)

lemma demo_session_readable: "u = None \<or> u = Some ''4'' \<Longrightarrow> readable demo_codec (cd_dump demo_codec (demo_session u)) = Some (demo_session u)"
  using demo_codec_ok
  by (auto simp: codec_ok_def storable_def proper_def demo_session_def new_session_def identity_together_iff short_def)

lemma demo_view:
  assumes "u = None \<or> u = Some ''4''"
  shows "redis_view cells_entry demo_codec (demo_conn (demo_cells u))
    = [demo_id \<mapsto> demo_session u]"
  using demo_session_readable [OF assms] assms
  by (auto simp: redis_view_def session_view_def demo_conn_def demo_cells_def fun_eq_iff)

lemma demo_ok: "redis_ok cells_entry (demo_conn (demo_cells u))"
  by (cases u) (auto simp: redis_ok_def sessions_typed_def holds_text_def holds_set_def demo_conn_def
      demo_cells_def cells_entry_def)

lemma demo_proper:
  assumes "u = None \<or> u = Some ''4''"
  shows "all_proper (redis_view cells_entry demo_codec (demo_conn (demo_cells u)))"
  using assms unfolding demo_view [OF assms]
  by (auto simp: all_proper_def demo_session_def new_session_def proper_def identity_together_iff short_def)

lemma dispatch_answers:
  fixes route :: "unit route"
  assumes "\<And>r. fst (route r ()) \<noteq> None"
  shows "\<exists>resp s'. dispatch ops cfg env path cookie (\<lambda>e. (Some found, e)) route s () = (Some resp, s', ())"
  using assms
  by (auto simp: dispatch_def split: prod.split resolved.split option.split) (metis fst_conv)

section \<open>Guarantees\<close>

text \<open>
  C1. No session fixation across a login: an identifier under which nobody is logged in before
  a request (unknown, expired, or of an anonymous session) has nobody logged in under it after
  the request, whatever the route does and whichever call to Redis fails. Only the identifier
  generated for this very request can become authenticated.
\<close>

theorem known_identifiers_are_not_upgraded:
  assumes "redis_server R ent pass" and "codec_ok cd" and "well_behaved route"
    and "redis_ok ent c" and "all_proper (redis_view ent cd c)"
    and "length (re_csrf_token env) \<le> 128" and "\<not> is_exempt path"
    and "dispatch (redis_sessions R cd) cfg env path cookie plain route c e = (Some resp, c', e')"
    and "i \<noteq> re_session_id env" and "anonymous (redis_view ent cd c) i"
  shows "anonymous (redis_view ent cd c') i"
  using session_store.dispatch_sound [OF redis_server.redis_session_store [OF assms(1)] assms(4,5) _ assms(3,6-8), of i]
    assms(2,9,10)
  by (simp add: codec_ok_def)

theorem known_identifiers_are_not_upgraded_witness:
  "\<exists>resp c'. dispatch (redis_sessions cells_redis demo_codec) demo_mw demo_request ''/login'' (Some demo_id)
       (\<lambda>e. (Some found, e)) (logs_in_as ''4'') (demo_conn (demo_cells None)) () = (Some resp, c', ())
     \<and> anonymous (redis_view cells_entry demo_codec c') demo_id"
proof -
  obtain resp c' where run: "dispatch (redis_sessions cells_redis demo_codec) demo_mw demo_request ''/login''
       (Some demo_id) (\<lambda>e. (Some found, e)) (logs_in_as ''4'') (demo_conn (demo_cells None)) () = (Some resp, c', ())"
    using dispatch_answers [of "logs_in_as ''4''" "redis_sessions cells_redis demo_codec" demo_mw demo_request
        "''/login''" "Some demo_id" "demo_conn (demo_cells None)"]
    by (auto simp: logs_in_as_def)
  have "anonymous (redis_view cells_entry demo_codec (demo_conn (demo_cells None))) demo_id"
    by (simp add: demo_view anonymous_def demo_session_def new_session_def)
  moreover have "demo_id \<noteq> re_session_id demo_request"
    by (simp add: demo_id_def fresh_id_def demo_request_def)
  ultimately have "anonymous (redis_view cells_entry demo_codec c') demo_id"
    using known_identifiers_are_not_upgraded [OF cells.redis_server_axioms demo_codec_ok demo_routes(1)
        demo_ok demo_proper _ _ run]
    by (simp add: demo_request_def is_exempt_def starts_with_def)
  with run show ?thesis by blast
qed

text \<open>
  C6. Every session cookie a response sets names a record that can be read back: it is stored
  under that identifier, passes the validator of SessionRecord, is in the index of its user, and
  the cookie is HttpOnly and Secure as configured. The store keeps holding only valid records.
\<close>

theorem session_cookies_are_backed:
  assumes "redis_server R ent pass" and "codec_ok cd" and "well_behaved route"
    and "redis_ok ent c" and "all_proper (redis_view ent cd c)"
    and "length (re_csrf_token env) \<le> 128" and "\<not> is_exempt path"
    and "dispatch (redis_sessions R cd) cfg env path cookie plain route c e = (Some resp, c', e')"
  shows "redis_ok ent c' \<and> all_proper (redis_view ent cd c')
    \<and> cookie_backed cfg (redis_view ent cd c') (redis_index ent c') resp"
  using session_store.dispatch_sound [OF redis_server.redis_session_store [OF assms(1)] assms(4,5) _ assms(3,6-8)]
    assms(2)
  by (simp add: codec_ok_def)

text \<open>
  C7. A route is only ever handed an authenticated record that the request's own cookie names,
  that is stored under it with the same user and organization, and that is neither idle nor
  older than the configured limits.
\<close>

theorem authenticated_request_is_fresh:
  assumes "redis_server R ent pass" and "redis_ok ent c"
    and "resolve_session (redis_sessions R cd) cfg now cookie c = (Resolved sid r, c')"
    and "sr_user_id r = Some u"
  shows "\<exists>i r0 t. cookie = Some i \<and> sid = Some i \<and> is_valid_session_id i
    \<and> redis_view ent cd c i = Some r0 \<and> sr_user_id r0 = Some u \<and> sr_org_id r0 = sr_org_id r
    \<and> sr_authenticated_at r0 = Some t
    \<and> now - sr_last_activity_at r0 \<le> seconds (mw_idle_timeout cfg)
    \<and> now - t \<le> seconds (mw_absolute_timeout cfg)"
  by (rule session_store.resolved_user [OF redis_server.redis_session_store [OF assms(1)] assms(2-4)])

theorem session_cookies_are_backed_witness:
  "\<exists>resp c'. dispatch (redis_sessions cells_redis demo_codec) demo_mw demo_request ''/projects'' (Some demo_id)
       (\<lambda>e. (Some found, e)) only_reads (demo_conn (demo_cells (Some ''4''))) () = (Some resp, c', ())
     \<and> cookie_backed demo_mw (redis_view cells_entry demo_codec c') (redis_index cells_entry c') resp"
proof -
  obtain resp c' where run: "dispatch (redis_sessions cells_redis demo_codec) demo_mw demo_request ''/projects''
       (Some demo_id) (\<lambda>e. (Some found, e)) only_reads (demo_conn (demo_cells (Some ''4''))) () = (Some resp, c', ())"
    using dispatch_answers [of only_reads "redis_sessions cells_redis demo_codec" demo_mw demo_request
        "''/projects''" "Some demo_id" "demo_conn (demo_cells (Some ''4''))"]
    by (auto simp: only_reads_def)
  have "cookie_backed demo_mw (redis_view cells_entry demo_codec c') (redis_index cells_entry c') resp"
    using session_cookies_are_backed [OF cells.redis_server_axioms demo_codec_ok demo_routes(2)
        demo_ok demo_proper _ _ run]
    by (simp add: demo_request_def is_exempt_def starts_with_def)
  with run show ?thesis by blast
qed

lemma demo_id_valid [simp]: "is_valid_session_id demo_id" "demo_id \<noteq> []"
  by (simp_all add: is_valid_session_id_def demo_id_def session_id_length_def list_all_iff url_safe_def)

lemma demo_get:
  assumes "u = None \<or> u = Some ''4''"
  shows "so_get (redis_sessions cells_redis demo_codec) demo_id (demo_conn (demo_cells u))
    = (Some (Some (demo_session u)), demo_conn (demo_cells u))"
  using demo_session_readable [OF assms]
  by (simp add: redis_sessions_def redis_get_def ask_def done_with_def demo_conn_def cells_redis_def
      demo_cells_def split: option.split)

lemma demo_resolves:
  assumes "u = None \<or> u = Some ''4''"
  shows "resolve_session (redis_sessions cells_redis demo_codec) demo_mw 2000000 (Some demo_id)
      (demo_conn (demo_cells u))
    = (Resolved (Some demo_id) (demo_session u\<lparr>sr_last_activity_at := 2000000\<rparr>), demo_conn (demo_cells u))"
  using assms
  by (auto simp: resolve_session_def demo_get demo_mw_def session_expired_def seconds_def second_def
      demo_session_def new_session_def absolute_anchor_def)

theorem authenticated_request_is_fresh_witness:
  "\<exists>r0. redis_view cells_entry demo_codec (demo_conn (demo_cells (Some ''4''))) demo_id = Some r0
     \<and> sr_user_id r0 = Some ''4'' \<and> 2000000 - sr_last_activity_at r0 \<le> seconds 1800"
  using authenticated_request_is_fresh [OF cells.redis_server_axioms demo_ok demo_resolves [of "Some ''4''"], of "''4''"]
  by (auto simp: demo_session_def demo_mw_def)

section \<open>Where it falls short\<close>

text \<open>
  C8. Revocation and logout do not stop a request that is already running: when all sessions of
  a user are revoked (successfully) between the two halves of a request of that user, the
  second half writes the record back, so the revoked identifier is authenticated again and is
  sent to the browser once more.
\<close>

theorem revoked_session_returns:
  assumes "redis_server R ent pass" and "codec_ok cd" and "redis_ok ent c" and "conn_up c"
    and "all_proper (redis_view ent cd c)" and "length (re_csrf_token env) \<le> 128"
    and "resolve_session (redis_sessions R cd) cfg now cookie c = (Resolved (Some i) r, c1)"
    and "sr_user_id r = Some u" and "i \<in> redis_index ent c1 u"
    and "so_revoke_all (redis_sessions R cd) u c1 = (Some n, c2)"
    and "persist_session (redis_sessions R cd) cfg env (Some i) (Some u) r resp c2 = (resp', c3)"
  shows "redis_view ent cd c2 i = None
    \<and> (\<exists>r'. redis_view ent cd c3 i = Some r' \<and> sr_user_id r' = Some u)
    \<and> resp' = starts_session cfg i resp"
proof -
  note store = redis_server.redis_session_store [OF assms(1), of cd]
  note up = redis_server.redis_reliable_store [OF assms(1), of cd]
  have c1: "redis_ok ent c1" "all_proper (redis_view ent cd c1)" "proper r"
    using session_store.resolved_proper [OF store assms(3,5,7)] by blast+
  obtain m c2' where "so_revoke_all (redis_sessions R cd) u c1 = (Some m, c2')" "conn_up c2'"
    using reliable_session_store.revoke_all_up [OF up reliable_session_store.resolved_up [OF up assms(4,7)]]
    by blast
  then have up2: "conn_up c2" using assms(10) by simp
  note rv = session_store.revoke_all [OF store c1(1) assms(10)]
  have "proper (with_csrf (re_csrf_token env) r)"
    using c1(3) assms(6) short_csrf [of r "re_csrf_token env"]
    by (auto simp: proper_def identity_together_iff)
  then have "storable cd (with_csrf (re_csrf_token env) r)" using assms(2) by (simp add: codec_ok_def)
  from reliable_session_store.kept_whatever [OF up _ up2 assms(8) this assms(11)] rv assms(8,9)
  show ?thesis by auto
qed

lemma demo_up: "conn_up (demo_conn C)"
  by (simp add: conn_up_def demo_conn_def)

lemma demo_indexed: "demo_id \<in> redis_index cells_entry (demo_conn (demo_cells (Some ''4''))) ''4''"
  by (simp add: redis_index_def session_index_def demo_conn_def demo_cells_def members_of_def)

lemma holds_aged: "holds_text K k \<Longrightarrow> holds_text (aged d K) k" "holds_set K k \<Longrightarrow> holds_set (aged d K) k"
  by (auto simp: holds_text_def holds_set_def aged_def split: option.splits rvalue.splits if_splits)

lemma typed_aged: "sessions_typed K \<Longrightarrow> sessions_typed (aged d K)"
  by (simp add: sessions_typed_def holds_aged)

lemma demo_revoke:
  "\<exists>n c'. so_revoke_all (redis_sessions cells_redis demo_codec) u (demo_conn (demo_cells w)) = (Some n, c')"
  using cells.redis_up.revoke_all_up [of "demo_conn (demo_cells w)" demo_codec u]
  by (auto simp: conn_up_def demo_conn_def)

theorem revoked_session_returns_witness:
  "\<exists>n c2 resp' c3. so_revoke_all (redis_sessions cells_redis demo_codec) ''4''
        (demo_conn (demo_cells (Some ''4''))) = (Some n, c2)
     \<and> persist_session (redis_sessions cells_redis demo_codec) demo_mw demo_request (Some demo_id) (Some ''4'')
         (demo_session (Some ''4'')\<lparr>sr_last_activity_at := 2000000\<rparr>) found c2 = (resp', c3)
     \<and> redis_view cells_entry demo_codec c2 demo_id = None
     \<and> redis_view cells_entry demo_codec c3 demo_id \<noteq> None"
proof -
  let ?c = "demo_conn (demo_cells (Some ''4''))" and ?r = "demo_session (Some ''4'')\<lparr>sr_last_activity_at := 2000000\<rparr>"
  obtain n c2 where rv: "so_revoke_all (redis_sessions cells_redis demo_codec) ''4'' ?c = (Some n, c2)"
    using demo_revoke by blast
  obtain resp' c3 where p: "persist_session (redis_sessions cells_redis demo_codec) demo_mw demo_request
      (Some demo_id) (Some ''4'') ?r found c2 = (resp', c3)" by fastforce
  have "redis_view cells_entry demo_codec c2 demo_id = None \<and> redis_view cells_entry demo_codec c3 demo_id \<noteq> None"
    using revoked_session_returns [OF cells.redis_server_axioms demo_codec_ok demo_ok _ demo_proper _
        demo_resolves _ _ rv p] demo_indexed demo_up
    by (auto simp: demo_request_def demo_session_def)
  with rv p show ?thesis by blast
qed

text \<open>
  A login on top of a login keeps the identifier: when a route replaces the user of an
  authenticated session, the new user is authenticated under the old identifier, with the old
  user's authentication time, and the browser keeps its cookie. Whoever planted that identifier
  shares the new session.
\<close>

lemma relogin_keeps_identifier:
  assumes "redis_server R ent pass" and "codec_ok cd" and "redis_ok ent c" and "conn_up c"
    and "all_proper (redis_view ent cd c)" and "length (re_csrf_token env) \<le> 128"
    and "resolve_session (redis_sessions R cd) cfg now cookie c = (Resolved (Some i) r, c1)"
    and "sr_user_id r = Some a" and "left_by_route r r1" and "sr_user_id r1 = Some b"
    and "persist_session (redis_sessions R cd) cfg env (Some i) (Some a) r1 resp c1 = (resp', c2)"
  shows "\<exists>r'. redis_view ent cd c2 i = Some r' \<and> sr_user_id r' = Some b
    \<and> sr_authenticated_at r' = sr_authenticated_at r \<and> resp' = starts_session cfg i resp"
proof -
  note store = redis_server.redis_session_store [OF assms(1), of cd]
  note up = redis_server.redis_reliable_store [OF assms(1), of cd]
  note rp = session_store.resolved_proper [OF store assms(3,5,7)]
  have "proper (with_csrf (re_csrf_token env) r1)"
    using session_store.saved_proper(2) [OF store rp(3) assms(9,6)] assms(8,10) by simp
  then have "storable cd (with_csrf (re_csrf_token env) r1)" using assms(2) by (simp add: codec_ok_def)
  from reliable_session_store.kept_whatever [OF up rp(1) reliable_session_store.resolved_up [OF up assms(4,7)]
      assms(10) this assms(11)] assms(9,10)
  show ?thesis by (auto simp: left_by_route_def proxy_only_def)
qed

theorem relogin_keeps_identifier_witness:
  "\<exists>resp' c2 r'. persist_session (redis_sessions cells_redis demo_codec) demo_mw demo_request (Some demo_id)
       (Some ''4'') (demo_session (Some ''4'')\<lparr>sr_last_activity_at := 2000000, sr_user_id := Some ''7''\<rparr>) found
       (demo_conn (demo_cells (Some ''4''))) = (resp', c2)
     \<and> redis_view cells_entry demo_codec c2 demo_id = Some r' \<and> sr_user_id r' = Some ''7''"
proof -
  let ?c = "demo_conn (demo_cells (Some ''4''))"
    and ?r1 = "demo_session (Some ''4'')\<lparr>sr_last_activity_at := 2000000, sr_user_id := Some ''7''\<rparr>"
  obtain resp' c2 where p: "persist_session (redis_sessions cells_redis demo_codec) demo_mw demo_request
      (Some demo_id) (Some ''4'') ?r1 found ?c = (resp', c2)" by fastforce
  have "left_by_route (demo_session (Some ''4'')\<lparr>sr_last_activity_at := 2000000\<rparr>) ?r1"
    by (simp add: left_by_route_def proxy_only_def demo_session_def new_session_def short_def)
  then show ?thesis
    using relogin_keeps_identifier [OF cells.redis_server_axioms demo_codec_ok demo_ok _ demo_proper _
        demo_resolves _ _ _ p] demo_up p
    by (auto simp: demo_request_def demo_session_def)
qed

text \<open>
  A session near its end hides the others from revocation: registering it sets the lifetime
  of the whole index of the user to its own, so when that has passed, revoking all sessions of
  the user finds an empty index and every longer-lived session stays valid.
\<close>

lemma short_session_hides_others:
  assumes "redis_server R ent pass" and "redis_ok ent c" and "conn_up c"
    and "so_register (redis_sessions R cd) u j ttl c = (Some (), c1)"
    and "0 < ttl" and "ttl \<le> user_index_max_ttl" and "nat ttl * second \<le> d"
    and "redis_view ent cd (conn_pass pass d c1) i = Some r"
    and "so_revoke_all (redis_sessions R cd) u (conn_pass pass d c1) = (n, c2)"
  shows "redis_index ent (conn_pass pass d c1) u = {} \<and> redis_view ent cd c2 i = Some r"
proof -
  note store = redis_server.redis_session_store [OF assms(1), of cd]
  have h: "holds_set (ent (cn_server c)) (user_index_key u)"
    using assms(2) by (simp add: redis_ok_def typed_holds)
  have p: "0 < nat ttl" using assms(5) by simp
  have t: "nat (min (max ttl 1) user_index_max_ttl) = nat ttl" using assms(5,6) by simp
  have "ent (cn_server c1) (user_index_key u)
      = set_entry (insert j (members_of (ent (cn_server c)) (user_index_key u))) (Some (nat ttl * second))"
    using assms(3,4) redis_server.sadd_effect [OF assms(1) h] redis_server.expire_effect [OF assms(1) p]
    by (auto simp: redis_sessions_def redis_register_def t both_def case_prod_unfold conn_up_def)
  then have gone: "ent (cn_server (conn_pass pass d c1)) (user_index_key u) = None"
    using assms(7) redis_server.wait_effect [OF assms(1), of d "cn_server c1"]
    by (simp add: conn_pass_def aged_def set_entry_def)
  then have ix: "redis_index ent (conn_pass pass d c1) u = {}"
    by (simp add: redis_index_def session_index_def members_of_def)
  have k: "sessions_typed (ent (cn_server c1))"
    using session_store.register [OF store assms(2,4)] by (simp add: redis_ok_def)
  have "redis_ok ent (conn_pass pass d c1)"
    using k typed_aged by (simp add: redis_ok_def conn_pass_def redis_server.wait_effect [OF assms(1)])
  from session_store.revoke_all [OF store this assms(9)] ix assms(8) show ?thesis by simp
qed

theorem short_session_hides_others_witness:
  "\<exists>c1 n c2. so_register (redis_sessions cells_redis demo_codec) ''4'' fresh_id 5
        (demo_conn (demo_cells (Some ''4''))) = (Some (), c1)
     \<and> so_revoke_all (redis_sessions cells_redis demo_codec) ''4'' (conn_pass cells_wait 6000000 c1) = (Some n, c2)
     \<and> redis_view cells_entry demo_codec c2 demo_id = Some (demo_session (Some ''4''))"
proof -
  let ?c = "demo_conn (demo_cells (Some ''4''))"
  obtain c1 where r: "so_register (redis_sessions cells_redis demo_codec) ''4'' fresh_id 5 ?c = (Some (), c1)" "conn_up c1"
    using cells.redis_up.register_up [of ?c demo_codec "''4''" fresh_id 5] demo_up by blast
  have c1: "cn_server c1 = (demo_cells (Some ''4''))
      (user_index_key ''4'' \<mapsto> (CList [fresh_id, demo_id], Some 5000000))"
    using r(1) by (auto simp: redis_sessions_def redis_register_def both_def cells_redis_def demo_conn_def
        put_list_def cell_list_def demo_cells_def user_index_max_ttl_def second_def cell_ttl_def)
  have v: "redis_view cells_entry demo_codec (conn_pass cells_wait 6000000 c1) demo_id = Some (demo_session (Some ''4''))"
    using demo_session_readable [of "Some ''4''"]
    by (simp add: redis_view_def session_view_def conn_pass_def cells_wait_def c1 demo_cells_def)
  obtain n c2 where rv: "so_revoke_all (redis_sessions cells_redis demo_codec) ''4''
      (conn_pass cells_wait 6000000 c1) = (Some n, c2)"
    using cells.redis_up.revoke_all_up [of "conn_pass cells_wait 6000000 c1" demo_codec "''4''"] r(2)
    by (auto simp: conn_up_def conn_pass_def)
  have "redis_view cells_entry demo_codec c2 demo_id = Some (demo_session (Some ''4''))"
    using short_session_hides_others [OF cells.redis_server_axioms demo_ok demo_up r(1) _ _ _ v rv]
    by (simp add: user_index_max_ttl_def second_def)
  with r(1) rv show ?thesis by blast
qed

text \<open>
  Logging out works while Redis answers: when the route of an authenticated request leaves
  nobody logged in, the record is deleted, the identifier leaves the index of the user, and the
  browser is told to drop the cookie.
\<close>

lemma logout_ends_session:
  assumes "redis_server R ent pass" and "redis_ok ent c" and "conn_up c"
    and "sr_user_id r1 = None"
    and "persist_session (redis_sessions R cd) cfg env (Some i) (Some u) r1 resp c = (resp', c')"
  shows "redis_view ent cd c' i = None \<and> i \<notin> redis_index ent c' u \<and> rs_cookie resp' = CookieDeleted"
  by (rule reliable_session_store.logout_closes [OF redis_server.redis_reliable_store [OF assms(1)] assms(2-5)])

theorem logout_ends_session_witness:
  "\<exists>resp' c'. persist_session (redis_sessions cells_redis demo_codec) demo_mw demo_request (Some demo_id)
       (Some ''4'') (demo_session None) found (demo_conn (demo_cells (Some ''4''))) = (resp', c')
     \<and> redis_view cells_entry demo_codec c' demo_id = None"
proof -
  obtain resp' c' where p: "persist_session (redis_sessions cells_redis demo_codec) demo_mw demo_request
      (Some demo_id) (Some ''4'') (demo_session None) found (demo_conn (demo_cells (Some ''4''))) = (resp', c')"
    by fastforce
  from logout_ends_session [OF cells.redis_server_axioms demo_ok demo_up _ p] p show ?thesis
    by (auto simp: demo_session_def new_session_def)
qed

text \<open>If the deletion is lost, the answer looks the same to the user and the session lives on.\<close>

lemma lost_logout_keeps_session:
  assumes "cn_fates c = LostRequest # fs" and "sr_user_id r1 = None"
    and "persist_session (redis_sessions R cd) cfg env (Some i) (Some u) r1 resp c = (resp', c')"
  shows "resp' = resp \<and> redis_view ent cd c' i = redis_view ent cd c i"
  using assms
  by (auto simp: persist_session_def close_session_def redis_sessions_def redis_delete_def ask_def
      redis_call_def next_fate_def Let_def redis_view_def split: prod.splits)

end
