(* ===== verification/Auth.thy ===== *)
theory Auth
  imports Ingestion Security NetworkBoundary SessionSecurity
begin

text \<open>
  \<open>app/web/routes/auth.py\<close> and \<open>app/core/passwords.py\<close>: the login and logout routes over the
  database, the throttle store and the session record. Argon2 verification, \<open>str.lower\<close> and
  the database's \<open>lower\<close> are parameters.
\<close>

section \<open>passwords.py\<close>

text \<open>\<open>verify\<close> is pwdlib; \<open>None\<close> is an exception (a malformed hash).\<close>

definition verify_password ::
  "(ustr \<Rightarrow> string \<Rightarrow> bool option) \<Rightarrow> string \<Rightarrow> ustr \<Rightarrow> string option \<Rightarrow> bool" where
  "verify_password verify dummy_hash password stored_hash =
     (let target = (if truthy stored_hash then the stored_hash else dummy_hash)
      in case verify password target of Some b \<Rightarrow> b | None \<Rightarrow> False)"

text \<open>Without a stored hash the dummy decides: its own password is accepted.\<close>

lemma missing_hash_accepts_dummy:
  "verify d_pw dummy_hash = Some True \<Longrightarrow> verify_password verify dummy_hash d_pw None"
  by (simp add: verify_password_def truthy_def)

section \<open>Environment of a login\<close>

text \<open>
  \<open>lg_user\<close> is the first row of the query for the normalised address, \<open>lg_commit_fails\<close> a
  failing commit of the audit event.
\<close>

record login_env =
  ln_auth_mode :: string
  ln_lower :: "ustr \<Rightarrow> ustr"
  ln_verify :: "ustr \<Rightarrow> string \<Rightarrow> bool option"
  ln_dummy_hash :: string
  ln_show :: "uuid \<Rightarrow> string"
  ln_throttle :: throttle_config
  ln_csrf_token :: string
  ln_user :: "user option"
  ln_commit_fails :: bool

definition answer :: "nat \<Rightarrow> string option \<Rightarrow> response" where
  "answer st loc = \<lparr>rs_status = st, rs_location = loc, rs_retry_after = None, rs_cookie = CookieUntouched\<rparr>"

definition generic_failure :: response where
  "generic_failure = answer 303 (Some ''/login?error=Invalid email or password'')"

definition login_event :: "string \<Rightarrow> user \<Rightarrow> details \<Rightarrow> audit_event" where
  "login_event action u details =
     \<lparr>ev_organization_id = us_organization_id u, ev_user_id = Some (us_id u), ev_action = action,
      ev_entity_type = ''User'', ev_entity_id = us_id u, ev_details = details\<rparr>"

text \<open>\<open>log_audit_event\<close> at the end of a route: a failing commit makes the route raise.\<close>

definition audited ::
  "bool \<Rightarrow> audit_event \<Rightarrow> response \<times> session_record \<Rightarrow> sess \<Rightarrow> (response \<times> session_record) option \<times> sess" where
  "audited fails e result s = (if fails then (None, s) else (Some result, log_audit_event e s))"

section \<open>login\_action\<close>

text \<open>Clearing the record, a new CSRF token, then the identity.\<close>

definition signed_in :: "login_env \<Rightarrow> uuid \<Rightarrow> uuid \<Rightarrow> session_record \<Rightarrow> session_record" where
  "signed_in env usr org r =
     put_field ''org_id'' (Some (ln_show env org))
       (put_field ''user_id'' (Some (ln_show env usr))
         (snd (generate_csrf_token (ln_csrf_token env) (proxy_clear r))))"

definition session_login ::
  "login_env \<Rightarrow> 't throttle_ops \<Rightarrow> ustr option \<Rightarrow> ustr option \<Rightarrow> ustr \<Rightarrow> (sess \<times> 't) route" where
  "session_login env ops email password ip r e =
     (if email \<in> {None, Some []} \<or> password \<in> {None, Some []} then (Some (generic_failure, r), e)
      else
        let normalized = normalize_email (ln_lower env) (the email); (s, t) = e in
        case throttle_check ops (ln_throttle env) normalized ip t of
          (None, t1) \<Rightarrow> (Some (answer 503 None, r), s, t1)
        | (Some d, t1) \<Rightarrow>
            if \<not> td_allowed d
            then (Some (generic_failure\<lparr>rs_retry_after := td_retry_after_seconds d\<rparr>, r), s, t1)
            else
              let stored_hash = (case ln_user env of None \<Rightarrow> None
                    | Some u \<Rightarrow> if us_is_active u then Some (us_hashed_password u) else None);
                  password_ok = verify_password (ln_verify env) (ln_dummy_hash env) (the password) stored_hash
              in (case ln_user env of
                    None \<Rightarrow> (Some (generic_failure, r), s, snd (record_failure ops (ln_throttle env) normalized ip t1))
                  | Some u \<Rightarrow>
                      if \<not> us_is_active u \<or> \<not> password_ok
                      then (case audited (ln_commit_fails env)
                               (login_event ''USER_LOGIN_FAILURE'' u [''reason'' \<mapsto> JStr ''invalid_credentials''])
                               (generic_failure, r) s of
                              (x, s1) \<Rightarrow> (x, s1, snd (record_failure ops (ln_throttle env) normalized ip t1)))
                      else (case audited (ln_commit_fails env)
                               (login_event ''USER_LOGIN_SUCCESS'' u [''auth_mode'' \<mapsto> JStr ''session''])
                               (answer 303 (Some ''/projects''), signed_in env (us_id u) (us_organization_id u) r) s of
                              (x, s1) \<Rightarrow> (x, s1, snd (record_success ops (ln_throttle env) normalized ip t1)))))"

text \<open>
  Development login: the first organization (created when there is none) and the user with the
  given address (created when there is none); \<open>first_org\<close>, \<open>by_email\<close> and \<open>new_id\<close> are what
  the queries and \<open>uuid4\<close> give.
\<close>

definition default_email :: ustr where "default_email = uni ''default@rfparchitect.com''"

definition dev_login ::
  "login_env \<Rightarrow> uuid option \<Rightarrow> user option \<Rightarrow> uuid \<Rightarrow> ustr option \<Rightarrow> session_record \<Rightarrow> sess
    \<Rightarrow> (response \<times> session_record) option \<times> sess" where
  "dev_login env first_org by_email new_id email r s =
     (let address = (case email of None \<Rightarrow> default_email | Some t \<Rightarrow> if t = [] then default_email else t);
          (org, s1) = (case first_org of Some i \<Rightarrow> (i, s)
             | None \<Rightarrow> (1, commit (s\<lparr>work := (work s)\<lparr>organizations := insert 1 (organizations (work s))\<rparr>\<rparr>)));
          (u, s2) = (case by_email of Some u \<Rightarrow> (u, s1)
             | None \<Rightarrow>
                 let u = \<lparr>us_id = (if address = default_email then 2 else new_id), us_organization_id = org,
                          us_email = address, us_hashed_password = ''fake-pbkdf2-sha256-hash-for-now'', us_full_name = uni ''Workspace User'',
                          us_is_active = True, us_can_review_requirements = False\<rparr>
                 in (u, commit (put_user u s1)));
          r1 = put_field ''org_id'' (Some (ln_show env org)) (put_field ''user_id'' (Some (ln_show env (us_id u))) r)
      in audited (ln_commit_fails env)
           \<lparr>ev_organization_id = org, ev_user_id = Some (us_id u), ev_action = ''USER_LOGIN_SUCCESS'',
            ev_entity_type = ''User'', ev_entity_id = us_id u, ev_details = [''auth_mode'' \<mapsto> JStr ''dev'']\<rparr>
           (answer 303 (Some ''/projects''), r1) s2)"

definition login_action ::
  "login_env \<Rightarrow> 't throttle_ops \<Rightarrow> (uuid option \<times> user option \<times> uuid) \<Rightarrow> bool \<Rightarrow> csrf_request \<Rightarrow> ustr option
    \<Rightarrow> ustr option \<Rightarrow> ustr \<Rightarrow> (sess \<times> 't) route" where
  "login_action env ops dev bypass q email password ip r e =
     (if \<not> validate_csrf_token bypass q r then (Some (answer 403 None, r), e)
      else if ln_auth_mode env = ''dev''
      then (case dev_login env (fst dev) (fst (snd dev)) (snd (snd dev)) email r (fst e) of
              (x, s1) \<Rightarrow> (x, s1, snd e))
      else if ln_auth_mode env = ''session'' then session_login env ops email password ip r e
      else if ln_auth_mode env = ''oidc'' then (Some (answer 501 None, r), e)
      else (Some (answer 303 (Some ''/login''), r), e))"

section \<open>logout\_action and login\_view\<close>

text \<open>The audit is best effort; \<open>parse\<close> is the \<open>UUID\<close> constructor.\<close>

definition logout_action ::
  "(string \<Rightarrow> uuid option) \<Rightarrow> bool \<Rightarrow> bool \<Rightarrow> csrf_request \<Rightarrow> (sess \<times> 't) route" where
  "logout_action parse audit_ok bypass q r e =
     (if \<not> validate_csrf_token bypass q r then (Some (answer 403 None, r), e)
      else
        let usr = proxy_get ''user_id'' r; org = proxy_get ''org_id'' r;
            s1 = (if truthy usr \<and> truthy org \<and> audit_ok
                  then (case (parse (the usr), parse (the org)) of
                          (Some u, Some g) \<Rightarrow> log_audit_event
                             \<lparr>ev_organization_id = g, ev_user_id = Some u, ev_action = ''USER_LOGOUT'',
                              ev_entity_type = ''User'', ev_entity_id = u, ev_details = Map.empty\<rparr> (fst e)
                        | _ \<Rightarrow> fst e)
                  else fst e)
        in (Some (answer 303 (Some ''/login''), proxy_clear r), s1, snd e))"

definition login_view :: "'e route" where
  "login_view r e =
     (if truthy (proxy_get ''user_id'' r) \<and> truthy (proxy_get ''org_id'' r)
      then (Some (answer 303 (Some ''/projects''), r), e) else (Some (answer 200 None, r), e))"

section \<open>The routes keep records well formed\<close>

definition short_names :: "login_env \<Rightarrow> bool" where
  "short_names env \<longleftrightarrow> (\<forall>u. length (ln_show env u) \<le> 128) \<and> length (ln_csrf_token env) \<le> 128"

lemma answer_cookie [simp]:
  "rs_cookie (answer st loc) = CookieUntouched" "rs_cookie generic_failure = CookieUntouched"
  "rs_cookie (generic_failure\<lparr>rs_retry_after := n\<rparr>) = CookieUntouched"
  by (simp_all add: answer_def generic_failure_def)

lemma unchanged_left: "proper r \<Longrightarrow> left_by_route r r"
  by (simp add: left_by_route_def proxy_only_def proper_def identity_together_iff)

lemma signed_in_fields [simp]:
  "sr_user_id (signed_in env u g r) = Some (ln_show env u)"
  "sr_org_id (signed_in env u g r) = Some (ln_show env g)"
  "sr_csrf_token (signed_in env u g r) = Some (ln_csrf_token env)"
  "proxy_only r (signed_in env u g r)"
  by (simp_all add: signed_in_def put_field_def generate_csrf_token_def proxy_get_def session_field_def
      proxy_clear_def session_keys_def proxy_only_def)

lemma signed_in_left: "short_names env \<Longrightarrow> left_by_route r (signed_in env u g r)"
  by (simp add: left_by_route_def short_names_def short_def)

text \<open>What the session login did, by the response and the record it leaves.\<close>

lemma session_login_cases:
  assumes "session_login env ops email password ip r (s, t) = (Some (resp, r1), e')"
  obtains (refused) "r1 = r" "rs_cookie resp = CookieUntouched"
  | (failed) em pw d t1 where "email = Some em" "password = Some pw"
      "throttle_check ops (ln_throttle env) (normalize_email (ln_lower env) em) ip t = (Some d, t1)"
      "td_allowed d" "r1 = r" "resp = generic_failure"
      "snd e' = snd (record_failure ops (ln_throttle env) (normalize_email (ln_lower env) em) ip t1)"
  | (passed) em pw d t1 u where "email = Some em" "password = Some pw"
      "throttle_check ops (ln_throttle env) (normalize_email (ln_lower env) em) ip t = (Some d, t1)"
      "td_allowed d" "ln_user env = Some u" "us_is_active u"
      "verify_password (ln_verify env) (ln_dummy_hash env) pw (Some (us_hashed_password u))"
      "r1 = signed_in env (us_id u) (us_organization_id u) r" "resp = answer 303 (Some ''/projects'')"
      "fst e' = log_audit_event (login_event ''USER_LOGIN_SUCCESS'' u [''auth_mode'' \<mapsto> JStr ''session'']) s"
      "snd e' = snd (record_success ops (ln_throttle env) (normalize_email (ln_lower env) em) ip t1)"
  using assms
  by (auto simp: session_login_def audited_def Let_def split: if_splits option.splits prod.splits)

lemma named_left:
  assumes "short_names env" and "proper r"
  shows "left_by_route r (put_field ''org_id'' (Some (ln_show env g)) (put_field ''user_id'' (Some (ln_show env u)) r))"
  using assms by (simp add: left_by_route_def put_field_def proxy_only_def short_names_def short_def proper_def)

lemma dev_login_left:
  assumes "short_names env" and "proper r" and "dev_login env o1 b i email r s = (Some (resp, r1), s')"
  shows "left_by_route r r1 \<and> rs_cookie resp = CookieUntouched"
  using assms(3) named_left [OF assms(1,2)]
  by (auto simp: dev_login_def audited_def Let_def split: if_splits option.splits prod.splits)

lemma login_action_well_behaved:
  assumes "short_names env"
  shows "well_behaved (login_action env ops dev bypass q email password ip)"
  unfolding well_behaved_def
proof (intro allI impI)
  fix r e resp r1 e1
  assume run: "login_action env ops dev bypass q email password ip r e = (Some (resp, r1), e1)"
  obtain s t where e: "e = (s, t)" by (cases e)
  consider "r1 = r" "rs_cookie resp = CookieUntouched"
    | s' where "dev_login env (fst dev) (fst (snd dev)) (snd (snd dev)) email r s = (Some (resp, r1), s')"
    | "session_login env ops email password ip r (s, t) = (Some (resp, r1), e1)"
    using run unfolding login_action_def e
    by (auto split: if_splits prod.splits)
  then show "rs_cookie resp = CookieUntouched \<and> (proper r \<longrightarrow> left_by_route r r1)"
  proof cases
    case 2
    have "rs_cookie resp = CookieUntouched"
      using 2 by (auto simp: dev_login_def audited_def Let_def split: if_splits option.splits prod.splits)
    then show ?thesis using dev_login_left [OF assms _ 2] by blast
  next
    case 3
    then show ?thesis
      by (cases rule: session_login_cases) (auto simp: unchanged_left signed_in_left [OF assms])
  qed (simp add: unchanged_left)
qed

lemma cleared_left: "left_by_route r (proxy_clear r)"
  by (simp add: left_by_route_def proxy_only_def proxy_clear_def session_keys_def put_field_def short_def)

lemma logout_action_well_behaved: "well_behaved (logout_action parse audit_ok bypass q)"
  by (auto simp: well_behaved_def logout_action_def Let_def unchanged_left cleared_left split: if_splits)

section \<open>A concrete login\<close>

definition demo_limits :: throttle_config where
  "demo_limits = \<lparr>lt_mac = rev, lt_account_ip_max = 5, lt_account_ip_window = 900, lt_ip_max = 20,
     lt_ip_window = 900, lt_account_max = 10, lt_account_window = 900, lt_max_cooldown = 900\<rparr>"

definition demo_user :: user where
  "demo_user = \<lparr>us_id = 4, us_organization_id = 9, us_email = uni ''a@b'', us_hashed_password = ''h'', us_full_name = [],
     us_is_active = True, us_can_review_requirements = False\<rparr>"

definition demo_login :: login_env where
  "demo_login = \<lparr>ln_auth_mode = ''session'', ln_lower = \<lambda>x. x, ln_verify = \<lambda>pw h. Some (pw = uni ''pw'' \<and> h = ''h''),
     ln_dummy_hash = ''d'', ln_show = \<lambda>u. if u = 4 then ''4'' else ''9'', ln_throttle = demo_limits,
     ln_csrf_token = ''t'', ln_user = Some demo_user, ln_commit_fails = False\<rparr>"

lemma demo_get_count:
  "to_get_count (redis_throttle cells_redis) k (demo_conn Map.empty) = (Some 0, demo_conn Map.empty)"
  by (simp add: redis_throttle_def demo_conn_def ask_def done_with_def cells_redis_def cell_count_def)

lemma demo_check:
  "throttle_check (redis_throttle cells_redis) demo_limits em ip (demo_conn Map.empty)
   = (Some unthrottled, demo_conn Map.empty)"
  by (simp add: throttle_check_def ask_def demo_get_count done_with_def demo_limits_def)

lemma demo_counters: "counters_ok cells_entry (demo_conn Map.empty)"
  by (simp add: counters_ok_def demo_conn_def holds_count_def cells_entry_def)

lemma demo_session_login:
  "\<exists>t. session_login demo_login (redis_throttle cells_redis) (Some (uni ''a@b'')) (Some (uni ''pw'')) ip r
      (s, demo_conn Map.empty)
    = (Some (answer 303 (Some ''/projects''), signed_in demo_login 4 9 r),
       log_audit_event (login_event ''USER_LOGIN_SUCCESS'' demo_user [''auth_mode'' \<mapsto> JStr ''session'']) s, t)"
  by (simp add: session_login_def demo_login_def demo_check unthrottled_def demo_user_def verify_password_def
      truthy_def audited_def uni_def)

text \<open>A visitor with a token in the session sends the form.\<close>

definition demo_visit :: session_record where
  "demo_visit = demo_session None\<lparr>sr_csrf_token := Some ''k''\<rparr>"

definition demo_visited :: "json cells conn" where
  "demo_visited = demo_conn [session_key demo_id \<mapsto> (CText (cd_dump demo_codec demo_visit), Some 9000000)]"

definition demo_attempt :: "(sess \<times> json cells conn) route" where
  "demo_attempt = login_action demo_login (redis_throttle cells_redis) (None, None, 7) False
     \<lparr>cr_method = ''POST'', cr_header_token = Some ''k'', cr_content_type = [], cr_form_token = None\<rparr>
     (Some (uni ''a@b'')) (Some (uni ''pw'')) (uni ''1.2.3.4'')"

lemma demo_visit_proper: "proper demo_visit"
  by (simp add: demo_visit_def demo_session_def new_session_def proper_def identity_together_iff short_def)

lemma demo_visit_readable: "readable demo_codec (cd_dump demo_codec demo_visit) = Some demo_visit"
  using demo_codec_ok demo_visit_proper by (simp add: codec_ok_def storable_def)

lemma demo_visited_view: "redis_view cells_entry demo_codec demo_visited = [demo_id \<mapsto> demo_visit]"
  using demo_visit_readable
  by (auto simp: redis_view_def session_view_def demo_conn_def demo_visited_def fun_eq_iff)

lemma demo_visited_ok: "redis_ok cells_entry demo_visited"
  by (auto simp: redis_ok_def sessions_typed_def holds_text_def holds_set_def demo_conn_def
      demo_visited_def cells_entry_def)

lemma demo_visited_proper: "all_proper (redis_view cells_entry demo_codec demo_visited)"
  using demo_visit_proper by (auto simp: demo_visited_view all_proper_def)

lemma demo_visit_resolves:
  "resolve_session (redis_sessions cells_redis demo_codec) demo_mw 2000000 (Some demo_id) demo_visited
   = (Resolved (Some demo_id) (demo_visit\<lparr>sr_last_activity_at := 2000000\<rparr>), demo_visited)"
proof -
  have "so_get (redis_sessions cells_redis demo_codec) demo_id demo_visited = (Some (Some demo_visit), demo_visited)"
    using demo_visit_readable
    by (auto simp: redis_sessions_def redis_get_def ask_def done_with_def cells_redis_def demo_visited_def demo_conn_def)
  then show ?thesis
    by (simp add: resolve_session_def demo_mw_def session_expired_def seconds_def second_def
        demo_visit_def demo_session_def new_session_def absolute_anchor_def)
qed

lemma demo_opens:
  assumes "proper r" and "sr_user_id r = Some ''4''"
  shows "\<exists>c'. open_authenticated (redis_sessions cells_redis demo_codec) demo_mw (Some demo_id) fresh_id r demo_visited
      = (Some (), c') \<and> redis_view cells_entry demo_codec c' fresh_id = Some r"
proof -
  have "readable demo_codec (cd_dump demo_codec r) = Some r"
    using demo_codec_ok assms(1) by (simp add: codec_ok_def storable_def)
  then show ?thesis
    using assms(2)
    by (simp add: open_authenticated_def redis_sessions_def redis_delete_def redis_save_def redis_register_def
        ask_def demo_visited_def demo_conn_def demo_mw_def both_def cells_redis_def user_index_max_ttl_def
        redis_view_def session_view_def case_prod_unfold put_list_def)
qed

lemma demo_login_runs:
  "\<exists>resp c' t' r'. dispatch (redis_sessions cells_redis demo_codec) demo_mw demo_request ''/login'' (Some demo_id)
       (\<lambda>e. (Some found, e)) demo_attempt demo_visited (s, demo_conn Map.empty)
     = (Some resp, c', log_audit_event (login_event ''USER_LOGIN_SUCCESS'' demo_user [''auth_mode'' \<mapsto> JStr ''session'']) s, t')
     \<and> redis_view cells_entry demo_codec c' fresh_id = Some r' \<and> sr_user_id r' = Some ''4''"
proof -
  let ?r = "demo_visit\<lparr>sr_last_activity_at := 2000000\<rparr>" and ?r1 = "signed_in demo_login 4 9 (demo_visit\<lparr>sr_last_activity_at := 2000000\<rparr>)"
  let ?r2 = "?r1\<lparr>sr_authenticated_at := Some 3000000\<rparr>"
  obtain t where t: "demo_attempt ?r (s, demo_conn Map.empty)
    = (Some (answer 303 (Some ''/projects''), ?r1),
       log_audit_event (login_event ''USER_LOGIN_SUCCESS'' demo_user [''auth_mode'' \<mapsto> JStr ''session'']) s, t)"
    using demo_session_login [of "uni ''1.2.3.4''" ?r s]
    by (auto simp: demo_attempt_def login_action_def validate_csrf_token_def proxy_get_def session_field_def
        session_keys_def demo_visit_def truthy_def demo_login_def)
  have r2: "sr_user_id ?r2 = Some ''4''" "sr_csrf_token ?r1 = Some ''t''" "sr_org_id ?r2 = Some ''9''"
    by (simp_all add: demo_login_def)
  moreover have "sr_version ?r2 = 1"
    by (simp add: signed_in_def put_field_def generate_csrf_token_def proxy_get_def session_field_def
        proxy_clear_def session_keys_def demo_visit_def demo_session_def new_session_def current_session_version_def)
  ultimately have "proper ?r2" by (simp add: proper_def identity_together_iff short_def)
  from demo_opens [OF this r2(1)] obtain c' where
    "open_authenticated (redis_sessions cells_redis demo_codec) demo_mw (Some demo_id) fresh_id ?r2 demo_visited = (Some (), c')"
    "redis_view cells_entry demo_codec c' fresh_id = Some ?r2" by blast
  with t r2 demo_visit_resolves show ?thesis
    by (auto simp: dispatch_def is_exempt_def starts_with_def demo_request_def persist_session_def with_csrf_def
        demo_visit_def demo_session_def)
qed

section \<open>Logging in\<close>



section \<open>Guessing\<close>

text \<open>One attempt: what the environment answers, address, password and forwarded header.\<close>

type_synonym attempt = "login_env \<times> ustr \<times> ustr \<times> ustr option"

definition real_attempt :: "throttle_config \<Rightarrow> attempt \<Rightarrow> bool" where
  "real_attempt cfg a \<longleftrightarrow> (case a of (env, em, pw, _) \<Rightarrow> ln_throttle env = cfg \<and> em \<noteq> [] \<and> pw \<noteq> [])"

text \<open>A series of logins from one peer; the responses (\<open>None\<close> where the route raised).\<close>

fun login_series ::
  "'t throttle_ops \<Rightarrow> ustr set \<Rightarrow> ustr \<Rightarrow> attempt list \<Rightarrow> session_record \<Rightarrow> sess \<times> 't \<Rightarrow> response option list" where
  "login_series ops trusted peer [] r e = []"
| "login_series ops trusted peer ((env, em, pw, fwd) # as) r e =
     (case session_login env ops (Some em) (Some pw) (resolve_client_ip trusted (Some peer) fwd) r e of
        (x, e1) \<Rightarrow> map_option fst x # login_series ops trusted peer as r e1)"

definition failures :: "response option list \<Rightarrow> nat" where
  "failures rs = length (filter (\<lambda>x. x = Some generic_failure) rs)"

lemma failures_simps [simp]:
  "failures [] = 0" "failures (x # xs) = (if x = Some generic_failure then Suc (failures xs) else failures xs)"
  by (simp_all add: failures_def)

context reliable_throttle_store
begin

lemma session_login_counts:
  assumes "ok t" and "up t" and "windows_positive (ln_throttle env)" and "em \<noteq> []" and "pw \<noteq> []"
    and "session_login env ops (Some em) (Some pw) ip r (s, t) = (x, (s', t'))"
  shows "ok t' \<and> up t' \<and> counts t (ip_key ip) \<le> counts t' (ip_key ip)
    \<and> (map_option fst x = Some generic_failure \<longrightarrow>
        counts t (ip_key ip) < lt_ip_max (ln_throttle env) \<and> counts t' (ip_key ip) = Suc (counts t (ip_key ip)))"
proof -
  let ?n = "normalize_email (ln_lower env) em" and ?cfg = "ln_throttle env"
  obtain d t1 where ck: "throttle_check ops ?cfg ?n ip t = (Some d, t1)" "up t1"
    using check_up [OF assms(2)] by blast
  have t1: "ok t1" "counts t1 = counts t" "td_allowed d = below_limits ?cfg (counts t) ?n ip"
    "\<not> td_allowed d \<Longrightarrow> td_retry_after_seconds d \<noteq> None"
    using check_decides [OF assms(1) ck(1)] by (auto simp: decided_def split: if_splits)
  obtain b t2 where fl: "record_failure ops ?cfg ?n ip t1 = (Some b, t2)" "up t2"
    using record_failure_up [OF ck(2)] by blast
  obtain b3 t3 where sc: "record_success ops ?cfg ?n ip t1 = (Some b3, t3)" "up t3"
    using record_success_up [OF ck(2)] by blast
  note f = failure_counts [OF t1(1) assms(3) fl(1), of "ip_key ip"]
    and g = success_resets [OF t1(1) sc(1), of "ip_key ip"]
  have "(t' = t1 \<and> map_option fst x \<noteq> Some generic_failure) \<or> (td_allowed d \<and> t' = t2)
      \<or> (t' = t3 \<and> map_option fst x \<noteq> Some generic_failure)"
    using assms(4-6) ck(1) t1(4) fl(1) sc(1)
    by (auto simp: session_login_def audited_def Let_def generic_failure_def answer_def
        split: if_splits option.splits prod.splits)
  then show ?thesis
    using t1 f g ck(2) fl(2) sc(2) by (auto simp: below_limits_def)
qed

lemma series_failures:
  assumes "ok t" and "up t" and "windows_positive cfg" and "\<forall>a \<in> set as. real_attempt cfg a"
    and "peer \<noteq> []" and "peer \<notin> trusted"
  shows "failures (login_series ops trusted peer as r (s, t)) \<le> lt_ip_max cfg - counts t (ip_key peer)"
  using assms(1,2,4)
proof (induction "as" arbitrary: s t)
  case (Cons a as)
  obtain env em pw fwd where a: "a = (env, em, pw, fwd)" by (cases a)
  then have real: "ln_throttle env = cfg" "em \<noteq> []" "pw \<noteq> []" using Cons.prems(3) by (auto simp: real_attempt_def)
  obtain x s' t' where run: "session_login env ops (Some em) (Some pw) peer r (s, t) = (x, (s', t'))"
    by (metis prod.exhaust)
  note c = session_login_counts [OF Cons.prems(1,2) _ real(2,3) run, unfolded real(1), OF assms(3)]
  from Cons.IH [of t' s'] c Cons.prems(3)
  have "failures (login_series ops trusted peer as r (s', t')) \<le> lt_ip_max cfg - counts t' (ip_key peer)" by simp
  then show ?case
    using c run unfolding a by (auto simp: untrusted_peer [OF assms(5,6)])
qed simp

end



end
