(* ===== verification/AdminTools.thy ===== *)
theory AdminTools
  imports Auth Observability Configuration Grounding
begin

text \<open>
  The operator's scripts: \<open>scripts/set_user_password.py\<close>, \<open>scripts/revoke_user_sessions.py\<close> over any
  session store, \<open>scripts/generate_local_prod_secrets.py\<close> over the files of one directory, and
  \<open>scripts/seed_pilot_demo.py\<close>. What is typed at a prompt, \<open>str.lower\<close>, the database's \<open>lower\<close> and
  the token generator are parameters; printed lines are left out, the exit code is kept.
\<close>

section \<open>The account\<close>

text \<open>The one user with this address; \<open>rows\<close> are the users of the database.\<close>

definition matching_user :: "(ustr \<Rightarrow> ustr) \<Rightarrow> user list \<Rightarrow> ustr \<Rightarrow> user option" where
  "matching_user sql_lower rows email =
     (case filter (\<lambda>u. sql_lower (us_email u) = email) rows of [u] \<Rightarrow> Some u | _ \<Rightarrow> None)"

lemma matching_user_in:
  "matching_user sql_lower rows email = Some u \<Longrightarrow> u \<in> set rows \<and> sql_lower (us_email u) = email"
  by (auto simp: matching_user_def split: list.splits dest: filter_eq_ConsD)

section \<open>set\_user\_password\<close>

definition min_password_length :: nat where "min_password_length = 15"

definition set_user_password :: "(ustr \<Rightarrow> ustr) \<Rightarrow> (ustr \<Rightarrow> ustr) \<Rightarrow> (ustr \<Rightarrow> string) \<Rightarrow> user list \<Rightarrow> ustr list
    \<Rightarrow> ustr \<Rightarrow> ustr \<Rightarrow> db \<Rightarrow> nat \<times> db" where
  "set_user_password lc sql_lower hash_password rows argv password confirm d = (case argv of
       [_, a] \<Rightarrow>
         (let email = lc (strip a) in
          if email = [] then (1, d)
          else case matching_user sql_lower rows email of
            None \<Rightarrow> (1, d)
          | Some u \<Rightarrow>
              if password = [] then (1, d)
              else if length password < min_password_length then (1, d)
              else if password \<noteq> confirm then (1, d)
              else (0, stored (commit (put_user (u\<lparr>us_hashed_password := hash_password password\<rparr>) (open_session d)))))
     | _ \<Rightarrow> (1, d))"

lemma password_change:
  assumes "set_user_password lc sql_lower hash_password rows [prog, a] password confirm d = (code, d')"
    and "\<forall>u \<in> set rows. users d (us_id u) = Some u"
  shows "code = 1 \<and> d' = d \<or> (\<exists>u. users d (us_id u) = Some u \<and> sql_lower (us_email u) = lc (strip a)
     \<and> 15 \<le> length password
     \<and> d' = d\<lparr>users := (users d)(us_id u \<mapsto> u\<lparr>us_hashed_password := hash_password password\<rparr>)\<rparr>)"
  using assms matching_user_in [of sql_lower rows "lc (strip a)"]
  by (auto simp: set_user_password_def Let_def min_password_length_def put_user_def commit_def open_session_def
      split: if_splits option.splits)

section \<open>revoke\_user\_sessions\<close>

record 's admin_state =
  ad_db :: sess
  ad_store :: 's
  ad_metrics :: metrics

definition revocation_event :: "user \<Rightarrow> nat \<Rightarrow> audit_event" where
  "revocation_event u n = \<lparr>ev_organization_id = us_organization_id u, ev_user_id = Some (us_id u),
     ev_action = ''ADMIN_SESSION_REVOCATION'', ev_entity_type = ''User'', ev_entity_id = us_id u,
     ev_details = [''revoked_count'' \<mapsto> JInt (int n)]\<rparr>"

text \<open>A failing audit write is only reported: the transaction is lost when the session is closed.\<close>

definition audit_revocation :: "bool \<Rightarrow> user \<Rightarrow> nat \<Rightarrow> sess \<Rightarrow> sess" where
  "audit_revocation fails u n s = (if fails then s else commit (log_audit_event (revocation_event u n) s))"

definition confirmed :: "(ustr \<Rightarrow> ustr) \<Rightarrow> bool \<Rightarrow> ustr \<Rightarrow> bool" where
  "confirmed lc assume_yes typed \<longleftrightarrow> assume_yes \<or> lc (strip typed) \<in> {uni ''y'', uni ''yes''}"

definition revoke_sessions :: "'s session_ops \<Rightarrow> (uuid \<Rightarrow> string) \<Rightarrow> (ustr \<Rightarrow> ustr) \<Rightarrow> (ustr \<Rightarrow> ustr) \<Rightarrow> user list
    \<Rightarrow> ustr \<Rightarrow> bool \<Rightarrow> ustr \<Rightarrow> bool \<Rightarrow> 's admin_state \<Rightarrow> nat \<times> 's admin_state" where
  "revoke_sessions ops shw lc sql_lower rows email assume_yes typed audit_fails st =
     (let addr = lc (strip email) in
      if addr = [] then (1, st)
      else case matching_user sql_lower rows addr of
        None \<Rightarrow> (1, st)
      | Some u \<Rightarrow> (case so_count ops (shw (us_id u)) (ad_store st) of
          (None, c) \<Rightarrow> (1, st\<lparr>ad_store := c\<rparr>)
        | (Some pending, c) \<Rightarrow>
            if \<not> confirmed lc assume_yes typed then (1, st\<lparr>ad_store := c\<rparr>)
            else (case so_revoke_all ops (shw (us_id u)) c of
              (None, c') \<Rightarrow> (1, st\<lparr>ad_store := c'\<rparr>)
            | (Some n, c') \<Rightarrow>
                (0, st\<lparr>ad_store := c', ad_db := audit_revocation audit_fails u n (ad_db st),
                       ad_metrics := (ad_metrics st)\<lparr>mt_session_admin_revocations :=
                          mt_session_admin_revocations (ad_metrics st) + 1\<rparr>\<rparr>))))"

text \<open>What a revocation leaves, for every store that keeps the contract of the interface.\<close>

context session_store
begin

lemma revocation_ends_sessions:
  assumes "ok (ad_store st)" "revoke_sessions ops shw lc sql_lower rows email yes typed af st = (0, st')"
  shows "\<exists>u \<in> set rows. sql_lower (us_email u) = lc (strip email)
     \<and> index (ad_store st') (shw (us_id u)) = {}
     \<and> (\<forall>i \<in> index (ad_store st) (shw (us_id u)). view (ad_store st') i = None)
     \<and> (\<forall>i. i \<notin> index (ad_store st) (shw (us_id u)) \<longrightarrow> view (ad_store st') i = view (ad_store st) i)
     \<and> (\<not> af \<longrightarrow> (\<exists>n. audit (stored (ad_db st')) = audit (work (ad_db st)) @ [revocation_event u n]))"
proof -
  obtain u p c n c' where u: "matching_user sql_lower rows (lc (strip email)) = Some u"
    and p: "so_count ops (shw (us_id u)) (ad_store st) = (Some p, c)"
    and n: "so_revoke_all ops (shw (us_id u)) c = (Some n, c')"
    and st': "ad_store st' = c'" "ad_db st' = audit_revocation af u n (ad_db st)"
    using assms(2) by (auto simp: revoke_sessions_def Let_def split: if_splits option.splits prod.splits)
  have c: "ok c" "view c = view (ad_store st)" "index c = index (ad_store st)"
    using count [OF assms(1) p] by auto
  have a: "\<not> af \<longrightarrow> (\<exists>n. audit (stored (ad_db st')) = audit (work (ad_db st)) @ [revocation_event u n])"
    by (auto simp: st' audit_revocation_def log_audit_event_def)
  show ?thesis
    using revoke_all [OF c(1) n] matching_user_in [OF u] a unfolding st'(1) c(2,3)
    by (intro bexI [of _ u]) auto
qed

lemma refused_revocation_keeps_sessions:
  assumes "ok (ad_store st)" "revoke_sessions ops shw lc sql_lower rows email yes typed af st = (k, st')" "k \<noteq> 0"
    and "\<not> confirmed lc yes typed"
  shows "view (ad_store st') = view (ad_store st) \<and> index (ad_store st') = index (ad_store st) \<and> ad_db st' = ad_db st"
  using assms count [OF assms(1)]
  by (auto simp: revoke_sessions_def Let_def split: if_splits option.splits prod.splits)

end


definition demo_admin :: "json cells conn admin_state" where
  "demo_admin = \<lparr>ad_db = open_session demo_users_db, ad_store = demo_conn (demo_cells (Some ''4'')),
     ad_metrics = fresh_metrics\<rparr>"


section \<open>generate\_local\_prod\_secrets\<close>

text \<open>The texts of the files in the secrets directory.\<close>

type_synonym secret_files = "string \<rightharpoonup> ustr"

definition generated_token_files :: "(string \<times> nat) list" where
  "generated_token_files = [(''app_secret.txt'', 32), (''session_secret.txt'', 32), (''throttle_secret.txt'', 32),
     (''postgres_password.txt'', 24), (''redis_password.txt'', 24)]"

definition derived_file :: string where "derived_file = ''redis.conf''"
definition manual_file :: string where "manual_file = ''anthropic_api_key.txt''"

definition label_header :: ustr where
  "label_header = uni ''# LOCAL VALIDATION CREDENTIAL -- generated by scripts/generate_local_prod_secrets.py. ''
     @ uni ''NOT a production credential.'' @ [10]"

definition write_secret_file :: "bool \<Rightarrow> string \<Rightarrow> ustr \<Rightarrow> secret_files \<Rightarrow> bool \<times> secret_files" where
  "write_secret_file force nm v fs =
     (if fs nm \<noteq> None \<and> \<not> force then (False, fs) else (True, fs(nm \<mapsto> v @ [10])))"

text \<open>\<open>token_for n\<close> stands for \<open>token_urlsafe(n)\<close>, drawn for the file; a file that is kept gives its
  stripped text.\<close>

fun generate_tokens :: "bool \<Rightarrow> (nat \<Rightarrow> string \<Rightarrow> ustr) \<Rightarrow> (string \<times> nat) list \<Rightarrow> secret_files
    \<Rightarrow> (string \<times> ustr) list \<times> secret_files" where
  "generate_tokens force token_for [] fs = ([], fs)"
| "generate_tokens force token_for ((nm, n) # xs) fs = (case write_secret_file force nm (token_for n nm) fs of
       (written, fs1) \<Rightarrow> apfst ((#) (nm, if written then token_for n nm else strip (the (fs1 nm))))
                         (generate_tokens force token_for xs fs1))"

definition redis_conf_body :: "ustr \<Rightarrow> ustr" where
  "redis_conf_body pw = label_header @ uni ''requirepass '' @ pw @ [10] @ uni ''appendonly yes''"

definition write_redis_conf :: "bool \<Rightarrow> ustr option \<Rightarrow> secret_files \<Rightarrow> secret_files" where
  "write_redis_conf force pw fs = (case pw of
       Some (c # t) \<Rightarrow> snd (write_secret_file force derived_file (redis_conf_body (c # t)) fs)
     | _ \<Rightarrow> fs)"

definition import_key :: "bool \<Rightarrow> ustr option \<Rightarrow> ustr \<Rightarrow> secret_files \<Rightarrow> nat \<times> secret_files" where
  "import_key force from_env typed fs =
     (if fs manual_file \<noteq> None \<and> \<not> force then (0, fs)
      else let key = (case from_env of Some (c # t) \<Rightarrow> c # t | _ \<Rightarrow> typed) in
        if strip key = [] then (1, fs) else (0, snd (write_secret_file force manual_file (strip key) fs)))"

definition cmd_generate :: "(nat \<Rightarrow> string \<Rightarrow> ustr) \<Rightarrow> bool \<Rightarrow> bool \<Rightarrow> ustr option \<Rightarrow> ustr \<Rightarrow> secret_files
    \<Rightarrow> nat \<times> secret_files" where
  "cmd_generate token_for force import_anthropic from_env typed fs =
     (case generate_tokens force token_for generated_token_files fs of (vals, fs1) \<Rightarrow>
        let fs2 = write_redis_conf force (map_of vals ''redis_password.txt'') fs1 in
        if import_anthropic then import_key force from_env typed fs2 else (0, fs2))"

definition owned_files :: "string list" where
  "owned_files = map fst generated_token_files @ [derived_file, manual_file]"

definition cmd_cleanup :: "(ustr \<Rightarrow> ustr) \<Rightarrow> ustr \<Rightarrow> secret_files \<Rightarrow> nat \<times> secret_files" where
  "cmd_cleanup lc typed fs =
     (if \<forall>nm \<in> set owned_files. fs nm = None then (0, fs)
      else if \<not> confirmed lc False typed then (1, fs)
      else (0, fs |` (- set owned_files)))"

lemma write_keeps: "fs nm = Some t \<Longrightarrow> snd (write_secret_file False i v fs) nm = Some t"
  by (auto simp: write_secret_file_def)

lemma tokens_keep: "fs nm = Some t \<Longrightarrow> snd (generate_tokens False token_for xs fs) nm = Some t"
proof (induction xs arbitrary: fs)
  case (Cons x xs)
  then show ?case using write_keeps [of fs nm t "fst x" "token_for (snd x) (fst x)"]
    by (cases x) (simp add: case_prod_unfold)
qed simp

text \<open>Without \<open>--force\<close> no file that is there is changed.\<close>

lemma generate_keeps_files:
  assumes "fs nm = Some t"
  shows "snd (cmd_generate token_for False imp from_env typed fs) nm = Some t"
proof -
  let ?fs1 = "snd (generate_tokens False token_for generated_token_files fs)"
  have 1: "?fs1 nm = Some t" using assms by (rule tokens_keep)
  have 2: "write_redis_conf False v ?fs1 nm = Some t" for v
    using write_keeps [where fs = ?fs1, OF 1] 1 by (simp add: write_redis_conf_def split: option.split list.split)
  have 3: "snd (import_key False from_env typed fs2) nm = Some t" if "fs2 nm = Some t" for fs2
    using write_keeps [where fs = fs2, OF that] that by (simp add: import_key_def Let_def)
  show ?thesis using 2 3 2 by (simp add: cmd_generate_def Let_def case_prod_unfold)
qed

text \<open>A kept \<open>redis.conf\<close> goes with another password than the one just generated.\<close>

lemma stale_redis_conf:
  assumes "token_for 24 ''redis_password.txt'' = uni ''new''"
    and "fs = [''redis.conf'' \<mapsto> redis_conf_body (uni ''old'') @ [10]]"
  shows "\<exists>fs'. cmd_generate token_for False False None [] fs = (0, fs')
     \<and> fs' ''redis_password.txt'' = Some (uni ''new'' @ [10])
     \<and> fs' ''redis.conf'' = Some (redis_conf_body (uni ''old'') @ [10])"
  using assms
  by (simp add: cmd_generate_def generated_token_files_def write_secret_file_def write_redis_conf_def derived_file_def)

text \<open>The application reads back exactly the token that was written.\<close>

lemma generated_secret_is_read:
  assumes "t \<noteq> []" "\<forall>c \<in> set t. 32 < c \<and> c < 127" "length t < 8192"
  shows "read_secret_file (SecretFile (t @ [10])) = Inr t"
proof -
  have a: "\<forall>b \<in> set (t @ [10]). b < 128" using assms(2) by auto
  have e: "utf8_encode (t @ [10]) = t @ [10]" using a by (induction t) (auto simp: utf8_encode_def utf8_char_def)
  have n: "trim_newline (t @ [10]) = t"
    using assms(1,2) by (cases t rule: rev_cases) (auto simp: trim_newline_def ends_with_def)
  show ?thesis
    using assms n by (simp add: read_secret_file_def node_size_def max_secret_file_bytes_def utf8_strict_def
        utf8_replace_ascii [OF a] e Let_def)
qed

section \<open>seed\_pilot\_demo\<close>

text \<open>Every step looks for its row, and adds and commits it when it is missing.\<close>

type_synonym seed_step = "(db \<Rightarrow> bool) \<times> (db \<Rightarrow> db)"

definition pilot_org_id :: uuid where "pilot_org_id = 0x11111111111111111111111111111111"
definition pilot_user_id :: uuid where "pilot_user_id = 0x22222222222222222222222222222222"
definition pilot_project_id :: uuid where "pilot_project_id = 0x33333333333333333333333333333333"
definition pilot_doc_id :: uuid where "pilot_doc_id = 0x44444444444444444444444444444444"
definition pilot_req1_id :: uuid where "pilot_req1_id = 0x55555555555555555555555555555551"
definition pilot_req2_id :: uuid where "pilot_req2_id = 0x55555555555555555555555555555552"
definition pilot_link_id :: uuid where "pilot_link_id = 0x66666666666666666666666666666666"
definition pilot_draft_id :: uuid where "pilot_draft_id = 0x77777777777777777777777777777777"

definition pilot_reviewer :: ustr where "pilot_reviewer = uni ''Alice Pilot Reviewer''"

definition pilot_user :: user where
  "pilot_user = \<lparr>us_id = pilot_user_id, us_organization_id = pilot_org_id, us_email = uni ''pilot@example.com'',
     us_hashed_password = ''fake-pbkdf2-sha256-hash-for-now'', us_full_name = pilot_reviewer,
     us_is_active = True, us_can_review_requirements = False\<rparr>"

definition pilot_project :: "time \<Rightarrow> project" where
  "pilot_project now = \<lparr>pr_id = pilot_project_id, pr_organization_id = pilot_org_id,
     pr_name = uni ''Staging Rehearsal Cloud RFP'', pr_created_by_id = pilot_user_id,
     pr_client_name = uni ''Staging Enterprise Client'', pr_due_date = Some now, pr_status = ''active''\<rparr>"

definition pilot_document :: document where
  "pilot_document = (new_document pilot_doc_id pilot_project_id pilot_user_id
       (uni ''security_requirements_v2.pdf'') ''storage/uploads/security_requirements_v2.pdf'' ''pdf'')
     \<lparr>d_content := Some (uni ''Sec-1. Data at rest must be encrypted. '' @
        uni ''Sec-2. Production logs must not expose credentials.''), d_processing_status := ''succeeded''\<rparr>"

definition pilot_requirement :: "uuid \<Rightarrow> ustr \<Rightarrow> string \<Rightarrow> int \<Rightarrow> string \<Rightarrow> requirement" where
  "pilot_requirement i t sec page status = \<lparr>rq_id = i, rq_project_id = pilot_project_id,
     rq_source_document_id = Some pilot_doc_id, rq_source_candidate_id = None, rq_original_text = t,
     rq_source_section = Some (uni sec), rq_source_page = Some page, rq_requirement_type = Some ''Security'',
     rq_mandatory = True, rq_status = status, rq_owner_name = Some pilot_reviewer, rq_proposal_section = None,
     rq_risk_level = None, rq_assigned_to_user_id = None, rq_assigned_by_user_id = None, rq_assigned_at = None\<rparr>"

definition pilot_link :: evidence_link where
  "pilot_link = \<lparr>el_id = pilot_link_id, el_requirement_id = pilot_req2_id, el_document_id = pilot_doc_id,
     el_snippet = uni ''Production logs are scrubbed for sensitive keys like '' @ [39] @ uni ''password'' @ [39]
       @ uni '' and '' @ [39] @ uni ''secret_key'' @ [39] @ uni '' via custom logging filters.'',
     el_page_number = Some 3, el_score = 95 / 100\<rparr>"

definition pilot_draft :: draft_response where
  "pilot_draft = \<lparr>dr_id = pilot_draft_id, dr_requirement_id = pilot_req2_id,
     dr_content = uni ''RFP Architect MVP automatically sanitizes observability '' @
       uni ''logs by masking sensitive credential patterns, '' @ uni ''preventing exposure.'',
     dr_version = 1, dr_status = ''draft'', dr_confidence = 98 / 100, dr_needs_evidence = False,
     dr_assumptions = None, dr_approved_by_id = None\<rparr>"

definition seed_requirement :: "requirement \<Rightarrow> seed_step" where
  "seed_requirement r = (\<lambda>d. \<exists>x \<in> set (requirements d). rq_id x = rq_id r,
     \<lambda>d. d\<lparr>requirements := requirements d @ [r]\<rparr>)"

definition seed_steps :: "time \<Rightarrow> seed_step list" where
  "seed_steps now =
    [(\<lambda>d. pilot_org_id \<in> organizations d, \<lambda>d. d\<lparr>organizations := insert pilot_org_id (organizations d)\<rparr>),
     (\<lambda>d. users d pilot_user_id \<noteq> None, \<lambda>d. d\<lparr>users := (users d)(pilot_user_id \<mapsto> pilot_user)\<rparr>),
     (\<lambda>d. projects d pilot_project_id \<noteq> None,
      \<lambda>d. d\<lparr>projects := (projects d)(pilot_project_id \<mapsto> pilot_project now)\<rparr>),
     (\<lambda>d. documents d pilot_doc_id \<noteq> None,
      \<lambda>d. d\<lparr>documents := (documents d)(pilot_doc_id \<mapsto> pilot_document)\<rparr>),
     seed_requirement (pilot_requirement pilot_req1_id
       (uni ''Sec-1: The contractor must encrypt all data at rest using AES-256.'') ''Sec-1'' 1 ''APPROVED''),
     seed_requirement (pilot_requirement pilot_req2_id
       (uni ''Sec-2: Production observability logs must not contain '' @
        uni ''plain passwords, secrets, or API keys.'') ''Sec-2'' 3 ''NEEDS_REVIEW''),
     (\<lambda>d. \<exists>l \<in> set (evidence_links d). el_id l = pilot_link_id,
      \<lambda>d. d\<lparr>evidence_links := evidence_links d @ [pilot_link]\<rparr>),
     (\<lambda>d. \<exists>x \<in> set (draft_responses d). dr_id x = pilot_draft_id,
      \<lambda>d. d\<lparr>draft_responses := draft_responses d @ [pilot_draft]\<rparr>)]"

text \<open>\<open>fails\<close> says of each commit whether it raises; the steps before it stay committed.\<close>

fun run_seed :: "bool list \<Rightarrow> seed_step list \<Rightarrow> db \<Rightarrow> nat \<times> db" where
  "run_seed fails [] d = (0, d)"
| "run_seed fails (f # fs) d =
     (if fst f d then run_seed fails fs d
      else if fails \<noteq> [] \<and> hd fails then (1, d)
      else run_seed (tl fails) fs (snd f d))"

definition seed_pilot_demo :: "time \<Rightarrow> ustr \<Rightarrow> bool list \<Rightarrow> db \<Rightarrow> nat \<times> db" where
  "seed_pilot_demo now app_env fails d =
     (if app_env = uni ''production'' then (1, d) else run_seed fails (seed_steps now) d)"

text \<open>A row once there stays there, and no step removes what another added.\<close>

definition lasting :: "seed_step list \<Rightarrow> bool" where
  "lasting fs \<longleftrightarrow> (\<forall>f \<in> set fs. \<forall>d. fst f (snd f d) \<and> (\<forall>g \<in> set fs. fst g d \<longrightarrow> fst g (snd f d)))"

lemma seed_settled: "\<forall>f \<in> set fs. fst f d \<Longrightarrow> run_seed fails fs d = (0, d)"
  by (induction fs) auto

lemma seed_settles:
  assumes "lasting fs"
  shows "set gs \<subseteq> set fs \<Longrightarrow> (\<forall>f \<in> set gs. fst f (snd (run_seed [] gs d)))
    \<and> (\<forall>f \<in> set fs. fst f d \<longrightarrow> fst f (snd (run_seed [] gs d)))"
proof (induction gs arbitrary: d)
  case (Cons g gs)
  have g: "fst g (snd g d)" "\<forall>f \<in> set fs. fst f d \<longrightarrow> fst f (snd g d)" and gin: "g \<in> set fs"
    using assms Cons.prems by (auto simp: lasting_def)
  show ?case
  proof (cases "fst g d")
    case True then show ?thesis using Cons.IH [of d] Cons.prems gin by simp
  next
    case False then show ?thesis using Cons.IH [of "snd g d"] Cons.prems gin g by simp
  qed
qed simp

lemma seed_append: "run_seed [] (gs @ hs) d = run_seed [] hs (snd (run_seed [] gs d))"
  by (induction gs arbitrary: d) auto

lemma seed_prefix:
  "\<exists>gs hs. fs = gs @ hs \<and> snd (run_seed fails fs d) = snd (run_seed [] gs d)"
proof (induction fails fs d rule: run_seed.induct)
  case (2 fails f fs d)
  consider "fst f d" | "\<not> fst f d" "fails \<noteq> [] \<and> hd fails" | "\<not> fst f d" "\<not> (fails \<noteq> [] \<and> hd fails)"
    by blast
  then show ?case
  proof cases
    case 1
    then obtain gs hs where "fs = gs @ hs" "snd (run_seed fails fs d) = snd (run_seed [] gs d)" using 2(1) by blast
    then show ?thesis using 1 by - (rule exI [of _ "f # gs"], rule exI [of _ hs], simp)
  next
    case 2
    then show ?thesis by - (rule exI [of _ "[]"], rule exI [of _ "f # fs"], simp)
  next
    case 3
    then obtain gs hs where "fs = gs @ hs" "snd (run_seed (tl fails) fs (snd f d)) = snd (run_seed [] gs (snd f d))"
      using 2(2) by blast
    then show ?thesis using 3 by - (rule exI [of _ "f # gs"], rule exI [of _ hs], auto)
  qed
qed simp

lemma seed_resumes:
  assumes "lasting fs"
  shows "run_seed [] fs (snd (run_seed fails fs d)) = run_seed [] fs d"
proof -
  obtain gs hs where fs: "fs = gs @ hs" and p: "snd (run_seed fails fs d) = snd (run_seed [] gs d)"
    using seed_prefix by blast
  have "\<forall>f \<in> set gs. fst f (snd (run_seed [] gs d))" using seed_settles [OF assms] fs by simp
  then have "run_seed [] gs (snd (run_seed [] gs d)) = (0, snd (run_seed [] gs d))" by (rule seed_settled)
  then show ?thesis unfolding p unfolding fs by (simp add: seed_append)
qed

lemma seed_steps_lasting: "lasting (seed_steps now)"
  unfolding lasting_def seed_steps_def
  by (simp add: seed_requirement_def pilot_requirement_def pilot_link_def pilot_draft_def)

text \<open>A seeding that broke off anywhere is completed by the next one, and a complete one changes
  nothing when it is repeated.\<close>

lemma seeding_is_idempotent:
  "seed_pilot_demo now app_env [] (snd (seed_pilot_demo now app_env fails d)) = seed_pilot_demo now app_env [] d"
  by (simp add: seed_pilot_demo_def seed_resumes [OF seed_steps_lasting])

text \<open>The seeded evidence is nothing the workspace would have accepted.\<close>

lemma seeded_evidence_is_refused:
  assumes "seed_pilot_demo now app_env [] empty_db = (0, d)"
  shows "validate_evidence_candidate cf d pilot_project_id (el_document_id pilot_link) (el_page_number pilot_link)
     (el_snippet pilot_link) = Inl (400, ''Document is not fully processed'')"
  using assms by (auto simp: seed_pilot_demo_def seed_steps_def empty_db_def seed_requirement_def pilot_requirement_def
      validate_evidence_candidate_def pilot_link_def pilot_document_def pilot_req1_id_def pilot_req2_id_def
      split: if_splits)

end
