(* ===== verification/ThrottleProgress.thy ===== *)
theory ThrottleProgress
  imports Throttle
begin

text \<open>
  The progress side of \<open>core/sessions/throttling.py\<close>: no series of failures locks an account or an
  address out for good. The Lua script gives every counter the lifetime of its window with its first
  hit and no later hit prolongs it, so one window without attempts empties all counters.
\<close>

text \<open>Every counter in the store ends within \<open>W\<close> seconds.\<close>

definition expiring :: "('r \<Rightarrow> 'v keyspace) \<Rightarrow> nat \<Rightarrow> 'r conn \<Rightarrow> bool" where
  "expiring ent W c \<longleftrightarrow> (\<forall>k \<in> counter_keys. ent (cn_server c) k = None
     \<or> (\<exists>n t. ent (cn_server c) k = Some (RCount n, Some t) \<and> 0 < n \<and> t \<le> W * second))"

definition within_window :: "nat \<Rightarrow> throttle_op \<Rightarrow> bool" where
  "within_window W p \<longleftrightarrow> throttle_op_ok p \<and> (case p of Increment k w \<Rightarrow> w \<le> W | _ \<Rightarrow> True)"

definition after_ops :: "'s throttle_ops \<Rightarrow> (nat \<Rightarrow> 's \<Rightarrow> 's) \<Rightarrow> throttle_op list \<Rightarrow> 's \<Rightarrow> 's" where
  "after_ops ops pass ps s = fold (\<lambda>p s. snd (throttle_do ops pass p s)) ps s"

lemma snd_ask_done: "snd (ask f (\<lambda>n. done_with (g n)) s) = snd (f s)"
  by (simp add: ask_def done_with_def case_prod_unfold split: option.split)

lemma redis_call_server:
  "cn_server (snd (redis_call cmd c)) = cn_server c \<or> cn_server (snd (redis_call cmd c)) = snd (cmd (cn_server c))"
  by (simp add: redis_call_def Let_def case_prod_unfold split: fate.split)

lemma expiring_entry:
  "expiring ent W c \<Longrightarrow> ent (cn_server c') = ent (cn_server c) \<Longrightarrow> expiring ent W c'"
  by (simp add: expiring_def)

lemma expiring_counts: "expiring ent W c \<Longrightarrow> counters_ok ent c"
  by (fastforce simp: expiring_def counters_ok_def holds_count_def)

context redis_server
begin

lemma expiring_call:
  assumes "expiring entry W c"
    and "\<And>c'. cn_server c' = snd (cmd (cn_server c)) \<Longrightarrow> expiring entry W c'"
  shows "expiring entry W (snd (redis_call cmd c))"
  using redis_call_server [of cmd c] assms(2) expiring_entry [OF assms(1)] by metis

lemma expiring_do:
  assumes "expiring entry W c" and "within_window W p"
  shows "expiring entry W (snd (throttle_do (redis_throttle R) (conn_pass wait) p c))"
proof (cases p)
  case (GetCount k)
  have "entry (cn_server (snd (redis_call (rd_count R k) c))) = entry (cn_server c)"
    using redis_call_server [of "rd_count R k" c] by (metis count_keeps)
  then show ?thesis using GetCount by (simp add: snd_ask_done redis_throttle_def expiring_entry [OF assms(1)])
next
  case (Increment k w)
  have k: "k \<in> counter_keys" "0 < w" "w \<le> W"
    using assms(2) Increment by (auto simp: within_window_def throttle_op_ok_def)
  have h: "holds_count (entry (cn_server c)) k"
    using expiring_counts [OF assms(1)] k(1) by (simp add: counters_ok_def)
  have t: "count_at (entry (cn_server c)) k = 0 \<or> (\<exists>t. ttl_of (entry (cn_server c)) k = Some t \<and> t \<le> W * second)"
    using assms(1) k(1) by (fastforce simp: expiring_def count_at_def count_of_def ttl_of_def)
  have "expiring entry W c'" if "cn_server c' = snd (incr_with_ttl R k w (cn_server c))" for c'
    using assms(1) t k(3) unfolding expiring_def that incr_with_ttl(2) [OF h k(2)] by (auto simp: second_def)
  then show ?thesis using Increment by (auto simp: snd_ask_done redis_throttle_def intro!: expiring_call assms(1))
next
  case (Reset k)
  have "expiring entry W c'" if "cn_server c' = snd (rd_del R k (cn_server c))" for c'
    using assms(1) unfolding expiring_def that del_effect by auto
  then show ?thesis using Reset by (auto simp: snd_ask_done redis_throttle_def intro!: expiring_call assms(1))
next
  case (Pass d)
  have "expiring entry W (conn_pass wait d c)"
    unfolding expiring_def
  proof
    fix k :: ustr
    assume k: "k \<in> counter_keys"
    have e: "entry (cn_server (conn_pass wait d c)) k = aged d (entry (cn_server c)) k"
      by (simp add: conn_pass_def wait_effect)
    consider "entry (cn_server c) k = None"
      | n t where "entry (cn_server c) k = Some (RCount n, Some t)" "0 < n" "t \<le> W * second"
      using bspec [OF assms(1) [unfolded expiring_def] k] by auto
    then show "entry (cn_server (conn_pass wait d c)) k = None
        \<or> (\<exists>n t. entry (cn_server (conn_pass wait d c)) k = Some (RCount n, Some t) \<and> 0 < n \<and> t \<le> W * second)"
      unfolding e by cases (use diff_le_self le_trans in \<open>auto simp: aged_def\<close>)
  qed
  then show ?thesis by (simp add: Pass)
qed

lemma expiring_after:
  "expiring entry W c \<Longrightarrow> \<forall>p \<in> set ps. within_window W p \<Longrightarrow>
   expiring entry W (after_ops (redis_throttle R) (conn_pass wait) ps c)"
  by (induction ps arbitrary: c) (auto simp: after_ops_def expiring_do)

lemma window_empties:
  assumes "expiring entry W c" and "k \<in> counter_keys"
  shows "entry (cn_server (conn_pass wait (W * second) c)) k = None"
  using assms by (fastforce simp: expiring_def conn_pass_def wait_effect aged_def)

lemma quiet_window_unlocks:
  assumes "expiring entry W c" and "conn_up c"
    and "0 < lt_ip_max cfg" "0 < lt_account_ip_max cfg" "0 < lt_account_max cfg"
  shows "\<exists>d c'. throttle_check (redis_throttle R) cfg email ip (conn_pass wait (W * second) c) = (Some d, c')
     \<and> td_allowed d"
proof -
  let ?c = "conn_pass wait (W * second) c"
  have none: "\<forall>k \<in> counter_keys. entry (cn_server ?c) k = None" using window_empties [OF assms(1)] by blast
  have up: "conn_up ?c" using assms(2) by (simp add: conn_up_def conn_pass_def)
  have ok: "counters_ok entry ?c" using none by (simp add: counters_ok_def holds_count_def)
  obtain d c' where c: "throttle_check (redis_throttle R) cfg email ip ?c = (Some d, c')"
    using redis_throttle_up.check_up [OF up] by blast
  have "below_limits cfg (redis_counts entry ?c) email ip"
    using none assms(3-5) by (simp add: below_limits_def redis_counts_def count_at_def count_of_def)
  then show ?thesis using redis_throttles.check_decides [OF ok c] c by (auto simp: decided_def)
qed

end

text \<open>
  C5. No lockout is for good: after any series of counter operations of any clients, over any pattern
  of lost requests and replies, one quiet window of the longest length lets every login through the
  throttle again, as soon as Redis answers.
\<close>

theorem lockout_ends:
  assumes "redis_server R ent pass" and "expiring ent W c" and "\<forall>p \<in> set ps. within_window W p"
    and "conn_up (after_ops (redis_throttle R) (conn_pass pass) ps c)"
    and "0 < lt_ip_max cfg" "0 < lt_account_ip_max cfg" "0 < lt_account_max cfg"
  shows "\<exists>d c'. throttle_check (redis_throttle R) cfg email ip
       (conn_pass pass (W * second) (after_ops (redis_throttle R) (conn_pass pass) ps c)) = (Some d, c') \<and> td_allowed d"
  by (rule redis_server.quiet_window_unlocks [OF assms(1)
      redis_server.expiring_after [OF assms(1-3)] assms(4-7)])

definition demo_throttle_config :: throttle_config where
  "demo_throttle_config = \<lparr>lt_mac = rev, lt_account_ip_max = 1, lt_account_ip_window = 60, lt_ip_max = 1,
     lt_ip_window = 60, lt_account_max = 1, lt_account_window = 60, lt_max_cooldown = 60\<rparr>"

theorem lockout_ends_witness:
  "\<exists>d c'. throttle_check (redis_throttle cells_redis) demo_throttle_config [] []
       (conn_pass cells_wait (60 * second) (after_ops (redis_throttle cells_redis) (conn_pass cells_wait)
          [Increment (ip_key []) 60, Increment (ip_key []) 60]
          \<lparr>cn_server = Map.empty :: unit cells, cn_fates = []\<rparr>)) = (Some d, c') \<and> td_allowed d"
proof -
  let ?c = "\<lparr>cn_server = Map.empty :: unit cells, cn_fates = []\<rparr>"
  have e: "expiring cells_entry 60 ?c" by (simp add: expiring_def cells_entry_def)
  have w: "\<forall>p \<in> set [Increment (ip_key []) 60, Increment (ip_key []) 60]. within_window 60 p"
    by (simp add: within_window_def throttle_op_ok_def)
  have u: "conn_up (after_ops (redis_throttle cells_redis) (conn_pass cells_wait)
      [Increment (ip_key []) 60, Increment (ip_key []) 60] ?c)"
    by (simp add: after_ops_def snd_ask_done redis_throttle_def conn_up_def redis_call_def Let_def case_prod_unfold
        next_fate_def)
  show ?thesis by (rule lockout_ends [OF cells.redis_server_axioms e w u]) (simp_all add: demo_throttle_config_def)
qed

end
