(* ===== verification/Constraints.thy ===== *)
theory Constraints
  imports Review
begin

text \<open>
  The check constraints of \<open>app/models/extraction.py\<close>: what the database itself refuses to store
  in the rows of a candidate and of its review task. Storing the result of an extraction and
  recording a reviewer's decision never run into them, so neither commit fails on a constraint.
\<close>

definition candidate_statuses :: "string list" where
  "candidate_statuses = [''PROPOSED'', ''APPROVED'', ''EDITED'', ''REJECTED'', ''SUPERSEDED'']"

definition candidate_checks :: "candidate \<Rightarrow> bool" where
  "candidate_checks c \<longleftrightarrow> status_text (cd_candidate_status c) \<in> set candidate_statuses
     \<and> 0 \<le> cd_span_start c
     \<and> cd_span_start c < cd_span_end c
     \<and> (case cd_confidence c of None \<Rightarrow> True | Some q \<Rightarrow> 0 \<le> q \<and> q \<le> 1)"

definition task_checks :: "review_task \<Rightarrow> bool" where
  "task_checks t \<longleftrightarrow> tk_task_type t = ''REQUIREMENT_CANDIDATE_REVIEW''"

lemma status_checked [simp]: "status_text st \<in> set candidate_statuses"
  by (cases st) (simp_all add: status_text_def candidate_statuses_def)

lemma superseded_checks: "candidate_checks c \<Longrightarrow> candidate_checks (superseded org i rid c)"
  by (simp add: candidate_checks_def superseded_def)

lemma decided_checks:
  "candidate_checks c \<Longrightarrow> candidate_checks (decided_candidate env usr dec ed cm c)"
  by (simp add: candidate_checks_def decided_candidate_def)

lemma candidate_of_checks:
  "draft_ok pgs d \<Longrightarrow> unit_valid (dr_unit d) \<Longrightarrow> candidate_checks (candidate_of H cid org proj rid i d)"
  by (simp add: candidate_checks_def candidate_of_def draft_ok_def unit_valid_def Let_def)

lemma new_tasks_checks: "list_all task_checks (new_tasks env org proj ds)"
  by (auto simp: list_all_iff new_tasks_def task_of_def task_checks_def)

text \<open>An extraction whose answer the contract accepted stores only rows the database accepts.\<close>

lemma extraction_respects_constraints:
  assumes ok: "persist_candidates H env i org proj snap resp s = (Inr (), s')"
    and valid: "response_valid resp"
    and before: "list_all candidate_checks (candidates (work s))"
  shows "list_all candidate_checks (candidates (stored s'))"
proof -
  obtain ds codes where p:
    "check_all (page_index (load_ordered_pages (work s) i)) {} (er_candidates resp) = (ds, codes)"
    "candidates (stored s') = map (superseded org i (en_run_id env)) (candidates (work s))
       @ new_candidates H env org proj i ds"
    using persist_success [OF ok] by metis
  have "candidate_checks c" if "c \<in> set (new_candidates H env org proj i ds)" for c
    using new_candidates_set [OF that] check_all_ok [OF p(1)] valid
    by (auto simp: response_valid_def intro!: candidate_of_checks)
  then show ?thesis using before by (auto simp: p(2) list_all_iff superseded_checks)
qed

lemma decision_respects_constraints:
  assumes "decides_row H env i usr org dec edited c t s s'"
    and "list_all candidate_checks (candidates (work s))" and "list_all task_checks (tasks (work s))"
  shows "list_all candidate_checks (candidates (stored s')) \<and> list_all task_checks (tasks (stored s'))"
  using assms
  by (auto simp: decides_row_def write_decision_def add_audit_def commit_def upd_row_def list_all_iff
      decided_checks completed_task_def task_checks_def)

end
