(* ===== verification/JobPages.thy ===== *)
theory JobPages
  imports Dashboards "HOL-Library.Sublist"
begin

text \<open>
  The two pages of \<open>app/web/routes/projects.py\<close> that are built from f-strings instead of templates:
  the job log and the operations dashboard, character by character. Nothing on them is escaped.
  \<open>created\<close> is the text of a job's creation time, \<open>rd q n\<close> the text of \<open>round(q, n)\<close>.
\<close>

section \<open>The job log\<close>

definition font_url :: string where
  "font_url = ''https://fonts.googleapis.com/css2?'' @ ''family=Outfit:wght@300;400;500;600;700&display=swap''"

definition back_url :: "project \<Rightarrow> ustr" where
  "back_url pr = uni ''/projects/'' @ uni (uuid_str (pr_id pr))"

definition intro_desc :: string where
  "intro_desc = ''Audit trail for document parsing, indexing, and requirement extraction.''"

definition job_log_top :: ustr where
  "job_log_top = uni ''
    <!DOCTYPE html>
    <html lang=\"en\">
    <head>
        <meta charset=\"UTF-8\">
        <title>Jobs for ''"

definition job_log_style :: "ustr \<Rightarrow> ustr" where
  "job_log_style back = uni ''</title>
        <link rel=\"stylesheet\" href=\"/static/css/style.css\">
        <link href=\"'' @ uni font_url @ uni ''\" rel=\"stylesheet\">
        <style>
            body {
                font-family: 'Outfit', sans-serif;
                background: var(--canvas);
                color: var(--text-primary);
                padding: var(--space-xl);
            }
            .container {
                max-width: 800px;
                margin: 0 auto;
                display: flex;
                flex-direction: column;
                gap: var(--space-lg);
            }
            .job-card {
                margin-top: 0;
                padding: var(--space-md);
                border-color: var(--border-color);
                display: flex;
                flex-direction: column;
                gap: 0.5rem;
            }
            .flex-row {
                display: flex;
                justify-content: space-between;
                align-items: center;
            }
            .meta-grid {
                font-size: 0.85rem;
                color: var(--text-muted);
                display: grid;
                grid-template-columns: 1fr 1fr;
                gap: 0.5rem;
            }
            .err-box {
                background: rgba(180,35,24,0.05);
                border: 1px solid rgba(180,35,24,0.15);
                padding: 0.75rem;
                border-radius: 8px;
                font-size: 0.85rem;
                color: var(--status-needs-evidence);
                font-family: monospace;
                word-break: break-all;
            }
            .empty-msg {
                text-align: center;
                padding: var(--space-xl);
                color: var(--text-muted);
            }
            .btn-retry {
                padding: 0.4rem 1rem;
                font-size: 0.8rem;
            }
            .form-retry {
                margin-top: 0.5rem;
            }
        </style>
    </head>
    <body>
        <div class=\"glass-bg\"></div>
        <div class=\"container\">
            <a href=\"'' @ back @ uni ''\" class=\"btn btn-secondary\"
               style=\"width: fit-content; text-decoration: none;\">
                &larr; Back
            </a>
            <h1 style=\"font-size: 1.75rem; font-weight: 800;\">Background Jobs Log</h1>
            <p style=\"color: var(--text-secondary); margin-bottom: var(--space-md);\">
                '' @ uni intro_desc @ uni ''
            </p>
            
            <div style=\"display: flex; flex-direction: column; gap: var(--space-md);\">
    ''"

definition job_log_head :: "project \<Rightarrow> ustr" where
  "job_log_head pr = job_log_top @ pr_name pr @ job_log_style (back_url pr)"

definition retry_url :: "uuid \<Rightarrow> uuid \<Rightarrow> ustr" where
  "retry_url proj i = uni ''/projects/'' @ uni (uuid_str proj) @ uni ''/documents/'' @ uni (uuid_str i) @ uni ''/retry''"

definition retry_form :: "(uuid \<times> uuid \<times> ustr) option \<Rightarrow> ustr" where
  "retry_form r = (case r of None \<Rightarrow> [] | Some (proj, i, csrf) \<Rightarrow> uni ''
            <form action=\"'' @ retry_url proj i @ uni ''\" method=\"POST\" class=\"form-retry\">
                <input type=\"hidden\" name=\"csrf_token\" value=\"'' @ csrf @ uni ''\">
                <button type=\"submit\" class=\"btn btn-primary btn-retry\">
                    Retry Job
                </button>
            </form>
            '')"

definition badge_style :: "job_card \<Rightarrow> ustr" where
  "badge_style c = uni ''color: '' @ uni (jc_color c) @ uni ''; border-color: '' @ uni (jc_color c) @ uni ''; font-size: 0.75rem;''"

definition card_top :: "ustr \<Rightarrow> job_card \<Rightarrow> ustr" where
  "card_top created c = uni ''
                <div class=\"feature-card job-card\">
                    <div class=\"flex-row\">
                        <span style=\"font-weight: 600;\">'' @ jc_title c @ uni ''</span>
                        <span class=\"badge\" style=\"'' @ badge_style c @ uni ''\">
                            '' @ uni (jc_status c) @ uni ''
                        </span>
                    </div>
                    <div class=\"meta-grid\">
                        <span>Attempts: '' @ uni (digits (fst (jc_attempts c))) @ uni '' / '' @ uni (digits (snd (jc_attempts c))) @ uni ''</span>
                        <span>Progress: '' @ uni (show_int (jc_progress c)) @ uni ''%</span>
                        <span>Step: '' @ uni (jc_step c) @ uni ''</span>
                        <span>Created: '' @ created @ uni ''</span>
                    </div>
                    ''"

definition card_bottom :: "job_card \<Rightarrow> ustr" where
  "card_bottom c = uni ''
                    '' @ retry_form (jc_retry c) @ uni ''
                </div>
        ''"

definition card_html :: "ustr \<Rightarrow> job_card \<Rightarrow> ustr" where
  "card_html created c = card_top created c @ jc_error c @ card_bottom c"

definition no_jobs :: ustr where
  "no_jobs = uni ''
                <div class=\"empty-msg\">No background jobs found for this project.</div>
        ''"

definition job_log_foot :: ustr where
  "job_log_foot = uni ''
            </div>
        </div>
    </body>
    </html>
    ''"

definition job_log_html :: "(processing_job \<Rightarrow> ustr) \<Rightarrow> ustr \<Rightarrow> project \<Rightarrow> processing_job list \<Rightarrow> ustr" where
  "job_log_html created csrf pr js =
     job_log_head pr @ concat (map (\<lambda>j. card_html (created j) (job_card_of (pr_id pr) csrf j)) js)
       @ (if js = [] then no_jobs else []) @ job_log_foot"

section \<open>The dashboard\<close>

definition avg_time_str :: "(rat \<Rightarrow> nat \<Rightarrow> ustr) \<Rightarrow> rat option \<Rightarrow> ustr" where
  "avg_time_str rd t = (case t of None \<Rightarrow> uni ''N/A'' | Some q \<Rightarrow> rd q 1 @ uni ''s'')"

definition dashboard_head :: "(rat \<Rightarrow> nat \<Rightarrow> ustr) \<Rightarrow> rat \<Rightarrow> dashboard \<Rightarrow> ustr" where
  "dashboard_head rd cost d = uni ''
    <!DOCTYPE html>
    <html lang=\"en\">
    <head>
        <meta charset=\"UTF-8\">
        <title>Pilot KPI Dashboard</title>
        <link rel=\"stylesheet\" href=\"/static/css/style.css\">
        <link href=\"'' @ uni font_url @ uni ''\" rel=\"stylesheet\">
        <style>
            body {
                font-family: 'Outfit', sans-serif;
                background: var(--canvas);
                color: var(--text-primary);
                padding: var(--space-xl);
            }
            .ops-container {
                max-width: 1000px;
                margin: 0 auto;
                display: flex;
                flex-direction: column;
                gap: var(--space-xl);
            }
            .stats-grid {
                display: grid;
                grid-template-columns: repeat(auto-fit, minmax(220px, 1fr));
                gap: var(--space-lg);
            }
            .kpi-card {
                padding: var(--space-lg);
                border-radius: 12px;
                background: var(--surface);
                border: 1px solid var(--border-color);
                box-shadow: 0 4px 6px rgba(0,0,0,0.05);
                display: flex;
                flex-direction: column;
                gap: 0.5rem;
            }
            .kpi-value {
                font-size: 2.25rem;
                font-weight: 800;
                color: var(--accent);
                line-height: 1.1;
            }
            .kpi-label {
                font-size: 0.85rem;
                color: var(--text-muted);
                text-transform: uppercase;
                letter-spacing: 0.05em;
            }
            .dashboard-header {
                display: flex;
                justify-content: space-between;
                align-items: center;
                border-bottom: 1px solid var(--border-color);
                padding-bottom: var(--space-md);
            }
            .failed-job-item {
                background: rgba(180,35,24,0.02);
                border: 1px solid rgba(180,35,24,0.1);
                padding: var(--space-md);
                border-radius: 8px;
                font-size: 0.9rem;
            }
        </style>
    </head>
    <body>
        <div class=\"glass-bg\"></div>
        <div class=\"ops-container\">
            <div class=\"dashboard-header\">
                <div>
                    <h1 style=\"font-size: 2rem; font-weight: 800; margin: 0;\">
                        Pilot KPI Dashboard
                    </h1>
                    <p style=\"color: var(--text-secondary); margin: 0.25rem 0 0 0;\">
                        Observability, audit logs, and performance metrics.
                    </p>
                </div>
                <a href=\"/projects\" class=\"btn btn-secondary\">
                    &larr; Back to Workspace
                </a>
            </div>

            <div class=\"stats-grid\">
                <div class=\"kpi-card\">
                    <div class=\"kpi-value\">'' @ uni (digits (db_projects_count d)) @ uni ''</div>
                    <div class=\"kpi-label\">Active Projects</div>
                </div>
                <div class=\"kpi-card\">
                    <div class=\"kpi-value\">'' @ uni (digits (db_docs_success d + db_docs_failed d)) @ uni ''</div>
                    <div class=\"kpi-label\">
                        Docs Uploaded ('' @ uni (digits (db_docs_success d)) @ uni '' ok / '' @ uni (digits (db_docs_failed d)) @ uni '' fail)
                    </div>
                </div>
                <div class=\"kpi-card\">
                    <div class=\"kpi-value\">'' @ uni (digits (db_reqs_extracted d)) @ uni ''</div>
                    <div class=\"kpi-label\">Requirements Extracted</div>
                </div>
                <div class=\"kpi-card\">
                    <div class=\"kpi-value\">'' @ rd (db_approval_rate d * 100) 1 @ uni ''%</div>
                    <div class=\"kpi-label\">
                        Approval Rate ('' @ uni (digits (db_reqs_approved d)) @ uni '' approved)
                    </div>
                </div>
                <div class=\"kpi-card\">
                    <div class=\"kpi-value\">
                        '' @ uni (digits (db_reqs_needing_review d + db_reqs_needing_evidence d)) @ uni ''
                    </div>
                    <div class=\"kpi-label\">
                        Action Required ('' @ uni (digits (db_reqs_needing_review d)) @ uni '' review / 
                        '' @ uni (digits (db_reqs_needing_evidence d)) @ uni '' evidence)
                    </div>
                </div>
                <div class=\"kpi-card\">
                    <div class=\"kpi-value\">'' @ uni (digits (db_exports_count d)) @ uni ''</div>
                    <div class=\"kpi-label\">Exports Generated</div>
                </div>
                <div class=\"kpi-card\">
                    <div class=\"kpi-value\">'' @ avg_time_str rd (db_avg_processing_time d) @ uni ''</div>
                    <div class=\"kpi-label\">Avg Processing Time</div>
                </div>
                <div class=\"kpi-card\">
                    <div class=\"kpi-value\">$'' @ rd cost 4 @ uni ''</div>
                    <div class=\"kpi-label\">Est. LLM Cost (Global)</div>
                </div>
            </div>

            <div class=\"kpi-card\" style=\"margin-top: var(--space-md);\">
                <h2 style=\"font-size: 1.25rem; font-weight: 700; margin-top: 0;\">
                    Failed Processing Jobs
                </h2>
                <div style=\"display: flex; flex-direction: column; gap: 0.75rem;\">
    ''"

definition or_text :: "string option \<Rightarrow> string \<Rightarrow> ustr" where
  "or_text m t = (if m \<in> {None, Some []} then uni t else uni (the m))"

definition failed_job_top :: "(processing_job \<Rightarrow> ustr) \<Rightarrow> processing_job \<Rightarrow> ustr" where
  "failed_job_top created j = uni ''
                    <div class=\"failed-job-item\">
                        <div style=\"
                            display: flex;
                            justify-content: space-between;
                            font-weight: 600;
                            margin-bottom: 0.25rem;
                        \">
                            <span>Job: '' @ job_title (jb_job_type j) @ uni ''</span>
                            <span style=\"color: var(--status-needs-evidence);\">
                                '' @ or_text (jb_error_type j) ''Error'' @ uni ''
                            </span>
                        </div>
                        <div style=\"
                            color: var(--text-secondary);
                            font-size: 0.85rem;
                            margin-bottom: 0.5rem;
                        \">
                            <span>Attempts: '' @ uni (digits (jb_attempts j)) @ uni ''/'' @ uni (digits (jb_max_attempts j)) @ uni ''</span> | 
                            <span>Failed: '' @ created j @ uni ''</span>
                        </div>
                        <div style=\"
                            background: rgba(180,35,24,0.05);
                            border: 1px solid rgba(180,35,24,0.1);
                            padding: 0.5rem;
                            border-radius: 4px;
                            font-family: monospace;
                            font-size: 0.8rem;
                            word-break: break-all;
                        \">
                            ''"

definition failed_job_bottom :: ustr where
  "failed_job_bottom = uni ''
                        </div>
                    </div>
        ''"

definition failed_job_item :: "(processing_job \<Rightarrow> ustr) \<Rightarrow> processing_job \<Rightarrow> ustr" where
  "failed_job_item created j = failed_job_top created j
     @ or_text (jb_safe_error_message j) ''No error detail logged'' @ failed_job_bottom"

definition no_failed_jobs :: ustr where
  "no_failed_jobs = uni ''
                    <div style=\"
                        text-align: center;
                        color: var(--text-muted);
                        padding: var(--space-md);
                    \">
                        No failed background jobs requiring action.
                        All operational systems clean.
                    </div>
        ''"

definition dashboard_foot :: ustr where
  "dashboard_foot = uni ''
                </div>
            </div>
        </div>
    </body>
    </html>
    ''"

definition dashboard_html :: "(processing_job \<Rightarrow> ustr) \<Rightarrow> (rat \<Rightarrow> nat \<Rightarrow> ustr) \<Rightarrow> rat \<Rightarrow> dashboard \<Rightarrow> ustr" where
  "dashboard_html created rd cost d =
     dashboard_head rd cost d @ concat (map (failed_job_item created) (db_failed_jobs d))
       @ (if db_failed_jobs d = [] then no_failed_jobs else []) @ dashboard_foot"

section \<open>What the pages hold\<close>

text \<open>The retry form is there exactly for a failed or cancelled job that has a document.\<close>

lemma retry_form_empty: "retry_form r = [] \<longleftrightarrow> r = None"
proof (cases r)
  case None
  then show ?thesis by (simp add: retry_form_def)
next
  case (Some x)
  obtain proj i csrf where x: "x = (proj, i, csrf)" by (cases x)
  have url: "retry_url proj i \<noteq> []" by (simp add: retry_url_def)
  have "append a (retry_url proj i @ b) \<noteq> []" for a b using url by simp
  then show ?thesis unfolding Some x retry_form_def option.case prod.case by blast
qed

lemma retry_form_shown:
  "retry_form (jc_retry (job_card_of proj csrf j)) \<noteq> [] \<longleftrightarrow>
     jb_status j \<in> {''FAILED'', ''CANCELLED''} \<and> jb_document_id j \<noteq> None"
  by (simp add: retry_form_empty job_card_of_def)

text \<open>A name splits the page without being changed: whatever markup it holds is markup of the page.\<close>

lemma project_name_is_markup:
  "\<exists>pre post. \<forall>n. job_log_html created csrf (pr\<lparr>pr_name := n\<rparr>) js = pre @ n @ post"
proof -
  have "job_log_html created csrf (pr\<lparr>pr_name := n\<rparr>) js = job_log_top @ n @ (job_log_style (back_url pr)
      @ concat (map (\<lambda>j. card_html (created j) (job_card_of (pr_id pr) csrf j)) js)
      @ (if js = [] then no_jobs else []) @ job_log_foot)" for n
    by (simp add: job_log_html_def job_log_head_def back_url_def del: uni_simps)
  then show ?thesis by blast
qed

text \<open>The same holds of the message of a failed job, on both pages.\<close>

lemma error_message_is_markup:
  assumes "jb_safe_error_message j = Some m" and "m \<noteq> []"
  shows "sublist (uni m) (card_html t (job_card_of proj csrf j))"
    and "sublist (uni m) (failed_job_item created j)"
proof -
  let ?c = "job_card_of proj csrf j"
  have "card_html t ?c = (card_top t ?c @ uni ''<div class=\"err-box\">'') @ uni m
      @ (uni ''</div>'' @ card_bottom ?c)"
    using assms by (simp add: card_html_def job_card_of_def err_div_def del: uni_simps)
  then show "sublist (uni m) (card_html t ?c)" by (metis sublist_appendI)
  have "failed_job_item created j = failed_job_top created j @ uni m @ failed_job_bottom"
    using assms by (simp add: failed_job_item_def or_text_def del: uni_simps)
  then show "sublist (uni m) (failed_job_item created j)" by (metis sublist_appendI)
qed

text \<open>The dashboard lists its failed jobs and says that there are none exactly when there are none.\<close>

lemma dashboard_lists_failures:
  "db_failed_jobs d = [] \<Longrightarrow> dashboard_html created rd cost d = dashboard_head rd cost d @ no_failed_jobs @ dashboard_foot"
  "j \<in> set (db_failed_jobs d) \<Longrightarrow> sublist (failed_job_item created j) (dashboard_html created rd cost d)"
proof -
  show "dashboard_html created rd cost d = dashboard_head rd cost d @ no_failed_jobs @ dashboard_foot"
    if "db_failed_jobs d = []" using that by (simp add: dashboard_html_def)
  assume "j \<in> set (db_failed_jobs d)"
  then obtain xs ys where "db_failed_jobs d = xs @ j # ys" by (meson split_list)
  then have "dashboard_html created rd cost d =
      (dashboard_head rd cost d @ concat (map (failed_job_item created) xs)) @ failed_job_item created j
        @ (concat (map (failed_job_item created) ys) @ dashboard_foot)"
    by (simp add: dashboard_html_def)
  then show "sublist (failed_job_item created j) (dashboard_html created rd cost d)"
    by (metis sublist_appendI)
qed

end
