(* ===== verification/Migrations.thy ===== *)
theory Migrations
  imports Schema
begin

text \<open>
  The Alembic revisions of \<open>src/alembic/versions\<close> as lists of DDL operations, and what PostgreSQL does
  with them on an empty or a filled database. A schema is the list of its tables; an operation
  that the database (or Alembic) refuses gives \<open>None\<close>. Checks are kept as text; whether existing rows
  satisfy a new check or a new unique key is not represented.
\<close>

section \<open>Schemas\<close>

datatype column = Column (co_name: string) (co_type: string) (co_nullable: bool) (co_default: "string option")

datatype row_constraint = PrimaryKey "string list" | UniqueKey "string list" | CheckOn string | CheckIn string "string list"
  | ForeignKey string string string string

record index =
  ix_name :: string
  ix_columns :: "string list"
  ix_unique :: bool
  ix_where :: "string option"

record db_table =
  tb_name :: string
  tb_columns :: "column list"
  tb_constraints :: "(string \<times> row_constraint) list"
  tb_indexes :: "index list"

datatype ddl = CreateTable string "column list" "(string option \<times> row_constraint) list"
  | DropTable string
  | AddColumn string column
  | DropColumn string string
  | CreateIndex string string "string list" bool "string option"
  | DropIndex string string
  | DropIndexIfExists string
  | AddConstraint string "string option" row_constraint
  | DropConstraint string "string option"
  | IfTable string "ddl list"
  | Attempt ddl

section \<open>What the database does\<close>

text \<open>The names PostgreSQL gives to unnamed constraints.\<close>

definition constraint_name :: "string \<Rightarrow> string option \<times> row_constraint \<Rightarrow> string" where
  "constraint_name t nk = (case nk of
     (Some n, _) \<Rightarrow> n
   | (None, PrimaryKey _) \<Rightarrow> t @ ''_pkey''
   | (None, UniqueKey cs) \<Rightarrow> t @ ''_'' @ concat (map (\<lambda>c. c @ ''_'') cs) @ ''key''
   | (None, CheckOn _) \<Rightarrow> t @ ''_check''
   | (None, CheckIn c _) \<Rightarrow> t @ ''_'' @ c @ ''_check''
   | (None, ForeignKey c _ _ _) \<Rightarrow> t @ ''_'' @ c @ ''_fkey'')"

fun constraint_columns :: "row_constraint \<Rightarrow> string list" where
  "constraint_columns (PrimaryKey cs) = cs"
| "constraint_columns (UniqueKey cs) = cs"
| "constraint_columns (CheckOn _) = []"
| "constraint_columns (CheckIn c _) = [c]"
| "constraint_columns (ForeignKey c _ _ _) = [c]"

fun refers_to :: "string \<Rightarrow> row_constraint \<Rightarrow> bool" where
  "refers_to t (ForeignKey _ r _ _) = (r = t)"
| "refers_to t _ = False"

definition has_column :: "string \<Rightarrow> db_table \<Rightarrow> bool" where
  "has_column c b \<longleftrightarrow> list_ex (\<lambda>x. co_name x = c) (tb_columns b)"

definition find_table :: "db_table list \<Rightarrow> string \<Rightarrow> db_table option" where
  "find_table s t = find (\<lambda>b. tb_name b = t) s"

definition has_table :: "db_table list \<Rightarrow> string \<Rightarrow> bool" where
  "has_table s t \<longleftrightarrow> list_ex (\<lambda>b. tb_name b = t) s"

text \<open>Change one table if it is there and the change is allowed.\<close>

definition on_table :: "string \<Rightarrow> (db_table \<Rightarrow> db_table option) \<Rightarrow> db_table list \<Rightarrow> db_table list option" where
  "on_table t f s = (case find_table s t of None \<Rightarrow> None
     | Some b \<Rightarrow> (case f b of None \<Rightarrow> None
         | Some b' \<Rightarrow> Some (map (\<lambda>x. if tb_name x = t then b' else x) s)))"

definition legal_constraint :: "db_table list \<Rightarrow> db_table \<Rightarrow> row_constraint \<Rightarrow> bool" where
  "legal_constraint s b k \<longleftrightarrow> list_all (\<lambda>c. has_column c b) (constraint_columns k)
     \<and> (case k of ForeignKey _ r _ _ \<Rightarrow> has_table s r \<or> r = tb_name b | _ \<Rightarrow> True)"

definition new_table :: "string \<Rightarrow> column list \<Rightarrow> (string option \<times> row_constraint) list \<Rightarrow> db_table" where
  "new_table t cs ks = \<lparr>tb_name = t, tb_columns = cs,
     tb_constraints = map (\<lambda>k. (constraint_name t k, snd k)) ks, tb_indexes = []\<rparr>"

definition add_column :: "bool \<Rightarrow> column \<Rightarrow> db_table \<Rightarrow> db_table option" where
  "add_column filled c b =
     (if has_column (co_name c) b \<or> (filled \<and> \<not> co_nullable c \<and> co_default c = None) then None
      else Some (b\<lparr>tb_columns := tb_columns b @ [c]\<rparr>))"

definition drop_column :: "string \<Rightarrow> db_table \<Rightarrow> db_table option" where
  "drop_column c b =
     (if has_column c b
      then Some (b\<lparr>tb_columns := filter (\<lambda>x. co_name x \<noteq> c) (tb_columns b),
        tb_constraints := filter (\<lambda>k. c \<notin> set (constraint_columns (snd k))) (tb_constraints b),
        tb_indexes := filter (\<lambda>i. c \<notin> set (ix_columns i)) (tb_indexes b)\<rparr>)
      else None)"

definition add_index :: "index \<Rightarrow> db_table \<Rightarrow> db_table option" where
  "add_index i b = (if list_all (\<lambda>c. has_column c b) (ix_columns i)
     then Some (b\<lparr>tb_indexes := tb_indexes b @ [i]\<rparr>) else None)"

definition drop_index :: "string \<Rightarrow> db_table \<Rightarrow> db_table option" where
  "drop_index n b = (if list_ex (\<lambda>i. ix_name i = n) (tb_indexes b)
     then Some (b\<lparr>tb_indexes := filter (\<lambda>i. ix_name i \<noteq> n) (tb_indexes b)\<rparr>) else None)"

definition add_constraint :: "string \<times> row_constraint \<Rightarrow> db_table \<Rightarrow> db_table option" where
  "add_constraint nk b = (if list_ex (\<lambda>k. fst k = fst nk) (tb_constraints b) then None
     else Some (b\<lparr>tb_constraints := tb_constraints b @ [nk]\<rparr>))"

definition drop_constraint :: "string \<Rightarrow> db_table \<Rightarrow> db_table option" where
  "drop_constraint n b = (if list_ex (\<lambda>k. fst k = n) (tb_constraints b)
     then Some (b\<lparr>tb_constraints := filter (\<lambda>k. fst k \<noteq> n) (tb_constraints b)\<rparr>) else None)"

text \<open>
  \<open>full t\<close> says that table \<open>t\<close> has rows. A dropped table must not be referred to by another one;
  Alembic refuses to drop a constraint without a name.
\<close>

fun perform :: "(string \<Rightarrow> bool) \<Rightarrow> ddl \<Rightarrow> db_table list \<Rightarrow> db_table list option"
and run_ddl :: "(string \<Rightarrow> bool) \<Rightarrow> ddl list \<Rightarrow> db_table list \<Rightarrow> db_table list option" where
  "perform full (CreateTable t cs ks) s =
     (let b = new_table t cs ks in
      if has_table s t \<or> \<not> list_all (legal_constraint s b) (map snd ks) then None else Some (s @ [b]))"
| "perform full (DropTable t) s =
     (if has_table s t \<and> \<not> list_ex (\<lambda>b. tb_name b \<noteq> t \<and> list_ex (refers_to t) (map snd (tb_constraints b))) s
      then Some (filter (\<lambda>b. tb_name b \<noteq> t) s) else None)"
| "perform full (AddColumn t c) s = on_table t (add_column (full t) c) s"
| "perform full (DropColumn t c) s = on_table t (drop_column c) s"
| "perform full (CreateIndex n t cs u w) s =
     (if list_ex (\<lambda>b. list_ex (\<lambda>i. ix_name i = n) (tb_indexes b)) s then None
      else on_table t (add_index \<lparr>ix_name = n, ix_columns = cs, ix_unique = u, ix_where = w\<rparr>) s)"
| "perform full (DropIndex n t) s = on_table t (drop_index n) s"
| "perform full (DropIndexIfExists n) s =
     Some (map (\<lambda>b. b\<lparr>tb_indexes := filter (\<lambda>i. ix_name i \<noteq> n) (tb_indexes b)\<rparr>) s)"
| "perform full (AddConstraint t n k) s =
     on_table t (\<lambda>b. if legal_constraint s b k then add_constraint (constraint_name t (n, k), k) b else None) s"
| "perform full (DropConstraint t n) s = (case n of None \<Rightarrow> None | Some m \<Rightarrow> on_table t (drop_constraint m) s)"
| "perform full (IfTable t xs) s = (if has_table s t then run_ddl full xs s else Some s)"
| "perform full (Attempt x) s = (case perform full x s of None \<Rightarrow> Some s | Some s' \<Rightarrow> Some s')"
| "run_ddl full [] s = Some s"
| "run_ddl full (x # xs) s = (case perform full x s of None \<Rightarrow> None | Some s' \<Rightarrow> run_ddl full xs s')"

section \<open>The revisions\<close>

record revision =
  rv_id :: string
  rv_parent :: "string option"
  rv_upgrade :: "ddl list"
  rv_downgrade :: "ddl list"

text \<open>\<open>init\<close>\<close>

definition rev_be5f55e6e768 :: revision where
  "rev_be5f55e6e768 = \<lparr>rv_id = ''be5f55e6e768'', rv_parent = None,
     rv_upgrade = [], rv_downgrade = []\<rparr>"

text \<open>\<open>create_slice2_models\<close>\<close>

definition upgrade_f37193ec5195 :: "ddl list" where
  "upgrade_f37193ec5195 = [
    CreateTable ''organizations''
      [Column ''id'' ''UUID'' False None,
       Column ''name'' ''VARCHAR(255)'' False None,
       Column ''created_at'' ''TIMESTAMPTZ'' False None]
      [(None, PrimaryKey [''id''])],
    CreateTable ''users''
      [Column ''id'' ''UUID'' False None,
       Column ''organization_id'' ''UUID'' False None,
       Column ''email'' ''VARCHAR(255)'' False None,
       Column ''hashed_password'' ''VARCHAR(255)'' False None,
       Column ''full_name'' ''VARCHAR(255)'' False None,
       Column ''is_active'' ''BOOLEAN'' False None,
       Column ''created_at'' ''TIMESTAMPTZ'' False None]
      [(None, ForeignKey ''organization_id'' ''organizations'' ''id'' ''CASCADE''),
       (None, PrimaryKey [''id'']),
       (None, UniqueKey [''email''])],
    CreateTable ''audit_events''
      [Column ''id'' ''UUID'' False None,
       Column ''organization_id'' ''UUID'' False None,
       Column ''user_id'' ''UUID'' True None,
       Column ''action'' ''VARCHAR(100)'' False None,
       Column ''entity_type'' ''VARCHAR(100)'' False None,
       Column ''entity_id'' ''UUID'' False None,
       Column ''details'' ''JSONB'' True None,
       Column ''ip_address'' ''VARCHAR(50)'' True None,
       Column ''created_at'' ''TIMESTAMPTZ'' False None]
      [(None, ForeignKey ''organization_id'' ''organizations'' ''id'' ''CASCADE''),
       (None, ForeignKey ''user_id'' ''users'' ''id'' ''SET NULL''),
       (None, PrimaryKey [''id''])],
    CreateTable ''proposal_projects''
      [Column ''id'' ''UUID'' False None,
       Column ''organization_id'' ''UUID'' False None,
       Column ''name'' ''VARCHAR(255)'' False None,
       Column ''client_name'' ''VARCHAR(255)'' False None,
       Column ''due_date'' ''TIMESTAMPTZ'' True None,
       Column ''status'' ''VARCHAR(50)'' False None,
       Column ''created_by_id'' ''UUID'' False None,
       Column ''created_at'' ''TIMESTAMPTZ'' False None,
       Column ''updated_at'' ''TIMESTAMPTZ'' False None]
      [(None, ForeignKey ''created_by_id'' ''users'' ''id'' ''CASCADE''),
       (None, ForeignKey ''organization_id'' ''organizations'' ''id'' ''CASCADE''),
       (None, PrimaryKey [''id''])],
    CreateTable ''documents''
      [Column ''id'' ''UUID'' False None,
       Column ''project_id'' ''UUID'' False None,
       Column ''name'' ''VARCHAR(255)'' False None,
       Column ''file_path'' ''VARCHAR(512)'' False None,
       Column ''file_type'' ''VARCHAR(255)'' False None,
       Column ''doc_role'' ''VARCHAR(50)'' False None,
       Column ''content'' ''TEXT'' True None,
       Column ''processing_status'' ''VARCHAR(50)'' False None,
       Column ''created_by_id'' ''UUID'' False None,
       Column ''created_at'' ''TIMESTAMPTZ'' False None,
       Column ''updated_at'' ''TIMESTAMPTZ'' False None]
      [(None, ForeignKey ''created_by_id'' ''users'' ''id'' ''CASCADE''),
       (None, ForeignKey ''project_id'' ''proposal_projects'' ''id'' ''CASCADE''),
       (None, PrimaryKey [''id''])],
    CreateTable ''document_pages''
      [Column ''id'' ''UUID'' False None,
       Column ''document_id'' ''UUID'' False None,
       Column ''page_number'' ''INTEGER'' False None,
       Column ''content'' ''TEXT'' False None]
      [(None, ForeignKey ''document_id'' ''documents'' ''id'' ''CASCADE''),
       (None, PrimaryKey [''id''])],
    CreateTable ''requirements''
      [Column ''id'' ''UUID'' False None,
       Column ''project_id'' ''UUID'' False None,
       Column ''identifier'' ''VARCHAR(100)'' True None,
       Column ''text'' ''TEXT'' False None,
       Column ''page_number'' ''INTEGER'' True None,
       Column ''source_document_id'' ''UUID'' True None,
       Column ''status'' ''VARCHAR(50)'' False None,
       Column ''created_at'' ''TIMESTAMPTZ'' False None,
       Column ''updated_at'' ''TIMESTAMPTZ'' False None]
      [(None, ForeignKey ''project_id'' ''proposal_projects'' ''id'' ''CASCADE''),
       (None, ForeignKey ''source_document_id'' ''documents'' ''id'' ''SET NULL''),
       (None, PrimaryKey [''id''])],
    CreateTable ''draft_responses''
      [Column ''id'' ''UUID'' False None,
       Column ''requirement_id'' ''UUID'' False None,
       Column ''content'' ''TEXT'' False None,
       Column ''status'' ''VARCHAR(50)'' False None,
       Column ''approved_by_id'' ''UUID'' True None,
       Column ''created_at'' ''TIMESTAMPTZ'' False None,
       Column ''updated_at'' ''TIMESTAMPTZ'' False None]
      [(None, ForeignKey ''approved_by_id'' ''users'' ''id'' ''SET NULL''),
       (None, ForeignKey ''requirement_id'' ''requirements'' ''id'' ''CASCADE''),
       (None, PrimaryKey [''id'']),
       (None, UniqueKey [''requirement_id''])],
    CreateTable ''evidence_links''
      [Column ''id'' ''UUID'' False None,
       Column ''requirement_id'' ''UUID'' False None,
       Column ''document_id'' ''UUID'' False None,
       Column ''snippet'' ''TEXT'' False None,
       Column ''page_number'' ''INTEGER'' True None,
       Column ''score'' ''FLOAT'' False None,
       Column ''created_at'' ''TIMESTAMPTZ'' False None]
      [(None, ForeignKey ''document_id'' ''documents'' ''id'' ''CASCADE''),
       (None, ForeignKey ''requirement_id'' ''requirements'' ''id'' ''CASCADE''),
       (None, PrimaryKey [''id''])],
    CreateTable ''review_tasks''
      [Column ''id'' ''UUID'' False None,
       Column ''requirement_id'' ''UUID'' False None,
       Column ''assigned_to_id'' ''UUID'' True None,
       Column ''reviewer_notes'' ''TEXT'' True None,
       Column ''status'' ''VARCHAR(50)'' False None,
       Column ''created_at'' ''TIMESTAMPTZ'' False None,
       Column ''resolved_at'' ''TIMESTAMPTZ'' True None]
      [(None, ForeignKey ''assigned_to_id'' ''users'' ''id'' ''SET NULL''),
       (None, ForeignKey ''requirement_id'' ''requirements'' ''id'' ''CASCADE''),
       (None, PrimaryKey [''id''])]]"

definition downgrade_f37193ec5195 :: "ddl list" where
  "downgrade_f37193ec5195 = [
    DropTable ''review_tasks'',
    DropTable ''evidence_links'',
    DropTable ''draft_responses'',
    DropTable ''requirements'',
    DropTable ''document_pages'',
    DropTable ''documents'',
    DropTable ''proposal_projects'',
    DropTable ''audit_events'',
    DropTable ''users'',
    DropTable ''organizations'']"

definition rev_f37193ec5195 :: revision where
  "rev_f37193ec5195 = \<lparr>rv_id = ''f37193ec5195'', rv_parent = Some ''be5f55e6e768'',
     rv_upgrade = upgrade_f37193ec5195, rv_downgrade = downgrade_f37193ec5195\<rparr>"

text \<open>\<open>update_requirement_slice3\<close>\<close>

definition upgrade_966c2d5c6d72 :: "ddl list" where
  "upgrade_966c2d5c6d72 = [
    AddColumn ''requirements'' (Column ''original_text'' ''TEXT'' False None),
    AddColumn ''requirements'' (Column ''source_section'' ''VARCHAR(100)'' True None),
    AddColumn ''requirements'' (Column ''source_page'' ''INTEGER'' True None),
    AddColumn ''requirements'' (Column ''requirement_type'' ''VARCHAR(100)'' True None),
    AddColumn ''requirements'' (Column ''mandatory'' ''BOOLEAN'' False None),
    AddColumn ''requirements'' (Column ''owner_name'' ''VARCHAR(255)'' True None),
    AddColumn ''requirements'' (Column ''proposal_section'' ''VARCHAR(100)'' True None),
    AddColumn ''requirements'' (Column ''risk_level'' ''VARCHAR(50)'' True None),
    DropColumn ''requirements'' ''identifier'',
    DropColumn ''requirements'' ''text'',
    DropColumn ''requirements'' ''page_number'']"

definition downgrade_966c2d5c6d72 :: "ddl list" where
  "downgrade_966c2d5c6d72 = [
    AddColumn ''requirements'' (Column ''page_number'' ''INTEGER'' True None),
    AddColumn ''requirements'' (Column ''text'' ''TEXT'' False None),
    AddColumn ''requirements'' (Column ''identifier'' ''VARCHAR(100)'' True None),
    DropColumn ''requirements'' ''risk_level'',
    DropColumn ''requirements'' ''proposal_section'',
    DropColumn ''requirements'' ''owner_name'',
    DropColumn ''requirements'' ''mandatory'',
    DropColumn ''requirements'' ''requirement_type'',
    DropColumn ''requirements'' ''source_page'',
    DropColumn ''requirements'' ''source_section'',
    DropColumn ''requirements'' ''original_text'']"

definition rev_966c2d5c6d72 :: revision where
  "rev_966c2d5c6d72 = \<lparr>rv_id = ''966c2d5c6d72'', rv_parent = Some ''f37193ec5195'',
     rv_upgrade = upgrade_966c2d5c6d72, rv_downgrade = downgrade_966c2d5c6d72\<rparr>"

text \<open>\<open>update_document_slice4\<close>\<close>

definition upgrade_950eb46a82b7 :: "ddl list" where
  "upgrade_950eb46a82b7 = [
    AddColumn ''documents'' (Column ''owner_name'' ''VARCHAR(255)'' True None),
    AddColumn ''documents'' (Column ''tags'' ''TEXT'' True None),
    AddColumn ''documents'' (Column ''approval_status'' ''VARCHAR(50)'' False (Some ''PENDING'')),
    AddColumn ''documents'' (Column ''version'' ''VARCHAR(50)'' True None),
    AddColumn ''documents'' (Column ''review_date'' ''TIMESTAMPTZ'' True None)]"

definition downgrade_950eb46a82b7 :: "ddl list" where
  "downgrade_950eb46a82b7 = [
    DropColumn ''documents'' ''review_date'',
    DropColumn ''documents'' ''version'',
    DropColumn ''documents'' ''approval_status'',
    DropColumn ''documents'' ''tags'',
    DropColumn ''documents'' ''owner_name'']"

definition rev_950eb46a82b7 :: revision where
  "rev_950eb46a82b7 = \<lparr>rv_id = ''950eb46a82b7'', rv_parent = Some ''966c2d5c6d72'',
     rv_upgrade = upgrade_950eb46a82b7, rv_downgrade = downgrade_950eb46a82b7\<rparr>"

text \<open>\<open>update_draft_response_slice5\<close>\<close>

definition upgrade_ba7653529c7f :: "ddl list" where
  "upgrade_ba7653529c7f = [
    AddColumn ''draft_responses'' (Column ''confidence'' ''FLOAT'' False None),
    AddColumn ''draft_responses'' (Column ''needs_evidence'' ''BOOLEAN'' False None),
    AddColumn ''draft_responses'' (Column ''assumptions'' ''TEXT'' True None)]"

definition downgrade_ba7653529c7f :: "ddl list" where
  "downgrade_ba7653529c7f = [
    DropColumn ''draft_responses'' ''assumptions'',
    DropColumn ''draft_responses'' ''needs_evidence'',
    DropColumn ''draft_responses'' ''confidence'']"

definition rev_ba7653529c7f :: revision where
  "rev_ba7653529c7f = \<lparr>rv_id = ''ba7653529c7f'', rv_parent = Some ''950eb46a82b7'',
     rv_upgrade = upgrade_ba7653529c7f, rv_downgrade = downgrade_ba7653529c7f\<rparr>"

text \<open>\<open>remove_unique_constraint_and_add_version\<close>\<close>

definition upgrade_e35c547f0798 :: "ddl list" where
  "upgrade_e35c547f0798 = [
    AddColumn ''draft_responses'' (Column ''version'' ''INTEGER'' False (Some ''1'')),
    DropConstraint ''draft_responses'' (Some ''draft_responses_requirement_id_key'')]"

definition downgrade_e35c547f0798 :: "ddl list" where
  "downgrade_e35c547f0798 = [
    AddConstraint ''draft_responses'' (Some ''draft_responses_requirement_id_key'') (UniqueKey [''requirement_id'']),
    DropColumn ''draft_responses'' ''version'']"

definition rev_e35c547f0798 :: revision where
  "rev_e35c547f0798 = \<lparr>rv_id = ''e35c547f0798'', rv_parent = Some ''ba7653529c7f'',
     rv_upgrade = upgrade_e35c547f0798, rv_downgrade = downgrade_e35c547f0798\<rparr>"

text \<open>\<open>add_fk_indexes\<close>\<close>

definition upgrade_013771a9e13b :: "ddl list" where
  "upgrade_013771a9e13b = [
    CreateIndex ''ix_document_pages_document_id'' ''document_pages'' [''document_id''] False None,
    CreateIndex ''ix_documents_project_id'' ''documents'' [''project_id''] False None,
    CreateIndex ''ix_draft_responses_requirement_id'' ''draft_responses'' [''requirement_id''] False None,
    CreateIndex ''ix_requirements_project_id'' ''requirements'' [''project_id''] False None,
    CreateIndex ''ix_requirements_source_document_id'' ''requirements'' [''source_document_id''] False None]"

definition downgrade_013771a9e13b :: "ddl list" where
  "downgrade_013771a9e13b = [
    DropIndex ''ix_requirements_source_document_id'' ''requirements'',
    DropIndex ''ix_requirements_project_id'' ''requirements'',
    DropIndex ''ix_draft_responses_requirement_id'' ''draft_responses'',
    DropIndex ''ix_documents_project_id'' ''documents'',
    DropIndex ''ix_document_pages_document_id'' ''document_pages'']"

definition rev_013771a9e13b :: revision where
  "rev_013771a9e13b = \<lparr>rv_id = ''013771a9e13b'', rv_parent = Some ''e35c547f0798'',
     rv_upgrade = upgrade_013771a9e13b, rv_downgrade = downgrade_013771a9e13b\<rparr>"

text \<open>\<open>add_processing_error_to_document\<close>\<close>

definition upgrade_143119456f57 :: "ddl list" where
  "upgrade_143119456f57 = [
    AddColumn ''documents'' (Column ''processing_error'' ''TEXT'' True None)]"

definition downgrade_143119456f57 :: "ddl list" where
  "downgrade_143119456f57 = [
    DropColumn ''documents'' ''processing_error'']"

definition rev_143119456f57 :: revision where
  "rev_143119456f57 = \<lparr>rv_id = ''143119456f57'', rv_parent = Some ''013771a9e13b'',
     rv_upgrade = upgrade_143119456f57, rv_downgrade = downgrade_143119456f57\<rparr>"

text \<open>\<open>add_reviewer_assignment_and_comments\<close>\<close>

definition upgrade_ef0310e3c06f :: "ddl list" where
  "upgrade_ef0310e3c06f = [
    CreateTable ''requirement_comments''
      [Column ''id'' ''UUID'' False None,
       Column ''requirement_id'' ''UUID'' False None,
       Column ''author_user_id'' ''UUID'' False None,
       Column ''content'' ''TEXT'' False None,
       Column ''decision_type'' ''VARCHAR(50)'' False None,
       Column ''created_at'' ''TIMESTAMPTZ'' False None]
      [(None, ForeignKey ''author_user_id'' ''users'' ''id'' ''CASCADE''),
       (None, ForeignKey ''requirement_id'' ''requirements'' ''id'' ''CASCADE''),
       (None, PrimaryKey [''id''])],
    CreateIndex ''ix_requirement_comments_author_user_id'' ''requirement_comments'' [''author_user_id''] False None,
    CreateIndex ''ix_requirement_comments_requirement_id'' ''requirement_comments'' [''requirement_id''] False None,
    AddColumn ''requirements'' (Column ''assigned_to_user_id'' ''UUID'' True None),
    AddColumn ''requirements'' (Column ''assigned_by_user_id'' ''UUID'' True None),
    AddColumn ''requirements'' (Column ''assigned_at'' ''TIMESTAMPTZ'' True None),
    CreateIndex ''ix_requirements_assigned_by_user_id'' ''requirements'' [''assigned_by_user_id''] False None,
    CreateIndex ''ix_requirements_assigned_to_user_id'' ''requirements'' [''assigned_to_user_id''] False None,
    AddConstraint ''requirements'' None (ForeignKey ''assigned_to_user_id'' ''users'' ''id'' ''SET NULL''),
    AddConstraint ''requirements'' None (ForeignKey ''assigned_by_user_id'' ''users'' ''id'' ''SET NULL'')]"

definition downgrade_ef0310e3c06f :: "ddl list" where
  "downgrade_ef0310e3c06f = [
    DropConstraint ''requirements'' None,
    DropConstraint ''requirements'' None,
    DropIndex ''ix_requirements_assigned_to_user_id'' ''requirements'',
    DropIndex ''ix_requirements_assigned_by_user_id'' ''requirements'',
    DropColumn ''requirements'' ''assigned_at'',
    DropColumn ''requirements'' ''assigned_by_user_id'',
    DropColumn ''requirements'' ''assigned_to_user_id'',
    DropIndex ''ix_requirement_comments_requirement_id'' ''requirement_comments'',
    DropIndex ''ix_requirement_comments_author_user_id'' ''requirement_comments'',
    DropTable ''requirement_comments'']"

definition rev_ef0310e3c06f :: revision where
  "rev_ef0310e3c06f = \<lparr>rv_id = ''ef0310e3c06f'', rv_parent = Some ''143119456f57'',
     rv_upgrade = upgrade_ef0310e3c06f, rv_downgrade = downgrade_ef0310e3c06f\<rparr>"

text \<open>\<open>create_processing_jobs_table\<close>\<close>

definition upgrade_f0093fb3f942 :: "ddl list" where
  "upgrade_f0093fb3f942 = [
    CreateTable ''processing_jobs''
      [Column ''id'' ''UUID'' False None,
       Column ''org_id'' ''UUID'' False None,
       Column ''project_id'' ''UUID'' True None,
       Column ''document_id'' ''UUID'' True None,
       Column ''job_type'' ''VARCHAR(100)'' False None,
       Column ''status'' ''VARCHAR(50)'' False None,
       Column ''progress_percent'' ''INTEGER'' True None,
       Column ''current_step'' ''VARCHAR(255)'' True None,
       Column ''attempts'' ''INTEGER'' False None,
       Column ''max_attempts'' ''INTEGER'' False None,
       Column ''error_type'' ''VARCHAR(255)'' True None,
       Column ''safe_error_message'' ''TEXT'' True None,
       Column ''started_at'' ''TIMESTAMPTZ'' True None,
       Column ''finished_at'' ''TIMESTAMPTZ'' True None,
       Column ''created_by_user_id'' ''UUID'' True None,
       Column ''created_at'' ''TIMESTAMPTZ'' False None,
       Column ''updated_at'' ''TIMESTAMPTZ'' False None]
      [(None, ForeignKey ''created_by_user_id'' ''users'' ''id'' ''SET NULL''),
       (None, ForeignKey ''document_id'' ''documents'' ''id'' ''CASCADE''),
       (None, ForeignKey ''org_id'' ''organizations'' ''id'' ''CASCADE''),
       (None, ForeignKey ''project_id'' ''proposal_projects'' ''id'' ''CASCADE''),
       (None, PrimaryKey [''id''])],
    CreateIndex ''ix_processing_jobs_document_id'' ''processing_jobs'' [''document_id''] False None,
    CreateIndex ''ix_processing_jobs_org_id'' ''processing_jobs'' [''org_id''] False None,
    CreateIndex ''ix_processing_jobs_project_id'' ''processing_jobs'' [''project_id''] False None]"

definition downgrade_f0093fb3f942 :: "ddl list" where
  "downgrade_f0093fb3f942 = [
    DropIndex ''ix_processing_jobs_project_id'' ''processing_jobs'',
    DropIndex ''ix_processing_jobs_org_id'' ''processing_jobs'',
    DropIndex ''ix_processing_jobs_document_id'' ''processing_jobs'',
    DropTable ''processing_jobs'']"

definition rev_f0093fb3f942 :: revision where
  "rev_f0093fb3f942 = \<lparr>rv_id = ''f0093fb3f942'', rv_parent = Some ''ef0310e3c06f'',
     rv_upgrade = upgrade_f0093fb3f942, rv_downgrade = downgrade_f0093fb3f942\<rparr>"

text \<open>\<open>add_request_id_to_audit_events\<close>\<close>

definition upgrade_35bf60412d49 :: "ddl list" where
  "upgrade_35bf60412d49 = [
    AddColumn ''audit_events'' (Column ''request_id'' ''VARCHAR(50)'' True None)]"

definition downgrade_35bf60412d49 :: "ddl list" where
  "downgrade_35bf60412d49 = [
    DropColumn ''audit_events'' ''request_id'']"

definition rev_35bf60412d49 :: revision where
  "rev_35bf60412d49 = \<lparr>rv_id = ''35bf60412d49'', rv_parent = Some ''f0093fb3f942'',
     rv_upgrade = upgrade_35bf60412d49, rv_downgrade = downgrade_35bf60412d49\<rparr>"

text \<open>\<open>add_request_id_to_processing_jobs\<close>\<close>

definition upgrade_ce1d99d00aeb :: "ddl list" where
  "upgrade_ce1d99d00aeb = [
    AddColumn ''processing_jobs'' (Column ''request_id'' ''VARCHAR(50)'' True None)]"

definition downgrade_ce1d99d00aeb :: "ddl list" where
  "downgrade_ce1d99d00aeb = [
    DropColumn ''processing_jobs'' ''request_id'']"

definition rev_ce1d99d00aeb :: revision where
  "rev_ce1d99d00aeb = \<lparr>rv_id = ''ce1d99d00aeb'', rv_parent = Some ''35bf60412d49'',
     rv_upgrade = upgrade_ce1d99d00aeb, rv_downgrade = downgrade_ce1d99d00aeb\<rparr>"

text \<open>\<open>create_pilot_feedback_table\<close>\<close>

definition upgrade_7a14e99f1390 :: "ddl list" where
  "upgrade_7a14e99f1390 = [
    CreateTable ''pilot_feedbacks''
      [Column ''id'' ''UUID'' False None,
       Column ''project_id'' ''UUID'' True None,
       Column ''requirement_id'' ''UUID'' True None,
       Column ''category'' ''VARCHAR(50)'' False None,
       Column ''severity'' ''VARCHAR(50)'' False None,
       Column ''message'' ''TEXT'' False None,
       Column ''created_by_user_id'' ''UUID'' False None,
       Column ''organization_id'' ''UUID'' False None,
       Column ''created_at'' ''TIMESTAMPTZ'' False None,
       Column ''status'' ''VARCHAR(50)'' False None]
      [(None, ForeignKey ''created_by_user_id'' ''users'' ''id'' ''CASCADE''),
       (None, ForeignKey ''organization_id'' ''organizations'' ''id'' ''CASCADE''),
       (None, ForeignKey ''project_id'' ''proposal_projects'' ''id'' ''SET NULL''),
       (None, ForeignKey ''requirement_id'' ''requirements'' ''id'' ''SET NULL''),
       (None, PrimaryKey [''id''])],
    CreateIndex ''ix_pilot_feedbacks_created_by_user_id'' ''pilot_feedbacks'' [''created_by_user_id''] False None,
    CreateIndex ''ix_pilot_feedbacks_organization_id'' ''pilot_feedbacks'' [''organization_id''] False None,
    CreateIndex ''ix_pilot_feedbacks_project_id'' ''pilot_feedbacks'' [''project_id''] False None,
    CreateIndex ''ix_pilot_feedbacks_requirement_id'' ''pilot_feedbacks'' [''requirement_id''] False None]"

definition downgrade_7a14e99f1390 :: "ddl list" where
  "downgrade_7a14e99f1390 = [
    DropIndex ''ix_pilot_feedbacks_requirement_id'' ''pilot_feedbacks'',
    DropIndex ''ix_pilot_feedbacks_project_id'' ''pilot_feedbacks'',
    DropIndex ''ix_pilot_feedbacks_organization_id'' ''pilot_feedbacks'',
    DropIndex ''ix_pilot_feedbacks_created_by_user_id'' ''pilot_feedbacks'',
    DropTable ''pilot_feedbacks'']"

definition rev_7a14e99f1390 :: revision where
  "rev_7a14e99f1390 = \<lparr>rv_id = ''7a14e99f1390'', rv_parent = Some ''ce1d99d00aeb'',
     rv_upgrade = upgrade_7a14e99f1390, rv_downgrade = downgrade_7a14e99f1390\<rparr>"

text \<open>\<open>add_document_ingestion_security_metadata\<close>\<close>

definition upgrade_04ffd9fbcedb :: "ddl list" where
  "upgrade_04ffd9fbcedb = [
    AddColumn ''documents'' (Column ''ingestion_status'' ''VARCHAR(30)'' False (Some ''LEGACY_UNVERIFIED'')),
    AddColumn ''documents'' (Column ''display_filename'' ''VARCHAR(255)'' True None),
    AddColumn ''documents'' (Column ''detected_content_type'' ''VARCHAR(255)'' True None),
    AddColumn ''documents'' (Column ''sha256_digest'' ''VARCHAR(64)'' True None),
    AddColumn ''documents'' (Column ''file_size_bytes'' ''BIGINT'' True None),
    AddColumn ''documents'' (Column ''quarantined_at'' ''TIMESTAMPTZ'' True None),
    AddColumn ''documents'' (Column ''scan_status'' ''VARCHAR(30)'' True None),
    AddColumn ''documents'' (Column ''scan_engine_version'' ''VARCHAR(100)'' True None),
    AddColumn ''documents'' (Column ''scan_signature_version'' ''VARCHAR(100)'' True None),
    AddColumn ''documents'' (Column ''scan_completed_at'' ''TIMESTAMPTZ'' True None),
    AddColumn ''documents'' (Column ''content_policy_status'' ''VARCHAR(30)'' True None),
    AddColumn ''documents'' (Column ''parser_version'' ''VARCHAR(100)'' True None),
    AddColumn ''documents'' (Column ''parser_completed_at'' ''TIMESTAMPTZ'' True None),
    AddColumn ''documents'' (Column ''rejection_reason_code'' ''VARCHAR(100)'' True None),
    AddColumn ''documents'' (Column ''operator_failure_summary'' ''TEXT'' True None),
    AddConstraint ''documents'' (Some ''ck_documents_ingestion_status_valid'') (CheckIn ''ingestion_status''
        [''QUARANTINED'', ''VALIDATING'', ''SCANNING'', ''SCAN_RETRY_PENDING'', ''REJECTED_TYPE'',
        ''REJECTED_MALWARE'', ''REJECTED_CONTENT_POLICY'', ''CLEAN'', ''PARSING'', ''PARSE_FAILED'',
        ''COMPLETED'', ''LEGACY_UNVERIFIED''])]"

definition downgrade_04ffd9fbcedb :: "ddl list" where
  "downgrade_04ffd9fbcedb = [
    DropConstraint ''documents'' (Some ''ck_documents_ingestion_status_valid''),
    DropColumn ''documents'' ''operator_failure_summary'',
    DropColumn ''documents'' ''rejection_reason_code'',
    DropColumn ''documents'' ''parser_completed_at'',
    DropColumn ''documents'' ''parser_version'',
    DropColumn ''documents'' ''content_policy_status'',
    DropColumn ''documents'' ''scan_completed_at'',
    DropColumn ''documents'' ''scan_signature_version'',
    DropColumn ''documents'' ''scan_engine_version'',
    DropColumn ''documents'' ''scan_status'',
    DropColumn ''documents'' ''quarantined_at'',
    DropColumn ''documents'' ''file_size_bytes'',
    DropColumn ''documents'' ''sha256_digest'',
    DropColumn ''documents'' ''detected_content_type'',
    DropColumn ''documents'' ''display_filename'',
    DropColumn ''documents'' ''ingestion_status'']"

definition rev_04ffd9fbcedb :: revision where
  "rev_04ffd9fbcedb = \<lparr>rv_id = ''04ffd9fbcedb'', rv_parent = Some ''7a14e99f1390'',
     rv_upgrade = upgrade_04ffd9fbcedb, rv_downgrade = downgrade_04ffd9fbcedb\<rparr>"

text \<open>\<open>add_scan_failed_and_clean_pending_\<close>\<close>

definition upgrade_a969356849bf :: "ddl list" where
  "upgrade_a969356849bf = [
    DropConstraint ''documents'' (Some ''ck_documents_ingestion_status_valid''),
    AddColumn ''documents'' (Column ''scan_started_at'' ''TIMESTAMPTZ'' True None),
    AddColumn ''documents'' (Column ''scan_attempt_count'' ''INTEGER'' False (Some ''0'')),
    AddColumn ''documents'' (Column ''content_policy_version'' ''VARCHAR(50)'' True None),
    AddColumn ''documents'' (Column ''scan_digest_snapshot'' ''VARCHAR(64)'' True None),
    AddConstraint ''documents'' (Some ''ck_documents_ingestion_status_valid'') (CheckIn ''ingestion_status''
        [''QUARANTINED'', ''VALIDATING'', ''SCANNING'', ''REJECTED_TYPE'', ''REJECTED_MALWARE'',
        ''REJECTED_CONTENT_POLICY'', ''SCAN_FAILED'', ''CLEAN_PENDING_PROMOTION'', ''CLEAN'', ''PARSING'',
        ''PARSE_FAILED'', ''COMPLETED'', ''LEGACY_UNVERIFIED''])]"

definition downgrade_a969356849bf :: "ddl list" where
  "downgrade_a969356849bf = [
    DropConstraint ''documents'' (Some ''ck_documents_ingestion_status_valid''),
    DropColumn ''documents'' ''scan_digest_snapshot'',
    DropColumn ''documents'' ''content_policy_version'',
    DropColumn ''documents'' ''scan_attempt_count'',
    DropColumn ''documents'' ''scan_started_at'',
    AddConstraint ''documents'' (Some ''ck_documents_ingestion_status_valid'') (CheckIn ''ingestion_status''
        [''QUARANTINED'', ''VALIDATING'', ''SCANNING'', ''SCAN_RETRY_PENDING'', ''REJECTED_TYPE'',
        ''REJECTED_MALWARE'', ''REJECTED_CONTENT_POLICY'', ''CLEAN'', ''PARSING'', ''PARSE_FAILED'',
        ''COMPLETED'', ''LEGACY_UNVERIFIED''])]"

definition rev_a969356849bf :: revision where
  "rev_a969356849bf = \<lparr>rv_id = ''a969356849bf'', rv_parent = Some ''04ffd9fbcedb'',
     rv_upgrade = upgrade_a969356849bf, rv_downgrade = downgrade_a969356849bf\<rparr>"

text \<open>\<open>add_promoting_and_promotion_failed\<close>\<close>

definition upgrade_b82741d7293a :: "ddl list" where
  "upgrade_b82741d7293a = [
    DropConstraint ''documents'' (Some ''ck_documents_ingestion_status_valid''),
    AddColumn ''documents'' (Column ''promotion_started_at'' ''TIMESTAMPTZ'' True None),
    AddColumn ''documents'' (Column ''promotion_completed_at'' ''TIMESTAMPTZ'' True None),
    AddColumn ''documents'' (Column ''promotion_attempt_count'' ''INTEGER'' False (Some ''0'')),
    AddColumn ''documents'' (Column ''clean_storage_identifier'' ''VARCHAR(255)'' True None),
    AddColumn ''documents'' (Column ''cleanup_pending'' ''BOOLEAN'' False (Some ''false'')),
    AddConstraint ''documents'' (Some ''ck_documents_ingestion_status_valid'') (CheckIn ''ingestion_status''
        [''QUARANTINED'', ''VALIDATING'', ''SCANNING'', ''REJECTED_TYPE'', ''REJECTED_MALWARE'',
        ''REJECTED_CONTENT_POLICY'', ''SCAN_FAILED'', ''CLEAN_PENDING_PROMOTION'', ''PROMOTING'',
        ''PROMOTION_FAILED'', ''CLEAN'', ''PARSING'', ''PARSE_FAILED'', ''COMPLETED'', ''LEGACY_UNVERIFIED''])]"

definition downgrade_b82741d7293a :: "ddl list" where
  "downgrade_b82741d7293a = [
    DropConstraint ''documents'' (Some ''ck_documents_ingestion_status_valid''),
    DropColumn ''documents'' ''cleanup_pending'',
    DropColumn ''documents'' ''clean_storage_identifier'',
    DropColumn ''documents'' ''promotion_attempt_count'',
    DropColumn ''documents'' ''promotion_completed_at'',
    DropColumn ''documents'' ''promotion_started_at'',
    AddConstraint ''documents'' (Some ''ck_documents_ingestion_status_valid'') (CheckIn ''ingestion_status''
        [''QUARANTINED'', ''VALIDATING'', ''SCANNING'', ''REJECTED_TYPE'', ''REJECTED_MALWARE'',
        ''REJECTED_CONTENT_POLICY'', ''SCAN_FAILED'', ''CLEAN_PENDING_PROMOTION'', ''CLEAN'', ''PARSING'',
        ''PARSE_FAILED'', ''COMPLETED'', ''LEGACY_UNVERIFIED''])]"

definition rev_b82741d7293a :: revision where
  "rev_b82741d7293a = \<lparr>rv_id = ''b82741d7293a'', rv_parent = Some ''a969356849bf'',
     rv_upgrade = upgrade_b82741d7293a, rv_downgrade = downgrade_b82741d7293a\<rparr>"

text \<open>\<open>add_documentpage_provenance_and_parse_metadata\<close>\<close>

definition upgrade_c5a1e2d3f4b5 :: "ddl list" where
  "upgrade_c5a1e2d3f4b5 = [
    AddColumn ''documents'' (Column ''parse_started_at'' ''TIMESTAMPTZ'' True None),
    AddColumn ''documents'' (Column ''parse_attempt_count'' ''INTEGER'' False (Some ''0'')),
    AddColumn ''documents'' (Column ''parse_attempt_id'' ''VARCHAR(36)'' True None),
    AddColumn ''documents'' (Column ''parse_error_code'' ''VARCHAR(100)'' True None),
    IfTable ''document_pages'' [AddColumn ''document_pages'' (Column ''unit_kind'' ''VARCHAR(50)'' True None),
        AddColumn ''document_pages'' (Column ''source_locator'' ''VARCHAR(255)'' True None), AddColumn
        ''document_pages'' (Column ''content_sha256'' ''VARCHAR(64)'' True None), Attempt (AddConstraint
        ''document_pages'' (Some ''uq_document_pages_doc_id_page_num'') (UniqueKey [''document_id'',
        ''page_number'']))]]"

definition downgrade_c5a1e2d3f4b5 :: "ddl list" where
  "downgrade_c5a1e2d3f4b5 = [
    IfTable ''document_pages'' [Attempt (DropConstraint ''document_pages'' (Some
        ''uq_document_pages_doc_id_page_num'')), DropColumn ''document_pages'' ''content_sha256'', DropColumn
        ''document_pages'' ''source_locator'', DropColumn ''document_pages'' ''unit_kind''],
    DropColumn ''documents'' ''parse_error_code'',
    DropColumn ''documents'' ''parse_attempt_id'',
    DropColumn ''documents'' ''parse_attempt_count'',
    DropColumn ''documents'' ''parse_started_at'']"

definition rev_c5a1e2d3f4b5 :: revision where
  "rev_c5a1e2d3f4b5 = \<lparr>rv_id = ''c5a1e2d3f4b5'', rv_parent = Some ''b82741d7293a'',
     rv_upgrade = upgrade_c5a1e2d3f4b5, rv_downgrade = downgrade_c5a1e2d3f4b5\<rparr>"

text \<open>\<open>add_extraction_runs_requirement_candidates\<close>\<close>

definition upgrade_d1e2f3a4b5c6 :: "ddl list" where
  "upgrade_d1e2f3a4b5c6 = [
    CreateTable ''extraction_runs''
      [Column ''id'' ''UUID'' False None,
       Column ''organization_id'' ''UUID'' False None,
       Column ''project_id'' ''UUID'' False None,
       Column ''document_id'' ''UUID'' False None,
       Column ''status'' ''VARCHAR(20)'' False (Some ''PENDING''),
       Column ''extraction_attempt_id'' ''VARCHAR(36)'' False None,
       Column ''input_snapshot_sha256'' ''VARCHAR(64)'' False None,
       Column ''page_count'' ''INTEGER'' False None,
       Column ''parser_version'' ''VARCHAR(100)'' True None,
       Column ''extraction_schema_version'' ''VARCHAR(50)'' False None,
       Column ''prompt_version'' ''VARCHAR(50)'' False None,
       Column ''provider'' ''VARCHAR(100)'' True None,
       Column ''model'' ''VARCHAR(100)'' True None,
       Column ''candidate_count'' ''INTEGER'' False (Some ''0''),
       Column ''failure_code'' ''VARCHAR(100)'' True None,
       Column ''started_at'' ''TIMESTAMPTZ'' True None,
       Column ''completed_at'' ''TIMESTAMPTZ'' True None,
       Column ''created_at'' ''TIMESTAMPTZ'' False None]
      [((Some ''pk_extraction_runs''), PrimaryKey [''id'']),
              ((Some ''fk_extraction_runs_organization_id''), ForeignKey ''organization_id'' ''organizations''
        ''id'' ''CASCADE''),
              ((Some ''fk_extraction_runs_project_id''), ForeignKey ''project_id'' ''proposal_projects''
        ''id'' ''CASCADE''),
       ((Some ''fk_extraction_runs_document_id''), ForeignKey ''document_id'' ''documents'' ''id'' ''CASCADE''),
       ((Some ''ck_extraction_runs_status''), CheckOn ''status IN ('PENDING','RUNNING','COMPLETED','FAILED')''),
       ((Some ''ck_extraction_runs_candidate_count_nonneg''), CheckOn ''candidate_count >= 0''),
       ((Some ''ck_extraction_runs_page_count_nonneg''), CheckOn ''page_count >= 0'')],
    CreateIndex ''ix_extraction_runs_organization_id'' ''extraction_runs'' [''organization_id''] False None,
    CreateIndex ''ix_extraction_runs_project_id'' ''extraction_runs'' [''project_id''] False None,
    CreateIndex ''ix_extraction_runs_document_id'' ''extraction_runs'' [''document_id''] False None,
    CreateIndex ''uq_extraction_runs_completed_snapshot'' ''extraction_runs'' [''document_id'',
        ''input_snapshot_sha256'', ''extraction_schema_version'', ''prompt_version''] True (Some
        ''status = COMPLETED''),
    CreateTable ''requirement_candidates''
      [Column ''id'' ''UUID'' False None,
       Column ''organization_id'' ''UUID'' False None,
       Column ''project_id'' ''UUID'' False None,
       Column ''extraction_run_id'' ''UUID'' False None,
       Column ''document_id'' ''UUID'' False None,
       Column ''document_page_id'' ''UUID'' False None,
       Column ''page_content_sha256'' ''VARCHAR(64)'' False None,
       Column ''unit_kind'' ''VARCHAR(50)'' False None,
       Column ''source_locator'' ''VARCHAR(255)'' False None,
       Column ''span_start'' ''INTEGER'' False None,
       Column ''span_end'' ''INTEGER'' False None,
       Column ''evidence_text'' ''TEXT'' False None,
       Column ''evidence_sha256'' ''VARCHAR(64)'' False None,
       Column ''normalized_requirement_text'' ''TEXT'' False None,
       Column ''requirement_type'' ''VARCHAR(100)'' True None,
       Column ''confidence'' ''FLOAT'' True None,
       Column ''uncertainty_reason'' ''VARCHAR(500)'' True None,
       Column ''extraction_schema_version'' ''VARCHAR(50)'' False None,
       Column ''candidate_status'' ''VARCHAR(20)'' False (Some ''PROPOSED''),
       Column ''reviewed_at'' ''TIMESTAMPTZ'' True None,
       Column ''reviewed_by'' ''UUID'' True None,
       Column ''reviewer_comment'' ''VARCHAR(1000)'' True None,
       Column ''created_at'' ''TIMESTAMPTZ'' False None]
      [((Some ''pk_requirement_candidates''), PrimaryKey [''id'']),
              ((Some ''fk_requirement_candidates_org_id''), ForeignKey ''organization_id'' ''organizations''
        ''id'' ''CASCADE''),
              ((Some ''fk_requirement_candidates_project_id''), ForeignKey ''project_id''
        ''proposal_projects'' ''id'' ''CASCADE''),
              ((Some ''fk_requirement_candidates_run_id''), ForeignKey ''extraction_run_id''
        ''extraction_runs'' ''id'' ''CASCADE''),
       ((Some ''fk_requirement_candidates_doc_id''), ForeignKey ''document_id'' ''documents'' ''id'' ''CASCADE''),
              ((Some ''fk_requirement_candidates_page_id''), ForeignKey ''document_page_id''
        ''document_pages'' ''id'' ''CASCADE''),
              ((Some ''fk_requirement_candidates_reviewed_by''), ForeignKey ''reviewed_by'' ''users'' ''id''
        ''SET NULL''),
              ((Some ''ck_requirement_candidates_status''), CheckOn
        ''candidate_status IN ('PROPOSED','APPROVED','EDITED','REJECTED','SUPERSEDED')''),
       ((Some ''ck_requirement_candidates_span_start_nonneg''), CheckOn ''span_start >= 0''),
       ((Some ''ck_requirement_candidates_span_end_gt_start''), CheckOn ''span_end > span_start''),
              ((Some ''ck_requirement_candidates_confidence_range''), CheckOn
        ''(confidence IS NULL) OR (confidence >= 0.0 AND confidence <= 1.0)'')],
    CreateIndex ''ix_requirement_candidates_org_id'' ''requirement_candidates'' [''organization_id''] False None,
    CreateIndex ''ix_requirement_candidates_project_id'' ''requirement_candidates'' [''project_id''] False None,
    CreateIndex ''ix_requirement_candidates_run_id'' ''requirement_candidates'' [''extraction_run_id''] False None,
    CreateIndex ''ix_requirement_candidates_doc_id'' ''requirement_candidates'' [''document_id''] False None,
    CreateIndex ''ix_requirement_candidates_page_id'' ''requirement_candidates'' [''document_page_id''] False None,
    CreateTable ''candidate_review_tasks''
      [Column ''id'' ''UUID'' False None,
       Column ''organization_id'' ''UUID'' False None,
       Column ''project_id'' ''UUID'' False None,
       Column ''candidate_id'' ''UUID'' False None,
       Column ''extraction_run_id'' ''UUID'' False None,
       Column ''task_type'' ''VARCHAR(50)'' False (Some ''REQUIREMENT_CANDIDATE_REVIEW''),
       Column ''source_locator'' ''VARCHAR(255)'' False None,
       Column ''assigned_to_id'' ''UUID'' True None,
       Column ''status'' ''VARCHAR(50)'' False (Some ''OPEN''),
       Column ''created_at'' ''TIMESTAMPTZ'' False None,
       Column ''resolved_at'' ''TIMESTAMPTZ'' True None]
      [((Some ''pk_candidate_review_tasks''), PrimaryKey [''id'']),
       ((Some ''uq_candidate_review_tasks_candidate_id''), UniqueKey [''candidate_id'']),
              ((Some ''fk_candidate_review_tasks_org_id''), ForeignKey ''organization_id'' ''organizations''
        ''id'' ''CASCADE''),
              ((Some ''fk_candidate_review_tasks_project_id''), ForeignKey ''project_id''
        ''proposal_projects'' ''id'' ''CASCADE''),
              ((Some ''fk_candidate_review_tasks_candidate_id''), ForeignKey ''candidate_id''
        ''requirement_candidates'' ''id'' ''CASCADE''),
              ((Some ''fk_candidate_review_tasks_run_id''), ForeignKey ''extraction_run_id''
        ''extraction_runs'' ''id'' ''CASCADE''),
              ((Some ''fk_candidate_review_tasks_assigned_to''), ForeignKey ''assigned_to_id'' ''users''
        ''id'' ''SET NULL''),
              ((Some ''ck_candidate_review_tasks_type''), CheckOn
        (''task_type = 'REQUIREMENT_CANDIDATE_REVIEW'' @ [CHR 0x27]))],
    CreateIndex ''ix_candidate_review_tasks_org_id'' ''candidate_review_tasks'' [''organization_id''] False None,
    CreateIndex ''ix_candidate_review_tasks_project_id'' ''candidate_review_tasks'' [''project_id''] False None,
    CreateIndex ''ix_candidate_review_tasks_candidate_id'' ''candidate_review_tasks'' [''candidate_id''] False None,
    CreateIndex ''ix_candidate_review_tasks_run_id'' ''candidate_review_tasks'' [''extraction_run_id''] False None]"

definition downgrade_d1e2f3a4b5c6 :: "ddl list" where
  "downgrade_d1e2f3a4b5c6 = [
    DropTable ''candidate_review_tasks'',
    DropTable ''requirement_candidates'',
    DropIndexIfExists ''uq_extraction_runs_completed_snapshot'',
    DropTable ''extraction_runs'']"

definition rev_d1e2f3a4b5c6 :: revision where
  "rev_d1e2f3a4b5c6 = \<lparr>rv_id = ''d1e2f3a4b5c6'', rv_parent = Some ''c5a1e2d3f4b5'',
     rv_upgrade = upgrade_d1e2f3a4b5c6, rv_downgrade = downgrade_d1e2f3a4b5c6\<rparr>"

text \<open>\<open>add_user_can_review_requirements\<close>\<close>

definition upgrade_e2f3a4b5c6d7 :: "ddl list" where
  "upgrade_e2f3a4b5c6d7 = [
    AddColumn ''users'' (Column ''can_review_requirements'' ''BOOLEAN'' False (Some ''false''))]"

definition downgrade_e2f3a4b5c6d7 :: "ddl list" where
  "downgrade_e2f3a4b5c6d7 = [
    DropColumn ''users'' ''can_review_requirements'']"

definition rev_e2f3a4b5c6d7 :: revision where
  "rev_e2f3a4b5c6d7 = \<lparr>rv_id = ''e2f3a4b5c6d7'', rv_parent = Some ''d1e2f3a4b5c6'',
     rv_upgrade = upgrade_e2f3a4b5c6d7, rv_downgrade = downgrade_e2f3a4b5c6d7\<rparr>"

text \<open>\<open>add_candidate_review_linkage\<close>\<close>

definition upgrade_f3a4b5c6d7e8 :: "ddl list" where
  "upgrade_f3a4b5c6d7e8 = [
    AddColumn ''requirements'' (Column ''source_candidate_id'' ''UUID'' True None),
    AddConstraint ''requirements'' (Some ''uq_requirements_source_candidate_id'') (UniqueKey
        [''source_candidate_id'']),
    CreateIndex ''ix_requirements_source_candidate_id'' ''requirements'' [''source_candidate_id''] False None,
    AddConstraint ''requirements'' (Some ''fk_requirements_source_candidate_id'') (ForeignKey
        ''source_candidate_id'' ''requirement_candidates'' ''id'' ''RESTRICT''),
    AddColumn ''requirement_candidates'' (Column ''reviewer_edited_text'' ''TEXT'' True None),
    AddColumn ''extraction_runs'' (Column ''received_candidate_count'' ''INTEGER'' False (Some ''0'')),
    AddColumn ''extraction_runs'' (Column ''accepted_candidate_count'' ''INTEGER'' False (Some ''0'')),
    AddColumn ''extraction_runs'' (Column ''skipped_candidate_count'' ''INTEGER'' False (Some ''0'')),
    AddColumn ''extraction_runs'' (Column ''validation_issue_counts'' ''JSONB'' True None)]"

definition downgrade_f3a4b5c6d7e8 :: "ddl list" where
  "downgrade_f3a4b5c6d7e8 = [
    DropColumn ''extraction_runs'' ''validation_issue_counts'',
    DropColumn ''extraction_runs'' ''skipped_candidate_count'',
    DropColumn ''extraction_runs'' ''accepted_candidate_count'',
    DropColumn ''extraction_runs'' ''received_candidate_count'',
    DropColumn ''requirement_candidates'' ''reviewer_edited_text'',
    DropConstraint ''requirements'' (Some ''fk_requirements_source_candidate_id''),
    DropIndex ''ix_requirements_source_candidate_id'' ''requirements'',
    DropConstraint ''requirements'' (Some ''uq_requirements_source_candidate_id''),
    DropColumn ''requirements'' ''source_candidate_id'']"

definition rev_f3a4b5c6d7e8 :: revision where
  "rev_f3a4b5c6d7e8 = \<lparr>rv_id = ''f3a4b5c6d7e8'', rv_parent = Some ''e2f3a4b5c6d7'',
     rv_upgrade = upgrade_f3a4b5c6d7e8, rv_downgrade = downgrade_f3a4b5c6d7e8\<rparr>"

text \<open>\<open>add_extraction_run_usage_counters\<close>\<close>

definition upgrade_a4b5c6d7e8f9 :: "ddl list" where
  "upgrade_a4b5c6d7e8f9 = [
    AddColumn ''extraction_runs'' (Column ''provider_call_count'' ''INTEGER'' False (Some ''0'')),
    AddColumn ''extraction_runs'' (Column ''input_tokens'' ''INTEGER'' False (Some ''0'')),
    AddColumn ''extraction_runs'' (Column ''output_tokens'' ''INTEGER'' False (Some ''0'')),
    AddColumn ''extraction_runs'' (Column ''cache_creation_input_tokens'' ''INTEGER'' False (Some ''0'')),
    AddColumn ''extraction_runs'' (Column ''cache_read_input_tokens'' ''INTEGER'' False (Some ''0'')),
    AddColumn ''extraction_runs'' (Column ''duration_ms'' ''INTEGER'' False (Some ''0''))]"

definition downgrade_a4b5c6d7e8f9 :: "ddl list" where
  "downgrade_a4b5c6d7e8f9 = [
    DropColumn ''extraction_runs'' ''duration_ms'',
    DropColumn ''extraction_runs'' ''cache_read_input_tokens'',
    DropColumn ''extraction_runs'' ''cache_creation_input_tokens'',
    DropColumn ''extraction_runs'' ''output_tokens'',
    DropColumn ''extraction_runs'' ''input_tokens'',
    DropColumn ''extraction_runs'' ''provider_call_count'']"

definition rev_a4b5c6d7e8f9 :: revision where
  "rev_a4b5c6d7e8f9 = \<lparr>rv_id = ''a4b5c6d7e8f9'', rv_parent = Some ''f3a4b5c6d7e8'',
     rv_upgrade = upgrade_a4b5c6d7e8f9, rv_downgrade = downgrade_a4b5c6d7e8f9\<rparr>"

definition versions :: "revision list" where
  "versions = [rev_be5f55e6e768,
     rev_f37193ec5195,
     rev_966c2d5c6d72,
     rev_950eb46a82b7,
     rev_ba7653529c7f,
     rev_e35c547f0798,
     rev_013771a9e13b,
     rev_143119456f57,
     rev_ef0310e3c06f,
     rev_f0093fb3f942,
     rev_35bf60412d49,
     rev_ce1d99d00aeb,
     rev_7a14e99f1390,
     rev_04ffd9fbcedb,
     rev_a969356849bf,
     rev_b82741d7293a,
     rev_c5a1e2d3f4b5,
     rev_d1e2f3a4b5c6,
     rev_e2f3a4b5c6d7,
     rev_f3a4b5c6d7e8,
     rev_a4b5c6d7e8f9]"

section \<open>What the chain of revisions does\<close>

fun chained :: "string option \<Rightarrow> revision list \<Rightarrow> bool" where
  "chained p [] = True"
| "chained p (r # rs) = (rv_parent r = p \<and> chained (Some (rv_id r)) rs)"

definition migrate :: "(string \<Rightarrow> bool) \<Rightarrow> revision list \<Rightarrow> db_table list \<Rightarrow> db_table list option" where
  "migrate full rs s = run_ddl full (concat (map rv_upgrade rs)) s"

text \<open>The revisions form one chain from the empty database.\<close>

lemma versions_are_chained: "chained None versions"
  by (simp add: versions_def rev_be5f55e6e768_def
    rev_f37193ec5195_def
    rev_966c2d5c6d72_def
    rev_950eb46a82b7_def
    rev_ba7653529c7f_def
    rev_e35c547f0798_def
    rev_013771a9e13b_def
    rev_143119456f57_def
    rev_ef0310e3c06f_def
    rev_f0093fb3f942_def
    rev_35bf60412d49_def
    rev_ce1d99d00aeb_def
    rev_7a14e99f1390_def
    rev_04ffd9fbcedb_def
    rev_a969356849bf_def
    rev_b82741d7293a_def
    rev_c5a1e2d3f4b5_def
    rev_d1e2f3a4b5c6_def
    rev_e2f3a4b5c6d7_def
    rev_f3a4b5c6d7e8_def
    rev_a4b5c6d7e8f9_def)

section \<open>Undoing\<close>

text \<open>The operation that takes another one back.\<close>

fun mirror :: "ddl \<Rightarrow> ddl" where
  "mirror (CreateTable t _ _) = DropTable t"
| "mirror (AddColumn t c) = DropColumn t (co_name c)"
| "mirror (CreateIndex n t _ _ _) = DropIndex n t"
| "mirror (AddConstraint t n _) = DropConstraint t n"
| "mirror x = x"

fun mirrors :: "ddl \<Rightarrow> bool" where
  "mirrors (CreateTable _ _ _) = True"
| "mirrors (AddColumn _ _) = True"
| "mirrors (CreateIndex _ _ _ _ _) = True"
| "mirrors (AddConstraint _ n _) = (n \<noteq> None)"
| "mirrors _ = False"

text \<open>Constraints and indexes speak of columns that are there, foreign keys of tables that are there.\<close>

definition table_ok :: "db_table list \<Rightarrow> db_table \<Rightarrow> bool" where
  "table_ok s b \<longleftrightarrow> (\<forall>k \<in> set (tb_constraints b). legal_constraint s b (snd k))
     \<and> (\<forall>i \<in> set (tb_indexes b). list_all (\<lambda>c. has_column c b) (ix_columns i))"

definition schema_ok :: "db_table list \<Rightarrow> bool" where
  "schema_ok s \<longleftrightarrow> distinct (map tb_name s) \<and> (\<forall>b \<in> set s. table_ok s b)"

lemma has_table_iff: "has_table s t \<longleftrightarrow> t \<in> set (map tb_name s)"
  by (auto simp: has_table_def list_ex_iff)

lemma has_column_iff: "has_column c b \<longleftrightarrow> c \<in> set (map co_name (tb_columns b))"
  by (auto simp: has_column_def list_ex_iff)

lemma find_table_in: "find_table s t = Some b \<Longrightarrow> b \<in> set s \<and> tb_name b = t"
  by (induction s) (auto simp: find_table_def split: if_splits)

lemma on_table_Some:
  "on_table t f s = Some s' \<Longrightarrow> \<exists>b b'. b \<in> set s \<and> tb_name b = t \<and> f b = Some b'
     \<and> s' = map (\<lambda>x. if tb_name x = t then b' else x) s"
  by (auto simp: on_table_def split: option.splits dest!: find_table_in)

lemma same_name: "distinct (map tb_name s) \<Longrightarrow> a \<in> set s \<Longrightarrow> b \<in> set s \<Longrightarrow> tb_name a = tb_name b \<Longrightarrow> a = b"
  by (auto simp: distinct_map inj_on_def)

lemma find_replaced:
  "b \<in> set s \<Longrightarrow> tb_name b = t \<Longrightarrow> tb_name b' = t \<Longrightarrow>
   find_table (map (\<lambda>x. if tb_name x = t then b' else x) s) t = Some b'"
  by (induction s) (auto simp: find_table_def)

lemma on_table_back:
  assumes "distinct (map tb_name s)" "b \<in> set s" "tb_name b = t" "tb_name b' = t" "g b' = Some b"
  shows "on_table t g (map (\<lambda>x. if tb_name x = t then b' else x) s) = Some s"
proof -
  have "map (\<lambda>x. if tb_name x = t then b else x) (map (\<lambda>x. if tb_name x = t then b' else x) s) = s"
    using assms(1-4) same_name [OF assms(1)] by (auto intro!: map_idI)
  then show ?thesis using find_replaced [OF assms(2-4)] assms(5) by (simp add: on_table_def)
qed

text \<open>A changed table that keeps its name, has no fewer columns and is itself in order keeps the schema in order.\<close>

lemma schema_ok_change:
  assumes "schema_ok s" "b \<in> set s" "tb_name b' = tb_name b" "table_ok s b'"
  shows "schema_ok (map (\<lambda>x. if tb_name x = tb_name b then b' else x) s)"
proof -
  let ?s = "map (\<lambda>x. if tb_name x = tb_name b then b' else x) s"
  have names: "map tb_name ?s = map tb_name s" using assms(3) by auto
  have "has_table ?s r = has_table s r" for r by (simp only: has_table_iff names)
  then have same: "legal_constraint ?s x k = legal_constraint s x k" for x k
    by (simp add: legal_constraint_def split: row_constraint.splits)
  have "table_ok ?s x = table_ok s x" for x by (simp add: table_ok_def same)
  moreover have "table_ok s x" if "x \<in> set ?s" for x using assms that by (auto simp: schema_ok_def)
  ultimately show ?thesis unfolding schema_ok_def names using assms(1) by (simp add: schema_ok_def)
qed

lemma columns_kept:
  "list_all (\<lambda>c. has_column c b) cs \<Longrightarrow> set (tb_columns b) \<subseteq> set (tb_columns b') \<Longrightarrow>
   list_all (\<lambda>c. has_column c b') cs"
  unfolding list_all_iff has_column_def list_ex_iff by blast

lemma legal_more_columns:
  "legal_constraint s b k \<Longrightarrow> tb_name b' = tb_name b \<Longrightarrow> set (tb_columns b) \<subseteq> set (tb_columns b') \<Longrightarrow>
   legal_constraint s b' k"
  using columns_kept [of b _ b'] by (simp add: legal_constraint_def split: row_constraint.splits)

lemma undo_add_column:
  assumes "add_column f c b = Some b'" "table_ok s b"
  shows "drop_column (co_name c) b' = Some b \<and> tb_name b' = tb_name b \<and> table_ok s b'"
proof -
  have b': "b' = b\<lparr>tb_columns := tb_columns b @ [c]\<rparr>" and fresh: "\<not> has_column (co_name c) b"
    using assms(1) by (auto simp: add_column_def split: if_splits)
  have k: "co_name c \<notin> set (constraint_columns (snd k))" if "k \<in> set (tb_constraints b)" for k
    using assms(2) fresh that by (auto simp: table_ok_def legal_constraint_def list_all_iff)
  have i: "co_name c \<notin> set (ix_columns i)" if "i \<in> set (tb_indexes b)" for i
    using assms(2) fresh that by (auto simp: table_ok_def list_all_iff)
  have "filter (\<lambda>x. co_name x \<noteq> co_name c) (tb_columns b) = tb_columns b"
    using fresh by (auto simp: has_column_def list_ex_iff intro!: filter_True)
  moreover have "filter (\<lambda>k. co_name c \<notin> set (constraint_columns (snd k))) (tb_constraints b) = tb_constraints b"
    using k by (auto intro!: filter_True)
  moreover have "filter (\<lambda>i. co_name c \<notin> set (ix_columns i)) (tb_indexes b) = tb_indexes b"
    using i by (auto intro!: filter_True)
  moreover have "table_ok s b'"
    using assms(2) by (auto simp: table_ok_def b' list_all_iff has_column_iff intro: legal_more_columns)
  ultimately show ?thesis by (simp add: b' drop_column_def has_column_iff)
qed

lemma undo_add_index:
  assumes "add_index i b = Some b'" "table_ok s b" "\<not> list_ex (\<lambda>j. ix_name j = ix_name i) (tb_indexes b)"
  shows "drop_index (ix_name i) b' = Some b \<and> tb_name b' = tb_name b \<and> table_ok s b'"
proof -
  have b': "b' = b\<lparr>tb_indexes := tb_indexes b @ [i]\<rparr>" and cs: "list_all (\<lambda>c. has_column c b) (ix_columns i)"
    using assms(1) by (auto simp: add_index_def split: if_splits)
  have "filter (\<lambda>j. ix_name j \<noteq> ix_name i) (tb_indexes b) = tb_indexes b"
    using assms(3) by (auto simp: list_ex_iff intro!: filter_True)
  moreover have "table_ok s b'"
    using assms(2) cs by (auto simp: table_ok_def b' has_column_def list_all_iff intro: legal_more_columns)
  ultimately show ?thesis by (simp add: b' drop_index_def)
qed

lemma undo_add_constraint:
  assumes "add_constraint (n, k) b = Some b'" "legal_constraint s b k" "table_ok s b"
  shows "drop_constraint n b' = Some b \<and> tb_name b' = tb_name b \<and> table_ok s b'"
proof -
  have b': "b' = b\<lparr>tb_constraints := tb_constraints b @ [(n, k)]\<rparr>"
    and fresh: "\<not> list_ex (\<lambda>k. fst k = n) (tb_constraints b)"
    using assms(1) by (auto simp: add_constraint_def split: if_splits)
  have "filter (\<lambda>k. fst k \<noteq> n) (tb_constraints b) = tb_constraints b"
    using fresh by (auto simp: list_ex_iff intro!: filter_True)
  moreover have "table_ok s b'"
    using assms(2,3) by (auto simp: table_ok_def b' has_column_def intro: legal_more_columns)
  ultimately show ?thesis by (simp add: b' drop_constraint_def)
qed

lemma undo_on_table:
  assumes ok: "schema_ok s" and run: "on_table t f s = Some s'"
    and undo: "\<And>b b'. b \<in> set s \<Longrightarrow> tb_name b = t \<Longrightarrow> f b = Some b' \<Longrightarrow>
      g b' = Some b \<and> tb_name b' = tb_name b \<and> table_ok s b'"
  shows "on_table t g s' = Some s \<and> schema_ok s'"
proof -
  obtain b b' where b: "b \<in> set s" "tb_name b = t" "f b = Some b'"
    and s': "s' = map (\<lambda>x. if tb_name x = t then b' else x) s"
    using on_table_Some [OF run] by blast
  note u = undo [OF b]
  have "distinct (map tb_name s)" using ok by (simp add: schema_ok_def)
  then show ?thesis
    using on_table_back [of s b t b' g] schema_ok_change [OF ok b(1), of b'] b u by (simp add: s')
qed

lemma undo_create_table:
  assumes ok: "schema_ok s" and run: "perform full (CreateTable t cs ks) s = Some s'"
  shows "perform full (DropTable t) s' = Some s \<and> schema_ok s'"
proof -
  let ?b = "new_table t cs ks"
  have s': "s' = s @ [?b]" and fresh: "\<not> has_table s t" and legal: "list_all (legal_constraint s ?b) (map snd ks)"
    using run by (auto simp: Let_def split: if_splits)
  have name: "tb_name ?b = t" by (simp add: new_table_def)
  have keep: "legal_constraint s b k \<Longrightarrow> legal_constraint s' b k" for b k
    by (auto simp: legal_constraint_def has_table_iff s' split: row_constraint.splits)
  have unreferred: "\<not> refers_to t k" if "b \<in> set s" "k \<in> set (map snd (tb_constraints b))" for b k
  proof -
    have "legal_constraint s b k" "tb_name b \<noteq> t"
      using ok fresh that by (auto simp: schema_ok_def table_ok_def has_table_iff)
    then show ?thesis using fresh by (cases k) (auto simp: legal_constraint_def)
  qed
  have "filter (\<lambda>b. tb_name b \<noteq> t) s = s" using fresh by (auto simp: has_table_iff intro!: filter_True)
  moreover have "\<not> list_ex (\<lambda>b. tb_name b \<noteq> t \<and> list_ex (refers_to t) (map snd (tb_constraints b))) s'"
    using unreferred name by (auto simp: list_ex_iff s')
  ultimately have "perform full (DropTable t) s' = Some s" using name by (simp add: s' has_table_iff)
  moreover have "table_ok s' ?b" using legal keep by (auto simp: table_ok_def new_table_def list_all_iff)
  moreover have "table_ok s' b" if "b \<in> set s" for b using ok that keep by (auto simp: schema_ok_def table_ok_def)
  ultimately show ?thesis using ok fresh name by (auto simp: schema_ok_def s' has_table_iff)
qed

text \<open>Every operation with a mirror is undone by it, in any schema that is in order.\<close>

lemma undo_step:
  assumes ok: "schema_ok s" and "mirrors x" and run: "perform full x s = Some s'"
  shows "perform full' (mirror x) s' = Some s \<and> schema_ok s'"
proof (cases x)
  case (CreateTable t cs ks)
  then show ?thesis using undo_create_table [OF ok] run by simp
next
  case (AddColumn t c)
  have "table_ok s b" if "b \<in> set s" for b using ok that by (simp add: schema_ok_def)
  then show ?thesis
    using run unfolding AddColumn by (auto intro!: undo_on_table [OF ok] dest: undo_add_column)
next
  case (CreateIndex n t cs u w)
  have "table_ok s b" if "b \<in> set s" for b using ok that by (simp add: schema_ok_def)
  moreover have "\<not> list_ex (\<lambda>j. ix_name j = n) (tb_indexes b)" if "b \<in> set s" for b
    using run that by (auto simp: CreateIndex list_ex_iff split: if_splits)
  ultimately have "drop_index n b' = Some b \<and> tb_name b' = tb_name b \<and> table_ok s b'"
    if "b \<in> set s" "add_index \<lparr>ix_name = n, ix_columns = cs, ix_unique = u, ix_where = w\<rparr> b = Some b'" for b b'
    using undo_add_index [OF that(2), of s] that(1) by simp
  then show ?thesis
    using run unfolding CreateIndex by (auto intro!: undo_on_table [OF ok] split: if_splits)
next
  case (AddConstraint t n k)
  then obtain m where m: "n = Some m" using assms(2) by auto
  have "drop_constraint m b' = Some b \<and> tb_name b' = tb_name b \<and> table_ok s b'"
    if "b \<in> set s" "(if legal_constraint s b k then add_constraint (constraint_name t (n, k), k) b else None) = Some b'"
    for b b'
    using that ok undo_add_constraint [of m k b b' s]
    by (auto simp: m constraint_name_def schema_ok_def split: if_splits)
  then show ?thesis
    using run unfolding AddConstraint m by (auto intro!: undo_on_table [OF ok] simp: m)
qed (use assms(2) in auto)

lemma run_ddl_append:
  "run_ddl full (xs @ ys) s = (case run_ddl full xs s of None \<Rightarrow> None | Some s' \<Rightarrow> run_ddl full ys s')"
  by (induction xs arbitrary: s) (auto split: option.splits)

lemma undo_run:
  "schema_ok s \<Longrightarrow> list_all mirrors xs \<Longrightarrow> run_ddl full xs s = Some s' \<Longrightarrow>
   run_ddl full' (rev (map mirror xs)) s' = Some s \<and> schema_ok s'"
proof (induction xs arbitrary: s)
  case Nil
  then show ?case by simp
next
  case (Cons x xs)
  then obtain s1 where s1: "perform full x s = Some s1" "run_ddl full xs s1 = Some s'"
    by (auto split: option.splits)
  have "perform full' (mirror x) s1 = Some s" "schema_ok s1"
    using undo_step [of s x full s1 full'] Cons.prems s1 by auto
  then show ?case using Cons.IH [of s1] Cons.prems s1 by (simp add: run_ddl_append)
qed

section \<open>What the downgrades undo\<close>

definition reversible :: "revision \<Rightarrow> bool" where
  "reversible r \<longleftrightarrow> list_all mirrors (rv_upgrade r) \<and> rv_downgrade r = rev (map mirror (rv_upgrade r))"

text \<open>
  The downgrade of a reversible revision restores the schema exactly, whatever the database held before
  the upgrade and holds now.
\<close>

lemma downgrade_restores_schema:
  assumes "schema_ok s" and "reversible r" and "run_ddl full (rv_upgrade r) s = Some s'"
  shows "run_ddl full' (rv_downgrade r) s' = Some s"
  using assms undo_run [of s "rv_upgrade r" full s' full'] by (simp add: reversible_def)

lemma reversible_be5f55e6e768: "reversible rev_be5f55e6e768"
  by (simp add: reversible_def rev_be5f55e6e768_def)

lemma reversible_f37193ec5195: "reversible rev_f37193ec5195"
  by (simp add: reversible_def rev_f37193ec5195_def upgrade_f37193ec5195_def downgrade_f37193ec5195_def)

lemma reversible_950eb46a82b7: "reversible rev_950eb46a82b7"
  by (simp add: reversible_def rev_950eb46a82b7_def upgrade_950eb46a82b7_def downgrade_950eb46a82b7_def)

lemma reversible_ba7653529c7f: "reversible rev_ba7653529c7f"
  by (simp add: reversible_def rev_ba7653529c7f_def upgrade_ba7653529c7f_def downgrade_ba7653529c7f_def)

lemma reversible_013771a9e13b: "reversible rev_013771a9e13b"
  by (simp add: reversible_def rev_013771a9e13b_def upgrade_013771a9e13b_def downgrade_013771a9e13b_def)

lemma reversible_143119456f57: "reversible rev_143119456f57"
  by (simp add: reversible_def rev_143119456f57_def upgrade_143119456f57_def downgrade_143119456f57_def)

lemma reversible_f0093fb3f942: "reversible rev_f0093fb3f942"
  by (simp add: reversible_def rev_f0093fb3f942_def upgrade_f0093fb3f942_def downgrade_f0093fb3f942_def)

lemma reversible_35bf60412d49: "reversible rev_35bf60412d49"
  by (simp add: reversible_def rev_35bf60412d49_def upgrade_35bf60412d49_def downgrade_35bf60412d49_def)

lemma reversible_ce1d99d00aeb: "reversible rev_ce1d99d00aeb"
  by (simp add: reversible_def rev_ce1d99d00aeb_def upgrade_ce1d99d00aeb_def downgrade_ce1d99d00aeb_def)

lemma reversible_7a14e99f1390: "reversible rev_7a14e99f1390"
  by (simp add: reversible_def rev_7a14e99f1390_def upgrade_7a14e99f1390_def downgrade_7a14e99f1390_def)

lemma reversible_04ffd9fbcedb: "reversible rev_04ffd9fbcedb"
  by (simp add: reversible_def rev_04ffd9fbcedb_def upgrade_04ffd9fbcedb_def downgrade_04ffd9fbcedb_def)

lemma reversible_e2f3a4b5c6d7: "reversible rev_e2f3a4b5c6d7"
  by (simp add: reversible_def rev_e2f3a4b5c6d7_def upgrade_e2f3a4b5c6d7_def downgrade_e2f3a4b5c6d7_def)

lemma reversible_f3a4b5c6d7e8: "reversible rev_f3a4b5c6d7e8"
  by (simp add: reversible_def rev_f3a4b5c6d7e8_def upgrade_f3a4b5c6d7e8_def downgrade_f3a4b5c6d7e8_def)

lemma reversible_a4b5c6d7e8f9: "reversible rev_a4b5c6d7e8f9"
  by (simp add: reversible_def rev_a4b5c6d7e8f9_def upgrade_a4b5c6d7e8f9_def downgrade_a4b5c6d7e8f9_def)


lemma reversible_revisions: "list_all reversible [rev_be5f55e6e768,
    rev_f37193ec5195,
    rev_950eb46a82b7,
    rev_ba7653529c7f,
    rev_013771a9e13b,
    rev_143119456f57,
    rev_f0093fb3f942,
    rev_35bf60412d49,
    rev_ce1d99d00aeb,
    rev_7a14e99f1390,
    rev_04ffd9fbcedb,
    rev_e2f3a4b5c6d7,
    rev_f3a4b5c6d7e8,
    rev_a4b5c6d7e8f9]"
  by (simp add: reversible_be5f55e6e768
    reversible_f37193ec5195
    reversible_950eb46a82b7
    reversible_ba7653529c7f
    reversible_013771a9e13b
    reversible_143119456f57
    reversible_f0093fb3f942
    reversible_35bf60412d49
    reversible_ce1d99d00aeb
    reversible_7a14e99f1390
    reversible_04ffd9fbcedb
    reversible_e2f3a4b5c6d7
    reversible_f3a4b5c6d7e8
    reversible_a4b5c6d7e8f9)

text \<open>One downgrade is refused on every schema: it drops two constraints that it does not name.\<close>

lemma one_downgrade_never_works: "run_ddl full downgrade_ef0310e3c06f s = None"
  by (simp add: downgrade_ef0310e3c06f_def)

lemma filled_column_refused:
  "full t \<Longrightarrow> \<not> co_nullable c \<Longrightarrow> co_default c = None \<Longrightarrow> run_ddl full (AddColumn t c # xs) s = None"
  by (simp add: on_table_def add_column_def split: option.splits)

text \<open>Two upgrades need empty tables: they add a column that must be filled, without a default.\<close>

lemma requirements_must_be_empty:
  "full ''requirements'' \<Longrightarrow> run_ddl full upgrade_966c2d5c6d72 s = None"
  unfolding upgrade_966c2d5c6d72_def by (rule filled_column_refused) simp_all

lemma drafts_must_be_empty:
  "full ''draft_responses'' \<Longrightarrow> run_ddl full upgrade_ba7653529c7f s = None"
  unfolding upgrade_ba7653529c7f_def by (rule filled_column_refused) simp_all

text \<open>The first revision with tables runs on the empty database, so the lemmas above speak of something.\<close>

lemmas run_simps = on_table_def find_table_def has_table_def has_column_def legal_constraint_def
  new_table_def add_column_def drop_column_def add_index_def drop_index_def add_constraint_def
  drop_constraint_def constraint_name_def Let_def

lemma tables_created: "run_ddl full upgrade_f37193ec5195 [] \<noteq> None"
  by (simp add: upgrade_f37193ec5195_def run_simps)

lemma tables_dropped_again:
  "\<exists>s. run_ddl full upgrade_f37193ec5195 [] = Some s \<and> run_ddl full' downgrade_f37193ec5195 s = Some []"
proof -
  obtain s where s: "run_ddl full upgrade_f37193ec5195 [] = Some s" using tables_created by blast
  have "schema_ok []" by (simp add: schema_ok_def)
  from downgrade_restores_schema [OF this reversible_f37193ec5195, of full s full'] s
  show ?thesis by (simp add: rev_f37193ec5195_def)
qed

section \<open>The statuses the database accepts\<close>

definition ingestion_text :: "ingestion_status \<Rightarrow> string" where
  "ingestion_text st = (case st of
     QUARANTINED \<Rightarrow> ''QUARANTINED'' | VALIDATING \<Rightarrow> ''VALIDATING'' | SCANNING \<Rightarrow> ''SCANNING''
   | REJECTED_TYPE \<Rightarrow> ''REJECTED_TYPE'' | REJECTED_MALWARE \<Rightarrow> ''REJECTED_MALWARE''
   | REJECTED_CONTENT_POLICY \<Rightarrow> ''REJECTED_CONTENT_POLICY'' | SCAN_FAILED \<Rightarrow> ''SCAN_FAILED''
   | CLEAN_PENDING_PROMOTION \<Rightarrow> ''CLEAN_PENDING_PROMOTION'' | PROMOTING \<Rightarrow> ''PROMOTING''
   | PROMOTION_FAILED \<Rightarrow> ''PROMOTION_FAILED'' | CLEAN \<Rightarrow> ''CLEAN'' | PARSING \<Rightarrow> ''PARSING''
   | PARSE_FAILED \<Rightarrow> ''PARSE_FAILED'' | COMPLETED \<Rightarrow> ''COMPLETED''
   | LEGACY_UNVERIFIED \<Rightarrow> ''LEGACY_UNVERIFIED'' | UnknownStatus t \<Rightarrow> t)"

fun status_check :: "ddl \<Rightarrow> string list list" where
  "status_check (AddConstraint _ _ (CheckIn _ ss)) = [ss]"
| "status_check _ = []"

definition accepted_statuses :: "string list" where
  "accepted_statuses = last (concat (map status_check (concat (map rv_upgrade versions))))"

lemma accepted_statuses:
  "accepted_statuses = [''QUARANTINED'', ''VALIDATING'', ''SCANNING'', ''REJECTED_TYPE'', ''REJECTED_MALWARE'',
     ''REJECTED_CONTENT_POLICY'', ''SCAN_FAILED'', ''CLEAN_PENDING_PROMOTION'', ''PROMOTING'',
     ''PROMOTION_FAILED'', ''CLEAN'', ''PARSING'', ''PARSE_FAILED'', ''COMPLETED'', ''LEGACY_UNVERIFIED'']"
  by (simp add: accepted_statuses_def versions_def rev_be5f55e6e768_def
    rev_f37193ec5195_def upgrade_f37193ec5195_def
    rev_966c2d5c6d72_def upgrade_966c2d5c6d72_def
    rev_950eb46a82b7_def upgrade_950eb46a82b7_def
    rev_ba7653529c7f_def upgrade_ba7653529c7f_def
    rev_e35c547f0798_def upgrade_e35c547f0798_def
    rev_013771a9e13b_def upgrade_013771a9e13b_def
    rev_143119456f57_def upgrade_143119456f57_def
    rev_ef0310e3c06f_def upgrade_ef0310e3c06f_def
    rev_f0093fb3f942_def upgrade_f0093fb3f942_def
    rev_35bf60412d49_def upgrade_35bf60412d49_def
    rev_ce1d99d00aeb_def upgrade_ce1d99d00aeb_def
    rev_7a14e99f1390_def upgrade_7a14e99f1390_def
    rev_04ffd9fbcedb_def upgrade_04ffd9fbcedb_def
    rev_a969356849bf_def upgrade_a969356849bf_def
    rev_b82741d7293a_def upgrade_b82741d7293a_def
    rev_c5a1e2d3f4b5_def upgrade_c5a1e2d3f4b5_def
    rev_d1e2f3a4b5c6_def upgrade_d1e2f3a4b5c6_def
    rev_e2f3a4b5c6d7_def upgrade_e2f3a4b5c6d7_def
    rev_f3a4b5c6d7e8_def upgrade_f3a4b5c6d7e8_def
    rev_a4b5c6d7e8f9_def upgrade_a4b5c6d7e8f9_def)

text \<open>The check the revisions leave on \<open>documents\<close> accepts exactly the statuses of the code.\<close>

lemma database_accepts_the_statuses:
  "st \<notin> range UnknownStatus \<Longrightarrow> ingestion_text st \<in> set accepted_statuses"
  "t \<in> set accepted_statuses \<Longrightarrow> \<exists>st. st \<notin> range UnknownStatus \<and> ingestion_text st = t"
proof -
  show "ingestion_text st \<in> set accepted_statuses" if "st \<notin> range UnknownStatus"
    using that by (cases st) (simp_all add: accepted_statuses ingestion_text_def)
  have codes: "set accepted_statuses = ingestion_text ` {QUARANTINED, VALIDATING, SCANNING, REJECTED_TYPE,
      REJECTED_MALWARE, REJECTED_CONTENT_POLICY, SCAN_FAILED, CLEAN_PENDING_PROMOTION, PROMOTING,
      PROMOTION_FAILED, CLEAN, PARSING, PARSE_FAILED, COMPLETED, LEGACY_UNVERIFIED}"
    by (simp add: accepted_statuses ingestion_text_def)
  show "\<exists>st. st \<notin> range UnknownStatus \<and> ingestion_text st = t" if "t \<in> set accepted_statuses"
    using that unfolding codes by blast
qed

end
