(* ===== verification/ModelColumns.thy ===== *)
theory ModelColumns
  imports Migrations
begin

text \<open>
  The columns the classes of \<open>app/models\<close> declare (name, SQL type, whether NULL is allowed), and that the
  revisions leave exactly these columns in every table.
\<close>

section \<open>What the models declare\<close>

definition audit_events_columns :: "(string \<times> string \<times> bool) list" where
  "audit_events_columns = [
     (''id'', ''UUID'', False), (''organization_id'', ''UUID'', False), (''user_id'', ''UUID'', True),
     (''action'', ''VARCHAR(100)'', False), (''entity_type'', ''VARCHAR(100)'', False),
     (''entity_id'', ''UUID'', False), (''details'', ''JSONB'', True),
     (''ip_address'', ''VARCHAR(50)'', True), (''request_id'', ''VARCHAR(50)'', True),
     (''created_at'', ''TIMESTAMPTZ'', False)]"

definition requirement_comments_columns :: "(string \<times> string \<times> bool) list" where
  "requirement_comments_columns = [
     (''id'', ''UUID'', False), (''requirement_id'', ''UUID'', False),
     (''author_user_id'', ''UUID'', False), (''content'', ''TEXT'', False),
     (''decision_type'', ''VARCHAR(50)'', False), (''created_at'', ''TIMESTAMPTZ'', False)]"

definition documents_columns :: "(string \<times> string \<times> bool) list" where
  "documents_columns = [
     (''id'', ''UUID'', False), (''project_id'', ''UUID'', False), (''name'', ''VARCHAR(255)'', False),
     (''file_path'', ''VARCHAR(512)'', False), (''file_type'', ''VARCHAR(255)'', False),
     (''doc_role'', ''VARCHAR(50)'', False), (''content'', ''TEXT'', True),
     (''processing_status'', ''VARCHAR(50)'', False), (''processing_error'', ''TEXT'', True),
     (''owner_name'', ''VARCHAR(255)'', True), (''tags'', ''TEXT'', True),
     (''approval_status'', ''VARCHAR(50)'', False), (''version'', ''VARCHAR(50)'', True),
     (''review_date'', ''TIMESTAMPTZ'', True), (''created_by_id'', ''UUID'', False),
     (''created_at'', ''TIMESTAMPTZ'', False), (''updated_at'', ''TIMESTAMPTZ'', False),
     (''ingestion_status'', ''VARCHAR(30)'', False), (''display_filename'', ''VARCHAR(255)'', True),
     (''detected_content_type'', ''VARCHAR(255)'', True), (''sha256_digest'', ''VARCHAR(64)'', True),
     (''file_size_bytes'', ''BIGINT'', True), (''quarantined_at'', ''TIMESTAMPTZ'', True),
     (''scan_status'', ''VARCHAR(30)'', True), (''scan_engine_version'', ''VARCHAR(100)'', True),
     (''scan_signature_version'', ''VARCHAR(100)'', True),
     (''scan_completed_at'', ''TIMESTAMPTZ'', True), (''scan_started_at'', ''TIMESTAMPTZ'', True),
     (''scan_attempt_count'', ''INTEGER'', False), (''content_policy_status'', ''VARCHAR(30)'', True),
     (''content_policy_version'', ''VARCHAR(50)'', True),
     (''scan_digest_snapshot'', ''VARCHAR(64)'', True), (''parser_version'', ''VARCHAR(100)'', True),
     (''parser_completed_at'', ''TIMESTAMPTZ'', True),
     (''rejection_reason_code'', ''VARCHAR(100)'', True), (''operator_failure_summary'', ''TEXT'', True),
     (''promotion_started_at'', ''TIMESTAMPTZ'', True),
     (''promotion_completed_at'', ''TIMESTAMPTZ'', True),
     (''promotion_attempt_count'', ''INTEGER'', False),
     (''clean_storage_identifier'', ''VARCHAR(255)'', True), (''cleanup_pending'', ''BOOLEAN'', False),
     (''parse_started_at'', ''TIMESTAMPTZ'', True), (''parse_attempt_count'', ''INTEGER'', False),
     (''parse_attempt_id'', ''VARCHAR(36)'', True), (''parse_error_code'', ''VARCHAR(100)'', True)]"

definition document_pages_columns :: "(string \<times> string \<times> bool) list" where
  "document_pages_columns = [
     (''id'', ''UUID'', False), (''document_id'', ''UUID'', False),
     (''page_number'', ''INTEGER'', False), (''content'', ''TEXT'', False),
     (''unit_kind'', ''VARCHAR(50)'', True), (''source_locator'', ''VARCHAR(255)'', True),
     (''content_sha256'', ''VARCHAR(64)'', True)]"

definition evidence_links_columns :: "(string \<times> string \<times> bool) list" where
  "evidence_links_columns = [
     (''id'', ''UUID'', False), (''requirement_id'', ''UUID'', False),
     (''document_id'', ''UUID'', False), (''snippet'', ''TEXT'', False),
     (''page_number'', ''INTEGER'', True), (''score'', ''FLOAT'', False),
     (''created_at'', ''TIMESTAMPTZ'', False)]"

definition extraction_runs_columns :: "(string \<times> string \<times> bool) list" where
  "extraction_runs_columns = [
     (''id'', ''UUID'', False), (''organization_id'', ''UUID'', False),
     (''project_id'', ''UUID'', False), (''document_id'', ''UUID'', False),
     (''status'', ''VARCHAR(20)'', False), (''extraction_attempt_id'', ''VARCHAR(36)'', False),
     (''input_snapshot_sha256'', ''VARCHAR(64)'', False), (''page_count'', ''INTEGER'', False),
     (''parser_version'', ''VARCHAR(100)'', True),
     (''extraction_schema_version'', ''VARCHAR(50)'', False),
     (''prompt_version'', ''VARCHAR(50)'', False), (''provider'', ''VARCHAR(100)'', True),
     (''model'', ''VARCHAR(100)'', True), (''candidate_count'', ''INTEGER'', False),
     (''received_candidate_count'', ''INTEGER'', False),
     (''accepted_candidate_count'', ''INTEGER'', False),
     (''skipped_candidate_count'', ''INTEGER'', False), (''validation_issue_counts'', ''JSONB'', True),
     (''provider_call_count'', ''INTEGER'', False), (''input_tokens'', ''INTEGER'', False),
     (''output_tokens'', ''INTEGER'', False), (''cache_creation_input_tokens'', ''INTEGER'', False),
     (''cache_read_input_tokens'', ''INTEGER'', False), (''duration_ms'', ''INTEGER'', False),
     (''failure_code'', ''VARCHAR(100)'', True), (''started_at'', ''TIMESTAMPTZ'', True),
     (''completed_at'', ''TIMESTAMPTZ'', True), (''created_at'', ''TIMESTAMPTZ'', False)]"

definition requirement_candidates_columns :: "(string \<times> string \<times> bool) list" where
  "requirement_candidates_columns = [
     (''id'', ''UUID'', False), (''organization_id'', ''UUID'', False),
     (''project_id'', ''UUID'', False), (''extraction_run_id'', ''UUID'', False),
     (''document_id'', ''UUID'', False), (''document_page_id'', ''UUID'', False),
     (''page_content_sha256'', ''VARCHAR(64)'', False), (''unit_kind'', ''VARCHAR(50)'', False),
     (''source_locator'', ''VARCHAR(255)'', False), (''span_start'', ''INTEGER'', False),
     (''span_end'', ''INTEGER'', False), (''evidence_text'', ''TEXT'', False),
     (''evidence_sha256'', ''VARCHAR(64)'', False), (''normalized_requirement_text'', ''TEXT'', False),
     (''reviewer_edited_text'', ''TEXT'', True), (''requirement_type'', ''VARCHAR(100)'', True),
     (''confidence'', ''FLOAT'', True), (''uncertainty_reason'', ''VARCHAR(500)'', True),
     (''extraction_schema_version'', ''VARCHAR(50)'', False),
     (''candidate_status'', ''VARCHAR(20)'', False), (''reviewed_at'', ''TIMESTAMPTZ'', True),
     (''reviewed_by'', ''UUID'', True), (''reviewer_comment'', ''VARCHAR(1000)'', True),
     (''created_at'', ''TIMESTAMPTZ'', False)]"

definition candidate_review_tasks_columns :: "(string \<times> string \<times> bool) list" where
  "candidate_review_tasks_columns = [
     (''id'', ''UUID'', False), (''organization_id'', ''UUID'', False),
     (''project_id'', ''UUID'', False), (''candidate_id'', ''UUID'', False),
     (''extraction_run_id'', ''UUID'', False), (''task_type'', ''VARCHAR(50)'', False),
     (''source_locator'', ''VARCHAR(255)'', False), (''assigned_to_id'', ''UUID'', True),
     (''status'', ''VARCHAR(50)'', False), (''created_at'', ''TIMESTAMPTZ'', False),
     (''resolved_at'', ''TIMESTAMPTZ'', True)]"

definition pilot_feedbacks_columns :: "(string \<times> string \<times> bool) list" where
  "pilot_feedbacks_columns = [
     (''id'', ''UUID'', False), (''project_id'', ''UUID'', True), (''requirement_id'', ''UUID'', True),
     (''category'', ''VARCHAR(50)'', False), (''severity'', ''VARCHAR(50)'', False),
     (''message'', ''TEXT'', False), (''created_by_user_id'', ''UUID'', False),
     (''organization_id'', ''UUID'', False), (''created_at'', ''TIMESTAMPTZ'', False),
     (''status'', ''VARCHAR(50)'', False)]"

definition processing_jobs_columns :: "(string \<times> string \<times> bool) list" where
  "processing_jobs_columns = [
     (''id'', ''UUID'', False), (''org_id'', ''UUID'', False), (''project_id'', ''UUID'', True),
     (''document_id'', ''UUID'', True), (''job_type'', ''VARCHAR(100)'', False),
     (''status'', ''VARCHAR(50)'', False), (''progress_percent'', ''INTEGER'', True),
     (''current_step'', ''VARCHAR(255)'', True), (''attempts'', ''INTEGER'', False),
     (''max_attempts'', ''INTEGER'', False), (''error_type'', ''VARCHAR(255)'', True),
     (''safe_error_message'', ''TEXT'', True), (''started_at'', ''TIMESTAMPTZ'', True),
     (''finished_at'', ''TIMESTAMPTZ'', True), (''created_by_user_id'', ''UUID'', True),
     (''request_id'', ''VARCHAR(50)'', True), (''created_at'', ''TIMESTAMPTZ'', False),
     (''updated_at'', ''TIMESTAMPTZ'', False)]"

definition organizations_columns :: "(string \<times> string \<times> bool) list" where
  "organizations_columns = [
     (''id'', ''UUID'', False), (''name'', ''VARCHAR(255)'', False),
     (''created_at'', ''TIMESTAMPTZ'', False)]"

definition proposal_projects_columns :: "(string \<times> string \<times> bool) list" where
  "proposal_projects_columns = [
     (''id'', ''UUID'', False), (''organization_id'', ''UUID'', False),
     (''name'', ''VARCHAR(255)'', False), (''client_name'', ''VARCHAR(255)'', False),
     (''due_date'', ''TIMESTAMPTZ'', True), (''status'', ''VARCHAR(50)'', False),
     (''created_by_id'', ''UUID'', False), (''created_at'', ''TIMESTAMPTZ'', False),
     (''updated_at'', ''TIMESTAMPTZ'', False)]"

definition requirements_columns :: "(string \<times> string \<times> bool) list" where
  "requirements_columns = [
     (''id'', ''UUID'', False), (''project_id'', ''UUID'', False),
     (''source_document_id'', ''UUID'', True), (''source_candidate_id'', ''UUID'', True),
     (''original_text'', ''TEXT'', False), (''source_section'', ''VARCHAR(100)'', True),
     (''source_page'', ''INTEGER'', True), (''requirement_type'', ''VARCHAR(100)'', True),
     (''mandatory'', ''BOOLEAN'', False), (''status'', ''VARCHAR(50)'', False),
     (''owner_name'', ''VARCHAR(255)'', True), (''proposal_section'', ''VARCHAR(100)'', True),
     (''risk_level'', ''VARCHAR(50)'', True), (''assigned_to_user_id'', ''UUID'', True),
     (''assigned_by_user_id'', ''UUID'', True), (''assigned_at'', ''TIMESTAMPTZ'', True),
     (''created_at'', ''TIMESTAMPTZ'', False), (''updated_at'', ''TIMESTAMPTZ'', False)]"

definition draft_responses_columns :: "(string \<times> string \<times> bool) list" where
  "draft_responses_columns = [
     (''id'', ''UUID'', False), (''requirement_id'', ''UUID'', False), (''content'', ''TEXT'', False),
     (''version'', ''INTEGER'', False), (''status'', ''VARCHAR(50)'', False),
     (''confidence'', ''FLOAT'', False), (''needs_evidence'', ''BOOLEAN'', False),
     (''assumptions'', ''TEXT'', True), (''approved_by_id'', ''UUID'', True),
     (''created_at'', ''TIMESTAMPTZ'', False), (''updated_at'', ''TIMESTAMPTZ'', False)]"

definition review_tasks_columns :: "(string \<times> string \<times> bool) list" where
  "review_tasks_columns = [
     (''id'', ''UUID'', False), (''requirement_id'', ''UUID'', False),
     (''assigned_to_id'', ''UUID'', True), (''reviewer_notes'', ''TEXT'', True),
     (''status'', ''VARCHAR(50)'', False), (''created_at'', ''TIMESTAMPTZ'', False),
     (''resolved_at'', ''TIMESTAMPTZ'', True)]"

definition users_columns :: "(string \<times> string \<times> bool) list" where
  "users_columns = [
     (''id'', ''UUID'', False), (''organization_id'', ''UUID'', False),
     (''email'', ''VARCHAR(255)'', False), (''hashed_password'', ''VARCHAR(255)'', False),
     (''full_name'', ''VARCHAR(255)'', False), (''is_active'', ''BOOLEAN'', False),
     (''can_review_requirements'', ''BOOLEAN'', False), (''created_at'', ''TIMESTAMPTZ'', False)]"

definition model_tables :: "(string \<times> (string \<times> string \<times> bool) list) list" where
  "model_tables = [(''audit_events'', audit_events_columns),
     (''requirement_comments'', requirement_comments_columns),
     (''documents'', documents_columns),
     (''document_pages'', document_pages_columns),
     (''evidence_links'', evidence_links_columns),
     (''extraction_runs'', extraction_runs_columns),
     (''requirement_candidates'', requirement_candidates_columns),
     (''candidate_review_tasks'', candidate_review_tasks_columns),
     (''pilot_feedbacks'', pilot_feedbacks_columns),
     (''processing_jobs'', processing_jobs_columns),
     (''organizations'', organizations_columns),
     (''proposal_projects'', proposal_projects_columns),
     (''requirements'', requirements_columns),
     (''draft_responses'', draft_responses_columns),
     (''review_tasks'', review_tasks_columns),
     (''users'', users_columns)]"

section \<open>The columns behind a schema\<close>

definition columns_of :: "db_table list \<Rightarrow> string \<Rightarrow> column list option" where
  "columns_of s t = map_option tb_columns (find_table s t)"

fun col_step :: "ddl \<Rightarrow> (string \<Rightarrow> column list option) \<Rightarrow> string \<Rightarrow> column list option"
and col_run :: "ddl list \<Rightarrow> (string \<Rightarrow> column list option) \<Rightarrow> string \<Rightarrow> column list option" where
  "col_step (CreateTable t cs ks) m = m(t := Some cs)"
| "col_step (DropTable t) m = m(t := None)"
| "col_step (AddColumn t c) m = m(t := map_option (\<lambda>cs. cs @ [c]) (m t))"
| "col_step (DropColumn t c) m = m(t := map_option (filter (\<lambda>x. co_name x \<noteq> c)) (m t))"
| "col_step (IfTable t xs) m = (if m t \<noteq> None then col_run xs m else m)"
| "col_step (CreateIndex _ _ _ _ _) m = m"
| "col_step (DropIndex _ _) m = m"
| "col_step (DropIndexIfExists _) m = m"
| "col_step (AddConstraint _ _ _) m = m"
| "col_step (DropConstraint _ _) m = m"
| "col_step (Attempt _) m = m"
| "col_run [] m = m"
| "col_run (x # xs) m = col_run xs (col_step x m)"

lemma find_table_map:
  "(\<And>b. tb_name (f b) = tb_name b) \<Longrightarrow> find_table (map f s) t = map_option f (find_table s t)"
  by (induction s) (auto simp: find_table_def)

lemma columns_on_table:
  assumes "on_table t f s = Some s'" and "\<And>b b'. f b = Some b' \<Longrightarrow> tb_name b' = tb_name b"
  obtains b b' where "find_table s t = Some b" "f b = Some b'"
    "columns_of s' = (columns_of s)(t := Some (tb_columns b'))"
proof -
  obtain b b' where b: "find_table s t = Some b" "f b = Some b'"
    and s': "s' = map (\<lambda>x. if tb_name x = t then b' else x) s"
    using assms(1) by (auto simp: on_table_def split: option.splits)
  have name: "tb_name b' = t" using assms(2) [OF b(2)] find_table_in [OF b(1)] by simp
  have "find_table s' u = map_option (\<lambda>x. if tb_name x = t then b' else x) (find_table s u)" for u
    unfolding s' by (rule find_table_map) (simp add: name)
  then have "columns_of s' = (columns_of s)(t := Some (tb_columns b'))"
    using b(1) by (auto simp: columns_of_def fun_eq_iff dest: find_table_in split: option.splits)
      (auto simp: map_option_case split: option.splits dest: find_table_in)
  then show thesis using b that by blast
qed

text \<open>Only constraints are attempted, and these leave the columns alone.\<close>

fun calm :: "ddl \<Rightarrow> bool" where
  "calm (Attempt (AddConstraint _ _ _)) = True"
| "calm (Attempt (DropConstraint _ _)) = True"
| "calm (Attempt _) = False"
| "calm (IfTable _ xs) = list_all calm xs"
| "calm _ = True"

lemma change_keeps_columns:
  assumes "on_table t f s = Some s'"
    and "\<And>b b'. f b = Some b' \<Longrightarrow> tb_name b' = tb_name b \<and> tb_columns b' = tb_columns b"
  shows "columns_of s' = columns_of s"
proof -
  obtain b b' where "find_table s t = Some b" "f b = Some b'"
    "columns_of s' = (columns_of s)(t := Some (tb_columns b'))"
    using columns_on_table [OF assms(1)] assms(2) by metis
  then show ?thesis using assms(2) by (auto simp: columns_of_def)
qed

lemma find_table_append:
  "find_table (s @ [b]) u = (case find_table s u of None \<Rightarrow> if tb_name b = u then Some b else None | Some x \<Rightarrow> Some x)"
  by (induction s) (auto simp: find_table_def)

lemma find_table_None: "find_table s t = None \<longleftrightarrow> \<not> has_table s t"
  by (induction s) (auto simp: find_table_def has_table_def)

lemma find_table_filter:
  "find_table (filter (\<lambda>b. tb_name b \<noteq> t) s) u = (if u = t then None else find_table s u)"
  by (induction s) (auto simp: find_table_def)

lemma columns_created: "\<not> has_table s t \<Longrightarrow> columns_of (s @ [new_table t cs ks]) = (columns_of s)(t := Some cs)"
  by (auto simp: columns_of_def find_table_append fun_eq_iff new_table_def find_table_None [symmetric]
      split: option.splits)

lemma columns_dropped: "columns_of (filter (\<lambda>b. tb_name b \<noteq> t) s) = (columns_of s)(t := None)"
  by (auto simp: columns_of_def find_table_filter fun_eq_iff)

lemma columns_same: "columns_of (map (\<lambda>b. b\<lparr>tb_indexes := g b\<rparr>) s) = columns_of s"
  by (auto simp: columns_of_def find_table_map fun_eq_iff map_option_case split: option.splits)

lemma columns_added:
  "on_table t (add_column f c) s = Some s' \<Longrightarrow>
   columns_of s' = (columns_of s)(t := map_option (\<lambda>cs. cs @ [c]) (columns_of s t))"
  by (erule columns_on_table) (auto simp: add_column_def columns_of_def split: if_splits)

lemma columns_removed:
  "on_table t (drop_column c) s = Some s' \<Longrightarrow>
   columns_of s' = (columns_of s)(t := map_option (filter (\<lambda>x. co_name x \<noteq> c)) (columns_of s t))"
  by (erule columns_on_table) (auto simp: drop_column_def columns_of_def split: if_splits)

lemma constraint_columns_same:
  "on_table t (\<lambda>b. if legal_constraint s b k then add_constraint nk b else None) s = Some s' \<Longrightarrow>
   columns_of s' = columns_of s"
  "on_table t (drop_constraint n) s = Some s' \<Longrightarrow> columns_of s' = columns_of s"
  by (auto simp: add_constraint_def drop_constraint_def elim!: change_keeps_columns split: if_splits)

lemma has_columns: "columns_of s t \<noteq> None \<longleftrightarrow> has_table s t"
  by (simp add: columns_of_def find_table_None)

lemma index_columns_same:
  "on_table t (add_index i) s = Some s' \<Longrightarrow> columns_of s' = columns_of s"
  "on_table t (drop_index n) s = Some s' \<Longrightarrow> columns_of s' = columns_of s"
  by (auto simp: add_index_def drop_index_def elim!: change_keeps_columns split: if_splits)

text \<open>The columns of the schema follow the operations.\<close>

lemma columns_follow:
  "calm x \<Longrightarrow> perform full x s = Some s' \<Longrightarrow> columns_of s' = col_step x (columns_of s)"
  "list_all calm xs \<Longrightarrow> run_ddl full xs s = Some s' \<Longrightarrow> columns_of s' = col_run xs (columns_of s)"
proof (induction full x s and full xs s arbitrary: s' and s' rule: perform_run_ddl.induct)
  case (10 full t xs s)
  then show ?case using has_columns [of s t] by (auto split: if_splits)
next
  case (11 full x s)
  then have s': "s' = s \<or> perform full x s = Some s'" by (auto split: option.splits)
  have "calm x" "col_step x m = m" for m using 11(2) by (cases x; simp)+
  then have "columns_of s' = columns_of s" using s' 11(1) by auto
  then show ?case by simp
qed (auto simp: Let_def columns_created columns_dropped columns_same columns_added columns_removed
    index_columns_same constraint_columns_same split: if_splits option.splits)

section \<open>The models have the columns of the database\<close>

definition column_text :: "column \<Rightarrow> string \<times> string \<times> bool" where
  "column_text c = (co_name c, co_type c, co_nullable c)"

lemmas version_defs = versions_def rev_be5f55e6e768_def
    rev_f37193ec5195_def upgrade_f37193ec5195_def
    rev_966c2d5c6d72_def upgrade_966c2d5c6d72_def
    rev_950eb46a82b7_def upgrade_950eb46a82b7_def
    rev_ba7653529c7f_def upgrade_ba7653529c7f_def
    rev_e35c547f0798_def upgrade_e35c547f0798_def
    rev_013771a9e13b_def upgrade_013771a9e13b_def
    rev_143119456f57_def upgrade_143119456f57_def
    rev_ef0310e3c06f_def upgrade_ef0310e3c06f_def
    rev_f0093fb3f942_def upgrade_f0093fb3f942_def
    rev_35bf60412d49_def upgrade_35bf60412d49_def
    rev_ce1d99d00aeb_def upgrade_ce1d99d00aeb_def
    rev_7a14e99f1390_def upgrade_7a14e99f1390_def
    rev_04ffd9fbcedb_def upgrade_04ffd9fbcedb_def
    rev_a969356849bf_def upgrade_a969356849bf_def
    rev_b82741d7293a_def upgrade_b82741d7293a_def
    rev_c5a1e2d3f4b5_def upgrade_c5a1e2d3f4b5_def
    rev_d1e2f3a4b5c6_def upgrade_d1e2f3a4b5c6_def
    rev_e2f3a4b5c6d7_def upgrade_e2f3a4b5c6d7_def
    rev_f3a4b5c6d7e8_def upgrade_f3a4b5c6d7e8_def
    rev_a4b5c6d7e8f9_def upgrade_a4b5c6d7e8f9_def

lemma versions_calm: "list_all calm (concat (map rv_upgrade versions))"
  by (simp add: version_defs)

text \<open>The columns of one table depend on the operations on it alone.\<close>

fun tab_step :: "string \<Rightarrow> ddl \<Rightarrow> column list option \<Rightarrow> column list option"
and tab_run :: "string \<Rightarrow> ddl list \<Rightarrow> column list option \<Rightarrow> column list option" where
  "tab_step t (CreateTable u cs ks) m = (if u = t then Some cs else m)"
| "tab_step t (DropTable u) m = (if u = t then None else m)"
| "tab_step t (AddColumn u c) m = (if u = t then map_option (\<lambda>cs. cs @ [c]) m else m)"
| "tab_step t (DropColumn u c) m = (if u = t then map_option (filter (\<lambda>x. co_name x \<noteq> c)) m else m)"
| "tab_step t (IfTable u xs) m = (if u = t \<and> m \<noteq> None then tab_run t xs m else m)"
| "tab_step t (CreateIndex _ _ _ _ _) m = m"
| "tab_step t (DropIndex _ _) m = m"
| "tab_step t (DropIndexIfExists _) m = m"
| "tab_step t (AddConstraint _ _ _) m = m"
| "tab_step t (DropConstraint _ _) m = m"
| "tab_step t (Attempt _) m = m"
| "tab_run t [] m = m"
| "tab_run t (x # xs) m = tab_run t xs (tab_step t x m)"

fun only_on :: "string \<Rightarrow> ddl \<Rightarrow> bool" where
  "only_on u (AddColumn t _) = (t = u)"
| "only_on u (DropColumn t _) = (t = u)"
| "only_on u (Attempt _) = True"
| "only_on u _ = False"

fun confined :: "ddl \<Rightarrow> bool" where
  "confined (IfTable u xs) = list_all (only_on u) xs"
| "confined _ = True"

lemma only_on_confined: "only_on u x \<Longrightarrow> confined x"
  by (cases x) auto

lemma col_run_elsewhere: "list_all (only_on u) xs \<Longrightarrow> t \<noteq> u \<Longrightarrow> col_run xs m t = m t"
proof (induction xs arbitrary: m)
  case (Cons x xs)
  then have "col_step x m t = m t" by (cases x) auto
  then show ?case using Cons by simp
qed simp

lemma col_run_table:
  "confined x \<Longrightarrow> col_step x m t = tab_step t x (m t)"
  "list_all confined xs \<Longrightarrow> col_run xs m t = tab_run t xs (m t)"
proof (induction x m and xs m rule: col_step_col_run.induct)
  case (5 u xs m)
  then have "list_all confined xs" by (auto simp: list_all_iff only_on_confined)
  then show ?case using 5 col_run_elsewhere [of u xs t m] by (cases "u = t") (simp_all split: if_splits)
qed auto

lemma tab_run_append: "tab_run t (xs @ ys) m = tab_run t ys (tab_run t xs m)"
  by (induction xs arbitrary: m) auto

lemma versions_confined: "list_all confined (concat (map rv_upgrade versions))"
  by (simp add: version_defs)

definition final_columns :: "string \<Rightarrow> (string \<times> string \<times> bool) list" where
  "final_columns t = (case tab_run t (concat (map rv_upgrade versions)) None of
     None \<Rightarrow> [] | Some cs \<Rightarrow> map column_text cs)"

definition agrees :: "string \<times> (string \<times> string \<times> bool) list \<Rightarrow> bool" where
  "agrees tc = (case tc of (t, cs) \<Rightarrow> list_all (\<lambda>c. c \<in> set cs) (final_columns t)
     \<and> list_all (\<lambda>c. c \<in> set (final_columns t)) cs)"

lemma audit_events_final: "final_columns ''audit_events'' = [
     (''id'', ''UUID'', False), (''organization_id'', ''UUID'', False), (''user_id'', ''UUID'', True),
     (''action'', ''VARCHAR(100)'', False), (''entity_type'', ''VARCHAR(100)'', False),
     (''entity_id'', ''UUID'', False), (''details'', ''JSONB'', True),
     (''ip_address'', ''VARCHAR(50)'', True), (''created_at'', ''TIMESTAMPTZ'', False),
     (''request_id'', ''VARCHAR(50)'', True)]"
  by (simp add: final_columns_def version_defs column_text_def)

lemma audit_events_agree: "agrees (''audit_events'', audit_events_columns)"
  by (simp add: agrees_def audit_events_final audit_events_columns_def)

lemma requirement_comments_final: "final_columns ''requirement_comments'' = [
     (''id'', ''UUID'', False), (''requirement_id'', ''UUID'', False),
     (''author_user_id'', ''UUID'', False), (''content'', ''TEXT'', False),
     (''decision_type'', ''VARCHAR(50)'', False), (''created_at'', ''TIMESTAMPTZ'', False)]"
  by (simp add: final_columns_def version_defs column_text_def)

lemma requirement_comments_agree: "agrees (''requirement_comments'', requirement_comments_columns)"
  by (simp add: agrees_def requirement_comments_final requirement_comments_columns_def)

lemma documents_final: "final_columns ''documents'' = [
     (''id'', ''UUID'', False), (''project_id'', ''UUID'', False), (''name'', ''VARCHAR(255)'', False),
     (''file_path'', ''VARCHAR(512)'', False), (''file_type'', ''VARCHAR(255)'', False),
     (''doc_role'', ''VARCHAR(50)'', False), (''content'', ''TEXT'', True),
     (''processing_status'', ''VARCHAR(50)'', False), (''created_by_id'', ''UUID'', False),
     (''created_at'', ''TIMESTAMPTZ'', False), (''updated_at'', ''TIMESTAMPTZ'', False),
     (''owner_name'', ''VARCHAR(255)'', True), (''tags'', ''TEXT'', True),
     (''approval_status'', ''VARCHAR(50)'', False), (''version'', ''VARCHAR(50)'', True),
     (''review_date'', ''TIMESTAMPTZ'', True), (''processing_error'', ''TEXT'', True),
     (''ingestion_status'', ''VARCHAR(30)'', False), (''display_filename'', ''VARCHAR(255)'', True),
     (''detected_content_type'', ''VARCHAR(255)'', True), (''sha256_digest'', ''VARCHAR(64)'', True),
     (''file_size_bytes'', ''BIGINT'', True), (''quarantined_at'', ''TIMESTAMPTZ'', True),
     (''scan_status'', ''VARCHAR(30)'', True), (''scan_engine_version'', ''VARCHAR(100)'', True),
     (''scan_signature_version'', ''VARCHAR(100)'', True),
     (''scan_completed_at'', ''TIMESTAMPTZ'', True), (''content_policy_status'', ''VARCHAR(30)'', True),
     (''parser_version'', ''VARCHAR(100)'', True), (''parser_completed_at'', ''TIMESTAMPTZ'', True),
     (''rejection_reason_code'', ''VARCHAR(100)'', True), (''operator_failure_summary'', ''TEXT'', True),
     (''scan_started_at'', ''TIMESTAMPTZ'', True), (''scan_attempt_count'', ''INTEGER'', False),
     (''content_policy_version'', ''VARCHAR(50)'', True),
     (''scan_digest_snapshot'', ''VARCHAR(64)'', True),
     (''promotion_started_at'', ''TIMESTAMPTZ'', True),
     (''promotion_completed_at'', ''TIMESTAMPTZ'', True),
     (''promotion_attempt_count'', ''INTEGER'', False),
     (''clean_storage_identifier'', ''VARCHAR(255)'', True), (''cleanup_pending'', ''BOOLEAN'', False),
     (''parse_started_at'', ''TIMESTAMPTZ'', True), (''parse_attempt_count'', ''INTEGER'', False),
     (''parse_attempt_id'', ''VARCHAR(36)'', True), (''parse_error_code'', ''VARCHAR(100)'', True)]"
  by (simp add: final_columns_def version_defs column_text_def)

lemma documents_agree: "agrees (''documents'', documents_columns)"
  by (simp add: agrees_def documents_final documents_columns_def)

lemma document_pages_final: "final_columns ''document_pages'' = [
     (''id'', ''UUID'', False), (''document_id'', ''UUID'', False),
     (''page_number'', ''INTEGER'', False), (''content'', ''TEXT'', False),
     (''unit_kind'', ''VARCHAR(50)'', True), (''source_locator'', ''VARCHAR(255)'', True),
     (''content_sha256'', ''VARCHAR(64)'', True)]"
  by (simp add: final_columns_def version_defs column_text_def)

lemma document_pages_agree: "agrees (''document_pages'', document_pages_columns)"
  by (simp add: agrees_def document_pages_final document_pages_columns_def)

lemma evidence_links_final: "final_columns ''evidence_links'' = [
     (''id'', ''UUID'', False), (''requirement_id'', ''UUID'', False),
     (''document_id'', ''UUID'', False), (''snippet'', ''TEXT'', False),
     (''page_number'', ''INTEGER'', True), (''score'', ''FLOAT'', False),
     (''created_at'', ''TIMESTAMPTZ'', False)]"
  by (simp add: final_columns_def version_defs column_text_def)

lemma evidence_links_agree: "agrees (''evidence_links'', evidence_links_columns)"
  by (simp add: agrees_def evidence_links_final evidence_links_columns_def)

lemma extraction_runs_final: "final_columns ''extraction_runs'' = [
     (''id'', ''UUID'', False), (''organization_id'', ''UUID'', False),
     (''project_id'', ''UUID'', False), (''document_id'', ''UUID'', False),
     (''status'', ''VARCHAR(20)'', False), (''extraction_attempt_id'', ''VARCHAR(36)'', False),
     (''input_snapshot_sha256'', ''VARCHAR(64)'', False), (''page_count'', ''INTEGER'', False),
     (''parser_version'', ''VARCHAR(100)'', True),
     (''extraction_schema_version'', ''VARCHAR(50)'', False),
     (''prompt_version'', ''VARCHAR(50)'', False), (''provider'', ''VARCHAR(100)'', True),
     (''model'', ''VARCHAR(100)'', True), (''candidate_count'', ''INTEGER'', False),
     (''failure_code'', ''VARCHAR(100)'', True), (''started_at'', ''TIMESTAMPTZ'', True),
     (''completed_at'', ''TIMESTAMPTZ'', True), (''created_at'', ''TIMESTAMPTZ'', False),
     (''received_candidate_count'', ''INTEGER'', False),
     (''accepted_candidate_count'', ''INTEGER'', False),
     (''skipped_candidate_count'', ''INTEGER'', False), (''validation_issue_counts'', ''JSONB'', True),
     (''provider_call_count'', ''INTEGER'', False), (''input_tokens'', ''INTEGER'', False),
     (''output_tokens'', ''INTEGER'', False), (''cache_creation_input_tokens'', ''INTEGER'', False),
     (''cache_read_input_tokens'', ''INTEGER'', False), (''duration_ms'', ''INTEGER'', False)]"
  by (simp add: final_columns_def version_defs column_text_def)

lemma extraction_runs_agree: "agrees (''extraction_runs'', extraction_runs_columns)"
  by (simp add: agrees_def extraction_runs_final extraction_runs_columns_def)

lemma requirement_candidates_final: "final_columns ''requirement_candidates'' = [
     (''id'', ''UUID'', False), (''organization_id'', ''UUID'', False),
     (''project_id'', ''UUID'', False), (''extraction_run_id'', ''UUID'', False),
     (''document_id'', ''UUID'', False), (''document_page_id'', ''UUID'', False),
     (''page_content_sha256'', ''VARCHAR(64)'', False), (''unit_kind'', ''VARCHAR(50)'', False),
     (''source_locator'', ''VARCHAR(255)'', False), (''span_start'', ''INTEGER'', False),
     (''span_end'', ''INTEGER'', False), (''evidence_text'', ''TEXT'', False),
     (''evidence_sha256'', ''VARCHAR(64)'', False), (''normalized_requirement_text'', ''TEXT'', False),
     (''requirement_type'', ''VARCHAR(100)'', True), (''confidence'', ''FLOAT'', True),
     (''uncertainty_reason'', ''VARCHAR(500)'', True),
     (''extraction_schema_version'', ''VARCHAR(50)'', False),
     (''candidate_status'', ''VARCHAR(20)'', False), (''reviewed_at'', ''TIMESTAMPTZ'', True),
     (''reviewed_by'', ''UUID'', True), (''reviewer_comment'', ''VARCHAR(1000)'', True),
     (''created_at'', ''TIMESTAMPTZ'', False), (''reviewer_edited_text'', ''TEXT'', True)]"
  by (simp add: final_columns_def version_defs column_text_def)

lemma requirement_candidates_agree: "agrees (''requirement_candidates'', requirement_candidates_columns)"
  by (simp add: agrees_def requirement_candidates_final requirement_candidates_columns_def)

lemma candidate_review_tasks_final: "final_columns ''candidate_review_tasks'' = [
     (''id'', ''UUID'', False), (''organization_id'', ''UUID'', False),
     (''project_id'', ''UUID'', False), (''candidate_id'', ''UUID'', False),
     (''extraction_run_id'', ''UUID'', False), (''task_type'', ''VARCHAR(50)'', False),
     (''source_locator'', ''VARCHAR(255)'', False), (''assigned_to_id'', ''UUID'', True),
     (''status'', ''VARCHAR(50)'', False), (''created_at'', ''TIMESTAMPTZ'', False),
     (''resolved_at'', ''TIMESTAMPTZ'', True)]"
  by (simp add: final_columns_def version_defs column_text_def)

lemma candidate_review_tasks_agree: "agrees (''candidate_review_tasks'', candidate_review_tasks_columns)"
  by (simp add: agrees_def candidate_review_tasks_final candidate_review_tasks_columns_def)

lemma pilot_feedbacks_final: "final_columns ''pilot_feedbacks'' = [
     (''id'', ''UUID'', False), (''project_id'', ''UUID'', True), (''requirement_id'', ''UUID'', True),
     (''category'', ''VARCHAR(50)'', False), (''severity'', ''VARCHAR(50)'', False),
     (''message'', ''TEXT'', False), (''created_by_user_id'', ''UUID'', False),
     (''organization_id'', ''UUID'', False), (''created_at'', ''TIMESTAMPTZ'', False),
     (''status'', ''VARCHAR(50)'', False)]"
  by (simp add: final_columns_def version_defs column_text_def)

lemma pilot_feedbacks_agree: "agrees (''pilot_feedbacks'', pilot_feedbacks_columns)"
  by (simp add: agrees_def pilot_feedbacks_final pilot_feedbacks_columns_def)

lemma processing_jobs_final: "final_columns ''processing_jobs'' = [
     (''id'', ''UUID'', False), (''org_id'', ''UUID'', False), (''project_id'', ''UUID'', True),
     (''document_id'', ''UUID'', True), (''job_type'', ''VARCHAR(100)'', False),
     (''status'', ''VARCHAR(50)'', False), (''progress_percent'', ''INTEGER'', True),
     (''current_step'', ''VARCHAR(255)'', True), (''attempts'', ''INTEGER'', False),
     (''max_attempts'', ''INTEGER'', False), (''error_type'', ''VARCHAR(255)'', True),
     (''safe_error_message'', ''TEXT'', True), (''started_at'', ''TIMESTAMPTZ'', True),
     (''finished_at'', ''TIMESTAMPTZ'', True), (''created_by_user_id'', ''UUID'', True),
     (''created_at'', ''TIMESTAMPTZ'', False), (''updated_at'', ''TIMESTAMPTZ'', False),
     (''request_id'', ''VARCHAR(50)'', True)]"
  by (simp add: final_columns_def version_defs column_text_def)

lemma processing_jobs_agree: "agrees (''processing_jobs'', processing_jobs_columns)"
  by (simp add: agrees_def processing_jobs_final processing_jobs_columns_def)

lemma organizations_final: "final_columns ''organizations'' = [
     (''id'', ''UUID'', False), (''name'', ''VARCHAR(255)'', False),
     (''created_at'', ''TIMESTAMPTZ'', False)]"
  by (simp add: final_columns_def version_defs column_text_def)

lemma organizations_agree: "agrees (''organizations'', organizations_columns)"
  by (simp add: agrees_def organizations_final organizations_columns_def)

lemma proposal_projects_final: "final_columns ''proposal_projects'' = [
     (''id'', ''UUID'', False), (''organization_id'', ''UUID'', False),
     (''name'', ''VARCHAR(255)'', False), (''client_name'', ''VARCHAR(255)'', False),
     (''due_date'', ''TIMESTAMPTZ'', True), (''status'', ''VARCHAR(50)'', False),
     (''created_by_id'', ''UUID'', False), (''created_at'', ''TIMESTAMPTZ'', False),
     (''updated_at'', ''TIMESTAMPTZ'', False)]"
  by (simp add: final_columns_def version_defs column_text_def)

lemma proposal_projects_agree: "agrees (''proposal_projects'', proposal_projects_columns)"
  by (simp add: agrees_def proposal_projects_final proposal_projects_columns_def)

lemma requirements_final: "final_columns ''requirements'' = [
     (''id'', ''UUID'', False), (''project_id'', ''UUID'', False),
     (''source_document_id'', ''UUID'', True), (''status'', ''VARCHAR(50)'', False),
     (''created_at'', ''TIMESTAMPTZ'', False), (''updated_at'', ''TIMESTAMPTZ'', False),
     (''original_text'', ''TEXT'', False), (''source_section'', ''VARCHAR(100)'', True),
     (''source_page'', ''INTEGER'', True), (''requirement_type'', ''VARCHAR(100)'', True),
     (''mandatory'', ''BOOLEAN'', False), (''owner_name'', ''VARCHAR(255)'', True),
     (''proposal_section'', ''VARCHAR(100)'', True), (''risk_level'', ''VARCHAR(50)'', True),
     (''assigned_to_user_id'', ''UUID'', True), (''assigned_by_user_id'', ''UUID'', True),
     (''assigned_at'', ''TIMESTAMPTZ'', True), (''source_candidate_id'', ''UUID'', True)]"
  by (simp add: final_columns_def version_defs column_text_def)

lemma requirements_agree: "agrees (''requirements'', requirements_columns)"
  by (simp add: agrees_def requirements_final requirements_columns_def)

lemma draft_responses_final: "final_columns ''draft_responses'' = [
     (''id'', ''UUID'', False), (''requirement_id'', ''UUID'', False), (''content'', ''TEXT'', False),
     (''status'', ''VARCHAR(50)'', False), (''approved_by_id'', ''UUID'', True),
     (''created_at'', ''TIMESTAMPTZ'', False), (''updated_at'', ''TIMESTAMPTZ'', False),
     (''confidence'', ''FLOAT'', False), (''needs_evidence'', ''BOOLEAN'', False),
     (''assumptions'', ''TEXT'', True), (''version'', ''INTEGER'', False)]"
  by (simp add: final_columns_def version_defs column_text_def)

lemma draft_responses_agree: "agrees (''draft_responses'', draft_responses_columns)"
  by (simp add: agrees_def draft_responses_final draft_responses_columns_def)

lemma review_tasks_final: "final_columns ''review_tasks'' = [
     (''id'', ''UUID'', False), (''requirement_id'', ''UUID'', False),
     (''assigned_to_id'', ''UUID'', True), (''reviewer_notes'', ''TEXT'', True),
     (''status'', ''VARCHAR(50)'', False), (''created_at'', ''TIMESTAMPTZ'', False),
     (''resolved_at'', ''TIMESTAMPTZ'', True)]"
  by (simp add: final_columns_def version_defs column_text_def)

lemma review_tasks_agree: "agrees (''review_tasks'', review_tasks_columns)"
  by (simp add: agrees_def review_tasks_final review_tasks_columns_def)

lemma users_final: "final_columns ''users'' = [
     (''id'', ''UUID'', False), (''organization_id'', ''UUID'', False),
     (''email'', ''VARCHAR(255)'', False), (''hashed_password'', ''VARCHAR(255)'', False),
     (''full_name'', ''VARCHAR(255)'', False), (''is_active'', ''BOOLEAN'', False),
     (''created_at'', ''TIMESTAMPTZ'', False), (''can_review_requirements'', ''BOOLEAN'', False)]"
  by (simp add: final_columns_def version_defs column_text_def)

lemma users_agree: "agrees (''users'', users_columns)"
  by (simp add: agrees_def users_final users_columns_def)


lemma columns_agree: "list_all agrees model_tables"
  by (simp add: model_tables_def audit_events_agree
    requirement_comments_agree
    documents_agree
    document_pages_agree
    evidence_links_agree
    extraction_runs_agree
    requirement_candidates_agree
    candidate_review_tasks_agree
    pilot_feedbacks_agree
    processing_jobs_agree
    organizations_agree
    proposal_projects_agree
    requirements_agree
    draft_responses_agree
    review_tasks_agree
    users_agree)

text \<open>
  The columns of the models are those of the migrated database: a run of all revisions on the empty
  database that succeeds leaves every table of the models with exactly the declared columns.
\<close>

lemma migrated_columns:
  assumes run: "migrate full versions [] = Some s" and model: "(t, cs) \<in> set model_tables"
  shows "set cs = (case columns_of s t of None \<Rightarrow> {} | Some xs \<Rightarrow> set (map column_text xs))"
proof -
  have "columns_of s = col_run (concat (map rv_upgrade versions)) (columns_of [])"
    using columns_follow(2) [OF versions_calm] run by (simp add: migrate_def)
  then have "columns_of s t = tab_run t (concat (map rv_upgrade versions)) None"
    using col_run_table(2) [OF versions_confined] by (simp add: columns_of_def find_table_def)
  then have "(case columns_of s t of None \<Rightarrow> {} | Some xs \<Rightarrow> set (map column_text xs)) = set (final_columns t)"
    by (simp add: final_columns_def split: option.split)
  moreover have "agrees (t, cs)" using columns_agree model by (auto simp: list_all_iff)
  ultimately show ?thesis by (auto simp: agrees_def list_all_iff)
qed

end
