(* ===== verification/Spec2Isabelle.thy ===== *)
theory Spec2Isabelle
  imports WorkspaceProperties Dashboards DocxPolicy PdfPolicy ParserService Configuration Provider Evaluation LegacyBackground SearchFallback AdminTools ThrottleProgress Constraints JobPages ModelColumns
begin

text \<open>
  Verification of the RFP platform (the Python package under \<open>src/app\<close>): from the upload of
  an untrusted file over the malware scan, the isolated parser and the extraction of requirement
  candidates to the decision of a reviewer, the answer to a requirement, and its export; with the
  login and session layer in front of it.

  \<^bold>\<open>The parts and their theories.\<close>

  \<^item> Prelude, Bytes: Python strings as lists of code points, the \<open>str\<close> and \<open>bytes\<close> methods the
    program uses, tables as lists of rows.
  \<^item> Schema: \<open>app/models\<close>, one record per ORM class, the database as the record \<open>db\<close> and a
    SQLAlchemy session as the record \<open>sess\<close> (\<open>stored\<close> is committed, \<open>work\<close> what the open
    transaction sees, \<open>outbox\<close> the published jobs).
  \<^item> IngestionState, AuditTrail: \<open>services/ingestion_state.py\<close>, the transition table and
    \<open>transition\<close>; the invariant that the audited moves of a document form a path of the table.
  \<^item> FileStore, Filename, TypeDetection, Ingestion: \<open>services/quarantine_storage.py\<close>,
    \<open>document_type_detection.py\<close> and \<open>document_ingestion.py\<close>, from the upload to SCANNING or
    REJECTED\_TYPE.
  \<^item> DocxPolicy, JsonText, PdfPolicy: \<open>services/docx_content_policy.py\<close>, the inspection of a DOCX
    package; \<open>json.loads\<close> on strings; \<open>services/pdf_inspector_subprocess.py\<close> and
    \<open>services/pdf_content_policy.py\<close>, the inspection of a PDF in a child process.
  \<^item> Clamav, MalwareScan: \<open>services/clamav_client.py\<close> over scripted peers and
    \<open>services/malware_scan.py\<close> with its verdict specification.
  \<^item> Promotion: \<open>services/clean_storage_promotion.py\<close> over two directories whose system calls may
    fail or write short.
  \<^item> ParserClient, Parsing: \<open>services/parser_client.py\<close>, \<open>parser_service/contracts.py\<close> and
    \<open>services/document_parsing.py\<close>.
  \<^item> ParserService: the service \<open>app/parser_service\<close> itself, from the multipart request to the units.
  \<^item> Provider: \<open>services/extraction_prompt.py\<close> and \<open>services/anthropic_extractor.py\<close>, the prompt,
    the provider's answers as codes, and the bounded retry loop.
  \<^item> Contract, CandidateExtraction: \<open>services/extraction_contract.py\<close>,
    \<open>requirement_extractor.py\<close> and \<open>candidate_extraction.py\<close>.
  \<^item> Security, Review: \<open>core/security.py\<close>, \<open>cli/requirement_reviewer.py\<close> and
    \<open>services/candidate_review.py\<close>.
  \<^item> Migrations, ModelColumns: every revision of \<open>src/alembic/versions\<close> as operations on a PostgreSQL
    schema (their documented effect), which downgrades undo their upgrades, the statuses the database
    accepts, and that the columns of the models are those the revisions leave.
  \<^item> Constraints: the check constraints of \<open>models/extraction.py\<close>, which neither an extraction nor a
    decision violates.
  \<^item> ProjectService, LegacyJob: \<open>services/project_service.py\<close>, \<open>extraction_service.py\<close> and the
    in-process pipeline that predates the security pipeline; the upload and retry routes of
    \<open>web/routes/projects.py\<close>.
  \<^item> LegacyExtractor, LegacyBackground: \<open>services/extractor.py\<close>, the reader of the in-process pipeline,
    and the operations that nothing calls any more; SearchFallback: the search of \<open>services/retriever.py\<close>
    on SQLite.
  \<^item> Regex, LlmExtraction, Llm: \<open>core/llm.py\<close>, its regular expressions, the rule-based extractor, the
    screening of a model's answers and the telemetry.
  \<^item> Evaluation: \<open>scripts/run_ai_eval.py\<close>, the golden cases that gate the model.
  \<^item> Observability: \<open>core/observability.py\<close>, \<open>core/readiness.py\<close> and \<open>main.py\<close>: counters, log lines,
    the metrics page and readiness.
  \<^item> Queue, Lifecycle: \<open>core/queue.py\<close>, \<open>worker.py\<close>, and all of the above as one step relation on
    worlds (database, directories, queue).
  \<^item> Redis, Throttle, SessionStore, SessionMiddleware, SessionSecurity: \<open>core/sessions\<close> and
    \<open>core/csrf.py\<close>, both stores behind their interfaces, and the guarantees of the middleware.
  \<^item> NetworkBoundary, Auth: \<open>core/client_ip.py\<close>, \<open>core/host_validation.py\<close>,
    \<open>core/passwords.py\<close> and \<open>web/routes/auth.py\<close>.
  \<^item> ThrottleProgress, AdminTools: that lockouts end; the operator's scripts under \<open>src/scripts\<close>
    (passwords, revocation, secrets, demo rows).
  \<^item> Configuration: \<open>core/config.py\<close> and \<open>core/secrets.py\<close>, the validators behind the start.
  \<^item> Grounding: \<open>services/evidence_validation.py\<close>, snippets and claims.
  \<^item> Workspace, Answers, Exports: every route of \<open>web/routes/compliance.py\<close> and
    \<open>services/retriever.py\<close>; \<open>database.get_default_org_and_user\<close>.
  \<^item> Dashboards, JobPages: the other routes of \<open>web/routes/projects.py\<close> and \<open>web/routes/feedback.py\<close>;
    the two pages that are f-strings, character by character.
  \<^item> WorkspaceSafety, WorkspaceProperties: what the routes keep and what they promise.

  \<^bold>\<open>How the parts interact.\<close> A handler takes a session and returns a result (\<open>Inl\<close> the exception
  it raises, \<open>Inr\<close> its value) with the session it leaves; it publishes jobs by appending to the
  outbox. \<open>Lifecycle.step\<close> composes the handlers: any queued job may be delivered, delivered
  again or lost, in any order. The workspace routes work on other tables than the pipeline;
  \<open>WorkspaceProperties.desk_run\<close> is the relation of series of workspace requests by any users.
  The session layer hands each route an identity; the routes read it as the two texts in the
  session.

  \<^bold>\<open>Interfaces.\<close>

  \<^item> \<open>db_invariant\<close> (AuditTrail): the three kinds of write a job handler makes. Its
    interpretations are the path invariant, the evolution of a document, and (WorkspaceProperties)
    the absence of approved documents; \<open>status_operation\<close> and \<open>document_job\<close> lift it to handler runs
    and every component interprets them.
  \<^item> \<open>redis_server\<close> (Redis): the documented effect of the Redis commands on the keyspace,
    interpreted on a server of cells; \<open>throttle_store\<close> and \<open>session_store\<close> with their extensions for
    undisturbed servers: the contracts of the two store interfaces, interpreted for the Redis
    implementation over any such server and for the in-memory one.
  \<^item> \<open>workspace_invariant\<close> (WorkspaceSafety): the writes the workspace routes make to the rows
    of the acting organization. Its interpretations are the consistency of the rows (\<open>desk\<close>) and
    the rows of another organization staying as they are (\<open>isolation\<close>).

  \<^bold>\<open>What the lemmas show.\<close>

  \<^item> Sessions: no identifier a browser may know is upgraded, logins need the password of an
    active account and are bounded by the throttle, the two throttle stores agree, every cookie
    is backed by a valid record, a revocation that succeeds is complete and no lockout is for good; and
    three defects (revived, reused and hidden sessions).
  \<^item> Workspace: an approval needs evidence and backed claims, tenants are isolated and rows stay
    consistent under every series of requests; an edit keeps an approval, a split needs no
    reviewer, and no knowledge document can become evidence.
  \<^item> Pipeline: the scan implements its verdict specification and CLEAN means scanned whole;
    promotion, parsing and extraction are atomic and bound to the digest of the file; every stored
    candidate is a slice of a page; failures are recorded and leave the rest alone.
  \<^item> Review: authoritative requirements come from decisions of authorised reviewers on proposed
    candidates, decisions are final; the legacy retry is the exception.
  \<^item> System: every reachable world keeps the audit paths, no document skips the scan, every step
    follows the transition table, and a clean file is the upload.
  \<^item> Untrusted input: a PDF passes its policy only on one CLEAN line of a child that ended well, the
    parser service accepts what the client sends and answers what it accepts, and no injection text
    becomes a requirement of the extractors of \<open>core/llm.py\<close>.
  \<^item> Surroundings: a package passes the DOCX policy only if it is safe, log lines are redacted, a production start is
    hardened, and a cache password cannot break out of its URL.

  \<^bold>\<open>Bounds and termination.\<close> Integers of Python are unbounded and are \<open>int\<close> or \<open>nat\<close> here; the
  only fixed width is the four-byte length prefix of INSTREAM (Bytes). Loops are structural
  recursions or carry a measure; peers and file descriptors are scripts whose length bounds the
  loop, and \<open>Queue.inline_scan_terminates\<close> shows that the inline retries end. The JSON reader runs on
  fuel that its input pays for (\<open>JsonText.json_loads_ends\<close>).
  Times are microseconds.

  \<^bold>\<open>Parameters.\<close> SHA-256, HMAC, Argon2, Unicode normalisation and case folding, \<open>zipfile\<close> and
  expat, the parser service's answer, the language model and the provider, full-text matching and
  ranking, Redis and the commits that fail are arguments of the definitions; what is needed of them is
  a hypothesis or a law of an interface.

  \<^bold>\<open>Not modelled.\<close> The inside of pypdf, PyMuPDF, python-docx, pydantic and the Anthropic client,
    which are parameters here; templates and static files; two scripts that only call libraries; the SQLite branches of the migrations.
\<close>

end
